(* ===== verification/GoPrelude.thy ===== *)
theory GoPrelude
  imports Main "HOL-Library.Word" "HOL-Library.AList" "HOL-Library.Sublist" "HOL-Library.Multiset"
    "HOL-Library.Monad_Syntax"
begin

text \<open>
  What every component of the development shares: Go strings as byte lists with the functions of
  package strings the sources call (TrimSpace, Split, Join, Contains, HasPrefix, EqualFold on
  ASCII), Go maps as association lists with distinct keys, saturating time differences, and the
  collections of simplification rules the component proofs use.
\<close>

named_theorems go_string
  "rules that evaluate the string functions on inputs with no blank at either end"
named_theorems gomap
  "lookup, size and key rules of Go maps after an update"

section \<open>Results and errors\<close>

text \<open>A Go function returning (T, error) is a sum: the error text on the left.\<close>

type_synonym 'a result = "string + 'a"

abbreviation Err :: "'e \<Rightarrow> 'e + 'a" where "Err \<equiv> Inl"
abbreviation Ok :: "'a \<Rightarrow> 'e + 'a" where "Ok \<equiv> Inr"

definition is_ok :: "'e + 'a \<Rightarrow> bool" where
  "is_ok r = (case r of Inl _ \<Rightarrow> False | Inr _ \<Rightarrow> True)"

lemma is_ok_simps [simp]: "is_ok (Inr x)" "\<not> is_ok (Inl e)"
  by (simp_all add: is_ok_def)

lemma is_ok_iff: "is_ok r \<longleftrightarrow> (\<exists>x. r = Inr x)"
  by (cases r) simp_all

text \<open>Sequencing with the early return of Go's \<open>if err != nil\<close>.\<close>

definition bindr :: "'e + 'a \<Rightarrow> ('a \<Rightarrow> 'e + 'b) \<Rightarrow> 'e + 'b" where
  "bindr r f = (case r of Inl e \<Rightarrow> Inl e | Inr x \<Rightarrow> f x)"

definition check :: "'e option \<Rightarrow> 'e + unit" where
  "check err = (case err of Some e \<Rightarrow> Inl e | None \<Rightarrow> Inr ())"

definition wrap_error :: "('e \<Rightarrow> 'f) \<Rightarrow> 'e + 'a \<Rightarrow> 'f + 'a" where
  "wrap_error w r = (case r of Inl e \<Rightarrow> Inl (w e) | Inr x \<Rightarrow> Inr x)"

lemma bindr_simps [simp]: "bindr (Inl e) f = Inl e" "bindr (Inr x) f = f x"
  by (simp_all add: bindr_def)

lemma bindr_Inr_iff: "bindr r f = Inr y \<longleftrightarrow> (\<exists>x. r = Inr x \<and> f x = Inr y)"
  by (cases r) simp_all

lemma check_simps [simp]: "check None = Inr ()" "check (Some e) = Inl e"
  by (simp_all add: check_def)

lemma check_Inr_iff: "check e = Inr u \<longleftrightarrow> e = None"
  by (cases e) simp_all

lemma wrap_error_simps [simp]: "wrap_error w (Inl e) = Inl (w e)" "wrap_error w (Inr x) = Inr x"
  by (simp_all add: wrap_error_def)

lemma wrap_error_Inr_iff: "wrap_error w r = Inr x \<longleftrightarrow> r = Inr x"
  by (cases r) simp_all

lemmas result_iffs = bindr_Inr_iff check_Inr_iff wrap_error_Inr_iff

section \<open>Blanks and TrimSpace\<close>

text \<open>The UTF-8 encodings of the runes for which unicode.IsSpace holds.\<close>

definition space_runes :: "string list" where
  "space_runes =
     [[CHR 0x09], [CHR 0x0A], [CHR 0x0B], [CHR 0x0C], [CHR 0x0D], [CHR 0x20],
      [CHR 0xC2, CHR 0x85], [CHR 0xC2, CHR 0xA0], [CHR 0xE1, CHR 0x9A, CHR 0x80],
      [CHR 0xE2, CHR 0x80, CHR 0x80], [CHR 0xE2, CHR 0x80, CHR 0x81],
      [CHR 0xE2, CHR 0x80, CHR 0x82], [CHR 0xE2, CHR 0x80, CHR 0x83],
      [CHR 0xE2, CHR 0x80, CHR 0x84], [CHR 0xE2, CHR 0x80, CHR 0x85],
      [CHR 0xE2, CHR 0x80, CHR 0x86], [CHR 0xE2, CHR 0x80, CHR 0x87],
      [CHR 0xE2, CHR 0x80, CHR 0x88], [CHR 0xE2, CHR 0x80, CHR 0x89],
      [CHR 0xE2, CHR 0x80, CHR 0x8A], [CHR 0xE2, CHR 0x80, CHR 0xA8],
      [CHR 0xE2, CHR 0x80, CHR 0xA9], [CHR 0xE2, CHR 0x80, CHR 0xAF],
      [CHR 0xE2, CHR 0x81, CHR 0x9F], [CHR 0xE3, CHR 0x80, CHR 0x80]]"

definition find_prefix :: "string list \<Rightarrow> string \<Rightarrow> string option" where
  "find_prefix rs s = find (\<lambda>r. r \<noteq> [] \<and> prefix r s) rs"

lemma find_prefix_SomeD:
  assumes "find_prefix rs s = Some r" shows "r \<in> set rs" "r \<noteq> []" "prefix r s"
  using assms by (auto simp: find_prefix_def find_Some_iff)

lemma find_prefix_None_iff: "find_prefix rs s = None \<longleftrightarrow> (\<forall>r\<in>set rs. r \<noteq> [] \<longrightarrow> \<not> prefix r s)"
  by (auto simp: find_prefix_def find_None_iff)

function strip_prefixes :: "string list \<Rightarrow> string \<Rightarrow> string" where
  "strip_prefixes rs s =
     (case find_prefix rs s of Some r \<Rightarrow> strip_prefixes rs (drop (length r) s) | None \<Rightarrow> s)"
  by pat_completeness auto
termination
proof (relation "measure (\<lambda>(rs, s). length s)")
  fix rs s r assume "find_prefix rs s = Some r"
  then have "r \<noteq> []" "prefix r s" by (rule find_prefix_SomeD)+
  then show "((rs, drop (length r) s), rs, s) \<in> measure (\<lambda>(rs, s). length s)"
    by (cases r) (auto simp: prefix_def)
qed simp

declare strip_prefixes.simps [simp del]

lemma strip_prefixes_done: "find_prefix rs (strip_prefixes rs s) = None"
  by (induction rs s rule: strip_prefixes.induct)
     (subst strip_prefixes.simps, auto split: option.split)

lemma strip_prefixes_id: "find_prefix rs s = None \<Longrightarrow> strip_prefixes rs s = s"
  by (subst strip_prefixes.simps) simp

lemma strip_prefixes_suffix: "suffix (strip_prefixes rs s) s"
proof (induction rs s rule: strip_prefixes.induct)
  case (1 rs s)
  show ?case
    by (subst strip_prefixes.simps)
       (auto split: option.split intro: suffix_order.trans [OF 1 suffix_drop])
qed

definition trim_space :: "string \<Rightarrow> string" where
  "trim_space s =
     rev (strip_prefixes (map rev space_runes) (rev (strip_prefixes space_runes s)))"

lemma trim_space_no_leading: "find_prefix space_runes (trim_space s) = None"
proof -
  let ?l = "strip_prefixes space_runes s"
  have "suffix (strip_prefixes (map rev space_runes) (rev ?l)) (rev ?l)"
    by (rule strip_prefixes_suffix)
  then have p: "prefix (trim_space s) ?l"
    by (simp add: trim_space_def suffix_to_prefix)
  have "find_prefix space_runes ?l = None" by (rule strip_prefixes_done)
  with p show ?thesis
    by (auto simp: find_prefix_None_iff intro: prefix_order.trans)
qed

lemma trim_space_no_trailing: "find_prefix (map rev space_runes) (rev (trim_space s)) = None"
  by (simp add: trim_space_def strip_prefixes_done)

lemma trim_space_fixed:
  assumes "find_prefix space_runes s = None" "find_prefix (map rev space_runes) (rev s) = None"
  shows "trim_space s = s"
  using assms by (simp add: trim_space_def strip_prefixes_id)

lemma trim_space_idem [simp]: "trim_space (trim_space s) = trim_space s"
  by (rule trim_space_fixed [OF trim_space_no_leading trim_space_no_trailing])

lemma trim_space_sublist: "sublist (trim_space s) s"
proof -
  have "suffix (strip_prefixes (map rev space_runes) (rev (strip_prefixes space_runes s)))
          (rev (strip_prefixes space_runes s))"
    by (rule strip_prefixes_suffix)
  then have "prefix (trim_space s) (strip_prefixes space_runes s)"
    by (simp add: trim_space_def suffix_to_prefix)
  then show ?thesis
    by (meson strip_prefixes_suffix prefix_imp_sublist suffix_imp_sublist sublist_order.order_trans)
qed

text \<open>Printable ASCII other than the blank is never stripped.\<close>

definition graphic :: "char \<Rightarrow> bool" where
  "graphic c = (let n = (of_char c :: nat) in 33 \<le> n \<and> n \<le> 126)"

lemma space_runes_head:
  "\<forall>r\<in>set space_runes. \<forall>c\<in>set r. \<not> graphic c"
  by (simp add: space_runes_def graphic_def)

lemma find_prefix_graphic:
  assumes "\<And>r c. r \<in> set rs \<Longrightarrow> c \<in> set r \<Longrightarrow> \<not> graphic c" and "s = [] \<or> graphic (hd s)"
  shows "find_prefix rs s = None"
proof -
  have False if "r \<in> set rs" "r \<noteq> []" "prefix r s" for r
  proof -
    from that(2,3) have "s \<noteq> []" "hd r = hd s" "hd r \<in> set r"
      by (auto simp: prefix_def)
    with assms(2) assms(1) [OF that(1)] show False by auto
  qed
  then show ?thesis by (auto simp: find_prefix_None_iff)
qed

lemma trim_space_graphic [go_string]:
  assumes "s = [] \<or> graphic (hd s) \<and> graphic (last s)"
  shows "trim_space s = s"
proof (rule trim_space_fixed)
  show "find_prefix space_runes s = None"
    by (rule find_prefix_graphic) (use assms space_runes_head in auto)
  show "find_prefix (map rev space_runes) (rev s) = None"
    by (rule find_prefix_graphic) (use assms space_runes_head in \<open>auto simp: hd_rev\<close>)
qed

lemma trim_space_Nil [simp]: "trim_space [] = []"
  by (rule trim_space_graphic) simp

section \<open>Other string functions\<close>

definition blank :: "string \<Rightarrow> bool" where
  "blank s = (trim_space s = [])"

lemma blank_Nil [simp]: "blank []"
  by (simp add: blank_def)

lemma blank_trim [simp]: "blank (trim_space s) = blank s"
  by (simp add: blank_def)

definition has_prefix :: "string \<Rightarrow> string \<Rightarrow> bool" where
  "has_prefix s p = prefix p s"

definition has_suffix :: "string \<Rightarrow> string \<Rightarrow> bool" where
  "has_suffix s p = suffix p s"

definition str_contains :: "string \<Rightarrow> string \<Rightarrow> bool" where
  "str_contains s p = sublist p s"

lemma str_contains_single: "str_contains s [c] \<longleftrightarrow> c \<in> set s"
  by (auto simp: str_contains_def sublist_def in_set_conv_decomp)

fun split_on :: "char \<Rightarrow> string \<Rightarrow> string list" where
  "split_on d [] = [[]]"
| "split_on d (c # s) =
     (if c = d then [] # split_on d s
      else (case split_on d s of p # ps \<Rightarrow> (c # p) # ps | [] \<Rightarrow> [[c]]))"

fun join_with :: "string \<Rightarrow> string list \<Rightarrow> string" where
  "join_with sep [] = []"
| "join_with sep [s] = s"
| "join_with sep (s # t # r) = s @ sep @ join_with sep (t # r)"

lemma split_on_not_Nil [simp]: "split_on d s \<noteq> []"
  by (induction s) (auto split: list.split)

lemma join_split [simp]: "join_with [d] (split_on d s) = s"
proof (induction s)
  case (Cons c s)
  obtain p ps where "split_on d s = p # ps" by (cases "split_on d s") auto
  with Cons show ?case by (cases ps) auto
qed simp

lemma split_on_free: "p \<in> set (split_on d s) \<Longrightarrow> d \<notin> set p"
  by (induction s arbitrary: p) (auto split: list.splits if_splits)

lemma split_on_id: "d \<notin> set s \<Longrightarrow> split_on d s = [s]"
  by (induction s) auto

lemma split_on_append: "d \<notin> set s \<Longrightarrow> split_on d (s @ d # t) = s # split_on d t"
  by (induction s) (auto split: list.split)

lemma split_join:
  "ps \<noteq> [] \<Longrightarrow> (\<And>p. p \<in> set ps \<Longrightarrow> d \<notin> set p) \<Longrightarrow> split_on d (join_with [d] ps) = ps"
proof (induction "[d]" ps rule: join_with.induct)
  case (3 s t r)
  then show ?case by (simp add: split_on_append)
qed (auto simp: split_on_id)

definition ascii_lower :: "char \<Rightarrow> char" where
  "ascii_lower c = (let n = (of_char c :: nat) in
     if 65 \<le> n \<and> n \<le> 90 then char_of (n + 32) else c)"

definition is_ascii :: "string \<Rightarrow> bool" where
  "is_ascii s = list_all (\<lambda>c. (of_char c :: nat) < 128) s"

text \<open>
  strings.ToLower maps ASCII letters itself; on strings with other runes it consults the Unicode
  case tables, which are the argument \<open>uni\<close>.
\<close>

definition to_lower :: "(string \<Rightarrow> string) \<Rightarrow> string \<Rightarrow> string" where
  "to_lower uni s = (if is_ascii s then map ascii_lower s else uni s)"

lemma ascii_lower_idem [simp]: "ascii_lower (ascii_lower c) = ascii_lower c"
  by (simp add: ascii_lower_def Let_def)

lemma is_ascii_lower [simp]: "is_ascii s \<Longrightarrow> is_ascii (map ascii_lower s)"
  by (auto simp: is_ascii_def list_all_iff ascii_lower_def Let_def)

lemma to_lower_idem: "is_ascii s \<Longrightarrow> to_lower uni (to_lower uni s) = to_lower uni s"
  by (simp add: to_lower_def)

section \<open>Decimal numerals\<close>

definition digit_char :: "nat \<Rightarrow> char" where
  "digit_char d = char_of (48 + d)"

fun nat_str :: "nat \<Rightarrow> string" where
  "nat_str n = (if n < 10 then [digit_char n] else nat_str (n div 10) @ [digit_char (n mod 10)])"

declare nat_str.simps [simp del]

definition int_str :: "int \<Rightarrow> string" where
  "int_str i = (if i < 0 then CHR ''-'' # nat_str (nat (- i)) else nat_str (nat i))"

lemma of_char_digit_char: "d < 10 \<Longrightarrow> (of_char (digit_char d) :: nat) = 48 + d"
  by (simp add: digit_char_def)

lemma digit_char_inj: "d < 10 \<Longrightarrow> e < 10 \<Longrightarrow> digit_char d = digit_char e \<Longrightarrow> d = e"
  by (metis add_left_cancel of_char_digit_char)

definition is_digit :: "char \<Rightarrow> bool" where
  "is_digit c = (let n = (of_char c :: nat) in 48 \<le> n \<and> n \<le> 57)"

lemma is_digit_digit_char: "d < 10 \<Longrightarrow> is_digit (digit_char d)"
  by (simp add: is_digit_def of_char_digit_char)

lemma nat_str_digits: "c \<in> set (nat_str n) \<Longrightarrow> is_digit c"
proof (induction n rule: nat_str.induct)
  case (1 n)
  then show ?case
    by (subst (asm) (2) nat_str.simps) (auto split: if_splits intro: is_digit_digit_char)
qed

lemma nat_str_not_Nil [simp]: "nat_str n \<noteq> []"
  by (subst nat_str.simps) simp

definition digits_val :: "string \<Rightarrow> nat" where
  "digits_val s = foldl (\<lambda>a c. 10 * a + ((of_char c :: nat) - 48)) 0 s"

lemma digits_val_nat_str [simp]: "digits_val (nat_str n) = n"
proof (induction n rule: nat_str.induct)
  case (1 n)
  show ?case
  proof (cases "n < 10")
    case True
    then show ?thesis by (subst nat_str.simps) (simp add: digits_val_def of_char_digit_char)
  next
    case False
    then have "digits_val (nat_str n) = 10 * digits_val (nat_str (n div 10)) + n mod 10"
      by (subst nat_str.simps) (simp add: digits_val_def of_char_digit_char)
    with 1 False show ?thesis by simp
  qed
qed

lemma nat_str_inj: "nat_str m = nat_str n \<Longrightarrow> m = n"
  by (metis digits_val_nat_str)

lemma minus_not_digit: "CHR ''-'' \<notin> set (nat_str n)"
  using nat_str_digits by (fastforce simp: is_digit_def)

lemma int_str_inj: "int_str i = int_str j \<Longrightarrow> i = j"
proof -
  assume eq: "int_str i = int_str j"
  have "hd (nat_str n) \<noteq> CHR ''-''" for n
    using minus_not_digit hd_in_set nat_str_not_Nil by metis
  then show ?thesis
    using eq by (auto simp: int_str_def split: if_splits dest: nat_str_inj)
      (metis list.sel(1))+
qed

lemma int_str_chars: "c \<in> set (int_str i) \<Longrightarrow> is_digit c \<or> c = CHR ''-''"
  by (auto simp: int_str_def dest: nat_str_digits split: if_splits)

section \<open>Go maps\<close>

text \<open>
  A Go map is an association list whose keys are distinct; the order of the list stands for the
  unspecified iteration order of range. \<open>mput\<close> is assignment, \<open>mdel\<close> is delete, \<open>length\<close> is len.
\<close>

type_synonym ('k, 'v) gomap = "('k \<times> 'v) list"

definition map_wf :: "('k, 'v) gomap \<Rightarrow> bool" where
  "map_wf m = distinct (map fst m)"

definition mput :: "'k \<Rightarrow> 'v \<Rightarrow> ('k, 'v) gomap \<Rightarrow> ('k, 'v) gomap" where
  "mput k v m = AList.update k v m"

definition mdel :: "'k \<Rightarrow> ('k, 'v) gomap \<Rightarrow> ('k, 'v) gomap" where
  "mdel k m = filter (\<lambda>(k', _). k' \<noteq> k) m"

definition mfilter :: "('k \<Rightarrow> 'v \<Rightarrow> bool) \<Rightarrow> ('k, 'v) gomap \<Rightarrow> ('k, 'v) gomap" where
  "mfilter P m = filter (\<lambda>(k, v). P k v) m"

definition mhas :: "('k, 'v) gomap \<Rightarrow> 'k \<Rightarrow> bool" where
  "mhas m k = (map_of m k \<noteq> None)"

definition mvals :: "('k, 'v) gomap \<Rightarrow> 'v list" where
  "mvals m = map snd m"

lemma mhas_iff: "mhas m k \<longleftrightarrow> k \<in> fst ` set m"
  by (auto simp: mhas_def map_of_eq_None_iff)

lemma map_wf_Nil [simp]: "map_wf []" by (simp add: map_wf_def)

lemma map_wf_mput [simp, intro]: "map_wf m \<Longrightarrow> map_wf (mput k v m)"
  by (simp add: map_wf_def mput_def distinct_update)

lemma map_wf_filter [simp, intro]: "map_wf m \<Longrightarrow> map_wf (filter P m)"
  by (auto simp: map_wf_def distinct_map intro: inj_on_subset)

lemma map_wf_mdel [simp, intro]: "map_wf m \<Longrightarrow> map_wf (mdel k m)"
  unfolding mdel_def by (rule map_wf_filter)

lemma map_wf_mfilter [simp, intro]: "map_wf m \<Longrightarrow> map_wf (mfilter P m)"
  unfolding mfilter_def by (rule map_wf_filter)

lemma mget_mput [gomap, simp]: "map_of (mput k v m) k' = (if k' = k then Some v else map_of m k')"
  by (simp add: mput_def update_conv)

lemma mget_mdel [gomap, simp]: "map_of (mdel k m) k' = (if k' = k then None else map_of m k')"
  by (induction m) (auto simp: mdel_def)

lemma mget_mfilter [gomap]:
  "map_wf m \<Longrightarrow> map_of (mfilter P m) k =
     (case map_of m k of Some v \<Rightarrow> if P k v then Some v else None | None \<Rightarrow> None)"
  by (induction m) (auto simp: mfilter_def map_wf_def map_of_eq_None_iff split: option.split)

lemma mget_in: "map_wf m \<Longrightarrow> (k, v) \<in> set m \<longleftrightarrow> map_of m k = Some v"
  by (simp add: map_wf_def)

lemma length_mput [gomap]:
  "length (mput k v m) = (if mhas m k then length m else Suc (length m))"
proof (induction m)
  case (Cons p m)
  then show ?case by (cases p) (auto simp: mput_def mhas_def)
qed (simp add: mput_def mhas_def)

lemma length_mdel_le: "length (mdel k m) \<le> length m"
  by (simp add: mdel_def)

lemma length_mfilter_le: "length (mfilter P m) \<le> length m"
  by (simp add: mfilter_def)

lemma set_mput: "map_wf m \<Longrightarrow> set (mput k v m) = insert (k, v) {(k', v') \<in> set m. k' \<noteq> k}"
proof (induction m)
  case (Cons p m)
  then show ?case by (cases p) (auto simp: mput_def map_wf_def image_iff)
qed (simp add: mput_def)

lemma set_mdel: "set (mdel k m) = {(k', v') \<in> set m. k' \<noteq> k}"
  by (auto simp: mdel_def)

lemma set_mfilter: "set (mfilter P m) = {(k, v) \<in> set m. P k v}"
  by (auto simp: mfilter_def)

lemma mhas_mput [simp]: "mhas (mput k v m) k' \<longleftrightarrow> k' = k \<or> mhas m k'"
  by (simp add: mhas_def)

lemma mhas_mdel [simp]: "mhas (mdel k m) k' \<longleftrightarrow> k' \<noteq> k \<and> mhas m k'"
  by (simp add: mhas_def)

lemma fold_mput_map_of:
  "map_wf m \<Longrightarrow> map_of (fold (\<lambda>(k, v) c. mput k v c) m c0) k =
     (case map_of m k of Some v \<Rightarrow> Some v | None \<Rightarrow> map_of c0 k)"
proof (induction m arbitrary: c0)
  case (Cons p m)
  obtain k' v where p: "p = (k', v)" by (cases p)
  have n: "k' \<notin> fst ` set m" and w: "map_wf m" using Cons.prems by (simp_all add: p map_wf_def)
  then have "map_of m k' = None" by (simp add: map_of_eq_None_iff)
  then show ?case using Cons.IH [OF w, of "mput k' v c0"] by (simp add: p split: option.split)
qed simp

lemma fold_mput_wf: "map_wf c0 \<Longrightarrow> map_wf (fold (\<lambda>(k, v) c. mput k v c) m c0)"
  by (induction m arbitrary: c0) auto

lemma set_fold_mput: "map_wf m \<Longrightarrow> set (fold (\<lambda>(k, v) c. mput k v c) m []) = set m"
proof -
  assume m: "map_wf m"
  let ?c = "fold (\<lambda>(k, v) c. mput k v c) m []"
  have "map_of ?c = map_of m"
    by (rule ext) (simp add: fold_mput_map_of [OF m] split: option.split)
  moreover have "map_wf ?c" by (rule fold_mput_wf) simp
  ultimately show ?thesis using m by (metis map_of_inject_set map_wf_def)
qed

section \<open>Time\<close>

text \<open>
  A time.Time is the number of nanoseconds since Go's zero time (January 1, year 1, UTC), so that
  IsZero is \<open>t = 0\<close>; durations are nanoseconds. Time.Sub saturates at the bounds of int64.
\<close>

type_synonym gotime = int
type_synonym duration = int

definition unix_epoch :: gotime where
  "unix_epoch = 62135596800 * 1000000000"

definition nano_second :: duration where "nano_second = 1000000000"
definition nano_minute :: duration where "nano_minute = 60 * 1000000000"
definition nano_hour :: duration where "nano_hour = 3600 * 1000000000"

definition time_sub :: "gotime \<Rightarrow> gotime \<Rightarrow> duration" where
  "time_sub t u = max (- (2 ^ 63)) (min (2 ^ 63 - 1) (t - u))"

definition unix_seconds :: "gotime \<Rightarrow> int" where
  "unix_seconds t = (t - unix_epoch) div 1000000000"

definition unix_millis :: "gotime \<Rightarrow> int" where
  "unix_millis t = (t - unix_epoch) div 1000000"

lemma time_sub_small: "- (2 ^ 63) \<le> t - u \<Longrightarrow> t - u < 2 ^ 63 \<Longrightarrow> time_sub t u = t - u"
  by (simp add: time_sub_def)

lemma time_sub_mono: "t \<le> t' \<Longrightarrow> time_sub t u \<le> time_sub t' u"
  by (simp add: time_sub_def)

lemma time_sub_gt_iff: "- (2 ^ 63) \<le> d \<Longrightarrow> d < 2 ^ 63 - 1 \<Longrightarrow> d < time_sub t u \<longleftrightarrow> d < t - u"
  by (auto simp: time_sub_def max_def min_def)

section \<open>The first error of a sequence of checks\<close>

fun first_error :: "'e option list \<Rightarrow> 'e option" where
  "first_error [] = None"
| "first_error (e # es) = (case e of None \<Rightarrow> first_error es | Some m \<Rightarrow> Some m)"

lemma first_error_None: "first_error es = None \<longleftrightarrow> (\<forall>e\<in>set es. e = None)"
  by (induction es) (auto split: option.split)

end
