(* ===== verification/GoPaths.thy ===== *)
theory GoPaths
  imports GoPrelude
begin

text \<open>
  path/filepath of the Go standard library on Unix: Clean, Join, IsAbs, Dir, Base and Abs, with the
  normal form of clean paths and the characterisation of path prefixes by their components.
\<close>

abbreviation slash :: char where "slash \<equiv> CHR ''/''"

definition is_abs :: "string \<Rightarrow> bool" where
  "is_abs p = (p \<noteq> [] \<and> hd p = slash)"

definition clean_step :: "bool \<Rightarrow> string \<Rightarrow> string list \<Rightarrow> string list" where
  "clean_step rooted c st =
     (if c = [] \<or> c = ''.'' then st
      else if c = ''..'' then
        (case st of [] \<Rightarrow> if rooted then [] else [c]
         | t # r \<Rightarrow> if t = ''..'' then c # st else r)
      else c # st)"

definition path_comps :: "string \<Rightarrow> string list" where
  "path_comps p = rev (fold (clean_step (is_abs p)) (split_on slash p) [])"

definition show_path :: "bool \<Rightarrow> string list \<Rightarrow> string" where
  "show_path rooted cs = (if rooted then slash # join_with [slash] cs
     else if cs = [] then ''.'' else join_with [slash] cs)"

definition filepath_clean :: "string \<Rightarrow> string" where
  "filepath_clean p = (if p = [] then ''.'' else show_path (is_abs p) (path_comps p))"

definition filepath_join :: "string list \<Rightarrow> string" where
  "filepath_join elems = (let es = dropWhile (\<lambda>e. e = []) elems in
     if es = [] then [] else filepath_clean (join_with [slash] es))"

definition filepath_dir :: "string \<Rightarrow> string" where
  "filepath_dir p = filepath_clean (rev (dropWhile (\<lambda>c. c \<noteq> slash) (rev p)))"

definition filepath_base :: "string \<Rightarrow> string" where
  "filepath_base p = (if p = [] then ''.'' else
     (let q = rev (dropWhile (\<lambda>c. c = slash) (rev p));
          b = rev (takeWhile (\<lambda>c. c \<noteq> slash) (rev q))
      in if b = [] then [slash] else b))"

text \<open>Abs asks the operating system for the working directory, the argument \<open>getwd\<close>.\<close>

definition filepath_abs :: "string result \<Rightarrow> string \<Rightarrow> string result" where
  "filepath_abs getwd p = (if is_abs p then Inr (filepath_clean p)
     else (case getwd of Inl e \<Rightarrow> Inl e | Inr wd \<Rightarrow> Inr (filepath_join [wd, p])))"

section \<open>Normal forms\<close>

definition normal_comp :: "string \<Rightarrow> bool" where
  "normal_comp c = (c \<noteq> [] \<and> c \<noteq> ''.'' \<and> c \<noteq> ''..'' \<and> slash \<notin> set c)"

lemma split_on_append2: "split_on d (s @ d # t) = split_on d s @ split_on d t"
proof (induction s)
  case (Cons c s)
  then show ?case by (cases "split_on d s") auto
qed simp

lemma clean_step_normal: "normal_comp c \<Longrightarrow> clean_step r c st = c # st"
  by (auto simp: clean_step_def normal_comp_def)

lemma fold_clean_normal: "list_all normal_comp cs \<Longrightarrow> fold (clean_step r) cs st = rev cs @ st"
  by (induction cs arbitrary: st) (auto simp: clean_step_normal)

lemma clean_step_rooted:
  "slash \<notin> set c \<Longrightarrow> list_all normal_comp st \<Longrightarrow> list_all normal_comp (clean_step True c st)"
  by (auto simp: clean_step_def normal_comp_def split: list.split)

lemma fold_clean_rooted:
  "(\<And>c. c \<in> set cs \<Longrightarrow> slash \<notin> set c) \<Longrightarrow> list_all normal_comp st \<Longrightarrow>
     list_all normal_comp (fold (clean_step True) cs st)"
  by (induction cs arbitrary: st) (auto simp: clean_step_rooted)

lemma path_comps_normal: "is_abs p \<Longrightarrow> list_all normal_comp (path_comps p)"
  unfolding path_comps_def list_all_rev
  using fold_clean_rooted [of "split_on slash p" "[]"] by (auto dest: split_on_free)

lemma split_join_normal:
  "list_all normal_comp cs \<Longrightarrow> cs \<noteq> [] \<Longrightarrow> split_on slash (join_with [slash] cs) = cs"
  by (rule split_join) (auto simp: list_all_iff normal_comp_def)

lemma path_comps_show_rooted:
  assumes "list_all normal_comp cs" shows "path_comps (slash # join_with [slash] cs) = cs"
proof (cases "cs = []")
  case True
  then show ?thesis by (simp add: path_comps_def clean_step_def is_abs_def)
next
  case False
  then have "split_on slash (slash # join_with [slash] cs) = [] # cs"
    using assms by (simp add: split_join_normal)
  with assms show ?thesis
    by (simp add: path_comps_def fold_clean_normal) (simp add: clean_step_def)
qed

text \<open>Unrooted paths keep leading parent references.\<close>

definition normal_rel :: "string list \<Rightarrow> bool" where
  "normal_rel st = (\<exists>n cs. st = rev cs @ replicate n ''..'' \<and> list_all normal_comp cs)"

lemma clean_step_rel: "slash \<notin> set c \<Longrightarrow> normal_rel st \<Longrightarrow> normal_rel (clean_step False c st)"
proof -
  assume c: "slash \<notin> set c" and "normal_rel st"
  then obtain n cs where st: "st = rev cs @ replicate n ''..''" and cs: "list_all normal_comp cs"
    by (auto simp: normal_rel_def)
  consider (skip) "c = [] \<or> c = ''.''" | (up) "c = ''..''" | (push) "normal_comp c"
    using c by (auto simp: normal_comp_def)
  then show ?thesis
  proof cases
    case skip
    then show ?thesis using \<open>normal_rel st\<close> by (auto simp: clean_step_def)
  next
    case up
    show ?thesis
    proof (cases cs rule: rev_cases)
      case Nil
      then have "clean_step False c st = rev [] @ replicate (Suc n) ''..''"
        using up st by (cases n) (auto simp: clean_step_def)
      then show ?thesis unfolding normal_rel_def by (metis list.pred_inject(1))
    next
      case (snoc ds d)
      then have "clean_step False c st = rev ds @ replicate n ''..''"
        using up st cs by (auto simp: clean_step_def normal_comp_def)
      then show ?thesis using cs snoc by (auto simp: normal_rel_def)
    qed
  next
    case push
    then have "clean_step False c st = rev (cs @ [c]) @ replicate n ''..''"
      by (simp add: clean_step_normal st)
    then show ?thesis using cs push unfolding normal_rel_def by (intro exI [of _ n] exI [of _ "cs @ [c]"]) simp
  qed
qed

lemma fold_clean_rel:
  "(\<And>c. c \<in> set cs \<Longrightarrow> slash \<notin> set c) \<Longrightarrow> normal_rel st \<Longrightarrow> normal_rel (fold (clean_step False) cs st)"
  by (induction cs arbitrary: st) (auto simp: clean_step_rel)

lemma normal_rel_Nil: "normal_rel []"
  unfolding normal_rel_def by (rule exI [of _ 0], rule exI [of _ "[]"]) simp

lemma path_comps_rel: "\<not> is_abs p \<Longrightarrow> normal_rel (rev (path_comps p))"
  using fold_clean_rel [of "split_on slash p" "[]"] normal_rel_Nil
  by (auto simp: path_comps_def dest: split_on_free)

lemma fold_clean_dots: "fold (clean_step False) (replicate n ''..'') (replicate m ''..'') =
    replicate (n + m) ''..''"
proof (induction n arbitrary: m)
  case (Suc n)
  have "clean_step False ''..'' (replicate m ''..'') = replicate (Suc m) ''..''"
    by (cases m) (simp_all add: clean_step_def)
  then show ?case using Suc [of "Suc m"] by simp
qed simp

lemma fold_clean_rel_id:
  assumes "normal_rel st" shows "fold (clean_step False) (rev st) [] = st"
proof -
  obtain n cs where "st = rev cs @ replicate n ''..''" "list_all normal_comp cs"
    using assms by (auto simp: normal_rel_def)
  then show ?thesis
    using fold_clean_dots [of n 0] by (simp add: fold_clean_normal)
qed

lemma normal_rel_free: "normal_rel st \<Longrightarrow> c \<in> set st \<Longrightarrow> c \<noteq> [] \<and> slash \<notin> set c"
proof -
  assume "normal_rel st" "c \<in> set st"
  then obtain n cs where "list_all normal_comp cs" "c \<in> set cs \<or> c \<in> set (replicate n ''..'')"
    by (auto simp: normal_rel_def)
  then have "normal_comp c \<or> c = ''..''"
    by (meson in_set_replicate list_all_iff)
  then show "c \<noteq> [] \<and> slash \<notin> set c"
    by (auto simp: normal_comp_def)
qed

lemma hd_join: "cs \<noteq> [] \<Longrightarrow> hd cs \<noteq> [] \<Longrightarrow> join_with sep cs \<noteq> [] \<and> hd (join_with sep cs) = hd (hd cs)"
  by (induction sep cs rule: join_with.induct) auto

lemma path_comps_show_rel:
  assumes "normal_rel (rev cs)" "cs \<noteq> []"
  shows "path_comps (join_with [slash] cs) = cs \<and> \<not> is_abs (join_with [slash] cs)"
proof -
  have f: "c \<noteq> [] \<and> slash \<notin> set c" if "c \<in> set cs" for c
    using normal_rel_free [OF assms(1)] that by simp
  have "hd cs \<noteq> [] \<and> slash \<notin> set (hd cs)" using f assms(2) by simp
  then have "\<not> is_abs (join_with [slash] cs)"
    using hd_join [OF assms(2), of "[slash]"] by (cases "hd cs") (auto simp: is_abs_def)
  moreover have "split_on slash (join_with [slash] cs) = cs"
    using f assms(2) by (intro split_join) auto
  ultimately show ?thesis
    using fold_clean_rel_id [OF assms(1)] by (simp add: path_comps_def)
qed

lemma filepath_clean_idem [simp]: "filepath_clean (filepath_clean p) = filepath_clean p"
proof (cases "is_abs p")
  case True
  then have "p \<noteq> []" by (auto simp: is_abs_def)
  with True path_comps_show_rooted [OF path_comps_normal [OF True]] show ?thesis
    by (simp add: filepath_clean_def show_path_def) (simp add: is_abs_def)
next
  case False
  have dot: "filepath_clean ''.'' = ''.''"
    by (simp add: filepath_clean_def show_path_def is_abs_def path_comps_def clean_step_def)
  show ?thesis
  proof (cases "p = [] \<or> path_comps p = []")
    case True
    with False dot show ?thesis by (auto simp: filepath_clean_def show_path_def)
  next
    case comps: False
    from path_comps_show_rel [OF path_comps_rel [OF False]] comps
    have "path_comps (join_with [slash] (path_comps p)) = path_comps p"
      "\<not> is_abs (join_with [slash] (path_comps p))" by auto
    moreover have "filepath_clean p = join_with [slash] (path_comps p)"
      using False comps by (simp add: filepath_clean_def show_path_def)
    moreover have "join_with [slash] (path_comps p) \<noteq> []"
      using comps \<open>path_comps (join_with [slash] (path_comps p)) = path_comps p\<close>
      by (auto simp: path_comps_def clean_step_def)
    ultimately show ?thesis
      using comps by (simp add: filepath_clean_def show_path_def)
  qed
qed

section \<open>Absolute clean paths\<close>

lemma clean_abs: "is_abs p \<Longrightarrow> filepath_clean p = slash # join_with [slash] (path_comps p)"
  by (auto simp: filepath_clean_def show_path_def is_abs_def)

lemma is_abs_clean [simp]: "is_abs p \<Longrightarrow> is_abs (filepath_clean p)"
  by (simp add: clean_abs) (simp add: is_abs_def)

lemma path_comps_clean [simp]: "is_abs p \<Longrightarrow> path_comps (filepath_clean p) = path_comps p"
  by (simp add: clean_abs path_comps_show_rooted path_comps_normal)

lemma join_append_cons:
  "cs \<noteq> [] \<Longrightarrow> join_with sep (cs @ e # es) = join_with sep cs @ sep @ join_with sep (e # es)"
  by (induction sep cs rule: join_with.induct) auto

lemma clean_is_abs_join: "is_abs d \<Longrightarrow> is_abs (filepath_join (d # es))"
  by (cases d; cases es) (auto simp: filepath_join_def is_abs_def Let_def intro!: is_abs_clean [unfolded is_abs_def])

text \<open>
  On clean rooted paths, being a string prefix followed by a separator is being a prefix of the
  list of components.
\<close>

lemma prefix_path_iff:
  assumes cs: "list_all normal_comp cs" and ds: "list_all normal_comp ds"
  shows "prefix ((slash # join_with [slash] cs) @ (if cs = [] then [] else [slash]))
           (slash # join_with [slash] ds) \<longleftrightarrow> cs = [] \<or> (\<exists>e es. ds = cs @ e # es)"
proof (cases "cs = []")
  case False
  have "prefix (join_with [slash] cs @ [slash]) (join_with [slash] ds) \<longleftrightarrow> (\<exists>e es. ds = cs @ e # es)"
  proof
    assume "prefix (join_with [slash] cs @ [slash]) (join_with [slash] ds)"
    then obtain r where r: "join_with [slash] ds = join_with [slash] cs @ slash # r"
      by (auto simp: prefix_def)
    then have "ds \<noteq> []" by (cases ds) auto
    with r ds cs False have "ds = cs @ split_on slash r"
      by (metis split_join_normal split_on_append2)
    then show "\<exists>e es. ds = cs @ e # es" by (metis list.exhaust split_on_not_Nil)
  next
    assume "\<exists>e es. ds = cs @ e # es"
    then show "prefix (join_with [slash] cs @ [slash]) (join_with [slash] ds)"
      using False by (auto simp: join_append_cons)
  qed
  with False show ?thesis by simp
qed simp

lemma filepath_clean_not_Nil: "filepath_clean x \<noteq> []"
proof -
  have j: "join_with [slash] cs \<noteq> []" if "normal_rel (rev cs)" "cs \<noteq> []" for cs
    using normal_rel_free [OF that(1), of "hd cs"] hd_join [of cs "[slash]"] that(2) by auto
  show ?thesis
    using j [OF path_comps_rel [of x]] by (auto simp: filepath_clean_def show_path_def)
qed

end
