(* ===== verification/GoCrypto.thy ===== *)
theory GoCrypto
  imports GoPrelude
begin

unbundle bit_operations_syntax

text \<open>
  crypto/sha256, crypto/hmac and encoding/hex of the Go standard library on byte strings. SHA-256
  follows FIPS 180-4 on 32 bit words; HMAC follows RFC 2104 with the 64 byte block. Nothing in the
  development unfolds the compression function: properties of digests are stated about the
  messages that are hashed.
\<close>

type_synonym word32 = "32 word"

definition bytes_of :: "string \<Rightarrow> 8 word list" where
  "bytes_of s = map of_char s"

definition string_of :: "8 word list \<Rightarrow> string" where
  "string_of bs = map (\<lambda>b. char_of (unat b)) bs"

lemma unat_of_char: "unat (of_char c :: 8 word) = of_char c"
proof -
  have "(of_char c :: 8 word) = of_nat (of_char c)"
    by (simp add: of_char_def)
  moreover have "(of_char c :: nat) < 2 ^ LENGTH(8)" using nat_of_char_less_256 [of c] by simp
  ultimately show ?thesis by (metis of_nat_inverse)
qed

lemma string_of_bytes_of [simp]: "string_of (bytes_of s) = s"
  by (simp add: string_of_def bytes_of_def comp_def unat_of_char)

definition sha_k :: "word32 list" where
  "sha_k =
    [1116352408, 1899447441, 3049323471, 3921009573, 961987163, 1508970993, 2453635748, 2870763221,
     3624381080, 310598401, 607225278, 1426881987, 1925078388, 2162078206, 2614888103, 3248222580,
     3835390401, 4022224774, 264347078, 604807628, 770255983, 1249150122, 1555081692, 1996064986,
     2554220882, 2821834349, 2952996808, 3210313671, 3336571891, 3584528711, 113926993, 338241895,
     666307205, 773529912, 1294757372, 1396182291, 1695183700, 1986661051, 2177026350, 2456956037,
     2730485921, 2820302411, 3259730800, 3345764771, 3516065817, 3600352804, 4094571909, 275423344,
     430227734, 506948616, 659060556, 883997877, 958139571, 1322822218, 1537002063, 1747873779,
     1955562222, 2024104815, 2227730452, 2361852424, 2428436474, 2756734187, 3204031479, 3329325298]"

definition sha_h0 :: "word32 list" where
  "sha_h0 = [1779033703, 3144134277, 1013904242, 2773480762, 1359893119, 2600822924, 528734635, 1541459225]"

definition rotr32 :: "nat \<Rightarrow> word32 \<Rightarrow> word32" where
  "rotr32 n w = (drop_bit n w) OR (push_bit (32 - n) w)"

definition big_endian :: "nat \<Rightarrow> 'a::len word \<Rightarrow> 8 word list" where
  "big_endian n v = map (\<lambda>i. ucast (drop_bit (8 * (n - 1 - i)) v)) [0..<n]"

definition sha_pad :: "8 word list \<Rightarrow> 8 word list" where
  "sha_pad m = m @ [0x80] @ replicate ((119 - length m mod 64) mod 64) 0 @
     big_endian 8 (8 * (of_nat (length m) :: 64 word))"

fun be_words :: "8 word list \<Rightarrow> word32 list" where
  "be_words (a # b # c # d # r) =
     (push_bit 24 (ucast a) OR push_bit 16 (ucast b) OR push_bit 8 (ucast c) OR ucast d)
       # be_words r"
| "be_words _ = []"

fun chunks :: "nat \<Rightarrow> 'a list \<Rightarrow> 'a list list" where
  "chunks n xs = (if n = 0 \<or> xs = [] then [] else take n xs # chunks n (drop n xs))"

declare chunks.simps [simp del]

definition sha_sched_step :: "nat \<Rightarrow> word32 list \<Rightarrow> word32 list" where
  "sha_sched_step i w = (let
     x = w ! (i - 15); y = w ! (i - 2);
     s0 = rotr32 7 x XOR rotr32 18 x XOR drop_bit 3 x;
     s1 = rotr32 17 y XOR rotr32 19 y XOR drop_bit 10 y
   in w @ [w ! (i - 16) + s0 + w ! (i - 7) + s1])"

definition sha_schedule :: "word32 list \<Rightarrow> word32 list" where
  "sha_schedule blk = fold sha_sched_step [16..<64] blk"

fun sha_round :: "word32 \<times> word32 \<Rightarrow> word32 list \<Rightarrow> word32 list" where
  "sha_round (k, w) [a, b, c, d, e, f, g, h] = (let
     s1 = rotr32 6 e XOR rotr32 11 e XOR rotr32 25 e;
     ch = (e AND f) XOR ((NOT e) AND g);
     t1 = h + s1 + ch + k + w;
     s0 = rotr32 2 a XOR rotr32 13 a XOR rotr32 22 a;
     maj = (a AND b) XOR (a AND c) XOR (b AND c);
     t2 = s0 + maj
   in [t1 + t2, a, b, c, d + t1, e, f, g])"
| "sha_round _ st = st"

definition sha_block :: "word32 list \<Rightarrow> word32 list \<Rightarrow> word32 list" where
  "sha_block blk h = map2 (+) h (fold sha_round (zip sha_k (sha_schedule blk)) h)"

definition sha256 :: "string \<Rightarrow> string" where
  "sha256 m = string_of (concat (map (big_endian 4)
     (fold sha_block (map be_words (chunks 64 (sha_pad (bytes_of m)))) sha_h0)))"

definition hex_digit :: "nat \<Rightarrow> char" where
  "hex_digit d = (if d < 10 then char_of (48 + d) else char_of (87 + d))"

definition hex_encode :: "string \<Rightarrow> string" where
  "hex_encode s =
     concat (map (\<lambda>c. let n = (of_char c :: nat) in [hex_digit (n div 16), hex_digit (n mod 16)]) s)"

definition hmac_key_block :: "string \<Rightarrow> 8 word list" where
  "hmac_key_block k = (let kb = bytes_of (if length k > 64 then sha256 k else k)
     in kb @ replicate (64 - length kb) 0)"

definition hmac_sha256 :: "string \<Rightarrow> string \<Rightarrow> string" where
  "hmac_sha256 k m = (let kb = hmac_key_block k in
     sha256 (string_of (map (\<lambda>b. b XOR 0x5c) kb) @
       sha256 (string_of (map (\<lambda>b. b XOR 0x36) kb) @ m)))"

definition sha256_hex :: "string \<Rightarrow> string" where
  "sha256_hex m = hex_encode (sha256 m)"

section \<open>What the properties use of the encoders\<close>

lemma length_hex_encode [simp]: "length (hex_encode s) = 2 * length s"
  by (induction s) (simp_all add: hex_encode_def Let_def)

lemma length_big_endian [simp]: "length (big_endian n v) = n"
  by (simp add: big_endian_def)

lemma of_char_hex_digit:
  "d < 16 \<Longrightarrow> (of_char (hex_digit d) :: nat) = (if d < 10 then 48 + d else 87 + d)"
  by (simp add: hex_digit_def)

lemma hex_digit_inj: "d < 16 \<Longrightarrow> e < 16 \<Longrightarrow> hex_digit d = hex_digit e \<Longrightarrow> d = e"
  by (drule arg_cong [where f = "of_char :: char \<Rightarrow> nat"])
     (auto simp: of_char_hex_digit split: if_splits)

lemma char_split: "(of_char c :: nat) div 16 < 16" "(of_char c :: nat) mod 16 < 16"
  using nat_of_char_less_256 [of c] by (simp_all add: div_less_iff_less_mult del: nat_of_char_less_256)

lemma hex_encode_inj: "hex_encode s = hex_encode t \<Longrightarrow> s = t"
proof (induction s arbitrary: t)
  case Nil
  then have "length (hex_encode t) = 0" by (simp add: hex_encode_def)
  then show ?case by simp
next
  case (Cons c s)
  then have "length (hex_encode t) = 2 * length (c # s)" by (metis length_hex_encode)
  then obtain d u where t: "t = d # u" by (cases t) auto
  with Cons.prems have e: "hex_digit (of_char c div 16) = hex_digit (of_char d div 16)"
    "hex_digit (of_char c mod 16) = hex_digit (of_char d mod 16)" "hex_encode s = hex_encode u"
    by (simp_all add: hex_encode_def Let_def)
  then have "(of_char c :: nat) div 16 = of_char d div 16" "(of_char c :: nat) mod 16 = of_char d mod 16"
    by (auto intro: hex_digit_inj char_split)
  then have "(of_char c :: nat) = of_char d" by (metis div_mult_mod_eq)
  then have "c = d" by (metis char_of_char)
  with Cons.IH e t show ?case by simp
qed

lemma sha_round_length [simp]: "length (sha_round p h) = length h"
  by (induction p h rule: sha_round.induct) (simp_all add: Let_def)

lemma fold_sha_round_length [simp]: "length (fold sha_round ps h) = length h"
  by (induction ps arbitrary: h) simp_all

lemma sha_block_length [simp]: "length (sha_block b h) = length h"
  by (simp add: sha_block_def)

lemma fold_sha_block_length [simp]: "length (fold sha_block bs h) = length h"
  by (induction bs arbitrary: h) simp_all

lemma length_sha256 [simp]: "length (sha256 m) = 32"
  by (simp add: sha256_def string_of_def length_concat comp_def sum_list_triv sha_h0_def)

lemma length_sha256_hex [simp]: "length (sha256_hex m) = 64"
  by (simp add: sha256_hex_def)

lemma length_hmac_sha256 [simp]: "length (hmac_sha256 k m) = 32"
  by (simp add: hmac_sha256_def Let_def)

lemma hmac_sha256_not_Nil [simp]: "hmac_sha256 k m \<noteq> []"
  by (metis length_hmac_sha256 list.size(3) zero_neq_numeral)

lemma graphic_hex_digit: "d < 16 \<Longrightarrow> graphic (hex_digit d)"
  by (simp add: graphic_def of_char_hex_digit)

lemma hex_encode_graphic: "c \<in> set (hex_encode s) \<Longrightarrow> graphic c"
  by (auto simp: hex_encode_def Let_def intro: graphic_hex_digit char_split)

lemma trim_space_hex [simp]: "trim_space (hex_encode s) = hex_encode s"
proof (cases "hex_encode s = []")
  case False
  then show ?thesis
    by (intro trim_space_graphic disjI2 conjI hex_encode_graphic [of _ s]) simp_all
qed simp

lemma trim_space_sha256_hex [simp]: "trim_space (sha256_hex m) = sha256_hex m"
  by (simp add: sha256_hex_def)

lemma sha256_hex_not_Nil [simp]: "sha256_hex m \<noteq> []"
  by (metis length_sha256_hex list.size(3) zero_neq_numeral)

end
