(* ===== verification/GoJson.thy ===== *)
theory GoJson
  imports GoCrypto
begin

text \<open>
  The string layer of encoding/json: UTF-8 well-formedness, the escaping of json.Marshal (HTML
  characters, control characters, U+2028, U+2029 and the replacement of malformed bytes), the
  unquoting of json.Unmarshal, and the round trip between the two. Object encoding follows.
\<close>

section \<open>UTF-8\<close>

definition byte_in :: "nat \<Rightarrow> nat \<Rightarrow> char \<Rightarrow> bool" where
  "byte_in lo hi c = (let n = (of_char c :: nat) in lo \<le> n \<and> n \<le> hi)"

abbreviation cont_byte :: "char \<Rightarrow> bool" where "cont_byte \<equiv> byte_in 0x80 0xBF"

text \<open>Length of the well-formed multi-byte rune at the head, or 0 (utf8.DecodeRune fails).\<close>

fun rune_len2 :: "string \<Rightarrow> bool" where
  "rune_len2 (a # b # _) = (byte_in 0xC2 0xDF a \<and> cont_byte b)"
| "rune_len2 _ = False"

fun rune_len3 :: "string \<Rightarrow> bool" where
  "rune_len3 (a # b # c # _) = (cont_byte c \<and>
     (if a = CHR 0xE0 then byte_in 0xA0 0xBF b
      else if a = CHR 0xED then byte_in 0x80 0x9F b
      else byte_in 0xE1 0xEF a \<and> cont_byte b))"
| "rune_len3 _ = False"

fun rune_len4 :: "string \<Rightarrow> bool" where
  "rune_len4 (a # b # c # d # _) = (cont_byte c \<and> cont_byte d \<and>
     (if a = CHR 0xF0 then byte_in 0x90 0xBF b
      else if a = CHR 0xF4 then byte_in 0x80 0x8F b
      else byte_in 0xF1 0xF3 a \<and> cont_byte b))"
| "rune_len4 _ = False"

definition rune_len :: "string \<Rightarrow> nat" where
  "rune_len s = (if rune_len2 s then 2 else if rune_len3 s then 3 else if rune_len4 s then 4 else 0)"

lemma rune_len_le: "rune_len s \<le> length s"
  by (auto simp: rune_len_def elim: rune_len2.elims rune_len3.elims rune_len4.elims)

definition ascii_byte :: "char \<Rightarrow> bool" where
  "ascii_byte c = ((of_char c :: nat) < 128)"

definition replacement :: string where
  "replacement = [CHR 0xEF, CHR 0xBF, CHR 0xBD]"

text \<open>
  A string with every malformed byte replaced by U+FFFD, and well-formedness. Each takes the
  string rune by rune.
\<close>

function utf8_fix :: "string \<Rightarrow> string" where
  "utf8_fix [] = []"
| "utf8_fix (c # s) =
     (if ascii_byte c then c # utf8_fix s
      else if rune_len (c # s) = 0 then replacement @ utf8_fix s
      else take (rune_len (c # s)) (c # s) @ utf8_fix (drop (rune_len (c # s)) (c # s)))"
  by pat_completeness auto
termination by (relation "measure length") (auto simp: less_Suc_eq_le)

function valid_utf8 :: "string \<Rightarrow> bool" where
  "valid_utf8 [] = True"
| "valid_utf8 (c # s) =
     (if ascii_byte c then valid_utf8 s
      else if rune_len (c # s) = 0 then False
      else valid_utf8 (drop (rune_len (c # s)) (c # s)))"
  by pat_completeness auto
termination by (relation "measure length") (auto simp: less_Suc_eq_le)

lemma utf8_fix_valid: "valid_utf8 s \<Longrightarrow> utf8_fix s = s"
  by (induction s rule: utf8_fix.induct) (auto split: if_splits)

lemma valid_utf8_ascii: "list_all ascii_byte s \<Longrightarrow> valid_utf8 s"
  by (induction s) auto

lemma graphic_ascii: "graphic c \<Longrightarrow> ascii_byte c"
  by (simp add: graphic_def ascii_byte_def Let_def)

lemma valid_utf8_hex [simp]: "valid_utf8 (hex_encode s)"
  by (rule valid_utf8_ascii) (auto simp: list_all_iff intro: graphic_ascii hex_encode_graphic)

lemma valid_utf8_sha256_hex [simp]: "valid_utf8 (sha256_hex s)"
  by (simp add: sha256_hex_def)

section \<open>Escaping\<close>

definition ctl_esc :: "char \<Rightarrow> string" where
  "ctl_esc c = (let n = (of_char c :: nat) in
     CHR 0x5C # ''u00'' @ [hex_digit (n div 16), hex_digit (n mod 16)])"

definition html_special :: "char \<Rightarrow> bool" where
  "html_special c = (c = CHR ''<'' \<or> c = CHR ''>'' \<or> c = CHR ''&'')"

definition ascii_esc :: "char \<Rightarrow> string" where
  "ascii_esc c =
    (if c = CHR 0x22 \<or> c = CHR 0x5C then [CHR 0x5C, c]
     else if c = CHR 0x08 then [CHR 0x5C, CHR ''b'']
     else if c = CHR 0x0C then [CHR 0x5C, CHR ''f'']
     else if c = CHR 0x0A then [CHR 0x5C, CHR ''n'']
     else if c = CHR 0x0D then [CHR 0x5C, CHR ''r'']
     else if c = CHR 0x09 then [CHR 0x5C, CHR ''t'']
     else if (of_char c :: nat) < 32 \<or> html_special c then ctl_esc c
     else [c])"

definition rune_esc :: "string \<Rightarrow> string" where
  "rune_esc r =
    (if r = [CHR 0xE2, CHR 0x80, CHR 0xA8] then CHR 0x5C # ''u2028''
     else if r = [CHR 0xE2, CHR 0x80, CHR 0xA9] then CHR 0x5C # ''u2029''
     else r)"

function json_esc :: "string \<Rightarrow> string" where
  "json_esc [] = []"
| "json_esc (c # s) =
     (if ascii_byte c then ascii_esc c @ json_esc s
      else if rune_len (c # s) = 0 then (CHR 0x5C # ''ufffd'') @ json_esc s
      else rune_esc (take (rune_len (c # s)) (c # s)) @ json_esc (drop (rune_len (c # s)) (c # s)))"
  by pat_completeness auto
termination by (relation "measure length") (auto simp: less_Suc_eq_le)

definition json_string :: "string \<Rightarrow> string" where
  "json_string s = CHR 0x22 # json_esc s @ [CHR 0x22]"

section \<open>Unquoting\<close>

definition hex_val :: "char \<Rightarrow> nat option" where
  "hex_val c = (let n = (of_char c :: nat) in
     if 48 \<le> n \<and> n \<le> 57 then Some (n - 48)
     else if 97 \<le> n \<and> n \<le> 102 then Some (n - 87)
     else if 65 \<le> n \<and> n \<le> 70 then Some (n - 55) else None)"

fun get_u4 :: "string \<Rightarrow> nat option" where
  "get_u4 (a # b # c # d # _) =
     do { w \<leftarrow> hex_val a; x \<leftarrow> hex_val b; y \<leftarrow> hex_val c; z \<leftarrow> hex_val d;
          Some (((w * 16 + x) * 16 + y) * 16 + z) }"
| "get_u4 _ = None"

definition utf8_encode :: "nat \<Rightarrow> string" where
  "utf8_encode n =
    (if n < 0x80 then [char_of n]
     else if n < 0x800 then [char_of (0xC0 + n div 64), char_of (0x80 + n mod 64)]
     else if n < 0x10000 then
       [char_of (0xE0 + n div 4096), char_of (0x80 + n div 64 mod 64), char_of (0x80 + n mod 64)]
     else [char_of (0xF0 + n div 262144), char_of (0x80 + n div 4096 mod 64),
           char_of (0x80 + n div 64 mod 64), char_of (0x80 + n mod 64)])"

definition is_surrogate :: "nat \<Rightarrow> bool" where
  "is_surrogate n = (0xD800 \<le> n \<and> n < 0xE000)"

definition surrogate_pair :: "nat \<Rightarrow> nat \<Rightarrow> nat option" where
  "surrogate_pair h l = (if 0xD800 \<le> h \<and> h < 0xDC00 \<and> 0xDC00 \<le> l \<and> l < 0xE000
     then Some ((h - 0xD800) * 1024 + (l - 0xDC00) + 0x10000) else None)"

definition simple_unesc :: "char \<Rightarrow> char option" where
  "simple_unesc e =
    (if e = CHR 0x22 \<or> e = CHR 0x5C \<or> e = CHR ''/'' then Some e
     else if e = CHR ''b'' then Some (CHR 0x08) else if e = CHR ''f'' then Some (CHR 0x0C)
     else if e = CHR ''n'' then Some (CHR 0x0A) else if e = CHR ''r'' then Some (CHR 0x0D)
     else if e = CHR ''t'' then Some (CHR 0x09) else None)"

text \<open>The bytes one backslash escape stands for, and how many input bytes it takes.\<close>

definition unesc_u :: "string \<Rightarrow> (string \<times> nat) option" where
  "unesc_u s = (case get_u4 s of None \<Rightarrow> None
     | Some n \<Rightarrow>
        if is_surrogate n then
          (case s of a # b # c # d # CHR 0x5C # CHR ''u'' # s' \<Rightarrow>
             (case get_u4 s' of Some l \<Rightarrow>
               (case surrogate_pair n l of Some r \<Rightarrow> Some (utf8_encode r, 10)
                | None \<Rightarrow> Some (replacement, 4))
              | None \<Rightarrow> Some (replacement, 4))
           | _ \<Rightarrow> Some (replacement, 4))
        else Some (utf8_encode n, 4))"

definition prepend :: "string \<Rightarrow> string option \<Rightarrow> string option" where
  "prepend r o' = map_option (append r) o'"

lemma prepend_simps [simp]: "prepend r None = None" "prepend r (Some t) = Some (r @ t)"
  by (simp_all add: prepend_def)

function json_unesc :: "string \<Rightarrow> string option" where
  "json_unesc [] = Some []"
| "json_unesc (c # s) =
    (if c = CHR 0x5C then
       (case s of [] \<Rightarrow> None
        | e # s' \<Rightarrow>
           if e = CHR ''u'' then
             (case unesc_u s' of None \<Rightarrow> None
              | Some (r, k) \<Rightarrow> prepend r (json_unesc (drop k s')))
           else (case simple_unesc e of None \<Rightarrow> None
              | Some r \<Rightarrow> prepend [r] (json_unesc s')))
     else if c = CHR 0x22 \<or> (of_char c :: nat) < 32 then None
     else if ascii_byte c then prepend [c] (json_unesc s)
     else if rune_len (c # s) = 0 then prepend replacement (json_unesc s)
     else prepend (take (rune_len (c # s)) (c # s))
            (json_unesc (drop (rune_len (c # s)) (c # s))))"
  by pat_completeness auto
termination by (relation "measure length") (auto simp: less_Suc_eq_le)

section \<open>Unquoting undoes escaping\<close>

lemma hex_val_hex_digit [simp]: "d < 16 \<Longrightarrow> hex_val (hex_digit d) = Some d"
  by (simp add: hex_val_def of_char_hex_digit Let_def)

lemma hex_val_0: "hex_val (CHR ''0'') = Some 0"
  by (simp add: hex_val_def)

lemma ascii_nibbles: "(of_char c :: nat) div 16 < 16" "(of_char c :: nat) mod 16 < 16"
  "(of_char c :: nat) div 16 * 16 + of_char c mod 16 = of_char c"
  using char_split by simp_all

lemma json_unesc_ctl:
  assumes "ascii_byte c" shows "json_unesc (ctl_esc c @ t) = prepend [c] (json_unesc t)"
proof -
  have "get_u4 (tl (tl (ctl_esc c)) @ t) = Some (of_char c)"
    using ascii_nibbles [of c] by (simp add: ctl_esc_def Let_def hex_val_0)
  moreover have "utf8_encode (of_char c) = [c]" "\<not> is_surrogate (of_char c)"
    using assms by (simp_all add: utf8_encode_def is_surrogate_def ascii_byte_def)
  ultimately show ?thesis
    by (simp add: ctl_esc_def Let_def unesc_u_def)
qed

lemma json_unesc_ascii:
  assumes "ascii_byte c" shows "json_unesc (ascii_esc c @ t) = prepend [c] (json_unesc t)"
proof (cases "c = CHR 0x22 \<or> c = CHR 0x5C \<or> c = CHR 0x08 \<or> c = CHR 0x0C \<or> c = CHR 0x0A
    \<or> c = CHR 0x0D \<or> c = CHR 0x09 \<or> (of_char c :: nat) < 32 \<or> html_special c")
  case True
  then show ?thesis
    using json_unesc_ctl [OF assms, of t]
    by (auto simp: ascii_esc_def simple_unesc_def)
next
  case False
  then show ?thesis using assms by (simp add: ascii_esc_def)
qed

lemma rune_len_take:
  "rune_len s \<noteq> 0 \<Longrightarrow> rune_len (take (rune_len s) s @ t) = rune_len s"
  by (auto simp: rune_len_def split: if_splits
      elim!: rune_len2.elims rune_len3.elims rune_len4.elims)

lemma rune_len_cases:
  assumes "rune_len s \<noteq> 0"
  shows "rune_len s = 2 \<or> rune_len s = 3 \<or> rune_len s = 4"
  using assms by (auto simp: rune_len_def split: if_splits)

lemma json_unesc_literal_rune:
  assumes "\<not> ascii_byte c" "rune_len (c # s) \<noteq> 0"
  shows "json_unesc (take (rune_len (c # s)) (c # s) @ t) =
    prepend (take (rune_len (c # s)) (c # s)) (json_unesc t)"
proof -
  let ?k = "rune_len (c # s)"
  obtain k where k: "?k = Suc k" using assms(2) by (cases ?k) auto
  have "rune_len (take ?k (c # s) @ t) = ?k" by (rule rune_len_take [OF assms(2)])
  moreover have "?k \<le> length (c # s)" by (rule rune_len_le)
  moreover have "c \<noteq> CHR 0x5C" "c \<noteq> CHR 0x22" "\<not> (of_char c :: nat) < 32"
    using assms(1) by (auto simp: ascii_byte_def)
  ultimately show ?thesis
    using k assms by simp
qed

lemma utf8_encode_special:
  "utf8_encode 0x2028 = [CHR 0xE2, CHR 0x80, CHR 0xA8]"
  "utf8_encode 0x2029 = [CHR 0xE2, CHR 0x80, CHR 0xA9]"
  "utf8_encode 0xFFFD = replacement"
  by (simp_all add: utf8_encode_def replacement_def char_of_def bit_Suc_0_iff)

lemma json_unesc_rune:
  assumes "\<not> ascii_byte c" "rune_len (c # s) \<noteq> 0"
  shows "json_unesc (rune_esc (take (rune_len (c # s)) (c # s)) @ t) =
    prepend (take (rune_len (c # s)) (c # s)) (json_unesc t)"
  using json_unesc_literal_rune [OF assms, of t]
  by (simp add: rune_esc_def unesc_u_def hex_val_def is_surrogate_def utf8_encode_special)

lemma json_unesc_replacement:
  "json_unesc ((CHR 0x5C # ''ufffd'') @ t) = prepend replacement (json_unesc t)"
  by (simp add: unesc_u_def hex_val_def is_surrogate_def utf8_encode_special)

lemma json_unesc_esc: "json_unesc (json_esc s) = Some (utf8_fix s)"
proof (induction s rule: json_esc.induct)
  case (2 c s)
  then show ?case
    using json_unesc_replacement [of "json_esc s"]
    by (simp add: json_unesc_ascii json_unesc_rune del: json_unesc.simps)
qed simp

lemma json_esc_inj: "valid_utf8 s \<Longrightarrow> valid_utf8 t \<Longrightarrow> json_esc s = json_esc t \<Longrightarrow> s = t"
  by (metis json_unesc_esc option.inject utf8_fix_valid)

section \<open>Objects and arrays\<close>

definition json_commas :: "string list \<Rightarrow> string" where
  "json_commas xs = join_with '','' xs"

definition json_field :: "string \<times> string \<Rightarrow> string" where
  "json_field kv = json_string (fst kv) @ CHR '':'' # snd kv"

definition json_object :: "(string \<times> string) list \<Rightarrow> string" where
  "json_object kvs = CHR ''{'' # json_commas (map json_field kvs) @ ''}''"

definition json_array :: "string list \<Rightarrow> string" where
  "json_array xs = CHR ''['' # json_commas xs @ '']''"

definition json_bool :: "bool \<Rightarrow> string" where
  "json_bool b = (if b then ''true'' else ''false'')"

text \<open>
  The order of strings in Go is the order of their bytes; json.Marshal emits the keys of a map in
  that order, and slices.Sort sorts by it.
\<close>

fun str_less :: "string \<Rightarrow> string \<Rightarrow> bool" where
  "str_less _ [] = False"
| "str_less [] (c # t) = True"
| "str_less (c # s) (d # t) =
     ((of_char c :: nat) < of_char d \<or> (c = d \<and> str_less s t))"

fun ins_key :: "string \<times> 'v \<Rightarrow> (string \<times> 'v) list \<Rightarrow> (string \<times> 'v) list" where
  "ins_key kv [] = [kv]"
| "ins_key kv (p # m) = (if str_less (fst p) (fst kv) then p # ins_key kv m else kv # p # m)"

definition sort_keys :: "(string \<times> 'v) list \<Rightarrow> (string \<times> 'v) list" where
  "sort_keys m = foldr ins_key m []"

definition sort_strings :: "string list \<Rightarrow> string list" where
  "sort_strings xs = map fst (sort_keys (map (\<lambda>x. (x, ())) xs))"

fun str_sorted :: "string list \<Rightarrow> bool" where
  "str_sorted (x # y # r) = (\<not> str_less y x \<and> str_sorted (y # r))"
| "str_sorted _ = True"

lemma str_less_irrefl [simp]: "\<not> str_less s s"
  by (induction s) auto

lemma str_less_trans: "str_less s t \<Longrightarrow> str_less t u \<Longrightarrow> str_less s u"
  by (induction s t arbitrary: u rule: str_less.induct) (case_tac u; auto)+

lemma str_less_total: "str_less s t \<or> s = t \<or> str_less t s"
proof (induction s t rule: str_less.induct)
  case (3 c s d t)
  have "(of_char c :: nat) < of_char d \<or> c = d \<or> (of_char d :: nat) < of_char c"
    by (metis char_of_char linorder_neqE_nat)
  with 3 show ?case by auto
next
  case (1 s)
  then show ?case by (cases s) simp_all
qed simp

lemma str_less_asym: "str_less s t \<Longrightarrow> \<not> str_less t s"
  using str_less_trans str_less_irrefl by blast

lemma mset_ins_key [simp]: "mset (ins_key kv m) = add_mset kv (mset m)"
  by (induction m) auto

lemma mset_sort_keys [simp]: "mset (sort_keys m) = mset m"
  by (induction m) (simp_all add: sort_keys_def del: mset.simps(2), simp)

lemma set_sort_keys [simp]: "set (sort_keys m) = set m"
  by (metis mset_sort_keys set_mset_mset)

lemma length_sort_keys [simp]: "length (sort_keys m) = length m"
  by (metis mset_sort_keys size_mset)

definition key_le :: "string \<times> 'v \<Rightarrow> string \<times> 'v \<Rightarrow> bool" where
  "key_le p q = (\<not> str_less (fst q) (fst p))"

lemma key_le_trans: "key_le p q \<Longrightarrow> key_le q r \<Longrightarrow> key_le p r"
  unfolding key_le_def by (metis str_less_total str_less_trans)

lemma sorted_ins_key: "sorted_wrt key_le m \<Longrightarrow> sorted_wrt key_le (ins_key kv m)"
proof (induction m)
  case (Cons p m)
  have s: "set (ins_key kv m) = insert kv (set m)"
    by (metis mset_ins_key set_mset_add_mset_insert set_mset_mset)
  show ?case
  proof (cases "str_less (fst p) (fst kv)")
    case True
    then show ?thesis using Cons s by (auto simp: key_le_def dest: str_less_asym)
  next
    case False
    then have "key_le kv p" by (simp add: key_le_def)
    with False Cons.prems show ?thesis by (auto intro: key_le_trans)
  qed
qed simp

lemma sorted_sort_keys: "sorted_wrt key_le (sort_keys m)"
  by (induction m) (simp_all add: sort_keys_def sorted_ins_key)

lemma map_wf_sort_keys [simp]: "map_wf (sort_keys m) = map_wf m"
  unfolding map_wf_def by (metis mset_map mset_sort_keys mset_eq_imp_distinct_iff)

lemma map_of_sort_keys [simp]: "map_wf m \<Longrightarrow> map_of (sort_keys m) = map_of m"
  by (metis map_of_inject_set map_wf_def map_wf_sort_keys set_sort_keys)

lemma mset_sort_strings [simp]: "mset (sort_strings xs) = mset xs"
  by (simp add: sort_strings_def image_mset.compositionality comp_def)

lemma set_sort_strings [simp]: "set (sort_strings xs) = set xs"
  by (metis mset_sort_strings set_mset_mset)

lemma length_sort_strings [simp]: "length (sort_strings xs) = length xs"
  by (metis mset_sort_strings size_mset)

lemma distinct_sort_strings [simp]: "distinct (sort_strings xs) = distinct xs"
  by (metis mset_sort_strings mset_eq_imp_distinct_iff)

lemma sorted_wrt_set_unique:
  assumes "\<And>x y. R x y \<Longrightarrow> \<not> R y x"
  shows "sorted_wrt R xs \<Longrightarrow> sorted_wrt R ys \<Longrightarrow> set xs = set ys \<Longrightarrow> xs = ys"
proof (induction xs arbitrary: ys)
  case (Cons x xs)
  then obtain y ys' where y: "ys = y # ys'" by (cases ys) auto
  have "x = y"
    using Cons.prems assms unfolding y by (metis insert_iff list.simps(15) sorted_wrt.simps(2))
  moreover have "x \<notin> set xs" "y \<notin> set ys'"
    using Cons.prems assms unfolding y by (metis sorted_wrt.simps(2))+
  ultimately show ?case using Cons y by (metis insert_ident list.simps(15) sorted_wrt.simps(2))
qed simp

text \<open>Two maps with the same entries are sorted to the same list: JSON objects are canonical.\<close>

lemma strict_sort_keys:
  assumes "map_wf m" shows "sorted_wrt (\<lambda>p q. str_less (fst p) (fst q)) (sort_keys m)"
proof -
  have "sorted_wrt (\<lambda>p q. fst p \<noteq> fst q) (sort_keys m)"
    using assms map_wf_sort_keys [of m] unfolding map_wf_def
    by (simp add: distinct_conv_nth sorted_wrt_iff_nth_less)
  with sorted_sort_keys [of m] show ?thesis
    unfolding sorted_wrt_iff_nth_less key_le_def by (metis str_less_total)
qed

lemma sort_keys_canonical:
  assumes "map_wf m" "map_wf n" "set m = set n" shows "sort_keys m = sort_keys n"
  by (rule sorted_wrt_set_unique [OF _ strict_sort_keys strict_sort_keys])
     (use assms in \<open>auto dest: str_less_asym\<close>)

section \<open>Self-delimiting encodings\<close>

text \<open>An encoder is delimited on a set when its output can be cut off the front of any text.\<close>

definition delimited :: "('a \<Rightarrow> string) \<Rightarrow> 'a set \<Rightarrow> bool" where
  "delimited f A = (\<forall>x\<in>A. \<forall>y\<in>A. \<forall>r r'. f x @ r = f y @ r' \<longrightarrow> x = y \<and> r = r')"

lemma delimitedD:
  "delimited f A \<Longrightarrow> f x @ r = f y @ r' \<Longrightarrow> x \<in> A \<Longrightarrow> y \<in> A \<Longrightarrow> x = y \<and> r = r'"
  unfolding delimited_def by blast

fun str_end :: "string \<Rightarrow> string option" where
  "str_end [] = None"
| "str_end (c # s) =
     (if c = CHR 0x22 then Some s
      else if c = CHR 0x5C then (case s of [] \<Rightarrow> None | _ # s' \<Rightarrow> str_end s')
      else str_end s)"

lemma str_end_plain: "CHR 0x22 \<notin> set u \<Longrightarrow> CHR 0x5C \<notin> set u \<Longrightarrow> str_end (u @ t) = str_end t"
  by (induction u) auto

lemma hex_digit_plain: "d < 16 \<Longrightarrow> hex_digit d \<noteq> CHR 0x22" "d < 16 \<Longrightarrow> hex_digit d \<noteq> CHR 0x5C"
  by (drule of_char_hex_digit; auto split: if_splits)+

lemma str_end_ascii_esc: "str_end (ascii_esc c @ t) = str_end t"
  using ascii_nibbles [of c]
  by (simp add: ascii_esc_def ctl_esc_def Let_def hex_digit_plain)

lemma byte_in_high: "byte_in lo hi c \<Longrightarrow> 128 \<le> lo \<Longrightarrow> \<not> ascii_byte c"
  by (simp add: byte_in_def ascii_byte_def Let_def)

lemma rune_bytes2: "rune_len2 (c # s) \<Longrightarrow> \<exists>b r. s = b # r \<and> \<not> ascii_byte b"
  by (cases s) (auto dest: byte_in_high)

lemma rune_bytes3: "rune_len3 (c # s) \<Longrightarrow> \<exists>b d r. s = b # d # r \<and> \<not> ascii_byte b \<and> \<not> ascii_byte d"
  by (cases s; cases "tl s") (auto dest: byte_in_high split: if_splits)

lemma rune_bytes4: "rune_len4 (c # s) \<Longrightarrow>
    \<exists>b d e r. s = b # d # e # r \<and> \<not> ascii_byte b \<and> \<not> ascii_byte d \<and> \<not> ascii_byte e"
  by (cases s; cases "tl s"; cases "tl (tl s)") (auto dest: byte_in_high split: if_splits)

lemma rune_bytes_high:
  assumes "\<not> ascii_byte c" "x \<in> set (take (rune_len (c # s)) (c # s))"
  shows "\<not> ascii_byte x"
proof -
  consider (0) "rune_len (c # s) = 0" | (2) "rune_len2 (c # s)" "rune_len (c # s) = 2"
    | (3) "rune_len3 (c # s)" "rune_len (c # s) = 3" | (4) "rune_len4 (c # s)" "rune_len (c # s) = 4"
    unfolding rune_len_def by (cases "rune_len2 (c # s)"; cases "rune_len3 (c # s)"; cases "rune_len4 (c # s)") simp_all
  then show ?thesis
  proof cases
    case 0 with assms show ?thesis by simp
  next
    case 2 with assms rune_bytes2 [OF 2(1)] show ?thesis by auto
  next
    case 3 with assms rune_bytes3 [OF 3(1)] show ?thesis by auto
  next
    case 4 with assms rune_bytes4 [OF 4(1)] show ?thesis by auto
  qed
qed

lemma str_end_rune_esc:
  assumes "\<not> ascii_byte c"
  shows "str_end (rune_esc (take (rune_len (c # s)) (c # s)) @ t) = str_end t"
proof -
  let ?u = "take (rune_len (c # s)) (c # s)"
  have "CHR 0x22 \<notin> set ?u" "CHR 0x5C \<notin> set ?u"
    using rune_bytes_high [OF assms, of "CHR 0x22" s] rune_bytes_high [OF assms, of "CHR 0x5C" s]
    by (auto simp: ascii_byte_def)
  then have "str_end (?u @ t) = str_end t" by (rule str_end_plain)
  then show ?thesis by (simp add: rune_esc_def)
qed

lemma str_end_json_esc: "str_end (json_esc s @ CHR 0x22 # r) = Some r"
proof (induction s rule: json_esc.induct)
  case (2 c s)
  then show ?case
    by (auto simp: str_end_ascii_esc str_end_rune_esc)
qed simp

lemma delimited_json_string: "delimited json_string {s. valid_utf8 s}"
proof -
  have "s = t \<and> r = r'"
    if v: "valid_utf8 s" "valid_utf8 t" and e: "json_string s @ r = json_string t @ r'" for s t r r'
  proof -
    from e have e': "json_esc s @ CHR 0x22 # r = json_esc t @ CHR 0x22 # r'"
      by (simp add: json_string_def)
    then have "Some r = Some r'" using str_end_json_esc by metis
    then have "r = r'" by simp
    with e' have "json_esc s = json_esc t" by simp
    with v \<open>r = r'\<close> show ?thesis by (auto intro: json_esc_inj)
  qed
  then show ?thesis unfolding delimited_def by blast
qed

lemma json_string_inj: "valid_utf8 s \<Longrightarrow> valid_utf8 t \<Longrightarrow> json_string s = json_string t \<Longrightarrow> s = t"
  by (auto simp: json_string_def intro: json_esc_inj)

lemma delimited_json_field:
  assumes "delimited f A"
  shows "delimited (\<lambda>p. json_field (fst p, f (snd p))) ({k. valid_utf8 k} \<times> A)"
  unfolding delimited_def
proof (intro ballI allI impI)
  fix p q r r'
  assume A: "p \<in> {k. valid_utf8 k} \<times> A" "q \<in> {k. valid_utf8 k} \<times> A"
    and "json_field (fst p, f (snd p)) @ r = json_field (fst q, f (snd q)) @ r'"
  then have "json_string (fst p) @ CHR '':'' # f (snd p) @ r = json_string (fst q) @ CHR '':'' # f (snd q) @ r'"
    by (simp add: json_field_def)
  from delimitedD [OF delimited_json_string this] A
  have 1: "fst p = fst q" "f (snd p) @ r = f (snd q) @ r'" by auto
  from delimitedD [OF assms 1(2)] A 1(1) show "p = q \<and> r = r'" by (auto simp: prod_eq_iff)
qed

lemma json_commas_Cons:
  "json_commas (x # xs) = x @ (if xs = [] then [] else CHR '','' # json_commas xs)"
  by (cases xs) (simp_all add: json_commas_def)

lemma delimited_json_commas:
  assumes f: "delimited f A" and q: "\<And>x. x \<in> A \<Longrightarrow> f x \<noteq> [] \<and> hd (f x) \<noteq> e" and e: "e \<noteq> CHR '',''"
  shows "set xs \<subseteq> A \<Longrightarrow> set ys \<subseteq> A \<Longrightarrow>
    json_commas (map f xs) @ e # r = json_commas (map f ys) @ e # r' \<Longrightarrow> xs = ys \<and> r = r'"
proof (induction xs arbitrary: ys)
  case Nil
  show ?case
  proof (cases ys)
    case (Cons y ys')
    with Nil q [of y] show ?thesis
      by (cases "f y") (auto simp: json_commas_Cons json_commas_def [of "[]"])
  qed (use Nil in \<open>simp add: json_commas_def\<close>)
next
  case (Cons x xs)
  show ?case
  proof (cases ys)
    case Nil
    with Cons.prems q [of x] show ?thesis
      by (cases "f x") (auto simp: json_commas_Cons json_commas_def [of "[]"])
  next
    case y: (Cons y ys')
    have "f x @ (if xs = [] then e # r else CHR '','' # json_commas (map f xs) @ e # r) =
       f y @ (if ys' = [] then e # r' else CHR '','' # json_commas (map f ys') @ e # r')"
      using Cons.prems(3) by (auto simp: y json_commas_Cons split: if_splits)
    from delimitedD [OF f this] Cons.prems(1,2) have "x = y" and
      "(if xs = [] then e # r else CHR '','' # json_commas (map f xs) @ e # r) =
       (if ys' = [] then e # r' else CHR '','' # json_commas (map f ys') @ e # r')"
      by (auto simp: y)
    with e Cons.IH [of ys'] Cons.prems(1,2) show ?thesis by (auto simp: y split: if_splits)
  qed
qed

lemma delimited_json_object:
  assumes "delimited f A"
  shows "delimited (\<lambda>m. json_object (map (\<lambda>(k, v). (k, f v)) m)) {m. set m \<subseteq> {k. valid_utf8 k} \<times> A}"
  unfolding delimited_def
proof (intro ballI allI impI)
  let ?g = "\<lambda>p. json_field (fst p, f (snd p))"
  fix m n r r'
  assume A: "m \<in> {m. set m \<subseteq> {k. valid_utf8 k} \<times> A}" "n \<in> {m. set m \<subseteq> {k. valid_utf8 k} \<times> A}"
    and "json_object (map (\<lambda>(k, v). (k, f v)) m) @ r = json_object (map (\<lambda>(k, v). (k, f v)) n) @ r'"
  then have "json_commas (map ?g m) @ CHR ''}'' # r = json_commas (map ?g n) @ CHR ''}'' # r'"
    by (simp add: json_object_def case_prod_unfold comp_def)
  moreover have "?g p \<noteq> [] \<and> hd (?g p) \<noteq> CHR ''}''" for p
    by (simp add: json_field_def json_string_def)
  ultimately show "m = n \<and> r = r'"
    using A by (intro delimited_json_commas [OF delimited_json_field [OF assms]]) auto
qed

end
