(* ===== verification/Identifiers.thy ===== *)
theory Identifiers
  imports GoJson
begin

text \<open>
  internal/identifiers: the validator every label, name and identifier of a request goes through.
  The forbidden-fragment loop of the code is kept although, as \<open>safe_identifier_iff\<close> shows, the
  pattern alone already implies it.
\<close>

definition is_alpha :: "char \<Rightarrow> bool" where
  "is_alpha c = (let n = (of_char c :: nat) in 65 \<le> n \<and> n \<le> 90 \<or> 97 \<le> n \<and> n \<le> 122)"

definition ident_head :: "char \<Rightarrow> bool" where
  "ident_head c = (is_alpha c \<or> is_digit c)"

definition ident_tail :: "char \<Rightarrow> bool" where
  "ident_tail c = (is_alpha c \<or> is_digit c \<or> c \<in> set ''._:-'')"

definition safeIdentifierPattern :: "string \<Rightarrow> bool" where
  "safeIdentifierPattern s = (case s of [] \<Rightarrow> False
     | c # r \<Rightarrow> ident_head c \<and> length r \<le> 63 \<and> list_all ident_tail r)"

definition forbidden_chars :: string where
  "forbidden_chars =
     [CHR 0x2F, CHR 0x5C, CHR 0x7E, CHR 0x24, CHR 0x60, CHR 0x3B, CHR 0x7C, CHR 0x26, CHR 0x3E,
      CHR 0x3C, CHR 0x28, CHR 0x29, CHR 0x7B, CHR 0x7D, CHR 0x5B, CHR 0x5D, CHR 0x2A, CHR 0x3F,
      CHR 0x21, CHR 0x22, CHR 0x27]"

definition forbidden_fragments :: "string list" where
  "forbidden_fragments = map (\<lambda>c. [c]) forbidden_chars"

text \<open>The error value: None is nil, Some the message of fmt.Errorf.\<close>

definition ValidateSafeIdentifier :: "string \<Rightarrow> string \<Rightarrow> string option" where
  "ValidateSafeIdentifier fieldName rawValue = (let trimmedValue = trim_space rawValue in
     if trimmedValue = [] then Some (fieldName @ '' is required'')
     else if length trimmedValue > 64 then Some (fieldName @ '' exceeds maximum length'')
     else if str_contains trimmedValue ''..'' then Some (fieldName @ '' contains traversal pattern'')
     else if list_ex (str_contains trimmedValue) forbidden_fragments
       then Some (fieldName @ '' contains forbidden characters'')
     else if \<not> safeIdentifierPattern trimmedValue
       then Some (fieldName @ '' must match ^[A-Za-z0-9][A-Za-z0-9._:-]{0,63}$'')
     else None)"

definition safe_identifier :: "string \<Rightarrow> bool" where
  "safe_identifier s = (safeIdentifierPattern s \<and> \<not> str_contains s ''..'')"

lemma ident_tail_not_forbidden:
  "ident_tail c \<Longrightarrow> c \<notin> set forbidden_chars"
  by (auto simp: ident_tail_def is_alpha_def is_digit_def forbidden_chars_def Let_def)

lemma ident_head_tail: "ident_head c \<Longrightarrow> ident_tail c"
  by (auto simp: ident_head_def ident_tail_def)

lemma pattern_chars: "safeIdentifierPattern s \<Longrightarrow> c \<in> set s \<Longrightarrow> ident_tail c"
  by (auto simp: safeIdentifierPattern_def list_all_iff intro: ident_head_tail split: list.splits)

lemma pattern_no_forbidden:
  assumes "safeIdentifierPattern s" shows "\<not> list_ex (str_contains s) forbidden_fragments"
proof -
  have "c \<notin> set s" if "c \<in> set forbidden_chars" for c
    using that assms pattern_chars ident_tail_not_forbidden by blast
  then show ?thesis by (simp add: list_ex_iff forbidden_fragments_def str_contains_single)
qed

lemma safe_identifier_iff:
  "ValidateSafeIdentifier f v = None \<longleftrightarrow> safe_identifier (trim_space v)"
proof -
  have "safeIdentifierPattern s \<Longrightarrow> s \<noteq> [] \<and> length s \<le> 64" for s
    by (cases s) (simp_all add: safeIdentifierPattern_def)
  then show ?thesis
    using pattern_no_forbidden [of "trim_space v"]
    by (force simp: ValidateSafeIdentifier_def safe_identifier_def Let_def)
qed

lemma ident_tail_graphic: "ident_tail c \<Longrightarrow> graphic c \<and> ascii_byte c"
  by (auto simp: ident_tail_def is_alpha_def is_digit_def graphic_def ascii_byte_def Let_def)

lemma safe_identifier_valid_utf8: "safe_identifier s \<Longrightarrow> valid_utf8 s"
  by (rule valid_utf8_ascii)
     (auto simp: list_all_iff safe_identifier_def dest: pattern_chars ident_tail_graphic)

lemma safe_identifier_trim: "safe_identifier s \<Longrightarrow> trim_space s = s"
proof (rule trim_space_graphic)
  assume "safe_identifier s"
  then have "\<forall>c\<in>set s. graphic c"
    by (auto simp: safe_identifier_def dest: pattern_chars ident_tail_graphic)
  then show "s = [] \<or> graphic (hd s) \<and> graphic (last s)" by auto
qed

end
