(* ===== verification/PolicyConfig.thy ===== *)
theory PolicyConfig
  imports GoPaths Identifiers
begin

text \<open>
  internal/config/policy.go and policy_operator_overrides.go: the policy document after YAML
  decoding, the normalisers of its lists, and the defaults and checks a loaded policy goes through.
  The environment gives the home directory (os.UserHomeDir) and the Unicode case table.
\<close>

section \<open>The policy document\<close>

record claude_code_tool_policy =
  ct_Enabled :: "bool option"
  ct_RequiresApproval :: "bool option"
  ct_AllowedRoots :: "string list"
  ct_DeniedPaths :: "string list"
  ct_AllowedDomains :: "string list"
  ct_AllowedCommandPrefixes :: "string list"
  ct_DeniedCommandPrefixes :: "string list"

record claude_code_policy =
  DenyUnknownTools :: "bool option"
  ToolPolicies :: "(string, claude_code_tool_policy) gomap"

record secret_ref =
  ref_ID :: string
  ref_Backend :: string
  ref_AccountName :: string
  ref_Scope :: string

record mcp_tool_policy =
  mt_Enabled :: "bool option"
  mt_RequiresApproval :: "bool option"
  mt_RequiredArguments :: "string list"
  mt_AllowedArguments :: "string list"
  mt_DeniedArguments :: "string list"
  mt_ArgumentValueKinds :: "(string, string) gomap"

record mcp_server_policy =
  ms_Enabled :: "bool option"
  ms_RequiresApproval :: "bool option"
  ms_Transport :: string
  ms_LaunchCommand :: string
  ms_LaunchArgs :: "string list"
  ms_WorkingDirectory :: string
  ms_AllowedEnvironment :: "string list"
  ms_SecretEnvironment :: "(string, secret_ref) gomap"
  ms_ToolPolicies :: "(string, mcp_tool_policy) gomap"

record mcp_gateway_policy =
  DenyUnknownServers :: "bool option"
  Servers :: "(string, mcp_server_policy) gomap"

record filesystem_policy =
  ReadEnabled :: bool
  WriteEnabled :: bool
  WriteRequiresApproval :: bool
  fs_AllowedRoots :: "string list"
  fs_DeniedPaths :: "string list"

record http_policy =
  http_Enabled :: bool
  http_AllowedDomains :: "string list"
  http_RequiresApproval :: bool
  http_TimeoutSeconds :: int

record shell_policy =
  sh_Enabled :: bool
  sh_AllowedCommands :: "string list"
  sh_RequiresApproval :: bool

text \<open>Classes maps an override class to its MaxDelegation; None is the nil map.\<close>

record policy =
  pol_Version :: string
  ClaudeCode :: claude_code_policy
  MCPGateway :: mcp_gateway_policy
  Filesystem :: filesystem_policy
  HTTP :: http_policy
  Shell :: shell_policy
  Classes :: "(string, string) gomap option"
  LogCommands :: bool
  LogToolCalls :: bool
  HookProjectionLevel :: string
  AllowPersonaModification :: bool
  AllowPolicyModification :: bool

section \<open>Normalisers\<close>

record config_env =
  home_dir :: "string option"  \<comment> \<open>None: os.UserHomeDir fails\<close>
  uni_lower :: "string \<Rightarrow> string"

datatype policy_error =
    UnsupportedTool string
  | BadIdentifier string
  | BadTransport
  | LaunchCommandRequired
  | CommandNotSingle
  | CommandInvalid string
  | EnvNameRequired
  | EnvNameInvalid
  | SecretRefInvalid string
  | ArgumentNameInvalid string
  | ValueKindInvalid string
  | UnsupportedClass string
  | BadDelegation string
  | RootsRequired
  | CommandsRequired
  | BadProjectionLevel
  | InServer string string policy_error  \<comment> \<open>server id, field path\<close>

text \<open>
  The loops that build a list without blanks and duplicates: \<open>f\<close> rejects an entry, skips it, or
  gives its normal form; the list built so far is also the set of seen entries.
\<close>

fun dedup_loop :: "(string \<Rightarrow> 'e + string option) \<Rightarrow> string list \<Rightarrow> string list \<Rightarrow> 'e + string list" where
  "dedup_loop f acc [] = Inr acc"
| "dedup_loop f acc (x # xs) = (case f x of
     Inl e \<Rightarrow> Inl e
   | Inr None \<Rightarrow> dedup_loop f acc xs
   | Inr (Some y) \<Rightarrow> if y \<in> set acc then dedup_loop f acc xs else dedup_loop f (acc @ [y]) xs)"

definition ok_list :: "'e + string list \<Rightarrow> string list" where
  "ok_list r = (case r of Inl _ \<Rightarrow> [] | Inr ys \<Rightarrow> ys)"

definition expandHomePrefix :: "config_env \<Rightarrow> string \<Rightarrow> string" where
  "expandHomePrefix env pathValue =
     (if pathValue = ''~'' then
        (case home_dir env of Some h \<Rightarrow> if h \<noteq> [] then h else pathValue | None \<Rightarrow> pathValue)
      else if has_prefix pathValue ''~/'' then
        (case home_dir env of
           Some h \<Rightarrow> if h \<noteq> [] then filepath_join [h, drop 2 pathValue] else pathValue
         | None \<Rightarrow> pathValue)
      else pathValue)"

definition normalizeConfiguredPaths :: "config_env \<Rightarrow> string list \<Rightarrow> string list" where
  "normalizeConfiguredPaths env rawPaths =
     map (expandHomePrefix env) (filter (\<lambda>t. t \<noteq> []) (map trim_space rawPaths))"

definition domain_entry :: "config_env \<Rightarrow> string \<Rightarrow> policy_error + string option" where
  "domain_entry env rawDomain = (let trimmedDomain = to_lower (uni_lower env) (trim_space rawDomain) in
     if trimmedDomain = [] then Inr None else Inr (Some trimmedDomain))"

definition normalizeConfiguredDomains :: "config_env \<Rightarrow> string list \<Rightarrow> string list" where
  "normalizeConfiguredDomains env rawDomains = ok_list (dedup_loop (domain_entry env) [] rawDomains)"

definition prefix_entry :: "string \<Rightarrow> policy_error + string option" where
  "prefix_entry rawPrefix = (let trimmedPrefix = trim_space rawPrefix in
     if trimmedPrefix = [] then Inr None else Inr (Some trimmedPrefix))"

definition normalizeConfiguredPrefixes :: "string list \<Rightarrow> string list" where
  "normalizeConfiguredPrefixes rawPrefixes = ok_list (dedup_loop prefix_entry [] rawPrefixes)"

definition normalizeNonEmptyStrings :: "string list \<Rightarrow> string list" where
  "normalizeNonEmptyStrings rawValues = filter (\<lambda>t. t \<noteq> []) (map trim_space rawValues)"

definition normalizeOptionalConfiguredPath :: "config_env \<Rightarrow> string \<Rightarrow> string" where
  "normalizeOptionalConfiguredPath env rawPath = (let trimmedPath = trim_space rawPath in
     if trimmedPath = [] then []
     else (case normalizeConfiguredPaths env [trimmedPath] of [] \<Rightarrow> [] | p # _ \<Rightarrow> p))"

definition command_entry :: "string \<Rightarrow> policy_error + string option" where
  "command_entry rawCommand = (let trimmedCommand = trim_space rawCommand in
     if trimmedCommand = [] then Inr None
     else if list_ex (\<lambda>c. c \<in> set trimmedCommand) [CHR '' '', CHR 0x09, CHR 0x0D, CHR 0x0A]
     then Inl CommandNotSingle
     else (let cleanedCommand = filepath_clean trimmedCommand in
       if cleanedCommand = ''.'' \<or> cleanedCommand = ''..'' then Inl (CommandInvalid rawCommand)
       else Inr (Some cleanedCommand)))"

definition normalizeConfiguredCommandAllowlist :: "string list \<Rightarrow> policy_error + string list" where
  "normalizeConfiguredCommandAllowlist rawCommands = dedup_loop command_entry [] rawCommands"

definition env_head :: "char \<Rightarrow> bool" where
  "env_head c = (is_alpha c \<or> c = CHR ''_'')"

definition environmentVariablePattern :: "string \<Rightarrow> bool" where
  "environmentVariablePattern s = (case s of [] \<Rightarrow> False
     | c # r \<Rightarrow> env_head c \<and> length r \<le> 127 \<and> list_all (\<lambda>d. env_head d \<or> is_digit d) r)"

definition mcpGatewayArgumentNamePattern :: "string \<Rightarrow> bool" where
  "mcpGatewayArgumentNamePattern s = (case s of [] \<Rightarrow> False
     | c # r \<Rightarrow> env_head c \<and> length r \<le> 127 \<and>
         list_all (\<lambda>d. env_head d \<or> is_digit d \<or> d = CHR ''.'' \<or> d = CHR ''-'') r)"

definition validateEnvironmentVariableName :: "string \<Rightarrow> policy_error option" where
  "validateEnvironmentVariableName environmentVariableName =
    (let trimmedName = trim_space environmentVariableName in
     if trimmedName = [] then Some EnvNameRequired
     else if \<not> environmentVariablePattern trimmedName then Some EnvNameInvalid else None)"

definition env_entry :: "string \<Rightarrow> policy_error + string option" where
  "env_entry rawName = (let trimmedName = trim_space rawName in
     if trimmedName = [] then Inr None
     else (case validateEnvironmentVariableName trimmedName of Some e \<Rightarrow> Inl e
       | None \<Rightarrow> Inr (Some trimmedName)))"

definition normalizeConfiguredEnvironmentVariableNames :: "string list \<Rightarrow> policy_error + string list" where
  "normalizeConfiguredEnvironmentVariableNames rawNames = dedup_loop env_entry [] rawNames"

text \<open>slices.Compact replaces each run of equal elements by one.\<close>

fun slices_compact :: "'a list \<Rightarrow> 'a list" where
  "slices_compact (x # y # r) = (if x = y then slices_compact (y # r) else x # slices_compact (y # r))"
| "slices_compact xs = xs"

definition normalizeConfiguredMCPGatewayArgumentNames :: "string list \<Rightarrow> policy_error + string list" where
  "normalizeConfiguredMCPGatewayArgumentNames argumentNames =
    (let ns = slices_compact (normalizeNonEmptyStrings argumentNames) in
     case find (\<lambda>n. \<not> mcpGatewayArgumentNamePattern n) ns of
       Some n \<Rightarrow> Inl (ArgumentNameInvalid n) | None \<Rightarrow> Inr ns)"

definition supportedMCPGatewayArgumentValueKinds :: "string list" where
  "supportedMCPGatewayArgumentValueKinds =
     [''string'', ''number'', ''boolean'', ''object'', ''array'', ''null'']"

fun value_kinds_loop :: "(string, string) gomap \<Rightarrow> (string, string) gomap \<Rightarrow>
    policy_error + (string, string) gomap" where
  "value_kinds_loop acc [] = Inr acc"
| "value_kinds_loop acc ((rawArgumentName, rawValueKind) # rest) =
    (let argumentName = trim_space rawArgumentName; valueKind = trim_space rawValueKind in
     if \<not> mcpGatewayArgumentNamePattern argumentName then Inl (ArgumentNameInvalid rawArgumentName)
     else if valueKind \<notin> set supportedMCPGatewayArgumentValueKinds then Inl (ValueKindInvalid rawValueKind)
     else value_kinds_loop (mput argumentName valueKind acc) rest)"

definition normalizeConfiguredMCPGatewayArgumentValueKinds ::
    "(string, string) gomap \<Rightarrow> policy_error + (string, string) gomap" where
  "normalizeConfiguredMCPGatewayArgumentValueKinds argumentValueKinds =
     (if length argumentValueKinds = 0 then Inr [] else value_kinds_loop [] argumentValueKinds)"

section \<open>Defaults\<close>

definition supportedClaudeCodeToolPolicyNames :: "string list" where
  "supportedClaudeCodeToolPolicyNames = [''Bash'', ''Write'', ''Edit'', ''MultiEdit'', ''Read'',
     ''Glob'', ''Grep'', ''WebFetch'', ''WebSearch'']"

definition supportedMCPGatewayTransportNames :: "string list" where
  "supportedMCPGatewayTransportNames = [''stdio'']"

text \<open>A range loop that rewrites the value of every key or stops at the first error.\<close>

fun map_entries :: "('k \<Rightarrow> 'v \<Rightarrow> 'e + 'v) \<Rightarrow> ('k, 'v) gomap \<Rightarrow> 'e + ('k, 'v) gomap" where
  "map_entries f [] = Inr []"
| "map_entries f ((k, v) # m) =
     bindr (f k v) (\<lambda>v'. bindr (map_entries f m) (\<lambda>m'. Inr ((k, v') # m')))"

definition claude_tool_defaults :: "config_env \<Rightarrow> string \<Rightarrow> claude_code_tool_policy \<Rightarrow>
    policy_error + claude_code_tool_policy" where
  "claude_tool_defaults env toolName toolPolicy =
    (if toolName \<notin> set supportedClaudeCodeToolPolicyNames then Inl (UnsupportedTool toolName)
     else Inr (toolPolicy\<lparr>
       ct_AllowedRoots := normalizeConfiguredPaths env (ct_AllowedRoots toolPolicy),
       ct_DeniedPaths := normalizeConfiguredPaths env (ct_DeniedPaths toolPolicy),
       ct_AllowedDomains := normalizeConfiguredDomains env (ct_AllowedDomains toolPolicy),
       ct_AllowedCommandPrefixes := normalizeConfiguredPrefixes (ct_AllowedCommandPrefixes toolPolicy),
       ct_DeniedCommandPrefixes := normalizeConfiguredPrefixes (ct_DeniedCommandPrefixes toolPolicy)\<rparr>))"

definition applyClaudeCodePolicyDefaults :: "config_env \<Rightarrow> claude_code_policy \<Rightarrow>
    policy_error + claude_code_policy" where
  "applyClaudeCodePolicyDefaults env pol =
     bindr (map_entries (claude_tool_defaults env) (ToolPolicies pol))
       (\<lambda>m. Inr (pol\<lparr>ToolPolicies := m\<rparr>))"

definition identifier_check :: "string \<Rightarrow> string \<Rightarrow> policy_error + unit" where
  "identifier_check f v = check (map_option BadIdentifier (ValidateSafeIdentifier f v))"

definition SecretRef_Validate :: "secret_ref \<Rightarrow> policy_error + unit" where
  "SecretRef_Validate ref = wrap_error (\<lambda>e. case e of BadIdentifier m \<Rightarrow> SecretRefInvalid m | _ \<Rightarrow> e)
    (bindr (identifier_check ''secret ref id'' (ref_ID ref)) (\<lambda>_.
     bindr (identifier_check ''secret backend'' (ref_Backend ref)) (\<lambda>_.
     bindr (identifier_check ''secret account name'' (ref_AccountName ref)) (\<lambda>_.
     identifier_check ''secret scope'' (ref_Scope ref)))))"

fun secret_env_loop :: "(string, secret_ref) gomap \<Rightarrow> (string, secret_ref) gomap \<Rightarrow>
    policy_error + (string, secret_ref) gomap" where
  "secret_env_loop acc [] = Inr acc"
| "secret_env_loop acc ((name, ref) # rest) =
     bindr (check (validateEnvironmentVariableName name)) (\<lambda>_.
     bindr (SecretRef_Validate ref) (\<lambda>_.
     secret_env_loop (mput (trim_space name) ref acc) rest))"

definition mcp_tool_defaults :: "string \<Rightarrow> mcp_tool_policy \<Rightarrow> policy_error + mcp_tool_policy" where
  "mcp_tool_defaults toolName toolPolicy =
     bindr (identifier_check ''mcp gateway tool'' toolName) (\<lambda>_.
     bindr (normalizeConfiguredMCPGatewayArgumentNames (mt_RequiredArguments toolPolicy)) (\<lambda>req.
     bindr (normalizeConfiguredMCPGatewayArgumentNames (mt_AllowedArguments toolPolicy)) (\<lambda>allowed.
     bindr (normalizeConfiguredMCPGatewayArgumentNames (mt_DeniedArguments toolPolicy)) (\<lambda>denied.
     bindr (normalizeConfiguredMCPGatewayArgumentValueKinds (mt_ArgumentValueKinds toolPolicy)) (\<lambda>kinds.
     Inr (toolPolicy\<lparr>mt_RequiredArguments := req, mt_AllowedArguments := allowed,
       mt_DeniedArguments := denied, mt_ArgumentValueKinds := kinds\<rparr>))))))"

definition mcp_server_defaults :: "config_env \<Rightarrow> string \<Rightarrow> mcp_server_policy \<Rightarrow>
    policy_error + mcp_server_policy" where
  "mcp_server_defaults env serverID serverPolicy =
     bindr (identifier_check ''tools.mcp_gateway.servers key'' serverID) (\<lambda>_.
     (let trimmedTransport = (if trim_space (ms_Transport serverPolicy) = [] then ''stdio''
                              else trim_space (ms_Transport serverPolicy)) in
     if trimmedTransport \<notin> set supportedMCPGatewayTransportNames
     then Inl (InServer serverID ''transport'' BadTransport)
     else
     bindr (wrap_error (InServer serverID ''launch.command'')
        (normalizeConfiguredCommandAllowlist [ms_LaunchCommand serverPolicy])) (\<lambda>cmds.
     if length cmds \<noteq> 1 then Inl (InServer serverID ''launch.command'' LaunchCommandRequired)
     else
     bindr (wrap_error (InServer serverID ''allowed_environment'')
        (normalizeConfiguredEnvironmentVariableNames (ms_AllowedEnvironment serverPolicy))) (\<lambda>envs.
     bindr (wrap_error (InServer serverID ''secret_environment'')
        (secret_env_loop [] (ms_SecretEnvironment serverPolicy))) (\<lambda>secrets.
     bindr (wrap_error (InServer serverID ''tool_policies'')
        (map_entries mcp_tool_defaults (ms_ToolPolicies serverPolicy))) (\<lambda>tools.
     Inr (serverPolicy\<lparr>ms_Transport := trimmedTransport, ms_LaunchCommand := hd cmds,
       ms_LaunchArgs := normalizeNonEmptyStrings (ms_LaunchArgs serverPolicy),
       ms_WorkingDirectory := normalizeOptionalConfiguredPath env (ms_WorkingDirectory serverPolicy),
       ms_AllowedEnvironment := envs, ms_SecretEnvironment := secrets,
       ms_ToolPolicies := tools\<rparr>)))))))"

definition applyMCPGatewayPolicyDefaults :: "config_env \<Rightarrow> mcp_gateway_policy \<Rightarrow>
    policy_error + mcp_gateway_policy" where
  "applyMCPGatewayPolicyDefaults env pol =
     bindr (map_entries (mcp_server_defaults env) (Servers pol)) (\<lambda>m. Inr (pol\<lparr>Servers := m\<rparr>))"

definition supportedOperatorOverrideClasses :: "string list" where
  "supportedOperatorOverrideClasses = [''repo_read_search'', ''repo_edit_safe'',
     ''repo_write_safe'', ''repo_bash_safe'', ''web_access_trusted'']"

definition supportedOperatorOverrideDelegations :: "string list" where
  "supportedOperatorOverrideDelegations = [''none'', ''session'', ''persistent'']"

definition override_class_defaults :: "string \<Rightarrow> string \<Rightarrow> policy_error + string" where
  "override_class_defaults className classDelegation =
    (if className \<notin> set supportedOperatorOverrideClasses then Inl (UnsupportedClass className)
     else (let maxDelegation = (if trim_space classDelegation = [] then ''none''
                                else trim_space classDelegation) in
       if maxDelegation \<notin> set supportedOperatorOverrideDelegations then Inl (BadDelegation className)
       else Inr maxDelegation))"

definition applyOperatorOverridePolicyDefaults :: "(string, string) gomap option \<Rightarrow>
    policy_error + (string, string) gomap option" where
  "applyOperatorOverridePolicyDefaults classes = (case classes of None \<Rightarrow> Inr (Some [])
     | Some m \<Rightarrow> bindr (map_entries override_class_defaults m) (\<lambda>m'. Inr (Some m')))"

definition applyPolicyDefaults :: "config_env \<Rightarrow> policy \<Rightarrow> policy_error + policy" where
  "applyPolicyDefaults env pol =
     bindr (applyClaudeCodePolicyDefaults env (ClaudeCode pol)) (\<lambda>claude.
     bindr (applyMCPGatewayPolicyDefaults env (MCPGateway pol)) (\<lambda>mcp.
     bindr (applyOperatorOverridePolicyDefaults (Classes pol)) (\<lambda>classes.
     (let roots = normalizeConfiguredPaths env (fs_AllowedRoots (Filesystem pol)) in
     if (ReadEnabled (Filesystem pol) \<or> WriteEnabled (Filesystem pol)) \<and> length roots = 0
     then Inl RootsRequired
     else
     bindr (normalizeConfiguredCommandAllowlist (sh_AllowedCommands (Shell pol))) (\<lambda>cmds.
     if sh_Enabled (Shell pol) \<and> length cmds = 0 then Inl CommandsRequired
     else
     (let level = trim_space (HookProjectionLevel pol) in
     if level \<notin> {[], ''full'', ''minimal''} then Inl BadProjectionLevel
     else Inr (pol\<lparr>
       pol_Version := (if pol_Version pol = [] then ''0.1.0'' else pol_Version pol),
       ClaudeCode := claude, MCPGateway := mcp, Classes := classes,
       Filesystem := (Filesystem pol)\<lparr>fs_AllowedRoots := roots,
         fs_DeniedPaths := normalizeConfiguredPaths env (fs_DeniedPaths (Filesystem pol))\<rparr>,
       Shell := (Shell pol)\<lparr>sh_AllowedCommands := cmds\<rparr>,
       HTTP := (HTTP pol)\<lparr>http_TimeoutSeconds := (if http_TimeoutSeconds (HTTP pol) \<le> 0 then 10
                                                else http_TimeoutSeconds (HTTP pol))\<rparr>,
       HookProjectionLevel := (if level = ''minimal'' then ''minimal'' else ''full'')\<rparr>)))))))"

section \<open>Accessors\<close>

definition ClaudeCodeDenyUnknownTools :: "policy \<Rightarrow> bool" where
  "ClaudeCodeDenyUnknownTools p = (case DenyUnknownTools (ClaudeCode p) of None \<Rightarrow> True | Some b \<Rightarrow> b)"

definition ClaudeCodeToolPolicy :: "policy \<Rightarrow> string \<Rightarrow> claude_code_tool_policy option" where
  "ClaudeCodeToolPolicy p toolName = map_of (ToolPolicies (ClaudeCode p)) toolName"

definition MCPGatewayDenyUnknownServers :: "policy \<Rightarrow> bool" where
  "MCPGatewayDenyUnknownServers p =
     (case DenyUnknownServers (MCPGateway p) of None \<Rightarrow> True | Some b \<Rightarrow> b)"

definition MCPGatewayServerPolicy :: "policy \<Rightarrow> string \<Rightarrow> mcp_server_policy option" where
  "MCPGatewayServerPolicy p serverID = map_of (Servers (MCPGateway p)) serverID"

definition HookAuditProjectionLevel :: "policy \<Rightarrow> string" where
  "HookAuditProjectionLevel p = (let level = trim_space (HookProjectionLevel p) in
     if level = [] then ''full'' else level)"

definition HookAuditProjectionIncludesPreviews :: "policy \<Rightarrow> bool" where
  "HookAuditProjectionIncludesPreviews p = (HookAuditProjectionLevel p = ''full'')"

definition claudeCodeToolOperatorOverrideClasses :: "(string, string) gomap" where
  "claudeCodeToolOperatorOverrideClasses =
     [(''Read'', ''repo_read_search''), (''Glob'', ''repo_read_search''),
      (''Grep'', ''repo_read_search''), (''Edit'', ''repo_edit_safe''),
      (''MultiEdit'', ''repo_edit_safe''), (''Write'', ''repo_write_safe''),
      (''Bash'', ''repo_bash_safe''), (''WebFetch'', ''web_access_trusted''),
      (''WebSearch'', ''web_access_trusted'')]"

definition ClaudeCodeToolOperatorOverrideClass :: "string \<Rightarrow> string option" where
  "ClaudeCodeToolOperatorOverrideClass toolName =
     map_of claudeCodeToolOperatorOverrideClasses (trim_space toolName)"

text \<open>The Boolean of the Go function is whether the class was found.\<close>

definition OperatorOverrideClassPolicy :: "policy \<Rightarrow> string \<Rightarrow> string \<times> bool" where
  "OperatorOverrideClassPolicy p className =
    (case map_of (case Classes p of None \<Rightarrow> [] | Some m \<Rightarrow> m) (trim_space className) of
       None \<Rightarrow> (''none'', False)
     | Some maxDelegation \<Rightarrow>
         (if trim_space maxDelegation = [] then ''none'' else maxDelegation, True))"

definition OperatorOverrideMaxDelegation :: "policy \<Rightarrow> string \<Rightarrow> string" where
  "OperatorOverrideMaxDelegation p className =
    (case OperatorOverrideClassPolicy p className of
       (d, found) \<Rightarrow> if \<not> found then ''none'' else d)"

definition ClaudeCodeToolOperatorOverride :: "policy \<Rightarrow> string \<Rightarrow> string \<times> string \<times> bool" where
  "ClaudeCodeToolOperatorOverride p toolName =
    (case ClaudeCodeToolOperatorOverrideClass toolName of
       None \<Rightarrow> ([], ''none'', False)
     | Some overrideClass \<Rightarrow> (overrideClass, OperatorOverrideMaxDelegation p overrideClass, True))"

section \<open>Deduplicating normalisers\<close>

lemma dedup_loop_result:
  "dedup_loop f acc xs = Inr ys \<Longrightarrow> distinct acc \<Longrightarrow>
     distinct ys \<and> set ys = set acc \<union> {y. \<exists>x\<in>set xs. f x = Inr (Some y)}"
proof (induction xs arbitrary: acc)
  case (Cons x xs)
  obtain o' where f: "f x = Inr o'" using Cons.prems(1) by (cases "f x") auto
  show ?case
  proof (cases o')
    case None
    then show ?thesis using Cons.IH [of acc] Cons.prems f by auto
  next
    case (Some y)
    show ?thesis
    proof (cases "y \<in> set acc")
      case True
      then have "dedup_loop f acc xs = Inr ys" using Cons.prems f Some by simp
      from Cons.IH [OF this Cons.prems(2)] True f Some show ?thesis by auto
    next
      case False
      then have "dedup_loop f (acc @ [y]) xs = Inr ys" using Cons.prems f Some by simp
      from Cons.IH [OF this] Cons.prems(2) False f Some show ?thesis by auto
    qed
  qed
qed auto

lemma dedup_loop_fixed:
  "(\<And>y. y \<in> set ys \<Longrightarrow> f y = Inr (Some y)) \<Longrightarrow> distinct (acc @ ys) \<Longrightarrow> dedup_loop f acc ys = Inr (acc @ ys)"
  by (induction ys arbitrary: acc) auto

text \<open>
  A normaliser of entries whose normal forms are fixed points: the loop over it returns distinct
  normal forms, and normalising its result changes nothing.
\<close>

locale dedup_normaliser =
  fixes entry :: "string \<Rightarrow> 'e + string option"
  assumes entry_fixed: "entry x = Inr (Some y) \<Longrightarrow> entry y = Inr (Some y)"
begin

lemma idempotent:
  assumes "dedup_loop entry [] xs = Inr ys" shows "dedup_loop entry [] ys = Inr ys"
proof -
  have "distinct ys" "set ys = {y. \<exists>x\<in>set xs. entry x = Inr (Some y)}"
    using dedup_loop_result [OF assms] by auto
  then show ?thesis
    using dedup_loop_fixed [of ys entry "[]"] entry_fixed by auto
qed

end

interpretation prefixes: dedup_normaliser prefix_entry
  by unfold_locales (auto simp: prefix_entry_def Let_def split: if_splits)

interpretation env_names: dedup_normaliser env_entry
  by unfold_locales
     (auto simp: env_entry_def validateEnvironmentVariableName_def Let_def split: if_splits option.splits)

lemma dedup_loop_total: "(\<And>x. is_ok (f x)) \<Longrightarrow> \<exists>ys. dedup_loop f acc xs = Inr ys"
proof (induction xs arbitrary: acc)
  case (Cons x xs)
  obtain o' where "f x = Inr o'" using Cons.prems [of x] by (auto simp: is_ok_iff)
  with Cons.IH [OF Cons.prems] show ?case by (cases o') auto
qed simp

section \<open>Lemmas on the defaults\<close>

lemma map_entries_Inr:
  "map_entries f m = Inr m' \<Longrightarrow> map fst m' = map fst m \<and>
     (\<forall>k v'. (k, v') \<in> set m' \<longrightarrow> (\<exists>v. (k, v) \<in> set m \<and> f k v = Inr v'))"
proof (induction m arbitrary: m')
  case (Cons p m)
  obtain k v where p: "p = (k, v)" by (cases p)
  obtain v' n where n: "f k v = Inr v'" "map_entries f m = Inr n" "m' = (k, v') # n"
    using Cons.prems by (auto simp: p result_iffs)
  with Cons.IH [OF n(2)] show ?case by (auto simp: p)
qed simp

text \<open>What the loader guarantees of a policy it accepts.\<close>

definition sound_claude_tool :: "string \<times> claude_code_tool_policy \<Rightarrow> bool" where
  "sound_claude_tool p = (fst p \<in> set supportedClaudeCodeToolPolicyNames \<and>
     distinct (ct_AllowedDomains (snd p)) \<and> distinct (ct_AllowedCommandPrefixes (snd p)) \<and>
     distinct (ct_DeniedCommandPrefixes (snd p)) \<and>
     [] \<notin> set (ct_AllowedDomains (snd p)) \<and> [] \<notin> set (ct_AllowedCommandPrefixes (snd p)))"

definition sound_mcp_server :: "string \<times> mcp_server_policy \<Rightarrow> bool" where
  "sound_mcp_server p = (safe_identifier (trim_space (fst p)) \<and> ms_Transport (snd p) = ''stdio'' \<and>
     ms_LaunchCommand (snd p) \<notin> {[], ''.'', ''..''} \<and>
     list_all environmentVariablePattern (ms_AllowedEnvironment (snd p)) \<and>
     distinct (ms_AllowedEnvironment (snd p)) \<and>
     list_all (\<lambda>(n, t). safe_identifier (trim_space n) \<and>
       list_all mcpGatewayArgumentNamePattern
         (mt_RequiredArguments t @ mt_AllowedArguments t @ mt_DeniedArguments t)) (ms_ToolPolicies (snd p)))"

definition sound_policy :: "policy \<Rightarrow> bool" where
  "sound_policy p = (
     list_all sound_claude_tool (ToolPolicies (ClaudeCode p)) \<and>
     list_all sound_mcp_server (Servers (MCPGateway p)) \<and>
     (ReadEnabled (Filesystem p) \<or> WriteEnabled (Filesystem p) \<longrightarrow> fs_AllowedRoots (Filesystem p) \<noteq> []) \<and>
     (sh_Enabled (Shell p) \<longrightarrow> sh_AllowedCommands (Shell p) \<noteq> []) \<and>
     distinct (sh_AllowedCommands (Shell p)) \<and>
     0 < http_TimeoutSeconds (HTTP p) \<and> HookProjectionLevel p \<in> {''full'', ''minimal''} \<and>
     (\<exists>m. Classes p = Some m \<and> list_all (\<lambda>(c, d). c \<in> set supportedOperatorOverrideClasses \<and>
        d \<in> set supportedOperatorOverrideDelegations) m))"

lemma ok_list_dedup:
  assumes "\<And>x. is_ok (f x)"
  shows "distinct (ok_list (dedup_loop f [] xs)) \<and>
     set (ok_list (dedup_loop f [] xs)) = {y. \<exists>x\<in>set xs. f x = Inr (Some y)}"
proof -
  obtain ys where "dedup_loop f [] xs = Inr ys" using dedup_loop_total [of f "[]" xs] assms by auto
  with dedup_loop_result [OF this] show ?thesis by (simp add: ok_list_def)
qed

lemma prefix_entry_ok: "is_ok (prefix_entry x)"
  by (simp add: prefix_entry_def Let_def)

lemma domains_result:
  "distinct (normalizeConfiguredDomains env ds) \<and> [] \<notin> set (normalizeConfiguredDomains env ds)"
  unfolding normalizeConfiguredDomains_def
  using ok_list_dedup [of "domain_entry env" ds] by (auto simp: domain_entry_def Let_def)

lemma prefixes_result:
  "distinct (normalizeConfiguredPrefixes ps) \<and> [] \<notin> set (normalizeConfiguredPrefixes ps)"
  unfolding normalizeConfiguredPrefixes_def
  using ok_list_dedup [of prefix_entry ps] by (auto simp: prefix_entry_def Let_def)

lemma claude_tool_sound: "claude_tool_defaults env k v = Inr v' \<Longrightarrow> sound_claude_tool (k, v')"
  using domains_result prefixes_result
  by (auto simp: claude_tool_defaults_def sound_claude_tool_def split: if_splits)

lemma commands_result:
  assumes "normalizeConfiguredCommandAllowlist cs = Inr ds"
  shows "distinct ds \<and> (\<forall>d\<in>set ds. d \<notin> {[], ''.'', ''..''})"
  using dedup_loop_result [of command_entry "[]" cs ds] assms filepath_clean_not_Nil
  unfolding normalizeConfiguredCommandAllowlist_def
  by (auto simp: command_entry_def Let_def split: if_splits)

lemma env_names_result:
  assumes "normalizeConfiguredEnvironmentVariableNames ns = Inr ms"
  shows "distinct ms \<and> list_all environmentVariablePattern ms"
  using dedup_loop_result [of env_entry "[]" ns ms] assms
  unfolding normalizeConfiguredEnvironmentVariableNames_def list_all_iff
  by (auto simp: env_entry_def validateEnvironmentVariableName_def Let_def split: if_splits option.splits)

lemma argument_names_result:
  "normalizeConfiguredMCPGatewayArgumentNames ns = Inr ms \<Longrightarrow> list_all mcpGatewayArgumentNamePattern ms"
  by (auto simp: normalizeConfiguredMCPGatewayArgumentNames_def Let_def find_None_iff list_all_iff
      split: option.splits)

lemma identifier_check_Inr: "identifier_check f v = Inr u \<longleftrightarrow> safe_identifier (trim_space v)"
  by (simp add: identifier_check_def result_iffs safe_identifier_iff)

lemma mcp_tool_sound:
  "mcp_tool_defaults k v = Inr t \<Longrightarrow> safe_identifier (trim_space k) \<and>
     list_all mcpGatewayArgumentNamePattern
       (mt_RequiredArguments t @ mt_AllowedArguments t @ mt_DeniedArguments t)"
  by (auto simp: mcp_tool_defaults_def result_iffs identifier_check_Inr dest: argument_names_result)

lemma mcp_server_sound:
  assumes "mcp_server_defaults env k v = Inr s" shows "sound_mcp_server (k, s)"
proof -
  obtain cmds envs secrets tools where
    k: "safe_identifier (trim_space k)" and
    c: "normalizeConfiguredCommandAllowlist [ms_LaunchCommand v] = Inr cmds" "length cmds = 1" and
    e: "normalizeConfiguredEnvironmentVariableNames (ms_AllowedEnvironment v) = Inr envs" and
    t: "map_entries mcp_tool_defaults (ms_ToolPolicies v) = Inr tools" and
    s: "ms_Transport s = ''stdio''" "ms_LaunchCommand s = hd cmds" "ms_AllowedEnvironment s = envs"
      "ms_ToolPolicies s = tools"
    using assms
    by (auto simp: mcp_server_defaults_def result_iffs identifier_check_Inr Let_def
        supportedMCPGatewayTransportNames_def split: if_splits)
  have "hd cmds \<in> set cmds" using c(2) by (cases cmds) auto
  with commands_result [OF c(1)] have "hd cmds \<notin> {[], ''.'', ''..''}" by blast
  moreover have "list_all (\<lambda>(n, t). safe_identifier (trim_space n) \<and>
       list_all mcpGatewayArgumentNamePattern
         (mt_RequiredArguments t @ mt_AllowedArguments t @ mt_DeniedArguments t)) tools"
    using map_entries_Inr [OF t] mcp_tool_sound by (fastforce simp: list_all_iff)
  ultimately show ?thesis
    using k s env_names_result [OF e] by (simp add: sound_mcp_server_def)
qed

lemma applyPolicyDefaults_sound:
  assumes "applyPolicyDefaults env p = Inr p'"
  shows "sound_policy p'"
proof -
  obtain claude mcp classes cmds where
    cl: "map_entries (claude_tool_defaults env) (ToolPolicies (ClaudeCode p)) = Inr claude"
      "ToolPolicies (ClaudeCode p') = claude" and
    mc: "map_entries (mcp_server_defaults env) (Servers (MCPGateway p)) = Inr mcp"
      "Servers (MCPGateway p') = mcp" and
    ov: "applyOperatorOverridePolicyDefaults (Classes p) = Inr classes" "Classes p' = classes" and
    sh: "normalizeConfiguredCommandAllowlist (sh_AllowedCommands (Shell p)) = Inr cmds"
      "sh_AllowedCommands (Shell p') = cmds" and
    rest: "ReadEnabled (Filesystem p') \<or> WriteEnabled (Filesystem p') \<longrightarrow> fs_AllowedRoots (Filesystem p') \<noteq> []"
      "sh_Enabled (Shell p') \<longrightarrow> cmds \<noteq> []" "0 < http_TimeoutSeconds (HTTP p')"
      "HookProjectionLevel p' \<in> {''full'', ''minimal''}"
    using assms
    by (auto simp: applyPolicyDefaults_def applyClaudeCodePolicyDefaults_def
        applyMCPGatewayPolicyDefaults_def result_iffs Let_def split: if_splits)
  have "list_all sound_claude_tool claude"
    using map_entries_Inr [OF cl(1)] claude_tool_sound by (fastforce simp: list_all_iff)
  moreover have "list_all sound_mcp_server mcp"
    using map_entries_Inr [OF mc(1)] mcp_server_sound by (fastforce simp: list_all_iff)
  moreover have "\<exists>m. classes = Some m \<and> list_all (\<lambda>(c, d). c \<in> set supportedOperatorOverrideClasses \<and>
        d \<in> set supportedOperatorOverrideDelegations) m"
    using ov(1) map_entries_Inr
    by (fastforce simp: applyOperatorOverridePolicyDefaults_def override_class_defaults_def result_iffs
        list_all_iff Let_def split: option.splits if_splits)
  ultimately show ?thesis
    using cl mc ov sh rest commands_result [OF sh(1)] by (simp add: sound_policy_def)
qed

section \<open>Properties\<close>

text \<open>
  A policy document that passes the defaults is sound: only supported tools, transports, value
  patterns, override classes and delegations are left, list entries are distinct and not blank,
  enabled filesystem or shell access comes with a non-empty allowlist, and the HTTP timeout is
  positive.
\<close>

theorem loaded_policy_sound:
  assumes "applyPolicyDefaults env p = Inr p'"
  shows "sound_policy p'"
  using assms by (rule applyPolicyDefaults_sound)

definition sample_policy :: policy where
  "sample_policy = \<lparr>pol_Version = [],
     ClaudeCode = \<lparr>DenyUnknownTools = None, ToolPolicies = []\<rparr>,
     MCPGateway = \<lparr>DenyUnknownServers = None, Servers = []\<rparr>,
     Filesystem = \<lparr>ReadEnabled = True, WriteEnabled = True, WriteRequiresApproval = True,
       fs_AllowedRoots = [''.''], fs_DeniedPaths = []\<rparr>,
     HTTP = \<lparr>http_Enabled = False, http_AllowedDomains = [], http_RequiresApproval = True,
       http_TimeoutSeconds = 0\<rparr>,
     Shell = \<lparr>sh_Enabled = True, sh_AllowedCommands = [''git'', ''git''], sh_RequiresApproval = True\<rparr>,
     Classes = None, LogCommands = True, LogToolCalls = True, HookProjectionLevel = [],
     AllowPersonaModification = False, AllowPolicyModification = False\<rparr>"

theorem loaded_policy_sound_witness:
  "sound_policy (sample_policy\<lparr>pol_Version := ''0.1.0'', Classes := Some [],
     Shell := (Shell sample_policy)\<lparr>sh_AllowedCommands := [''git'']\<rparr>,
     HTTP := (HTTP sample_policy)\<lparr>http_TimeoutSeconds := 10\<rparr>, HookProjectionLevel := ''full''\<rparr>)"
  by (rule loaded_policy_sound [of "\<lparr>home_dir = None, uni_lower = id\<rparr>" sample_policy])
     (simp add: applyPolicyDefaults_def applyClaudeCodePolicyDefaults_def sample_policy_def
      applyMCPGatewayPolicyDefaults_def applyOperatorOverridePolicyDefaults_def
      normalizeConfiguredPaths_def expandHomePrefix_def normalizeConfiguredCommandAllowlist_def
      command_entry_def Let_def go_string graphic_def has_prefix_def filepath_clean_def show_path_def
      path_comps_def clean_step_def is_abs_def)

text \<open>
  Normalising command prefixes and environment variable names twice is normalising them once.
\<close>

theorem list_normalisers_idempotent:
  "normalizeConfiguredPrefixes (normalizeConfiguredPrefixes ps) = normalizeConfiguredPrefixes ps \<and>
   bindr (normalizeConfiguredEnvironmentVariableNames ns) normalizeConfiguredEnvironmentVariableNames =
     normalizeConfiguredEnvironmentVariableNames ns"
proof -
  obtain ys where "dedup_loop prefix_entry [] ps = Inr ys"
    using dedup_loop_total [of prefix_entry "[]" ps] prefix_entry_ok by blast
  then have "normalizeConfiguredPrefixes (normalizeConfiguredPrefixes ps) = normalizeConfiguredPrefixes ps"
    using prefixes.idempotent by (simp add: normalizeConfiguredPrefixes_def ok_list_def)
  moreover have "bindr (dedup_loop env_entry [] ns) (dedup_loop env_entry []) = dedup_loop env_entry [] ns"
    using env_names.idempotent [of ns] by (cases "dedup_loop env_entry [] ns") auto
  then have "bindr (normalizeConfiguredEnvironmentVariableNames ns)
      normalizeConfiguredEnvironmentVariableNames = normalizeConfiguredEnvironmentVariableNames ns"
    unfolding normalizeConfiguredEnvironmentVariableNames_def .
  ultimately show ?thesis by blast
qed

text \<open>
  Argument name lists lose only adjacent duplicates: unlike the other lists of the policy, a
  name that appears twice apart survives twice.
\<close>

theorem argument_names_keep_duplicates:
  "normalizeConfiguredMCPGatewayArgumentNames [''a'', ''a'', ''b'', ''a''] = Inr [''a'', ''b'', ''a'']"
  by (simp add: normalizeConfiguredMCPGatewayArgumentNames_def normalizeNonEmptyStrings_def
      mcpGatewayArgumentNamePattern_def env_head_def is_alpha_def go_string graphic_def)

end
