(* ===== verification/PolicyCheck.thy ===== *)
theory PolicyCheck
  imports PolicyConfig
begin

text \<open>
  internal/policy: the decision a loaded policy gives for a tool, from its category and operation
  (checker.go, decision.go).
\<close>

datatype decision = Allow | Deny | NeedsApproval

definition Decision_String :: "decision \<Rightarrow> string" where
  "Decision_String d = (case d of Allow \<Rightarrow> ''allow'' | Deny \<Rightarrow> ''deny''
     | NeedsApproval \<Rightarrow> ''needs_approval'')"

record check_result =
  cr_Decision :: decision
  cr_Reason :: string

text \<open>The methods of the interface ToolInfo the checker calls.\<close>

record tool_info =
  ti_Name :: string
  ti_Category :: string
  ti_Operation :: string

definition OpRead :: string where "OpRead = ''read''"
definition OpWrite :: string where "OpWrite = ''write''"
definition OpExecute :: string where "OpExecute = ''execute''"

abbreviation result :: "decision \<Rightarrow> string \<Rightarrow> check_result" where
  "result d r \<equiv> \<lparr>cr_Decision = d, cr_Reason = r\<rparr>"

definition checkFilesystem :: "policy \<Rightarrow> tool_info \<Rightarrow> check_result" where
  "checkFilesystem pol tool = (let fsCfg = Filesystem pol; opType = ti_Operation tool in
     if opType = ''write'' then
       (if \<not> WriteEnabled fsCfg then result Deny ''filesystem writes are disabled by policy''
        else if WriteRequiresApproval fsCfg
        then result NeedsApproval ''filesystem writes require approval''
        else result Allow [])
     else if opType = ''read'' then
       (if \<not> ReadEnabled fsCfg then result Deny ''filesystem reads are disabled by policy''
        else result Allow [])
     else if opType = ''execute''
     then result Deny ''filesystem execute operations are not allowed''
     else result Deny (''unknown operation type: '' @ opType))"

definition checkHost :: "policy \<Rightarrow> tool_info \<Rightarrow> check_result" where
  "checkHost pol tool = (let fsCfg = Filesystem pol in
     if ti_Operation tool = OpRead then
       (if \<not> ReadEnabled fsCfg
        then result Deny ''host folder reads require filesystem read to be enabled by policy''
        else result Allow [])
     else if ti_Operation tool = OpWrite then
       (if \<not> WriteEnabled fsCfg then result Deny ''host folder writes are disabled by policy''
        else result NeedsApproval ''applying a host organization plan requires operator approval'')
     else result Deny (''unknown host tool operation: '' @ ti_Operation tool))"

definition checkHTTP :: "policy \<Rightarrow> check_result" where
  "checkHTTP pol = (let httpCfg = HTTP pol in
     if \<not> http_Enabled httpCfg then result Deny ''http tools are disabled by policy''
     else if http_RequiresApproval httpCfg then result NeedsApproval ''http tools require approval''
     else result Allow [])"

definition checkShell :: "policy \<Rightarrow> check_result" where
  "checkShell pol = (let sh = Shell pol in
     if \<not> sh_Enabled sh then result Deny ''shell tools are disabled by policy''
     else if length (sh_AllowedCommands sh) = 0
     then result Deny ''shell allowed_commands must be configured before shell access is allowed''
     else if sh_RequiresApproval sh
     then result NeedsApproval ''shell commands require operator approval''
     else result Allow [])"

definition Check :: "policy \<Rightarrow> tool_info \<Rightarrow> check_result" where
  "Check pol tool = (let category = ti_Category tool in
     if category = ''filesystem'' then checkFilesystem pol tool
     else if category = ''host'' then checkHost pol tool
     else if category = ''http'' then checkHTTP pol
     else if category = ''shell'' then checkShell pol
     else result Deny (''unknown tool category: '' @ category))"

lemmas check_defs = Check_def checkFilesystem_def checkHost_def checkHTTP_def checkShell_def
  OpRead_def OpWrite_def Let_def

section \<open>Properties\<close>

definition allowed_without_operator :: "policy \<Rightarrow> tool_info \<Rightarrow> bool" where
  "allowed_without_operator pol tool = (
     ti_Category tool \<in> {''filesystem'', ''host''} \<and> ti_Operation tool = ''read'' \<and>
       ReadEnabled (Filesystem pol)
   \<or> ti_Category tool = ''filesystem'' \<and> ti_Operation tool = ''write'' \<and>
       WriteEnabled (Filesystem pol) \<and> \<not> WriteRequiresApproval (Filesystem pol)
   \<or> ti_Category tool = ''http'' \<and> http_Enabled (HTTP pol) \<and> \<not> http_RequiresApproval (HTTP pol)
   \<or> ti_Category tool = ''shell'' \<and> sh_Enabled (Shell pol) \<and> sh_AllowedCommands (Shell pol) \<noteq> [] \<and>
       \<not> sh_RequiresApproval (Shell pol))"

text \<open>
  The exact conditions under which a tool runs without an operator: a read with reads enabled,
  a filesystem write with writes enabled and no approval required, HTTP or a configured shell with
  no approval required. Everything else is denied or needs approval; a denial always has a reason.
\<close>

theorem Check_Allow_iff:
  "cr_Decision (Check pol tool) = Allow \<longleftrightarrow> allowed_without_operator pol tool"
  by (auto simp: check_defs allowed_without_operator_def)

text \<open>
  Under no policy does a host write, or anything of an unknown category, run without an
  operator: host writes are denied or need approval, unknown categories are denied.
\<close>

theorem host_writes_need_operator:
  assumes "ti_Category tool = ''host'' \<and> ti_Operation tool \<noteq> ''read'' \<or>
    ti_Category tool \<notin> {''filesystem'', ''host'', ''http'', ''shell''}"
  shows "cr_Decision (Check pol tool) \<noteq> Allow \<and>
    (cr_Decision (Check pol tool) = NeedsApproval \<longrightarrow>
       ti_Category tool = ''host'' \<and> ti_Operation tool = ''write'' \<and> WriteEnabled (Filesystem pol)) \<and>
    cr_Reason (Check pol tool) \<noteq> []"
proof (cases "ti_Category tool = ''host''")
  case True
  with assms show ?thesis by (simp add: check_defs)
next
  case False
  with assms show ?thesis by (simp add: check_defs)
qed

theorem host_writes_need_operator_witness:
  "cr_Decision (Check sample_policy
     \<lparr>ti_Name = ''host.plan.apply'', ti_Category = ''host'', ti_Operation = ''write''\<rparr>) \<noteq> Allow"
  using host_writes_need_operator [of "\<lparr>ti_Name = ''host.plan.apply'', ti_Category = ''host'',
     ti_Operation = ''write''\<rparr>" sample_policy] by simp

text \<open>
  For a policy that went through the loader, an enabled shell is never denied by the checker,
  and filesystem access that is enabled comes with roots to confine it to.
\<close>

theorem loaded_policy_shell:
  assumes "applyPolicyDefaults env p = Inr p'" "sh_Enabled (Shell p')" "ti_Category tool = ''shell''"
  shows "cr_Decision (Check p' tool) = (if sh_RequiresApproval (Shell p') then NeedsApproval else Allow)"
  using assms applyPolicyDefaults_sound [OF assms(1)]
  by (simp add: check_defs sound_policy_def)

theorem loaded_policy_shell_witness:
  "cr_Decision (Check (sample_policy\<lparr>pol_Version := ''0.1.0'', Classes := Some [],
     Shell := (Shell sample_policy)\<lparr>sh_AllowedCommands := [''git'']\<rparr>,
     HTTP := (HTTP sample_policy)\<lparr>http_TimeoutSeconds := 10\<rparr>, HookProjectionLevel := ''full''\<rparr>)
     \<lparr>ti_Name = ''shell_exec'', ti_Category = ''shell'', ti_Operation = ''execute''\<rparr>) = NeedsApproval"
  by (subst loaded_policy_shell [of "\<lparr>home_dir = None, uni_lower = id\<rparr>" sample_policy])
     (simp_all add: applyPolicyDefaults_def applyClaudeCodePolicyDefaults_def sample_policy_def
      applyMCPGatewayPolicyDefaults_def applyOperatorOverridePolicyDefaults_def
      normalizeConfiguredPaths_def expandHomePrefix_def normalizeConfiguredCommandAllowlist_def
      command_entry_def Let_def go_string graphic_def has_prefix_def filepath_clean_def show_path_def
      path_comps_def clean_step_def is_abs_def)

end
