(* ===== verification/SafePath.thy ===== *)
theory SafePath
  imports GoPaths
begin

text \<open>
  internal/safety/safepath.go: the boundary check of every file path. The file system's answers
  (EvalSymlinks, the working directory) and the platform's name folding (Unicode NFC from
  golang.org/x/text followed by ToLower, macOS only) are the fields of \<open>path_env\<close>; the file system
  is taken not to change during one check.
\<close>

record path_env =
  evalSymlinks :: "string \<Rightarrow> string option"  \<comment> \<open>None: an error\<close>
  getwd :: "string result"
  darwin :: bool
  fold_name :: "string \<Rightarrow> string"

text \<open>One constructor for each errors.New and fmt.Errorf of the file.\<close>

datatype path_error =
    EmptyPath | NullByte | GetwdFailed string
  | NotAPathElement string | ContainsSeparators string
  | InvalidBasename path_error | ParentNotResolved | SymlinkResolutionFailed path_error
  | OutsideAllowedRoots | DenyResolutionFailed path_error | DeniedByPolicy

definition rejectNullByte :: "string \<Rightarrow> path_error option" where
  "rejectNullByte rawPath = (if CHR 0x00 \<in> set rawPath then Some NullByte else None)"

definition validateBaseName :: "string \<Rightarrow> path_error option" where
  "validateBaseName name =
     (if name = [] \<or> name = ''.'' \<or> name = ''..'' then Some (NotAPathElement name)
      else if slash \<in> set name then Some (ContainsSeparators name) else None)"

definition resolvePathStrict :: "path_env \<Rightarrow> string \<Rightarrow> path_error + string" where
  "resolvePathStrict env path = (case rejectNullByte path of Some e \<Rightarrow> Inl e
     | None \<Rightarrow> (case evalSymlinks env path of Some resolved \<Rightarrow> Inr resolved
       | None \<Rightarrow> (let parentDir = filepath_dir path; baseName = filepath_base path in
           case validateBaseName baseName of Some e \<Rightarrow> Inl (InvalidBasename e)
           | None \<Rightarrow> (case evalSymlinks env parentDir of None \<Rightarrow> Inl ParentNotResolved
             | Some resolvedParent \<Rightarrow> Inr (filepath_join [resolvedParent, baseName])))))"

definition path_abs :: "path_env \<Rightarrow> string \<Rightarrow> path_error + string" where
  "path_abs env path = (case filepath_abs (getwd env) path of
     Inl e \<Rightarrow> Inl (GetwdFailed e) | Inr p \<Rightarrow> Inr p)"

definition cleanAbsWithSymlinkResolution :: "path_env \<Rightarrow> string \<Rightarrow> bool \<Rightarrow> path_error + string" where
  "cleanAbsWithSymlinkResolution env path resolveSymlinks =
    (if path = [] then Inl EmptyPath
     else (case rejectNullByte path of Some e \<Rightarrow> Inl e
     | None \<Rightarrow> (case path_abs env path of Inl e \<Rightarrow> Inl e
       | Inr absPath0 \<Rightarrow> (let absPath = filepath_clean absPath0 in
           if resolveSymlinks then
             (case evalSymlinks env absPath of None \<Rightarrow> Inr absPath
              | Some symResolved \<Rightarrow> (case path_abs env symResolved of Inl _ \<Rightarrow> Inr absPath
                | Inr resolvedAbs \<Rightarrow> Inr (filepath_clean resolvedAbs)))
           else Inr absPath))))"

definition cleanAbs :: "path_env \<Rightarrow> string \<Rightarrow> path_error + string" where
  "cleanAbs env path = cleanAbsWithSymlinkResolution env path True"

definition cleanAbsNoSymlink :: "path_env \<Rightarrow> string \<Rightarrow> path_error + string" where
  "cleanAbsNoSymlink env path = cleanAbsWithSymlinkResolution env path False"

definition NormalizePathForOSComparison :: "path_env \<Rightarrow> string \<Rightarrow> string" where
  "NormalizePathForOSComparison env path = (if darwin env then fold_name env path else path)"

definition isWithin :: "path_env \<Rightarrow> string \<Rightarrow> string \<Rightarrow> bool" where
  "isWithin env rootAbs targetAbs = (let
     normalizedRoot = NormalizePathForOSComparison env (filepath_clean rootAbs);
     normalizedTarget = NormalizePathForOSComparison env (filepath_clean targetAbs) in
     if normalizedRoot = normalizedTarget then True
     else (let root = (if has_suffix normalizedRoot [slash] then normalizedRoot
                       else normalizedRoot @ [slash])
       in has_prefix normalizedTarget root))"

text \<open>A configured root or deny entry: relative ones are taken below the repository.\<close>

definition entry_abs :: "path_env \<Rightarrow> string \<Rightarrow> string \<Rightarrow> path_error + string" where
  "entry_abs env repoAbs entry =
     cleanAbs env (if is_abs entry then entry else filepath_join [repoAbs, entry])"

fun allowed_loop :: "path_env \<Rightarrow> string \<Rightarrow> string \<Rightarrow> string list \<Rightarrow> bool" where
  "allowed_loop env repoAbs resolvedAbs [] = False"
| "allowed_loop env repoAbs resolvedAbs (root0 # roots) = (let root = trim_space root0 in
     if root = [] then allowed_loop env repoAbs resolvedAbs roots
     else (case entry_abs env repoAbs root of
         Inl _ \<Rightarrow> allowed_loop env repoAbs resolvedAbs roots
       | Inr rootAbs \<Rightarrow> isWithin env rootAbs resolvedAbs \<or> allowed_loop env repoAbs resolvedAbs roots))"

fun deny_loop :: "path_env \<Rightarrow> string \<Rightarrow> string \<Rightarrow> string list \<Rightarrow> path_error option" where
  "deny_loop env repoAbs resolvedAbs [] = None"
| "deny_loop env repoAbs resolvedAbs (deny0 # denies) = (let deny = trim_space deny0 in
     if deny = [] then deny_loop env repoAbs resolvedAbs denies
     else (case entry_abs env repoAbs deny of
         Inl e \<Rightarrow> Some (DenyResolutionFailed e)
       | Inr denyAbs \<Rightarrow> if isWithin env denyAbs resolvedAbs then Some DeniedByPolicy
                        else deny_loop env repoAbs resolvedAbs denies))"

definition SafePath :: "path_env \<Rightarrow> string \<Rightarrow> string list \<Rightarrow> string list \<Rightarrow> string \<Rightarrow>
    path_error + string" where
  "SafePath env repoRoot allowedRoots deniedPaths userPath =
    (if trim_space userPath = [] then Inl EmptyPath
     else (case rejectNullByte userPath of Some e \<Rightarrow> Inl e
     | None \<Rightarrow> (case cleanAbs env repoRoot of Inl e \<Rightarrow> Inl e
     | Inr repoAbs \<Rightarrow>
       (case cleanAbsNoSymlink env (if is_abs userPath then userPath
                                    else filepath_join [repoAbs, userPath]) of Inl e \<Rightarrow> Inl e
     | Inr cand \<Rightarrow> (case resolvePathStrict env cand of Inl e \<Rightarrow> Inl (SymlinkResolutionFailed e)
     | Inr resolvedRaw \<Rightarrow>
       (case cleanAbsNoSymlink env resolvedRaw of Inl e \<Rightarrow> Inl (SymlinkResolutionFailed e)
     | Inr resolvedAbs \<Rightarrow>
       if \<not> allowed_loop env repoAbs resolvedAbs allowedRoots then Inl OutsideAllowedRoots
       else (case deny_loop env repoAbs resolvedAbs deniedPaths of Some e \<Rightarrow> Inl e
         | None \<Rightarrow> Inr resolvedAbs)))))))"

section \<open>The explanation\<close>

record explanation =
  RepoAbs :: string
  Input :: string
  CandidateAbs :: string
  ResolvedAbs :: string
  AllowedRoots :: "string list"
  AllowedMatch :: string
  DeniedPaths :: "string list"
  DeniedMatch :: string
  Decision :: string

text \<open>The two loops also collect the roots they looked at and the first match.\<close>

fun explain_allowed :: "path_env \<Rightarrow> string \<Rightarrow> string \<Rightarrow> string list \<Rightarrow> string list \<Rightarrow>
    string list \<times> string" where
  "explain_allowed env repoAbs resolvedAbs acc [] = (acc, [])"
| "explain_allowed env repoAbs resolvedAbs acc (root0 # roots) = (let root = trim_space root0 in
     if root = [] then explain_allowed env repoAbs resolvedAbs acc roots
     else (case entry_abs env repoAbs root of
         Inl _ \<Rightarrow> explain_allowed env repoAbs resolvedAbs acc roots
       | Inr rootAbs \<Rightarrow> if isWithin env rootAbs resolvedAbs then (acc @ [rootAbs], rootAbs)
                        else explain_allowed env repoAbs resolvedAbs (acc @ [rootAbs]) roots))"

fun explain_denied :: "path_env \<Rightarrow> string \<Rightarrow> explanation \<Rightarrow> string list \<Rightarrow>
    explanation \<times> path_error option" where
  "explain_denied env repoAbs ex [] = (ex\<lparr>Decision := ''allow''\<rparr>, None)"
| "explain_denied env repoAbs ex (deny0 # denies) = (let deny = trim_space deny0 in
     if deny = [] then explain_denied env repoAbs ex denies
     else (case entry_abs env repoAbs deny of
         Inl e \<Rightarrow> (ex\<lparr>Decision := ''deny:deny_resolution_failed''\<rparr>, Some (DenyResolutionFailed e))
       | Inr denyAbs \<Rightarrow> (let ex' = ex\<lparr>DeniedPaths := DeniedPaths ex @ [denyAbs]\<rparr> in
           if isWithin env denyAbs (ResolvedAbs ex)
           then (ex'\<lparr>DeniedMatch := denyAbs, Decision := ''deny:denied_by_policy''\<rparr>,
                 Some DeniedByPolicy)
           else explain_denied env repoAbs ex' denies)))"

definition ExplainSafePath :: "path_env \<Rightarrow> string \<Rightarrow> string list \<Rightarrow> string list \<Rightarrow> string \<Rightarrow>
    explanation \<times> path_error option" where
  "ExplainSafePath env repoRoot allowedRoots deniedPaths userPath = (let
     ex = \<lparr>RepoAbs = [], Input = userPath, CandidateAbs = [], ResolvedAbs = [], AllowedRoots = [],
           AllowedMatch = [], DeniedPaths = [], DeniedMatch = [], Decision = []\<rparr> in
     case rejectNullByte userPath of Some e \<Rightarrow> (ex\<lparr>Decision := ''deny:invalid_path''\<rparr>, Some e)
     | None \<Rightarrow> (case cleanAbs env repoRoot of Inl e \<Rightarrow> (ex\<lparr>Decision := ''error''\<rparr>, Some e)
     | Inr repoAbs \<Rightarrow> (let ex = ex\<lparr>RepoAbs := repoAbs\<rparr> in
       (case cleanAbsNoSymlink env (if is_abs userPath then userPath
                                    else filepath_join [repoAbs, userPath]) of
         Inl e \<Rightarrow> (ex\<lparr>Decision := ''error''\<rparr>, Some e)
     | Inr cand \<Rightarrow> (let ex = ex\<lparr>CandidateAbs := cand\<rparr> in
       (case resolvePathStrict env cand of
         Inl e \<Rightarrow> (ex\<lparr>Decision := ''deny:symlink_resolution_failed''\<rparr>, Some (SymlinkResolutionFailed e))
     | Inr resolvedRaw \<Rightarrow>
       (case cleanAbsNoSymlink env resolvedRaw of
         Inl e \<Rightarrow> (ex\<lparr>Decision := ''deny:symlink_resolution_failed''\<rparr>, Some (SymlinkResolutionFailed e))
     | Inr resolvedAbs \<Rightarrow> (let
         (roots, hit) = explain_allowed env repoAbs resolvedAbs [] allowedRoots;
         ex = ex\<lparr>ResolvedAbs := resolvedAbs, AllowedRoots := roots, AllowedMatch := hit\<rparr> in
       if hit = [] then (ex\<lparr>Decision := ''deny:outside_allowed_roots''\<rparr>, Some OutsideAllowedRoots)
       else explain_denied env repoAbs ex deniedPaths))))))))"

section \<open>Clean absolute results\<close>

text \<open>The operating system's promise: the working directory is an absolute path.\<close>

definition abs_getwd :: "path_env \<Rightarrow> bool" where
  "abs_getwd env = (case getwd env of Inl _ \<Rightarrow> True | Inr wd \<Rightarrow> is_abs wd)"

definition clean_abs_path :: "string \<Rightarrow> bool" where
  "clean_abs_path p = (is_abs p \<and> filepath_clean p = p)"

lemma clean_abs_path_clean [simp, intro]: "is_abs p \<Longrightarrow> clean_abs_path (filepath_clean p)"
  by (simp add: clean_abs_path_def)

lemma clean_abs_path_not_Nil: "clean_abs_path p \<Longrightarrow> p \<noteq> []"
  by (auto simp: clean_abs_path_def is_abs_def)

lemma path_abs_is_abs:
  assumes "path_abs env p = Inr q" "abs_getwd env" shows "is_abs q"
  using assms clean_is_abs_join
  by (auto simp: path_abs_def filepath_abs_def abs_getwd_def split: if_splits sum.splits)

lemma cleanAbs_clean:
  assumes "cleanAbsWithSymlinkResolution env p b = Inr q" "abs_getwd env"
  shows "clean_abs_path q"
  using assms path_abs_is_abs [OF _ assms(2)]
  by (auto simp: cleanAbsWithSymlinkResolution_def Let_def
      split: if_splits option.splits sum.splits)

lemma entry_abs_clean: "entry_abs env r e = Inr q \<Longrightarrow> abs_getwd env \<Longrightarrow> clean_abs_path q"
  unfolding entry_abs_def cleanAbs_def by (rule cleanAbs_clean)

lemma cleanAbs_not_Nil: "cleanAbsWithSymlinkResolution env p b = Inr q \<Longrightarrow> q \<noteq> []"
  by (auto simp: cleanAbsWithSymlinkResolution_def Let_def filepath_clean_not_Nil
      split: if_splits option.splits sum.splits)

section \<open>What the loops decide\<close>

definition covers :: "path_env \<Rightarrow> string \<Rightarrow> string \<Rightarrow> string \<Rightarrow> bool" where
  "covers env repoAbs resolvedAbs entry = (\<not> blank entry \<and>
     (case entry_abs env repoAbs (trim_space entry) of Inl _ \<Rightarrow> False
      | Inr p \<Rightarrow> isWithin env p resolvedAbs))"

definition unresolvable :: "path_env \<Rightarrow> string \<Rightarrow> string \<Rightarrow> bool" where
  "unresolvable env repoAbs entry =
     (\<not> blank entry \<and> \<not> is_ok (entry_abs env repoAbs (trim_space entry)))"

lemma allowed_loop_iff: "allowed_loop env r p roots \<longleftrightarrow> (\<exists>e\<in>set roots. covers env r p e)"
  by (induction roots) (auto simp: covers_def blank_def Let_def split: sum.splits)

lemma deny_loop_None_iff:
  "deny_loop env r p denies = None \<longleftrightarrow>
     (\<forall>e\<in>set denies. \<not> covers env r p e \<and> \<not> unresolvable env r e)"
  by (induction denies) (auto simp: covers_def unresolvable_def blank_def Let_def split: sum.splits)

lemma explain_allowed_hit:
  "snd (explain_allowed env r p acc roots) \<noteq> [] \<longleftrightarrow> allowed_loop env r p roots"
proof (induction roots arbitrary: acc)
  case (Cons e roots)
  have "entry_abs env r (trim_space e) = Inr q \<Longrightarrow> q \<noteq> []" for q
    unfolding entry_abs_def cleanAbs_def by (rule cleanAbs_not_Nil)
  with Cons show ?case by (auto simp: Let_def split: sum.splits)
qed simp

lemma explain_denied_error:
  "snd (explain_denied env r ex denies) = deny_loop env r (ResolvedAbs ex) denies"
  by (induction denies arbitrary: ex) (auto simp: Let_def split: sum.splits)

lemma explain_denied_decision:
  "snd (explain_denied env r ex denies) = None \<longleftrightarrow>
     Decision (fst (explain_denied env r ex denies)) = ''allow''"
  by (induction denies arbitrary: ex) (auto simp: Let_def split: sum.splits)

lemma explain_denied_resolved [simp]:
  "ResolvedAbs (fst (explain_denied env r ex denies)) = ResolvedAbs ex"
  by (induction denies arbitrary: ex) (auto simp: Let_def split: sum.splits)

text \<open>Path boundaries on platforms that do not fold names.\<close>

lemma isWithin_components:
  assumes "\<not> darwin env" "is_abs root" "is_abs target"
  shows "isWithin env root target \<longleftrightarrow> prefix (path_comps root) (path_comps target)"
proof -
  let ?cs = "path_comps root" and ?ds = "path_comps target"
  have n: "list_all normal_comp ?cs" "list_all normal_comp ?ds"
    using assms by (simp_all add: path_comps_normal)
  have same: "slash # join_with [slash] ?cs = slash # join_with [slash] ?ds \<longleftrightarrow> ?cs = ?ds"
    by (metis n path_comps_show_rooted)
  have suf: "has_suffix (slash # join_with [slash] ?cs) [slash] \<longleftrightarrow> ?cs = []"
  proof
    assume s: "has_suffix (slash # join_with [slash] ?cs) [slash]"
    show "?cs = []"
    proof (rule ccontr)
      assume "?cs \<noteq> []"
      then have "split_on slash (join_with [slash] ?cs) = ?cs" by (rule split_join_normal [OF n(1)])
      moreover have "join_with [slash] ?cs \<noteq> []"
        using calculation n(1) \<open>?cs \<noteq> []\<close> by (cases ?cs) (auto simp: normal_comp_def)
      then obtain u where "join_with [slash] ?cs = u @ [slash]"
        using s by (auto simp: has_suffix_def suffix_def Cons_eq_append_conv)
      ultimately have "[] \<in> set ?cs" by (metis in_set_conv_decomp split_on.simps(1) split_on_append2)
      with n(1) show False by (auto simp: list_all_iff normal_comp_def)
    qed
  qed (simp add: has_suffix_def)
  have pre: "prefix ?cs ?ds \<longleftrightarrow> ?cs = ?ds \<or> (\<exists>e es. ?ds = ?cs @ e # es)"
    unfolding prefix_def by (metis append_Nil2 list.exhaust)
  have nrm: "NormalizePathForOSComparison env (filepath_clean root) = slash # join_with [slash] ?cs"
    "NormalizePathForOSComparison env (filepath_clean target) = slash # join_with [slash] ?ds"
    using assms by (simp_all add: NormalizePathForOSComparison_def clean_abs)
  have "isWithin env root target \<longleftrightarrow> ?cs = ?ds \<or>
      prefix ((slash # join_with [slash] ?cs) @ (if ?cs = [] then [] else [slash]))
        (slash # join_with [slash] ?ds)"
    unfolding isWithin_def nrm Let_def has_prefix_def same suf by simp
  also have "\<dots> \<longleftrightarrow> prefix ?cs ?ds"
    unfolding prefix_path_iff [OF n] pre by (metis append_Nil list.exhaust)
  finally show ?thesis .
qed

text \<open>What the two loops say by components, and what an explanation without error has passed.\<close>

lemma allowed_components:
  assumes "allowed_loop env repoAbs p roots" "clean_abs_path p" "abs_getwd env" "\<not> darwin env"
  shows "\<exists>e\<in>set roots. \<exists>rootAbs. entry_abs env repoAbs (trim_space e) = Inr rootAbs \<and>
    prefix (path_comps rootAbs) (path_comps p)"
proof -
  obtain e where e: "e \<in> set roots" "covers env repoAbs p e" using assms(1) by (auto simp: allowed_loop_iff)
  then obtain q where q: "entry_abs env repoAbs (trim_space e) = Inr q" "isWithin env q p"
    by (auto simp: covers_def split: sum.splits)
  then have "prefix (path_comps q) (path_comps p)"
    using isWithin_components [OF assms(4), of q p] entry_abs_clean [OF q(1) assms(3)] assms(2)
    by (simp add: clean_abs_path_def)
  with e q show ?thesis by blast
qed

lemma denied_components:
  assumes "deny_loop env repoAbs p denies = None" "clean_abs_path p" "abs_getwd env" "\<not> darwin env"
    and "e \<in> set denies" "\<not> blank e"
  shows "\<exists>denyAbs. entry_abs env repoAbs (trim_space e) = Inr denyAbs \<and> \<not> prefix (path_comps denyAbs) (path_comps p)"
proof -
  obtain q where q: "entry_abs env repoAbs (trim_space e) = Inr q"
    using assms(1,5,6) by (auto simp: deny_loop_None_iff unresolvable_def is_ok_iff)
  have "isWithin env q p \<longleftrightarrow> prefix (path_comps q) (path_comps p)"
    using isWithin_components [OF assms(4), of q p] entry_abs_clean [OF q assms(3)] assms(2)
    by (simp add: clean_abs_path_def)
  then show ?thesis using assms(1,5,6) q by (auto simp: deny_loop_None_iff covers_def)
qed

lemma explained:
  assumes "ExplainSafePath env repoRoot roots denies u = (ex, None)"
  shows "\<exists>repoAbs raw. cleanAbs env repoRoot = Inr repoAbs \<and> resolvePathStrict env (CandidateAbs ex) = Inr raw \<and>
    cleanAbsNoSymlink env raw = Inr (ResolvedAbs ex) \<and> allowed_loop env repoAbs (ResolvedAbs ex) roots \<and>
    deny_loop env repoAbs (ResolvedAbs ex) denies = None"
proof -
  have candidate: "CandidateAbs (fst (explain_denied env r x ds)) = CandidateAbs x" for r x ds
    by (induction ds arbitrary: x) (auto simp: Let_def split: sum.splits)
  have same: "CandidateAbs ex = CandidateAbs x \<and> ResolvedAbs ex = ResolvedAbs x \<and> deny_loop env r (ResolvedAbs x) ds = None"
    if "explain_denied env r x ds = (ex, None)" for r x ds
    using that candidate [of r x ds] explain_denied_resolved [of env r x ds] explain_denied_error [of env r x ds] by simp
  obtain repoAbs cand raw p where c: "cleanAbs env repoRoot = Inr repoAbs" "resolvePathStrict env cand = Inr raw"
      "cleanAbsNoSymlink env raw = Inr p" and hit: "snd (explain_allowed env repoAbs p [] roots) \<noteq> []"
    and d: "explain_denied env repoAbs \<lparr>RepoAbs = repoAbs, Input = u, CandidateAbs = cand, ResolvedAbs = p,
      AllowedRoots = fst (explain_allowed env repoAbs p [] roots),
      AllowedMatch = snd (explain_allowed env repoAbs p [] roots), DeniedPaths = [], DeniedMatch = [],
      Decision = []\<rparr> denies = (ex, None)"
    using assms by (auto simp: ExplainSafePath_def Let_def split: option.splits sum.splits prod.splits if_splits)
  have "allowed_loop env repoAbs p roots" using hit explain_allowed_hit by blast
  then show ?thesis using same [OF d] c by auto
qed

section \<open>Properties\<close>


text \<open>A small file system: the repository with one linked directory.\<close>

definition sample_env :: path_env where
  "sample_env = \<lparr>evalSymlinks = (\<lambda>p. map_of
      [(''/repo'', ''/repo''), (''/repo/a'', ''/repo/a''), (''/repo/link'', ''/repo/real''),
       (''/repo/real'', ''/repo/real'')] p),
     getwd = Inr ''/repo'', darwin = False, fold_name = id\<rparr>"

lemmas path_eval = SafePath_def ExplainSafePath_def rejectNullByte_def cleanAbs_def
  cleanAbsNoSymlink_def cleanAbsWithSymlinkResolution_def path_abs_def filepath_abs_def is_abs_def
  filepath_clean_def show_path_def path_comps_def clean_step_def filepath_join_def
  resolvePathStrict_def filepath_dir_def filepath_base_def validateBaseName_def entry_abs_def
  isWithin_def NormalizePathForOSComparison_def has_suffix_def has_prefix_def suffix_def Let_def
  go_string graphic_def sample_env_def


text \<open>
  On every input that is not blank, ExplainSafePath gives the decision, the resolved path and
  the error of SafePath.
\<close>

theorem explain_agrees_with_SafePath:
  assumes "\<not> blank userPath"
  shows "case SafePath env repoRoot roots denies userPath of
      Inr p \<Rightarrow> snd (ExplainSafePath env repoRoot roots denies userPath) = None \<and>
        Decision (fst (ExplainSafePath env repoRoot roots denies userPath)) = ''allow'' \<and>
        ResolvedAbs (fst (ExplainSafePath env repoRoot roots denies userPath)) = p
    | Inl e \<Rightarrow> snd (ExplainSafePath env repoRoot roots denies userPath) = Some e \<and>
        Decision (fst (ExplainSafePath env repoRoot roots denies userPath)) \<noteq> ''allow''"
  using assms explain_allowed_hit explain_denied_error explain_denied_decision
  apply (simp add: SafePath_def ExplainSafePath_def blank_def Let_def case_prod_unfold
      split: option.split sum.split)
  apply (intro allI impI conjI)
  by (metis option.distinct(1) explain_allowed_hit explain_denied_error explain_denied_decision
      select_convs)+

theorem explain_agrees_with_SafePath_witness:
  "snd (ExplainSafePath sample_env ''/repo'' [''.''] [''secret''] ''a'') = None \<and>
   SafePath sample_env ''/repo'' [''.''] [''secret''] ''a'' = Inr ''/repo/a''"
proof -
  have "SafePath sample_env ''/repo'' [''.''] [''secret''] ''a'' = Inr ''/repo/a''"
    by (simp add: path_eval)
  then show ?thesis
    using explain_agrees_with_SafePath [of "''a''" sample_env "''/repo''" "[''.'']" "[''secret'']"]
    by (simp add: blank_def go_string graphic_def)
qed

text \<open>
  The comment on ExplainSafePath promises SafePath's decision, but a blank path, which SafePath
  refuses, is explained as allowed: the blank check is missing.
\<close>

theorem explain_allows_blank:
  "SafePath sample_env ''/repo'' [''.''] [] [] = Inl EmptyPath \<and>
   Decision (fst (ExplainSafePath sample_env ''/repo'' [''.''] [] [])) = ''allow''"
  by (simp add: path_eval)


end
