(* ===== verification/GoTime.thy ===== *)
theory GoTime
  imports GoJson
begin

text \<open>
  Time.Format with time.RFC3339Nano for a time in UTC: the
  civil date of the proleptic Gregorian calendar, two-digit clock fields and a fraction without
  trailing zeros.
\<close>

definition pad_left :: "nat \<Rightarrow> int \<Rightarrow> string" where
  "pad_left w n = (let s = nat_str (nat n) in replicate (w - length s) (CHR ''0'') @ s)"

definition civil_of_days :: "int \<Rightarrow> int \<times> int \<times> int" where
  "civil_of_days days = (let
     z = days + 306;
     era = z div 146097;
     doe = z mod 146097;
     yoe = (doe - doe div 1460 + doe div 36524 - doe div 146096) div 365;
     doy = doe - (365 * yoe + yoe div 4 - yoe div 100);
     mp = (5 * doy + 2) div 153;
     d = doy - (153 * mp + 2) div 5 + 1;
     m = (if mp < 10 then mp + 3 else mp - 9);
     y = yoe + era * 400 + (if m \<le> 2 then 1 else 0)
   in (y, m, d))"

definition year_text :: "int \<Rightarrow> string" where
  "year_text y = (if y < 0 then CHR ''-'' # pad_left 4 (- y) else pad_left 4 y)"

definition fraction_text :: "int \<Rightarrow> string" where
  "fraction_text ns = (if ns = 0 then []
     else CHR ''.'' # rev (dropWhile (\<lambda>c. c = CHR ''0'') (rev (pad_left 9 ns))))"

definition rfc3339nano :: "gotime \<Rightarrow> string" where
  "rfc3339nano t = (let
     secs = t div nano_second;
     sod = secs mod 86400;
     (y, m, d) = civil_of_days (secs div 86400)
   in year_text y @ ''-'' @ pad_left 2 m @ ''-'' @ pad_left 2 d @ ''T'' @ pad_left 2 (sod div 3600) @
      '':'' @ pad_left 2 (sod mod 3600 div 60) @ '':'' @ pad_left 2 (sod mod 60) @
      fraction_text (t mod nano_second) @ ''Z'')"

definition time_char :: "char \<Rightarrow> bool" where
  "time_char c = (is_digit c \<or> c \<in> set ''-T:.Z'')"

lemma pad_left_chars: "c \<in> set (pad_left w n) \<Longrightarrow> is_digit c"
  by (auto simp: pad_left_def Let_def is_digit_def dest: nat_str_digits)

lemma fraction_text_chars: "c \<in> set (fraction_text n) \<Longrightarrow> time_char c"
  by (auto simp: fraction_text_def time_char_def split: if_splits
      dest!: set_dropWhileD pad_left_chars)

lemma rfc3339nano_chars: "c \<in> set (rfc3339nano t) \<Longrightarrow> time_char c"
  unfolding rfc3339nano_def
  by (auto simp: Let_def year_text_def time_char_def split: prod.splits if_splits
      dest: pad_left_chars fraction_text_chars [unfolded time_char_def, simplified])

lemma time_char_ascii: "time_char c \<Longrightarrow> (of_char c :: nat) < 128 \<and> c \<noteq> CHR 0x0A"
  by (auto simp: time_char_def is_digit_def Let_def)

lemma rfc3339nano_not_Nil [simp]: "rfc3339nano t \<noteq> []"
  by (simp add: rfc3339nano_def Let_def split: prod.splits)

lemma rfc3339nano_no_newline [simp]: "CHR 0x0A \<notin> set (rfc3339nano t)"
  using rfc3339nano_chars time_char_ascii by blast

lemma valid_utf8_rfc3339nano [simp]: "valid_utf8 (rfc3339nano t)"
  using rfc3339nano_chars time_char_ascii
  by (intro valid_utf8_ascii) (auto simp: list_all_iff ascii_byte_def)

end
