(* ===== verification/GoText.thy ===== *)
theory GoText
  imports GoTime "HOL-Library.Monad_Syntax"
begin

text \<open>
  More of Go's standard library: strings.Fields, strings.EqualFold against an ASCII word without the
  letters k and s, strings.TrimPrefix and TrimSuffix, and time.Parse with the layout time.RFC3339Nano.
\<close>

section \<open>Strings\<close>

fun span_field :: "string \<Rightarrow> string \<times> string" where
  "span_field [] = ([], [])"
| "span_field (c # s) = (if find_prefix space_runes (c # s) \<noteq> None then ([], c # s)
     else (let (a, b) = span_field s in (c # a, b)))"

lemma span_field_length: "length (snd (span_field s)) \<le> length s"
  by (induction s) (auto split: prod.split)

lemma strip_length: "length (strip_prefixes rs s) \<le> length s"
  using strip_prefixes_suffix suffix_length_le by blast

function str_fields :: "string \<Rightarrow> string list" where
  "str_fields s = (case strip_prefixes space_runes s of [] \<Rightarrow> []
     | c # t \<Rightarrow> (let (a, b) = span_field t in (c # a) # str_fields b))"
  by pat_completeness auto
termination
proof (relation "measure length")
  fix s c t x a b assume s: "strip_prefixes space_runes s = c # t" and x: "x = span_field t" "(a, b) = x"
  have "length b \<le> length t" using span_field_length [of t] x by (metis snd_conv)
  moreover have "length t < length s" using strip_length [of space_runes s] s by simp
  ultimately show "(b, s) \<in> measure length" by simp
qed simp

declare str_fields.simps [simp del]

definition equal_fold_word :: "string \<Rightarrow> string \<Rightarrow> bool" where
  "equal_fold_word s word = (map ascii_lower s = map ascii_lower word)"

definition trim_prefix :: "string \<Rightarrow> string \<Rightarrow> string" where
  "trim_prefix s p = (if prefix p s then drop (length p) s else s)"

definition trim_suffix :: "string \<Rightarrow> string \<Rightarrow> string" where
  "trim_suffix s p = (if suffix p s then take (length s - length p) s else s)"

section \<open>Times\<close>

definition days_of_civil :: "int \<Rightarrow> int \<Rightarrow> int \<Rightarrow> int" where
  "days_of_civil y m d = (let
     y' = (if m \<le> 2 then y - 1 else y);
     yoe = y' mod 400;
     doy = (153 * (if m > 2 then m - 3 else m + 9) + 2) div 5 + d - 1;
     doe = yoe * 365 + yoe div 4 - yoe div 100 + doy
   in (y' div 400) * 146097 + doe - 306)"

definition leap_year :: "int \<Rightarrow> bool" where
  "leap_year y = (y mod 4 = 0 \<and> (y mod 100 \<noteq> 0 \<or> y mod 400 = 0))"

definition days_in :: "int \<Rightarrow> int \<Rightarrow> int" where
  "days_in m y = (if m = 2 then (if leap_year y then 29 else 28)
     else if m \<in> {4, 6, 9, 11} then 30 else 31)"

definition digits_int :: "string \<Rightarrow> int" where
  "digits_int s = foldl (\<lambda>a c. 10 * a + ((of_char c :: int) - 48)) 0 s"

definition get_digits :: "nat \<Rightarrow> string \<Rightarrow> (int \<times> string) option" where
  "get_digits n s = (if length s < n \<or> \<not> list_all is_digit (take n s) then None
     else Some (digits_int (take n s), drop n s))"

text \<open>getnum without the fixed flag takes one digit or two.\<close>

definition get_hour :: "string \<Rightarrow> (int \<times> string) option" where
  "get_hour s = (case get_digits 2 s of Some r \<Rightarrow> Some r | None \<Rightarrow> get_digits 1 s)"

definition skip_char :: "char \<Rightarrow> string \<Rightarrow> string option" where
  "skip_char c s = (case s of [] \<Rightarrow> None | d # t \<Rightarrow> if d = c then Some t else None)"

definition get_fraction :: "string \<Rightarrow> int \<times> string" where
  "get_fraction s = (case s of
     c # t \<Rightarrow> let ds = takeWhile is_digit t in
       if (c = CHR ''.'' \<or> c = CHR '','') \<and> ds \<noteq> []
       then (digits_int (take 9 (ds @ replicate 9 (CHR ''0''))), drop (length ds) t)
       else (0, s)
   | [] \<Rightarrow> (0, s))"

definition get_zone :: "string \<Rightarrow> (int \<times> string) option" where
  "get_zone s = (case s of
     [] \<Rightarrow> None
   | c # t \<Rightarrow> if c = CHR ''Z'' then Some (0, t)
       else if length s < 6 \<or> s ! 3 \<noteq> CHR '':'' then None
       else do {
         (hr, _) \<leftarrow> get_digits 2 t;
         (mm, rest) \<leftarrow> get_digits 2 (drop 4 s);
         if hr > 24 \<or> mm > 60 then None
         else if c = CHR ''+'' then Some ((hr * 60 + mm) * 60, rest)
         else if c = CHR ''-'' then Some (- ((hr * 60 + mm) * 60), rest)
         else None })"

definition parse_rfc3339 :: "string \<Rightarrow> gotime option" where
  "parse_rfc3339 s = do {
     (y, s) \<leftarrow> get_digits 4 s;
     s \<leftarrow> skip_char (CHR ''-'') s;
     (m, s) \<leftarrow> get_digits 2 s;
     s \<leftarrow> skip_char (CHR ''-'') s;
     (d, s) \<leftarrow> get_digits 2 s;
     s \<leftarrow> skip_char (CHR ''T'') s;
     (hh, s) \<leftarrow> get_hour s;
     s \<leftarrow> skip_char (CHR '':'') s;
     (mi, s) \<leftarrow> get_digits 2 s;
     s \<leftarrow> skip_char (CHR '':'') s;
     (ss, s) \<leftarrow> get_digits 2 s;
     let (ns, s) = get_fraction s;
     (zone, s) \<leftarrow> get_zone s;
     if s = [] \<and> 1 \<le> m \<and> m \<le> 12 \<and> 1 \<le> d \<and> d \<le> days_in m y \<and> hh < 24 \<and> mi < 60 \<and> ss < 60
     then Some ((days_of_civil y m d * 86400 + hh * 3600 + mi * 60 + ss - zone) * nano_second + ns)
     else None }"

end
