(* ===== verification/GoRel.thy ===== *)
theory GoRel
  imports SafePath GoText
begin

text \<open>
  path/filepath.Rel of the Go standard library on Unix, strconv.Quote (the verb %q of fmt), and the test
  for containment that internal/config/operator_override_documents.go and
  internal/loopgate/claude_code_hook_policy.go build on Rel, with its characterisation by components.
\<close>

section \<open>Rel\<close>

text \<open>
  The elements of the two cleaned paths behind their common beginning; None where Rel reports an error,
  which is when the base would have to climb out of a parent it does not know.
\<close>

fun rel_comps :: "string list \<Rightarrow> string list \<Rightarrow> string list option" where
  "rel_comps [] ts = Some ts"
| "rel_comps bs [] = Some (map (\<lambda>_. ''..'') bs)"
| "rel_comps (b # bs) (t # ts) = (if b = t then rel_comps bs ts
     else if b = ''..'' then None else Some (map (\<lambda>_. ''..'') (b # bs) @ t # ts))"

definition filepath_rel :: "string \<Rightarrow> string \<Rightarrow> string option" where
  "filepath_rel basepath targpath = (let base = filepath_clean basepath; targ = filepath_clean targpath in
     if targ = base then Some ''.''
     else if is_abs base \<noteq> is_abs targ then None
     else map_option (join_with [slash])
       (rel_comps (path_comps base) (if targ = ''.'' then [''.''] else path_comps targ)))"

definition climbs :: "string \<Rightarrow> bool" where
  "climbs rel = (rel = ''..'' \<or> has_prefix rel ''../'')"

text \<open>
  pathWithinRoot of claude_code_hook_policy.go and operatorOverridePathWithinRoot of
  operator_override_documents.go are the same code.
\<close>

definition pathWithinRoot :: "string \<Rightarrow> string \<Rightarrow> bool" where
  "pathWithinRoot targetPath rootPath = (case filepath_rel rootPath targetPath of
     None \<Rightarrow> False
   | Some rel \<Rightarrow> rel = ''.'' \<or> \<not> climbs rel)"

section \<open>Quoting\<close>

text \<open>
  The verb %q. What strconv.Quote does with a valid rune off ASCII depends on Unicode's tables of
  printable characters and is the argument \<open>q\<close>; an invalid byte is written in hexadecimal.
\<close>

definition hex_digit :: "nat \<Rightarrow> char" where
  "hex_digit n = (if n < 10 then char_of (48 + n) else char_of (87 + n))"

definition hex_byte :: "char \<Rightarrow> string" where
  "hex_byte c = [CHR 0x5C, CHR ''x''] @ [hex_digit (of_char c div 16), hex_digit (of_char c mod 16)]"

definition quote_byte :: "char \<Rightarrow> string" where
  "quote_byte c =
    (if c = CHR 0x22 \<or> c = CHR 0x5C then [CHR 0x5C, c]
     else if c = CHR 0x07 then [CHR 0x5C, CHR ''a''] else if c = CHR 0x08 then [CHR 0x5C, CHR ''b''] else if c = CHR 0x0C then [CHR 0x5C, CHR ''f'']
     else if c = CHR 0x0A then [CHR 0x5C, CHR ''n''] else if c = CHR 0x0D then [CHR 0x5C, CHR ''r''] else if c = CHR 0x09 then [CHR 0x5C, CHR ''t'']
     else if c = CHR 0x0B then [CHR 0x5C, CHR ''v'']
     else if of_char c < (0x20 :: nat) \<or> c = CHR 0x7F then hex_byte c else [c])"

text \<open>rune_len is 0 at a byte that starts no valid rune.\<close>

function quote_body :: "(string \<Rightarrow> string) \<Rightarrow> string \<Rightarrow> string" where
  "quote_body q [] = []"
| "quote_body q (c # s) = (if ascii_byte c then quote_byte c @ quote_body q s
     else if rune_len (c # s) = 0 then hex_byte c @ quote_body q s
     else q (take (rune_len (c # s)) (c # s)) @ quote_body q (drop (rune_len (c # s)) (c # s)))"
  by pat_completeness auto
termination by (relation "measure (\<lambda>(q, s). length s)") (auto simp: less_Suc_eq_le)

definition go_quote :: "(string \<Rightarrow> string) \<Rightarrow> string \<Rightarrow> string" where
  "go_quote q s = CHR 0x22 # quote_body q s @ [CHR 0x22]"

section \<open>Containment\<close>

lemma climbs_dots: "climbs (join_with [slash] (''..'' # cs))"
  by (cases cs) (simp_all add: climbs_def has_prefix_def)

lemma join_normal_not_climbs:
  assumes "list_all normal_comp cs" shows "\<not> climbs (join_with [slash] cs)"
proof (cases "cs = []")
  case True then show ?thesis by (simp add: climbs_def has_prefix_def)
next
  case False
  have "split_on slash (join_with [slash] cs) = cs" by (rule split_join_normal [OF assms False])
  moreover have "split_on slash (''..'' @ slash # s) = ''..'' # split_on slash s" for s
    by simp
  moreover have "split_on slash ''..'' = [''..'']" by simp
  ultimately have "climbs (join_with [slash] cs) \<Longrightarrow> hd cs = ''..''"
    by (auto simp: climbs_def has_prefix_def prefix_def)
  then show ?thesis using assms False by (cases cs) (auto simp: normal_comp_def)
qed

lemma rel_comps_normal:
  assumes "list_all normal_comp bs"
  shows "(prefix bs ts \<and> rel_comps bs ts = Some (drop (length bs) ts)) \<or>
    (\<not> prefix bs ts \<and> (\<exists>rs. rel_comps bs ts = Some (''..'' # rs)))"
  using assms by (induction bs ts rule: rel_comps.induct) (auto simp: normal_comp_def)

lemma clean_abs_inj: "is_abs p \<Longrightarrow> is_abs q \<Longrightarrow> path_comps p = path_comps q \<Longrightarrow> filepath_clean p = filepath_clean q"
  by (simp add: clean_abs)

theorem pathWithinRoot_iff:
  assumes "is_abs r" and "is_abs t"
  shows "pathWithinRoot t r \<longleftrightarrow> prefix (path_comps r) (path_comps t)"
proof (cases "filepath_clean t = filepath_clean r")
  case True
  then have "path_comps t = path_comps r" by (metis assms path_comps_clean)
  with True show ?thesis by (simp add: pathWithinRoot_def filepath_rel_def)
next
  case False
  have abs: "is_abs (filepath_clean r) = is_abs (filepath_clean t)" "filepath_clean t \<noteq> ''.''"
    using assms by (simp_all add: clean_abs) (simp add: is_abs_def)
  have rel: "filepath_rel r t = map_option (join_with [slash]) (rel_comps (path_comps r) (path_comps t))"
    using False abs assms by (simp add: filepath_rel_def Let_def)
  from rel_comps_normal [OF path_comps_normal [OF assms(1)], of "path_comps t"] show ?thesis
  proof (elim disjE conjE exE)
    assume p: "prefix (path_comps r) (path_comps t)"
      "rel_comps (path_comps r) (path_comps t) = Some (drop (length (path_comps r)) (path_comps t))"
    have "list_all normal_comp (drop (length (path_comps r)) (path_comps t))"
      using path_comps_normal [OF assms(2)] by (auto simp: list_all_iff dest: in_set_dropD)
    then show ?thesis using p rel join_normal_not_climbs by (simp add: pathWithinRoot_def)
  next
    fix rs assume p: "\<not> prefix (path_comps r) (path_comps t)" "rel_comps (path_comps r) (path_comps t) = Some (''..'' # rs)"
    have "join_with [slash] (''..'' # rs) \<noteq> ''.''" by (cases rs) simp_all
    then show ?thesis using p rel climbs_dots [of rs] by (simp add: pathWithinRoot_def del: join_with.simps)
  qed
qed

end
