(* ===== verification/GoValue.thy ===== *)
theory GoValue
  imports GoJson
begin

text \<open>
  Dynamic Go values: what a \<open>map[string]interface{}\<close> can hold in this program. \<open>GOther\<close> stands
  for a value of any other type by the generic value its JSON encoding decodes to, or None when
  json.Marshal rejects it. A float64 is an integral value in the exactly representable range, an
  integral value outside it, or a fraction, the latter two by their JSON text.
\<close>

datatype float64 = FInt int | FBig string | FFrac string

datatype gval =
    GNil
  | GString string
  | GBool bool
  | GInt int
  | GFloat float64
  | GNumber string
  | GMap "(string \<times> gval) list"
  | GStrMap "(string \<times> string) list"
  | GList "gval list"
  | GStrs "string list"
  | GOther "gval option"

type_synonym gdata = "(string, gval) gomap"

text \<open>The type assertion value.(string) with the comma-ok form's zero value.\<close>

definition as_string :: "gval option \<Rightarrow> string" where
  "as_string v = (case v of Some (GString s) \<Rightarrow> s | _ \<Rightarrow> [])"

lemma as_string_simps [simp]: "as_string None = []" "as_string (Some (GString s)) = s"
  by (simp_all add: as_string_def)

end
