(* ===== verification/Redact.thy ===== *)
theory Redact
  imports GoText GoValue
begin

text \<open>
  internal/secrets/redact.go: redaction of secrets in free text by an ordered list of regular
  expressions and in structured values by the names of their fields.

  Go's regexp finds the leftmost match and, at one start, the one a backtracking search tries first.
  \<open>ends\<close> gives the positions a match of an expression may end at in that order; a position is the
  character before it and the rest of the text. The expressions only separate ASCII characters, so bytes
  stand for runes.
\<close>

section \<open>Regular expressions\<close>

datatype re = Cls "char \<Rightarrow> bool" | Eps | Cat re re | Alt re re | Star re | Opt re | WordB

type_synonym re_pos = "char option \<times> string"

definition word_char :: "char \<Rightarrow> bool" where
  "word_char c = (let n = (of_char c :: nat) in
     48 \<le> n \<and> n \<le> 57 \<or> 65 \<le> n \<and> n \<le> 90 \<or> 97 \<le> n \<and> n \<le> 122 \<or> n = 95)"

definition opt_word :: "char option \<Rightarrow> bool" where
  "opt_word c = (case c of None \<Rightarrow> False | Some d \<Rightarrow> word_char d)"

definition word_boundary :: "re_pos \<Rightarrow> bool" where
  "word_boundary p = (opt_word (fst p) \<noteq> opt_word (case snd p of [] \<Rightarrow> None | c # _ \<Rightarrow> Some c))"

fun star_ends :: "(re_pos \<Rightarrow> re_pos list) \<Rightarrow> nat \<Rightarrow> re_pos \<Rightarrow> re_pos list" where
  "star_ends f 0 p = [p]"
| "star_ends f (Suc n) p = concat (map (\<lambda>q. if length (snd q) < length (snd p) then star_ends f n q else []) (f p)) @ [p]"

fun ends :: "re \<Rightarrow> re_pos \<Rightarrow> re_pos list" where
  "ends (Cls P) (b, s) = (case s of [] \<Rightarrow> [] | c # t \<Rightarrow> if P c then [(Some c, t)] else [])"
| "ends Eps p = [p]"
| "ends (Cat r r') p = concat (map (ends r') (ends r p))"
| "ends (Alt r r') p = ends r p @ ends r' p"
| "ends (Star r) p = star_ends (ends r) (length (snd p)) p"
| "ends (Opt r) p = ends r p @ [p]"
| "ends WordB p = (if word_boundary p then [p] else [])"

text \<open>A case-insensitive letter also matches the two runes that fold to k and s.\<close>

definition re_char :: "char \<Rightarrow> re" where
  "re_char c = Cls (\<lambda>d. d = c)"

fun re_string :: "string \<Rightarrow> re" where
  "re_string [] = Eps"
| "re_string [c] = re_char c"
| "re_string (c # s) = Cat (re_char c) (re_string s)"

definition fold_char :: "char \<Rightarrow> re" where
  "fold_char c = (let r = Cls (\<lambda>d. ascii_lower d = c) in
     if c = CHR ''k'' then Alt r (re_string [CHR 0xE2, CHR 0x84, CHR 0xAA])
     else if c = CHR ''s'' then Alt r (re_string [CHR 0xC5, CHR 0xBF]) else r)"

fun fold_string :: "string \<Rightarrow> re" where
  "fold_string [] = Eps"
| "fold_string [c] = fold_char c"
| "fold_string (c # s) = Cat (fold_char c) (fold_string s)"

fun cats :: "re list \<Rightarrow> re" where
  "cats [] = Eps"
| "cats [r] = r"
| "cats (r # rs) = Cat r (cats rs)"

fun alts :: "re list \<Rightarrow> re" where
  "alts [] = Cls (\<lambda>_. False)"
| "alts [r] = r"
| "alts (r # rs) = Alt r (alts rs)"

definition Plus :: "re \<Rightarrow> re" where "Plus r = Cat r (Star r)"

definition space_char :: "char \<Rightarrow> bool" where
  "space_char c = (c \<in> set [CHR 0x09, CHR 0x0A, CHR 0x0C, CHR 0x0D, CHR 0x20])"

definition one_of :: "string \<Rightarrow> re" where "one_of cs = Cls (\<lambda>c. c \<in> set cs)"

definition none_of :: "string \<Rightarrow> re" where "none_of cs = Cls (\<lambda>c. c \<notin> set cs)"

definition spaces :: re where "spaces = Star (Cls space_char)"

definition dquote :: char where "dquote = CHR 0x22"
definition squote :: char where "squote = CHR 0x27"

definition alnum :: "char \<Rightarrow> bool" where
  "alnum c = (word_char c \<and> c \<noteq> CHR ''_'')"

section \<open>The rules\<close>

text \<open>
  A rule is what precedes group 1, group 1, what follows it, and the replacement: group 1 when the
  flag is set, then a text.
\<close>

record redaction_rule =
  before_group :: re
  group1 :: re
  after_group :: re
  keep_group :: bool
  replacement :: string

definition secret_words :: re where
  "secret_words = alts [fold_string ''password'', fold_string ''secret'', fold_string ''token'',
     fold_string ''refresh_token'', cats [fold_string ''api'', Opt (one_of ''_-''), fold_string ''key''],
     fold_string ''client_secret'', fold_string ''private_key'']"

definition assignment_rule :: "re \<Rightarrow> redaction_rule" where
  "assignment_rule val = \<lparr>before_group = WordB, group1 = secret_words,
     after_group = cats [WordB, spaces, one_of '':='', spaces, val], keep_group = True, replacement = ''=[REDACTED]''\<rparr>"

definition textRedactionPatterns :: "redaction_rule list" where
  "textRedactionPatterns =
    [\<lparr>before_group = Eps, group1 = cats [fold_string ''authorization'', spaces, one_of '':='', spaces],
       after_group = Plus (none_of [CHR 0x0D, CHR 0x0A]), keep_group = True, replacement = ''[REDACTED]''\<rparr>,
     \<lparr>before_group = Eps, group1 = Eps, after_group = cats [WordB, fold_string ''bearer'', Plus (Cls space_char),
         Plus (Cls (\<lambda>c. alnum c \<or> c \<in> set ''-._~+/'')), Star (re_char (CHR ''=''))],
       keep_group = False, replacement = ''Bearer [REDACTED]''\<rparr>,
     assignment_rule (cats [re_char dquote, Star (none_of [dquote]), re_char dquote]),
     assignment_rule (cats [re_char squote, Star (none_of [squote]), re_char squote]),
     \<lparr>before_group = Eps, group1 = Eps, after_group = cats [WordB, fold_string ''basic'', Plus (Cls space_char),
         Plus (Cls (\<lambda>c. alnum c \<or> c \<in> set ''+/=''))],
       keep_group = False, replacement = ''Basic [REDACTED]''\<rparr>,
     assignment_rule (cats [Opt (one_of [dquote, squote]),
       Plus (Cls (\<lambda>c. c \<notin> set [dquote, squote, CHR '','', CHR '';''] \<and> \<not> space_char c)), Opt (one_of [dquote, squote])]),
     \<lparr>before_group = Eps, group1 = cats [one_of ''?&'',
         alts [cats [fold_string ''access'', Opt (one_of ''_-''), fold_string ''token''],
           cats [fold_string ''refresh'', Opt (one_of ''_-''), fold_string ''token''],
           cats [fold_string ''api'', Opt (one_of ''_-''), fold_string ''key''],
           fold_string ''client_secret'', fold_string ''token'', fold_string ''secret'', fold_string ''password''],
         re_char (CHR ''='')],
       after_group = Plus (Cls (\<lambda>c. c \<notin> set ''&#'' \<and> \<not> space_char c)), keep_group = True,
       replacement = ''[REDACTED]''\<rparr>,
     \<lparr>before_group = Eps, group1 = Eps, after_group = (let part = Plus (Cls (\<lambda>c. alnum c \<or> c \<in> set ''_-''));
         dotted = Cat (re_char (CHR ''.'')) part in
         cats [WordB, re_string ''eyJ'', part, dotted, Opt dotted, WordB]),
       keep_group = False, replacement = ''[REDACTED]''\<rparr>]"

section \<open>Code\<close>

definition first_match :: "redaction_rule \<Rightarrow> re_pos \<Rightarrow> (string \<times> re_pos) option" where
  "first_match rule p = (let
     found = concat (map (\<lambda>q. concat (map (\<lambda>q'.
         map (\<lambda>q''. (take (length (snd q) - length (snd q')) (snd q), q'')) (ends (after_group rule) q'))
       (ends (group1 rule) q))) (ends (before_group rule) p))
   in case found of [] \<Rightarrow> None | x # _ \<Rightarrow> Some x)"

function ReplaceAllString :: "redaction_rule \<Rightarrow> char option \<Rightarrow> string \<Rightarrow> string" where
  "ReplaceAllString rule b [] = []"
| "ReplaceAllString rule b (c # s) = (case first_match rule (b, c # s) of
     Some (g, (b', s')) \<Rightarrow> if length s' \<le> length s
       then (if keep_group rule then g else []) @ replacement rule @ ReplaceAllString rule b' s'
       else c # ReplaceAllString rule (Some c) s
   | None \<Rightarrow> c # ReplaceAllString rule (Some c) s)"
  by pat_completeness auto
termination by (relation "measure (\<lambda>(_, _, s). length s)") auto

definition RedactText :: "string \<Rightarrow> string" where
  "RedactText rawText = fold (\<lambda>rule redactedText. ReplaceAllString rule None redactedText) textRedactionPatterns rawText"

definition redactedPlaceholder :: string where "redactedPlaceholder = ''[REDACTED]''"

definition sensitiveFragments :: "string list" where
  "sensitiveFragments = [''secret'', ''token'', ''authorization'', ''password'', ''private_key'', ''apikey'', ''api_key'',
     ''client_secret'', ''refresh'', ''credential'']"

text \<open>\<open>uni\<close> is strings.ToLower on strings that are not ASCII.\<close>

definition isSensitiveFieldKey :: "(string \<Rightarrow> string) \<Rightarrow> string \<Rightarrow> bool" where
  "isSensitiveFieldKey uni rawKey = (let normalizedKey = to_lower uni (trim_space rawKey) in
     if normalizedKey = [] then False else list_ex (\<lambda>f. str_contains normalizedKey f) sensitiveFragments)"

definition RedactStringMap :: "(string \<Rightarrow> string) \<Rightarrow> (string, string) gomap \<Rightarrow> gdata" where
  "RedactStringMap uni rawFields = map (\<lambda>(k, v). (k, GString
     (if isSensitiveFieldKey uni k then redactedPlaceholder else RedactText v))) rawFields"

text \<open>
  Byte slices and raw JSON, which the code replaces, are not values of the model; the map and the two
  kinds of list are.
\<close>

fun redactValue :: "(string \<Rightarrow> string) \<Rightarrow> gval \<Rightarrow> gval" where
  "redactValue uni (GString s) = GString (RedactText s)"
| "redactValue uni (GMap m) = GMap (map (\<lambda>(k, v).
     (k, if isSensitiveFieldKey uni k then GString redactedPlaceholder else redactValue uni v)) m)"
| "redactValue uni (GStrMap m) = GMap (RedactStringMap uni m)"
| "redactValue uni (GStrs xs) = GList (map (\<lambda>s. GString (RedactText s)) xs)"
| "redactValue uni (GList xs) = GList (map (redactValue uni) xs)"
| "redactValue uni v = v"

definition RedactStructuredFields :: "(string \<Rightarrow> string) \<Rightarrow> gdata \<Rightarrow> gdata" where
  "RedactStructuredFields uni rawFields = map (\<lambda>(k, v).
     (k, if isSensitiveFieldKey uni k then GString redactedPlaceholder else redactValue uni v)) rawFields"

section \<open>Properties\<close>

text \<open>What a value shows when everything under a sensitive key is erased.\<close>

fun erase_sensitive :: "(string \<Rightarrow> string) \<Rightarrow> gval \<Rightarrow> gval" where
  "erase_sensitive uni (GMap m) = GMap (map (\<lambda>(k, v).
     (k, if isSensitiveFieldKey uni k then GNil else erase_sensitive uni v)) m)"
| "erase_sensitive uni (GStrMap m) = GStrMap (map (\<lambda>(k, v). (k, if isSensitiveFieldKey uni k then [] else v)) m)"
| "erase_sensitive uni (GList xs) = GList (map (erase_sensitive uni) xs)"
| "erase_sensitive uni v = v"

lemma redact_erased: "redactValue uni (erase_sensitive uni v) = redactValue uni v"
proof (induction v)
  case (GMap m)
  then show ?case by (auto simp: split_beta)
qed (auto simp: RedactStringMap_def)

text \<open>
  C25: redaction does not depend on what stands under a sensitive key, at any depth: two field maps
  that agree once those values are erased have the same redacted form.
\<close>

theorem redaction_hides_sensitive_fields:
  assumes "erase_sensitive uni (GMap xs) = erase_sensitive uni (GMap ys)"
  shows "RedactStructuredFields uni xs = RedactStructuredFields uni ys"
proof -
  have "redactValue uni (GMap xs) = redactValue uni (GMap ys)"
    using assms redact_erased [of uni "GMap xs"] redact_erased [of uni "GMap ys"] by metis
  then show ?thesis by (simp add: RedactStructuredFields_def)
qed

theorem redaction_hides_sensitive_fields_witness:
  "RedactStructuredFields id [(''a'', GMap [(''api_key'', GString ''one'')])] =
   RedactStructuredFields id [(''a'', GMap [(''api_key'', GString ''two'')])]"
proof -
  have "isSensitiveFieldKey id ''api_key''" by code_simp
  then show ?thesis by (intro redaction_hides_sensitive_fields) simp
qed

end
