(* ===== verification/HookPolicy.thy ===== *)
theory HookPolicy
  imports PolicyCheck GoRel Redact
begin

text \<open>
  The decision on a tool call of Claude Code: internal/loopgate/claude_code_hook_policy.go,
  claude_code_hook_surface.go, claude_code_operator_overrides.go, claude_code_hook_decision_metadata.go
  and claude_code_hook_explain.go, and the delegated grants of
  internal/config/operator_override_documents.go. The policy and the grants are one snapshot; the file
  system, which the decision asks more than once, is taken not to change during one decision.
\<close>

section \<open>Requests and responses\<close>

record hook_request =
  hq_EventName :: string
  hq_ToolName :: string
  hq_ToolUseID :: string
  hq_ToolInput :: "gdata option"
  hq_Prompt :: string
  hq_Reason :: string
  hq_Error :: string
  hq_Interrupted :: bool
  hq_CWD :: string
  hq_SessionID :: string

record hook_response =
  hr_Decision :: string
  hr_Reason :: string
  hr_ReasonCode :: string
  hr_DenialCode :: string
  hr_AdditionalContext :: string
  hr_ApprovalRequestID :: string
  hr_ApprovalOwner :: string
  hr_ApprovalOptions :: "string list"
  hr_OverrideClass :: string
  hr_OverrideMaxDelegation :: string
  hr_OverrideMaxGrantScope :: string

definition no_hook_response :: hook_response where
  "no_hook_response = \<lparr>hr_Decision = [], hr_Reason = [], hr_ReasonCode = [], hr_DenialCode = [],
     hr_AdditionalContext = [], hr_ApprovalRequestID = [], hr_ApprovalOwner = [], hr_ApprovalOptions = [],
     hr_OverrideClass = [], hr_OverrideMaxDelegation = [], hr_OverrideMaxGrantScope = []\<rparr>"

section \<open>Events\<close>

definition normalizedClaudeCodeHookEventName :: "string \<Rightarrow> string" where
  "normalizedClaudeCodeHookEventName raw = (let t = trim_space raw in if t = [] then ''PreToolUse'' else t)"

definition claudeCodeSecondaryGovernanceEvents :: "string list" where
  "claudeCodeSecondaryGovernanceEvents = [''PostToolUse'', ''PostToolUseFailure'', ''PermissionRequest'',
     ''TaskCreated'', ''TaskCompleted'', ''SubagentStart'', ''SubagentStop'']"

definition claudeCodeObservabilityEvents :: "string list" where
  "claudeCodeObservabilityEvents = [''UserPromptSubmit'', ''SessionStart'', ''SessionEnd'', ''InstructionsLoaded'',
     ''ConfigChange'', ''FileChanged'', ''Notification'', ''Stop'', ''StopFailure'']"

definition classifyClaudeCodeHookEvent :: "string \<Rightarrow> string" where
  "classifyClaudeCodeHookEvent raw = (let name = normalizedClaudeCodeHookEventName raw in
     if name = ''PreToolUse'' then ''primary_authority''
     else if name \<in> set [''SessionStart'', ''SessionEnd'', ''UserPromptSubmit''] then ''observability''
     else if name \<in> set claudeCodeSecondaryGovernanceEvents then ''secondary_governance''
     else if name \<in> set claudeCodeObservabilityEvents then ''observability''
     else ''unknown'')"

definition hookHandlingModeForClaudeCodeHookEvent :: "string \<Rightarrow> string" where
  "hookHandlingModeForClaudeCodeHookEvent raw =
     (if classifyClaudeCodeHookEvent raw = ''observability'' then ''audit_only'' else ''enforced'')"

definition claudeCodeToolMap :: "(string, string \<times> string) gomap" where
  "claudeCodeToolMap = [(''Bash'', (''shell'', OpExecute)), (''Write'', (''filesystem'', OpWrite)),
     (''Edit'', (''filesystem'', OpWrite)), (''MultiEdit'', (''filesystem'', OpWrite)),
     (''WebFetch'', (''http'', OpRead)), (''WebSearch'', (''http'', OpRead)), (''Read'', (''filesystem'', OpRead)),
     (''Glob'', (''filesystem'', OpRead)), (''Grep'', (''filesystem'', OpRead))]"

section \<open>Delegated grants\<close>

record override_grant =
  og_ID :: string
  og_Class :: string
  og_State :: string
  og_PathPrefixes :: "string list"
  og_CreatedAtUTC :: string
  og_RevokedAtUTC :: string

record override_document =
  od_Version :: string
  od_Grants :: "override_grant list"

datatype override_error = OverrideVersion | GrantIDInvalid string | GrantIDDuplicated string
  | GrantClassUnsupported string | GrantStateInvalid string | GrantPathsMissing string | GrantCreatedMissing string
  | GrantRevokedMissing string

text \<open>The loop over the grants with the identifiers seen so far.\<close>

fun validate_grants :: "config_env \<Rightarrow> string list \<Rightarrow> override_grant list \<Rightarrow> override_error + override_grant list" where
  "validate_grants ce seen [] = Inr []"
| "validate_grants ce seen (g # gs) = (let
     gid = trim_space (og_ID g); class = trim_space (og_Class g); state = trim_space (og_State g);
     paths = normalizeConfiguredPaths ce (og_PathPrefixes g) in
     if ValidateSafeIdentifier ''operator override grant id'' gid \<noteq> None then Inl (GrantIDInvalid gid)
     else if gid \<in> set seen then Inl (GrantIDDuplicated gid)
     else if class \<notin> set supportedOperatorOverrideClasses then Inl (GrantClassUnsupported class)
     else if state \<notin> set [''active'', ''revoked''] then Inl (GrantStateInvalid gid)
     else if paths = [] then Inl (GrantPathsMissing gid)
     else if blank (og_CreatedAtUTC g) then Inl (GrantCreatedMissing gid)
     else if state = ''revoked'' \<and> blank (og_RevokedAtUTC g) then Inl (GrantRevokedMissing gid)
     else (case validate_grants ce (gid # seen) gs of
         Inl e \<Rightarrow> Inl e
       | Inr rest \<Rightarrow> Inr (g\<lparr>og_ID := gid, og_Class := class, og_State := state, og_PathPrefixes := paths\<rparr> # rest)))"

definition applyOperatorOverrideDocumentDefaults :: "config_env \<Rightarrow> override_document \<Rightarrow> override_error + override_document" where
  "applyOperatorOverrideDocumentDefaults ce doc0 = (let
     doc = (if blank (od_Version doc0) then doc0\<lparr>od_Version := ''1''\<rparr> else doc0) in
     if trim_space (od_Version doc) \<noteq> ''1'' then Inl OverrideVersion
     else (case validate_grants ce [] (od_Grants doc) of
         Inl e \<Rightarrow> Inl e | Inr gs \<Rightarrow> Inr (doc\<lparr>od_Grants := gs\<rparr>)))"

definition ActiveOperatorOverrideGrants :: "override_document \<Rightarrow> string \<Rightarrow> override_grant list" where
  "ActiveOperatorOverrideGrants doc className = filter (\<lambda>g. trim_space (og_Class g) = trim_space className \<and>
     trim_space (og_State g) = ''active'') (od_Grants doc)"

definition operatorOverrideConfiguredPathRoot :: "string \<Rightarrow> string \<Rightarrow> string" where
  "operatorOverrideConfiguredPathRoot configuredPath repoRoot = (let p = trim_space configuredPath in
     if p = [] then [] else if is_abs p then filepath_clean p else filepath_clean (filepath_join [repoRoot, p]))"

definition OperatorOverrideGrantMatchesPath :: "override_grant \<Rightarrow> string \<Rightarrow> string \<Rightarrow> bool" where
  "OperatorOverrideGrantMatchesPath g targetPath repoRoot = list_ex (\<lambda>configured.
     let root = operatorOverrideConfiguredPathRoot configured repoRoot in root \<noteq> [] \<and> pathWithinRoot targetPath root)
     (og_PathPrefixes g)"

section \<open>What the decision asks from outside\<close>

text \<open>
  \<open>hk_lstat\<close> and \<open>hk_stat\<close> are os.Lstat and os.Stat with the error text, \<open>hk_eval_error\<close> the text of a failing
  filepath.EvalSymlinks; \<open>hk_parse_url\<close> is url.Parse with
  Host, Hostname and Scheme of its result; \<open>hk_quote_rune\<close> quotes a rune off ASCII, and
  \<open>hk_unicode_lower\<close> is strings.ToLower off ASCII.
\<close>

datatype lstat_answer = NoEntry string | LstatFailed string | SymlinkEntry | OtherEntry

record url_parts =
  url_Host :: string
  url_Hostname :: string
  url_Scheme :: string

record hook_env =
  hk_repoRoot :: string
  hk_policy :: policy
  hk_overrides :: override_document
  hk_paths :: path_env
  hk_lstat :: "string \<Rightarrow> lstat_answer"
  hk_stat :: "string \<Rightarrow> string option"
  hk_eval_error :: "string \<Rightarrow> string"
  hk_parse_url :: "string \<Rightarrow> url_parts option"
  hk_quote_rune :: "string \<Rightarrow> string"
  hk_unicode_lower :: "string \<Rightarrow> string"

definition quoted :: "hook_env \<Rightarrow> string \<Rightarrow> string" where
  "quoted he s = go_quote (hk_quote_rune he) s"

text \<open>The error texts of internal/safety/safepath.go, for a candidate with the given parent directory.\<close>

fun path_error_text :: "hook_env \<Rightarrow> string \<Rightarrow> path_error \<Rightarrow> string" where
  "path_error_text he parent EmptyPath = ''empty path''"
| "path_error_text he parent NullByte = ''path contains null byte''"
| "path_error_text he parent (GetwdFailed e) = e"
| "path_error_text he parent (NotAPathElement n) = quoted he n @ '' is not a valid path element''"
| "path_error_text he parent (ContainsSeparators n) = quoted he n @ '' contains path separators''"
| "path_error_text he parent (InvalidBasename e) = ''invalid_basename: '' @ path_error_text he parent e"
| "path_error_text he parent ParentNotResolved = ''parent_directory_not_resolved: '' @ hk_eval_error he parent"
| "path_error_text he parent (SymlinkResolutionFailed e) = ''symlink_resolution_failed: '' @ path_error_text he parent e"
| "path_error_text he parent OutsideAllowedRoots = ''path is outside allowed roots''"
| "path_error_text he parent (DenyResolutionFailed e) = ''deny path resolution failed: '' @ path_error_text he parent e"
| "path_error_text he parent DeniedByPolicy = ''path is denied by policy''"

section \<open>Tool input\<close>

definition hookInputString :: "hook_request \<Rightarrow> string \<Rightarrow> string option" where
  "hookInputString req fieldName = (case map_of (case hq_ToolInput req of None \<Rightarrow> [] | Some m \<Rightarrow> m) fieldName of
     Some (GString s) \<Rightarrow> (let t = trim_space s in if t = [] then None else Some t)
   | _ \<Rightarrow> None)"

definition hookTargetPaths :: "hook_request \<Rightarrow> string list option" where
  "hookTargetPaths req =
    (if hq_ToolName req \<in> set [''Read'', ''Write'', ''Edit'', ''MultiEdit'']
     then map_option (\<lambda>p. [p]) (hookInputString req ''file_path'')
     else if hq_ToolName req \<in> set [''Glob'', ''Grep'']
     then (case hookInputString req ''path'' of Some p \<Rightarrow> Some [p]
       | None \<Rightarrow> if blank (hq_CWD req) then None else Some [hq_CWD req])
     else None)"

definition hookTargetCandidatePath :: "hook_env \<Rightarrow> string \<Rightarrow> string \<Rightarrow> string result" where
  "hookTargetCandidatePath he rawTargetPath cwd0 = (let target = trim_space rawTargetPath; cwd = trim_space cwd0 in
     if target = [] then Inl ''empty target path''
     else (let candidate = (if is_abs target then Inr target
         else if cwd \<noteq> [] then
           (if \<not> is_abs cwd then Inl ''hook cwd must be absolute'' else Inr (filepath_join [cwd, target]))
         else Inr (filepath_join [hk_repoRoot he, target]))
       in case candidate of
         Inl e \<Rightarrow> Inl e
       | Inr c \<Rightarrow> (case filepath_abs (getwd (hk_paths he)) (filepath_clean c) of
           Inl e \<Rightarrow> Inl e | Inr p \<Rightarrow> Inr (filepath_clean p))))"

definition resolveHookTargetPath :: "hook_env \<Rightarrow> string \<Rightarrow> string \<Rightarrow> string" where
  "resolveHookTargetPath he rawTargetPath cwd =
     (case hookTargetCandidatePath he rawTargetPath cwd of Inl _ \<Rightarrow> [] | Inr p \<Rightarrow> p)"

text \<open>hostaccess.ValidPathExpression: the pattern accepts every path without a null byte but the empty one.\<close>

definition valid_path_expression :: "string \<Rightarrow> bool" where
  "valid_path_expression p = (p \<noteq> [] \<and> CHR 0x00 \<notin> set p)"

section \<open>Symbolic links on the way of a write\<close>

definition symlinkInspectionStart :: "string \<Rightarrow> string \<Rightarrow> string \<times> string" where
  "symlinkInspectionStart repoRoot inspectionPath = (let root = filepath_clean repoRoot; p = filepath_clean inspectionPath;
     from_slash = (case filepath_rel [slash] p of None \<Rightarrow> ([slash], ''.'') | Some rel \<Rightarrow> ([slash], filepath_clean rel))
   in case filepath_rel root p of
        Some rel \<Rightarrow> if \<not> climbs rel then (root, filepath_clean rel) else from_slash
      | None \<Rightarrow> from_slash)"

fun symlink_walk :: "hook_env \<Rightarrow> string \<Rightarrow> string list \<Rightarrow> bool result" where
  "symlink_walk he current [] = Inr False"
| "symlink_walk he current (part # parts) =
    (if part = [] \<or> part = ''.'' then symlink_walk he current parts
     else if part = ''..'' then Inl ''path escapes symlink inspection root''
     else (let next = filepath_join [current, part] in
       if \<not> valid_path_expression next then Inl ''path contains unsupported characters''
       else (case hk_lstat he next of
           NoEntry e \<Rightarrow> Inl e | LstatFailed e \<Rightarrow> Inl e
         | SymlinkEntry \<Rightarrow> Inr True | OtherEntry \<Rightarrow> symlink_walk he next parts)))"

definition mutatingHookPathUsesSymlinkPath :: "hook_env \<Rightarrow> string \<Rightarrow> bool result" where
  "mutatingHookPathUsesSymlinkPath he candidatePath =
    (if \<not> valid_path_expression candidatePath then Inl ''path contains unsupported characters''
     else (let inspected = (case hk_lstat he candidatePath of
           LstatFailed e \<Rightarrow> Inl e | NoEntry _ \<Rightarrow> Inr (filepath_dir candidatePath) | _ \<Rightarrow> Inr candidatePath)
       in case inspected of
         Inl e \<Rightarrow> Inl e
       | Inr p \<Rightarrow> (case symlinkInspectionStart (hk_repoRoot he) p of
           (start, rel) \<Rightarrow> if rel = ''.'' then Inr False else symlink_walk he start (split_on slash rel))))"

section \<open>Resolving a target\<close>

text \<open>The resolved path, and the text of the error.\<close>

definition resolveClaudeCodeHookPolicyPath :: "hook_env \<Rightarrow> hook_request \<Rightarrow> string \<Rightarrow> string list \<Rightarrow> string list \<Rightarrow>
    string \<times> string option" where
  "resolveClaudeCodeHookPolicyPath he req rawTargetPath allowedRoots deniedPaths =
    (case hookTargetCandidatePath he rawTargetPath (hq_CWD req) of
       Inl e \<Rightarrow> ([], Some e)
     | Inr candidate \<Rightarrow> (let roots = (if allowedRoots = [] then [[slash]] else allowedRoots) in
         case ExplainSafePath (hk_paths he) (hk_repoRoot he) roots deniedPaths candidate of
           (ex, Some e) \<Rightarrow> (ResolvedAbs ex, Some (path_error_text he (filepath_dir (CandidateAbs ex)) e))
         | (ex, None) \<Rightarrow>
             if hq_ToolName req \<in> set [''Read'', ''Glob'', ''Grep''] then
               (if \<not> valid_path_expression (ResolvedAbs ex)
                then (ResolvedAbs ex, Some ''target_path_not_resolved: path contains unsupported characters'')
                else (case hk_stat he (ResolvedAbs ex) of
                    Some e \<Rightarrow> (ResolvedAbs ex, Some (''target_path_not_resolved: '' @ e))
                  | None \<Rightarrow> (ResolvedAbs ex, None)))
             else if hq_ToolName req \<in> set [''Write'', ''Edit'', ''MultiEdit''] then
               (case mutatingHookPathUsesSymlinkPath he candidate of
                  Inl e \<Rightarrow> (ResolvedAbs ex, Some (''symlink path validation failed: '' @ e))
                | Inr True \<Rightarrow> (ResolvedAbs ex, Some ''symlink path denied'')
                | Inr False \<Rightarrow> (ResolvedAbs ex, None))
             else (ResolvedAbs ex, None)))"

section \<open>Constraints of a tool policy\<close>

definition normalizeWhitespaceForPrefixMatch :: "string \<Rightarrow> string" where
  "normalizeWhitespaceForPrefixMatch raw = join_with '' '' (str_fields (trim_space raw))"

definition applyClaudeCodeBashConstraints :: "hook_env \<Rightarrow> hook_request \<Rightarrow> claude_code_tool_policy \<Rightarrow> check_result option" where
  "applyClaudeCodeBashConstraints he req tp =
    (if ct_AllowedCommandPrefixes tp = [] \<and> ct_DeniedCommandPrefixes tp = [] then None
     else (case hookInputString req ''command'' of
         None \<Rightarrow> Some (result Deny ''bash command policy requires tool_input.command'')
       | Some commandText \<Rightarrow> (let command = normalizeWhitespaceForPrefixMatch commandText;
             matches = (\<lambda>p. has_prefix command (normalizeWhitespaceForPrefixMatch p)) in
           case find matches (ct_DeniedCommandPrefixes tp) of
             Some deniedPrefix \<Rightarrow> Some (result Deny (''bash command matches denied prefix '' @ quoted he deniedPrefix))
           | None \<Rightarrow> if ct_AllowedCommandPrefixes tp = [] then None
               else if list_ex matches (ct_AllowedCommandPrefixes tp) then None
               else Some (result Deny ''bash command does not match any allowed prefix''))))"

text \<open>The answer to one target: its display path is the resolved path where there is one.\<close>

definition path_denial :: "hook_env \<Rightarrow> hook_request \<Rightarrow> string \<Rightarrow> string \<times> string option \<Rightarrow> check_result option" where
  "path_denial he req targetPath resolved = (let
     target = quoted he (if blank (fst resolved) then trim_space targetPath else fst resolved);
     deny = (\<lambda>what. Some (result Deny (hq_ToolName req @ '' target '' @ target @ what)));
     unresolved = Some (result Deny (hq_ToolName req @ '' path policy could not resolve target path''))
   in case snd resolved of
        Some e \<Rightarrow> if str_contains e ''path is outside allowed roots'' then deny '' is outside allowed roots''
          else if str_contains e ''path is denied by policy'' then deny '' matches denied path policy''
          else if str_contains e ''symlink path'' then deny '' uses a symlink path''
          else unresolved
      | None \<Rightarrow> if fst resolved = [] then unresolved else None)"

fun path_denials :: "hook_env \<Rightarrow> hook_request \<Rightarrow> string list \<Rightarrow> string list \<Rightarrow> string list \<Rightarrow> check_result option" where
  "path_denials he req roots denies [] = None"
| "path_denials he req roots denies (t # ts) =
    (case path_denial he req t (resolveClaudeCodeHookPolicyPath he req t roots denies) of
       Some r \<Rightarrow> Some r | None \<Rightarrow> path_denials he req roots denies ts)"

definition effective_roots :: "hook_env \<Rightarrow> claude_code_tool_policy \<Rightarrow> string list" where
  "effective_roots he tp = (if ct_AllowedRoots tp = [] then fs_AllowedRoots (Filesystem (hk_policy he)) else ct_AllowedRoots tp)"

definition effective_denies :: "hook_env \<Rightarrow> claude_code_tool_policy \<Rightarrow> string list" where
  "effective_denies he tp = (if ct_DeniedPaths tp = [] then fs_DeniedPaths (Filesystem (hk_policy he)) else ct_DeniedPaths tp)"

definition applyClaudeCodePathConstraints :: "hook_env \<Rightarrow> hook_request \<Rightarrow> claude_code_tool_policy \<Rightarrow> check_result option" where
  "applyClaudeCodePathConstraints he req tp = (let roots = effective_roots he tp; denies = effective_denies he tp in
     if roots = [] \<and> denies = [] then None
     else (case hookTargetPaths req of
         None \<Rightarrow> Some (result Deny (hq_ToolName req @ '' path policy requires a target path''))
       | Some targets \<Rightarrow>
           if targets = [] then Some (result Deny (hq_ToolName req @ '' path policy requires a target path''))
           else path_denials he req roots denies targets))"

definition hostMatchesDomain :: "string \<Rightarrow> string \<Rightarrow> bool" where
  "hostMatchesDomain host allowedDomain = (host = allowedDomain \<or> has_suffix host (''.'' @ allowedDomain))"

definition applyClaudeCodeWebFetchConstraints :: "hook_env \<Rightarrow> hook_request \<Rightarrow> claude_code_tool_policy \<Rightarrow> check_result option" where
  "applyClaudeCodeWebFetchConstraints he req tp = (let
     domains = (if ct_AllowedDomains tp = [] then http_AllowedDomains (HTTP (hk_policy he)) else ct_AllowedDomains tp);
     lower = to_lower (hk_unicode_lower he) in
     if domains = [] then None
     else (case hookInputString req ''url'' of
         None \<Rightarrow> Some (result Deny ''web fetch domain policy requires tool_input.url'')
       | Some requestURL \<Rightarrow> (case hk_parse_url he requestURL of
           None \<Rightarrow> Some (result Deny ''web fetch domain policy requires a valid url'')
         | Some u \<Rightarrow> if url_Host u = [] then Some (result Deny ''web fetch domain policy requires a valid url'')
             else (let host = lower (url_Hostname u) in
               if list_ex (\<lambda>d. hostMatchesDomain host (lower d)) domains then None
               else Some (result Deny (''web fetch host '' @ quoted he host @ '' is outside allowed domains''))))))"

definition applyClaudeCodeHookConstraints :: "hook_env \<Rightarrow> hook_request \<Rightarrow> claude_code_tool_policy \<Rightarrow> check_result option" where
  "applyClaudeCodeHookConstraints he req tp =
    (if hq_ToolName req = ''Bash'' then applyClaudeCodeBashConstraints he req tp
     else if hq_ToolName req \<in> set [''Read'', ''Write'', ''Edit'', ''MultiEdit'', ''Glob'', ''Grep'']
     then applyClaudeCodePathConstraints he req tp
     else if hq_ToolName req = ''WebFetch'' then applyClaudeCodeWebFetchConstraints he req tp
     else None)"

section \<open>The delegated override\<close>

definition matchClaudeCodeOperatorOverride :: "hook_env \<Rightarrow> hook_request \<Rightarrow> string \<Rightarrow> override_grant option" where
  "matchClaudeCodeOperatorOverride he req overrideClass =
    (if overrideClass \<notin> set [''repo_read_search'', ''repo_edit_safe'', ''repo_write_safe'', ''repo_bash_safe''] then None
     else (let targets = (case hookTargetPaths req of
           Some (t # ts) \<Rightarrow> Some (t # ts)
         | _ \<Rightarrow> if overrideClass \<noteq> ''repo_bash_safe'' \<or> hq_CWD req = [] then None else Some [hq_CWD req]);
         root = (case evalSymlinks (hk_paths he) (hk_repoRoot he) of
             Some r \<Rightarrow> filepath_clean r | None \<Rightarrow> hk_repoRoot he)
       in case targets of
            None \<Rightarrow> None
          | Some ts \<Rightarrow> find (\<lambda>g. list_all (\<lambda>t. case resolveClaudeCodeHookPolicyPath he req t [] [] of
                (p, e) \<Rightarrow> e = None \<and> p \<noteq> [] \<and> OperatorOverrideGrantMatchesPath g p root) ts)
              (ActiveOperatorOverrideGrants (hk_overrides he) overrideClass)))"

section \<open>The decision\<close>

definition no_tool_policy :: claude_code_tool_policy where
  "no_tool_policy = \<lparr>ct_Enabled = None, ct_RequiresApproval = None, ct_AllowedRoots = [], ct_DeniedPaths = [],
     ct_AllowedDomains = [], ct_AllowedCommandPrefixes = [], ct_DeniedCommandPrefixes = []\<rparr>"

definition tool_policy_of :: "hook_env \<Rightarrow> string \<Rightarrow> claude_code_tool_policy" where
  "tool_policy_of he toolName = (case ClaudeCodeToolPolicy (hk_policy he) toolName of None \<Rightarrow> no_tool_policy | Some tp \<Rightarrow> tp)"

definition delegated_grant :: "hook_env \<Rightarrow> hook_request \<Rightarrow> override_grant option" where
  "delegated_grant he req = (case ClaudeCodeToolOperatorOverride (hk_policy he) (hq_ToolName req) of
     (overrideClass, maxDelegation, found) \<Rightarrow>
       if found \<and> maxDelegation = ''persistent'' then matchClaudeCodeOperatorOverride he req overrideClass else None)"

definition evaluateClaudeCodeHookPolicy :: "hook_env \<Rightarrow> hook_request \<Rightarrow> string \<times> string \<Rightarrow> check_result" where
  "evaluateClaudeCodeHookPolicy he req toolDef = (let
     base = Check (hk_policy he) \<lparr>ti_Name = hq_ToolName req, ti_Category = fst toolDef, ti_Operation = snd toolDef\<rparr>;
     tp = tool_policy_of he (hq_ToolName req) in
     if ct_Enabled tp = Some False then result Deny (hq_ToolName req @ '' is disabled by Claude Code tool policy'')
     else (case applyClaudeCodeHookConstraints he req tp of
         Some r \<Rightarrow> r
       | None \<Rightarrow> (let eligible = ((ct_RequiresApproval tp = Some True \<and> cr_Decision base \<noteq> Deny) \<or>
             (ct_RequiresApproval tp = None \<and> cr_Decision base = NeedsApproval)) in
           case (if eligible then delegated_grant he req else None) of
             Some g \<Rightarrow> result Allow (hq_ToolName req @ '' allowed by delegated operator override '' @ og_ID g)
           | None \<Rightarrow> (case ct_RequiresApproval tp of
               Some True \<Rightarrow> result NeedsApproval (hq_ToolName req @ '' requires approval by Claude Code tool policy'')
             | Some False \<Rightarrow> result Allow []
             | None \<Rightarrow> if ct_Enabled tp = Some True then result Allow [] else base))))"

section \<open>What the answer says about a decision\<close>

definition hookReasonCode :: "string \<Rightarrow> check_result \<Rightarrow> string" where
  "hookReasonCode decision r =
    (if decision = ''allow'' then
       (if str_contains (cr_Reason r) ''delegated operator override'' then ''operator_override_allowed'' else ''policy_allowed'')
     else if decision = ''ask'' then ''approval_required''
     else if decision = ''block'' then ''policy_denied'' else [])"

definition hookApprovalOptions :: "string \<Rightarrow> string list" where
  "hookApprovalOptions maxDelegation = ''once'' #
     (if trim_space maxDelegation = ''session'' then [''session'']
      else if trim_space maxDelegation = ''persistent'' then [''permanent''] else [])"

definition hookGrantScopeLabel :: "string \<Rightarrow> string" where
  "hookGrantScopeLabel maxDelegation = (if trim_space maxDelegation = ''persistent'' then ''permanent''
     else if trim_space maxDelegation = ''session'' then ''session'' else ''none'')"

record hook_decision_metadata =
  dm_reasonCode :: string
  dm_approvalOwner :: string
  dm_approvalOptions :: "string list"

definition buildHookDecisionMetadata :: "string \<Rightarrow> check_result \<Rightarrow> string \<Rightarrow> hook_decision_metadata" where
  "buildHookDecisionMetadata decision r maxDelegation = \<lparr>dm_reasonCode = hookReasonCode decision r,
     dm_approvalOwner = (if decision = ''ask'' then ''harness'' else []),
     dm_approvalOptions = (if decision = ''ask'' then hookApprovalOptions maxDelegation else [])\<rparr>"

definition hook_decision_word :: "decision \<Rightarrow> string" where
  "hook_decision_word d = (case d of Allow \<Rightarrow> ''allow'' | NeedsApproval \<Rightarrow> ''ask'' | Deny \<Rightarrow> ''block'')"

text \<open>The override fields are set when the tool has an override class.\<close>

definition with_override_fields :: "hook_env \<Rightarrow> hook_request \<Rightarrow> hook_response \<Rightarrow> hook_response" where
  "with_override_fields he req r = (case ClaudeCodeToolOperatorOverride (hk_policy he) (hq_ToolName req) of
     (overrideClass, maxDelegation, found) \<Rightarrow> if found then r\<lparr>hr_OverrideClass := overrideClass,
         hr_OverrideMaxDelegation := maxDelegation, hr_OverrideMaxGrantScope := hookGrantScopeLabel maxDelegation\<rparr>
       else r)"

definition override_delegation :: "hook_env \<Rightarrow> hook_request \<Rightarrow> string" where
  "override_delegation he req = fst (snd (ClaudeCodeToolOperatorOverride (hk_policy he) (hq_ToolName req)))"

text \<open>After the policy and the grants are loaded: the explanation trims the name it looks up, not the request's.\<close>

definition ExplainClaudeCodeHookDecision :: "hook_env \<Rightarrow> hook_request \<Rightarrow> hook_response" where
  "ExplainClaudeCodeHookDecision he req = (case map_of claudeCodeToolMap (trim_space (hq_ToolName req)) of
     None \<Rightarrow> if ClaudeCodeDenyUnknownTools (hk_policy he)
       then no_hook_response\<lparr>hr_Decision := ''block'', hr_Reason := ''tool not in governance map - denied by default'',
         hr_ReasonCode := ''policy_denied'', hr_DenialCode := ''hook_unknown_tool''\<rparr>
       else no_hook_response\<lparr>hr_Decision := ''allow'', hr_ReasonCode := ''policy_allowed''\<rparr>
   | Some toolDef \<Rightarrow> (let r = evaluateClaudeCodeHookPolicy he req toolDef;
         decision = hook_decision_word (cr_Decision r);
         denialCode = (if decision = ''block'' then ''policy_denied'' else []);
         m = buildHookDecisionMetadata decision r (override_delegation he req)
       in with_override_fields he req (no_hook_response\<lparr>hr_Decision := decision, hr_ReasonCode := dm_reasonCode m,
            hr_Reason := (if blank (cr_Reason r) then [] else cr_Reason r), hr_DenialCode := denialCode,
            hr_ApprovalOwner := dm_approvalOwner m, hr_ApprovalOptions := dm_approvalOptions m\<rparr>)))"

section \<open>What an answer other than block has passed\<close>

abbreviation hook_decision :: "hook_env \<Rightarrow> hook_request \<Rightarrow> string \<times> string \<Rightarrow> decision" where
  "hook_decision he req toolDef \<equiv> cr_Decision (evaluateClaudeCodeHookPolicy he req toolDef)"

lemma constraints_deny: "applyClaudeCodeHookConstraints he req tp = Some r \<Longrightarrow> cr_Decision r = Deny"
proof -
  have "path_denials he req roots denies ts = Some r \<Longrightarrow> cr_Decision r = Deny" for roots denies ts
    by (induction ts) (auto simp: path_denial_def Let_def split: option.splits if_splits)
  then show "applyClaudeCodeHookConstraints he req tp = Some r \<Longrightarrow> cr_Decision r = Deny"
    by (auto simp: applyClaudeCodeHookConstraints_def applyClaudeCodeBashConstraints_def
        applyClaudeCodePathConstraints_def applyClaudeCodeWebFetchConstraints_def Let_def
        split: option.splits if_splits)
qed

lemma not_denied_unconstrained:
  assumes "hook_decision he req toolDef \<noteq> Deny"
  shows "ct_Enabled (tool_policy_of he (hq_ToolName req)) \<noteq> Some False \<and>
    applyClaudeCodeHookConstraints he req (tool_policy_of he (hq_ToolName req)) = None"
  using assms constraints_deny
  by (auto simp: evaluateClaudeCodeHookPolicy_def Let_def split: if_splits option.splits)

lemma path_denials_None: "path_denials he req roots denies ts = None \<Longrightarrow> t \<in> set ts \<Longrightarrow>
    path_denial he req t (resolveClaudeCodeHookPolicyPath he req t roots denies) = None"
  by (induction ts) (auto split: option.splits)

lemma path_denial_None: "path_denial he req t resolved = None \<Longrightarrow> snd resolved = None \<and> fst resolved \<noteq> []"
  by (auto simp: path_denial_def Let_def split: option.splits if_splits)

lemma resolved_target:
  assumes "resolveClaudeCodeHookPolicyPath he req t roots denies = (p, None)"
  shows "\<exists>candidate ex. hookTargetCandidatePath he t (hq_CWD req) = Inr candidate \<and> ResolvedAbs ex = p \<and>
    ExplainSafePath (hk_paths he) (hk_repoRoot he) (if roots = [] then [[slash]] else roots) denies candidate = (ex, None) \<and>
    (hq_ToolName req \<in> set [''Write'', ''Edit'', ''MultiEdit''] \<longrightarrow> mutatingHookPathUsesSymlinkPath he candidate = Inr False)"
  using assms by (auto simp: resolveClaudeCodeHookPolicyPath_def Let_def
      split: sum.splits prod.splits option.splits if_splits bool.splits)

definition file_tools :: "string list" where
  "file_tools = [''Read'', ''Write'', ''Edit'', ''MultiEdit'', ''Glob'', ''Grep'']"

end
