(* ===== verification/Protocol.thy ===== *)
theory Protocol
  imports Identifiers
begin

text \<open>
  internal/protocol/capability.go: the capability request envelope, its canonical JSON (the body an
  approval is bound to), its validation and its clone, and the approval decision request.
\<close>

record capability_request =
  RequestID :: string
  SessionID :: string
  Actor :: string
  Capability :: string
  Arguments :: "(string, string) gomap option"  \<comment> \<open>None is the nil map\<close>
  CorrelationID :: string
  EchoedNativeToolName :: string
  EchoedNativeToolNameSnake :: string
  EchoedNativeToolNameCamel :: string
  EchoedNativeToolUseID :: string
  EchoedNativeToolUseIDSnake :: string
  EchoedNativeToolCallID :: string
  EchoedNativeToolCallIDAlt :: string

definition args_of :: "capability_request \<Rightarrow> (string, string) gomap" where
  "args_of r = (case Arguments r of None \<Rightarrow> [] | Some m \<Rightarrow> m)"

definition json_string_map :: "(string, string) gomap \<Rightarrow> string" where
  "json_string_map m = json_object (map (\<lambda>(k, v). (k, json_string v)) (sort_keys m))"

definition json_args :: "(string, string) gomap option \<Rightarrow> string" where
  "json_args a = (case a of None \<Rightarrow> ''null'' | Some m \<Rightarrow> json_string_map m)"

definition MarshalJSON :: "capability_request \<Rightarrow> string" where
  "MarshalJSON request = json_object
     [(''request_id'', json_string (RequestID request)),
      (''session_id'', json_string (SessionID request)),
      (''actor'', json_string (Actor request)),
      (''capability'', json_string (Capability request)),
      (''arguments'', json_args (Arguments request)),
      (''correlation_id'', json_string (CorrelationID request))]"

definition validate_optional :: "string \<Rightarrow> string \<Rightarrow> string option" where
  "validate_optional name v = (if trim_space v \<noteq> [] then ValidateSafeIdentifier name v else None)"

definition CapabilityRequest_Validate :: "capability_request \<Rightarrow> string option" where
  "CapabilityRequest_Validate request = first_error
     ([validate_optional ''request_id'' (RequestID request),
       validate_optional ''session_id'' (SessionID request),
       validate_optional ''actor'' (Actor request),
       ValidateSafeIdentifier ''capability'' (Capability request),
       validate_optional ''correlation_id'' (CorrelationID request)]
      @ map (\<lambda>(k, v). ValidateSafeIdentifier ''capability argument name'' k) (args_of request))"

definition CloneCapabilityRequest :: "capability_request \<Rightarrow> capability_request" where
  "CloneCapabilityRequest request = (case Arguments request of None \<Rightarrow> request
     | Some m \<Rightarrow> request\<lparr>Arguments := Some (fold (\<lambda>(k, v) c. mput k v c) m [])\<rparr>)"

record approval_decision_request =
  Approved :: bool
  DecisionReason :: string
  SubmittedNonce :: string
  SubmittedManifest :: string

definition ApprovalDecisionRequest_Validate :: "approval_decision_request \<Rightarrow> string option" where
  "ApprovalDecisionRequest_Validate request =
     (if trim_space (SubmittedNonce request) = [] then None
      else ValidateSafeIdentifier ''approval decision nonce'' (SubmittedNonce request))"

text \<open>The body may be any type; \<open>marshal\<close> is json.Marshal at that type.\<close>

definition RequestBodySHA256 :: "('a \<Rightarrow> string result) \<Rightarrow> 'a \<Rightarrow> string result" where
  "RequestBodySHA256 marshal requestBody = (case marshal requestBody of
     Inl e \<Rightarrow> Inl (''marshal request body: '' @ e)
   | Inr bytes \<Rightarrow> Inr (sha256_hex bytes))"

section \<open>Validation\<close>

lemma validate_optional_None:
  "validate_optional name v = None \<longleftrightarrow> blank v \<or> safe_identifier (trim_space v)"
  by (auto simp: validate_optional_def blank_def safe_identifier_iff)

lemma capability_request_valid_iff:
  "CapabilityRequest_Validate r = None \<longleftrightarrow>
     (\<forall>v\<in>{RequestID r, SessionID r, Actor r, CorrelationID r}. blank v \<or> safe_identifier (trim_space v))
     \<and> safe_identifier (trim_space (Capability r))
     \<and> (\<forall>(k, v)\<in>set (args_of r). safe_identifier (trim_space k))"
  unfolding CapabilityRequest_Validate_def first_error_None
  by (auto simp: validate_optional_None safe_identifier_iff split: prod.splits)

section \<open>Cloning\<close>

lemma clone_keeps_lookup:
  assumes "map_wf (args_of r)"
  shows "map_of (args_of (CloneCapabilityRequest r)) = map_of (args_of r)"
proof (rule ext)
  fix k
  show "map_of (args_of (CloneCapabilityRequest r)) k = map_of (args_of r) k"
    using assms fold_mput_map_of [of "args_of r" "[]" k]
    by (auto simp: CloneCapabilityRequest_def args_of_def split: option.splits)
qed

lemma clone_MarshalJSON:
  assumes "map_wf (args_of r)"
  shows "MarshalJSON (CloneCapabilityRequest r) = MarshalJSON r"
proof (cases "Arguments r")
  case (Some m)
  let ?c = "fold (\<lambda>(k, v) c. mput k v c) m []"
  have m: "map_wf m" using assms Some by (simp add: args_of_def)
  have c: "map_wf ?c" by (rule fold_mput_wf) simp
  have "set ?c = set m" by (rule set_fold_mput [OF m])
  then have "sort_keys ?c = sort_keys m" by (rule sort_keys_canonical [OF c m])
  with Some show ?thesis
    by (simp add: CloneCapabilityRequest_def MarshalJSON_def json_args_def json_string_map_def)
qed (simp add: CloneCapabilityRequest_def)

section \<open>The canonical body identifies the request\<close>

text \<open>The fields that reach the wire, with the arguments as the function they denote.\<close>

definition canonical_fields :: "capability_request \<Rightarrow>
    string \<times> string \<times> string \<times> string \<times> (string \<rightharpoonup> string) option \<times> string" where
  "canonical_fields r = (RequestID r, SessionID r, Actor r, Capability r,
     map_option map_of (Arguments r), CorrelationID r)"

definition utf8_request :: "capability_request \<Rightarrow> bool" where
  "utf8_request r = (list_all valid_utf8
       [RequestID r, SessionID r, Actor r, Capability r, CorrelationID r]
     \<and> list_all (\<lambda>(k, v). valid_utf8 k \<and> valid_utf8 v) (args_of r) \<and> map_wf (args_of r))"

lemma delimited_string_map:
  "delimited (\<lambda>m. json_object (map (\<lambda>(k, v). (k, json_string v)) m))
     {m. set m \<subseteq> {k. valid_utf8 k} \<times> {v. valid_utf8 v}}"
  by (rule delimited_json_object [OF delimited_json_string])

lemma json_args_delimited:
  assumes "json_args a @ r = json_args b @ r'"
    and "\<And>m. a = Some m \<Longrightarrow> map_wf m \<and> set m \<subseteq> {k. valid_utf8 k} \<times> {v. valid_utf8 v}"
    and "\<And>m. b = Some m \<Longrightarrow> map_wf m \<and> set m \<subseteq> {k. valid_utf8 k} \<times> {v. valid_utf8 v}"
  shows "map_option map_of a = map_option map_of b \<and> r = r'"
proof (cases a)
  case None
  with assms(1) show ?thesis
    by (cases b) (auto simp: json_args_def json_string_map_def json_object_def)
next
  case (Some m)
  with assms(1) obtain n where n: "b = Some n"
    by (cases b) (auto simp: json_args_def json_string_map_def json_object_def)
  have "json_object (map (\<lambda>(k, v). (k, json_string v)) (sort_keys m)) @ r =
      json_object (map (\<lambda>(k, v). (k, json_string v)) (sort_keys n)) @ r'"
    using assms(1) Some n by (simp add: json_args_def json_string_map_def)
  from delimitedD [OF delimited_string_map this] assms(2) [OF Some] assms(3) [OF n]
  have e: "sort_keys m = sort_keys n" "r = r'" by auto
  then have "map_of (sort_keys m) = map_of (sort_keys n)" by simp
  then have "map_of m = map_of n" using assms(2) [OF Some] assms(3) [OF n] by simp
  with e Some n show ?thesis by simp
qed

lemma json_string_peel:
  "json_string s @ p = json_string t @ q \<Longrightarrow> valid_utf8 s \<Longrightarrow> valid_utf8 t \<Longrightarrow> s = t \<and> p = q"
  by (drule delimitedD [OF delimited_json_string]) auto

lemma utf8_request_args:
  "utf8_request r \<Longrightarrow> Arguments r = Some m \<Longrightarrow>
     map_wf m \<and> set m \<subseteq> {k. valid_utf8 k} \<times> {v. valid_utf8 v}"
  by (auto simp: utf8_request_def args_of_def list_all_iff)

lemma MarshalJSON_inj:
  assumes u: "utf8_request r" "utf8_request r'" and e: "MarshalJSON r = MarshalJSON r'"
  shows "canonical_fields r = canonical_fields r'"
proof -
  have v: "list_all valid_utf8 [RequestID r, SessionID r, Actor r, Capability r, CorrelationID r]"
    "list_all valid_utf8 [RequestID r', SessionID r', Actor r', Capability r', CorrelationID r']"
    using u by (simp_all add: utf8_request_def)
  note args = json_args_delimited [OF _ utf8_request_args [OF u(1)] utf8_request_args [OF u(2)]]
  from e v show ?thesis
    by (auto simp: MarshalJSON_def json_object_def json_commas_def json_field_def canonical_fields_def
        dest!: json_string_peel args dest: json_string_inj)
qed

end
