(* ===== verification/ApprovalModel.thy ===== *)
theory ApprovalModel
  imports Protocol GoValue
begin

text \<open>
  internal/approvalruntime: the approval state machine, the hashes an approval is bound to, the
  pending-approval record and the pure contract of a decision (approval.go, decision.go, model.go).
\<close>

section \<open>The approval state machine\<close>

definition StatePending :: string where "StatePending = ''pending''"
definition StateGranted :: string where "StateGranted = ''granted''"
definition StateDenied :: string where "StateDenied = ''denied''"
definition StateExpired :: string where "StateExpired = ''expired''"
definition StateCancelled :: string where "StateCancelled = ''cancelled''"
definition StateConsumed :: string where "StateConsumed = ''consumed''"
definition StateExecutionFailed :: string where "StateExecutionFailed = ''execution_failed''"
definition ScopeSingleUse :: string where "ScopeSingleUse = ''single-use''"

lemmas approval_states = StatePending_def StateGranted_def StateDenied_def StateExpired_def
  StateCancelled_def StateConsumed_def StateExecutionFailed_def

definition allowedStateTransitions :: "(string, string list) gomap" where
  "allowedStateTransitions =
    [(StatePending, [StateGranted, StateDenied, StateExpired, StateCancelled, StateConsumed]),
     (StateGranted, [StateConsumed]),
     (StateConsumed, [StateExecutionFailed])]"

datatype transition_error = NoCurrentState | NoNextState | InvalidTransition string string

definition ValidateStateTransition :: "string \<Rightarrow> string \<Rightarrow> transition_error option" where
  "ValidateStateTransition currentState0 nextState0 = (let
     currentState = trim_space currentState0; nextState = trim_space nextState0 in
     if currentState = [] then Some NoCurrentState
     else if nextState = [] then Some NoNextState
     else if currentState = nextState then None
     else (case map_of allowedStateTransitions currentState of
         None \<Rightarrow> Some (InvalidTransition currentState nextState)
       | Some allowedNextStates \<Rightarrow>
           if nextState \<notin> set allowedNextStates
           then Some (InvalidTransition currentState nextState) else None))"

section \<open>Hashes\<close>

definition TokenHash :: "string \<Rightarrow> string" where
  "TokenHash token = sha256_hex token"

text \<open>The text that is hashed, and its hash.\<close>

definition manifest_text :: "string \<Rightarrow> string \<Rightarrow> string \<Rightarrow> string \<Rightarrow> string \<Rightarrow> string \<Rightarrow> string \<Rightarrow>
    string \<Rightarrow> int \<Rightarrow> string" where
  "manifest_text actionClass subjectClass subjectRef subjectBinding executionMethod executionPath
     executionBodySHA256 approvalScope expiresAtMs =
     ''amp-approval-manifest-v1'' @ [CHR 0x0A] @
     ''action-class:'' @ actionClass @ [CHR 0x0A] @
     ''subject-class:'' @ subjectClass @ [CHR 0x0A] @
     ''subject-ref:'' @ subjectRef @ [CHR 0x0A] @
     ''subject-binding:'' @ subjectBinding @ [CHR 0x0A] @
     ''execution-method:'' @ executionMethod @ [CHR 0x0A] @
     ''execution-path:'' @ executionPath @ [CHR 0x0A] @
     ''execution-body-sha256:'' @ executionBodySHA256 @ [CHR 0x0A] @
     ''approval-scope:'' @ approvalScope @ [CHR 0x0A] @
     ''expires-at-ms:'' @ int_str expiresAtMs @ [CHR 0x0A]"

definition ComputeManifestSHA256 :: "string \<Rightarrow> string \<Rightarrow> string \<Rightarrow> string \<Rightarrow> string \<Rightarrow> string \<Rightarrow> string \<Rightarrow>
    string \<Rightarrow> int \<Rightarrow> string" where
  "ComputeManifestSHA256 actionClass subjectClass subjectRef subjectBinding executionMethod
     executionPath executionBodySHA256 approvalScope expiresAtMs =
     sha256_hex (manifest_text actionClass subjectClass subjectRef subjectBinding executionMethod
       executionPath executionBodySHA256 approvalScope expiresAtMs)"

definition CapabilitySubjectBinding :: "string \<Rightarrow> string" where
  "CapabilitySubjectBinding capabilityName =
     ''object-sha256:'' @ sha256_hex (''capability-name:'' @ capabilityName)"

definition approvalRequestBodySHA256 :: "('a \<Rightarrow> string result) \<Rightarrow> 'a \<Rightarrow> string result" where
  "approvalRequestBodySHA256 marshal requestBody = (case marshal requestBody of
     Inl e \<Rightarrow> Inl (''marshal approval request body: '' @ e)
   | Inr bytes \<Rightarrow> Inr (sha256_hex bytes))"

section \<open>Pending approvals\<close>

record execution_context =
  ec_ControlSessionID :: string
  ec_ActorLabel :: string
  ec_ClientSessionLabel :: string
  ec_AllowedCapabilities :: "string list"
  ec_TenantID :: string
  ec_UserID :: string

record pending_approval =
  pa_ID :: string
  pa_Request :: capability_request
  pa_CreatedAt :: gotime
  pa_ExpiresAt :: gotime
  pa_Metadata :: gdata
  pa_Reason :: string
  pa_ControlSessionID :: string
  pa_DecisionNonce :: string
  pa_DecisionSubmittedAt :: gotime
  pa_ExecutedAt :: gotime
  pa_ExecutionContext :: execution_context
  pa_State :: string
  pa_ApprovalManifestSHA256 :: string
  pa_ExecutionBodySHA256 :: string

definition BuildCapabilityApprovalManifest ::
    "capability_request \<Rightarrow> int \<Rightarrow> (string \<times> string) result" where
  "BuildCapabilityApprovalManifest capabilityRequest expiresAtMs =
     (case approvalRequestBodySHA256 (\<lambda>r. Inr (MarshalJSON r)) capabilityRequest of
        Inl e \<Rightarrow> Inl e
      | Inr bodyHash \<Rightarrow> Inr
         (ComputeManifestSHA256 ''capability.execute'' ''capability'' (Capability capabilityRequest)
            (CapabilitySubjectBinding (Capability capabilityRequest)) ''POST''
            ''/v1/capabilities/execute'' bodyHash ScopeSingleUse expiresAtMs,
          bodyHash))"

text \<open>The record is written back to the map the caller passes.\<close>

definition BackfillPendingApprovalManifest ::
    "(string, pending_approval) gomap \<Rightarrow> string \<Rightarrow> pending_approval \<Rightarrow>
     (string, pending_approval) gomap \<times> pending_approval" where
  "BackfillPendingApprovalManifest approvalRecords approvalID approval =
    (if trim_space (pa_ApprovalManifestSHA256 approval) \<noteq> [] then (approvalRecords, approval)
     else if trim_space (Capability (pa_Request approval)) = [] \<or> pa_ExpiresAt approval = 0
     then (approvalRecords, approval)
     else case BuildCapabilityApprovalManifest (pa_Request approval)
                 (unix_millis (pa_ExpiresAt approval)) of
       Inl e \<Rightarrow> (approvalRecords, approval)
     | Inr (manifestSHA256, bodySHA256) \<Rightarrow> (let
         a1 = approval\<lparr>pa_ApprovalManifestSHA256 := manifestSHA256\<rparr>;
         a2 = (if trim_space (pa_ExecutionBodySHA256 a1) = []
               then a1\<lparr>pa_ExecutionBodySHA256 := bodySHA256\<rparr> else a1)
       in (mput approvalID a2 approvalRecords, a2)))"

section \<open>Decisions\<close>

datatype decision_code = NotFound | OwnerMismatch | StateInvalid | StateConflict | NonceMissing
  | NonceInvalid | ManifestInvalid

record decision_actor =
  da_ControlSessionID :: string
  da_TenantID :: string
  da_Operator :: bool

definition ValidateDecisionRequest :: "pending_approval \<Rightarrow> approval_decision_request \<Rightarrow>
    decision_actor \<Rightarrow> (decision_code \<times> string) option" where
  "ValidateDecisionRequest pendingApproval decisionRequest decisionActor =
    (if da_Operator decisionActor \<and> trim_space (da_TenantID decisionActor) \<noteq> [] \<and>
        trim_space (ec_TenantID (pa_ExecutionContext pendingApproval)) \<noteq> [] \<and>
        da_TenantID decisionActor \<noteq> ec_TenantID (pa_ExecutionContext pendingApproval)
     then Some (NotFound, ''approval request not found'')
     else if \<not> da_Operator decisionActor \<and>
        trim_space (da_ControlSessionID decisionActor) \<noteq> pa_ControlSessionID pendingApproval
     then Some (OwnerMismatch, ''approval token does not match approval owner'')
     else if pa_State pendingApproval \<noteq> StatePending
     then Some ((if pa_State pendingApproval = StateConsumed \<or>
                    pa_State pendingApproval = StateExecutionFailed
                 then StateConflict else StateInvalid),
                ''approval request is no longer pending'')
     else (let decisionNonce = trim_space (SubmittedNonce decisionRequest) in
       if decisionNonce = [] then Some (NonceMissing, ''approval decision nonce is required'')
       else if decisionNonce \<noteq> pa_DecisionNonce pendingApproval
       then Some (NonceInvalid, ''approval decision nonce is invalid'')
       else (let submittedManifest = trim_space (SubmittedManifest decisionRequest) in
         if Approved decisionRequest \<and> pa_ApprovalManifestSHA256 pendingApproval \<noteq> [] then
           (if submittedManifest = []
            then Some (ManifestInvalid, ''approval manifest sha256 is required for this approval'')
            else if submittedManifest \<noteq> pa_ApprovalManifestSHA256 pendingApproval
            then Some (ManifestInvalid,
              ''approval manifest sha256 does not match the pending approval'')
            else None)
         else None)))"

section \<open>Lemmas on the state machine\<close>

lemma trim_approval_states [simp]:
  "trim_space StatePending = StatePending" "trim_space StateGranted = StateGranted"
  "trim_space StateDenied = StateDenied" "trim_space StateExpired = StateExpired"
  "trim_space StateCancelled = StateCancelled" "trim_space StateConsumed = StateConsumed"
  "trim_space StateExecutionFailed = StateExecutionFailed"
  by (simp_all add: approval_states go_string graphic_def)

lemma approval_state_neq [simp]:
  "StatePending \<noteq> StateGranted" "StatePending \<noteq> StateDenied" "StatePending \<noteq> StateExpired"
  "StatePending \<noteq> StateCancelled" "StatePending \<noteq> StateConsumed" "StatePending \<noteq> StateExecutionFailed"
  "StateGranted \<noteq> StatePending" "StateGranted \<noteq> StateDenied" "StateGranted \<noteq> StateExpired"
  "StateGranted \<noteq> StateCancelled" "StateGranted \<noteq> StateConsumed" "StateGranted \<noteq> StateExecutionFailed"
  "StateDenied \<noteq> StatePending" "StateDenied \<noteq> StateGranted" "StateDenied \<noteq> StateExpired"
  "StateDenied \<noteq> StateCancelled" "StateDenied \<noteq> StateConsumed" "StateDenied \<noteq> StateExecutionFailed"
  "StateExpired \<noteq> StatePending" "StateExpired \<noteq> StateGranted" "StateExpired \<noteq> StateDenied"
  "StateExpired \<noteq> StateCancelled" "StateExpired \<noteq> StateConsumed" "StateExpired \<noteq> StateExecutionFailed"
  "StateCancelled \<noteq> StatePending" "StateCancelled \<noteq> StateGranted" "StateCancelled \<noteq> StateDenied"
  "StateCancelled \<noteq> StateExpired" "StateCancelled \<noteq> StateConsumed" "StateCancelled \<noteq> StateExecutionFailed"
  "StateConsumed \<noteq> StatePending" "StateConsumed \<noteq> StateGranted" "StateConsumed \<noteq> StateDenied"
  "StateConsumed \<noteq> StateExpired" "StateConsumed \<noteq> StateCancelled" "StateConsumed \<noteq> StateExecutionFailed"
  "StateExecutionFailed \<noteq> StatePending" "StateExecutionFailed \<noteq> StateGranted" "StateExecutionFailed \<noteq> StateDenied"
  "StateExecutionFailed \<noteq> StateExpired" "StateExecutionFailed \<noteq> StateCancelled" "StateExecutionFailed \<noteq> StateConsumed"
  "StatePending \<noteq> []" "StateGranted \<noteq> []" "StateDenied \<noteq> []"
  "StateExpired \<noteq> []" "StateCancelled \<noteq> []" "StateConsumed \<noteq> []"
  "StateExecutionFailed \<noteq> []"
  by (simp_all add: approval_states)

definition approval_edge :: "string \<Rightarrow> string \<Rightarrow> bool" where
  "approval_edge s t = (
     s = StatePending \<and> t \<in> {StateGranted, StateDenied, StateExpired, StateCancelled, StateConsumed}
   \<or> s = StateGranted \<and> t = StateConsumed
   \<or> s = StateConsumed \<and> t = StateExecutionFailed)"

lemma transition_table:
  "(\<exists>ts. map_of allowedStateTransitions s = Some ts \<and> t \<in> set ts) \<longleftrightarrow> approval_edge s t"
  by (auto simp: allowedStateTransitions_def approval_edge_def approval_states)

lemma valid_transition_iff:
  "ValidateStateTransition s t = None \<longleftrightarrow>
     trim_space s \<noteq> [] \<and> trim_space t \<noteq> [] \<and>
     (trim_space s = trim_space t \<or> approval_edge (trim_space s) (trim_space t))"
  using transition_table [of "trim_space s" "trim_space t"]
  by (auto simp: ValidateStateTransition_def Let_def split: option.splits if_splits)

text \<open>A history of accepted transitions.\<close>

inductive approval_path :: "string \<Rightarrow> string \<Rightarrow> bool" where
  start: "approval_path s s"
| step: "approval_path s t \<Longrightarrow> ValidateStateTransition t u = None \<Longrightarrow> approval_path s u"

definition after_state :: "string \<Rightarrow> string set" where
  "after_state s =
    (if s = StateGranted then {StateGranted, StateConsumed, StateExecutionFailed}
     else if s = StateConsumed then {StateConsumed, StateExecutionFailed}
     else {s})"

lemma after_state_closed:
  "t \<in> after_state s \<Longrightarrow> s \<noteq> StatePending \<Longrightarrow> approval_edge t u \<Longrightarrow> u \<in> after_state s"
  by (auto simp: after_state_def approval_edge_def split: if_splits)

section \<open>Lemmas on the manifest\<close>

abbreviation newline :: char where "newline \<equiv> CHR 0x0A"

lemma int_str_no_newline: "newline \<notin> set (int_str i)"
proof
  assume "newline \<in> set (int_str i)"
  then have "is_digit newline \<or> newline = CHR ''-''" by (rule int_str_chars)
  then show False by (simp add: is_digit_def)
qed

lemma split_first_line:
  "s @ newline # r = t @ newline # r' \<Longrightarrow> newline \<notin> set s \<Longrightarrow> newline \<notin> set t \<Longrightarrow> s = t \<and> r = r'"
  by (metis list.inject split_on_append join_split)

lemma manifest_text_inj:
  assumes "manifest_text a b c d e f g h ms = manifest_text a' b' c' d' e' f' g' h' ms'"
    and "newline \<notin> set (concat [a, b, c, d, e, f, g, h])"
    and "newline \<notin> set (concat [a', b', c', d', e', f', g', h'])"
  shows "[a, b, c, d, e, f, g, h] = [a', b', c', d', e', f', g', h'] \<and> ms = ms'"
  using assms int_str_no_newline [of ms] int_str_no_newline [of ms']
  by (auto simp: manifest_text_def dest!: split_first_line int_str_inj)

lemma hex_no_newline: "newline \<notin> set (sha256_hex m)"
  using hex_encode_graphic [of newline "sha256 m"] by (auto simp: sha256_hex_def graphic_def)

definition capability_manifest_text :: "capability_request \<Rightarrow> int \<Rightarrow> string" where
  "capability_manifest_text r ms = manifest_text ''capability.execute'' ''capability''
     (Capability r) (CapabilitySubjectBinding (Capability r)) ''POST''
     ''/v1/capabilities/execute'' (sha256_hex (MarshalJSON r)) ScopeSingleUse ms"

lemma BuildCapabilityApprovalManifest_eq:
  "BuildCapabilityApprovalManifest r ms =
     Inr (sha256_hex (capability_manifest_text r ms), sha256_hex (MarshalJSON r))"
  by (simp add: BuildCapabilityApprovalManifest_def approvalRequestBodySHA256_def
      ComputeManifestSHA256_def capability_manifest_text_def)

lemma capability_manifest_text_inj:
  assumes "capability_manifest_text r ms = capability_manifest_text r' ms'"
    and "newline \<notin> set (Capability r)" "newline \<notin> set (Capability r')"
  shows "sha256_hex (MarshalJSON r) = sha256_hex (MarshalJSON r') \<and> ms = ms'"
  using assms hex_no_newline
  by (auto simp: capability_manifest_text_def CapabilitySubjectBinding_def ScopeSingleUse_def
      dest!: manifest_text_inj)

section \<open>Properties\<close>

text \<open>
  C1: along any history of transitions that ValidateStateTransition accepts, an approval that has
  left the pending state never returns to it, a granted one can only be consumed and then marked
  execution_failed, and denied, expired, cancelled and execution_failed are final.
\<close>

theorem approval_never_reopens:
  assumes "approval_path s t" "trim_space s \<noteq> StatePending"
  shows "trim_space t \<noteq> StatePending \<and> trim_space t \<in> after_state (trim_space s)"
proof -
  have "StatePending \<notin> after_state (trim_space s)"
    using assms(2) by (auto simp: after_state_def)
  moreover have "trim_space t \<in> after_state (trim_space s)"
    using assms
  proof (induction rule: approval_path.induct)
    case (start s)
    then show ?case by (simp add: after_state_def)
  next
    case (step s t u)
    then show ?case using after_state_closed by (auto simp: valid_transition_iff)
  qed
  ultimately show ?thesis by auto
qed

theorem approval_never_reopens_witness:
  "trim_space StateExecutionFailed \<in> after_state (trim_space StateGranted)"
proof -
  have "approval_path StateGranted StateConsumed"
    by (rule step [OF start]) (simp add: valid_transition_iff approval_edge_def)
  then have "approval_path StateGranted StateExecutionFailed"
    by (rule step) (simp add: valid_transition_iff approval_edge_def)
  then show ?thesis
    using approval_never_reopens [of StateGranted StateExecutionFailed]
    by simp
qed

text \<open>
  C34: the approval manifest binds the executed request. When the SHA-256 digests involved do not
  collide, equal manifests come from the same canonical request body (request id, session, actor,
  capability, arguments, correlation id) and the same expiry; provider-echo fields are the only
  difference left. The capability name must not hold a newline, which ValidateSafeIdentifier
  guarantees, and the strings must be UTF-8.
\<close>

theorem manifest_binds_request:
  assumes "inj_on sha256_hex {capability_manifest_text r ms, capability_manifest_text r' ms'}"
    and "inj_on sha256_hex {MarshalJSON r, MarshalJSON r'}"
    and "utf8_request r" "utf8_request r'"
    and "newline \<notin> set (Capability r)" "newline \<notin> set (Capability r')"
    and "BuildCapabilityApprovalManifest r ms = Inr (m, b)"
    and "BuildCapabilityApprovalManifest r' ms' = Inr (m, b')"
  shows "canonical_fields r = canonical_fields r' \<and> ms = ms' \<and> b = b'"
proof -
  have "sha256_hex (capability_manifest_text r ms) = sha256_hex (capability_manifest_text r' ms')"
    and b: "b = sha256_hex (MarshalJSON r)" "b' = sha256_hex (MarshalJSON r')"
    using assms(7,8) by (auto simp: BuildCapabilityApprovalManifest_eq)
  then have "capability_manifest_text r ms = capability_manifest_text r' ms'"
    using assms(1) by (auto dest: inj_onD)
  from capability_manifest_text_inj [OF this assms(5,6)]
  have 1: "sha256_hex (MarshalJSON r) = sha256_hex (MarshalJSON r')" "ms = ms'" by auto
  then have "MarshalJSON r = MarshalJSON r'" using assms(2) by (auto dest: inj_onD)
  with MarshalJSON_inj [OF assms(3,4)] 1 b show ?thesis by simp
qed

definition sample_request :: capability_request where
  "sample_request = \<lparr>RequestID = ''req-1'', SessionID = ''s'', Actor = ''agent'',
     Capability = ''fs_read'', Arguments = Some [(''path'', ''a.txt'')], CorrelationID = [],
     EchoedNativeToolName = [], EchoedNativeToolNameSnake = [], EchoedNativeToolNameCamel = [],
     EchoedNativeToolUseID = [], EchoedNativeToolUseIDSnake = [],
     EchoedNativeToolCallID = [], EchoedNativeToolCallIDAlt = []\<rparr>"

theorem manifest_binds_request_witness:
  "canonical_fields sample_request =
     canonical_fields (sample_request\<lparr>EchoedNativeToolName := ''Read''\<rparr>) \<and> (5 :: int) = 5 \<and>
   sha256_hex (MarshalJSON sample_request) =
     sha256_hex (MarshalJSON (sample_request\<lparr>EchoedNativeToolName := ''Read''\<rparr>))"
proof -
  let ?r' = "sample_request\<lparr>EchoedNativeToolName := ''Read''\<rparr>"
  have j: "MarshalJSON ?r' = MarshalJSON sample_request"
    and t: "capability_manifest_text ?r' 5 = capability_manifest_text sample_request 5"
    by (simp_all add: MarshalJSON_def capability_manifest_text_def)
  have u: "utf8_request sample_request" "utf8_request ?r'"
    by (simp_all add: utf8_request_def sample_request_def ascii_byte_def args_of_def map_wf_def)
  have n: "newline \<notin> set (Capability sample_request)" "newline \<notin> set (Capability ?r')"
    by (simp_all add: sample_request_def)
  show ?thesis
    by (rule manifest_binds_request [OF _ _ u n,
          where m = "sha256_hex (capability_manifest_text sample_request 5)"])
       (simp_all add: j t BuildCapabilityApprovalManifest_eq)
qed

definition actor_bound :: "pending_approval \<Rightarrow> decision_actor \<Rightarrow> bool" where
  "actor_bound p a = (if da_Operator a
     then blank (da_TenantID a) \<or> blank (ec_TenantID (pa_ExecutionContext p)) \<or>
          da_TenantID a = ec_TenantID (pa_ExecutionContext p)
     else trim_space (da_ControlSessionID a) = pa_ControlSessionID p)"


text \<open>
  An actor that is not bound to an approval learns nothing about it but that: the answer does
  not depend on the approval's state, nonce, manifest or request.
\<close>

theorem unbound_actor_learns_nothing:
  assumes "\<not> actor_bound p a"
    and "pa_ControlSessionID q = pa_ControlSessionID p"
    and "ec_TenantID (pa_ExecutionContext q) = ec_TenantID (pa_ExecutionContext p)"
  shows "ValidateDecisionRequest q d a = ValidateDecisionRequest p d' a \<and>
    ValidateDecisionRequest p d' a \<in> {Some (NotFound, ''approval request not found''),
      Some (OwnerMismatch, ''approval token does not match approval owner'')}"
  using assms by (auto simp: ValidateDecisionRequest_def actor_bound_def blank_def split: if_splits)

definition sample_context :: execution_context where
  "sample_context = \<lparr>ec_ControlSessionID = ''cs-1'', ec_ActorLabel = ''agent'',
     ec_ClientSessionLabel = ''c'', ec_AllowedCapabilities = [''fs_write''],
     ec_TenantID = ''t1'', ec_UserID = ''u1''\<rparr>"

definition sample_pending :: pending_approval where
  "sample_pending = \<lparr>pa_ID = ''a-1'', pa_Request = sample_request, pa_CreatedAt = 10,
     pa_ExpiresAt = 20, pa_Metadata = [], pa_Reason = [], pa_ControlSessionID = ''cs-1'',
     pa_DecisionNonce = ''n1'', pa_DecisionSubmittedAt = 0, pa_ExecutedAt = 0,
     pa_ExecutionContext = sample_context, pa_State = StatePending,
     pa_ApprovalManifestSHA256 = [], pa_ExecutionBodySHA256 = []\<rparr>"

definition sample_decision :: approval_decision_request where
  "sample_decision = \<lparr>Approved = True, DecisionReason = [], SubmittedNonce = ''n1'',
     SubmittedManifest = []\<rparr>"

definition stranger :: decision_actor where
  "stranger = \<lparr>da_ControlSessionID = ''other'', da_TenantID = [], da_Operator = False\<rparr>"

theorem unbound_actor_learns_nothing_witness:
  "ValidateDecisionRequest (sample_pending\<lparr>pa_State := StateConsumed\<rparr>) sample_decision stranger =
   ValidateDecisionRequest sample_pending sample_decision stranger"
  using unbound_actor_learns_nothing [of sample_pending stranger
      "sample_pending\<lparr>pa_State := StateConsumed\<rparr>" sample_decision sample_decision]
  by (simp add: actor_bound_def stranger_def sample_pending_def go_string graphic_def)

end
