(* ===== verification/SessionMac.thy ===== *)
theory SessionMac
  imports GoCrypto
begin

text \<open>
  internal/controlruntime/session_mac.go: the twelve hour epochs of the session MAC key, the
  derivation of a session's key from the rotation master, and the creation of that master.
\<close>

definition SessionMACEpochDuration :: duration where
  "SessionMACEpochDuration = 12 * nano_hour"

definition epoch_period :: int where
  "epoch_period = SessionMACEpochDuration div nano_second"

text \<open>Go's integer division truncates towards zero.\<close>

definition go_div :: "int \<Rightarrow> int \<Rightarrow> int" where
  "go_div a b = (if (a < 0) = (b < 0) then \<bar>a\<bar> div \<bar>b\<bar> else - (\<bar>a\<bar> div \<bar>b\<bar>))"

definition SessionMACEpochIndexAt :: "gotime \<Rightarrow> int" where
  "SessionMACEpochIndexAt utc = (let sec = unix_seconds utc; period = epoch_period in
     if sec \<ge> 0 then go_div sec period else go_div (sec - period + 1) period)"

definition SessionMACEpochWallRange :: "int \<Rightarrow> gotime \<times> gotime" where
  "SessionMACEpochWallRange epochIndex = (let
     startUnix = epochIndex * epoch_period;
     validFromUTC = unix_epoch + startUnix * nano_second;
     validUntilUTC = validFromUTC + SessionMACEpochDuration
   in (validFromUTC, validUntilUTC))"

definition sessionMACEpochDomainV1 :: string where
  "sessionMACEpochDomainV1 = ''loopgate-session-mac-epoch-v1'' @ [CHR 0x00]"

text \<open>The epoch index is written as eight big-endian bytes of its two's complement.\<close>

definition epoch_bytes :: "int \<Rightarrow> string" where
  "epoch_bytes epochIndex = string_of (big_endian 8 (word_of_int epochIndex :: 64 word))"

definition DeriveEpochKeyMaterial :: "string \<Rightarrow> int \<Rightarrow> string" where
  "DeriveEpochKeyMaterial master epochIndex =
     (if length master = 0 then []
      else hmac_sha256 master (sessionMACEpochDomainV1 @ epoch_bytes epochIndex))"

definition DerivedSessionMACKeyString :: "string \<Rightarrow> string \<Rightarrow> string" where
  "DerivedSessionMACKeyString epochKeyMaterial controlSessionID =
     (if length epochKeyMaterial = 0 then []
      else hex_encode (hmac_sha256 epochKeyMaterial controlSessionID))"

definition DerivedSessionMACKeyForControlSessionAtEpoch :: "string \<Rightarrow> string \<Rightarrow> int \<Rightarrow> string" where
  "DerivedSessionMACKeyForControlSessionAtEpoch sessionMACRotationMaster controlSessionID epochIndex =
     DerivedSessionMACKeyString (DeriveEpochKeyMaterial sessionMACRotationMaster epochIndex)
       controlSessionID"

definition CandidateSessionMACKeys :: "string \<Rightarrow> string \<Rightarrow> int \<Rightarrow> string list" where
  "CandidateSessionMACKeys sessionMACRotationMaster controlSessionID currentEpochIndex =
     map (DerivedSessionMACKeyForControlSessionAtEpoch sessionMACRotationMaster controlSessionID)
       [currentEpochIndex - 1, currentEpochIndex, currentEpochIndex + 1]"

record session_mac_key_slot =
  Slot :: string
  EpochIndex :: int
  ValidFromUTC :: gotime
  ValidUntilUTC :: gotime
  DerivedSessionMACKey :: string

record session_mac_keys =
  SchemaVersion :: string
  RotationPeriodSeconds :: int
  DerivedKeySchema :: string
  mk_ControlSessionID :: string
  CurrentEpochIndex :: int
  Previous :: session_mac_key_slot
  Current :: session_mac_key_slot
  Next :: session_mac_key_slot

definition buildSlot :: "string \<Rightarrow> string \<Rightarrow> string \<Rightarrow> int \<Rightarrow> session_mac_key_slot" where
  "buildSlot sessionMACRotationMaster controlSessionID slot epochIndex = (let
     (validFrom, validUntil) = SessionMACEpochWallRange epochIndex;
     mat = DeriveEpochKeyMaterial sessionMACRotationMaster epochIndex
   in \<lparr>Slot = slot, EpochIndex = epochIndex, ValidFromUTC = validFrom, ValidUntilUTC = validUntil,
       DerivedSessionMACKey = DerivedSessionMACKeyString mat controlSessionID\<rparr>)"

definition BuildSessionMACKeys :: "string \<Rightarrow> string \<Rightarrow> gotime \<Rightarrow> session_mac_keys" where
  "BuildSessionMACKeys sessionMACRotationMaster controlSessionID nowUTC = (let
     cur = SessionMACEpochIndexAt nowUTC; prevIdx = cur - 1; nextIdx = cur + 1;
     slot = buildSlot sessionMACRotationMaster controlSessionID
   in \<lparr>SchemaVersion = ''loopgate.session_mac_keys.v1'',
       RotationPeriodSeconds = go_div SessionMACEpochDuration nano_second,
       DerivedKeySchema = ''loopgate-session-mac-v1'',
       mk_ControlSessionID = controlSessionID, CurrentEpochIndex = cur,
       Previous = slot ''previous'' prevIdx, Current = slot ''current'' cur,
       Next = slot ''next'' nextIdx\<rparr>)"

section \<open>The rotation master\<close>

text \<open>
  The file system's answers: to MkdirAll, to the read without following symbolic links, to the
  random source, to the exclusive create, and to the read after a lost race.
\<close>

datatype file_read = ReadBytes string | ReadNotExist | ReadError string
datatype file_create = Created | CreateExists | CreateError string

definition sessionMACRotationMasterByteCount :: nat where
  "sessionMACRotationMasterByteCount = 32"

definition LoadOrCreateSessionMACRotationMaster ::
    "string option \<Rightarrow> file_read \<Rightarrow> string result \<Rightarrow> (string \<Rightarrow> file_create) \<Rightarrow> file_read \<Rightarrow>
     string result" where
  "LoadOrCreateSessionMACRotationMaster mkdirErr firstRead randRead createExclusive racedRead =
    (case mkdirErr of Some e \<Rightarrow> Inl (''mkdir runtime state: '' @ e)
     | None \<Rightarrow>
      (case firstRead of
         ReadBytes existing \<Rightarrow>
           (if length existing \<noteq> sessionMACRotationMasterByteCount
            then Inl ''session mac rotation master file has wrong size'' else Inr existing)
       | ReadError e \<Rightarrow> Inl (''read session mac rotation master: '' @ e)
       | ReadNotExist \<Rightarrow>
          (case randRead of Inl e \<Rightarrow> Inl (''generate session mac rotation master: '' @ e)
           | Inr material \<Rightarrow>
             (case createExclusive material of
                Created \<Rightarrow> Inr material
              | CreateError e \<Rightarrow> Inl (''write session mac rotation master: '' @ e)
              | CreateExists \<Rightarrow>
                 (case racedRead of
                    ReadBytes existing \<Rightarrow>
                      (if length existing \<noteq> sessionMACRotationMasterByteCount
                       then Inl ''session mac rotation master file has wrong size'' else Inr existing)
                  | ReadNotExist \<Rightarrow> Inl ''read raced session mac rotation master: file does not exist''
                  | ReadError e \<Rightarrow> Inl (''read raced session mac rotation master: '' @ e))))))"

section \<open>Lemmas\<close>

lemma epoch_period_val: "epoch_period = 43200"
  by (simp add: epoch_period_def SessionMACEpochDuration_def nano_hour_def nano_second_def)

lemma go_div_pos: "0 \<le> a \<Longrightarrow> 0 < b \<Longrightarrow> go_div a b = a div b"
  by (simp add: go_div_def)

lemma int_div_eq_iff:
  fixes a :: int assumes "0 < c" shows "a div c = i \<longleftrightarrow> i * c \<le> a \<and> a < i * c + c"
proof
  assume "a div c = i"
  then have "a = i * c + a mod c" by (metis div_mult_mod_eq)
  moreover have "0 \<le> a mod c" "a mod c < c" using assms by auto
  ultimately show "i * c \<le> a \<and> a < i * c + c" by linarith
next
  assume "i * c \<le> a \<and> a < i * c + c"
  then show "a div c = i"
    by (intro int_div_pos_eq [where r = "a - i * c"]) (auto simp: mult.commute)
qed

text \<open>The adjusted truncating division of the code is floor division on both signs.\<close>

lemma epoch_index_floor: "SessionMACEpochIndexAt t = unix_seconds t div epoch_period"
proof (cases "0 \<le> unix_seconds t")
  case False
  let ?s = "unix_seconds t"
  have "go_div (?s - 43200 + 1) 43200 = - ((43199 - ?s) div 43200)"
    using False by (simp add: go_div_def)
  also have "\<dots> = ?s div 43200"
  proof -
    define q where "q = (43199 - ?s) div 43200"
    then have "q * 43200 \<le> 43199 - ?s \<and> 43199 - ?s < q * 43200 + 43200"
      using int_div_eq_iff [of 43200 "43199 - ?s" q] by simp
    then have "?s div 43200 = - q" using int_div_eq_iff [of 43200 ?s "- q"] by linarith
    then show ?thesis by (simp add: q_def)
  qed
  finally show ?thesis using False
    by (simp add: SessionMACEpochIndexAt_def epoch_period_val Let_def)
qed (simp add: SessionMACEpochIndexAt_def go_div_pos epoch_period_val)

lemma wall_range_epoch:
  "fst (SessionMACEpochWallRange i) \<le> t \<and> t < snd (SessionMACEpochWallRange i)
     \<longleftrightarrow> SessionMACEpochIndexAt t = i"
proof -
  have "unix_seconds t div 43200 = (t - unix_epoch) div (1000000000 * 43200)"
    unfolding unix_seconds_def by (rule zdiv_zmult2_eq [symmetric]) simp
  then have "unix_seconds t div 43200 = i \<longleftrightarrow>
      unix_epoch + i * 43200 * 1000000000 \<le> t \<and>
      t < unix_epoch + i * 43200 * 1000000000 + 43200 * 1000000000"
    using int_div_eq_iff [of "1000000000 * 43200" "t - unix_epoch" i] by auto
  then show ?thesis
    by (auto simp: SessionMACEpochWallRange_def epoch_index_floor epoch_period_val Let_def
        SessionMACEpochDuration_def nano_hour_def nano_second_def)
qed

lemma derived_key_length:
  "master \<noteq> [] \<Longrightarrow> length (DerivedSessionMACKeyForControlSessionAtEpoch master sid i) = 64"
  by (simp add: DerivedSessionMACKeyForControlSessionAtEpoch_def DeriveEpochKeyMaterial_def
      DerivedSessionMACKeyString_def)

section \<open>Properties\<close>

text \<open>
  The epoch of an instant is the unique epoch whose wall range contains it, before 1970 too:
  the wall ranges partition time.
\<close>

theorem epoch_partition:
  "\<exists>!i. fst (SessionMACEpochWallRange i) \<le> t \<and> t < snd (SessionMACEpochWallRange i) \<and>
        SessionMACEpochIndexAt t = i"
  using wall_range_epoch [of "SessionMACEpochIndexAt t" t] by auto

text \<open>
  C38: a key that a client was given for the current slot keeps verifying during the whole next
  epoch: the server's candidates at any later instant up to one epoch ahead include it, and the
  slots handed out are exactly the candidates of the server.
\<close>

theorem issued_key_is_candidate:
  assumes "issued \<le> now" "now < snd (SessionMACEpochWallRange (SessionMACEpochIndexAt issued + 1))"
  shows "DerivedSessionMACKey (Current (BuildSessionMACKeys master sid issued))
           \<in> set (CandidateSessionMACKeys master sid (SessionMACEpochIndexAt now)) \<and>
         CandidateSessionMACKeys master sid (SessionMACEpochIndexAt issued) =
           map DerivedSessionMACKey [Previous (BuildSessionMACKeys master sid issued),
             Current (BuildSessionMACKeys master sid issued), Next (BuildSessionMACKeys master sid issued)]"
proof -
  let ?i = "SessionMACEpochIndexAt issued" and ?n = "SessionMACEpochIndexAt now"
  have "fst (SessionMACEpochWallRange ?i) \<le> now"
    using assms(1) wall_range_epoch [of ?i issued] by simp
  moreover have "fst (SessionMACEpochWallRange (?i + 1)) = snd (SessionMACEpochWallRange ?i)"
    by (simp add: SessionMACEpochWallRange_def Let_def SessionMACEpochDuration_def epoch_period_val
        nano_hour_def nano_second_def)
  ultimately have "?n = ?i \<or> ?n = ?i + 1"
    using assms(2) wall_range_epoch [of ?i now] wall_range_epoch [of "?i + 1" now] by force
  then show ?thesis
    by (auto simp: CandidateSessionMACKeys_def BuildSessionMACKeys_def buildSlot_def Let_def
        DerivedSessionMACKeyForControlSessionAtEpoch_def case_prod_unfold)
qed

theorem issued_key_is_candidate_witness:
  "DerivedSessionMACKey (Current (BuildSessionMACKeys ''m'' ''cs'' 100))
     \<in> set (CandidateSessionMACKeys ''m'' ''cs'' (SessionMACEpochIndexAt (100 + 43200 * 1000000000)))"
proof -
  have "SessionMACEpochIndexAt (100 + 43200 * 1000000000) = SessionMACEpochIndexAt 100 + 1"
    by (simp add: epoch_index_floor unix_seconds_def unix_epoch_def epoch_period_val)
  then show ?thesis
    using issued_key_is_candidate [of 100 "100 + 43200 * 1000000000" "''m''" "''cs''"]
      wall_range_epoch [of "SessionMACEpochIndexAt 100 + 1" "100 + 43200 * 1000000000"]
    by auto
qed

text \<open>
  Whatever the file system and the random source answer, a master that is returned has 32
  bytes, provided the random source fills its buffer, so every derived key has 64 hex digits.
\<close>

theorem rotation_master_keys:
  assumes "LoadOrCreateSessionMACRotationMaster mk rd rnd cr raced = Inr master"
    and "\<And>m. rnd = Inr m \<Longrightarrow> length m = sessionMACRotationMasterByteCount"
  shows "length master = 32 \<and>
    length (DerivedSessionMACKeyForControlSessionAtEpoch master sid i) = 64"
proof -
  have l: "length master = 32"
    using assms
    by (auto simp: LoadOrCreateSessionMACRotationMaster_def sessionMACRotationMasterByteCount_def
        split: option.splits file_read.splits sum.splits file_create.splits if_splits)
  then have "master \<noteq> []" by auto
  with l derived_key_length show ?thesis by simp
qed

theorem rotation_master_keys_witness:
  "length (DerivedSessionMACKeyForControlSessionAtEpoch (replicate 32 (CHR ''k'')) ''cs'' 7) = 64"
  using rotation_master_keys [of None ReadNotExist "Inr (replicate 32 (CHR ''k''))" "\<lambda>_. Created"
      ReadNotExist "replicate 32 (CHR ''k'')" "''cs''" 7]
  by (simp add: LoadOrCreateSessionMACRotationMaster_def sessionMACRotationMasterByteCount_def)

end
