(* ===== verification/Replay.thy ===== *)
theory Replay
  imports GoPrelude
begin

text \<open>
  internal/controlruntime: the sliding-window limiter (rate_limit.go) and the single-use tables of
  request ids and execution tokens (replay_decisions.go), with the locale of replay tables that
  the control plane's nonce table also provides.
\<close>

section \<open>Sliding window\<close>

record window_decision =
  Denied :: bool
  Timestamps :: "gotime list"

definition CheckSlidingWindowRateLimit ::
    "gotime list \<Rightarrow> int \<Rightarrow> duration \<Rightarrow> gotime \<Rightarrow> window_decision" where
  "CheckSlidingWindowRateLimit timestamps limit window nowUTC =
    (if limit \<le> 0 \<or> window \<le> 0 then \<lparr>Denied = False, Timestamps = timestamps\<rparr>
     else (let cutoff = nowUTC - window; pruned = filter (\<lambda>timestamp. timestamp > cutoff) timestamps in
       if int (length pruned) \<ge> limit then \<lparr>Denied = True, Timestamps = pruned\<rparr>
       else \<lparr>Denied = False, Timestamps = pruned @ [nowUTC]\<rparr>))"

text \<open>A sequence of calls sharing one timestamp list: the calls that were let through.\<close>

fun admitted :: "int \<Rightarrow> duration \<Rightarrow> gotime list \<Rightarrow> gotime list \<Rightarrow> gotime list" where
  "admitted limit window ts [] = []"
| "admitted limit window ts (now # nows) = (let d = CheckSlidingWindowRateLimit ts limit window now in
     (if Denied d then [] else [now]) @ admitted limit window (Timestamps d) nows)"

definition in_window :: "duration \<Rightarrow> gotime \<Rightarrow> gotime list \<Rightarrow> gotime list" where
  "in_window window e ts = filter (\<lambda>t. e - window < t \<and> t \<le> e) ts"

text \<open>
  The timestamp list agrees with the history \<open>h\<close> of admitted calls on every window still open.
\<close>

definition remembers :: "duration \<Rightarrow> gotime \<Rightarrow> gotime list \<Rightarrow> gotime list \<Rightarrow> bool" where
  "remembers window lo h ts \<longleftrightarrow> (\<forall>t\<in>set h. t \<le> lo) \<and>
     (\<forall>now\<ge>lo. filter (\<lambda>t. t > now - window) ts = filter (\<lambda>t. t > now - window) h)"

lemma filter_after_filter:
  "a \<le> b \<Longrightarrow> filter (\<lambda>t. (b :: int) < t) (filter (\<lambda>t. a < t) xs) = filter (\<lambda>t. b < t) xs"
  by (induction xs) auto

lemma remembers_step:
  assumes r: "remembers window lo h ts" and now: "lo \<le> now" and pos: "0 < limit" "0 < window"
    and d: "d = CheckSlidingWindowRateLimit ts limit window now"
  shows "remembers window now (h @ (if Denied d then [] else [now])) (Timestamps d)"
proof -
  let ?p = "filter (\<lambda>t. t > now - window) ts"
  have "filter (\<lambda>t. n - window < t) ?p = filter (\<lambda>t. n - window < t) h" if "now \<le> n" for n
    using that now r by (subst filter_after_filter) (auto simp: remembers_def)
  with r now pos show ?thesis
    by (force simp: d CheckSlidingWindowRateLimit_def remembers_def Let_def)
qed

lemma window_step:
  assumes r: "remembers window lo h ts" and now: "lo \<le> now" and pos: "0 < limit" "0 < window"
    and d: "d = CheckSlidingWindowRateLimit ts limit window now"
    and h: "int (length (in_window window e h)) \<le> limit"
  shows "int (length (in_window window e (h @ (if Denied d then [] else [now])))) \<le> limit"
proof (cases "Denied d \<or> e < now")
  case True
  with h show ?thesis by (auto simp: in_window_def)
next
  case False
  have p: "filter (\<lambda>t. now - window < t) ts = filter (\<lambda>t. now - window < t) h"
    using r now by (simp add: remembers_def)
  have "in_window window e h = filter (\<lambda>t. e - window < t \<and> t \<le> e) (filter (\<lambda>t. now - window < t) h)"
    using False by (auto simp: in_window_def intro: filter_cong)
  then have "length (in_window window e h) \<le> length (filter (\<lambda>t. now - window < t) h)"
    by (simp only: length_filter_le)
  moreover have "int (length (filter (\<lambda>t. now - window < t) h)) < limit"
    using False pos p by (auto simp: d CheckSlidingWindowRateLimit_def Let_def split: if_splits)
  ultimately show ?thesis by (auto simp: in_window_def)
qed

lemma admitted_window:
  assumes "0 < limit" "0 < window"
  shows "sorted nows \<Longrightarrow> remembers window lo h ts \<Longrightarrow> \<forall>now\<in>set nows. lo \<le> now \<Longrightarrow>
    int (length (in_window window e h)) \<le> limit \<Longrightarrow>
    int (length (in_window window e (h @ admitted limit window ts nows))) \<le> limit"
proof (induction nows arbitrary: lo h ts)
  case (Cons now nows)
  let ?d = "CheckSlidingWindowRateLimit ts limit window now"
  let ?h = "h @ (if Denied ?d then [] else [now])"
  have lo: "lo \<le> now" and s: "sorted nows" "\<forall>n\<in>set nows. now \<le> n" using Cons.prems by auto
  have "int (length (in_window window e (?h @ admitted limit window (Timestamps ?d) nows))) \<le> limit"
    by (rule Cons.IH [OF s(1) remembers_step [OF Cons.prems(2) lo assms refl] s(2)
          window_step [OF Cons.prems(2) lo assms refl Cons.prems(4)]])
  then show ?case by (simp add: Let_def)
qed simp

section \<open>Replay tables\<close>

datatype replay_status = ReplayRecordAccepted | ReplayRecordDuplicate | ReplayRecordSaturated

text \<open>
  A table of single-use keys: an accepted key was new and is the only one added, anything else
  leaves the table as it is, and a key that is present is answered as a duplicate.
\<close>

locale replay_table =
  fixes present :: "'t \<Rightarrow> 'k \<Rightarrow> bool"
    and key_of :: "'v \<Rightarrow> 'k"
    and enter :: "'t \<Rightarrow> 'v \<Rightarrow> 't \<times> replay_status"
  assumes enter_accepted:
      "enter t v = (t', ReplayRecordAccepted) \<Longrightarrow>
         \<not> present t (key_of v) \<and> (\<forall>j. present t' j \<longleftrightarrow> j = key_of v \<or> present t j)"
    and enter_refused: "enter t v = (t', st) \<Longrightarrow> st \<noteq> ReplayRecordAccepted \<Longrightarrow> t' = t"
    and enter_present: "present t (key_of v) \<Longrightarrow> enter t v = (t, ReplayRecordDuplicate)"
begin

fun enter_all :: "'t \<Rightarrow> 'v list \<Rightarrow> 't \<times> 'k list" where
  "enter_all t [] = (t, [])"
| "enter_all t (v # es) = (let r = enter t v; r' = enter_all (fst r) es in
     (fst r', if snd r = ReplayRecordAccepted then key_of v # snd r' else snd r'))"

lemma accepted_once:
  "distinct (snd (enter_all t es)) \<and> (\<forall>k\<in>set (snd (enter_all t es)). \<not> present t k) \<and>
   (\<forall>j. present (fst (enter_all t es)) j \<longleftrightarrow> present t j \<or> j \<in> set (snd (enter_all t es)))"
proof (induction es arbitrary: t)
  case (Cons v es)
  obtain t1 st where e: "enter t v = (t1, st)" by (cases "enter t v")
  show ?case
  proof (cases "st = ReplayRecordAccepted")
    case True
    with enter_accepted [of t v t1] e
    have "\<not> present t (key_of v)" "\<forall>j. present t1 j \<longleftrightarrow> j = key_of v \<or> present t j" by auto
    with True Cons.IH [of t1] e show ?thesis by (auto simp: Let_def)
  next
    case False
    with enter_refused [OF e] have "t1 = t" by simp
    with False Cons.IH [of t1] e show ?thesis by (auto simp: Let_def)
  qed
qed simp

lemma replayed_refused:
  "snd (enter t v) = ReplayRecordAccepted \<Longrightarrow> key_of w = key_of v \<Longrightarrow>
     enter (fst (enter_all (fst (enter t v)) es)) w =
       (fst (enter_all (fst (enter t v)) es), ReplayRecordDuplicate)"
  using enter_accepted [of t v "fst (enter t v)"] accepted_once [of "fst (enter t v)" es]
  by (intro enter_present) (cases "enter t v", auto)

end

section \<open>Seen requests and used tokens\<close>

record seen_request =
  sr_ControlSessionID :: string
  sr_SeenAt :: gotime

record used_token =
  ut_TokenID :: string
  ut_ParentTokenID :: string
  ut_ControlSessionID :: string
  ut_Capability :: string
  ut_NormalizedArgHash :: string
  ut_ConsumedAt :: gotime

definition RequestReplayKey :: "string \<Rightarrow> string \<Rightarrow> string" where
  "RequestReplayKey controlSessionID requestID = controlSessionID @ '':'' @ requestID"

text \<open>Both return the updated table and the status; the record returned is the one stored.\<close>

definition RecordSeenRequest :: "(string, seen_request) gomap \<Rightarrow> nat \<Rightarrow> string \<Rightarrow> string \<Rightarrow> gotime \<Rightarrow>
    (string, seen_request) gomap \<times> replay_status" where
  "RecordSeenRequest seenRequests maxEntries controlSessionID requestID seenAt =
    (let requestKey = RequestReplayKey controlSessionID requestID in
     if mhas seenRequests requestKey then (seenRequests, ReplayRecordDuplicate)
     else if length seenRequests \<ge> maxEntries then (seenRequests, ReplayRecordSaturated)
     else (mput requestKey \<lparr>sr_ControlSessionID = controlSessionID, sr_SeenAt = seenAt\<rparr> seenRequests,
           ReplayRecordAccepted))"

definition ConsumeUsedToken :: "(string, used_token) gomap \<Rightarrow> used_token \<Rightarrow>
    (string, used_token) gomap \<times> replay_status" where
  "ConsumeUsedToken usedTokens consumedToken =
    (if mhas usedTokens (ut_TokenID consumedToken) then (usedTokens, ReplayRecordDuplicate)
     else (mput (ut_TokenID consumedToken) consumedToken usedTokens, ReplayRecordAccepted))"

interpretation seen_requests: replay_table mhas "\<lambda>(sid, rid, _). RequestReplayKey sid rid"
  "\<lambda>t (sid, rid, at). RecordSeenRequest t n sid rid at" for n
  by unfold_locales (auto simp: RecordSeenRequest_def Let_def split: if_splits)

interpretation used_tokens: replay_table mhas ut_TokenID ConsumeUsedToken
  by unfold_locales (auto simp: ConsumeUsedToken_def split: if_splits)

lemma RequestReplayKey_inj:
  "RequestReplayKey s r = RequestReplayKey s' r' \<Longrightarrow> CHR '':'' \<notin> set s \<Longrightarrow> CHR '':'' \<notin> set s' \<Longrightarrow>
     s = s' \<and> r = r'"
  by (simp add: RequestReplayKey_def) (metis join_split list.inject split_on_append)

lemma RecordSeenRequest_capacity:
  assumes "length m \<le> n"
  shows "length (fst (RecordSeenRequest m n sid rid at)) \<le> n"
  using assms by (simp add: RecordSeenRequest_def Let_def length_mput)

section \<open>Properties\<close>

text \<open>
  Over any sequence of calls with a non-decreasing clock, no window of the configured length
  ever holds more admitted calls than the limit, whatever is denied in between.
\<close>

theorem sliding_window_limit:
  assumes "0 < limit" "0 < window" "sorted nows"
  shows "int (length (in_window window e (admitted limit window [] nows))) \<le> limit"
proof (cases nows)
  case (Cons n ns)
  have "remembers window n [] []" by (simp add: remembers_def)
  then show ?thesis
    using admitted_window [OF assms(1,2,3), of n "[]" "[]" e] assms Cons by (auto simp: in_window_def)
qed (use assms in \<open>simp add: in_window_def\<close>)

theorem sliding_window_limit_witness:
  "int (length (in_window 10 13 (admitted 2 10 [] [1, 5, 7, 12, 13]))) \<le> 2 \<and>
   admitted 2 10 [] [1, 5, 7, 12, 13] = [1, 5, 12]"
proof -
  have "admitted 2 10 [] [1, 5, 7, 12, 13] = [1, 5, 12]"
    by code_simp
  then show ?thesis
    using sliding_window_limit [of 2 10 "[1, 5, 7, 12, 13]" 13] by simp
qed

text \<open>
  A request id that was accepted for a control session is answered as a duplicate after any
  number of further requests, and the table never exceeds its capacity.
\<close>

theorem request_accepted_once:
  assumes "RecordSeenRequest m n sid rid at = (m', ReplayRecordAccepted)" "length m \<le> n"
  shows "snd (RecordSeenRequest (fst (seen_requests.enter_all n m' es)) n sid rid later) =
      ReplayRecordDuplicate \<and> length (fst (seen_requests.enter_all n m' es)) \<le> n"
proof -
  have "length (fst (seen_requests.enter_all n t es)) \<le> n" if "length t \<le> n" for t es
    using that
  proof (induction es arbitrary: t)
    case (Cons v es)
    then show ?case
      by (cases v) (auto simp: Let_def intro!: Cons.IH RecordSeenRequest_capacity)
  qed simp
  moreover have "length m' \<le> n" using RecordSeenRequest_capacity [OF assms(2)] assms(1) by (metis fst_conv)
  ultimately show ?thesis
    using seen_requests.replayed_refused [where t = m and v = "(sid, rid, at)"
        and w = "(sid, rid, later)" and es = es and n = n] assms(1)
    by simp
qed

theorem request_accepted_once_witness:
  "snd (RecordSeenRequest (fst (seen_requests.enter_all 2 [(''cs:r1'', \<lparr>sr_ControlSessionID = ''cs'', sr_SeenAt = 1\<rparr>)]
      [(''cs'', ''r2'', 2), (''cs'', ''r3'', 3)])) 2 ''cs'' ''r1'' 4) = ReplayRecordDuplicate"
  using request_accepted_once [of "[]" 2 "''cs''" "''r1''" 1
      "[(''cs:r1'', \<lparr>sr_ControlSessionID = ''cs'', sr_SeenAt = 1\<rparr>)]"
      "[(''cs'', ''r2'', 2), (''cs'', ''r3'', 3)]" 4]
  by (simp add: RecordSeenRequest_def RequestReplayKey_def mhas_def mput_def)

end
