(* ===== verification/NonceStore.thy ===== *)
theory NonceStore
  imports Replay GoJson
begin

text \<open>
  internal/controlruntime/nonce_replay.go: the two stores that make accepted request nonces survive a
  restart. \<open>nonce_store\<close> is the interface AuthNonceReplayStore with what its caller relies on; the
  append-only log (the server's store) and the JSON snapshot (its predecessor) interpret it.

  A log file is its list of lines as json.Unmarshal and time.Parse read them, and whether the last
  line lacks its newline. The snapshot file is the object it holds, or unreadable.
\<close>

section \<open>Files and the answers of the file system\<close>

datatype nonce_line = BlankLine | MalformedLine | BadTimeLine | RecordLine string seen_request

record nonce_log =
  nl_lines :: "nonce_line list"
  nl_torn :: bool

datatype append_outcome = LineAppended | LineRefused string | LineTorn nonce_line string | LineUnsynced string

datatype write_outcome = StateWritten | StateRefused string

datatype snapshot_file = NoSnapshot | UnreadableSnapshot | Snapshot "(string, string \<times> gotime option) gomap"

section \<open>Code\<close>

definition CopySeenRequests :: "(string, seen_request) gomap \<Rightarrow> (string, seen_request) gomap" where
  "CopySeenRequests source = fold (\<lambda>(k, v) copied. mput k v copied) source []"

definition entryExpired :: "duration \<Rightarrow> gotime \<Rightarrow> gotime \<Rightarrow> bool" where
  "entryExpired replayWindow nowUTC seenAt = (replayWindow > 0 \<and> time_sub nowUTC seenAt > replayWindow)"

text \<open>
  The loop of loadAppendOnlyNonceReplayLog over the lines left; the last of them is excused when the
  file does not end in a newline.
\<close>

fun load_log_lines :: "duration \<Rightarrow> gotime \<Rightarrow> bool \<Rightarrow> nonce_line list \<Rightarrow> (string, seen_request) gomap \<Rightarrow>
    (string, seen_request) gomap result" where
  "load_log_lines window nowUTC torn [] loaded = Inr loaded"
| "load_log_lines window nowUTC torn (l # ls) loaded = (case l of
     BlankLine \<Rightarrow> load_log_lines window nowUTC torn ls loaded
   | MalformedLine \<Rightarrow> if ls = [] \<and> torn then load_log_lines window nowUTC torn ls loaded
       else Inl ''decode nonce replay log line''
   | BadTimeLine \<Rightarrow> if ls = [] \<and> torn then load_log_lines window nowUTC torn ls loaded
       else Inl ''parse nonce replay log timestamp''
   | RecordLine k v \<Rightarrow> load_log_lines window nowUTC torn ls
       (if entryExpired window nowUTC (sr_SeenAt v) then loaded else mput k v loaded))"

definition loadAppendOnlyNonceReplayLog :: "nonce_log option \<Rightarrow> gotime \<Rightarrow> duration \<Rightarrow>
    (string, seen_request) gomap result" where
  "loadAppendOnlyNonceReplayLog file nowUTC window = (case file of
     None \<Rightarrow> Inr []
   | Some log \<Rightarrow> load_log_lines window nowUTC (nl_torn log) (nl_lines log) [])"

fun snapshot_entries :: "duration \<Rightarrow> gotime \<Rightarrow> (string, string \<times> gotime option) gomap \<Rightarrow>
    (string, seen_request) gomap" where
  "snapshot_entries window nowUTC [] = []"
| "snapshot_entries window nowUTC ((k, sid, None) # m) = snapshot_entries window nowUTC m"
| "snapshot_entries window nowUTC ((k, sid, Some t) # m) = (if entryExpired window nowUTC t
     then snapshot_entries window nowUTC m
     else (k, \<lparr>sr_ControlSessionID = sid, sr_SeenAt = t\<rparr>) # snapshot_entries window nowUTC m)"

definition snapshot_Load :: "duration \<Rightarrow> gotime \<Rightarrow> snapshot_file \<Rightarrow> (string, seen_request) gomap result" where
  "snapshot_Load window nowUTC file = (case file of
     NoSnapshot \<Rightarrow> Inr []
   | UnreadableSnapshot \<Rightarrow> Inl ''decode nonce replay state''
   | Snapshot m \<Rightarrow> Inr (snapshot_entries window nowUTC m))"

definition nonceReplaySnapshot :: "(string, seen_request) gomap \<Rightarrow> (string, string \<times> gotime option) gomap" where
  "nonceReplaySnapshot seen = map (\<lambda>(k, v). (k, sr_ControlSessionID v, Some (sr_SeenAt v))) seen"

definition snapshot_Compact :: "write_outcome \<Rightarrow> (string, seen_request) gomap \<Rightarrow> snapshot_file \<Rightarrow>
    snapshot_file \<times> string option" where
  "snapshot_Compact io seen file = (case io of
     StateWritten \<Rightarrow> (Snapshot (nonceReplaySnapshot seen), None)
   | StateRefused e \<Rightarrow> (file, Some (''persist nonce replay state: '' @ e)))"

definition snapshot_Record :: "duration \<Rightarrow> write_outcome \<Rightarrow> string \<Rightarrow> seen_request \<Rightarrow> snapshot_file \<Rightarrow>
    snapshot_file \<times> string option" where
  "snapshot_Record window io nonceKey seenNonce file =
    (case snapshot_Load window (sr_SeenAt seenNonce) file of
       Inl e \<Rightarrow> (file, Some e)
     | Inr seen \<Rightarrow> snapshot_Compact io (mput nonceKey seenNonce seen) file)"

text \<open>
  What \<open>appendPrivateStateLine\<close> leaves: bytes written after a line that lacks its newline continue
  that line, and an object that continues the beginning of another one is not valid JSON.
\<close>

definition append_bytes :: "nonce_line \<Rightarrow> bool \<Rightarrow> nonce_log option \<Rightarrow> nonce_log option" where
  "append_bytes l torn file = (case file of
     None \<Rightarrow> Some \<lparr>nl_lines = [l], nl_torn = torn\<rparr>
   | Some log \<Rightarrow> if nl_torn log \<and> nl_lines log \<noteq> []
       then Some \<lparr>nl_lines = butlast (nl_lines log) @ [if last (nl_lines log) = BlankLine then l else MalformedLine],
         nl_torn = torn\<rparr>
       else Some \<lparr>nl_lines = nl_lines log @ [l], nl_torn = torn\<rparr>)"

definition appendPrivateStateLine :: "append_outcome \<Rightarrow> nonce_line \<Rightarrow> nonce_log option \<Rightarrow>
    nonce_log option \<times> string option" where
  "appendPrivateStateLine io line file = (case io of
     LineAppended \<Rightarrow> (append_bytes line False file, None)
   | LineRefused e \<Rightarrow> (file, Some e)
   | LineTorn part e \<Rightarrow> (append_bytes part True file, Some (''append state file: '' @ e))
   | LineUnsynced e \<Rightarrow> (append_bytes line False file, Some (''sync state file append: '' @ e)))"

text \<open>The append-only store over its log and the legacy snapshot (NoSnapshot for a blank path too);
  \<open>fails\<close> is the error of a stat or read that fails other than by a missing file.\<close>

definition log_Load :: "string option \<Rightarrow> duration \<Rightarrow> snapshot_file \<Rightarrow> gotime \<Rightarrow> nonce_log option \<Rightarrow>
    (string, seen_request) gomap result" where
  "log_Load fails window legacy nowUTC file = (if fails \<noteq> None then Inl (the fails) else case file of
     Some _ \<Rightarrow> loadAppendOnlyNonceReplayLog file nowUTC window
   | None \<Rightarrow> snapshot_Load window nowUTC legacy)"

definition log_Record :: "append_outcome \<Rightarrow> string \<Rightarrow> seen_request \<Rightarrow> nonce_log option \<Rightarrow>
    nonce_log option \<times> string option" where
  "log_Record io nonceKey seenNonce file = appendPrivateStateLine io (RecordLine nonceKey seenNonce) file"

definition log_Compact :: "write_outcome \<Rightarrow> (string, seen_request) gomap \<Rightarrow> nonce_log option \<Rightarrow>
    nonce_log option \<times> string option" where
  "log_Compact io seen file = (case io of
     StateWritten \<Rightarrow> (Some \<lparr>nl_lines = map (\<lambda>k. RecordLine k (the (map_of seen k))) (sort_strings (map fst seen)),
       nl_torn = False\<rparr>, None)
   | StateRefused e \<Rightarrow> (file, Some (''persist compacted nonce replay log: '' @ e)))"

section \<open>The contract of a store\<close>

locale nonce_store =
  fixes window :: duration
    and load :: "gotime \<Rightarrow> 's \<Rightarrow> (string, seen_request) gomap result"
    and enter :: "'io \<Rightarrow> string \<Rightarrow> seen_request \<Rightarrow> 's \<Rightarrow> 's \<times> string option"
    and compact :: "'w \<Rightarrow> (string, seen_request) gomap \<Rightarrow> 's \<Rightarrow> 's \<times> string option"
    and sound :: "'s \<Rightarrow> bool"
  assumes load_ok: "sound s \<Longrightarrow> \<exists>m. load nowUTC s = Inr m"
    and enter_sound: "sound s \<Longrightarrow> enter io k v s = (s', None) \<Longrightarrow> sound s'"
    and enter_other: "sound s \<Longrightarrow> enter io k v s = (s', None) \<Longrightarrow> sr_SeenAt v \<le> nowUTC \<Longrightarrow> j \<noteq> k \<Longrightarrow>
      load nowUTC s = Inr m \<Longrightarrow> load nowUTC s' = Inr m' \<Longrightarrow> map_of m' j = map_of m j"
    and enter_loaded: "sound s \<Longrightarrow> enter io k v s = (s', None) \<Longrightarrow> sr_SeenAt v \<le> nowUTC \<Longrightarrow>
      \<not> entryExpired window nowUTC (sr_SeenAt v) \<Longrightarrow> load nowUTC s' = Inr m' \<Longrightarrow> map_of m' k = Some v"
    and compact_loaded: "compact w seen s = (s', None) \<Longrightarrow> map_wf seen \<Longrightarrow> sound s' \<and>
      (\<forall>m. load nowUTC s' = Inr m \<longrightarrow> map_of m j = (case map_of seen j of None \<Rightarrow> None
         | Some v \<Rightarrow> if entryExpired window nowUTC (sr_SeenAt v) then None else Some v))"
begin

text \<open>A run of recordings that all succeed.\<close>

fun entered :: "'s \<Rightarrow> ('io \<times> string \<times> seen_request) list \<Rightarrow> 's \<Rightarrow> bool" where
  "entered s [] s' = (s' = s)"
| "entered s ((io, k, v) # es) s' = (snd (enter io k v s) = None \<and> entered (fst (enter io k v s)) es s')"

lemma entered_sound: "sound s \<Longrightarrow> entered s es s' \<Longrightarrow> sound s'"
proof (induction es arbitrary: s)
  case (Cons e es)
  obtain io k v where e: "e = (io, k, v)" by (cases e)
  obtain s1 where "enter io k v s = (s1, None)" using Cons.prems(2) by (cases "enter io k v s") (simp add: e)
  with Cons.prems Cons.IH [of s1] enter_sound [OF Cons.prems(1)] show ?case by (simp add: e)
qed simp

lemma survives:
  assumes "sound s" "entered s es s'" "sorted (map (\<lambda>(io, k, v). sr_SeenAt v) es)"
    "\<forall>(io, k, v)\<in>set es. sr_SeenAt v \<le> nowUTC" "load nowUTC s' = Inr m'"
    "(\<exists>m. load nowUTC s = Inr m \<and> mhas m j \<and>
        (\<forall>(io, k, v)\<in>set es. k = j \<longrightarrow> \<not> entryExpired window nowUTC (sr_SeenAt v))) \<or>
     (\<exists>io v. (io, j, v) \<in> set es \<and> \<not> entryExpired window nowUTC (sr_SeenAt v))"
  shows "mhas m' j"
  using assms
proof (induction es arbitrary: s)
  case (Cons e es)
  obtain io k v where e: "e = (io, k, v)" by (cases e)
  obtain s1 where s1: "enter io k v s = (s1, None)" and es: "entered s1 es s'"
    using Cons.prems(2) by (cases "enter io k v s") (simp add: e)
  have sound1: "sound s1" by (rule enter_sound [OF Cons.prems(1) s1])
  obtain m m1 where m: "load nowUTC s = Inr m" and m1: "load nowUTC s1 = Inr m1"
    using load_ok [OF Cons.prems(1)] load_ok [OF sound1] by blast
  have v: "sr_SeenAt v \<le> nowUTC" using Cons.prems(4) by (simp add: e)
  have later: "\<not> entryExpired window nowUTC (sr_SeenAt v')"
    if "(io', k', v') \<in> set es" "\<not> entryExpired window nowUTC (sr_SeenAt v)" for io' k' v'
  proof -
    have "sr_SeenAt v \<le> sr_SeenAt v'" using Cons.prems(3) that(1) by (force simp: e)
    then have "time_sub nowUTC (sr_SeenAt v') \<le> time_sub nowUTC (sr_SeenAt v)" by (simp add: time_sub_def)
    with that(2) show ?thesis by (auto simp: entryExpired_def)
  qed
  note rest = Cons.IH [OF sound1 es _ _ Cons.prems(5)]
  have s: "sorted (map (\<lambda>(io, k, v). sr_SeenAt v) es)" "\<forall>(io, k, v)\<in>set es. sr_SeenAt v \<le> nowUTC"
    using Cons.prems(3,4) by (simp_all add: e)
  consider (now) "k = j" "\<not> entryExpired window nowUTC (sr_SeenAt v)"
    | (older) "k \<noteq> j" "mhas m j" "\<forall>(io, k, v)\<in>set es. k = j \<longrightarrow> \<not> entryExpired window nowUTC (sr_SeenAt v)"
    | (after) io' v' where "(io', j, v') \<in> set es" "\<not> entryExpired window nowUTC (sr_SeenAt v')"
    using Cons.prems(6) m by (auto simp: e)
  then show ?case
  proof cases
    case now
    then have "mhas m1 j" using enter_loaded [OF Cons.prems(1) s1 v _ m1] by (simp add: mhas_def)
    with later now(2) m1 show ?thesis by (intro rest s) blast
  next
    case older
    then have "mhas m1 j" using enter_other [OF Cons.prems(1) s1 v _ m m1] by (simp add: mhas_def)
    with older(3) m1 show ?thesis by (intro rest s) blast
  next
    case after
    then show ?thesis by (intro rest s) blast
  qed
qed auto

end

section \<open>The append-only log\<close>

definition good_line :: "nonce_line \<Rightarrow> bool" where
  "good_line l = (case l of BlankLine \<Rightarrow> True | RecordLine _ _ \<Rightarrow> True | _ \<Rightarrow> False)"

definition log_sound :: "snapshot_file \<Rightarrow> nonce_log option \<Rightarrow> bool" where
  "log_sound legacy file = (case file of None \<Rightarrow> legacy = NoSnapshot
     | Some log \<Rightarrow> \<not> nl_torn log \<and> list_all good_line (nl_lines log))"

definition enter_line :: "duration \<Rightarrow> gotime \<Rightarrow> nonce_line \<Rightarrow> (string, seen_request) gomap \<Rightarrow>
    (string, seen_request) gomap" where
  "enter_line window nowUTC l m = (case l of
     RecordLine k v \<Rightarrow> if entryExpired window nowUTC (sr_SeenAt v) then m else mput k v m | _ \<Rightarrow> m)"

lemma load_good_lines:
  "list_all good_line ls \<Longrightarrow> load_log_lines window nowUTC torn ls m = Inr (fold (enter_line window nowUTC) ls m)"
  by (induction ls arbitrary: m) (auto simp: good_line_def enter_line_def split: nonce_line.splits)

lemma fold_enter_line:
  assumes "map_wf seen" "set ks \<subseteq> fst ` set seen" "distinct ks"
  shows "map_of (fold (enter_line window nowUTC) (map (\<lambda>k. RecordLine k (the (map_of seen k))) ks) m) j =
    (if j \<in> set ks \<and> \<not> entryExpired window nowUTC (sr_SeenAt (the (map_of seen j)))
     then map_of seen j else map_of m j)"
  using assms
proof (induction ks arbitrary: m)
  case (Cons k ks)
  then have "map_of seen k = Some (the (map_of seen k))"
    by (auto simp: map_of_eq_None_iff simp flip: not_None_eq)
  with Cons show ?case by (auto simp: enter_line_def)
qed simp

lemma log_Record_Inr:
  assumes "log_sound legacy s" "log_Record io k v s = (s', None)"
  shows "log_sound legacy s'" "log_Load None window legacy nowUTC s = Inr m \<Longrightarrow>
    log_Load None window legacy nowUTC s' = Inr (enter_line window nowUTC (RecordLine k v) m)"
  using assms
  by (auto simp: log_Record_def appendPrivateStateLine_def append_bytes_def log_sound_def good_line_def
      log_Load_def loadAppendOnlyNonceReplayLog_def snapshot_Load_def load_good_lines enter_line_def
      split: append_outcome.splits option.splits if_splits)

lemma log_Compact_loaded:
  assumes "log_Compact w seen s = (s', None)" "map_wf seen"
  shows "log_sound legacy s' \<and> (\<forall>m. log_Load None window legacy nowUTC s' = Inr m \<longrightarrow> map_of m j =
    (case map_of seen j of None \<Rightarrow> None
     | Some v \<Rightarrow> if entryExpired window nowUTC (sr_SeenAt v) then None else Some v))"
proof -
  let ?ls = "map (\<lambda>k. RecordLine k (the (map_of seen k))) (sort_strings (map fst seen))"
  have s': "s' = Some \<lparr>nl_lines = ?ls, nl_torn = False\<rparr>"
    using assms(1) by (simp add: log_Compact_def split: write_outcome.splits)
  have good: "list_all good_line ?ls" by (simp add: list_all_iff good_line_def)
  have "map_of (fold (enter_line window nowUTC) ?ls []) j =
      (if j \<in> fst ` set seen \<and> \<not> entryExpired window nowUTC (sr_SeenAt (the (map_of seen j)))
       then map_of seen j else None)"
    using fold_enter_line [OF assms(2), of "sort_strings (map fst seen)" window nowUTC "[]" j] assms(2)
    by (simp add: map_wf_def)
  also have "\<dots> = (case map_of seen j of None \<Rightarrow> None
     | Some v \<Rightarrow> if entryExpired window nowUTC (sr_SeenAt v) then None else Some v)"
    by (auto simp: mhas_def simp flip: mhas_iff split: option.split)
  finally show ?thesis
    using good by (simp add: s' log_sound_def log_Load_def loadAppendOnlyNonceReplayLog_def load_good_lines)
qed

interpretation log_store: nonce_store window "log_Load None window legacy" log_Record log_Compact "log_sound legacy"
  for window :: duration and legacy :: snapshot_file
proof unfold_locales
  fix s :: "nonce_log option" and nowUTC
  assume "log_sound legacy s"
  then show "\<exists>m. log_Load None window legacy nowUTC s = Inr m"
    by (auto simp: log_sound_def log_Load_def loadAppendOnlyNonceReplayLog_def snapshot_Load_def load_good_lines
        split: option.splits)
next
  fix s s' :: "nonce_log option" and io k v
  assume s: "log_sound legacy s" and r: "log_Record io k v s = (s', None)"
  show "log_sound legacy s'" by (rule log_Record_Inr [OF s r])
  {
    fix nowUTC j m m'
    assume "j \<noteq> k" "log_Load None window legacy nowUTC s = Inr m" "log_Load None window legacy nowUTC s' = Inr m'"
    with log_Record_Inr(2) [OF s r] show "map_of m' j = map_of m j" by (auto simp: enter_line_def)
  }
  {
    fix nowUTC m'
    assume e: "\<not> entryExpired window nowUTC (sr_SeenAt v)" and m': "log_Load None window legacy nowUTC s' = Inr m'"
    obtain m where "log_Load None window legacy nowUTC s = Inr m"
      using s by (auto simp: log_sound_def log_Load_def loadAppendOnlyNonceReplayLog_def snapshot_Load_def
          load_good_lines split: option.splits)
    from log_Record_Inr(2) [OF s r this] e m' show "map_of m' k = Some v" by (auto simp: enter_line_def)
  }
next
  fix w :: write_outcome and seen :: "(string, seen_request) gomap" and s s' nowUTC j
  assume "log_Compact w seen s = (s', None)" "map_wf seen"
  then show "log_sound legacy s' \<and> (\<forall>m. log_Load None window legacy nowUTC s' = Inr m \<longrightarrow> map_of m j =
      (case map_of seen j of None \<Rightarrow> None
       | Some v \<Rightarrow> if entryExpired window nowUTC (sr_SeenAt v) then None else Some v))"
    by (rule log_Compact_loaded)
qed

section \<open>The snapshot\<close>

definition snapshot_sound :: "snapshot_file \<Rightarrow> bool" where
  "snapshot_sound file = (case file of NoSnapshot \<Rightarrow> True | UnreadableSnapshot \<Rightarrow> False | Snapshot m \<Rightarrow> map_wf m)"

lemma snapshot_entries_keys: "fst ` set (snapshot_entries window nowUTC m) \<subseteq> fst ` set m"
  by (induction window nowUTC m rule: snapshot_entries.induct) auto

lemma snapshot_entries_wf: "map_wf m \<Longrightarrow> map_wf (snapshot_entries window nowUTC m)"
proof (induction window nowUTC m rule: snapshot_entries.induct)
  case (3 window nowUTC k sid t m)
  then show ?case using snapshot_entries_keys [of window nowUTC m] by (auto simp: map_wf_def)
qed (simp_all add: map_wf_def)

lemma snapshot_entries_lookup:
  "map_wf m \<Longrightarrow> map_of (snapshot_entries window nowUTC m) k = (case map_of m k of
     Some (sid, Some t) \<Rightarrow> if entryExpired window nowUTC t then None
       else Some \<lparr>sr_ControlSessionID = sid, sr_SeenAt = t\<rparr>
   | _ \<Rightarrow> None)"
proof (induction window nowUTC m rule: snapshot_entries.induct)
  case (3 window nowUTC k' sid t m)
  then have "map_of m k' = None" "map_wf m" by (simp_all add: map_wf_def map_of_eq_None_iff)
  with 3 show ?case by (auto split: option.split)
next
  case (2 window nowUTC k' sid m)
  then have "map_of m k' = None" "map_wf m" by (simp_all add: map_wf_def map_of_eq_None_iff)
  with 2 show ?case by (auto split: option.split)
qed simp

lemma snapshot_of_lookup:
  "map_of (nonceReplaySnapshot seen) k =
     map_option (\<lambda>v. (sr_ControlSessionID v, Some (sr_SeenAt v))) (map_of seen k)"
  by (induction seen) (auto simp: nonceReplaySnapshot_def)

lemma snapshot_of_wf: "map_wf (nonceReplaySnapshot seen) = map_wf seen"
  by (simp add: nonceReplaySnapshot_def map_wf_def comp_def case_prod_unfold)

lemma snapshot_written_lookup:
  assumes "map_wf seen" "snapshot_Load window nowUTC (Snapshot (nonceReplaySnapshot seen)) = Inr m"
  shows "map_of m j = (case map_of seen j of None \<Rightarrow> None
    | Some v \<Rightarrow> if entryExpired window nowUTC (sr_SeenAt v) then None else Some v)"
  using assms by (auto simp: snapshot_Load_def snapshot_entries_lookup snapshot_of_wf snapshot_of_lookup
      split: option.split)

lemma snapshot_Record_None:
  assumes "snapshot_sound s" "snapshot_Record window io k v s = (s', None)"
  obtains seen where "snapshot_Load window (sr_SeenAt v) s = Inr seen" "map_wf seen"
    "s' = Snapshot (nonceReplaySnapshot (mput k v seen))"
  using assms
  by (auto simp: snapshot_Record_def snapshot_Compact_def snapshot_Load_def snapshot_sound_def snapshot_entries_wf
      split: write_outcome.splits snapshot_file.splits)

lemma expired_later: "t \<le> nowUTC \<Longrightarrow> entryExpired window t a \<Longrightarrow> entryExpired window nowUTC a"
  using time_sub_mono [of t nowUTC a] by (auto simp: entryExpired_def)

interpretation snapshot_store: nonce_store window "snapshot_Load window" "snapshot_Record window" snapshot_Compact
    snapshot_sound for window :: duration
proof unfold_locales
  fix s nowUTC
  assume "snapshot_sound s"
  then show "\<exists>m. snapshot_Load window nowUTC s = Inr m"
    by (auto simp: snapshot_sound_def snapshot_Load_def split: snapshot_file.splits)
next
  fix s s' io k v
  assume s: "snapshot_sound s" and r: "snapshot_Record window io k v s = (s', None)"
  obtain seen where seen: "snapshot_Load window (sr_SeenAt v) s = Inr seen" "map_wf seen"
    and s': "s' = Snapshot (nonceReplaySnapshot (mput k v seen))"
    using snapshot_Record_None [OF s r] by blast
  show "snapshot_sound s'" using seen(2) by (simp add: s' snapshot_sound_def snapshot_of_wf)
  note written = snapshot_written_lookup [OF map_wf_mput [OF seen(2), of k v], of window]
  {
    fix nowUTC j m m'
    assume le: "sr_SeenAt v \<le> nowUTC" and j: "j \<noteq> k" and m: "snapshot_Load window nowUTC s = Inr m"
      and m': "snapshot_Load window nowUTC s' = Inr m'"
    have "map_of m' j = (case map_of seen j of None \<Rightarrow> None
        | Some v \<Rightarrow> if entryExpired window nowUTC (sr_SeenAt v) then None else Some v)"
      using written [OF m' [unfolded s'], of j] j by simp
    also have "\<dots> = map_of m j"
      using seen(1) m s expired_later [OF le, of window]
      by (auto simp: snapshot_Load_def snapshot_sound_def snapshot_entries_lookup
          split: snapshot_file.splits option.splits if_splits)
    finally show "map_of m' j = map_of m j" .
  }
  {
    fix nowUTC m'
    assume "\<not> entryExpired window nowUTC (sr_SeenAt v)" "snapshot_Load window nowUTC s' = Inr m'"
    with written [of nowUTC m' k] show "map_of m' k = Some v" by (simp add: s')
  }
next
  fix w seen s s' nowUTC j
  assume "snapshot_Compact w seen s = (s', None)" "map_wf seen"
  then show "snapshot_sound s' \<and> (\<forall>m. snapshot_Load window nowUTC s' = Inr m \<longrightarrow> map_of m j =
      (case map_of seen j of None \<Rightarrow> None
       | Some v \<Rightarrow> if entryExpired window nowUTC (sr_SeenAt v) then None else Some v))"
    by (auto simp: snapshot_Compact_def snapshot_sound_def snapshot_of_wf snapshot_written_lookup
        split: write_outcome.splits)
qed

section \<open>Properties\<close>



text \<open>
  A crash in the middle of a record leaves a log that still loads, but the next record that
  succeeds makes it unreadable: the startup that follows fails.
\<close>

theorem torn_nonce_log_blocks_restart:
  assumes "log_sound legacy file" "part \<noteq> BlankLine"
    "log_Record (LineTorn part e) k v file = (file1, err)" "log_Record LineAppended k' v' file1 = (file2, None)"
  shows "is_ok (log_Load None window legacy nowUTC file1) \<and> \<not> is_ok (log_Load None window legacy later file2)"
proof -
  obtain ls where good: "list_all good_line ls" and f1: "file1 = Some \<lparr>nl_lines = ls @ [part], nl_torn = True\<rparr>"
    using assms(1,3)
    by (auto simp: log_Record_def appendPrivateStateLine_def append_bytes_def log_sound_def split: option.splits)
  then have f2: "file2 = Some \<lparr>nl_lines = ls @ [MalformedLine], nl_torn = False\<rparr>"
    using assms(2,4) by (simp add: log_Record_def appendPrivateStateLine_def append_bytes_def)
  have "is_ok (load_log_lines window nowUTC True (ls @ [part]) m)"
    "\<not> is_ok (load_log_lines window later False (ls @ [MalformedLine]) m)" for m
    using good by (induction ls arbitrary: m) (auto simp: good_line_def split: nonce_line.splits)
  then show ?thesis by (simp add: f1 f2 log_Load_def loadAppendOnlyNonceReplayLog_def)
qed

theorem torn_nonce_log_blocks_restart_witness:
  "\<not> is_ok (log_Load None 10 NoSnapshot 12 (Some \<lparr>nl_lines = [MalformedLine], nl_torn = False\<rparr>))"
  using torn_nonce_log_blocks_restart [of NoSnapshot None MalformedLine "''enospc''" "''a''"
      "\<lparr>sr_ControlSessionID = ''s'', sr_SeenAt = 5\<rparr>" _ _ "''b''" "\<lparr>sr_ControlSessionID = ''s'', sr_SeenAt = 7\<rparr>"
      _ 10 12 12]
  by (simp add: log_sound_def log_Record_def appendPrivateStateLine_def append_bytes_def)

text \<open>
  The first record after an upgrade creates the log, and the nonces of the legacy snapshot, which
  were loaded until then, are not loaded any more by the next start.
\<close>

theorem legacy_nonces_forgotten:
  assumes "log_Load None window legacy nowUTC None = Inr m" "mhas m j" "j \<noteq> k"
    "log_Record LineAppended k v None = (file, None)"
  shows "\<exists>m'. log_Load None window legacy nowUTC file = Inr m' \<and> \<not> mhas m' j"
  using assms(3,4)
  by (auto simp: log_Record_def appendPrivateStateLine_def append_bytes_def log_Load_def
      loadAppendOnlyNonceReplayLog_def mhas_def)

theorem legacy_nonces_forgotten_witness:
  "\<exists>m'. log_Load None 10 (Snapshot [(''a'', ''s'', Some 5)]) 12
     (Some \<lparr>nl_lines = [RecordLine ''b'' \<lparr>sr_ControlSessionID = ''s'', sr_SeenAt = 7\<rparr>], nl_torn = False\<rparr>) = Inr m' \<and>
     \<not> mhas m' ''a''"
  by (rule legacy_nonces_forgotten [where k = "''b''" and v = "\<lparr>sr_ControlSessionID = ''s'', sr_SeenAt = 7\<rparr>"
        and m = "[(''a'', \<lparr>sr_ControlSessionID = ''s'', sr_SeenAt = 5\<rparr>)]"])
    (simp_all add: log_Load_def snapshot_Load_def entryExpired_def time_sub_def mhas_def log_Record_def
      appendPrivateStateLine_def append_bytes_def)

end
