(* ===== verification/LedgerValues.thy ===== *)
theory LedgerValues
  imports GoValue
begin

text \<open>
  The value layer of internal/ledger/ledger.go: canonicalizeValue and canonicalizeDataMap, the JSON
  text json.Marshal gives a canonical value, what json.Unmarshal reads back from that text, and the
  lemma the chain rests on: reading back a plain value changes neither its canonical form's text.

  A number text that is read back becomes a float64; strconv.ParseFloat and the formatting of
  float64 are the argument \<open>pf\<close> and the texts inside \<open>float64\<close>.
\<close>

datatype ledger_error =
    UnsafeInteger | NotAnInteger | MarshalFailed
  | Integrity string
  | LedgerIO string
  | EventTooLarge

definition maxSafeJSONInteger :: int where "maxSafeJSONInteger = 2 ^ 53 - 1"
definition minSafeJSONInteger :: int where "minSafeJSONInteger = - maxSafeJSONInteger"

definition validateSafeJSONInteger :: "int \<Rightarrow> ledger_error option" where
  "validateSafeJSONInteger value =
     (if value < minSafeJSONInteger \<or> value > maxSafeJSONInteger then Some UnsafeInteger else None)"

text \<open>strconv.ParseInt in base 10 for 64 bits.\<close>

definition parse_int64 :: "string \<Rightarrow> int option" where
  "parse_int64 s = (let
     neg = (s \<noteq> [] \<and> hd s = CHR ''-'');
     ds = (if s \<noteq> [] \<and> (hd s = CHR ''-'' \<or> hd s = CHR ''+'') then tl s else s);
     n = (if neg then - int (digits_val ds) else int (digits_val ds))
   in if ds \<noteq> [] \<and> list_all is_digit ds \<and> - (2 ^ 63) \<le> n \<and> n < 2 ^ 63 then Some n else None)"

definition parseSafeJSONInteger :: "string \<Rightarrow> ledger_error + int" where
  "parseSafeJSONInteger value = (case parse_int64 value of None \<Rightarrow> Inl NotAnInteger
     | Some n \<Rightarrow> (case validateSafeJSONInteger n of Some e \<Rightarrow> Inl e | None \<Rightarrow> Inr n))"

definition isJSONIntegerLiteral :: "string \<Rightarrow> bool" where
  "isJSONIntegerLiteral value0 = (let value = trim_space value0 in
     value \<noteq> [] \<and> \<not> list_ex (\<lambda>c. c \<in> set value) [CHR ''.'', CHR ''e'', CHR ''E''])"

section \<open>Canonical values\<close>

text \<open>The loops over fields and elements, stopping at the first error.\<close>

fun collect_fields :: "('k \<times> ('e + 'v)) list \<Rightarrow> 'e + ('k \<times> 'v) list" where
  "collect_fields [] = Inr []"
| "collect_fields ((k, r) # m) =
     bindr r (\<lambda>v. bindr (collect_fields m) (\<lambda>m'. Inr ((k, v) # m')))"

fun collect_list :: "('e + 'v) list \<Rightarrow> 'e + 'v list" where
  "collect_list [] = Inr []"
| "collect_list (r # rs) = bindr r (\<lambda>v. bindr (collect_list rs) (\<lambda>vs. Inr (v # vs)))"

primrec canonicalizeValue :: "gval \<Rightarrow> ledger_error + gval" where
  "canonicalizeValue GNil = Inr GNil"
| "canonicalizeValue (GString s) = Inr (GString s)"
| "canonicalizeValue (GBool b) = Inr (GBool b)"
| "canonicalizeValue (GFloat f) = Inr (GFloat f)"
| "canonicalizeValue (GNumber s) =
     (if isJSONIntegerLiteral s then bindr (parseSafeJSONInteger s) (\<lambda>_. Inr (GNumber s))
      else Inr (GNumber s))"
| "canonicalizeValue (GInt n) = bindr (check (validateSafeJSONInteger n)) (\<lambda>_. Inr (GInt n))"
| "canonicalizeValue (GMap m) =
     bindr (collect_fields (map (map_prod (\<lambda>k. k) canonicalizeValue) m)) (\<lambda>m'. Inr (GMap m'))"
| "canonicalizeValue (GStrMap m) = Inr (GMap (map (\<lambda>(k, v). (k, GString v)) m))"
| "canonicalizeValue (GList xs) =
     bindr (collect_list (map canonicalizeValue xs)) (\<lambda>ys. Inr (GList ys))"
| "canonicalizeValue (GStrs xs) = Inr (GStrs xs)"
| "canonicalizeValue (GOther o') =
     (case map_option canonicalizeValue o' of None \<Rightarrow> Inl MarshalFailed | Some r \<Rightarrow> r)"

definition canonicalizeDataMap :: "gdata \<Rightarrow> bool \<Rightarrow> ledger_error + gdata" where
  "canonicalizeDataMap rawData stripEventHash =
     collect_fields (map (\<lambda>(k, v). (k, canonicalizeValue v))
       (if stripEventHash then mdel ''event_hash'' rawData else rawData))"

section \<open>JSON text and what is read back\<close>

definition float_text :: "float64 \<Rightarrow> string" where
  "float_text f = (case f of FInt n \<Rightarrow> int_str n | FBig s \<Rightarrow> s | FFrac s \<Rightarrow> s)"

text \<open>The cases that do not arise from canonicalizeValue are given the text of their generic value.\<close>

primrec json_val :: "gval \<Rightarrow> string" where
  "json_val GNil = ''null''"
| "json_val (GString s) = json_string s"
| "json_val (GBool b) = json_bool b"
| "json_val (GInt n) = int_str n"
| "json_val (GFloat f) = float_text f"
| "json_val (GNumber s) = s"
| "json_val (GMap m) = json_object (sort_keys (map (map_prod (\<lambda>k. k) json_val) m))"
| "json_val (GStrMap m) = json_object (sort_keys (map (\<lambda>(k, v). (k, json_string v)) m))"
| "json_val (GList xs) = json_array (map json_val xs)"
| "json_val (GStrs xs) = (if xs = [] then ''null'' else json_array (map json_string xs))"
| "json_val (GOther o') = (case map_option json_val o' of None \<Rightarrow> ''null'' | Some t \<Rightarrow> t)"

text \<open>Decoding an object: keys as the decoder sees them, the last of equal keys wins.\<close>

definition merge_keys :: "(string \<times> gval) list \<Rightarrow> gdata" where
  "merge_keys m = fold (\<lambda>(k, v) c. mput k v c) (map (\<lambda>(k, v). (utf8_fix k, v)) m) []"

primrec read_back :: "(string \<Rightarrow> float64) \<Rightarrow> gval \<Rightarrow> gval" where
  "read_back pf GNil = GNil"
| "read_back pf (GString s) = GString (utf8_fix s)"
| "read_back pf (GBool b) = GBool b"
| "read_back pf (GInt n) = GFloat (FInt n)"
| "read_back pf (GFloat f) = GFloat f"
| "read_back pf (GNumber s) = GFloat (pf s)"
| "read_back pf (GMap m) = GMap (merge_keys (sort_keys (map (map_prod (\<lambda>k. k) (read_back pf)) m)))"
| "read_back pf (GStrMap m) =
     GMap (merge_keys (sort_keys (map (\<lambda>(k, v). (k, GString (utf8_fix v))) m)))"
| "read_back pf (GList xs) = GList (map (read_back pf) xs)"
| "read_back pf (GStrs xs) = (if xs = [] then GNil else GList (map (\<lambda>s. GString (utf8_fix s)) xs))"
| "read_back pf (GOther o') = (case map_option (read_back pf) o' of None \<Rightarrow> GNil | Some v \<Rightarrow> v)"

section \<open>Plain values survive a write and a read\<close>

text \<open>
  Plain: strings and keys are UTF-8, keys are distinct, and a number text is the one its float64
  prints.
\<close>

primrec plain :: "(string \<Rightarrow> float64) \<Rightarrow> gval \<Rightarrow> bool" where
  "plain pf GNil = True"
| "plain pf (GString s) = valid_utf8 s"
| "plain pf (GBool b) = True"
| "plain pf (GInt n) = True"
| "plain pf (GFloat f) = True"
| "plain pf (GNumber s) = (float_text (pf s) = s)"
| "plain pf (GMap m) = (map_wf m \<and> (\<forall>p\<in>set (map (map_prod (\<lambda>k. k) (plain pf)) m). valid_utf8 (fst p) \<and> snd p))"
| "plain pf (GStrMap m) = (map_wf m \<and> (\<forall>p\<in>set m. valid_utf8 (fst p) \<and> valid_utf8 (snd p)))"
| "plain pf (GList xs) = list_all id (map (plain pf) xs)"
| "plain pf (GStrs xs) = list_all valid_utf8 xs"
| "plain pf (GOther o') = (case map_option (plain pf) o' of None \<Rightarrow> True | Some b \<Rightarrow> b)"

lemma collect_fields_Inr:
  "collect_fields rs = Inr m \<longleftrightarrow> rs = map (\<lambda>(k, v). (k, Inr v)) m"
proof (induction rs arbitrary: m)
  case Nil
  then show ?case by (cases m) auto
next
  case (Cons p rs)
  then show ?case by (cases p; cases m) (auto simp: result_iffs)
qed

lemma collect_list_Inr: "collect_list rs = Inr vs \<longleftrightarrow> rs = map Inr vs"
proof (induction rs arbitrary: vs)
  case Nil
  then show ?case by (cases vs) auto
next
  case (Cons r rs)
  then show ?case by (cases vs) (auto simp: result_iffs)
qed

text \<open>Canonical values: the results of canonicalizeValue.\<close>

primrec canonical :: "gval \<Rightarrow> bool" where
  "canonical GNil = True"
| "canonical (GString s) = True"
| "canonical (GBool b) = True"
| "canonical (GInt n) = (validateSafeJSONInteger n = None)"
| "canonical (GFloat f) = True"
| "canonical (GNumber s) = True"
| "canonical (GMap m) = (\<forall>p\<in>set (map (map_prod (\<lambda>k. k) canonical) m). snd p)"
| "canonical (GStrMap m) = False"
| "canonical (GList xs) = list_all id (map canonical xs)"
| "canonical (GStrs xs) = True"
| "canonical (GOther o') = False"

lemma plain_GMap [simp]:
  "plain pf (GMap m) \<longleftrightarrow> map_wf m \<and> (\<forall>(k, v)\<in>set m. valid_utf8 k \<and> plain pf v)"
  by auto

lemma canonical_GMap [simp]: "canonical (GMap m) \<longleftrightarrow> (\<forall>(k, v)\<in>set m. canonical v)"
  by auto

declare plain.simps(7) [simp del] canonical.simps(7) [simp del]

lemma snds_iff: "w \<in> Basic_BNFs.snds p \<longleftrightarrow> w = snd p"
  by (cases p) (auto simp: snds.simps)

lemma collect_fields_entries:
  assumes "collect_fields (map (map_prod (\<lambda>k. k) f) m) = Inr m'"
  shows "map fst m' = map fst m" "(k, v') \<in> set m' \<Longrightarrow> \<exists>v. (k, v) \<in> set m \<and> f v = Inr v'"
proof -
  have e: "map (map_prod (\<lambda>k. k) f) m = map (\<lambda>(k, v). (k, Inr v)) m'"
    using assms by (simp add: collect_fields_Inr)
  from arg_cong [OF e, of "map fst"] show "map fst m' = map fst m"
    by (simp add: comp_def case_prod_unfold)
  assume "(k, v') \<in> set m'"
  then have "(k, Inr v') \<in> set (map (\<lambda>(k, v). (k, Inr v)) m')" by force
  then have "(k, Inr v') \<in> set (map (map_prod (\<lambda>k. k) f) m)" by (simp only: e)
  then show "\<exists>v. (k, v) \<in> set m \<and> f v = Inr v'" by auto
qed

lemma canonicalizeValue_canonical:
  "canonicalizeValue v = Inr c \<Longrightarrow> canonical c \<and> (plain pf v \<longrightarrow> plain pf c)"
proof (induction v arbitrary: c)
  case (GMap m)
  then obtain m' where c: "c = GMap m'" and
    e: "collect_fields (map (map_prod (\<lambda>k. k) canonicalizeValue) m) = Inr m'"
    by (auto simp: result_iffs)
  note entries = collect_fields_entries [OF e]
  have ih: "canonical v' \<and> (plain pf v \<longrightarrow> plain pf v')"
    if "(k, v) \<in> set m" "canonicalizeValue v = Inr v'" for k v v'
    using GMap.IH [of "(k, v)" v v'] that by (simp add: snds_iff)
  show ?case
    using entries(2) ih entries(1) by (fastforce simp: c map_wf_def)
next
  case (GList xs)
  then obtain ys where c: "c = GList ys" and e: "map canonicalizeValue xs = map Inr ys"
    by (auto simp: result_iffs collect_list_Inr)
  have at: "\<exists>x\<in>set xs. canonicalizeValue x = Inr y" if "y \<in> set ys" for y
  proof -
    have "Inr y \<in> set (map canonicalizeValue xs)" using that by (simp only: e) simp
    then show ?thesis by auto
  qed
  show ?case
    using at GList.IH by (fastforce simp: c list_all_iff)
next
  case (GOther o')
  then show ?case by (cases o') auto
qed (auto simp: result_iffs map_wf_def comp_def case_prod_unfold split: if_splits)

lemma collect_fields_ok:
  "(\<And>k r. (k, r) \<in> set rs \<Longrightarrow> is_ok r) \<Longrightarrow>
     collect_fields rs = Inr (map (\<lambda>(k, r). (k, projr r)) rs)"
proof (induction rs)
  case (Cons p rs)
  obtain k r where p: "p = (k, r)" by (cases p)
  have "is_ok r" "collect_fields rs = Inr (map (\<lambda>(k, r). (k, projr r)) rs)"
    using Cons.IH Cons.prems by (auto simp: p)
  then show ?case by (auto simp: p is_ok_iff)
qed simp

lemma collect_list_ok: "(\<And>r. r \<in> set rs \<Longrightarrow> is_ok r) \<Longrightarrow> collect_list rs = Inr (map projr rs)"
proof (induction rs)
  case (Cons r rs)
  have "is_ok r" "collect_list rs = Inr (map projr rs)" using Cons by simp_all
  then show ?case by (auto simp: is_ok_iff)
qed simp

text \<open>The canonical text of an object depends only on its set of fields.\<close>

lemma canonical_fields_text:
  assumes m: "map_wf m" and M: "map_wf M" and set_M: "set M = (\<lambda>(k, v). (k, rb v)) ` set m"
    and ok: "\<And>k v. (k, v) \<in> set m \<Longrightarrow> \<exists>d. canonicalizeValue (rb v) = Inr d \<and> json_val d = json_val v"
  shows "\<exists>D. collect_fields (map (\<lambda>(k, v). (k, canonicalizeValue v)) M) = Inr D \<and>
     (D = []) = (m = []) \<and>
     sort_keys (map (map_prod (\<lambda>k. k) json_val) D) = sort_keys (map (map_prod (\<lambda>k. k) json_val) m)"
proof -
  let ?D = "map (\<lambda>(k, w). (k, projr (canonicalizeValue w))) M"
  have okM: "is_ok r" if "(k, r) \<in> set (map (\<lambda>(k, v). (k, canonicalizeValue v)) M)" for k r
    using that ok by (auto simp: set_M is_ok_iff)
  have "collect_fields (map (\<lambda>(k, v). (k, canonicalizeValue v)) M) =
      Inr (map (\<lambda>(k, r). (k, projr r)) (map (\<lambda>(k, v). (k, canonicalizeValue v)) M))"
    by (rule collect_fields_ok) (rule okM)
  then have D: "collect_fields (map (\<lambda>(k, v). (k, canonicalizeValue v)) M) = Inr ?D"
    by (simp add: comp_def case_prod_unfold)
  have "map_wf (map (map_prod (\<lambda>k. k) json_val) ?D)" "map_wf (map (map_prod (\<lambda>k. k) json_val) m)"
    using m M by (simp_all add: map_wf_def comp_def case_prod_unfold)
  moreover have "set (map (map_prod (\<lambda>k. k) json_val) ?D) = set (map (map_prod (\<lambda>k. k) json_val) m)"
  proof -
    have "(k, json_val (projr (canonicalizeValue (rb v)))) = (k, json_val v)" if "(k, v) \<in> set m" for k v
      using ok [OF that] by auto
    then show ?thesis
      by (auto simp: set_M image_image case_prod_unfold intro!: image_cong)
  qed
  ultimately have "sort_keys (map (map_prod (\<lambda>k. k) json_val) ?D) =
      sort_keys (map (map_prod (\<lambda>k. k) json_val) m)"
    by (rule sort_keys_canonical)
  moreover have "(?D = []) = (m = [])"
    using set_M by (metis (no_types, lifting) image_is_empty map_is_Nil_conv set_empty)
  ultimately show ?thesis using D by blast
qed

lemma set_merge_keys:
  assumes "map_wf m" "\<And>k v. (k, v) \<in> set m \<Longrightarrow> valid_utf8 k"
  shows "set (merge_keys (sort_keys m)) = set m \<and> map_wf (merge_keys (sort_keys m))"
proof -
  have "map (\<lambda>(k, v). (utf8_fix k, v)) (sort_keys m) = sort_keys m"
    using assms(2) by (intro map_idI) (auto simp: utf8_fix_valid)
  then show ?thesis
    using assms(1) set_fold_mput [of "sort_keys m"] fold_mput_wf [of "[]"]
    by (simp add: merge_keys_def)
qed

lemma read_back_map_set:
  assumes "map_wf m" "\<And>k v. (k, v) \<in> set m \<Longrightarrow> valid_utf8 k"
  shows "map_wf (merge_keys (sort_keys (map (map_prod (\<lambda>k. k) f) m))) \<and>
    set (merge_keys (sort_keys (map (map_prod (\<lambda>k. k) f) m))) = (\<lambda>(k, v). (k, f v)) ` set m"
proof -
  have "map_wf (map (map_prod (\<lambda>k. k) f) m)"
    using assms(1) by (simp add: map_wf_def comp_def case_prod_unfold)
  moreover have "valid_utf8 k" if "(k, v) \<in> set (map (map_prod (\<lambda>k. k) f) m)" for k v
    using that assms(2) by auto
  ultimately have "set (merge_keys (sort_keys (map (map_prod (\<lambda>k. k) f) m))) =
      set (map (map_prod (\<lambda>k. k) f) m) \<and>
      map_wf (merge_keys (sort_keys (map (map_prod (\<lambda>k. k) f) m)))"
    by (rule set_merge_keys)
  then show ?thesis by (simp add: map_prod_def)
qed

lemma read_back_text:
  "canonical c \<Longrightarrow> plain pf c \<Longrightarrow>
     \<exists>d. canonicalizeValue (read_back pf c) = Inr d \<and> json_val d = json_val c"
proof (induction c)
  case (GMap m)
  let ?M = "merge_keys (sort_keys (map (map_prod (\<lambda>k. k) (read_back pf)) m))"
  have wf: "map_wf m" and u: "\<And>k v. (k, v) \<in> set m \<Longrightarrow> valid_utf8 k" using GMap.prems by auto
  have ok: "\<exists>d. canonicalizeValue (read_back pf v) = Inr d \<and> json_val d = json_val v"
    if "(k, v) \<in> set m" for k v
  proof -
    have "canonical v" "plain pf v" using GMap.prems that by force+
    with GMap.IH [of "(k, v)" v] that show ?thesis by (simp add: snds_iff)
  qed
  have M: "map_wf ?M \<and> set ?M = (\<lambda>(k, v). (k, read_back pf v)) ` set m"
    by (rule read_back_map_set [OF wf]) (rule u)
  have "\<exists>D. collect_fields (map (\<lambda>(k, v). (k, canonicalizeValue v)) ?M) = Inr D \<and>
     (D = []) = (m = []) \<and>
     sort_keys (map (map_prod (\<lambda>k. k) json_val) D) = sort_keys (map (map_prod (\<lambda>k. k) json_val) m)"
    by (rule canonical_fields_text [OF wf conjunct1 [OF M] conjunct2 [OF M]]) (rule ok)
  then obtain D where D: "collect_fields (map (\<lambda>(k, v). (k, canonicalizeValue v)) ?M) = Inr D"
    "sort_keys (map (map_prod (\<lambda>k. k) json_val) D) = sort_keys (map (map_prod (\<lambda>k. k) json_val) m)"
    by auto
  then have "canonicalizeValue (read_back pf (GMap m)) = Inr (GMap D)"
    by (simp add: map_prod_def)
  with D(2) show ?case by simp
next
  case (GList xs)
  have ok: "\<exists>d. canonicalizeValue (read_back pf x) = Inr d \<and> json_val d = json_val x" if "x \<in> set xs" for x
    using GList that by (auto simp: list_all_iff)
  have "collect_list (map (\<lambda>x. canonicalizeValue (read_back pf x)) xs) =
      Inr (map projr (map (\<lambda>x. canonicalizeValue (read_back pf x)) xs))"
    using ok by (intro collect_list_ok) (auto simp: is_ok_iff)
  moreover have "map json_val (map projr (map (\<lambda>x. canonicalizeValue (read_back pf x)) xs)) = map json_val xs"
    using ok by auto force
  ultimately show ?case by (simp add: comp_def cong: map_cong)
next
  case (GStrs xs)
  have c: "collect_list (map (\<lambda>s. canonicalizeValue (GString (utf8_fix s))) xs) =
      Inr (map (\<lambda>s. GString (utf8_fix s)) xs)"
    by (simp add: collect_list_Inr)
  have "map (\<lambda>s. json_string (utf8_fix s)) xs = map json_string xs"
    using GStrs by (auto simp: list_all_iff utf8_fix_valid)
  with c show ?case by (simp add: comp_def cong: map_cong)
qed (auto simp: utf8_fix_valid float_text_def validateSafeJSONInteger_def)

end
