(* ===== verification/Ledger.thy ===== *)
theory Ledger
  imports LedgerValues GoCrypto
begin

text \<open>
  internal/ledger/ledger.go and internal/audit/ledger.go: events, the hash of an event, the chain
  check of a ledger file, and the append with its chain-state cache and its failures.

  A ledger file is its list of lines, each either an event as ParseEvent reads it back or text it
  rejects; \<open>stamp\<close> stands for the file state (size, device, inode, change time) the cache compares,
  which every write changes. The answers of the file system to one append are an \<open>io\<close> record.
\<close>

section \<open>Events\<close>

definition SchemaVersion :: int where "SchemaVersion = 1"

record event =
  ev_V :: int
  ev_TS :: string
  ev_Type :: string
  ev_Session :: string
  ev_Data :: "gdata option"  \<comment> \<open>None is the nil map\<close>

definition NewEvent :: "string \<Rightarrow> string \<Rightarrow> string \<Rightarrow> gdata option \<Rightarrow> event" where
  "NewEvent ts eventType session data =
     \<lparr>ev_V = SchemaVersion, ev_TS = ts, ev_Type = eventType, ev_Session = session, ev_Data = data\<rparr>"

definition canonicalizeEvent :: "event \<Rightarrow> bool \<Rightarrow> ledger_error + event" where
  "canonicalizeEvent e stripEventHash =
    (let v = (if ev_V e = 0 then SchemaVersion else ev_V e) in
     case ev_Data e of None \<Rightarrow> Inr (e\<lparr>ev_V := v\<rparr>)
     | Some data \<Rightarrow> bindr (canonicalizeDataMap data stripEventHash)
         (\<lambda>canonicalData. Inr (e\<lparr>ev_V := v, ev_Data := Some canonicalData\<rparr>)))"

text \<open>json.Marshal of an event: fields in declaration order, empty data omitted.\<close>

definition event_fields :: "event \<Rightarrow> (string \<times> string) list" where
  "event_fields e = [(''v'', int_str (ev_V e)), (''ts'', json_string (ev_TS e)),
      (''type'', json_string (ev_Type e)), (''session'', json_string (ev_Session e))] @
     (case ev_Data e of None \<Rightarrow> [] | Some d \<Rightarrow> if d = [] then [] else [(''data'', json_val (GMap d))])"

definition event_json :: "event \<Rightarrow> string" where
  "event_json e = json_object (event_fields e)"

definition marshalCanonicalEventJSON :: "event \<Rightarrow> bool \<Rightarrow> ledger_error + string" where
  "marshalCanonicalEventJSON e stripEventHash =
     bindr (canonicalizeEvent e stripEventHash) (\<lambda>c. Inr (event_json c))"

definition hashEvent :: "event \<Rightarrow> ledger_error + string" where
  "hashEvent e = bindr (marshalCanonicalEventJSON e True) (\<lambda>payload. Inr (sha256_hex payload))"

definition ComputeEventHash :: "event \<Rightarrow> ledger_error + string" where
  "ComputeEventHash e = hashEvent e"

definition hashCanonicalEvent :: "event \<Rightarrow> string" where
  "hashCanonicalEvent e =
     sha256_hex (event_json (e\<lparr>ev_Data := map_option (mdel ''event_hash'') (ev_Data e)\<rparr>))"

section \<open>Lines\<close>

datatype line = Line event | Malformed

text \<open>json.Unmarshal of the text of an event: absent data is nil, a missing version reads as 1.\<close>

definition read_back_data :: "(string \<Rightarrow> float64) \<Rightarrow> gdata \<Rightarrow> gdata" where
  "read_back_data pf d = merge_keys (sort_keys (map (map_prod (\<lambda>k. k) (read_back pf)) d))"

definition stored_event :: "(string \<Rightarrow> float64) \<Rightarrow> event \<Rightarrow> event" where
  "stored_event pf e = \<lparr>ev_V = (if ev_V e = 0 then 1 else ev_V e), ev_TS = utf8_fix (ev_TS e),
     ev_Type = utf8_fix (ev_Type e), ev_Session = utf8_fix (ev_Session e),
     ev_Data = (case ev_Data e of None \<Rightarrow> None
       | Some d \<Rightarrow> if d = [] then None else Some (read_back_data pf d))\<rparr>"

definition ParseEvent :: "line \<Rightarrow> event option" where
  "ParseEvent l = (case l of Malformed \<Rightarrow> None
     | Line e \<Rightarrow> Some (if ev_V e = 0 then e\<lparr>ev_V := 1\<rparr> else e))"

section \<open>Checking a chain\<close>

definition sequenceValueFromRaw :: "gval \<Rightarrow> ledger_error + int" where
  "sequenceValueFromRaw rawSequence = (case rawSequence of
     GFloat f \<Rightarrow> (case f of
         FFrac _ \<Rightarrow> Inl (Integrity ''invalid non-integer sequence'')
       | FBig _ \<Rightarrow> Inl (Integrity ''unsafe JSON integer sequence'')
       | FInt n \<Rightarrow> if n < minSafeJSONInteger \<or> n > maxSafeJSONInteger
           then Inl (Integrity ''unsafe JSON integer sequence'') else Inr n)
   | GNumber s \<Rightarrow> wrap_error (\<lambda>_. Integrity ''invalid sequence'') (parseSafeJSONInteger s)
   | GInt n \<Rightarrow> (case validateSafeJSONInteger n of Some _ \<Rightarrow> Inl (Integrity ''invalid sequence'')
       | None \<Rightarrow> Inr n)
   | _ \<Rightarrow> Inl (Integrity ''invalid sequence type''))"

definition data_of :: "event \<Rightarrow> gdata" where
  "data_of e = (case ev_Data e of None \<Rightarrow> [] | Some d \<Rightarrow> d)"

definition chainSequenceValue :: "event \<Rightarrow> string \<Rightarrow> ledger_error + int" where
  "chainSequenceValue e sequenceField = (case map_of (data_of e) sequenceField of
     Some raw \<Rightarrow> sequenceValueFromRaw raw
   | None \<Rightarrow> (case (if sequenceField = ''audit_sequence''
                      then map_of (data_of e) ''ledger_sequence'' else None) of
       Some raw \<Rightarrow> sequenceValueFromRaw raw
     | None \<Rightarrow> Inl (Integrity ''missing sequence'')))"

definition check_line :: "string \<Rightarrow> int \<Rightarrow> string \<Rightarrow> line \<Rightarrow> ledger_error + string" where
  "check_line sequenceField expectedSequence previousEventHash l = (case ParseEvent l of
     None \<Rightarrow> Inl (Integrity ''malformed ledger line'')
   | Some parsedEvent \<Rightarrow>
      bindr (chainSequenceValue parsedEvent sequenceField) (\<lambda>sequenceValue.
      if sequenceValue \<noteq> expectedSequence then Inl (Integrity ''unexpected sequence'')
      else (case map_of (data_of parsedEvent) ''previous_event_hash'' of
        Some (GString storedPreviousHash) \<Rightarrow>
          (if storedPreviousHash \<noteq> previousEventHash then Inl (Integrity ''previous_event_hash mismatch'')
           else (case map_of (data_of parsedEvent) ''event_hash'' of
             Some (GString storedEventHash) \<Rightarrow>
               (if storedEventHash = [] then Inl (Integrity ''missing event_hash'')
                else bindr (hashEvent parsedEvent) (\<lambda>expectedEventHash.
                  if storedEventHash \<noteq> expectedEventHash then Inl (Integrity ''event_hash mismatch'')
                  else Inr storedEventHash))
           | _ \<Rightarrow> Inl (Integrity ''missing event_hash'')))
      | _ \<Rightarrow> Inl (Integrity ''missing previous_event_hash''))))"

text \<open>The loop, from a base sequence and hash; the result is the last sequence and hash.\<close>

fun readVerifiedChainStateFromBase :: "line list \<Rightarrow> string \<Rightarrow> int \<Rightarrow> string \<Rightarrow>
    ledger_error + (int \<times> string)" where
  "readVerifiedChainStateFromBase [] sequenceField baseSequence baseEventHash =
     Inr (baseSequence, baseEventHash)"
| "readVerifiedChainStateFromBase (l # ls) sequenceField baseSequence baseEventHash =
     bindr (check_line sequenceField (baseSequence + 1) baseEventHash l)
       (readVerifiedChainStateFromBase ls sequenceField (baseSequence + 1))"

definition ReadVerifiedChainState :: "line list \<Rightarrow> string \<Rightarrow> ledger_error + (int \<times> string)" where
  "ReadVerifiedChainState ls sequenceField = readVerifiedChainStateFromBase ls sequenceField 0 []"

section \<open>Appending\<close>

record chain_state =
  lastSequence :: int
  lastHash :: string
  fileState :: nat

text \<open>The file and the cache entry of the append runtime for it.\<close>

record ledger_file =
  content :: "line list"
  stamp :: nat
  cached :: "chain_state option"

datatype encode_outcome = Encoded | NothingWritten | TornWrite

record io =
  open_error :: "string option"     \<comment> \<open>OpenFile, Flock: before the cache is looked at\<close>
  stat_error :: "string option"
  seek_error :: "string option"
  encode :: encode_outcome
  sync_error :: "string option"
  restat_fails :: bool

definition io_ok :: io where
  "io_ok = \<lparr>open_error = None, stat_error = None, seek_error = None, encode = Encoded,
     sync_error = None, restat_fails = False\<rparr>"

definition clearCache :: "ledger_file \<Rightarrow> ledger_file" where
  "clearCache f = f\<lparr>cached := None\<rparr>"

definition loadCachedChainState :: "ledger_file \<Rightarrow> ledger_file \<times> chain_state option" where
  "loadCachedChainState f = (case cached f of None \<Rightarrow> (f, None)
     | Some c \<Rightarrow> if fileState c \<noteq> stamp f then (clearCache f, None) else (f, Some c))"

definition write_line :: "line \<Rightarrow> ledger_file \<Rightarrow> ledger_file" where
  "write_line l f = f\<lparr>content := content f @ [l], stamp := Suc (stamp f)\<rparr>"

text \<open>The fields the append sets on the caller's data map, and the line it writes.\<close>

definition chained_event :: "event \<Rightarrow> int \<Rightarrow> string \<Rightarrow> event" where
  "chained_event e n h = e\<lparr>ev_Data := Some (mput ''previous_event_hash'' (GString h)
     (mput ''ledger_sequence'' (GInt (n + 1)) (data_of e)))\<rparr>"

definition put_hash :: "string \<Rightarrow> event \<Rightarrow> event" where
  "put_hash h e = e\<lparr>ev_Data := Some (mput ''event_hash'' (GString h) (data_of e))\<rparr>"

text \<open>The second half, once the last sequence \<open>n\<close> and hash \<open>h\<close> are known.\<close>

definition append_at :: "(string \<Rightarrow> float64) \<Rightarrow> io \<Rightarrow> ledger_file \<Rightarrow> event \<Rightarrow> int \<Rightarrow> string \<Rightarrow>
    ledger_file \<times> ledger_error option" where
  "append_at pf io f e n h =
    (case hashEvent (chained_event e n h) of Inl err \<Rightarrow> (clearCache f, Some err)
     | Inr eventHash \<Rightarrow>
       (case canonicalizeEvent (put_hash eventHash (chained_event e n h)) False of
          Inl err \<Rightarrow> (clearCache f, Some err)
        | Inr c \<Rightarrow>
           (case seek_error io of Some m \<Rightarrow> (clearCache f, Some (LedgerIO m))
            | None \<Rightarrow>
              (case encode io of
                 NothingWritten \<Rightarrow> (clearCache f, Some (LedgerIO ''write''))
               | TornWrite \<Rightarrow> (clearCache (write_line Malformed f), Some (LedgerIO ''write''))
               | Encoded \<Rightarrow>
                  (let f2 = write_line (Line (stored_event pf c)) f in
                   case sync_error io of Some m \<Rightarrow> (clearCache f2, Some (LedgerIO m))
                   | None \<Rightarrow> if restat_fails io then (clearCache f2, None)
                     else (f2\<lparr>cached := Some \<lparr>lastSequence = n + 1, lastHash = eventHash,
                              fileState = stamp f2\<rparr>\<rparr>, None))))))"

definition Append :: "(string \<Rightarrow> float64) \<Rightarrow> io \<Rightarrow> ledger_file \<Rightarrow> event \<Rightarrow>
    ledger_file \<times> ledger_error option" where
  "Append pf io f e0 = (let
     e = e0\<lparr>ev_V := (if ev_V e0 = 0 then SchemaVersion else ev_V e0), ev_Data := Some (data_of e0)\<rparr> in
   case open_error io of Some m \<Rightarrow> (f, Some (LedgerIO m))
   | None \<Rightarrow> (case stat_error io of Some m \<Rightarrow> (clearCache f, Some (LedgerIO m))
   | None \<Rightarrow>
     (case loadCachedChainState f of (f1, found) \<Rightarrow>
      (case (case found of Some c \<Rightarrow> Inr (lastSequence c, lastHash c)
             | None \<Rightarrow> ReadVerifiedChainState (content f1) ''ledger_sequence'') of
         Inl err \<Rightarrow> (clearCache f1, Some err)
       | Inr (n, h) \<Rightarrow> append_at pf io f1 e n h))))"

text \<open>internal/audit: a must-persist record fails when the append fails, a warn-only one does not.\<close>

datatype audit_class = ClassMustPersist | ClassWarnOnly

definition LedgerWriter_Record :: "'f \<times> ledger_error option \<Rightarrow> audit_class \<Rightarrow>
    'f \<times> ledger_error option \<times> ledger_error option" where
  "LedgerWriter_Record appended cls = (case appended of (f, err) \<Rightarrow>
     (case err of None \<Rightarrow> (f, None, None)
      | Some e \<Rightarrow> if cls = ClassWarnOnly then (f, None, Some e) else (f, Some e, None)))"

section \<open>What is read back hashes as what was written\<close>

definition plain_event :: "(string \<Rightarrow> float64) \<Rightarrow> event \<Rightarrow> bool" where
  "plain_event pf e = (valid_utf8 (ev_TS e) \<and> valid_utf8 (ev_Type e) \<and> valid_utf8 (ev_Session e) \<and>
     plain pf (GMap (data_of e)))"

lemma mdel_mput_same: "mdel k (mput k v m) = mdel k m"
proof (induction m)
  case (Cons p m)
  then show ?case by (cases p) (auto simp: mdel_def mput_def)
qed (simp add: mdel_def mput_def)

abbreviation canon_entries :: "gdata \<Rightarrow> (string \<times> (ledger_error + gval)) list" where
  "canon_entries m \<equiv> map (\<lambda>(k, v). (k, canonicalizeValue v)) m"

lemma canon_entries_alt: "canon_entries m = map (map_prod (\<lambda>k. k) canonicalizeValue) m"
  by (simp add: map_prod_def)

lemma canon_entries_mdel:
  "collect_fields (canon_entries m) = Inr C \<Longrightarrow> collect_fields (canon_entries (mdel k m)) = Inr (mdel k C)"
proof (induction m arbitrary: C)
  case (Cons p m)
  obtain k' v where p: "p = (k', v)" by (cases p)
  obtain c C' where "canonicalizeValue v = Inr c" "collect_fields (canon_entries m) = Inr C'"
    "C = (k', c) # C'"
    using Cons.prems by (auto simp: p result_iffs)
  with Cons.IH show ?case by (auto simp: p mdel_def)
qed (simp add: mdel_def)

lemma canon_entries_lookup:
  "collect_fields (canon_entries m) = Inr C \<Longrightarrow> map_of m k = Some v \<Longrightarrow>
     \<exists>c. canonicalizeValue v = Inr c \<and> map_of C k = Some c"
proof (induction m arbitrary: C)
  case (Cons p m)
  then show ?case by (cases p) (auto simp: result_iffs split: if_splits)
qed simp

lemma canon_data_plain:
  assumes "collect_fields (canon_entries m) = Inr C"
  shows "canonical (GMap C) \<and> (plain pf (GMap m) \<longrightarrow> plain pf (GMap C))"
proof -
  have "canonicalizeValue (GMap m) = Inr (GMap C)"
    using assms by (simp add: canon_entries_alt)
  then show ?thesis by (rule canonicalizeValue_canonical)
qed

lemma plain_data_mput:
  "plain pf (GMap m) \<Longrightarrow> valid_utf8 k \<Longrightarrow> plain pf v \<Longrightarrow> plain pf (GMap (mput k v m))"
  by (auto simp: set_mput)

lemma plain_data_mdel: "plain pf (GMap m) \<Longrightarrow> plain pf (GMap (mdel k m))"
  by (auto simp: set_mdel)

lemma canonical_data_mdel: "canonical (GMap m) \<Longrightarrow> canonical (GMap (mdel k m))"
  by (auto simp: set_mdel)

lemma read_back_data_props:
  assumes "plain pf (GMap m)"
  shows "map_wf (read_back_data pf m)"
    and "set (read_back_data pf m) = (\<lambda>(k, v). (k, read_back pf v)) ` set m"
proof -
  have "map_wf m" and u: "\<And>k v. (k, v) \<in> set m \<Longrightarrow> valid_utf8 k" using assms by auto
  then have "map_wf (read_back_data pf m) \<and>
      set (read_back_data pf m) = (\<lambda>(k, v). (k, read_back pf v)) ` set m"
    unfolding read_back_data_def by (intro read_back_map_set)
  then show "map_wf (read_back_data pf m)"
    and "set (read_back_data pf m) = (\<lambda>(k, v). (k, read_back pf v)) ` set m" by auto
qed

lemma read_back_data_lookup:
  assumes "plain pf (GMap m)"
  shows "map_of (read_back_data pf m) k = map_option (read_back pf) (map_of m k)"
proof (cases "map_of m k")
  case None
  then have "k \<notin> fst ` set (read_back_data pf m)"
    using read_back_data_props(2) [OF assms] by (force simp: map_of_eq_None_iff)
  then have "map_of (read_back_data pf m) k = None" by (simp add: map_of_eq_None_iff)
  with None show ?thesis by simp
next
  case (Some v)
  then have "(k, read_back pf v) \<in> set (read_back_data pf m)"
    using read_back_data_props(2) [OF assms] assms by (force dest: map_of_SomeD)
  with Some read_back_data_props(1) [OF assms] show ?thesis by (simp add: mget_in)
qed

lemma stored_text:
  assumes "canonical (GMap m)" "plain pf (GMap m)"
  shows "\<exists>D. collect_fields (canon_entries (mdel k (read_back_data pf m))) = Inr D \<and>
    (D = []) = (mdel k m = []) \<and> json_val (GMap D) = json_val (GMap (mdel k m))"
proof -
  let ?m = "mdel k m" and ?M = "mdel k (read_back_data pf m)"
  have m: "map_wf ?m" and M: "map_wf ?M"
    using assms read_back_data_props(1) [OF assms(2)] by auto
  have s: "set ?M = (\<lambda>(k, v). (k, read_back pf v)) ` set ?m"
    using read_back_data_props(2) [OF assms(2)] by (auto simp: set_mdel)
  have ok: "\<exists>d. canonicalizeValue (read_back pf v) = Inr d \<and> json_val d = json_val v"
    if "(k', v) \<in> set ?m" for k' v
    using assms that by (intro read_back_text) (auto simp: set_mdel)
  have "\<exists>D. collect_fields (canon_entries ?M) = Inr D \<and> (D = []) = (?m = []) \<and>
     sort_keys (map (map_prod (\<lambda>k. k) json_val) D) = sort_keys (map (map_prod (\<lambda>k. k) json_val) ?m)"
    by (rule canonical_fields_text [OF m M s]) (rule ok)
  then show ?thesis by auto
qed

lemma hashEvent_eq:
  "hashEvent e = bindr (case ev_Data e of None \<Rightarrow> Inr None
       | Some d \<Rightarrow> bindr (collect_fields (canon_entries (mdel ''event_hash'' d))) (\<lambda>c. Inr (Some c)))
     (\<lambda>d. Inr (sha256_hex (event_json
        (e\<lparr>ev_V := (if ev_V e = 0 then SchemaVersion else ev_V e), ev_Data := d\<rparr>))))"
  by (cases e)
     (auto simp: hashEvent_def marshalCanonicalEventJSON_def canonicalizeEvent_def Let_def
      canonicalizeDataMap_def bindr_def split: option.split sum.split)

lemma event_json_data:
  "event_json (e\<lparr>ev_Data := Some D\<rparr>) = event_json (e\<lparr>ev_Data := Some D'\<rparr>)"
  if "(D = []) = (D' = [])" "json_val (GMap D) = json_val (GMap D')"
  using that by (auto simp: event_json_def event_fields_def)

text \<open>
  The event written for a plain event hashes, after it is read back, to the hash stored in it, and
  the chain fields read back as they were set.
\<close>

lemma stored_event_hash:
  assumes h: "hashEvent e = Inr h" and c: "canonicalizeEvent (put_hash h e) False = Inr c"
    and p: "plain_event pf e" and d: "ev_Data e = Some d" and v: "ev_V e \<noteq> 0"
  shows "hashEvent (stored_event pf c) = Inr h"
    and "map_of (data_of (stored_event pf c)) ''event_hash'' = Some (GString h)"
    and "k \<noteq> ''event_hash'' \<Longrightarrow> map_of d k = Some x \<Longrightarrow>
      \<exists>y. canonicalizeValue x = Inr y \<and> map_of (data_of (stored_event pf c)) k = Some (read_back pf y)"
    and "ev_V (stored_event pf c) \<noteq> 0"
proof -
  have hx: "valid_utf8 h"
    using h by (auto simp: hashEvent_eq result_iffs)
  have pd: "plain pf (GMap d)" using p d by (simp add: plain_event_def data_of_def)
  let ?dh = "mput ''event_hash'' (GString h) d"
  obtain C where C: "collect_fields (canon_entries ?dh) = Inr C" "c = (put_hash h e)\<lparr>ev_Data := Some C\<rparr>"
    using c d v by (auto simp: canonicalizeEvent_def put_hash_def data_of_def canonicalizeDataMap_def
        result_iffs Let_def)
  have pdh: "plain pf (GMap ?dh)"
    by (rule plain_data_mput [OF pd]) (simp_all add: hx ascii_byte_def)
  from canon_data_plain [OF C(1)] pdh have cC: "canonical (GMap C)" "plain pf (GMap C)" by auto
  have eh: "map_of C ''event_hash'' = Some (GString h)"
    using canon_entries_lookup [OF C(1), of "''event_hash''"] by simp
  then have ne: "C \<noteq> []" by auto
  have sd: "ev_Data (stored_event pf c) = Some (read_back_data pf C)"
    using C ne by (simp add: stored_event_def)
  show v': "ev_V (stored_event pf c) \<noteq> 0" using C v by (simp add: stored_event_def put_hash_def)
  have D1: "collect_fields (canon_entries (mdel ''event_hash'' d)) = Inr (mdel ''event_hash'' C)"
    using canon_entries_mdel [OF C(1), of "''event_hash''"] by (simp only: mdel_mput_same)
  obtain D where D: "collect_fields (canon_entries (mdel ''event_hash'' (read_back_data pf C))) = Inr D"
    "(D = []) = (mdel ''event_hash'' C = [])" "json_val (GMap D) = json_val (GMap (mdel ''event_hash'' C))"
    using stored_text [OF cC, of "''event_hash''"] by blast
  have same: "stored_event pf c\<lparr>ev_Data := x\<rparr> = e\<lparr>ev_Data := x\<rparr>" for x
    using C v p by (cases e) (simp add: stored_event_def put_hash_def plain_event_def utf8_fix_valid)
  show "hashEvent (stored_event pf c) = Inr h"
    using h v v' d sd D1 D(1) event_json_data [OF D(2,3), of e] same
    by (simp add: hashEvent_eq)
  show "map_of (data_of (stored_event pf c)) ''event_hash'' = Some (GString h)"
    using sd read_back_data_lookup [OF cC(2)] eh hx by (simp add: data_of_def utf8_fix_valid)
  show "\<exists>y. canonicalizeValue x = Inr y \<and> map_of (data_of (stored_event pf c)) k = Some (read_back pf y)"
    if "k \<noteq> ''event_hash''" "map_of d k = Some x"
    using that canon_entries_lookup [OF C(1), of k x] sd read_back_data_lookup [OF cC(2), of k]
    by (auto simp: data_of_def)
qed

section \<open>Chains grow by appending\<close>

lemma read_append:
  "readVerifiedChainStateFromBase (ls @ ls') fld n h =
     bindr (readVerifiedChainStateFromBase ls fld n h)
       (\<lambda>(n', h'). readVerifiedChainStateFromBase ls' fld n' h')"
  by (induction ls arbitrary: n h) (auto simp: bindr_def split: sum.split)

lemma check_line_Inr:
  "check_line fld n h l = Inr h' \<longleftrightarrow> (\<exists>e. ParseEvent l = Some e \<and>
     chainSequenceValue e fld = Inr n \<and>
     map_of (data_of e) ''previous_event_hash'' = Some (GString h) \<and>
     map_of (data_of e) ''event_hash'' = Some (GString h') \<and> h' \<noteq> [] \<and> hashEvent e = Inr h')"
  by (auto simp: check_line_def result_iffs split: option.splits gval.splits if_splits)

lemma check_line_hash: "check_line fld n h l = Inr h' \<Longrightarrow> valid_utf8 h'"
  by (auto simp: check_line_Inr hashEvent_eq result_iffs)

lemma read_hash_valid:
  "readVerifiedChainStateFromBase ls fld n h = Inr (n', h') \<Longrightarrow> valid_utf8 h \<Longrightarrow> valid_utf8 h'"
  by (induction ls arbitrary: n h) (auto simp: result_iffs dest: check_line_hash)

lemma read_count:
  "readVerifiedChainStateFromBase ls fld n h = Inr (n', h') \<Longrightarrow> n' = n + int (length ls)"
proof (induction ls arbitrary: n h)
  case (Cons l ls)
  then obtain x where "readVerifiedChainStateFromBase ls fld (n + 1) x = Inr (n', h')"
    by (auto simp: result_iffs)
  from Cons.IH [OF this] show ?case by simp
qed simp

text \<open>The cache entry, when it is current, is what checking the file would give.\<close>

definition cache_ok :: "ledger_file \<Rightarrow> bool" where
  "cache_ok f = (case cached f of None \<Rightarrow> True
     | Some c \<Rightarrow> if fileState c = stamp f
         then ReadVerifiedChainState (content f) ''ledger_sequence'' = Inr (lastSequence c, lastHash c)
         else fileState c < stamp f)"

lemma stored_chained_line:
  assumes e: "ev_V e \<noteq> 0" "plain_event pf e"
    and hv: "valid_utf8 h" and hash: "hashEvent (chained_event e n h) = Inr eh"
    and c: "canonicalizeEvent (put_hash eh (chained_event e n h)) False = Inr c"
    and fld: "map_of (data_of (chained_event e n h)) fld = Some (GInt (n + 1))" "fld \<noteq> ''event_hash''"
  shows "check_line fld (n + 1) h (Line (stored_event pf c)) = Inr eh"
proof -
  let ?ce = "chained_event e n h"
  let ?d = "mput ''previous_event_hash'' (GString h) (mput ''ledger_sequence'' (GInt (n + 1)) (data_of e))"
  have d: "ev_Data ?ce = Some ?d" and v: "ev_V ?ce \<noteq> 0" using e by (simp_all add: chained_event_def)
  have "plain pf (GMap ?d)"
    using e(2) hv
    by (intro plain_data_mput) (simp_all add: plain_event_def ascii_byte_def del: plain_GMap)
  then have p: "plain_event pf ?ce"
    using e(2) d by (simp add: plain_event_def chained_event_def data_of_def)
  note s = stored_event_hash [OF hash c p d v]
  have "map_of ?d fld = Some (GInt (n + 1))" using fld d by (simp add: data_of_def)
  from s(3) [OF fld(2) this] have f: "map_of (data_of (stored_event pf c)) fld = Some (GFloat (FInt (n + 1)))"
    and n: "validateSafeJSONInteger (n + 1) = None"
    by (auto simp: result_iffs)
  have "map_of ?d ''previous_event_hash'' = Some (GString h)" by simp
  from s(3) [OF _ this] have ph: "map_of (data_of (stored_event pf c)) ''previous_event_hash'' = Some (GString h)"
    using hv by (auto simp: utf8_fix_valid)
  have "eh \<noteq> []" using hash by (auto simp: hashEvent_eq result_iffs)
  with s f ph n show ?thesis
    by (auto simp: check_line_Inr ParseEvent_def chainSequenceValue_def sequenceValueFromRaw_def
        validateSafeJSONInteger_def split: if_splits)
qed

lemma chain_head:
  assumes "cache_ok f" "loadCachedChainState f = (f1, found)"
  shows "content f1 = content f \<and> stamp f1 = stamp f \<and>
    (case found of Some c \<Rightarrow> Inr (lastSequence c, lastHash c)
       | None \<Rightarrow> ReadVerifiedChainState (content f1) ''ledger_sequence'') =
    ReadVerifiedChainState (content f) ''ledger_sequence''"
  using assms
  by (auto simp: loadCachedChainState_def cache_ok_def clearCache_def split: option.splits if_splits)

text \<open>The event an append chains, and what it may have done to the file, by its outcome.\<close>

definition versioned :: "event \<Rightarrow> event" where
  "versioned e = e\<lparr>ev_V := (if ev_V e = 0 then SchemaVersion else ev_V e), ev_Data := Some (data_of e)\<rparr>"

definition appended :: "(string \<Rightarrow> float64) \<Rightarrow> ledger_file \<Rightarrow> event \<Rightarrow> ledger_file \<Rightarrow> bool" where
  "appended pf f e f' = (\<exists>n h c eh. ReadVerifiedChainState (content f) ''ledger_sequence'' = Inr (n, h) \<and>
     hashEvent (chained_event (versioned e) n h) = Inr eh \<and>
     canonicalizeEvent (put_hash eh (chained_event (versioned e) n h)) False = Inr c \<and>
     content f' = content f @ [Line (stored_event pf c)] \<and>
     (cached f' = None \<or> cached f' = Some \<lparr>lastSequence = n + 1, lastHash = eh, fileState = stamp f'\<rparr>))"

lemma append_at_cases:
  assumes "append_at pf io f e n h = (f', err)"
  shows "(\<exists>c eh. hashEvent (chained_event e n h) = Inr eh \<and>
      canonicalizeEvent (put_hash eh (chained_event e n h)) False = Inr c \<and>
      content f' = content f @ [Line (stored_event pf c)] \<and>
      (cached f' = None \<and> (err = None \<or> sync_error io \<noteq> None) \<or>
       err = None \<and> cached f' = Some \<lparr>lastSequence = n + 1, lastHash = eh, fileState = stamp f'\<rparr>)) \<or>
    err \<noteq> None \<and> cached f' = None \<and>
      (content f' = content f \<or> encode io = TornWrite \<and> content f' = content f @ [Malformed])"
  using assms
  by (cases "hashEvent (chained_event e n h)"; cases "seek_error io"; cases "encode io"; cases "sync_error io")
     (auto simp: append_at_def clearCache_def write_line_def Let_def split: sum.splits if_splits)

lemma Append_cases:
  assumes "Append pf io f e = (f', err)" "cache_ok f"
  shows "err = None \<and> appended pf f e f' \<or>
    err \<noteq> None \<and> (content f' = content f \<and> (cached f' = None \<or> f' = f) \<or>
      encode io = TornWrite \<and> content f' = content f @ [Malformed] \<and> cached f' = None \<or>
      sync_error io \<noteq> None \<and> appended pf f e f' \<and> cached f' = None)"
proof (cases "open_error io \<noteq> None \<or> stat_error io \<noteq> None")
  case True
  with assms(1) show ?thesis by (auto simp: Append_def clearCache_def split: option.splits)
next
  case False
  obtain f1 found where l: "loadCachedChainState f = (f1, found)" by (cases "loadCachedChainState f")
  have h: "content f1 = content f" "(case found of Some c \<Rightarrow> Inr (lastSequence c, lastHash c)
       | None \<Rightarrow> ReadVerifiedChainState (content f1) ''ledger_sequence'') =
       ReadVerifiedChainState (content f) ''ledger_sequence''"
    using chain_head [OF assms(2) l] by auto
  show ?thesis
  proof (cases "ReadVerifiedChainState (content f) ''ledger_sequence''")
    case (Inl x)
    with False assms(1) h l show ?thesis by (auto simp: Append_def clearCache_def)
  next
    case (Inr nh)
    obtain n hh where nh: "nh = (n, hh)" by (cases nh)
    have "append_at pf io f1 (versioned e) n hh = (f', err)"
      using False assms(1) h l Inr nh by (auto simp: Append_def versioned_def)
    from append_at_cases [OF this] show ?thesis
      unfolding appended_def using Inr nh h(1) by auto
  qed
qed

lemma chained_ledger_sequence:
  "map_of (data_of (chained_event e n h)) ''ledger_sequence'' = Some (GInt (n + 1))"
  by (simp add: chained_event_def data_of_def)

lemma versioned_props [simp]: "ev_V (versioned e) \<noteq> 0" "plain_event pf (versioned e) = plain_event pf e"
  "data_of (versioned e) = data_of e"
  by (simp_all add: versioned_def SchemaVersion_def plain_event_def data_of_def)

lemma appended_verifies:
  assumes a: "appended pf f e f'" and p: "plain_event pf e"
  shows "\<exists>n h eh. ReadVerifiedChainState (content f) ''ledger_sequence'' = Inr (n, h) \<and>
    ReadVerifiedChainState (content f') ''ledger_sequence'' = Inr (n + 1, eh) \<and> cache_ok f' \<and>
    hashEvent (chained_event (versioned e) n h) = Inr eh"
proof -
  obtain n h c eh where r: "ReadVerifiedChainState (content f) ''ledger_sequence'' = Inr (n, h)"
    and hash: "hashEvent (chained_event (versioned e) n h) = Inr eh"
    and c: "canonicalizeEvent (put_hash eh (chained_event (versioned e) n h)) False = Inr c"
    and f': "content f' = content f @ [Line (stored_event pf c)]"
    and k: "cached f' = None \<or> cached f' = Some \<lparr>lastSequence = n + 1, lastHash = eh, fileState = stamp f'\<rparr>"
    using a by (auto simp: appended_def)
  have "valid_utf8 h"
    using r unfolding ReadVerifiedChainState_def by (rule read_hash_valid) simp
  then have "check_line ''ledger_sequence'' (n + 1) h (Line (stored_event pf c)) = Inr eh"
    using p hash c by (intro stored_chained_line [OF _ _ _ hash c chained_ledger_sequence]) auto
  then have r': "ReadVerifiedChainState (content f') ''ledger_sequence'' = Inr (n + 1, eh)"
    using r f' by (simp add: ReadVerifiedChainState_def read_append)
  with k have "cache_ok f'" by (auto simp: cache_ok_def)
  with r r' hash show ?thesis by blast
qed

lemma Append_cache_ok:
  assumes "Append pf io f e = (f', err)" "cache_ok f" "plain_event pf e"
  shows "cache_ok f'"
proof -
  have "cache_ok f'" if "cached f' = None" using that by (simp add: cache_ok_def)
  then show ?thesis
    using Append_cases [OF assms(1,2)] appended_verifies [OF _ assms(3)] assms(2) by metis
qed

section \<open>The interface of an append function\<close>

text \<open>
  What an append of \<open>e\<close> does to the lines of a ledger: one line more, chained to the verified end.
\<close>

definition extends_chain :: "(string \<Rightarrow> float64) \<Rightarrow> line list \<Rightarrow> event \<Rightarrow> line list \<Rightarrow> bool" where
  "extends_chain pf ls e ls' = (\<exists>n h c eh. ReadVerifiedChainState ls ''ledger_sequence'' = Inr (n, h) \<and>
     hashEvent (chained_event (versioned e) n h) = Inr eh \<and>
     canonicalizeEvent (put_hash eh (chained_event (versioned e) n h)) False = Inr c \<and>
     ls' = ls @ [Line (stored_event pf c)])"

lemma appended_extends: "appended pf f e f' \<Longrightarrow> extends_chain pf (content f) e (content f')"
  by (auto simp: appended_def extends_chain_def)

lemma mput_same: "map_of m k = Some v \<Longrightarrow> mput k v m = m"
  by (induction m) (auto simp: mput_def split: if_splits)

lemma plain_chained:
  assumes "plain_event pf e" "valid_utf8 h"
  shows "plain_event pf (chained_event (versioned e) n h)"
proof -
  have "plain pf (GMap (mput ''previous_event_hash'' (GString h)
      (mput ''ledger_sequence'' (GInt (n + 1)) (data_of e))))"
    using assms
    by (intro plain_data_mput) (simp_all add: plain_event_def ascii_byte_def del: plain_GMap)
  with assms(1) show ?thesis
    by (simp add: plain_event_def chained_event_def data_of_def versioned_def)
qed

text \<open>What is stored for the appended event, seen through the check and the field lookups.\<close>

lemma extends_chain_verifies:
  assumes a: "extends_chain pf ls e ls'" and p: "plain_event pf e"
  shows "\<exists>n h eh sev. ReadVerifiedChainState ls ''ledger_sequence'' = Inr (n, h) \<and>
    hashEvent (chained_event (versioned e) n h) = Inr eh \<and> ls' = ls @ [Line sev] \<and>
    ParseEvent (Line sev) = Some sev \<and> ev_Type sev = ev_Type e \<and> ev_TS sev = ev_TS e \<and>
    map_of (data_of sev) ''event_hash'' = Some (GString eh) \<and>
    (\<forall>k x. k \<noteq> ''event_hash'' \<longrightarrow> map_of (data_of (chained_event (versioned e) n h)) k = Some x \<longrightarrow>
       (\<exists>y. canonicalizeValue x = Inr y \<and> map_of (data_of sev) k = Some (read_back pf y))) \<and>
    check_line ''ledger_sequence'' (n + 1) h (Line sev) = Inr eh \<and>
    (map_of (data_of e) ''audit_sequence'' = Some (GInt (n + 1)) \<longrightarrow>
       check_line ''audit_sequence'' (n + 1) h (Line sev) = Inr eh)"
proof -
  obtain n h c eh where r: "ReadVerifiedChainState ls ''ledger_sequence'' = Inr (n, h)"
    and hash: "hashEvent (chained_event (versioned e) n h) = Inr eh"
    and c: "canonicalizeEvent (put_hash eh (chained_event (versioned e) n h)) False = Inr c"
    and l: "ls' = ls @ [Line (stored_event pf c)]"
    using a by (auto simp: extends_chain_def)
  let ?ce = "chained_event (versioned e) n h"
  have hv: "valid_utf8 h"
    using r unfolding ReadVerifiedChainState_def by (rule read_hash_valid) simp
  have d: "ev_Data ?ce = Some (data_of ?ce)" and v: "ev_V ?ce \<noteq> 0"
    by (simp_all add: chained_event_def data_of_def versioned_def SchemaVersion_def)
  note s = stored_event_hash [OF hash c plain_chained [OF p hv] d v]
  have t: "ev_Type (stored_event pf c) = ev_Type e" "ev_TS (stored_event pf c) = ev_TS e"
    using c p by (auto simp: canonicalizeEvent_def put_hash_def chained_event_def versioned_def
        result_iffs stored_event_def plain_event_def utf8_fix_valid Let_def)
  have "check_line ''ledger_sequence'' (n + 1) h (Line (stored_event pf c)) = Inr eh"
    using p hv hash c by (intro stored_chained_line [OF _ _ _ hash c chained_ledger_sequence]) auto
  moreover have "check_line ''audit_sequence'' (n + 1) h (Line (stored_event pf c)) = Inr eh"
    if "map_of (data_of e) ''audit_sequence'' = Some (GInt (n + 1))"
  proof (rule stored_chained_line [OF _ _ hv hash c])
    show "map_of (data_of ?ce) ''audit_sequence'' = Some (GInt (n + 1))"
      using that by (simp add: chained_event_def data_of_def versioned_def)
  qed (use p in simp_all)
  ultimately show ?thesis
    using r hash l t s(2,3,4) by (auto simp: ParseEvent_def)
qed

text \<open>
  The contract every client of an append function relies on: on a ledger that is \<open>ready\<close>, a
  successful append extends the chain and a failed one, unless the write was torn or already on
  disk (not \<open>clean\<close>), leaves the lines alone.
\<close>

locale append_log =
  fixes pf :: "string \<Rightarrow> float64"
    and app :: "'io \<Rightarrow> 'f \<Rightarrow> event \<Rightarrow> 'f \<times> ledger_error option"
    and lines :: "'f \<Rightarrow> line list"
    and ready :: "'f \<Rightarrow> bool"
    and clean :: "'io \<Rightarrow> bool"
  assumes app_ok: "app io f e = (f', None) \<Longrightarrow> ready f \<Longrightarrow> plain_event pf e \<Longrightarrow>
      ready f' \<and> extends_chain pf (lines f) e (lines f')"
    and app_failed: "app io f e = (f', Some err) \<Longrightarrow> ready f \<Longrightarrow> clean io \<Longrightarrow>
      ready f' \<and> lines f' = lines f"
begin

fun append_all :: "'f \<Rightarrow> ('io \<times> event) list \<Rightarrow> 'f \<times> nat" where
  "append_all f [] = (f, 0)"
| "append_all f ((io, e) # es) = (let r = app io f e; r' = append_all (fst r) es in
     (fst r', if snd r = None then Suc (snd r') else snd r'))"

lemma app_verified:
  assumes "ready f" "ReadVerifiedChainState (lines f) ''ledger_sequence'' = Inr (n, h)"
    "app io f e = (f', None)" "plain_event pf e"
  shows "ready f' \<and> (\<exists>eh. ReadVerifiedChainState (lines f') ''ledger_sequence'' = Inr (n + 1, eh))"
proof -
  from app_ok [OF assms(3,1,4)] have r: "ready f'" and x: "extends_chain pf (lines f) e (lines f')" by auto
  from extends_chain_verifies [OF x assms(4)] assms(2) obtain eh sev where
    "lines f' = lines f @ [Line sev]" "check_line ''ledger_sequence'' (n + 1) h (Line sev) = Inr eh"
    by auto
  with assms(2) r show ?thesis by (simp add: ReadVerifiedChainState_def read_append)
qed

text \<open>Any history of appends without a torn or half-done write keeps the chain verified.\<close>

lemma append_all_verified:
  "ready f \<Longrightarrow> ReadVerifiedChainState (lines f) ''ledger_sequence'' = Inr (n, h) \<Longrightarrow>
     \<forall>(io, e)\<in>set es. clean io \<and> plain_event pf e \<Longrightarrow>
     ready (fst (append_all f es)) \<and>
     (\<exists>h'. ReadVerifiedChainState (lines (fst (append_all f es))) ''ledger_sequence'' =
        Inr (n + int (snd (append_all f es)), h'))"
proof (induction es arbitrary: f n h)
  case (Cons p es)
  obtain io e where p: "p = (io, e)" by (cases p)
  obtain f1 err where a: "app io f e = (f1, err)" by (cases "app io f e")
  have pe: "plain_event pf e" and cl: "clean io" and rest: "\<forall>(io, e)\<in>set es. clean io \<and> plain_event pf e"
    using Cons.prems(3) by (auto simp: p)
  show ?case
  proof (cases err)
    case None
    from app_verified [OF Cons.prems(1,2) a [unfolded None] pe] obtain eh where
      "ready f1" "ReadVerifiedChainState (lines f1) ''ledger_sequence'' = Inr (n + 1, eh)" by blast
    from Cons.IH [OF this rest] show ?thesis by (auto simp: p a None Let_def algebra_simps)
  next
    case (Some x)
    from app_failed [OF a [unfolded Some] Cons.prems(1) cl]
    have "ready f1" "lines f1 = lines f" by auto
    with Cons.IH [of f1 n h, OF _ _ rest] Cons.prems(2) show ?thesis by (simp add: p a Some Let_def)
  qed
qed simp

end

definition clean_io :: "io \<Rightarrow> bool" where
  "clean_io x = (encode x \<noteq> TornWrite \<and> sync_error x = None)"

lemma cache_ok_None [simp]: "cached f = None \<Longrightarrow> cache_ok f"
  by (simp add: cache_ok_def)

interpretation flat: append_log pf "Append pf" content cache_ok clean_io
proof
  fix x f e f' assume a: "Append pf x f e = (f', None)" "cache_ok f" "plain_event pf e"
  from Append_cases [OF a(1,2)] Append_cache_ok [OF a] appended_extends [of pf f e f']
  show "cache_ok f' \<and> extends_chain pf (content f) e (content f')" by auto
next
  fix x f e f' err assume a: "Append pf x f e = (f', Some err)" "cache_ok f" "clean_io x"
  from Append_cases [OF a(1,2)] a(2,3) show "cache_ok f' \<and> content f' = content f"
    by (auto simp: clean_io_def)
qed

section \<open>Properties\<close>


definition empty_file :: ledger_file where
  "empty_file = \<lparr>content = [], stamp = 0, cached = None\<rparr>"

lemma Append_fresh: "Append pf io_ok empty_file e = append_at pf io_ok empty_file (versioned e) 0 []"
  by (simp add: Append_def loadCachedChainState_def ReadVerifiedChainState_def Let_def io_ok_def
      empty_file_def versioned_def)

definition boot_event :: event where
  "boot_event = \<lparr>ev_V = 0, ev_TS = ''t0'', ev_Type = ''boot'', ev_Session = [], ev_Data = None\<rparr>"



definition two_events :: "line list" where
  "two_events = content (fst (Append (\<lambda>s. FFrac s) io_ok
     (fst (Append (\<lambda>s. FFrac s) io_ok empty_file boot_event)) boot_event))"

lemmas append_eval = Append_def append_at_def io_ok_def empty_file_def boot_event_def data_of_def
  loadCachedChainState_def ReadVerifiedChainState_def chained_event_def hashEvent_eq put_hash_def
  mput_def mdel_def canonicalizeEvent_def canonicalizeDataMap_def validateSafeJSONInteger_def
  minSafeJSONInteger_def maxSafeJSONInteger_def SchemaVersion_def write_line_def Let_def

lemma two_events_verified: "\<exists>x y r. two_events = [x, y] \<and> ReadVerifiedChainState two_events ''ledger_sequence'' = Inr r"
proof -
  let ?pf = "\<lambda>s. FFrac s"
  let ?f1 = "fst (Append ?pf io_ok empty_file boot_event)"
  let ?f2 = "fst (Append ?pf io_ok ?f1 boot_event)"
  have p: "plain_event ?pf boot_event"
    by (simp add: plain_event_def boot_event_def ascii_byte_def data_of_def)
  have 0: "cache_ok empty_file" by (simp add: cache_ok_def empty_file_def)
  have n1: "snd (Append ?pf io_ok empty_file boot_event) = None" by (simp add: append_eval)
  have n2: "snd (Append ?pf io_ok ?f1 boot_event) = None" by (simp add: append_eval)
  have a1: "appended ?pf empty_file boot_event ?f1"
    using Append_cases [OF _ 0, of ?pf io_ok boot_event ?f1 None] n1 by (simp add: prod_eq_iff)
  have 1: "cache_ok ?f1" using appended_verifies [OF a1 p] by blast
  have a2: "appended ?pf ?f1 boot_event ?f2"
    using Append_cases [OF _ 1, of ?pf io_ok boot_event ?f2 None] n2 by (simp add: prod_eq_iff)
  show ?thesis
    using appended_verifies [OF a2 p] a1 a2
    by (auto simp: two_events_def appended_def empty_file_def)
qed


definition bad_event :: event where
  "bad_event = \<lparr>ev_V = 1, ev_TS = [], ev_Type = [], ev_Session = [],
     ev_Data = Some [(''p'', GString [CHR 0xFF])]\<rparr>"

definition bad_written :: string where
  "bad_written = event_json (bad_event\<lparr>ev_Data := Some [(''p'', GString [CHR 0xFF]),
     (''ledger_sequence'', GInt 1), (''previous_event_hash'', GString [])]\<rparr>)"

definition bad_reread :: string where
  "bad_reread = event_json (bad_event\<lparr>ev_Data := Some [(''p'', GString replacement),
     (''ledger_sequence'', GInt 1), (''previous_event_hash'', GString [])]\<rparr>)"


end
