(* ===== verification/Manifest.thy ===== *)
theory Manifest
  imports Ledger GoTime GoPaths
begin

text \<open>
  internal/ledger/segmented.go, first half: the rotation settings, the manifest of sealed segments
  with its own hash chain, and the check of the manifest against the segment directory.

  A manifest is its list of lines as json.Unmarshal reads them; the segment directory maps names to
  what os.Stat sees there. An I/O failure while the manifest or the directory is read (other than a
  missing file) is the answer \<open>io_fail\<close>, reported before any check.
\<close>

section \<open>Settings\<close>

record rotation_settings =
  MaxEventBytes :: int
  RotateAtBytes :: int
  SegmentDir :: string
  ManifestPath :: string
  VerifyClosedSegmentsOnStartup :: bool

definition normalizeLedgerPath :: "string result \<Rightarrow> string \<Rightarrow> string" where
  "normalizeLedgerPath wd path = (case filepath_abs wd path of
     Inl _ \<Rightarrow> filepath_clean path | Inr absolutePath \<Rightarrow> filepath_clean absolutePath)"

definition validateRotationSettings :: "string result \<Rightarrow> rotation_settings \<Rightarrow> ledger_error option" where
  "validateRotationSettings wd rs =
    (if MaxEventBytes rs < 0 then Some (LedgerIO ''max_event_bytes must not be negative'')
     else if RotateAtBytes rs < 0 then Some (LedgerIO ''rotate_at_bytes must not be negative'')
     else if RotateAtBytes rs = 0 then None
     else if blank (SegmentDir rs) then Some (LedgerIO ''segment_dir is required when rotate_at_bytes is enabled'')
     else if blank (ManifestPath rs) then Some (LedgerIO ''manifest_path is required when rotate_at_bytes is enabled'')
     else if normalizeLedgerPath wd (ManifestPath rs) = normalizeLedgerPath wd (SegmentDir rs)
     then Some (LedgerIO ''manifest_path must not point to the segment directory'')
     else None)"

section \<open>Manifest entries\<close>

definition segmentManifestVersion :: int where "segmentManifestVersion = 1"
definition segmentFilePrefix :: string where "segmentFilePrefix = ''segment-''"
definition segmentFileSuffix :: string where "segmentFileSuffix = ''.jsonl''"

record manifest_entry =
  me_V :: int
  ClosedAt :: string
  SegmentFilename :: string
  FirstSequence :: int
  LastSequence :: int
  EventCount :: int
  FileSizeBytes :: int
  FileSHA256 :: string
  LastEventHash :: string
  ManifestSequence :: int
  PreviousManifestHash :: string
  ManifestHash :: string

definition manifest_json :: "manifest_entry \<Rightarrow> string" where
  "manifest_json m = json_object
    [(''v'', int_str (me_V m)), (''closed_at'', json_string (ClosedAt m)),
     (''segment_filename'', json_string (SegmentFilename m)),
     (''first_sequence'', int_str (FirstSequence m)), (''last_sequence'', int_str (LastSequence m)),
     (''event_count'', int_str (EventCount m)), (''file_size_bytes'', int_str (FileSizeBytes m)),
     (''file_sha256'', json_string (FileSHA256 m)), (''last_event_hash'', json_string (LastEventHash m)),
     (''manifest_sequence'', int_str (ManifestSequence m)),
     (''previous_manifest_hash'', json_string (PreviousManifestHash m)),
     (''manifest_hash'', json_string (ManifestHash m))]"

definition hashManifestEntry :: "manifest_entry \<Rightarrow> string" where
  "hashManifestEntry m = sha256_hex (manifest_json (m\<lparr>ManifestHash := []\<rparr>))"

text \<open>The verb \<open>%020d\<close>.\<close>

definition pad20 :: "int \<Rightarrow> string" where
  "pad20 n = (if n < 0 then CHR ''-'' # pad_left 19 (- n) else pad_left 20 n)"

definition segmentFilename :: "int \<Rightarrow> int \<Rightarrow> string" where
  "segmentFilename firstSeq lastSeq =
     segmentFilePrefix @ pad20 firstSeq @ ''-'' @ pad20 lastSeq @ segmentFileSuffix"

definition segment_name :: "string \<Rightarrow> bool" where
  "segment_name s = (has_prefix s segmentFilePrefix \<and> has_suffix s segmentFileSuffix)"

text \<open>The entry is passed by value: the version it defaults to is the one its hash covers.\<close>

definition validateManifestEntry :: "manifest_entry \<Rightarrow> int \<Rightarrow> int \<Rightarrow> string \<Rightarrow> ledger_error option" where
  "validateManifestEntry entry0 expectedManifestSequence expectedFirstSequence expectedPreviousManifestHash =
    (let entry = (if me_V entry0 = 0 then entry0\<lparr>me_V := segmentManifestVersion\<rparr> else entry0) in
     if me_V entry \<noteq> segmentManifestVersion then Some (Integrity ''unsupported segment manifest version'')
     else if ManifestSequence entry \<noteq> expectedManifestSequence then Some (Integrity ''unexpected manifest_sequence'')
     else if PreviousManifestHash entry \<noteq> expectedPreviousManifestHash
     then Some (Integrity ''previous_manifest_hash mismatch'')
     else if blank (ClosedAt entry) then Some (Integrity ''missing closed_at'')
     else if filepath_base (SegmentFilename entry) \<noteq> SegmentFilename entry
     then Some (Integrity ''invalid segment filename'')
     else if \<not> segment_name (SegmentFilename entry) then Some (Integrity ''invalid segment filename'')
     else if FirstSequence entry \<noteq> expectedFirstSequence then Some (Integrity ''unexpected first_sequence'')
     else if LastSequence entry < FirstSequence entry then Some (Integrity ''invalid segment sequence range'')
     else if EventCount entry \<noteq> LastSequence entry - FirstSequence entry + 1
     then Some (Integrity ''unexpected event_count'')
     else if FileSizeBytes entry \<le> 0 then Some (Integrity ''invalid file_size_bytes'')
     else if blank (FileSHA256 entry) then Some (Integrity ''missing file_sha256'')
     else if blank (LastEventHash entry) then Some (Integrity ''missing last_event_hash'')
     else if ManifestHash entry \<noteq> hashManifestEntry entry then Some (Integrity ''manifest_hash mismatch'')
     else None)"

section \<open>The segment directory\<close>

record segment =
  seg_lines :: "line list"
  seg_bytes :: string

datatype dir_entry = SubDir | Segment segment | Irregular

type_synonym segment_dir = "(string, dir_entry) gomap"

definition unreferenced :: "(string, manifest_entry) gomap \<Rightarrow> string \<times> dir_entry \<Rightarrow> bool" where
  "unreferenced refs p = (snd p \<noteq> SubDir \<and> segment_name (fst p) \<and> \<not> mhas refs (fst p))"

definition bad_reference :: "segment_dir \<Rightarrow> bool \<Rightarrow> string \<times> manifest_entry \<Rightarrow> ledger_error option" where
  "bad_reference dir verifyClosedSegments p = (case map_of dir (fst p) of
     None \<Rightarrow> Some (Integrity ''referenced sealed ledger segment is missing'')
   | Some (Segment s) \<Rightarrow>
       if int (length (seg_bytes s)) \<noteq> FileSizeBytes (snd p)
       then Some (Integrity ''sealed ledger segment size mismatch'')
       else if verifyClosedSegments \<and> sha256_hex (seg_bytes s) \<noteq> FileSHA256 (snd p)
       then Some (Integrity ''sealed ledger segment hash mismatch'') else None
   | Some _ \<Rightarrow> Some (Integrity ''sealed ledger segment is not a regular file''))"

text \<open>The first error of the loop over the references; None when there is none.\<close>

definition verifyManifestReferences :: "segment_dir option \<Rightarrow> (string, manifest_entry) gomap \<Rightarrow> bool \<Rightarrow>
    ledger_error option" where
  "verifyManifestReferences segmentDir refs verifyClosedSegments = (case segmentDir of
     None \<Rightarrow> if refs = [] then None
             else Some (Integrity ''segment dir is missing for sealed ledger segments'')
   | Some dir \<Rightarrow> if list_ex (unreferenced refs) dir
       then Some (Integrity ''unreferenced sealed ledger segment'')
       else first_error (map (bad_reference dir verifyClosedSegments) refs))"

section \<open>Reading the manifest\<close>

datatype manifest_line = Entry manifest_entry | MalformedEntry

record manifest_state =
  lastManifestSequence :: int
  lastManifestHash :: string
  ms_lastSequence :: int
  ms_lastEventHash :: string
  entries :: "manifest_entry list"

definition no_manifest :: manifest_state where
  "no_manifest = \<lparr>lastManifestSequence = 0, lastManifestHash = [], ms_lastSequence = 0,
     ms_lastEventHash = [], entries = []\<rparr>"

text \<open>
  The expected manifest sequence, first sequence and previous hash of the loop are those that follow
  from the state: one more than its last sequences, and its last hash.
\<close>

fun manifest_loop :: "manifest_line list \<Rightarrow> manifest_state \<Rightarrow> (string, manifest_entry) gomap \<Rightarrow>
    ledger_error + (manifest_state \<times> (string, manifest_entry) gomap)" where
  "manifest_loop [] st refs = Inr (st, refs)"
| "manifest_loop (MalformedEntry # ls) st refs = Inl (Integrity ''malformed ledger segment manifest line'')"
| "manifest_loop (Entry entry # ls) st refs =
    (case validateManifestEntry entry (lastManifestSequence st + 1) (ms_lastSequence st + 1)
        (lastManifestHash st) of
       Some e \<Rightarrow> Inl e
     | None \<Rightarrow> if mhas refs (SegmentFilename entry) then Inl (Integrity ''duplicate segment manifest filename'')
         else manifest_loop ls \<lparr>lastManifestSequence = ManifestSequence entry,
             lastManifestHash = ManifestHash entry, ms_lastSequence = LastSequence entry,
             ms_lastEventHash = LastEventHash entry, entries = entries st @ [entry]\<rparr>
           (mput (SegmentFilename entry) entry refs))"

definition readVerifiedManifestState :: "string option \<Rightarrow> manifest_line list option \<Rightarrow>
    segment_dir option \<Rightarrow> bool \<Rightarrow> ledger_error + manifest_state" where
  "readVerifiedManifestState io_fail manifest segmentDir verifyClosedSegments =
    (case io_fail of Some m \<Rightarrow> Inl (LedgerIO m)
     | None \<Rightarrow> (case manifest of
         None \<Rightarrow> bindr (check (verifyManifestReferences segmentDir [] verifyClosedSegments))
                   (\<lambda>_. Inr no_manifest)
       | Some ls \<Rightarrow> bindr (manifest_loop ls no_manifest []) (\<lambda>(st, refs).
            bindr (check (verifyManifestReferences segmentDir refs verifyClosedSegments))
              (\<lambda>_. Inr st))))"

section \<open>Extending a manifest\<close>

definition manifest_push :: "manifest_entry \<Rightarrow> manifest_state \<Rightarrow> manifest_state" where
  "manifest_push e st = \<lparr>lastManifestSequence = ManifestSequence e, lastManifestHash = ManifestHash e,
     ms_lastSequence = LastSequence e, ms_lastEventHash = LastEventHash e, entries = entries st @ [e]\<rparr>"

lemma manifest_loop_Entry:
  "manifest_loop (Entry e # ls) st refs =
    (case validateManifestEntry e (lastManifestSequence st + 1) (ms_lastSequence st + 1) (lastManifestHash st) of
       Some x \<Rightarrow> Inl x
     | None \<Rightarrow> if mhas refs (SegmentFilename e) then Inl (Integrity ''duplicate segment manifest filename'')
         else manifest_loop ls (manifest_push e st) (mput (SegmentFilename e) e refs))"
  by (simp only: manifest_loop.simps manifest_push_def)

declare manifest_loop.simps(3) [simp del]

lemma manifest_loop_append:
  "manifest_loop (ls @ ls') st refs = bindr (manifest_loop ls st refs) (\<lambda>(st', refs'). manifest_loop ls' st' refs')"
  by (induction ls st refs rule: manifest_loop.induct)
     (auto simp: manifest_loop_Entry manifest_push_def split: option.splits)

text \<open>The references are the entries by name.\<close>

definition refs_of :: "manifest_entry list \<Rightarrow> (string, manifest_entry) gomap" where
  "refs_of es = map (\<lambda>e. (SegmentFilename e, e)) es"

lemma mput_new: "\<not> mhas m k \<Longrightarrow> mput k v m = m @ [(k, v)]"
  by (induction m) (auto simp: mput_def mhas_def split: if_splits)

lemma manifest_loop_refs:
  "manifest_loop ls st refs = Inr (st', refs') \<Longrightarrow> refs = refs_of (entries st) \<Longrightarrow> refs' = refs_of (entries st')"
proof (induction ls st refs rule: manifest_loop.induct)
  case (3 e ls st refs)
  then show ?case
    by (auto simp: manifest_loop_Entry manifest_push_def mput_new refs_of_def
        split: option.splits if_splits)
qed simp_all

lemma refs_of_simps [simp]: "refs_of [] = []" "refs_of (es @ es') = refs_of es @ refs_of es'"
  "refs_of [e] = [(SegmentFilename e, e)]" "fst ` set (refs_of es) = SegmentFilename ` set es"
  by (simp_all add: refs_of_def image_image)

lemma in_refs_of: "p \<in> set (refs_of es) \<longleftrightarrow> (\<exists>e\<in>set es. p = (SegmentFilename e, e))"
  by (auto simp: refs_of_def)

lemma no_manifest_simps [simp]: "entries no_manifest = []" "lastManifestSequence no_manifest = 0"
  "lastManifestHash no_manifest = []" "ms_lastSequence no_manifest = 0" "ms_lastEventHash no_manifest = []"
  by (simp_all add: no_manifest_def)

text \<open>What a successful read of a manifest means, and the read after one more entry.\<close>

definition manifest_lines :: "manifest_line list option \<Rightarrow> manifest_line list" where
  "manifest_lines m = (case m of None \<Rightarrow> [] | Some ls \<Rightarrow> ls)"

lemma readVerifiedManifestState_Inr:
  "readVerifiedManifestState io_fail m dir b = Inr st \<longleftrightarrow> io_fail = None \<and>
     manifest_loop (manifest_lines m) no_manifest [] = Inr (st, refs_of (entries st)) \<and>
     verifyManifestReferences dir (refs_of (entries st)) b = None"
proof -
  have "refs = refs_of (entries st)" if "manifest_loop ls no_manifest [] = Inr (st, refs)" for ls refs
    by (rule manifest_loop_refs [OF that]) simp
  then show ?thesis
    by (auto simp: readVerifiedManifestState_def manifest_lines_def result_iffs no_manifest_def
        split: option.splits)
qed

lemma verifyManifestReferences_ok:
  "verifyManifestReferences dir refs b = None \<longleftrightarrow> (case dir of None \<Rightarrow> refs = []
     | Some d \<Rightarrow> (\<forall>p\<in>set d. \<not> unreferenced refs p) \<and> (\<forall>p\<in>set refs. bad_reference d b p = None))"
  by (auto simp: verifyManifestReferences_def first_error_None list_ex_iff split: option.split)

lemma bad_reference_None:
  "bad_reference d b p = None \<longleftrightarrow> (\<exists>s. map_of d (fst p) = Some (Segment s) \<and>
     int (length (seg_bytes s)) = FileSizeBytes (snd p) \<and>
     (b \<longrightarrow> sha256_hex (seg_bytes s) = FileSHA256 (snd p)))"
  by (auto simp: bad_reference_def split: option.splits dir_entry.splits)

lemma readVerified_push:
  assumes r: "readVerifiedManifestState None m (Some d) b = Inr st" and wf: "map_wf d"
    and v: "validateManifestEntry e (lastManifestSequence st + 1) (ms_lastSequence st + 1) (lastManifestHash st) = None"
    and new: "\<not> mhas d (SegmentFilename e)"
    and s: "int (length (seg_bytes s)) = FileSizeBytes e" "sha256_hex (seg_bytes s) = FileSHA256 e"
  shows "readVerifiedManifestState None (Some (manifest_lines m @ [Entry e]))
    (Some (mput (SegmentFilename e) (Segment s) d)) b = Inr (manifest_push e st)"
proof -
  let ?d = "mput (SegmentFilename e) (Segment s) d" and ?refs = "refs_of (entries st)"
  have loop: "manifest_loop (manifest_lines m) no_manifest [] = Inr (st, ?refs)"
    and refs: "\<forall>p\<in>set d. \<not> unreferenced ?refs p" "\<forall>p\<in>set ?refs. bad_reference d b p = None"
    using r by (auto simp: readVerifiedManifestState_Inr verifyManifestReferences_ok)
  have "\<not> mhas ?refs (SegmentFilename e)"
  proof
    assume "mhas ?refs (SegmentFilename e)"
    then obtain x where "x \<in> set (entries st)" "SegmentFilename x = SegmentFilename e"
      by (auto simp: mhas_iff)
    with refs(2) have "mhas d (SegmentFilename e)"
      by (force simp: in_refs_of bad_reference_None mhas_def)
    with new show False by simp
  qed
  then have "manifest_loop (manifest_lines m @ [Entry e]) no_manifest [] =
      Inr (manifest_push e st, ?refs @ [(SegmentFilename e, e)])"
    using v by (simp add: manifest_loop_append loop manifest_loop_Entry mput_new)
  moreover have "entries (manifest_push e st) = entries st @ [e]" by (simp add: manifest_push_def)
  moreover have "\<not> unreferenced (?refs @ [(SegmentFilename e, e)]) p" if "p \<in> set ?d" for p
    using that wf refs(1) by (auto simp: set_mput unreferenced_def mhas_iff)
  moreover have "bad_reference ?d b p = None" if "p \<in> set (?refs @ [(SegmentFilename e, e)])" for p
    using that refs(2) s new by (auto simp: bad_reference_None mhas_def)
  ultimately show ?thesis
    by (simp add: readVerifiedManifestState_Inr verifyManifestReferences_ok manifest_lines_def)
qed

end
