(* ===== verification/Segments.thy ===== *)
theory Segments
  imports Manifest
begin

text \<open>
  internal/ledger/segmented.go, second half: the append with rotation. The active ledger file is
  appended to until it would outgrow RotateAtBytes; then it is renamed into the segment directory, a
  manifest entry sealing its range, size, digest and last hash is appended, and a new active file
  continues the chain from that entry.

  \<open>disk\<close> is what one append runtime sees: the active file with the cache entry of its path, its
  bytes, the segment directory and the manifest. rolloverActiveSegment clears the entry of the
  package's default runtime, which is not the one the server appends with, so the entry stays; a new
  or renamed file has another file state, which is what loadCachedChainState compares. The answers
  of the file system to one call are a \<open>rot_io\<close>.
\<close>

section \<open>State and answers\<close>

record disk =
  act :: ledger_file
  act_exists :: bool
  act_bytes :: string
  segments :: "segment_dir option"
  manifest :: "manifest_line list option"

datatype manifest_outcome = EntryWritten | EntryNotWritten | EntryTorn | EntryUnsynced

record roll_io =
  stat_sealed_error :: "string option"
  rename_error :: "string option"
  sync_active_dir :: "string option"
  sync_segment_dir :: "string option"
  hash_error :: "string option"
  manifest_write :: manifest_outcome
  sync_manifest_dir :: "string option"
  closed_at :: gotime

record rot_io = io +
  wd_answer :: "string result"
  setup_error :: "string option"       \<comment> \<open>creating the directories, taking the lock\<close>
  manifest_error :: "string option"
  manifest_error2 :: "string option"
  close_error :: "string option"
  reopen_error :: "string option"
  append_stat_error :: "string option"
  torn_bytes :: string
  roll :: roll_io

abbreviation io_fail :: "string \<Rightarrow> ledger_error option" where "io_fail m \<equiv> Some (LedgerIO m)"

section \<open>Preparing a line\<close>

definition prepareLedgerEventLine :: "int \<Rightarrow> string \<Rightarrow> event \<Rightarrow> ledger_error + (event \<times> string \<times> string)" where
  "prepareLedgerEventLine n h ledgerEvent =
     bindr (canonicalizeEvent (chained_event (versioned ledgerEvent) n h) False) (\<lambda>preparedEvent. let
       eventHash = hashCanonicalEvent preparedEvent;
       hashed = put_hash eventHash preparedEvent
     in Inr (hashed, event_json hashed @ [CHR 0x0A], eventHash))"

definition validateEventLineSize :: "string \<Rightarrow> int \<Rightarrow> ledger_error option" where
  "validateEventLineSize eventLineBytes maxEventBytes =
    (if maxEventBytes \<le> 0 then None
     else if int (length eventLineBytes) > maxEventBytes then Some EventTooLarge else None)"

section \<open>The active file\<close>

definition clear_act :: "disk \<Rightarrow> disk" where
  "clear_act d = d\<lparr>act := clearCache (act d)\<rparr>"

text \<open>os.OpenFile with O_CREATE: a created file is empty and has a state of its own.\<close>

definition open_active :: "disk \<Rightarrow> disk" where
  "open_active d = (if act_exists d then d
     else d\<lparr>act := (act d)\<lparr>content := [], stamp := Suc (stamp (act d))\<rparr>, act_exists := True, act_bytes := []\<rparr>)"

text \<open>The cached chain state, or the verified one, which the reader also caches.\<close>

definition active_chain :: "ledger_file \<Rightarrow> int \<Rightarrow> string \<Rightarrow> ledger_file \<times> (ledger_error + (int \<times> string))" where
  "active_chain f baseSeq baseHash = (case loadCachedChainState f of
     (f1, Some c) \<Rightarrow> (f1, Inr (lastSequence c, lastHash c))
   | (f1, None) \<Rightarrow>
      (case readVerifiedChainStateFromBase (content f1) ''ledger_sequence'' baseSeq baseHash of
         Inl e \<Rightarrow> (f1, Inl e)
       | Inr (n, h) \<Rightarrow>
          (f1\<lparr>cached := Some \<lparr>lastSequence = n, lastHash = h, fileState = stamp f1\<rparr>\<rparr>, Inr (n, h))))"

definition write_active :: "line \<Rightarrow> string \<Rightarrow> disk \<Rightarrow> disk" where
  "write_active l bytes d = d\<lparr>act := write_line l (act d), act_bytes := act_bytes d @ bytes\<rparr>"

text \<open>The end of appendPreparedEventToFile, with the line prepared for sequence \<open>n + 1\<close>.\<close>

definition write_prepared :: "(string \<Rightarrow> float64) \<Rightarrow> rot_io \<Rightarrow> int \<Rightarrow> event \<Rightarrow> string \<Rightarrow> string \<Rightarrow> disk \<Rightarrow>
    disk \<times> ledger_error option" where
  "write_prepared pf io n ev eventLineBytes eventHash d1 =
    (case seek_error io of Some m \<Rightarrow> (clear_act d1, io_fail m)
     | None \<Rightarrow> (case encode io of
         NothingWritten \<Rightarrow> (clear_act d1, io_fail ''write ledger event'')
       | TornWrite \<Rightarrow> (clear_act (write_active Malformed (torn_bytes io) d1), io_fail ''write ledger event'')
       | Encoded \<Rightarrow> (let d2 = write_active (Line (stored_event pf ev)) eventLineBytes d1 in
           case sync_error io of Some m \<Rightarrow> (clear_act d2, io_fail m)
           | None \<Rightarrow> if restat_fails io then (clear_act d2, None)
             else (d2\<lparr>act := (act d2)\<lparr>cached := Some \<lparr>lastSequence = n + 1,
                 lastHash = eventHash, fileState = stamp (act d2)\<rparr>\<rparr>\<rparr>, None))))"

definition appendPreparedEventToFile :: "(string \<Rightarrow> float64) \<Rightarrow> rot_io \<Rightarrow> int \<Rightarrow> int \<Rightarrow> string \<Rightarrow> event \<Rightarrow>
    disk \<Rightarrow> disk \<times> ledger_error option" where
  "appendPreparedEventToFile pf io maxEventBytes baseSeq baseHash ledgerEvent d =
    (case append_stat_error io of Some m \<Rightarrow> (clear_act d, io_fail m)
     | None \<Rightarrow>
       (case active_chain (act d) baseSeq baseHash of
          (f1, Inl e) \<Rightarrow> (clear_act (d\<lparr>act := f1\<rparr>), Some e)
        | (f1, Inr (n, h)) \<Rightarrow> (let d1 = d\<lparr>act := f1\<rparr> in
           case prepareLedgerEventLine n h ledgerEvent of Inl e \<Rightarrow> (clear_act d1, Some e)
           | Inr (ev, eventLineBytes, eventHash) \<Rightarrow>
             (case validateEventLineSize eventLineBytes maxEventBytes of Some e \<Rightarrow> (clear_act d1, Some e)
              | None \<Rightarrow> write_prepared pf io n ev eventLineBytes eventHash d1))))"

section \<open>Rolling over\<close>

definition sealing_entry :: "rot_io \<Rightarrow> manifest_state \<Rightarrow> int \<Rightarrow> string \<Rightarrow> string \<Rightarrow> manifest_entry" where
  "sealing_entry io ms n h bytes = (let
     first = ms_lastSequence ms + 1;
     entry = \<lparr>me_V = segmentManifestVersion, ClosedAt = rfc3339nano (closed_at (roll io)),
       SegmentFilename = segmentFilename first n, FirstSequence = first, LastSequence = n,
       EventCount = n - first + 1, FileSizeBytes = int (length bytes), FileSHA256 = sha256_hex bytes,
       LastEventHash = h, ManifestSequence = lastManifestSequence ms + 1,
       PreviousManifestHash = lastManifestHash ms, ManifestHash = []\<rparr>
   in entry\<lparr>ManifestHash := hashManifestEntry entry\<rparr>)"

definition appendManifestEntry :: "manifest_outcome \<Rightarrow> manifest_entry \<Rightarrow> disk \<Rightarrow> disk \<times> ledger_error option" where
  "appendManifestEntry outcome e d = (let add = (\<lambda>l. d\<lparr>manifest := Some (manifest_lines (manifest d) @ [l])\<rparr>) in
     case outcome of EntryWritten \<Rightarrow> (add (Entry e), None)
     | EntryNotWritten \<Rightarrow> (d, io_fail ''write segment manifest entry'')
     | EntryTorn \<Rightarrow> (add MalformedEntry, io_fail ''write segment manifest entry'')
     | EntryUnsynced \<Rightarrow> (add (Entry e), io_fail ''sync segment manifest entry''))"

definition sealed_dir :: "disk \<Rightarrow> segment_dir" where
  "sealed_dir d = (case segments d of None \<Rightarrow> [] | Some dir \<Rightarrow> dir)"

definition rename_active :: "string \<Rightarrow> disk \<Rightarrow> disk" where
  "rename_active name d = d\<lparr>segments := Some (mput name
       (Segment \<lparr>seg_lines = content (act d), seg_bytes = act_bytes d\<rparr>) (sealed_dir d)),
     act := (act d)\<lparr>content := [], stamp := Suc (stamp (act d))\<rparr>, act_exists := False, act_bytes := []\<rparr>"

definition rolloverActiveSegment :: "rot_io \<Rightarrow> manifest_state \<Rightarrow> int \<Rightarrow> string \<Rightarrow> disk \<Rightarrow>
    disk \<times> ledger_error option" where
  "rolloverActiveSegment io ms n h d =
    (if n \<le> ms_lastSequence ms
     then (d, Some (Integrity ''active ledger rollover requires non-empty active segment''))
     else (let name = segmentFilename (ms_lastSequence ms + 1) n; entry = sealing_entry io ms n h (act_bytes d) in
       case stat_sealed_error (roll io) of Some m \<Rightarrow> (d, io_fail m)
       | None \<Rightarrow> if mhas (sealed_dir d) name then (d, Some (Integrity ''sealed segment already exists''))
       else (case rename_error (roll io) of Some m \<Rightarrow> (d, io_fail m)
       | None \<Rightarrow> (let d1 = rename_active name d in
          case sync_active_dir (roll io) of Some m \<Rightarrow> (d1, io_fail m)
          | None \<Rightarrow> (case sync_segment_dir (roll io) of Some m \<Rightarrow> (d1, io_fail m)
          | None \<Rightarrow> (case hash_error (roll io) of Some m \<Rightarrow> (d1, io_fail m)
          | None \<Rightarrow> (case appendManifestEntry (manifest_write (roll io)) entry d1 of
              (d2, Some e) \<Rightarrow> (d2, Some e)
            | (d2, None) \<Rightarrow> (case sync_manifest_dir (roll io) of Some m \<Rightarrow> (d2, io_fail m)
                | None \<Rightarrow> (d2, None)))))))))"

section \<open>Appending with rotation\<close>

text \<open>The bytes runtime.Append adds when it writes: the text of the canonical hashed event.\<close>

definition flat_bytes :: "rot_io \<Rightarrow> ledger_file \<Rightarrow> event \<Rightarrow> string" where
  "flat_bytes io f e =
    (if encode io = TornWrite then torn_bytes io
     else (case bindr (snd (active_chain f 0 [])) (\<lambda>(n, h). let ce = chained_event (versioned e) n h in
         bindr (hashEvent ce) (\<lambda>eh. canonicalizeEvent (put_hash eh ce) False)) of
       Inl _ \<Rightarrow> [] | Inr c \<Rightarrow> event_json c @ [CHR 0x0A]))"

definition appendWithMaxEventBytes :: "(string \<Rightarrow> float64) \<Rightarrow> rot_io \<Rightarrow> int \<Rightarrow> event \<Rightarrow> disk \<Rightarrow>
    disk \<times> ledger_error option" where
  "appendWithMaxEventBytes pf io maxEventBytes ledgerEvent d =
    (if maxEventBytes \<le> 0 then
       (let d0 = (if open_error io = None then open_active d else d) in
        case Append pf (io.truncate io) (act d0) ledgerEvent of (f, err) \<Rightarrow>
         (d0\<lparr>act := f, act_bytes := (if content f = content (act d0) then act_bytes d0
              else act_bytes d0 @ flat_bytes io (act d0) ledgerEvent)\<rparr>, err))
     else (case setup_error io of Some m \<Rightarrow> (d, io_fail m)
       | None \<Rightarrow> (case open_error io of Some m \<Rightarrow> (d, io_fail m)
         | None \<Rightarrow> appendPreparedEventToFile pf io maxEventBytes 0 [] ledgerEvent (open_active d))))"

text \<open>The end of AppendWithRotation after the size test, with or without a rollover.\<close>

definition append_after_rollover :: "(string \<Rightarrow> float64) \<Rightarrow> rotation_settings \<Rightarrow> rot_io \<Rightarrow> event \<Rightarrow>
    manifest_state \<Rightarrow> int \<Rightarrow> string \<Rightarrow> disk \<Rightarrow> disk \<times> ledger_error option" where
  "append_after_rollover pf rs io ledgerEvent ms n h d =
    (case close_error io of Some m \<Rightarrow> (d, io_fail m)
     | None \<Rightarrow> (case rolloverActiveSegment io ms n h d of (d3, Some e) \<Rightarrow> (d3, Some e)
       | (d3, None) \<Rightarrow>
          (case readVerifiedManifestState (manifest_error2 io) (manifest d3) (segments d3)
              (VerifyClosedSegmentsOnStartup rs) of
             Inl e \<Rightarrow> (d3, Some e)
           | Inr ms2 \<Rightarrow> (case reopen_error io of Some m \<Rightarrow> (d3, io_fail m)
              | None \<Rightarrow> appendPreparedEventToFile pf io (MaxEventBytes rs) (ms_lastSequence ms2)
                   (ms_lastEventHash ms2) ledgerEvent (open_active d3)))))"

text \<open>The size test, on the chain state \<open>(n, h)\<close> of the opened active file.\<close>

definition rotate_or_append :: "(string \<Rightarrow> float64) \<Rightarrow> rotation_settings \<Rightarrow> rot_io \<Rightarrow> event \<Rightarrow>
    manifest_state \<Rightarrow> int \<Rightarrow> string \<Rightarrow> disk \<Rightarrow> disk \<times> ledger_error option" where
  "rotate_or_append pf rs io ledgerEvent ms n h d =
    (case prepareLedgerEventLine n h ledgerEvent of Inl e \<Rightarrow> (clear_act d, Some e)
     | Inr (_, eventLineBytes, _) \<Rightarrow>
       (case validateEventLineSize eventLineBytes (MaxEventBytes rs) of Some e \<Rightarrow> (clear_act d, Some e)
        | None \<Rightarrow>
          if act_bytes d \<noteq> [] \<and> int (length (act_bytes d)) + int (length eventLineBytes) > RotateAtBytes rs
          then append_after_rollover pf rs io ledgerEvent ms n h d
          else appendPreparedEventToFile pf io (MaxEventBytes rs) (ms_lastSequence ms)
            (ms_lastEventHash ms) ledgerEvent d))"

text \<open>loadVerifiedActiveChainState on the opened file, and the rest.\<close>

definition append_opened :: "(string \<Rightarrow> float64) \<Rightarrow> rotation_settings \<Rightarrow> rot_io \<Rightarrow> event \<Rightarrow>
    manifest_state \<Rightarrow> disk \<Rightarrow> disk \<times> ledger_error option" where
  "append_opened pf rs io ledgerEvent ms d =
    (case stat_error io of Some m \<Rightarrow> (d, io_fail m)
     | None \<Rightarrow> (case active_chain (act d) (ms_lastSequence ms) (ms_lastEventHash ms) of
         (f, Inl e) \<Rightarrow> (d\<lparr>act := f\<rparr>, Some e)
       | (f, Inr (n, h)) \<Rightarrow> rotate_or_append pf rs io ledgerEvent ms n h (d\<lparr>act := f\<rparr>)))"

definition AppendWithRotation :: "(string \<Rightarrow> float64) \<Rightarrow> rotation_settings \<Rightarrow> rot_io \<Rightarrow> disk \<Rightarrow> event \<Rightarrow>
    disk \<times> ledger_error option" where
  "AppendWithRotation pf rs io d0 ledgerEvent =
    (case validateRotationSettings (wd_answer io) rs of Some e \<Rightarrow> (d0, Some e)
     | None \<Rightarrow> if RotateAtBytes rs \<le> 0 then appendWithMaxEventBytes pf io (MaxEventBytes rs) ledgerEvent d0
     else (case setup_error io of Some m \<Rightarrow> (d0, io_fail m)
     | None \<Rightarrow> (let d = d0\<lparr>segments := Some (sealed_dir d0)\<rparr> in
       case readVerifiedManifestState (manifest_error io) (manifest d) (segments d)
           (VerifyClosedSegmentsOnStartup rs) of
         Inl e \<Rightarrow> (d, Some e)
       | Inr ms \<Rightarrow> (case open_error io of Some m \<Rightarrow> (d, io_fail m)
         | None \<Rightarrow> append_opened pf rs io ledgerEvent ms (open_active d)))))"

section \<open>Reading the whole ledger\<close>

text \<open>Answers: an error other than a missing file while the active ledger is opened or stat'ed.\<close>

definition ReadSegmentedChainState :: "string result \<Rightarrow> rotation_settings \<Rightarrow> string option \<Rightarrow>
    string option \<Rightarrow> disk \<Rightarrow> string \<Rightarrow> disk \<times> (ledger_error + (int \<times> string))" where
  "ReadSegmentedChainState wd rs manifest_io active_io d sequenceField =
    (case validateRotationSettings wd rs of Some e \<Rightarrow> (d, Inl e)
     | None \<Rightarrow>
       (case (if RotateAtBytes rs > 0
              then readVerifiedManifestState manifest_io (manifest d) (segments d)
                     (VerifyClosedSegmentsOnStartup rs)
              else Inr no_manifest) of
          Inl e \<Rightarrow> (d, Inl e)
        | Inr ms \<Rightarrow>
           if \<not> act_exists d then (clear_act d, Inr (ms_lastSequence ms, ms_lastEventHash ms))
           else (case active_io of Some m \<Rightarrow> (d, Inl (LedgerIO m))
             | None \<Rightarrow>
               (case readVerifiedChainStateFromBase (content (act d)) sequenceField
                   (ms_lastSequence ms) (ms_lastEventHash ms) of
                  Inl e \<Rightarrow> (d, Inl e)
                | Inr (n, h) \<Rightarrow> (d\<lparr>act := (act d)\<lparr>cached := Some \<lparr>lastSequence = n, lastHash = h,
                     fileState = stamp (act d)\<rparr>\<rparr>\<rparr>, Inr (n, h))))))"

datatype ledger_path = SealedPath string | ActivePath

definition OrderedSegmentedPaths :: "string result \<Rightarrow> rotation_settings \<Rightarrow> string option \<Rightarrow> disk \<Rightarrow>
    ledger_error + ledger_path list" where
  "OrderedSegmentedPaths wd rs manifest_io d =
    bindr (check (validateRotationSettings wd rs)) (\<lambda>_.
    bindr (if RotateAtBytes rs > 0
           then bindr (readVerifiedManifestState manifest_io (manifest d) (segments d)
                  (VerifyClosedSegmentsOnStartup rs))
                  (\<lambda>ms. Inr (map (\<lambda>e. SealedPath (SegmentFilename e)) (entries ms)))
           else Inr []) (\<lambda>sealed.
    Inr (sealed @ (if act_exists d then [ActivePath] else []))))"

definition path_lines :: "disk \<Rightarrow> ledger_path \<Rightarrow> line list option" where
  "path_lines d p = (case p of ActivePath \<Rightarrow> if act_exists d then Some (content (act d)) else None
     | SealedPath name \<Rightarrow> (case map_of (sealed_dir d) name of
         Some (Segment s) \<Rightarrow> Some (seg_lines s) | _ \<Rightarrow> None))"

section \<open>Preparing a line agrees with the plain append\<close>

lemma canon_entries_mput:
  "collect_fields (canon_entries m) = Inr C \<Longrightarrow> canonicalizeValue v = Inr c \<Longrightarrow>
     collect_fields (canon_entries (mput k v m)) = Inr (mput k c C)"
proof (induction m arbitrary: C)
  case (Cons p m)
  obtain k' v' where p: "p = (k', v')" by (cases p)
  obtain c' C' where "canonicalizeValue v' = Inr c'" "collect_fields (canon_entries m) = Inr C'"
    "C = (k', c') # C'"
    using Cons.prems(1) by (auto simp: p result_iffs)
  with Cons.IH Cons.prems(2) show ?case by (auto simp: p mput_def)
qed (simp add: mput_def)

lemma prepare_agrees:
  assumes "prepareLedgerEventLine n h e = Inr (c, bytes, eh)"
  shows "hashEvent (chained_event (versioned e) n h) = Inr eh"
    and "canonicalizeEvent (put_hash eh (chained_event (versioned e) n h)) False = Inr c"
    and "bytes = event_json c @ [CHR 0x0A]"
proof -
  let ?ce = "chained_event (versioned e) n h"
  obtain d where d: "ev_Data ?ce = Some d" by (simp add: chained_event_def)
  have v: "ev_V ?ce \<noteq> 0" by (simp add: chained_event_def)
  obtain C where C: "collect_fields (canon_entries d) = Inr C"
    and eh: "eh = hashCanonicalEvent (?ce\<lparr>ev_Data := Some C\<rparr>)"
    and c: "c = put_hash eh (?ce\<lparr>ev_Data := Some C\<rparr>)" "bytes = event_json c @ [CHR 0x0A]"
    using assms d v by (auto simp: prepareLedgerEventLine_def canonicalizeEvent_def Let_def
        canonicalizeDataMap_def result_iffs)
  show "hashEvent ?ce = Inr eh"
    using d v canon_entries_mdel [OF C, of "''event_hash''"]
    by (simp add: hashEvent_eq eh hashCanonicalEvent_def)
  have "collect_fields (canon_entries (mput ''event_hash'' (GString eh) d)) = Inr (mput ''event_hash'' (GString eh) C)"
    by (rule canon_entries_mput [OF C]) simp
  then show "canonicalizeEvent (put_hash eh ?ce) False = Inr c"
    using d v by (simp add: canonicalizeEvent_def put_hash_def data_of_def c(1) canonicalizeDataMap_def)
  show "bytes = event_json c @ [CHR 0x0A]" by (rule c(2))
qed

end
