(* ===== verification/Checkpoint.thy ===== *)
theory Checkpoint
  imports Ledger GoTime
begin

text \<open>
  internal/ledger/hmac_checkpoint.go and inspection.go: the keyed checkpoints of the audit ledger,
  their verification, and the inspection of a sequence of ledger files that confirms every
  checkpoint attests the ordinary event before it.

  Converting a float64 that is not an exactly representable integer to int64 is the argument
  \<open>f2i\<close> on its JSON text; an inspected file is None when it cannot be opened.
\<close>

section \<open>Checkpoint events\<close>

definition AuditLedgerHMACCheckpointEventType :: string where
  "AuditLedgerHMACCheckpointEventType = ''audit.ledger.hmac_checkpoint''"

definition AuditLedgerCheckpointSchemaVersion :: int where
  "AuditLedgerCheckpointSchemaVersion = 1"

definition BuildAuditLedgerCheckpointHMACMessageV1 :: "int \<Rightarrow> string \<Rightarrow> string \<Rightarrow> string" where
  "BuildAuditLedgerCheckpointHMACMessageV1 throughAuditSequence throughEventHash checkpointTimestampUTC =
     ''loopgate-audit-ledger-checkpoint-v1'' @ [CHR 0x0A] @ int_str throughAuditSequence @ [CHR 0x0A] @
     throughEventHash @ [CHR 0x0A] @ checkpointTimestampUTC @ [CHR 0x0A]"

definition ComputeAuditLedgerCheckpointHMAC :: "string \<Rightarrow> string \<Rightarrow> string" where
  "ComputeAuditLedgerCheckpointHMAC key message = hmac_sha256 key message"

text \<open>encoding/hex.DecodeString.\<close>

definition unhex :: "char \<Rightarrow> nat option" where
  "unhex c = (let n = (of_char c :: nat) in
     if 48 \<le> n \<and> n \<le> 57 then Some (n - 48)
     else if 97 \<le> n \<and> n \<le> 102 then Some (n - 87)
     else if 65 \<le> n \<and> n \<le> 70 then Some (n - 55) else None)"

fun hex_decode :: "string \<Rightarrow> string option" where
  "hex_decode [] = Some []"
| "hex_decode [c] = None"
| "hex_decode (c # d # s) = (case (unhex c, unhex d) of
     (Some x, Some y) \<Rightarrow> map_option (\<lambda>r. char_of (16 * x + y) # r) (hex_decode s)
   | _ \<Rightarrow> None)"

definition int64_of_float :: "(string \<Rightarrow> int) \<Rightarrow> float64 \<Rightarrow> int" where
  "int64_of_float f2i f = (case f of FInt n \<Rightarrow> n | FBig s \<Rightarrow> f2i s | FFrac s \<Rightarrow> f2i s)"

definition int64FromEventData :: "(string \<Rightarrow> int) \<Rightarrow> gdata \<Rightarrow> string \<Rightarrow> string + int" where
  "int64FromEventData f2i data key = (case map_of data key of
     None \<Rightarrow> Inl (''missing '' @ key)
   | Some (GFloat f) \<Rightarrow> Inr (int64_of_float f2i f)
   | Some (GInt n) \<Rightarrow> Inr n
   | Some (GString s) \<Rightarrow> (case parse_int64 s of None \<Rightarrow> Inl ''strconv.ParseInt'' | Some n \<Rightarrow> Inr n)
   | Some _ \<Rightarrow> Inl (''invalid '' @ key))"

definition VerifyAuditLedgerHMACCheckpointEvent ::
    "(string \<Rightarrow> int) \<Rightarrow> event \<Rightarrow> string \<Rightarrow> string option" where
  "VerifyAuditLedgerHMACCheckpointEvent f2i evt key =
    (if ev_Type evt \<noteq> AuditLedgerHMACCheckpointEventType then Some ''event type''
     else (case ev_Data evt of None \<Rightarrow> Some ''checkpoint event missing data''
     | Some data \<Rightarrow>
      (case int64FromEventData f2i data ''checkpoint_schema_version'' of Inl e \<Rightarrow> Some e
     | Inr schema \<Rightarrow>
       if schema \<noteq> AuditLedgerCheckpointSchemaVersion then Some ''unsupported checkpoint_schema_version''
       else (case int64FromEventData f2i data ''through_audit_sequence'' of
         Inl e \<Rightarrow> Some (''through_audit_sequence: '' @ e)
       | Inr throughSeq \<Rightarrow>
         (case map_of data ''through_event_hash'' of
            Some (GString throughHash) \<Rightarrow>
             (let ts = as_string (map_of data ''checkpoint_timestamp_utc'') in
              if ts = [] then Some ''checkpoint_timestamp_utc missing or empty''
              else if ev_TS evt \<noteq> ts then Some ''checkpoint_timestamp_utc does not match event ts''
              else (let storedHex = as_string (map_of data ''checkpoint_hmac_sha256'') in
                if storedHex = [] then Some ''checkpoint_hmac_sha256 missing or empty''
                else (case hex_decode storedHex of None \<Rightarrow> Some ''checkpoint_hmac_sha256 hex''
                  | Some storedMAC \<Rightarrow>
                    if storedMAC \<noteq> ComputeAuditLedgerCheckpointHMAC key
                         (BuildAuditLedgerCheckpointHMACMessageV1 throughSeq throughHash ts)
                    then Some ''checkpoint_hmac_sha256 does not match recomputed MAC'' else None)))
          | _ \<Rightarrow> Some ''through_event_hash missing or not a string'')))))"

lemma unhex_hex_digit: "d < 16 \<Longrightarrow> unhex (hex_digit d) = Some d"
  by (auto simp: unhex_def of_char_hex_digit Let_def)

lemma hex_decode_encode [simp]: "hex_decode (hex_encode s) = Some s"
proof (induction s)
  case (Cons c s)
  have e: "hex_encode (c # s) = hex_digit (of_char c div 16) # hex_digit (of_char c mod 16) # hex_encode s"
    by (simp add: hex_encode_def Let_def)
  have "16 * (of_char c div 16) + of_char c mod 16 = (of_char c :: nat)" by simp
  with Cons.IH show ?case by (simp only: e hex_decode.simps unhex_hex_digit char_split) simp
qed (simp add: hex_encode_def)

text \<open>The signed text determines what it attests.\<close>

lemma checkpoint_message_inj:
  assumes "BuildAuditLedgerCheckpointHMACMessageV1 n h ts = BuildAuditLedgerCheckpointHMACMessageV1 n' h' ts'"
    and "CHR 0x0A \<notin> set h" "CHR 0x0A \<notin> set h'"
  shows "n = n' \<and> h = h' \<and> ts = ts'"
proof -
  have i: "CHR 0x0A \<notin> set (int_str k)" for k
    using int_str_chars [of "CHR 0x0A" k] by (auto simp: is_digit_def)
  let ?nl = "CHR 0x0A"
  have e: "int_str n @ ?nl # h @ ?nl # ts = int_str n' @ ?nl # h' @ ?nl # ts'"
    using assms(1) by (simp add: BuildAuditLedgerCheckpointHMACMessageV1_def)
  have "int_str n = int_str n'" "h = h'" "split_on ?nl ts = split_on ?nl ts'"
    using arg_cong [OF e, of "split_on ?nl"] assms(2,3) i by (simp_all add: split_on_append)
  then show ?thesis by (metis int_str_inj join_split)
qed

section \<open>Inspecting the checkpoints of a ledger\<close>

record inspection =
  CheckpointCount :: int
  LastCheckpointThroughAuditSequence :: int
  LastCheckpointTimestampUTC :: string
  OrdinaryEventsSinceLastCheckpoint :: int

text \<open>The loop's state: the inspection, and the last ordinary event's sequence and hash.\<close>

type_synonym inspect_state = "inspection \<times> int \<times> string"

definition inspect_start :: inspect_state where
  "inspect_start = (\<lparr>CheckpointCount = 0, LastCheckpointThroughAuditSequence = 0,
     LastCheckpointTimestampUTC = [], OrdinaryEventsSinceLastCheckpoint = 0\<rparr>, 0, [])"

definition inspect_checkpoint :: "(string \<Rightarrow> int) \<Rightarrow> string \<Rightarrow> inspect_state \<Rightarrow> event \<Rightarrow>
    ledger_error + inspect_state" where
  "inspect_checkpoint f2i key st evt = (case st of (inspection, headSeq, headHash) \<Rightarrow>
     case VerifyAuditLedgerHMACCheckpointEvent f2i evt key of
       Some m \<Rightarrow> Inl (LedgerIO (''verify audit checkpoint: '' @ m))
     | None \<Rightarrow> (case int64FromEventData f2i (data_of evt) ''through_audit_sequence'' of
         Inl m \<Rightarrow> Inl (LedgerIO (''decode checkpoint through_audit_sequence: '' @ m))
       | Inr throughAuditSequence \<Rightarrow>
         (case map_of (data_of evt) ''through_event_hash'' of
            Some (GString throughEventHash) \<Rightarrow>
              if throughAuditSequence \<noteq> headSeq
              then Inl (Integrity ''checkpoint through_audit_sequence mismatch'')
              else if throughEventHash \<noteq> headHash
              then Inl (Integrity ''checkpoint through_event_hash mismatch'')
              else Inr (inspection\<lparr>CheckpointCount := CheckpointCount inspection + 1,
                  LastCheckpointThroughAuditSequence := throughAuditSequence,
                  LastCheckpointTimestampUTC := ev_TS evt,
                  OrdinaryEventsSinceLastCheckpoint := 0\<rparr>, headSeq, headHash)
          | _ \<Rightarrow> Inl (Integrity ''checkpoint through_event_hash missing''))))"

definition inspect_ordinary :: "(string \<Rightarrow> int) \<Rightarrow> inspect_state \<Rightarrow> event \<Rightarrow>
    ledger_error + inspect_state" where
  "inspect_ordinary f2i st evt = (case st of (inspection, headSeq, headHash) \<Rightarrow>
     case int64FromEventData f2i (data_of evt) ''audit_sequence'' of
       Inl m \<Rightarrow> Inl (LedgerIO (''decode audit_sequence: '' @ m))
     | Inr auditSequence \<Rightarrow>
        (let eventHash = as_string (map_of (data_of evt) ''event_hash'') in
         if eventHash = [] then Inl (Integrity ''missing event_hash'')
         else Inr (inspection\<lparr>OrdinaryEventsSinceLastCheckpoint :=
                 OrdinaryEventsSinceLastCheckpoint inspection + 1\<rparr>, auditSequence, eventHash)))"

definition inspect_line :: "(string \<Rightarrow> int) \<Rightarrow> string \<Rightarrow> inspect_state \<Rightarrow> line \<Rightarrow>
    ledger_error + inspect_state" where
  "inspect_line f2i key st l = (case ParseEvent l of
     None \<Rightarrow> Inl (Integrity ''malformed audit line'')
   | Some parsedEvent \<Rightarrow>
      if ev_Type parsedEvent = AuditLedgerHMACCheckpointEventType
      then inspect_checkpoint f2i key st parsedEvent
      else inspect_ordinary f2i st parsedEvent)"

fun inspect_lines :: "(string \<Rightarrow> int) \<Rightarrow> string \<Rightarrow> inspect_state \<Rightarrow> line list \<Rightarrow>
    inspect_state \<times> ledger_error option" where
  "inspect_lines f2i key st [] = (st, None)"
| "inspect_lines f2i key st (l # ls) = (case inspect_line f2i key st l of
     Inl e \<Rightarrow> (st, Some e)
   | Inr st' \<Rightarrow> inspect_lines f2i key st' ls)"

fun inspect_files :: "(string \<Rightarrow> int) \<Rightarrow> string \<Rightarrow> inspect_state \<Rightarrow> line list option list \<Rightarrow>
    inspect_state \<times> ledger_error option" where
  "inspect_files f2i key st [] = (st, None)"
| "inspect_files f2i key st (None # fs) = (st, Some (LedgerIO ''open audit file''))"
| "inspect_files f2i key st (Some ls # fs) = (case inspect_lines f2i key st ls of
     (st', Some e) \<Rightarrow> (st', Some e)
   | (st', None) \<Rightarrow> inspect_files f2i key st' fs)"

definition InspectAuditHMACCheckpoints :: "(string \<Rightarrow> int) \<Rightarrow> line list option list \<Rightarrow> string \<Rightarrow>
    inspection \<times> ledger_error option" where
  "InspectAuditHMACCheckpoints f2i paths key =
     (case inspect_files f2i key inspect_start paths of ((i, _), err) \<Rightarrow> (i, err))"

lemma inspect_lines_append:
  "inspect_lines f2i key st (ls @ ls') = (case inspect_lines f2i key st ls of
     (st', Some e) \<Rightarrow> (st', Some e) | (st', None) \<Rightarrow> inspect_lines f2i key st' ls')"
  by (induction ls arbitrary: st) (auto split: sum.split)

lemma inspect_lines_snoc:
  assumes "inspect_lines f2i key st ls = (st', None)" "inspect_line f2i key st' l = Inr st''"
  shows "inspect_lines f2i key st (ls @ [l]) = (st'', None)"
  using assms by (simp add: inspect_lines_append)

text \<open>Splitting the lines over segment files changes nothing.\<close>

lemma inspect_files_concat:
  "inspect_files f2i key st (map Some fs) = inspect_lines f2i key st (concat fs)"
  by (induction fs arbitrary: st) (auto simp: inspect_lines_append split: prod.split option.split)

end
