(* ===== verification/AuditRuntime.thy ===== *)
theory AuditRuntime
  imports Checkpoint
begin

text \<open>
  internal/auditruntime (runtime.go, anchor.go): the single owner of the audit chain's sequence and
  head hash. Record stamps an event with the chain fields, appends it, appends a keyed checkpoint
  when one is due and replaces the signed anchor; Load recovers the state at startup.

  What the runtime is given (Options and the append runtime it calls) is the record \<open>audit_opts\<close>
  over the type \<open>'f\<close> of the ledger on disk and the type \<open>'io\<close> of the file system's answers to one
  append. The answers to one Record or Load (clock, secret store, file system) are a record too. The
  sequence is an int: canonicalizeValue refuses numbers beyond 2^53 - 1, so uint64 never wraps. The
  observer called after an append only writes diagnostics and is left out.
\<close>

section \<open>Options, answers and state\<close>

record file_state =
  fs_Size :: int
  Device :: int
  Inode :: int
  ChangeTimeSeconds :: int
  ChangeTimeNanos :: int

definition no_file_state :: file_state where
  "no_file_state = \<lparr>fs_Size = 0, Device = 0, Inode = 0, ChangeTimeSeconds = 0, ChangeTimeNanos = 0\<rparr>"

record audit_anchor =
  an_V :: int
  UpdatedAt :: string
  AuditSequence :: int
  an_LastEventHash :: string
  EventsSinceCheckpoint :: int
  ActiveSizeBytes :: int
  ActiveFileState :: file_state
  HMACSHA256 :: string

text \<open>The anchor file as os.ReadFile and json.Unmarshal give it.\<close>

datatype anchor_file = NoAnchor | UnreadableAnchor | MalformedAnchor | AnchorFile audit_anchor

record hmac_config =
  hc_Enabled :: bool
  IntervalEvents :: int

record ('io, 'f) audit_opts =
  opt_Append :: "('io \<Rightarrow> 'f \<Rightarrow> event \<Rightarrow> 'f \<times> ledger_error option) option"
  opt_Path :: string
  opt_AnchorPath :: string
  opt_Config :: hmac_config
  opt_Tenancy :: "(string \<Rightarrow> string \<times> string) option"
  opt_ReadChain :: "'f \<Rightarrow> string \<Rightarrow> 'f \<times> (ledger_error + (int \<times> string))"
  opt_OrderedFiles :: "'f \<Rightarrow> ledger_error + line list option list"
  opt_Prime :: "'f \<Rightarrow> int \<Rightarrow> string \<Rightarrow> 'f"
  opt_ManifestInUse :: "'f \<Rightarrow> bool"
  opt_Stat :: "'f \<Rightarrow> file_state option"
  opt_f2i :: "string \<Rightarrow> int"

datatype replace_outcome = Replaced | NotReplaced string | ReplacedUnsynced string

record 'io answers =
  io_event :: 'io
  io_checkpoint :: 'io
  now_event :: gotime
  now_checkpoint :: gotime
  now_anchor :: gotime
  secret_checkpoint :: "ledger_error + string"
  secret_anchor :: "ledger_error + string"
  stat_fails :: "string option"
  replace :: replace_outcome

record 'f audit_state =
  as_sequence :: int
  as_lastHash :: string
  as_sinceCheckpoint :: int
  as_log :: 'f
  as_anchor :: anchor_file

section \<open>The anchor\<close>

definition auditLedgerAnchorSchemaVersion :: int where "auditLedgerAnchorSchemaVersion = 1"

definition computeAuditLedgerAnchorHMACHex :: "audit_anchor \<Rightarrow> string \<Rightarrow> string" where
  "computeAuditLedgerAnchorHMACHex a key = (let nl = [CHR 0x0A]; fs = ActiveFileState a in
     hex_encode (hmac_sha256 key (''loopgate-audit-ledger-anchor-v1'' @ nl @
       int_str (AuditSequence a) @ nl @ an_LastEventHash a @ nl @
       int_str (EventsSinceCheckpoint a) @ nl @ int_str (fs_Size fs) @ nl @
       int_str (Device fs) @ nl @ int_str (Inode fs) @ nl @
       int_str (ChangeTimeSeconds fs) @ nl @ int_str (ChangeTimeNanos fs) @ nl @
       UpdatedAt a @ nl)))"

definition verifyAuditLedgerAnchor :: "audit_anchor \<Rightarrow> string \<Rightarrow> ledger_error option" where
  "verifyAuditLedgerAnchor a key =
    (if an_V a \<noteq> auditLedgerAnchorSchemaVersion then Some (Integrity ''unsupported audit ledger anchor version'')
     else if AuditSequence a > 0 \<and> an_LastEventHash a = []
     then Some (Integrity ''audit ledger anchor missing last_event_hash'')
     else if EventsSinceCheckpoint a < 0
     then Some (Integrity ''audit ledger anchor has negative events_since_checkpoint'')
     else if fs_Size (ActiveFileState a) \<noteq> ActiveSizeBytes a
     then Some (Integrity ''audit ledger anchor active file size mismatch'')
     else (case hex_decode (HMACSHA256 a) of
         None \<Rightarrow> Some (Integrity ''audit ledger anchor hmac hex'')
       | Some storedMAC \<Rightarrow>
          (case hex_decode (computeAuditLedgerAnchorHMACHex a key) of
             None \<Rightarrow> Some (LedgerIO ''decode expected audit ledger anchor hmac'')
           | Some expectedMAC \<Rightarrow> if storedMAC \<noteq> expectedMAC
               then Some (Integrity ''audit ledger anchor HMAC mismatch'') else None)))"

definition loadAuditLedgerAnchor :: "anchor_file \<Rightarrow> string \<Rightarrow> ledger_error + audit_anchor option" where
  "loadAuditLedgerAnchor file key = (case file of
     NoAnchor \<Rightarrow> Inr None
   | UnreadableAnchor \<Rightarrow> Inl (LedgerIO ''read audit ledger anchor'')
   | MalformedAnchor \<Rightarrow> Inl (Integrity ''malformed audit ledger anchor'')
   | AnchorFile a \<Rightarrow> (case verifyAuditLedgerAnchor a key of Some e \<Rightarrow> Inl e | None \<Rightarrow> Inr (Some a)))"

definition storeAuditLedgerAnchor :: "replace_outcome \<Rightarrow> string \<Rightarrow> string \<Rightarrow> gotime \<Rightarrow> int \<Rightarrow> string \<Rightarrow>
    int \<Rightarrow> file_state \<Rightarrow> anchor_file \<Rightarrow> anchor_file \<times> ledger_error option" where
  "storeAuditLedgerAnchor outcome path key now auditSequence lastEventHash eventsSince fs old =
    (if path = [] then (old, None)
     else (let a = \<lparr>an_V = auditLedgerAnchorSchemaVersion, UpdatedAt = rfc3339nano now,
             AuditSequence = auditSequence, an_LastEventHash = lastEventHash,
             EventsSinceCheckpoint = eventsSince, ActiveSizeBytes = fs_Size fs,
             ActiveFileState = fs, HMACSHA256 = []\<rparr>;
         new = AnchorFile (a\<lparr>HMACSHA256 := computeAuditLedgerAnchorHMACHex a key\<rparr>)
       in case outcome of
         Replaced \<Rightarrow> (new, None)
       | NotReplaced e \<Rightarrow> (old, Some (LedgerIO e))
       | ReplacedUnsynced e \<Rightarrow> (new, Some (LedgerIO e))))"

definition activeLedgerFileState :: "('io, 'f) audit_opts \<Rightarrow> 'io answers \<Rightarrow> 'f \<Rightarrow>
    ledger_error + file_state" where
  "activeLedgerFileState opts ans log =
    (if opt_Path opts = [] then Inr no_file_state
     else (case stat_fails ans of Some m \<Rightarrow> Inl (LedgerIO m)
       | None \<Rightarrow> (case opt_Stat opts log of None \<Rightarrow> Inr no_file_state | Some fs \<Rightarrow> Inr fs)))"

definition storeAnchor :: "('io, 'f) audit_opts \<Rightarrow> 'io answers \<Rightarrow> string \<Rightarrow> int \<Rightarrow> string \<Rightarrow> int \<Rightarrow>
    'f audit_state \<Rightarrow> 'f audit_state \<times> ledger_error option" where
  "storeAnchor opts ans key auditSequence lastEventHash eventsSince st =
    (case activeLedgerFileState opts ans (as_log st) of Inl e \<Rightarrow> (st, Some e)
     | Inr fs \<Rightarrow> (case storeAuditLedgerAnchor (replace ans) (opt_AnchorPath opts) key (now_anchor ans)
           auditSequence lastEventHash eventsSince fs (as_anchor st) of
         (file, err) \<Rightarrow> (st\<lparr>as_anchor := file\<rparr>, err)))"

definition storeAnchorLocked :: "('io, 'f) audit_opts \<Rightarrow> 'io answers \<Rightarrow> 'f audit_state \<Rightarrow>
    'f audit_state \<times> ledger_error option" where
  "storeAnchorLocked opts ans st =
    (if \<not> hc_Enabled (opt_Config opts) \<or> opt_AnchorPath opts = [] then (st, None)
     else (case secret_anchor ans of Inl e \<Rightarrow> (st, Some e)
       | Inr key \<Rightarrow> storeAnchor opts ans key (as_sequence st) (as_lastHash st) (as_sinceCheckpoint st) st))"

section \<open>Record\<close>

definition copyInterfaceMap :: "gdata option \<Rightarrow> gdata" where
  "copyInterfaceMap input = (case input of None \<Rightarrow> [] | Some d \<Rightarrow> d)"

definition needs_tenancy :: "gdata \<Rightarrow> bool" where
  "needs_tenancy d = (\<not> mhas d ''tenant_id'' \<or> \<not> mhas d ''user_id'')"

definition add_tenancy :: "(string \<Rightarrow> string \<times> string) option \<Rightarrow> string \<Rightarrow> gdata \<Rightarrow> gdata" where
  "add_tenancy tenancy sessionID d = (case tenancy of None \<Rightarrow> d
     | Some lookup \<Rightarrow> if needs_tenancy d then
         (let (tenant, user) = lookup sessionID;
              d1 = (if mhas d ''tenant_id'' then d else mput ''tenant_id'' (GString tenant) d)
          in if mhas d ''user_id'' then d1 else mput ''user_id'' (GString user) d1)
       else d)"

text \<open>The chain fields Record and the checkpoint set before hashing.\<close>

definition chain_fields :: "int \<Rightarrow> string \<Rightarrow> gdata \<Rightarrow> gdata" where
  "chain_fields nextSequence head d = mput ''previous_event_hash'' (GString head)
     (mput ''ledger_sequence'' (GInt nextSequence) (mput ''audit_sequence'' (GInt nextSequence) d))"

text \<open>Hash, append and advance: what Record and the checkpoint share.\<close>

definition append_audit :: "('io \<Rightarrow> 'f \<Rightarrow> event \<Rightarrow> 'f \<times> ledger_error option) \<Rightarrow> 'io \<Rightarrow> 'f audit_state \<Rightarrow>
    event \<Rightarrow> 'f audit_state \<times> (ledger_error + string)" where
  "append_audit app io st ev = (case ComputeEventHash ev of Inl e \<Rightarrow> (st, Inl e)
     | Inr eventHash \<Rightarrow>
       (case LedgerWriter_Record (app io (as_log st) (put_hash eventHash ev)) ClassMustPersist of
          (log, Some e, _) \<Rightarrow> (st\<lparr>as_log := log\<rparr>, Inl e)
        | (log, None, _) \<Rightarrow> (st\<lparr>as_log := log, as_sequence := as_sequence st + 1,
             as_lastHash := eventHash\<rparr>, Inr eventHash)))"

definition checkpoint_data :: "string \<Rightarrow> string \<Rightarrow> int \<Rightarrow> string \<Rightarrow> gdata" where
  "checkpoint_data key ts sequence head =
    [(''checkpoint_schema_version'', GInt AuditLedgerCheckpointSchemaVersion),
     (''through_audit_sequence'', GInt sequence),
     (''through_event_hash'', GString head),
     (''checkpoint_timestamp_utc'', GString ts),
     (''checkpoint_hmac_sha256'', GString (hex_encode (ComputeAuditLedgerCheckpointHMAC key
        (BuildAuditLedgerCheckpointHMACMessageV1 sequence head ts))))]"

definition checkpoint_event :: "string \<Rightarrow> string \<Rightarrow> int \<Rightarrow> string \<Rightarrow> event" where
  "checkpoint_event key ts sequence head =
    \<lparr>ev_V = 0, ev_TS = ts, ev_Type = AuditLedgerHMACCheckpointEventType, ev_Session = [],
     ev_Data = Some (chain_fields (sequence + 1) head (checkpoint_data key ts sequence head))\<rparr>"

definition checkpoint_due :: "('io, 'f) audit_opts \<Rightarrow> 'f audit_state \<Rightarrow> bool" where
  "checkpoint_due opts st = (hc_Enabled (opt_Config opts) \<and> IntervalEvents (opt_Config opts) > 0 \<and>
     as_sinceCheckpoint st \<ge> IntervalEvents (opt_Config opts))"

definition appendHMACCheckpointIfDueLocked :: "('io \<Rightarrow> 'f \<Rightarrow> event \<Rightarrow> 'f \<times> ledger_error option) \<Rightarrow>
    ('io, 'f) audit_opts \<Rightarrow> 'io answers \<Rightarrow> 'f audit_state \<Rightarrow> 'f audit_state \<times> ledger_error option" where
  "appendHMACCheckpointIfDueLocked app opts ans st =
    (if \<not> checkpoint_due opts st then (st, None)
     else (case secret_checkpoint ans of Inl e \<Rightarrow> (st, Some e)
       | Inr key \<Rightarrow>
          (case append_audit app (io_checkpoint ans) st (checkpoint_event key
               (rfc3339nano (now_checkpoint ans)) (as_sequence st) (as_lastHash st)) of
             (st', Inl e) \<Rightarrow> (st', Some e)
           | (st', Inr _) \<Rightarrow> (st'\<lparr>as_sinceCheckpoint := 0\<rparr>, None))))"

definition record_event :: "gotime \<Rightarrow> string \<Rightarrow> string \<Rightarrow> gdata \<Rightarrow> event" where
  "record_event now eventType sessionID d = \<lparr>ev_V = 0, ev_TS = rfc3339nano now,
     ev_Type = eventType, ev_Session = sessionID, ev_Data = Some d\<rparr>"

definition Record :: "('io, 'f) audit_opts \<Rightarrow> 'io answers \<Rightarrow> 'f audit_state \<Rightarrow> string \<Rightarrow> string \<Rightarrow>
    gdata option \<Rightarrow> 'f audit_state \<times> (ledger_error + string)" where
  "Record opts ans st eventType sessionID data = (case opt_Append opts of
     None \<Rightarrow> (st, Inl (LedgerIO ''audit append function is nil''))
   | Some app \<Rightarrow> (let
       safeData = add_tenancy (opt_Tenancy opts) sessionID (copyInterfaceMap data);
       ev = record_event (now_event ans) eventType sessionID
              (chain_fields (as_sequence st + 1) (as_lastHash st) safeData)
     in case append_audit app (io_event ans) st ev of
       (st1, Inl e) \<Rightarrow> (st1, Inl e)
     | (st1, Inr eventHash) \<Rightarrow>
        (let st2 = st1\<lparr>as_sinceCheckpoint := as_sinceCheckpoint st1 + 1\<rparr> in
         case appendHMACCheckpointIfDueLocked app opts ans st2 of
           (st3, Some e) \<Rightarrow> (st3, Inl e)
         | (st3, None) \<Rightarrow> (case storeAnchorLocked opts ans st3 of
             (st4, Some e) \<Rightarrow> (st4, Inl e)
           | (st4, None) \<Rightarrow> (st4, Inr eventHash)))))"

section \<open>Load\<close>

definition set_head :: "int \<Rightarrow> string \<Rightarrow> int \<Rightarrow> 'f audit_state \<Rightarrow> 'f audit_state" where
  "set_head n h since st = st\<lparr>as_sequence := n, as_lastHash := h, as_sinceCheckpoint := since\<rparr>"

definition loadAndVerifyAnchor :: "('io, 'f) audit_opts \<Rightarrow> 'io answers \<Rightarrow> 'f audit_state \<Rightarrow> string \<Rightarrow>
    int \<Rightarrow> string \<Rightarrow> ledger_error + audit_anchor option" where
  "loadAndVerifyAnchor opts ans st key lastAuditSequence lastAuditHash =
    (if opt_AnchorPath opts = [] then Inr None
     else bindr (loadAuditLedgerAnchor (as_anchor st) key) (\<lambda>found.
       case found of None \<Rightarrow> Inr None
       | Some a \<Rightarrow>
          if AuditSequence a \<noteq> lastAuditSequence \<or> an_LastEventHash a \<noteq> lastAuditHash
          then Inl (Integrity ''audit ledger anchor head mismatch'')
          else bindr (activeLedgerFileState opts ans (as_log st)) (\<lambda>fs.
            if ActiveFileState a \<noteq> fs then Inl (Integrity ''audit ledger anchor active size mismatch'')
            else Inr (Some a))))"

text \<open>The second half of loadByScanning: the checkpoint counter, from the anchor or an inspection.\<close>

definition recover_checkpoint_counter :: "('io, 'f) audit_opts \<Rightarrow> 'io answers \<Rightarrow> string \<Rightarrow>
    'f audit_state \<Rightarrow> 'f audit_state \<times> ledger_error option" where
  "recover_checkpoint_counter opts ans key st =
    (case loadAndVerifyAnchor opts ans st key (as_sequence st) (as_lastHash st) of
       Inl e \<Rightarrow> (st, Some e)
     | Inr (Some a) \<Rightarrow> (st\<lparr>as_sinceCheckpoint := EventsSinceCheckpoint a\<rparr>, None)
     | Inr None \<Rightarrow>
        (case opt_OrderedFiles opts (as_log st) of Inl e \<Rightarrow> (st, Some e)
         | Inr paths \<Rightarrow>
            (case InspectAuditHMACCheckpoints (opt_f2i opts) paths key of
               (_, Some e) \<Rightarrow> (st, Some e)
             | (insp, None) \<Rightarrow>
                (case storeAnchor opts ans key (as_sequence st) (as_lastHash st)
                    (OrdinaryEventsSinceLastCheckpoint insp) st of
                   (st', Some e) \<Rightarrow> (st', Some e)
                 | (st', None) \<Rightarrow>
                    (st'\<lparr>as_sinceCheckpoint := OrdinaryEventsSinceLastCheckpoint insp\<rparr>, None)))))"

definition loadByScanning :: "('io, 'f) audit_opts \<Rightarrow> 'io answers \<Rightarrow> string option \<Rightarrow>
    'f audit_state \<Rightarrow> 'f audit_state \<times> ledger_error option" where
  "loadByScanning opts ans rawSecretBytes st0 =
    (case opt_ReadChain opts (as_log st0) ''audit_sequence'' of
       (log, Inl e) \<Rightarrow> (st0\<lparr>as_log := log\<rparr>, Some e)
     | (log, Inr (n, h)) \<Rightarrow> (let st = set_head n h 0 (st0\<lparr>as_log := log\<rparr>) in
        if \<not> hc_Enabled (opt_Config opts) then (st, None)
        else (case (case rawSecretBytes of Some key \<Rightarrow> Inr key | None \<Rightarrow> secret_checkpoint ans) of
            Inl e \<Rightarrow> (st, Some e)
          | Inr key \<Rightarrow> recover_checkpoint_counter opts ans key st)))"

definition loadFromAnchorIfFileStateMatches :: "('io, 'f) audit_opts \<Rightarrow> 'io answers \<Rightarrow> audit_anchor \<Rightarrow>
    'f audit_state \<Rightarrow> 'f audit_state \<times> (ledger_error + bool)" where
  "loadFromAnchorIfFileStateMatches opts ans a st =
    (if opt_AnchorPath opts = [] \<or> opt_Path opts = [] then (st, Inr False)
     else if opt_ManifestInUse opts (as_log st) then (st, Inr False)
     else (case stat_fails ans of Some m \<Rightarrow> (st, Inl (LedgerIO m))
       | None \<Rightarrow> (case opt_Stat opts (as_log st) of None \<Rightarrow> (st, Inr False)
          | Some fs \<Rightarrow>
             if ActiveFileState a \<noteq> fs then (st, Inr False)
             else (set_head (AuditSequence a) (an_LastEventHash a) (EventsSinceCheckpoint a)
                (st\<lparr>as_log := opt_Prime opts (as_log st) (AuditSequence a) (an_LastEventHash a)\<rparr>),
                Inr True))))"

definition Load :: "('io, 'f) audit_opts \<Rightarrow> 'io answers \<Rightarrow> 'f audit_state \<Rightarrow>
    'f audit_state \<times> ledger_error option" where
  "Load opts ans st =
    (if \<not> hc_Enabled (opt_Config opts) then loadByScanning opts ans None st
     else (case secret_checkpoint ans of Inl e \<Rightarrow> (st, Some e)
       | Inr key \<Rightarrow>
          (case loadAuditLedgerAnchor (if opt_AnchorPath opts = [] then NoAnchor else as_anchor st) key of
             Inl e \<Rightarrow> (st, Some e)
           | Inr (Some a) \<Rightarrow>
              (case loadFromAnchorIfFileStateMatches opts ans a st of
                 (st', Inl e) \<Rightarrow> (st', Some e)
               | (st', Inr True) \<Rightarrow> (st', None)
               | (st', Inr False) \<Rightarrow> loadByScanning opts ans (Some key) st')
           | Inr None \<Rightarrow> loadByScanning opts ans (Some key) st)))"

definition IntegrityModeMessage :: "hmac_config \<Rightarrow> string" where
  "IntegrityModeMessage cfg =
    (if hc_Enabled cfg then
       (let interval = (if IntervalEvents cfg \<le> 0 then 256 else IntervalEvents cfg) in
        ''Audit integrity: hash-chain + HMAC checkpoints (every '' @ int_str interval @ '' events)'')
     else ''Audit integrity: hash-chain only (HMAC checkpoints disabled)'')"

section \<open>The runtime stays in step with the ledger\<close>

text \<open>
  \<open>synced\<close>: the sequence and hash in memory are the verified end of the ledger, by either sequence
  field. \<open>attested\<close>: inspecting the ledger with the key succeeds and counts the ordinary events the
  runtime counts, and the last of them is the head unless a checkpoint was just written.
\<close>

definition synced :: "('f \<Rightarrow> line list) \<Rightarrow> ('f \<Rightarrow> bool) \<Rightarrow> 'f audit_state \<Rightarrow> bool" where
  "synced lines ready st \<longleftrightarrow> ready (as_log st) \<and>
     ReadVerifiedChainState (lines (as_log st)) ''ledger_sequence'' = Inr (as_sequence st, as_lastHash st) \<and>
     ReadVerifiedChainState (lines (as_log st)) ''audit_sequence'' = Inr (as_sequence st, as_lastHash st)"

definition attested :: "(string \<Rightarrow> int) \<Rightarrow> string \<Rightarrow> ('f \<Rightarrow> line list) \<Rightarrow> 'f audit_state \<Rightarrow> bool" where
  "attested f2i key lines st \<longleftrightarrow> as_sinceCheckpoint st \<ge> 0 \<and> (\<exists>i n h.
     inspect_lines f2i key inspect_start (lines (as_log st)) = ((i, n, h), None) \<and>
     OrdinaryEventsSinceLastCheckpoint i = as_sinceCheckpoint st \<and>
     (as_sinceCheckpoint st > 0 \<longrightarrow> n = as_sequence st \<and> h = as_lastHash st))"

lemma hashEvent_put_hash: "hashEvent (put_hash x (e\<lparr>ev_Data := Some d\<rparr>)) = hashEvent (e\<lparr>ev_Data := Some d\<rparr>)"
  by (simp add: hashEvent_eq put_hash_def data_of_def mdel_mput_same)

lemma hashEvent_versioned: "ev_Data e = Some d \<Longrightarrow> hashEvent (versioned e) = hashEvent e"
  by (cases e) (simp add: hashEvent_eq versioned_def data_of_def SchemaVersion_def)

lemma chained_again:
  assumes "map_of (data_of e) ''ledger_sequence'' = Some (GInt (n + 1))"
    "map_of (data_of e) ''previous_event_hash'' = Some (GString h)" "ev_Data e = Some d"
  shows "chained_event (versioned (put_hash x e)) n h = versioned (put_hash x e)"
proof -
  have "mput ''previous_event_hash'' (GString h) (mput ''ledger_sequence'' (GInt (n + 1))
      (mput ''event_hash'' (GString x) d)) = mput ''event_hash'' (GString x) d"
    using assms by (simp add: mput_same data_of_def)
  then show ?thesis
    using assms(3) by (simp add: chained_event_def versioned_def put_hash_def data_of_def)
qed

lemma chain_fields_lookup:
  "map_of (chain_fields n h d) k = (if k = ''previous_event_hash'' then Some (GString h)
     else if k = ''ledger_sequence'' \<or> k = ''audit_sequence'' then Some (GInt n) else map_of d k)"
  by (simp add: chain_fields_def)

lemma plain_chain_fields:
  "plain pf (GMap d) \<Longrightarrow> valid_utf8 h \<Longrightarrow> plain pf (GMap (chain_fields n h d))"
  unfolding chain_fields_def
  by (intro plain_data_mput) (simp_all add: ascii_byte_def del: plain_GMap)

lemma read_hash_utf8: "ReadVerifiedChainState ls fld = Inr (n, h) \<Longrightarrow> valid_utf8 h"
  unfolding ReadVerifiedChainState_def by (erule read_hash_valid) simp

lemma plain_put_hash:
  assumes "plain_event pf ev" "ComputeEventHash ev = Inr eh" shows "plain_event pf (put_hash eh ev)"
proof -
  have "valid_utf8 eh" using assms(2) by (auto simp: ComputeEventHash_def hashEvent_eq result_iffs)
  then show ?thesis
    using assms(1) plain_data_mput [of pf "data_of ev" "''event_hash''" "GString eh"]
    by (simp add: plain_event_def put_hash_def data_of_def ascii_byte_def del: plain_GMap)
qed

text \<open>An event stamped for the current head, and what its append adds to the ledger.\<close>

definition stamped :: "'f audit_state \<Rightarrow> event \<Rightarrow> bool" where
  "stamped st ev = (\<exists>d. ev_Data ev = Some (chain_fields (as_sequence st + 1) (as_lastHash st) d))"

definition recorded_line :: "(string \<Rightarrow> float64) \<Rightarrow> event \<Rightarrow> string \<Rightarrow> event \<Rightarrow> bool" where
  "recorded_line pf ev eh sev \<longleftrightarrow> ParseEvent (Line sev) = Some sev \<and> ev_Type sev = ev_Type ev \<and>
     ev_TS sev = ev_TS ev \<and> map_of (data_of sev) ''event_hash'' = Some (GString eh) \<and> eh \<noteq> [] \<and>
     (\<forall>k x. k \<noteq> ''event_hash'' \<longrightarrow> map_of (data_of ev) k = Some x \<longrightarrow>
       (\<exists>y. canonicalizeValue x = Inr y \<and> map_of (data_of sev) k = Some (read_back pf y)))"

context append_log
begin

lemma append_audit_step:
  assumes s: "synced lines ready st" and ev: "stamped st ev" "plain_event pf ev"
    and a: "append_audit app x st ev = (st', Inr eh)"
  shows "synced lines ready st'" "as_sequence st' = as_sequence st + 1" "as_lastHash st' = eh"
    "as_sinceCheckpoint st' = as_sinceCheckpoint st" "as_anchor st' = as_anchor st"
    "ComputeEventHash ev = Inr eh"
    "\<exists>sev. lines (as_log st') = lines (as_log st) @ [Line sev] \<and> recorded_line pf ev eh sev"
proof -
  let ?n = "as_sequence st" and ?h = "as_lastHash st"
  obtain d where d: "ev_Data ev = Some (chain_fields (?n + 1) ?h d)" using ev(1) by (auto simp: stamped_def)
  obtain log where hash: "ComputeEventHash ev = Inr eh" and app: "app x (as_log st) (put_hash eh ev) = (log, None)"
    and st': "st' = st\<lparr>as_log := log, as_sequence := ?n + 1, as_lastHash := eh\<rparr>"
    using a by (auto simp: append_audit_def LedgerWriter_Record_def split: sum.splits prod.splits option.splits if_splits)
  have ehv: "valid_utf8 eh" "eh \<noteq> []"
    using hash by (auto simp: ComputeEventHash_def hashEvent_eq result_iffs)
  let ?e = "put_hash eh ev"
  have pe: "plain_event pf ?e" by (rule plain_put_hash [OF ev(2) hash])
  have r: "ready (as_log st)"
    "ReadVerifiedChainState (lines (as_log st)) ''ledger_sequence'' = Inr (?n, ?h)"
    "ReadVerifiedChainState (lines (as_log st)) ''audit_sequence'' = Inr (?n, ?h)"
    using s by (auto simp: synced_def)
  from app_ok [OF app r(1) pe] have r': "ready log" and x: "extends_chain pf (lines (as_log st)) ?e (lines log)"
    by auto
  have look: "map_of (data_of ev) k = map_of (chain_fields (?n + 1) ?h d) k" for k
    using d by (simp add: data_of_def)
  have ch: "chained_event (versioned ?e) ?n ?h = versioned ?e"
    by (rule chained_again) (simp_all add: look chain_fields_lookup d)
  have ve: "ev\<lparr>ev_Data := Some (chain_fields (?n + 1) ?h d)\<rparr> = ev" using d by (cases ev) simp
  have he: "hashEvent (versioned ?e) = Inr eh"
    using hash hashEvent_put_hash [where x = eh and e = ev and d = "chain_fields (?n + 1) ?h d"] ve
    by (subst hashEvent_versioned [where d = "mput ''event_hash'' (GString eh) (data_of ev)"])
       (simp_all add: put_hash_def ComputeEventHash_def)
  have ed: "data_of (versioned ?e) = mput ''event_hash'' (GString eh) (data_of ev)"
    by (simp add: versioned_def put_hash_def data_of_def)
  have au: "map_of (data_of ?e) ''audit_sequence'' = Some (GInt (?n + 1))"
    using look by (simp add: put_hash_def data_of_def chain_fields_lookup d)
  obtain n h eh2 sev where rd: "ReadVerifiedChainState (lines (as_log st)) ''ledger_sequence'' = Inr (n, h)"
    and h2: "hashEvent (chained_event (versioned ?e) n h) = Inr eh2"
    and l: "lines log = lines (as_log st) @ [Line sev]" and sev1: "ParseEvent (Line sev) = Some sev"
      "ev_Type sev = ev_Type ?e" "ev_TS sev = ev_TS ?e"
      "map_of (data_of sev) ''event_hash'' = Some (GString eh2)"
    and sev2: "\<forall>k x. k \<noteq> ''event_hash'' \<longrightarrow> map_of (data_of (chained_event (versioned ?e) n h)) k = Some x \<longrightarrow>
       (\<exists>y. canonicalizeValue x = Inr y \<and> map_of (data_of sev) k = Some (read_back pf y))"
    and c0: "check_line ''ledger_sequence'' (n + 1) h (Line sev) = Inr eh2"
      "map_of (data_of ?e) ''audit_sequence'' = Some (GInt (n + 1)) \<longrightarrow>
         check_line ''audit_sequence'' (n + 1) h (Line sev) = Inr eh2"
    using extends_chain_verifies [OF x pe] by blast
  have nh: "n = ?n" "h = ?h" using rd r(2) by auto
  have "eh2 = eh" using h2 ch he by (simp only: nh sum.inject)
  note same = nh this
  have c: "check_line ''ledger_sequence'' (?n + 1) ?h (Line sev) = Inr eh"
    "check_line ''audit_sequence'' (?n + 1) ?h (Line sev) = Inr eh"
    using c0 au by (simp_all only: same)
  note sev = sev1 [unfolded same] sev2 [unfolded same ch]
  show "synced lines ready st'"
    using r r' l c by (simp add: synced_def st' ReadVerifiedChainState_def read_append)
  show "as_sequence st' = ?n + 1" "as_lastHash st' = eh"
    "as_sinceCheckpoint st' = as_sinceCheckpoint st" "as_anchor st' = as_anchor st" by (simp_all add: st')
  show "ComputeEventHash ev = Inr eh" by (rule hash)
  show "\<exists>sev. lines (as_log st') = lines (as_log st) @ [Line sev] \<and> recorded_line pf ev eh sev"
    using l sev ehv ed by (auto simp: recorded_line_def st' put_hash_def)
qed

lemma append_audit_failed:
  assumes "synced lines ready st" "clean x" "append_audit app x st ev = (st', Inl e)"
  shows "synced lines ready st'" "lines (as_log st') = lines (as_log st)"
    "as_sinceCheckpoint st' = as_sinceCheckpoint st" "as_sequence st' = as_sequence st"
    "as_lastHash st' = as_lastHash st"
proof -
  have "synced lines ready st' \<and> lines (as_log st') = lines (as_log st) \<and> as_sinceCheckpoint st' = as_sinceCheckpoint st \<and>
      as_sequence st' = as_sequence st \<and> as_lastHash st' = as_lastHash st"
    using assms by (auto simp: append_audit_def LedgerWriter_Record_def synced_def
        split: sum.splits prod.splits option.splits if_splits dest: app_failed)
  then show "synced lines ready st'" "lines (as_log st') = lines (as_log st)"
    "as_sinceCheckpoint st' = as_sinceCheckpoint st" "as_sequence st' = as_sequence st"
    "as_lastHash st' = as_lastHash st" by auto
qed

end

section \<open>Checkpoints verify after they are read back\<close>

lemma ParseEvent_Line_type: "ParseEvent (Line sev) = Some sev \<Longrightarrow>
    inspect_line f2i key s (Line sev) = (if ev_Type sev = AuditLedgerHMACCheckpointEventType
      then inspect_checkpoint f2i key s sev else inspect_ordinary f2i s sev)"
  by (simp add: inspect_line_def)

lemma recorded_int:
  assumes "recorded_line pf ev eh sev" "k \<noteq> ''event_hash''" "map_of (data_of ev) k = Some (GInt m)"
  shows "map_of (data_of sev) k = Some (GFloat (FInt m))"
proof -
  obtain y where "canonicalizeValue (GInt m) = Inr y" "map_of (data_of sev) k = Some (read_back pf y)"
    using assms unfolding recorded_line_def by blast
  then show ?thesis by (auto simp: result_iffs)
qed

lemma recorded_str:
  assumes "recorded_line pf ev eh sev" "k \<noteq> ''event_hash''" "map_of (data_of ev) k = Some (GString s)"
    "valid_utf8 s"
  shows "map_of (data_of sev) k = Some (GString s)"
proof -
  obtain y where "canonicalizeValue (GString s) = Inr y" "map_of (data_of sev) k = Some (read_back pf y)"
    using assms unfolding recorded_line_def by blast
  then show ?thesis using assms(4) by (auto simp: utf8_fix_valid)
qed

lemma inspect_recorded_ordinary:
  assumes "recorded_line pf ev eh sev" "ev_Type ev \<noteq> AuditLedgerHMACCheckpointEventType"
    "map_of (data_of ev) ''audit_sequence'' = Some (GInt m)"
  shows "inspect_line f2i key (i, n, h) (Line sev) = Inr (i\<lparr>OrdinaryEventsSinceLastCheckpoint :=
     OrdinaryEventsSinceLastCheckpoint i + 1\<rparr>, m, eh)"
proof -
  have "map_of (data_of sev) ''audit_sequence'' = Some (GFloat (FInt m))"
    by (rule recorded_int [OF assms(1) _ assms(3)]) simp
  then show ?thesis
    using assms by (simp add: recorded_line_def ParseEvent_Line_type inspect_ordinary_def
        int64FromEventData_def int64_of_float_def)
qed

lemma data_of_checkpoint_event:
  "map_of (data_of (checkpoint_event key ts n h)) k =
     (if k = ''previous_event_hash'' then Some (GString h)
      else if k = ''ledger_sequence'' \<or> k = ''audit_sequence'' then Some (GInt (n + 1))
      else map_of (checkpoint_data key ts n h) k)"
  by (simp add: checkpoint_event_def data_of_def chain_fields_lookup)

lemma plain_checkpoint_event:
  "valid_utf8 ts \<Longrightarrow> valid_utf8 h \<Longrightarrow> plain_event pf (checkpoint_event key ts n h)"
proof -
  assume v: "valid_utf8 ts" "valid_utf8 h"
  then have "plain pf (GMap (checkpoint_data key ts n h))"
    by (simp add: checkpoint_data_def map_wf_def ascii_byte_def)
  from plain_chain_fields [OF this v(2)] v(1) show ?thesis
    by (simp add: plain_event_def checkpoint_event_def data_of_def ascii_byte_def
        AuditLedgerHMACCheckpointEventType_def del: plain_GMap)
qed

lemma recorded_checkpoint_fields:
  assumes r: "recorded_line pf (checkpoint_event key ts n h) eh sev" and v: "valid_utf8 ts" "valid_utf8 h"
  shows "ev_Type sev = AuditLedgerHMACCheckpointEventType" "ev_TS sev = ts"
    "map_of (data_of sev) ''checkpoint_schema_version'' = Some (GFloat (FInt 1))"
    "map_of (data_of sev) ''through_audit_sequence'' = Some (GFloat (FInt n))"
    "map_of (data_of sev) ''through_event_hash'' = Some (GString h)"
    "map_of (data_of sev) ''checkpoint_timestamp_utc'' = Some (GString ts)"
    "map_of (data_of sev) ''checkpoint_hmac_sha256'' = Some (GString (hex_encode
       (ComputeAuditLedgerCheckpointHMAC key (BuildAuditLedgerCheckpointHMACMessageV1 n h ts))))"
proof -
  show "ev_Type sev = AuditLedgerHMACCheckpointEventType" "ev_TS sev = ts"
    using r by (simp_all add: recorded_line_def checkpoint_event_def)
  note look = data_of_checkpoint_event checkpoint_data_def AuditLedgerCheckpointSchemaVersion_def
  show "map_of (data_of sev) ''checkpoint_schema_version'' = Some (GFloat (FInt 1))"
    by (rule recorded_int [OF r]) (simp_all add: look)
  show "map_of (data_of sev) ''through_audit_sequence'' = Some (GFloat (FInt n))"
    by (rule recorded_int [OF r]) (simp_all add: look)
  show "map_of (data_of sev) ''through_event_hash'' = Some (GString h)"
    by (rule recorded_str [OF r]) (simp_all add: look v)
  show "map_of (data_of sev) ''checkpoint_timestamp_utc'' = Some (GString ts)"
    by (rule recorded_str [OF r]) (simp_all add: look v)
  show "map_of (data_of sev) ''checkpoint_hmac_sha256'' = Some (GString (hex_encode
       (ComputeAuditLedgerCheckpointHMAC key (BuildAuditLedgerCheckpointHMACMessageV1 n h ts))))"
    by (rule recorded_str [OF r]) (simp_all add: look)
qed

lemma recorded_checkpoint_verifies:
  assumes r: "recorded_line pf (checkpoint_event key ts n h) eh sev" and v: "valid_utf8 ts" "valid_utf8 h"
    and ts: "ts \<noteq> []"
  shows "VerifyAuditLedgerHMACCheckpointEvent f2i sev key = None"
proof -
  note f = recorded_checkpoint_fields [OF r v]
  have "ev_Data sev = Some (data_of sev)" using f(3) by (cases "ev_Data sev") (simp_all add: data_of_def)
  moreover have "hex_encode (ComputeAuditLedgerCheckpointHMAC key
      (BuildAuditLedgerCheckpointHMACMessageV1 n h ts)) \<noteq> []"
    using length_hex_encode by (metis ComputeAuditLedgerCheckpointHMAC_def length_hmac_sha256
        list.size(3) mult_eq_0_iff zero_neq_numeral)
  ultimately show ?thesis
    using f ts by (simp add: VerifyAuditLedgerHMACCheckpointEvent_def int64FromEventData_def
        int64_of_float_def AuditLedgerCheckpointSchemaVersion_def)
qed

lemma inspect_recorded_checkpoint:
  assumes r: "recorded_line pf (checkpoint_event key ts n h) eh sev" and v: "valid_utf8 ts" "valid_utf8 h"
    and ts: "ts \<noteq> []"
  shows "inspect_line f2i key (i, n, h) (Line sev) = Inr (i\<lparr>CheckpointCount := CheckpointCount i + 1,
      LastCheckpointThroughAuditSequence := n, LastCheckpointTimestampUTC := ts,
      OrdinaryEventsSinceLastCheckpoint := 0\<rparr>, n, h)"
proof -
  note f = recorded_checkpoint_fields [OF r v] and ver = recorded_checkpoint_verifies [OF r v ts]
  have "ParseEvent (Line sev) = Some sev" using r by (simp add: recorded_line_def)
  then show ?thesis
    using f ver by (simp add: ParseEvent_Line_type inspect_checkpoint_def int64FromEventData_def
        int64_of_float_def)
qed

section \<open>Record keeps the runtime in step\<close>

text \<open>
  Usable answers and inputs: the secret store gives the one key or an error, the recorded strings
  are UTF-8 and the event is not itself a checkpoint.
\<close>

definition plain_record :: "(string \<Rightarrow> float64) \<Rightarrow> ('io, 'f) audit_opts \<Rightarrow> string \<Rightarrow> string \<Rightarrow>
    gdata option \<Rightarrow> bool" where
  "plain_record pf opts eventType sessionID data \<longleftrightarrow> valid_utf8 eventType \<and> valid_utf8 sessionID \<and>
     plain pf (GMap (copyInterfaceMap data)) \<and> eventType \<noteq> AuditLedgerHMACCheckpointEventType \<and>
     (case opt_Tenancy opts of None \<Rightarrow> True
      | Some lookup \<Rightarrow> valid_utf8 (fst (lookup sessionID)) \<and> valid_utf8 (snd (lookup sessionID)))"

definition one_key :: "string \<Rightarrow> 'io answers \<Rightarrow> bool" where
  "one_key key ans = (case secret_checkpoint ans of Inl _ \<Rightarrow> True | Inr k \<Rightarrow> k = key)"

lemma plain_add_tenancy:
  assumes "plain_record pf opts eventType sessionID data"
  shows "plain pf (GMap (add_tenancy (opt_Tenancy opts) sessionID (copyInterfaceMap data)))"
proof (cases "opt_Tenancy opts")
  case None
  then show ?thesis using assms by (simp add: add_tenancy_def plain_record_def del: plain_GMap)
next
  case (Some lookup)
  let ?d = "copyInterfaceMap data"
  obtain t u where l: "lookup sessionID = (t, u)" by (cases "lookup sessionID")
  have p: "plain pf (GMap ?d)" "valid_utf8 t" "valid_utf8 u"
    using assms Some l by (simp_all add: plain_record_def del: plain_GMap)
  have 1: "plain pf (GMap (mput ''tenant_id'' (GString t) ?d))"
    by (rule plain_data_mput [OF p(1)]) (simp_all add: p ascii_byte_def)
  have "plain pf (GMap (mput ''user_id'' (GString u) m))" if "plain pf (GMap m)" for m
    by (rule plain_data_mput [OF that]) (simp_all add: p ascii_byte_def)
  with 1 p(1) Some l show ?thesis by (simp add: add_tenancy_def Let_def del: plain_GMap)
qed

lemma plain_record_event:
  assumes "plain_record pf opts eventType sessionID data" "valid_utf8 h"
  shows "plain_event pf (record_event now eventType sessionID
    (chain_fields n h (add_tenancy (opt_Tenancy opts) sessionID (copyInterfaceMap data))))"
  using plain_chain_fields [OF plain_add_tenancy [OF assms(1)] assms(2)] assms(1)
  by (simp add: plain_event_def record_event_def data_of_def plain_record_def del: plain_GMap)

lemma synced_hash: "synced lines ready st \<Longrightarrow> valid_utf8 (as_lastHash st)"
  by (auto simp: synced_def intro: read_hash_utf8)

lemma storeAnchor_keeps:
  "storeAnchor opts ans key n h since st = (st', err) \<Longrightarrow> st' = st\<lparr>as_anchor := as_anchor st'\<rparr>"
  by (auto simp: storeAnchor_def split: sum.splits prod.splits)

lemma storeAnchorLocked_keeps:
  "storeAnchorLocked opts ans st = (st', err) \<Longrightarrow> st' = st\<lparr>as_anchor := as_anchor st'\<rparr>"
  by (auto simp: storeAnchorLocked_def split: if_splits sum.splits dest: storeAnchor_keeps)

lemma synced_anchor [simp]: "synced lines ready (st\<lparr>as_anchor := a\<rparr>) = synced lines ready st"
  by (simp add: synced_def)

lemma attested_anchor [simp]: "attested f2i key lines (st\<lparr>as_anchor := a\<rparr>) = attested f2i key lines st"
  by (simp add: attested_def)

lemma synced_since [simp]: "synced lines ready (st\<lparr>as_sinceCheckpoint := a\<rparr>) = synced lines ready st"
  by (simp add: synced_def)

definition clean_answers :: "('io \<Rightarrow> bool) \<Rightarrow> 'io answers \<Rightarrow> bool" where
  "clean_answers clean ans \<longleftrightarrow> clean (io_event ans) \<and> clean (io_checkpoint ans)"

text \<open>The invariant of the runtime over the ledger: in step, and attested by its checkpoints.\<close>

definition audit_inv :: "(string \<Rightarrow> int) \<Rightarrow> string \<Rightarrow> ('f \<Rightarrow> line list) \<Rightarrow> ('f \<Rightarrow> bool) \<Rightarrow>
    'f audit_state \<Rightarrow> bool" where
  "audit_inv f2i key lines ready st \<longleftrightarrow> synced lines ready st \<and> attested f2i key lines st"

context append_log
begin

lemma checkpoint_keeps:
  assumes inv: "audit_inv f2i key lines ready st" and since: "0 < as_sinceCheckpoint st"
    and k: "one_key key ans"
    and c: "appendHMACCheckpointIfDueLocked app opts ans st = (st', err)"
    and ok: "err = None \<or> clean (io_checkpoint ans)"
  shows "audit_inv f2i key lines ready st'"
proof (cases "checkpoint_due opts st \<and> is_ok (secret_checkpoint ans)")
  case False
  then have "st' = st"
    using c by (auto simp: appendHMACCheckpointIfDueLocked_def split: if_splits sum.splits)
  then show ?thesis using inv by simp
next
  case True
  let ?ts = "rfc3339nano (now_checkpoint ans)"
  let ?ev = "checkpoint_event key ?ts (as_sequence st) (as_lastHash st)"
  have key: "secret_checkpoint ans = Inr key"
    using True k by (cases "secret_checkpoint ans") (simp_all add: one_key_def)
  have s: "synced lines ready st" and a: "attested f2i key lines st" using inv by (auto simp: audit_inv_def)
  have hv: "valid_utf8 (as_lastHash st)" by (rule synced_hash [OF s])
  have st: "stamped st ?ev" "plain_event pf ?ev"
    by (auto simp: stamped_def checkpoint_event_def intro: plain_checkpoint_event [unfolded checkpoint_event_def] hv)
  obtain st1 r where ap: "append_audit app (io_checkpoint ans) st ?ev = (st1, r)"
    by (cases "append_audit app (io_checkpoint ans) st ?ev")
  show ?thesis
  proof (cases r)
    case (Inl e)
    then have st': "st' = st1" "err = Some e" using c True key ap
      by (auto simp: appendHMACCheckpointIfDueLocked_def)
    with ok have "clean (io_checkpoint ans)" by simp
    from append_audit_failed [OF s this ap [unfolded Inl]] a show ?thesis
      by (simp add: audit_inv_def attested_def st')
  next
    case (Inr eh)
    then have st': "st' = st1\<lparr>as_sinceCheckpoint := 0\<rparr>" using c True key ap
      by (auto simp: appendHMACCheckpointIfDueLocked_def)
    note step = append_audit_step [OF s st ap [unfolded Inr]]
    from step(7) obtain sev where l: "lines (as_log st1) = lines (as_log st) @ [Line sev]"
      and rec: "recorded_line pf ?ev eh sev" by blast
    obtain i where i: "inspect_lines f2i key inspect_start (lines (as_log st)) =
        ((i, as_sequence st, as_lastHash st), None)"
      using a since by (auto simp: attested_def)
    have "inspect_line f2i key (i, as_sequence st, as_lastHash st) (Line sev) =
        Inr (i\<lparr>CheckpointCount := CheckpointCount i + 1,
          LastCheckpointThroughAuditSequence := as_sequence st, LastCheckpointTimestampUTC := ?ts,
          OrdinaryEventsSinceLastCheckpoint := 0\<rparr>, as_sequence st, as_lastHash st)"
      by (rule inspect_recorded_checkpoint [OF rec _ hv]) simp_all
    from inspect_lines_snoc [OF i this] show ?thesis
      using step(1) by (simp add: audit_inv_def st' attested_def l)
  qed
qed

lemma Record_keeps:
  assumes inv: "audit_inv f2i key lines ready st" and a: "opt_Append opts = Some app"
    and p: "plain_record pf opts eventType sessionID data" and k: "one_key key ans"
    and r: "Record opts ans st eventType sessionID data = (st', res)"
    and ok: "is_ok res \<or> clean_answers clean ans"
  shows "audit_inv f2i key lines ready st'"
proof -
  let ?d = "add_tenancy (opt_Tenancy opts) sessionID (copyInterfaceMap data)"
  let ?ev = "record_event (now_event ans) eventType sessionID
     (chain_fields (as_sequence st + 1) (as_lastHash st) ?d)"
  have s: "synced lines ready st" and att: "attested f2i key lines st" using inv by (auto simp: audit_inv_def)
  have ev: "stamped st ?ev" "plain_event pf ?ev"
    by (auto simp: stamped_def record_event_def intro: plain_record_event [OF p synced_hash [OF s], unfolded record_event_def])
  obtain st1 r1 where ap: "append_audit app (io_event ans) st ?ev = (st1, r1)"
    by (cases "append_audit app (io_event ans) st ?ev")
  show ?thesis
  proof (cases r1)
    case (Inl e)
    then have st': "st' = st1" "res = Inl e" using r a ap by (simp_all add: Record_def Let_def)
    with ok have "clean (io_event ans)" by (simp add: clean_answers_def)
    from append_audit_failed [OF s this ap [unfolded Inl]] att show ?thesis
      by (simp add: audit_inv_def attested_def st')
  next
    case (Inr eh)
    note step = append_audit_step [OF s ev ap [unfolded Inr]]
    from step(7) obtain sev where l: "lines (as_log st1) = lines (as_log st) @ [Line sev]"
      and rec: "recorded_line pf ?ev eh sev" by blast
    obtain i n h where i: "inspect_lines f2i key inspect_start (lines (as_log st)) = ((i, n, h), None)"
      "OrdinaryEventsSinceLastCheckpoint i = as_sinceCheckpoint st"
      using att by (auto simp: attested_def)
    have "inspect_line f2i key (i, n, h) (Line sev) = Inr (i\<lparr>OrdinaryEventsSinceLastCheckpoint :=
        OrdinaryEventsSinceLastCheckpoint i + 1\<rparr>, as_sequence st + 1, eh)"
      using p by (intro inspect_recorded_ordinary [OF rec])
        (simp_all add: record_event_def plain_record_def data_of_def chain_fields_lookup)
    note i' = inspect_lines_snoc [OF i(1) this]
    let ?st2 = "st1\<lparr>as_sinceCheckpoint := as_sinceCheckpoint st1 + 1\<rparr>"
    have inv2: "audit_inv f2i key lines ready ?st2"
      using step(1-4) i' i(2) att by (simp add: audit_inv_def attested_def l)
    have since: "0 < as_sinceCheckpoint ?st2" using step(4) att by (simp add: attested_def)
    obtain st3 err where c: "appendHMACCheckpointIfDueLocked app opts ans ?st2 = (st3, err)"
      by (cases "appendHMACCheckpointIfDueLocked app opts ans ?st2")
    obtain st4 err4 where an: "storeAnchorLocked opts ans st3 = (st4, err4)"
      by (cases "storeAnchorLocked opts ans st3")
    have res: "if err = None then st' = st4 else st' = st3 \<and> res = Inl (the err)"
      using r a ap Inr c an by (auto simp: Record_def Let_def split: option.splits)
    have "err = None \<or> clean (io_checkpoint ans)"
      using res ok by (auto simp: clean_answers_def split: if_splits)
    from checkpoint_keeps [OF inv2 since k c this] have "audit_inv f2i key lines ready st3" .
    then show ?thesis
      using res storeAnchorLocked_keeps [OF an]
      by (metis audit_inv_def synced_anchor attested_anchor)
  qed
qed

end

end
