(* ===== verification/RotatedLedger.thy ===== *)
theory RotatedLedger
  imports Segments AuditRuntime
begin

text \<open>
  The rotated append of Segments keeps the whole ledger, sealed segments first, one verified chain:
  its invariant \<open>rot_ready\<close>, what a rollover seals, the outcome of every way through
  AppendWithRotation, and its interpretation as an \<open>append_log\<close>.
\<close>

section \<open>The invariant of a rotated ledger\<close>

text \<open>
  The base the active file continues from: the manifest's last sequence and hash, or the start of
  the chain when rotation is off. The ledger's lines are the sealed ones and the active ones.
\<close>

definition ledger_base :: "rotation_settings \<Rightarrow> disk \<Rightarrow> ledger_error + manifest_state" where
  "ledger_base rs d = (if RotateAtBytes rs > 0
     then readVerifiedManifestState None (manifest d) (Some (sealed_dir d)) (VerifyClosedSegmentsOnStartup rs)
     else Inr no_manifest)"

definition segment_lines :: "disk \<Rightarrow> manifest_entry \<Rightarrow> line list" where
  "segment_lines d e = (case map_of (sealed_dir d) (SegmentFilename e) of
     Some (Segment s) \<Rightarrow> seg_lines s | _ \<Rightarrow> [])"

definition sealed_lines :: "disk \<Rightarrow> manifest_state \<Rightarrow> line list" where
  "sealed_lines d ms = concat (map (segment_lines d) (entries ms))"

definition rot_lines :: "rotation_settings \<Rightarrow> disk \<Rightarrow> line list" where
  "rot_lines rs d = (case ledger_base rs d of Inl _ \<Rightarrow> [] | Inr ms \<Rightarrow> sealed_lines d ms) @ content (act d)"

definition cache_from :: "int \<Rightarrow> string \<Rightarrow> ledger_file \<Rightarrow> bool" where
  "cache_from b bh f = (case cached f of None \<Rightarrow> True
     | Some c \<Rightarrow> if fileState c = stamp f
         then readVerifiedChainStateFromBase (content f) ''ledger_sequence'' b bh =
           Inr (lastSequence c, lastHash c)
         else fileState c < stamp f)"

definition rot_ready :: "rotation_settings \<Rightarrow> disk \<Rightarrow> bool" where
  "rot_ready rs d \<longleftrightarrow> map_wf (sealed_dir d) \<and> (\<not> act_exists d \<longrightarrow> content (act d) = []) \<and>
     (\<exists>ms. ledger_base rs d = Inr ms \<and>
       ReadVerifiedChainState (sealed_lines d ms) ''ledger_sequence'' =
         Inr (ms_lastSequence ms, ms_lastEventHash ms) \<and>
       cache_from (ms_lastSequence ms) (ms_lastEventHash ms) (act d))"

text \<open>No write is torn or left behind unreported, and a rollover that renames the file also seals it.\<close>

definition clean_rot :: "rot_io \<Rightarrow> bool" where
  "clean_rot io \<longleftrightarrow> encode io \<noteq> TornWrite \<and> sync_error io = None \<and>
     sync_active_dir (roll io) = None \<and> sync_segment_dir (roll io) = None \<and> hash_error (roll io) = None \<and>
     manifest_write (roll io) = EntryWritten \<and> sync_manifest_dir (roll io) = None"

lemma cache_from_None [simp]: "cached f = None \<Longrightarrow> cache_from b bh f"
  by (simp add: cache_from_def)

lemma cache_from_0: "cache_from 0 [] f = cache_ok f"
  by (simp add: cache_from_def cache_ok_def ReadVerifiedChainState_def split: option.split)

lemma clear_act_simps [simp]: "content (act (clear_act d)) = content (act d)" "cached (act (clear_act d)) = None"
  "segments (clear_act d) = segments d" "manifest (clear_act d) = manifest d"
  "act_exists (clear_act d) = act_exists d"
  by (simp_all add: clear_act_def clearCache_def)

lemma write_active_simps [simp]: "content (act (write_active l b d)) = content (act d) @ [l]"
  "segments (write_active l b d) = segments d" "manifest (write_active l b d) = manifest d"
  "act_exists (write_active l b d) = act_exists d"
  by (simp_all add: write_active_def write_line_def)

lemma active_chain_spec:
  assumes "cache_from b bh f" "active_chain f b bh = (f1, r)"
  shows "content f1 = content f" "cache_from b bh f1"
    "r = readVerifiedChainStateFromBase (content f) ''ledger_sequence'' b bh"
proof -
  have "content f1 = content f \<and> cache_from b bh f1 \<and>
      r = readVerifiedChainStateFromBase (content f) ''ledger_sequence'' b bh"
  proof (cases "readVerifiedChainStateFromBase (content f) ''ledger_sequence'' b bh")
    case (Inl e)
    then show ?thesis using assms
      by (auto simp: active_chain_def loadCachedChainState_def cache_from_def clearCache_def
          split: option.splits if_splits)
  next
    case (Inr nh)
    then show ?thesis using assms
      by (cases nh) (auto simp: active_chain_def loadCachedChainState_def cache_from_def clearCache_def
          split: option.splits if_splits)
  qed
  then show "content f1 = content f" "cache_from b bh f1"
    "r = readVerifiedChainStateFromBase (content f) ''ledger_sequence'' b bh" by auto
qed

text \<open>The outcomes of an append to the active file that continues from base \<open>(b, bh)\<close>.\<close>

definition same_sealed :: "disk \<Rightarrow> disk \<Rightarrow> bool" where
  "same_sealed d d' \<longleftrightarrow> sealed_dir d' = sealed_dir d \<and> manifest d' = manifest d \<and> act_exists d' = act_exists d"

definition chained_to :: "(string \<Rightarrow> float64) \<Rightarrow> int \<Rightarrow> string \<Rightarrow> disk \<Rightarrow> event \<Rightarrow> disk \<Rightarrow> bool" where
  "chained_to pf b bh d e d' = (\<exists>n h c eh.
     readVerifiedChainStateFromBase (content (act d)) ''ledger_sequence'' b bh = Inr (n, h) \<and>
     hashEvent (chained_event (versioned e) n h) = Inr eh \<and>
     canonicalizeEvent (put_hash eh (chained_event (versioned e) n h)) False = Inr c \<and>
     content (act d') = content (act d) @ [Line (stored_event pf c)] \<and>
     (cached (act d') = None \<or> cached (act d') = Some \<lparr>lastSequence = n + 1, lastHash = eh,
        fileState = stamp (act d')\<rparr>))"

lemma write_prepared_cases:
  assumes "write_prepared pf io n ev bytes eh d = (d', err)"
  shows "same_sealed d d' \<and> (err = None \<and> content (act d') = content (act d) @ [Line (stored_event pf ev)] \<and>
       (cached (act d') = None \<or> cached (act d') = Some \<lparr>lastSequence = n + 1, lastHash = eh,
          fileState = stamp (act d')\<rparr>) \<or>
     err \<noteq> None \<and> cached (act d') = None \<and>
       (encode io \<noteq> TornWrite \<and> sync_error io = None \<longrightarrow> content (act d') = content (act d)))"
proof (cases "seek_error io = None \<and> encode io = Encoded")
  case True
  show ?thesis
  proof (cases "sync_error io")
    case None
    with True assms show ?thesis
      by (auto simp: write_prepared_def same_sealed_def sealed_dir_def Let_def split: if_splits)
  next
    case (Some m)
    with True assms show ?thesis
      by (auto simp: write_prepared_def same_sealed_def sealed_dir_def Let_def)
  qed
next
  case False
  with assms show ?thesis
    by (cases "encode io"; cases "seek_error io") (auto simp: write_prepared_def same_sealed_def sealed_dir_def)
qed

lemma appendPrepared_cases:
  assumes c: "cache_from b bh (act d)"
    and a: "appendPreparedEventToFile pf io maxb b bh e d = (d', err)"
  shows "same_sealed d d' \<and> (err = None \<and> chained_to pf b bh d e d' \<or>
     err \<noteq> None \<and> cached (act d') = None \<and>
       (encode io \<noteq> TornWrite \<and> sync_error io = None \<longrightarrow> content (act d') = content (act d)))"
proof -
  obtain f1 r where ac: "active_chain (act d) b bh = (f1, r)" by (cases "active_chain (act d) b bh")
  note spec = active_chain_spec [OF c ac]
  show ?thesis
  proof (cases "append_stat_error io = None \<and> is_ok r")
    case False
    with a ac spec(1) show ?thesis
      by (cases r) (auto simp: appendPreparedEventToFile_def same_sealed_def sealed_dir_def split: option.splits)
  next
    case True
    then obtain n h where r: "r = Inr (n, h)" by (cases r) auto
    show ?thesis
    proof (cases "prepareLedgerEventLine n h e")
      case (Inl x)
      with True a ac spec(1) r show ?thesis
        by (auto simp: appendPreparedEventToFile_def same_sealed_def sealed_dir_def Let_def)
    next
      case (Inr p)
      obtain ev bytes eh where p: "p = (ev, bytes, eh)" by (cases p)
      show ?thesis
      proof (cases "validateEventLineSize bytes maxb")
        case (Some x)
        with True a ac spec(1) r Inr p show ?thesis
          by (auto simp: appendPreparedEventToFile_def same_sealed_def sealed_dir_def Let_def)
      next
        case None
        have w: "write_prepared pf io n ev bytes eh (d\<lparr>act := f1\<rparr>) = (d', err)"
          using True a ac r Inr p None by (simp add: appendPreparedEventToFile_def Let_def)
        have rd: "readVerifiedChainStateFromBase (content (act d)) ''ledger_sequence'' b bh = Inr (n, h)"
          using spec(3) r by simp
        from write_prepared_cases [OF w] rd prepare_agrees [OF Inr [unfolded p]] spec(1) show ?thesis
          unfolding chained_to_def same_sealed_def sealed_dir_def by auto
      qed
    qed
  qed
qed

lemma chained_to_cache:
  assumes ct: "chained_to pf b bh d e d'" and p: "plain_event pf e" and v: "valid_utf8 bh"
  shows "cache_from b bh (act d')"
proof -
  obtain n h c eh where r: "readVerifiedChainStateFromBase (content (act d)) ''ledger_sequence'' b bh = Inr (n, h)"
    and x: "hashEvent (chained_event (versioned e) n h) = Inr eh"
      "canonicalizeEvent (put_hash eh (chained_event (versioned e) n h)) False = Inr c"
    and l: "content (act d') = content (act d) @ [Line (stored_event pf c)]"
    and k: "cached (act d') = None \<or> cached (act d') = Some \<lparr>lastSequence = n + 1, lastHash = eh,
        fileState = stamp (act d')\<rparr>"
    using ct by (auto simp: chained_to_def)
  have "valid_utf8 h" by (rule read_hash_valid [OF r v])
  then have "check_line ''ledger_sequence'' (n + 1) h (Line (stored_event pf c)) = Inr eh"
    using p x by (intro stored_chained_line [OF _ _ _ x chained_ledger_sequence]) auto
  then have "readVerifiedChainStateFromBase (content (act d')) ''ledger_sequence'' b bh = Inr (n + 1, eh)"
    by (simp add: l read_append r)
  with k show ?thesis by (auto simp: cache_from_def)
qed

section \<open>A rollover seals a segment that verifies\<close>

lemma pad20_free: "c \<in> set (pad20 n) \<Longrightarrow> is_digit c \<or> c = CHR ''-''"
  by (auto simp: pad20_def split: if_splits dest: pad_left_chars)

lemma filepath_base_plain: "s \<noteq> [] \<Longrightarrow> slash \<notin> set s \<Longrightarrow> filepath_base s = s"
proof -
  assume s: "s \<noteq> []" "slash \<notin> set s"
  then have l: "last s \<noteq> slash" using last_in_set by metis
  then have d: "dropWhile (\<lambda>c. c = slash) (rev s) = rev s"
    using s(1) by (cases "rev s") (auto simp: hd_rev [symmetric] last_rev)
  have t: "takeWhile (\<lambda>c. c \<noteq> slash) (rev s) = rev s"
    using s(2) by (auto simp: takeWhile_eq_all_conv)
  show ?thesis using s(1) by (simp only: filepath_base_def Let_def d t rev_rev_ident) simp
qed

lemma segmentFilename_valid: "filepath_base (segmentFilename a b) = segmentFilename a b"
  "segment_name (segmentFilename a b)"
proof -
  have "slash \<notin> set (segmentFilename a b)"
    using pad20_free [of slash] by (auto simp: segmentFilename_def segmentFilePrefix_def
        segmentFileSuffix_def is_digit_def)
  then show "filepath_base (segmentFilename a b) = segmentFilename a b"
    by (intro filepath_base_plain) (simp_all add: segmentFilename_def segmentFilePrefix_def)
  show "segment_name (segmentFilename a b)"
    by (simp add: segment_name_def segmentFilename_def has_prefix_def has_suffix_def suffix_def)
qed

lemma time_char_graphic: "time_char c \<Longrightarrow> graphic c"
  by (auto simp: time_char_def is_digit_def graphic_def Let_def)

lemma not_blank_rfc3339nano [simp]: "\<not> blank (rfc3339nano t)"
proof -
  have "trim_space (rfc3339nano t) = rfc3339nano t"
    by (intro trim_space_graphic disjI2 conjI time_char_graphic rfc3339nano_chars [of _ t]) simp_all
  then show ?thesis by (simp add: blank_def)
qed

lemma not_blank_sha256_hex [simp]: "\<not> blank (sha256_hex s)"
  by (simp add: blank_def)

lemma check_line_hex: "check_line fld n h l = Inr h' \<Longrightarrow> \<exists>x. h' = sha256_hex x"
  by (auto simp: check_line_Inr hashEvent_eq result_iffs)

lemma read_hash_hex:
  "readVerifiedChainStateFromBase ls fld n h = Inr (n', h') \<Longrightarrow> n < n' \<Longrightarrow> \<exists>x. h' = sha256_hex x"
proof (induction ls arbitrary: n h)
  case (Cons l ls)
  then obtain x where x: "check_line fld (n + 1) h l = Inr x"
    and r: "readVerifiedChainStateFromBase ls fld (n + 1) x = Inr (n', h')"
    by (auto simp: result_iffs)
  show ?case
  proof (cases "n + 1 < n'")
    case True
    with Cons.IH [OF r] show ?thesis by simp
  next
    case False
    then have "ls = []" using read_count [OF r] Cons.prems(2) by simp
    with r x show ?thesis using check_line_hex by auto
  qed
qed simp

lemma sealing_entry_valid:
  assumes "ms_lastSequence ms < n" "bytes \<noteq> []" "\<not> blank h"
  shows "validateManifestEntry (sealing_entry io ms n h bytes) (lastManifestSequence ms + 1)
    (ms_lastSequence ms + 1) (lastManifestHash ms) = None"
  using assms segmentFilename_valid
  by (simp add: validateManifestEntry_def sealing_entry_def Let_def segmentManifestVersion_def
      hashManifestEntry_def)

lemma sealing_entry_simps [simp]:
  "SegmentFilename (sealing_entry io ms n h b) = segmentFilename (ms_lastSequence ms + 1) n"
  "FileSizeBytes (sealing_entry io ms n h b) = int (length b)"
  "FileSHA256 (sealing_entry io ms n h b) = sha256_hex b"
  "LastSequence (sealing_entry io ms n h b) = n" "LastEventHash (sealing_entry io ms n h b) = h"
  by (simp_all add: sealing_entry_def Let_def)

lemma manifest_push_simps [simp]: "entries (manifest_push e ms) = entries ms @ [e]"
  "ms_lastSequence (manifest_push e ms) = LastSequence e"
  "ms_lastEventHash (manifest_push e ms) = LastEventHash e"
  by (simp_all add: manifest_push_def)

lemma rename_active_simps [simp]:
  "sealed_dir (rename_active name d) = mput name (Segment \<lparr>seg_lines = content (act d),
     seg_bytes = act_bytes d\<rparr>) (sealed_dir d)"
  "manifest (rename_active name d) = manifest d" "content (act (rename_active name d)) = []"
  "cached (act (rename_active name d)) = cached (act d)"
  "stamp (act (rename_active name d)) = Suc (stamp (act d))" "act_exists (rename_active name d) = False"
  by (simp_all add: rename_active_def sealed_dir_def)

lemma base_entries_exist:
  assumes "ledger_base rs d = Inr ms" "e \<in> set (entries ms)"
  shows "mhas (sealed_dir d) (SegmentFilename e)"
proof (cases "RotateAtBytes rs > 0")
  case True
  then have "\<forall>p\<in>set (refs_of (entries ms)). bad_reference (sealed_dir d) (VerifyClosedSegmentsOnStartup rs) p = None"
    using assms(1) by (auto simp: ledger_base_def readVerifiedManifestState_Inr verifyManifestReferences_ok)
  then show ?thesis
    using assms(2) by (force simp: in_refs_of bad_reference_None mhas_def)
next
  case False
  with assms show ?thesis by (auto simp: ledger_base_def)
qed

lemma appendManifestEntry_written:
  "appendManifestEntry outcome e d = (d', None) \<longleftrightarrow>
     outcome = EntryWritten \<and> d' = d\<lparr>manifest := Some (manifest_lines (manifest d) @ [Entry e])\<rparr>"
  by (cases outcome) (auto simp: appendManifestEntry_def Let_def)

lemma rollover_outcome:
  assumes "rolloverActiveSegment io ms n h d = (d3, err)"
  defines "name \<equiv> segmentFilename (ms_lastSequence ms + 1) n"
  shows "err = None \<Longrightarrow> ms_lastSequence ms < n \<and> \<not> mhas (sealed_dir d) name \<and>
      d3 = (rename_active name d)\<lparr>manifest := Some (manifest_lines (manifest d) @
        [Entry (sealing_entry io ms n h (act_bytes d))])\<rparr>"
    and "err \<noteq> None \<Longrightarrow> clean_rot io \<Longrightarrow> d3 = d"
  using assms
  by (auto simp: rolloverActiveSegment_def clean_rot_def Let_def appendManifestEntry_written name_def
      split: if_splits option.splits prod.splits) (auto simp: appendManifestEntry_def Let_def)

lemma rollover_ready:
  assumes rot: "RotateAtBytes rs > 0" and wf: "map_wf (sealed_dir d)"
    and base: "ledger_base rs d = Inr ms"
    and sealed: "ReadVerifiedChainState (sealed_lines d ms) ''ledger_sequence'' =
        Inr (ms_lastSequence ms, ms_lastEventHash ms)"
    and cache: "cache_from (ms_lastSequence ms) (ms_lastEventHash ms) (act d)"
    and active: "readVerifiedChainStateFromBase (content (act d)) ''ledger_sequence''
        (ms_lastSequence ms) (ms_lastEventHash ms) = Inr (n, h)"
    and bytes: "act_bytes d \<noteq> []"
    and roll: "rolloverActiveSegment io ms n h d = (d3, None)"
  shows "ledger_base rs d3 = Inr (manifest_push (sealing_entry io ms n h (act_bytes d)) ms)"
    "sealed_lines d3 (manifest_push (sealing_entry io ms n h (act_bytes d)) ms) =
       sealed_lines d ms @ content (act d)"
    "content (act d3) = []" "rot_ready rs d3" "rot_lines rs d3 = rot_lines rs d"
proof -
  let ?e = "sealing_entry io ms n h (act_bytes d)" and ?name = "segmentFilename (ms_lastSequence ms + 1) n"
  let ?ms = "manifest_push ?e ms"
  have lt: "ms_lastSequence ms < n" and new: "\<not> mhas (sealed_dir d) ?name"
    and d3: "d3 = (rename_active ?name d)\<lparr>manifest := Some (manifest_lines (manifest d) @ [Entry ?e])\<rparr>"
    using rollover_outcome(1) [OF roll] by auto
  have sd: "sealed_dir d3 = mput ?name (Segment \<lparr>seg_lines = content (act d), seg_bytes = act_bytes d\<rparr>) (sealed_dir d)"
    unfolding d3 rename_active_simps(1) [symmetric] by (simp add: sealed_dir_def)
  have hb: "\<not> blank h" using read_hash_hex [OF active lt] by auto
  have "readVerifiedManifestState None (Some (manifest_lines (manifest d) @ [Entry ?e]))
      (Some (mput (SegmentFilename ?e) (Segment \<lparr>seg_lines = content (act d), seg_bytes = act_bytes d\<rparr>)
        (sealed_dir d))) (VerifyClosedSegmentsOnStartup rs) = Inr ?ms"
    using base rot
    by (intro readVerified_push [OF _ wf sealing_entry_valid [OF lt bytes hb]])
       (simp_all add: new ledger_base_def)
  then show b3: "ledger_base rs d3 = Inr ?ms" using rot by (simp add: ledger_base_def sd) (simp add: d3)
  have "segment_lines d3 e = segment_lines d e" if "e \<in> set (entries ms)" for e
    using base_entries_exist [OF base that] new by (auto simp: segment_lines_def sd)
  then have "concat (map (segment_lines d3) (entries ms)) = concat (map (segment_lines d) (entries ms))"
    by (metis map_eq_conv)
  moreover have "segment_lines d3 ?e = content (act d)" by (simp add: segment_lines_def sd)
  ultimately show s3: "sealed_lines d3 ?ms = sealed_lines d ms @ content (act d)"
    by (simp add: sealed_lines_def)
  show c3: "content (act d3) = []" by (simp add: d3)
  have "cache_from n h (act d3)"
    using cache by (auto simp: cache_from_def d3 split: option.splits if_splits)
  moreover have "ReadVerifiedChainState (sealed_lines d3 ?ms) ''ledger_sequence'' = Inr (n, h)"
    using sealed active by (simp add: s3 ReadVerifiedChainState_def read_append)
  ultimately show "rot_ready rs d3"
    using b3 c3 wf by (simp add: rot_ready_def sd)
  show "rot_lines rs d3 = rot_lines rs d"
    by (simp add: rot_lines_def b3 base s3 c3)
qed

section \<open>The rotated append is an append function\<close>

lemma same_sealed_base:
  "same_sealed d d' \<Longrightarrow> ledger_base rs d' = ledger_base rs d \<and> sealed_lines d' ms = sealed_lines d ms"
  by (simp add: same_sealed_def ledger_base_def sealed_lines_def segment_lines_def [abs_def])

lemma rot_readyD:
  assumes "rot_ready rs d" "ledger_base rs d = Inr ms"
  shows "map_wf (sealed_dir d)" "\<not> act_exists d \<longrightarrow> content (act d) = []"
    "ReadVerifiedChainState (sealed_lines d ms) ''ledger_sequence'' =
       Inr (ms_lastSequence ms, ms_lastEventHash ms)"
    "cache_from (ms_lastSequence ms) (ms_lastEventHash ms) (act d)"
  using assms by (auto simp: rot_ready_def)

lemma rot_readyI:
  assumes "rot_ready rs d" "ledger_base rs d = Inr ms" "same_sealed d d'" "act_exists d"
    "cache_from (ms_lastSequence ms) (ms_lastEventHash ms) (act d')"
  shows "rot_ready rs d'"
  using assms same_sealed_base [OF assms(3)] rot_readyD [OF assms(1,2)]
  by (simp add: rot_ready_def same_sealed_def)

lemma chained_extends:
  assumes "rot_ready rs d" "ledger_base rs d = Inr ms" "same_sealed d d'"
    "chained_to pf (ms_lastSequence ms) (ms_lastEventHash ms) d e d'"
  shows "extends_chain pf (rot_lines rs d) e (rot_lines rs d')"
proof -
  obtain n h c eh where r: "readVerifiedChainStateFromBase (content (act d)) ''ledger_sequence''
      (ms_lastSequence ms) (ms_lastEventHash ms) = Inr (n, h)"
    and x: "hashEvent (chained_event (versioned e) n h) = Inr eh"
      "canonicalizeEvent (put_hash eh (chained_event (versioned e) n h)) False = Inr c"
    and l: "content (act d') = content (act d) @ [Line (stored_event pf c)]"
    using assms(4) by (auto simp: chained_to_def)
  have "ReadVerifiedChainState (rot_lines rs d) ''ledger_sequence'' = Inr (n, h)"
    using rot_readyD(3) [OF assms(1,2)] r
    by (simp add: rot_lines_def assms(2) ReadVerifiedChainState_def read_append)
  moreover have "rot_lines rs d' = rot_lines rs d @ [Line (stored_event pf c)]"
    using same_sealed_base [OF assms(3), of rs ms] by (simp add: rot_lines_def assms(2) l)
  ultimately show ?thesis using x by (auto simp: extends_chain_def)
qed

lemma same_lines:
  "same_sealed d d' \<Longrightarrow> content (act d') = content (act d) \<Longrightarrow> rot_lines rs d' = rot_lines rs d"
  using same_sealed_base [of d d' rs] by (auto simp: rot_lines_def split: sum.split)

lemma prepared_ready:
  assumes r: "rot_ready rs d" "ledger_base rs d = Inr ms" "act_exists d"
    and a: "appendPreparedEventToFile pf io maxb (ms_lastSequence ms) (ms_lastEventHash ms) e d = (d', err)"
  shows "err = None \<Longrightarrow> plain_event pf e \<Longrightarrow> rot_ready rs d' \<and> extends_chain pf (rot_lines rs d) e (rot_lines rs d')"
    and "err \<noteq> None \<Longrightarrow> clean_rot io \<Longrightarrow> rot_ready rs d' \<and> rot_lines rs d' = rot_lines rs d"
proof -
  note D = rot_readyD [OF r(1,2)] and cases = appendPrepared_cases [OF rot_readyD(4) [OF r(1,2)] a]
  have hv: "valid_utf8 (ms_lastEventHash ms)"
    using D(3) unfolding ReadVerifiedChainState_def by (rule read_hash_valid) simp
  show "rot_ready rs d' \<and> extends_chain pf (rot_lines rs d) e (rot_lines rs d')"
    if ok: "err = None" and p: "plain_event pf e"
  proof -
    have s: "same_sealed d d'" and ct: "chained_to pf (ms_lastSequence ms) (ms_lastEventHash ms) d e d'"
      using cases ok by auto
    show ?thesis
      using rot_readyI [OF r(1,2) s r(3) chained_to_cache [OF ct p hv]] chained_extends [OF r(1,2) s ct] by simp
  qed
  show "rot_ready rs d' \<and> rot_lines rs d' = rot_lines rs d" if "err \<noteq> None" "clean_rot io"
  proof -
    have s: "same_sealed d d'" and k: "cached (act d') = None" "content (act d') = content (act d)"
      using cases that by (auto simp: clean_rot_def)
    show ?thesis using rot_readyI [OF r(1,2) s r(3)] same_lines [OF s k(2)] k(1) by simp
  qed
qed

lemma open_active_ready:
  assumes "rot_ready rs d" "ledger_base rs d = Inr ms"
  shows "rot_ready rs (open_active d)" "ledger_base rs (open_active d) = Inr ms" "act_exists (open_active d)"
    "rot_lines rs (open_active d) = rot_lines rs d" "content (act (open_active d)) = content (act d)"
proof -
  note D = rot_readyD [OF assms]
  have s: "sealed_dir (open_active d) = sealed_dir d" "manifest (open_active d) = manifest d"
    by (simp_all add: open_active_def sealed_dir_def)
  show c: "content (act (open_active d)) = content (act d)" using D(2) by (auto simp: open_active_def)
  show b: "ledger_base rs (open_active d) = Inr ms" using assms(2) unfolding ledger_base_def s .
  show x: "act_exists (open_active d)" by (simp add: open_active_def)
  have sl: "sealed_lines (open_active d) ms = sealed_lines d ms"
    by (simp add: sealed_lines_def segment_lines_def [abs_def] s)
  show "rot_lines rs (open_active d) = rot_lines rs d" by (simp add: rot_lines_def b assms(2) sl c)
  have "cache_from (ms_lastSequence ms) (ms_lastEventHash ms) (act (open_active d))"
    using D(4) by (auto simp: open_active_def cache_from_def split: option.splits if_splits)
  with D(1,3) b x sl show "rot_ready rs (open_active d)" by (simp add: rot_ready_def s)
qed

lemma with_segments_ready:
  "rot_ready rs (d\<lparr>segments := Some (sealed_dir d)\<rparr>) = rot_ready rs d"
  "ledger_base rs (d\<lparr>segments := Some (sealed_dir d)\<rparr>) = ledger_base rs d"
  "rot_lines rs (d\<lparr>segments := Some (sealed_dir d)\<rparr>) = rot_lines rs d"
  "sealed_dir (d\<lparr>segments := Some (sealed_dir d)\<rparr>) = sealed_dir d"
proof -
  show s: "sealed_dir (d\<lparr>segments := Some (sealed_dir d)\<rparr>) = sealed_dir d" by (simp add: sealed_dir_def)
  show b: "ledger_base rs (d\<lparr>segments := Some (sealed_dir d)\<rparr>) = ledger_base rs d"
    unfolding ledger_base_def s by simp
  have sl: "sealed_lines (d\<lparr>segments := Some (sealed_dir d)\<rparr>) ms = sealed_lines d ms" for ms
    unfolding sealed_lines_def segment_lines_def [abs_def] s by simp
  show "rot_lines rs (d\<lparr>segments := Some (sealed_dir d)\<rparr>) = rot_lines rs d"
    unfolding rot_lines_def b sl by simp
  show "rot_ready rs (d\<lparr>segments := Some (sealed_dir d)\<rparr>) = rot_ready rs d"
    unfolding rot_ready_def b s sl by simp
qed

lemma read_ok_base:
  assumes "readVerifiedManifestState io_err (manifest d) (Some (sealed_dir d)) (VerifyClosedSegmentsOnStartup rs) = Inr ms"
    "RotateAtBytes rs > 0"
  shows "ledger_base rs d = Inr ms"
  using assms by (simp add: ledger_base_def readVerifiedManifestState_Inr)

lemma after_rollover_ready:
  assumes rot: "RotateAtBytes rs > 0" and r: "rot_ready rs d" "ledger_base rs d = Inr ms" "act_exists d"
    and active: "readVerifiedChainStateFromBase (content (act d)) ''ledger_sequence''
        (ms_lastSequence ms) (ms_lastEventHash ms) = Inr (n, h)" and bytes: "act_bytes d \<noteq> []"
    and a: "append_after_rollover pf rs io e ms n h d = (d', err)"
  shows "err = None \<Longrightarrow> plain_event pf e \<Longrightarrow> rot_ready rs d' \<and> extends_chain pf (rot_lines rs d) e (rot_lines rs d')"
    and "err \<noteq> None \<Longrightarrow> clean_rot io \<Longrightarrow> rot_ready rs d' \<and> rot_lines rs d' = rot_lines rs d"
proof -
  obtain d3 err3 where ro: "rolloverActiveSegment io ms n h d = (d3, err3)" by fastforce
  note D = rot_readyD [OF r(1,2)]
  have "(err = None \<longrightarrow> plain_event pf e \<longrightarrow> rot_ready rs d' \<and> extends_chain pf (rot_lines rs d) e (rot_lines rs d')) \<and>
    (err \<noteq> None \<longrightarrow> clean_rot io \<longrightarrow> rot_ready rs d' \<and> rot_lines rs d' = rot_lines rs d)"
  proof (cases "close_error io = None \<and> err3 = None")
    case False
    then show ?thesis
      using a ro r(1) rollover_outcome(2) [OF ro]
      by (auto simp: append_after_rollover_def split: option.splits)
  next
    case True
    note ready = rollover_ready [OF rot D(1) r(2) D(3,4) active bytes ro [unfolded True [THEN conjunct2]]]
    let ?ms = "manifest_push (sealing_entry io ms n h (act_bytes d)) ms"
    note op = open_active_ready [OF ready(4,1)]
    have sd: "segments d3 = Some (sealed_dir d3)"
      using rollover_outcome(1) [OF ro] True by (auto simp: rename_active_def sealed_dir_def)
    show ?thesis
    proof (cases "readVerifiedManifestState (manifest_error2 io) (manifest d3) (segments d3)
        (VerifyClosedSegmentsOnStartup rs)")
      case (Inl x)
      with a ro True ready(4,5) show ?thesis by (auto simp: append_after_rollover_def)
    next
      case (Inr ms2)
      have "ms2 = ?ms" using read_ok_base [OF Inr [unfolded sd] rot] ready(1) by simp
      with Inr have i: "readVerifiedManifestState (manifest_error2 io) (manifest d3) (segments d3)
        (VerifyClosedSegmentsOnStartup rs) = Inr ?ms" by simp
      show ?thesis
      proof (cases "reopen_error io")
        case (Some m)
        with a ro True i ready(4,5) show ?thesis by (auto simp: append_after_rollover_def)
      next
        case None
        have ap: "appendPreparedEventToFile pf io (MaxEventBytes rs) (ms_lastSequence ?ms)
            (ms_lastEventHash ?ms) e (open_active d3) = (d', err)"
          using a ro True i None by (simp add: append_after_rollover_def)
        from prepared_ready [OF op(1,2,3) ap] show ?thesis by (simp add: op(4) ready(5))
      qed
    qed
  qed
  then show "err = None \<Longrightarrow> plain_event pf e \<Longrightarrow> rot_ready rs d' \<and> extends_chain pf (rot_lines rs d) e (rot_lines rs d')"
    "err \<noteq> None \<Longrightarrow> clean_rot io \<Longrightarrow> rot_ready rs d' \<and> rot_lines rs d' = rot_lines rs d" by auto
qed

lemma rotation_off:
  assumes "\<not> RotateAtBytes rs > 0"
  shows "ledger_base rs d = Inr no_manifest" "rot_lines rs d = content (act d)"
    "rot_ready rs d \<longleftrightarrow> map_wf (sealed_dir d) \<and> (\<not> act_exists d \<longrightarrow> content (act d) = []) \<and> cache_ok (act d)"
  using assms
  by (simp_all add: ledger_base_def rot_lines_def rot_ready_def sealed_lines_def cache_from_0
      ReadVerifiedChainState_def)

lemma flat_ready:
  assumes off: "\<not> RotateAtBytes rs > 0" and r: "rot_ready rs d"
    and a: "appendWithMaxEventBytes pf io maxb e d = (d', err)"
  shows "err = None \<Longrightarrow> plain_event pf e \<Longrightarrow> rot_ready rs d' \<and> extends_chain pf (rot_lines rs d) e (rot_lines rs d')"
    and "err \<noteq> None \<Longrightarrow> clean_rot io \<Longrightarrow> rot_ready rs d' \<and> rot_lines rs d' = rot_lines rs d"
proof -
  note base = rotation_off(1) [OF off]
  note op = open_active_ready [OF r base]
  let ?d0 = "if open_error io = None then open_active d else d"
  have d0: "rot_ready rs ?d0" "rot_lines rs ?d0 = rot_lines rs d" using op r by auto
  have "(err = None \<longrightarrow> plain_event pf e \<longrightarrow> rot_ready rs d' \<and> extends_chain pf (rot_lines rs d) e (rot_lines rs d')) \<and>
    (err \<noteq> None \<longrightarrow> clean_rot io \<longrightarrow> rot_ready rs d' \<and> rot_lines rs d' = rot_lines rs d)"
  proof (cases "maxb \<le> 0")
    case True
    obtain f where ap: "Append pf (io.truncate io) (act ?d0) e = (f, err)"
      and d': "act d' = f" "sealed_dir d' = sealed_dir ?d0" "act_exists d' = act_exists ?d0"
      using a True by (auto simp: appendWithMaxEventBytes_def Let_def sealed_dir_def
          split: prod.splits if_splits)
    have c: "cache_ok (act ?d0)" "map_wf (sealed_dir ?d0)" using d0(1) off by (auto simp: rotation_off)
    have ex: "\<not> act_exists ?d0 \<longrightarrow> f = act d"
      using ap op(3) by (auto simp: Append_def io.defs split: if_splits option.splits)
    have nx: "\<not> act_exists ?d0 \<longrightarrow> content (act d) = []"
      using op(3) r off by (auto simp: rotation_off split: if_splits)
    have "clean_io (io.truncate io)" if "clean_rot io"
      using that by (simp add: clean_io_def clean_rot_def io.defs)
    with flat.app_ok [of pf "io.truncate io" "act ?d0" e f] flat.app_failed [of pf "io.truncate io" "act ?d0" e f]
      ap c ex nx d' d0(2)
    show ?thesis by (cases err) (auto simp: rotation_off [OF off])
  next
    case False
    show ?thesis
    proof (cases "setup_error io = None \<and> open_error io = None")
      case False
      with a r \<open>\<not> maxb \<le> 0\<close> show ?thesis
        by (auto simp: appendWithMaxEventBytes_def split: option.splits)
    next
      case True
      have "appendPreparedEventToFile pf io maxb (ms_lastSequence no_manifest) (ms_lastEventHash no_manifest) e
          (open_active d) = (d', err)"
        using a True False by (simp add: appendWithMaxEventBytes_def)
      from prepared_ready [OF op(1,2,3) this] op(4) show ?thesis by simp
    qed
  qed
  then show "err = None \<Longrightarrow> plain_event pf e \<Longrightarrow> rot_ready rs d' \<and> extends_chain pf (rot_lines rs d) e (rot_lines rs d')"
    "err \<noteq> None \<Longrightarrow> clean_rot io \<Longrightarrow> rot_ready rs d' \<and> rot_lines rs d' = rot_lines rs d" by auto
qed

lemma with_act_ready:
  assumes "rot_ready rs d" "ledger_base rs d = Inr ms" "act_exists d" "content f = content (act d)"
    "cache_from (ms_lastSequence ms) (ms_lastEventHash ms) f"
  shows "rot_ready rs (d\<lparr>act := f\<rparr>)" "ledger_base rs (d\<lparr>act := f\<rparr>) = Inr ms" "act_exists (d\<lparr>act := f\<rparr>)"
    "rot_lines rs (d\<lparr>act := f\<rparr>) = rot_lines rs d"
proof -
  have s: "same_sealed d (d\<lparr>act := f\<rparr>)" by (simp add: same_sealed_def sealed_dir_def)
  show "rot_ready rs (d\<lparr>act := f\<rparr>)" by (rule rot_readyI [OF assms(1,2) s assms(3)]) (simp add: assms)
  show "ledger_base rs (d\<lparr>act := f\<rparr>) = Inr ms" using same_sealed_base [OF s] assms(2) by simp
  show "act_exists (d\<lparr>act := f\<rparr>)" using assms(3) by simp
  show "rot_lines rs (d\<lparr>act := f\<rparr>) = rot_lines rs d" by (rule same_lines [OF s]) (simp add: assms)
qed

text \<open>What every way through the append does to a ready ledger.\<close>

definition append_effect :: "(string \<Rightarrow> float64) \<Rightarrow> rotation_settings \<Rightarrow> rot_io \<Rightarrow> disk \<Rightarrow> event \<Rightarrow>
    disk \<times> ledger_error option \<Rightarrow> bool" where
  "append_effect pf rs io d e r \<longleftrightarrow>
    (snd r = None \<longrightarrow> plain_event pf e \<longrightarrow> rot_ready rs (fst r) \<and>
       extends_chain pf (rot_lines rs d) e (rot_lines rs (fst r))) \<and>
    (snd r \<noteq> None \<longrightarrow> clean_rot io \<longrightarrow> rot_ready rs (fst r) \<and> rot_lines rs (fst r) = rot_lines rs d)"

lemma append_effect_failed:
  "rot_ready rs d' \<Longrightarrow> rot_lines rs d' = rot_lines rs d \<Longrightarrow> append_effect pf rs io d e (d', Some x)"
  by (simp add: append_effect_def)

lemma append_effect_lines:
  "rot_lines rs d' = rot_lines rs d \<Longrightarrow> append_effect pf rs io d' e r = append_effect pf rs io d e r"
  by (simp add: append_effect_def)

lemma rotate_or_append_effect:
  assumes rot: "RotateAtBytes rs > 0" and r: "rot_ready rs d" "ledger_base rs d = Inr ms" "act_exists d"
    and active: "readVerifiedChainStateFromBase (content (act d)) ''ledger_sequence''
        (ms_lastSequence ms) (ms_lastEventHash ms) = Inr (n, h)"
  shows "append_effect pf rs io d e (rotate_or_append pf rs io e ms n h d)"
proof -
  have cl: "rot_ready rs (clear_act d)" "rot_lines rs (clear_act d) = rot_lines rs d"
    using with_act_ready [OF r, of "clearCache (act d)"] by (simp_all add: clear_act_def clearCache_def)
  show ?thesis
  proof (cases "prepareLedgerEventLine n h e")
    case (Inl x)
    with cl show ?thesis by (simp add: rotate_or_append_def append_effect_failed)
  next
    case prep: (Inr p)
    obtain ev bytes eh where p: "p = (ev, bytes, eh)" by (cases p)
    let ?roll = "act_bytes d \<noteq> [] \<and> int (length (act_bytes d)) + int (length bytes) > RotateAtBytes rs"
    show ?thesis
    proof (cases "validateEventLineSize bytes (MaxEventBytes rs)")
      case (Some x)
      with prep p cl show ?thesis by (simp add: rotate_or_append_def append_effect_failed)
    next
      case None
      then have eq: "rotate_or_append pf rs io e ms n h d = (if ?roll then append_after_rollover pf rs io e ms n h d
          else appendPreparedEventToFile pf io (MaxEventBytes rs) (ms_lastSequence ms) (ms_lastEventHash ms) e d)"
        using prep p by (simp add: rotate_or_append_def)
      obtain d' err where res: "rotate_or_append pf rs io e ms n h d = (d', err)" by fastforce
      have "append_effect pf rs io d e (d', err)"
      proof (cases ?roll)
        case True
        then have ap: "append_after_rollover pf rs io e ms n h d = (d', err)" using eq res by simp
        show ?thesis
          using after_rollover_ready [OF rot r active True [THEN conjunct1] ap] by (auto simp: append_effect_def)
      next
        case False
        then have ap: "appendPreparedEventToFile pf io (MaxEventBytes rs) (ms_lastSequence ms)
            (ms_lastEventHash ms) e d = (d', err)" using trans [OF eq if_not_P [OF False]] res by simp
        show ?thesis using prepared_ready [OF r ap] by (auto simp: append_effect_def)
      qed
      then show ?thesis by (simp only: res)
    qed
  qed
qed

lemma append_opened_effect:
  assumes rot: "RotateAtBytes rs > 0" and r: "rot_ready rs d" "ledger_base rs d = Inr ms" "act_exists d"
  shows "append_effect pf rs io d e (append_opened pf rs io e ms d)"
proof -
  obtain f res where ac: "active_chain (act d) (ms_lastSequence ms) (ms_lastEventHash ms) = (f, res)"
    by fastforce
  note sp = active_chain_spec [OF rot_readyD(4) [OF r(1,2)] ac]
  note d2 = with_act_ready [OF r sp(1,2)]
  show ?thesis
  proof (cases "stat_error io = None \<and> is_ok res")
    case False
    with ac r(1) d2 show ?thesis
      by (cases res) (auto simp: append_opened_def append_effect_failed split: option.split)
  next
    case True
    then obtain n h where res: "res = Inr (n, h)" by (cases res) auto
    have "readVerifiedChainStateFromBase (content (act (d\<lparr>act := f\<rparr>))) ''ledger_sequence''
        (ms_lastSequence ms) (ms_lastEventHash ms) = Inr (n, h)"
      using sp(1,3) res by simp
    from rotate_or_append_effect [OF rot d2(1-3) this, of pf io e] show ?thesis
      using True ac res by (simp add: append_opened_def append_effect_lines [OF d2(4)])
  qed
qed

lemma rotated_effect:
  assumes rot: "RotateAtBytes rs > 0" and r0: "rot_ready rs d0"
  shows "append_effect pf rs io d0 e (AppendWithRotation pf rs io d0 e)"
proof -
  let ?d = "d0\<lparr>segments := Some (sealed_dir d0)\<rparr>"
  have seg: "segments ?d = Some (sealed_dir ?d)" by (simp add: sealed_dir_def)
  have r: "rot_ready rs ?d" "rot_lines rs ?d = rot_lines rs d0" using r0 by (simp_all only: with_segments_ready)
  show ?thesis
  proof (cases "validateRotationSettings (wd_answer io) rs = None \<and> setup_error io = None")
    case False
    with r0 rot show ?thesis by (auto simp: AppendWithRotation_def append_effect_failed split: option.split)
  next
    case ok: True
    show ?thesis
    proof (cases "readVerifiedManifestState (manifest_error io) (manifest ?d) (segments ?d)
        (VerifyClosedSegmentsOnStartup rs)")
      case (Inl x)
      with ok rot r show ?thesis by (auto simp: AppendWithRotation_def Let_def append_effect_failed)
    next
      case (Inr ms)
      note op = open_active_ready [OF r(1) read_ok_base [OF Inr [unfolded seg] rot]]
      show ?thesis
      proof (cases "open_error io")
        case (Some m)
        with ok rot r Inr show ?thesis by (auto simp: AppendWithRotation_def Let_def append_effect_failed)
      next
        case None
        have l: "rot_lines rs (open_active ?d) = rot_lines rs d0" using op(4) r(2) by simp
        have "AppendWithRotation pf rs io d0 e = append_opened pf rs io e ms (open_active ?d)"
          using ok rot Inr None by (simp add: AppendWithRotation_def Let_def)
        then show ?thesis
          using append_opened_effect [OF rot op(1-3), of pf io e] by (simp only: append_effect_lines [OF l])
      qed
    qed
  qed
qed

lemma AppendWithRotation_ready:
  assumes r: "rot_ready rs d0" and a: "AppendWithRotation pf rs io d0 e = (d', err)"
  shows "err = None \<Longrightarrow> plain_event pf e \<Longrightarrow> rot_ready rs d' \<and> extends_chain pf (rot_lines rs d0) e (rot_lines rs d')"
    and "err \<noteq> None \<Longrightarrow> clean_rot io \<Longrightarrow> rot_ready rs d' \<and> rot_lines rs d' = rot_lines rs d0"
proof -
  have "(err = None \<longrightarrow> plain_event pf e \<longrightarrow> rot_ready rs d' \<and> extends_chain pf (rot_lines rs d0) e (rot_lines rs d')) \<and>
    (err \<noteq> None \<longrightarrow> clean_rot io \<longrightarrow> rot_ready rs d' \<and> rot_lines rs d' = rot_lines rs d0)"
  proof (cases "RotateAtBytes rs > 0")
    case True
    from rotated_effect [OF this r, of pf io e] a show ?thesis by (simp add: append_effect_def)
  next
    case off: False
    show ?thesis
    proof (cases "validateRotationSettings (wd_answer io) rs")
      case (Some x)
      with a r show ?thesis by (auto simp: AppendWithRotation_def)
    next
      case None
      then have "appendWithMaxEventBytes pf io (MaxEventBytes rs) e d0 = (d', err)"
        using a off by (simp add: AppendWithRotation_def)
      from flat_ready [OF off r this] show ?thesis by auto
    qed
  qed
  then show "err = None \<Longrightarrow> plain_event pf e \<Longrightarrow> rot_ready rs d' \<and> extends_chain pf (rot_lines rs d0) e (rot_lines rs d')"
    "err \<noteq> None \<Longrightarrow> clean_rot io \<Longrightarrow> rot_ready rs d' \<and> rot_lines rs d' = rot_lines rs d0" by auto
qed

interpretation rot: append_log pf "\<lambda>x d e. AppendWithRotation pf rs x d e" "rot_lines rs" "rot_ready rs" clean_rot
proof
  show "rot_ready rs f' \<and> extends_chain pf (rot_lines rs f) e (rot_lines rs f')"
    if "AppendWithRotation pf rs x f e = (f', None)" "rot_ready rs f" "plain_event pf e" for x f e f'
    using AppendWithRotation_ready(1) [OF that(2,1)] that(3) by simp
  show "rot_ready rs f' \<and> rot_lines rs f' = rot_lines rs f"
    if "AppendWithRotation pf rs x f e = (f', Some err)" "rot_ready rs f" "clean_rot x" for x f e f' err
    using AppendWithRotation_ready(2) [OF that(2,1)] that(3) by simp
qed

section \<open>Properties\<close>


definition empty_disk :: disk where
  "empty_disk = \<lparr>act = empty_file, act_exists = False, act_bytes = [], segments = None, manifest = None\<rparr>"

definition sample_settings :: rotation_settings where
  "sample_settings = \<lparr>MaxEventBytes = 0, RotateAtBytes = 600, SegmentDir = ''/l/segments'',
     ManifestPath = ''/l/manifest.jsonl'', VerifyClosedSegmentsOnStartup = True\<rparr>"

definition rot_io_ok :: rot_io where
  "rot_io_ok = io.extend io_ok \<lparr>wd_answer = Inr ''/'', setup_error = None, manifest_error = None,
     manifest_error2 = None, close_error = None, reopen_error = None, append_stat_error = None,
     torn_bytes = [], roll = \<lparr>stat_sealed_error = None, rename_error = None, sync_active_dir = None,
       sync_segment_dir = None, hash_error = None, manifest_write = EntryWritten,
       sync_manifest_dir = None, closed_at = 0\<rparr>\<rparr>"

lemma empty_disk_ready: "rot_ready sample_settings empty_disk"
  "ReadVerifiedChainState (rot_lines sample_settings empty_disk) ''ledger_sequence'' = Inr (0, [])"
proof -
  have b: "ledger_base sample_settings empty_disk = Inr no_manifest"
    by (simp add: ledger_base_def sample_settings_def empty_disk_def sealed_dir_def
        readVerifiedManifestState_def verifyManifestReferences_def)
  show "rot_ready sample_settings empty_disk"
    by (simp add: rot_ready_def b) (simp add: empty_disk_def empty_file_def sealed_dir_def sealed_lines_def
        ReadVerifiedChainState_def)
  show "ReadVerifiedChainState (rot_lines sample_settings empty_disk) ''ledger_sequence'' = Inr (0, [])"
    by (simp add: rot_lines_def b) (simp add: empty_disk_def empty_file_def sealed_lines_def
        ReadVerifiedChainState_def)
qed

lemma sample_settings_valid: "validateRotationSettings (Inr ''/'') sample_settings = None"
  by code_simp

lemma rot_io_ok_simps [simp]: "wd_answer rot_io_ok = Inr ''/''" "setup_error rot_io_ok = None"
  "manifest_error rot_io_ok = None" "append_stat_error rot_io_ok = None" "open_error rot_io_ok = None"
  "stat_error rot_io_ok = None" "seek_error rot_io_ok = None" "encode rot_io_ok = Encoded"
  "sync_error rot_io_ok = None" "restat_fails rot_io_ok = False" "clean_rot rot_io_ok"
  by (simp_all add: rot_io_ok_def io.defs io_ok_def clean_rot_def)

lemma boot_prepared:
  "\<exists>ev b eh. prepareLedgerEventLine 0 [] boot_event = Inr (ev, b, eh)"
  by (simp add: prepareLedgerEventLine_def canonicalizeEvent_def chained_event_def versioned_def
      boot_event_def data_of_def canonicalizeDataMap_def mput_def validateSafeJSONInteger_def
      minSafeJSONInteger_def maxSafeJSONInteger_def SchemaVersion_def Let_def)

lemma first_append:
  assumes "prepareLedgerEventLine 0 [] e = Inr (ev, b, eh)"
  shows "snd (AppendWithRotation pf sample_settings rot_io_ok empty_disk e) = None"
  by (simp add: AppendWithRotation_def sample_settings_valid append_opened_def rotate_or_append_def
      readVerifiedManifestState_def verifyManifestReferences_def open_active_def empty_disk_def
      sealed_dir_def Let_def active_chain_def empty_file_def loadCachedChainState_def assms
      appendPreparedEventToFile_def write_prepared_def validateEventLineSize_def no_manifest_def)
     (simp add: sample_settings_def assms write_prepared_def Let_def)

lemma boot_appended: "snd (AppendWithRotation pf sample_settings rot_io_ok empty_disk boot_event) = None"
  using boot_prepared first_append by blast


text \<open>
  C28: rotation is invisible in the chain. A successful AppendWithRotation on a disk and a successful
  plain Append on one file that holds the same lines leave the same lines: the segmented ledger
  refines the single-file ledger, with the sealed and active lines as the abstraction.
\<close>

theorem rotation_refines_flat:
  assumes "rot_ready rs d" "cache_ok f" "rot_lines rs d = content f" "plain_event pf e"
    "AppendWithRotation pf rs io d e = (d', None)" "Append pf io' f e = (f', None)"
  shows "rot_lines rs d' = content f'"
proof -
  have "extends_chain pf (rot_lines rs d) e (rot_lines rs d')" "extends_chain pf (content f) e (content f')"
    using rot.app_ok [OF assms(5,1,4)] flat.app_ok [OF assms(6,2,4)] by auto
  then show ?thesis using assms(3) by (auto simp: extends_chain_def)
qed

theorem rotation_refines_flat_witness:
  "rot_lines sample_settings
     (fst (AppendWithRotation (\<lambda>s. FFrac s) sample_settings rot_io_ok empty_disk boot_event)) =
   content (fst (Append (\<lambda>s. FFrac s) io_ok empty_file boot_event))"
proof -
  have p: "plain_event (\<lambda>s. FFrac s) boot_event"
    by (simp add: plain_event_def boot_event_def ascii_byte_def data_of_def)
  have a: "AppendWithRotation (\<lambda>s. FFrac s) sample_settings rot_io_ok empty_disk boot_event =
     (fst (AppendWithRotation (\<lambda>s. FFrac s) sample_settings rot_io_ok empty_disk boot_event), None)"
    using boot_appended by (metis prod.collapse)
  have "snd (Append (\<lambda>s. FFrac s) io_ok empty_file boot_event) = None"
    by (simp add: Append_def append_at_def io_ok_def empty_file_def boot_event_def data_of_def
        loadCachedChainState_def ReadVerifiedChainState_def chained_event_def hashEvent_eq put_hash_def
        mput_def mdel_def canonicalizeEvent_def canonicalizeDataMap_def validateSafeJSONInteger_def
        minSafeJSONInteger_def maxSafeJSONInteger_def SchemaVersion_def Let_def)
  then have b: "Append (\<lambda>s. FFrac s) io_ok empty_file boot_event =
     (fst (Append (\<lambda>s. FFrac s) io_ok empty_file boot_event), None)" by (metis prod.collapse)
  have l: "rot_lines sample_settings empty_disk = content empty_file"
    by (simp add: rot_lines_def ledger_base_def sample_settings_def empty_disk_def sealed_dir_def
        readVerifiedManifestState_def verifyManifestReferences_def sealed_lines_def)
  have "cache_ok empty_file" by (simp add: empty_file_def)
  from rotation_refines_flat [OF empty_disk_ready(1) this l p a b] show ?thesis .
qed

text \<open>
  C29: sealed segments cannot be altered. With VerifyClosedSegmentsOnStartup, two segment directories
  that both verify against one manifest hold the same bytes under every name the manifest lists,
  unless two of those files collide under SHA-256.
\<close>

theorem sealed_segments_pinned:
  assumes "readVerifiedManifestState None m (Some dir) True = Inr ms"
    "readVerifiedManifestState None m (Some dir') True = Inr ms'"
    "inj_on sha256_hex {seg_bytes s |s name. map_of dir name = Some (Segment s) \<or> map_of dir' name = Some (Segment s)}"
  shows "ms' = ms \<and> (\<forall>e\<in>set (entries ms). \<exists>s s'. map_of dir (SegmentFilename e) = Some (Segment s) \<and>
     map_of dir' (SegmentFilename e) = Some (Segment s') \<and> seg_bytes s' = seg_bytes s)"
proof -
  have ms: "ms' = ms" using assms(1,2) by (simp add: readVerifiedManifestState_Inr)
  have "\<exists>s s'. map_of dir (SegmentFilename e) = Some (Segment s) \<and>
     map_of dir' (SegmentFilename e) = Some (Segment s') \<and> seg_bytes s' = seg_bytes s"
    if e: "e \<in> set (entries ms)" for e
  proof -
    have "(SegmentFilename e, e) \<in> set (refs_of (entries ms))" using e by (auto simp: in_refs_of)
    then have "bad_reference dir True (SegmentFilename e, e) = None"
      "bad_reference dir' True (SegmentFilename e, e) = None"
      using assms(1,2) ms by (auto simp: readVerifiedManifestState_Inr verifyManifestReferences_ok)
    then obtain s s' where s: "map_of dir (SegmentFilename e) = Some (Segment s)"
      "map_of dir' (SegmentFilename e) = Some (Segment s')"
      "sha256_hex (seg_bytes s) = sha256_hex (seg_bytes s')"
      by (auto simp: bad_reference_None)
    have "seg_bytes s = seg_bytes s'" by (rule inj_onD [OF assms(3) s(3)]) (use s in blast)+
    with s show ?thesis by auto
  qed
  with ms show ?thesis by blast
qed

theorem sealed_segments_pinned_witness:
  "\<exists>s. map_of [(segmentFilename 1 1, Segment \<lparr>seg_lines = [Malformed], seg_bytes = ''x''\<rparr>)]
     (segmentFilename 1 1) = Some (Segment s) \<and> seg_bytes s = ''x''"
proof -
  let ?e = "sealing_entry rot_io_ok no_manifest 1 (sha256_hex []) ''x''"
  let ?s = "\<lparr>seg_lines = [Malformed], seg_bytes = ''x''\<rparr>"
  let ?d = "[(segmentFilename 1 1, Segment ?s)]"
  have "readVerifiedManifestState None None (Some []) True = Inr no_manifest"
    by (simp add: readVerifiedManifestState_def verifyManifestReferences_def)
  from readVerified_push [OF this _ sealing_entry_valid, of 1 "''x''" "sha256_hex []" rot_io_ok ?s]
  have r: "readVerifiedManifestState None (Some [Entry ?e]) (Some ?d) True = Inr (manifest_push ?e no_manifest)"
    by (simp add: mhas_def manifest_lines_def mput_def)
  have i: "inj_on sha256_hex {seg_bytes s |s name. map_of ?d name = Some (Segment s) \<or> map_of ?d name = Some (Segment s)}"
    by (rule inj_onI) (auto split: if_splits)
  show ?thesis using sealed_segments_pinned [OF r r i] by auto
qed

text \<open>
  A rollover that stops between the rename and the manifest entry blocks the ledger. Once the
  active file was renamed but its entry was not written, every further AppendWithRotation fails and
  adds nothing, whatever the file system answers: the unreferenced segment is an integrity error.
\<close>

theorem unsealed_segment_blocks:
  assumes "rot_ready rs d" "ledger_base rs d = Inr ms" "RotateAtBytes rs > 0"
    "rolloverActiveSegment io ms n h d = (d', Some err)" "rename_error (roll io) = None"
    "stat_sealed_error (roll io) = None" "ms_lastSequence ms < n"
    "\<not> mhas (sealed_dir d) (segmentFilename (ms_lastSequence ms + 1) n)"
    "manifest_write (roll io) = EntryNotWritten"
  shows "\<exists>err'. snd (AppendWithRotation pf rs io' d' e) = Some err' \<and>
     content (act (fst (AppendWithRotation pf rs io' d' e))) = content (act d')"
proof -
  let ?name = "segmentFilename (ms_lastSequence ms + 1) n"
  have d': "d' = rename_active ?name d"
    using assms(4-9) by (auto simp: rolloverActiveSegment_def Let_def appendManifestEntry_def split: option.splits)
  let ?d = "d'\<lparr>segments := Some (sealed_dir d')\<rparr>"
  have m: "manifest ?d = manifest d" and sd: "segments ?d = Some (mput ?name
      (Segment \<lparr>seg_lines = content (act d), seg_bytes = act_bytes d\<rparr>) (sealed_dir d))"
    by (simp_all add: d')
  have "readVerifiedManifestState io_err (manifest ?d) (segments ?d) b \<noteq> Inr ms'" for io_err b ms'
  proof
    assume r: "readVerifiedManifestState io_err (manifest ?d) (segments ?d) b = Inr ms'"
    have "manifest_loop (manifest_lines (manifest d)) no_manifest [] = Inr (ms, refs_of (entries ms))"
      using assms(2,3) by (simp add: ledger_base_def readVerifiedManifestState_Inr)
    with r m have ms': "ms' = ms" by (simp only: readVerifiedManifestState_Inr) simp
    have "\<not> mhas (refs_of (entries ms)) ?name"
      using base_entries_exist [OF assms(2)] assms(8) by (auto simp: mhas_iff)
    then have "unreferenced (refs_of (entries ms)) (?name, Segment \<lparr>seg_lines = content (act d), seg_bytes = act_bytes d\<rparr>)"
      using segmentFilename_valid by (simp add: unreferenced_def)
    moreover have "(?name, Segment \<lparr>seg_lines = content (act d), seg_bytes = act_bytes d\<rparr>) \<in>
        set (mput ?name (Segment \<lparr>seg_lines = content (act d), seg_bytes = act_bytes d\<rparr>) (sealed_dir d))"
      using assms(1) by (simp add: rot_ready_def set_mput)
    ultimately show False
      using r by (auto simp: sd ms' readVerifiedManifestState_Inr verifyManifestReferences_ok)
  qed
  then obtain x where x: "readVerifiedManifestState (manifest_error io') (manifest ?d) (segments ?d)
      (VerifyClosedSegmentsOnStartup rs) = Inl x"
    by (metis sum.exhaust)
  have "segments ?d = Some (sealed_dir d')" by simp
  with x assms(3) show ?thesis
    by (auto simp: AppendWithRotation_def Let_def split: option.split)
qed

theorem unsealed_segment_blocks_witness:
  "\<exists>err. snd (AppendWithRotation (\<lambda>s. FFrac s) sample_settings rot_io_ok
     (fst (rolloverActiveSegment (rot_io_ok\<lparr>roll := (roll rot_io_ok)\<lparr>manifest_write := EntryNotWritten\<rparr>\<rparr>)
       no_manifest 1 ''h'' (empty_disk\<lparr>act := empty_file\<lparr>content := [Malformed]\<rparr>, act_exists := True\<rparr>)))
     boot_event) = Some err"
proof -
  let ?d = "empty_disk\<lparr>act := empty_file\<lparr>content := [Malformed]\<rparr>, act_exists := True\<rparr>"
  let ?io = "rot_io_ok\<lparr>roll := (roll rot_io_ok)\<lparr>manifest_write := EntryNotWritten\<rparr>\<rparr>"
  have b: "ledger_base sample_settings ?d = Inr no_manifest"
    by (simp add: ledger_base_def sample_settings_def empty_disk_def sealed_dir_def
        readVerifiedManifestState_def verifyManifestReferences_def)
  then have r: "rot_ready sample_settings ?d"
    by (simp add: rot_ready_def) (simp add: empty_disk_def empty_file_def sealed_dir_def sealed_lines_def
        ReadVerifiedChainState_def)
  have s: "RotateAtBytes sample_settings > 0" by (simp add: sample_settings_def)
  have ro: "rolloverActiveSegment ?io no_manifest 1 ''h'' ?d =
     (fst (rolloverActiveSegment ?io no_manifest 1 ''h'' ?d), io_fail ''write segment manifest entry'')"
    by (simp add: rolloverActiveSegment_def rot_io_ok_def io.defs appendManifestEntry_def Let_def
        sealed_dir_def empty_disk_def mhas_def)
  show ?thesis
    using unsealed_segment_blocks [OF r b s ro, where io' = rot_io_ok and pf = "\<lambda>s. FFrac s" and e = boot_event]
    by (simp add: rot_io_ok_def io.defs sealed_dir_def empty_disk_def mhas_def)
qed

end
