(* ===== verification/ServerAudit.thy ===== *)
theory ServerAudit
  imports RotatedLedger
begin

text \<open>
  The audit runtime as the server wires it (configureAuditRuntime in
  internal/loopgate/server_audit_runtime.go): Record appends with rotation, Load reads the segmented
  ledger. Here are the properties of the two together: the ledger stays verified and attested over
  any history, a restart recovers the state, and what goes wrong when an append or an anchor
  replacement fails half way.
\<close>

section \<open>The options the server passes\<close>

text \<open>\<open>fs\<close> is the file state of an active file with a size and a stamp.\<close>

definition stat_active :: "(int \<Rightarrow> nat \<Rightarrow> file_state) \<Rightarrow> disk \<Rightarrow> file_state option" where
  "stat_active fs d = (if act_exists d then Some (fs (int (length (act_bytes d))) (stamp (act d))) else None)"

definition segmentedManifestHasEntries :: "disk \<Rightarrow> bool" where
  "segmentedManifestHasEntries d = (manifest_lines (manifest d) \<noteq> [])"

definition PrimeAppendChainState :: "disk \<Rightarrow> int \<Rightarrow> string \<Rightarrow> disk" where
  "PrimeAppendChainState d n h = (if act_exists d then d\<lparr>act := (act d)\<lparr>cached := Some
     \<lparr>lastSequence = n, lastHash = h, fileState = stamp (act d)\<rparr>\<rparr>\<rparr> else d)"

definition configureAuditRuntime :: "(string \<Rightarrow> float64) \<Rightarrow> (string \<Rightarrow> int) \<Rightarrow> string result \<Rightarrow>
    rotation_settings \<Rightarrow> hmac_config \<Rightarrow> string \<Rightarrow> string \<Rightarrow> (int \<Rightarrow> nat \<Rightarrow> file_state) \<Rightarrow>
    (string \<Rightarrow> string \<times> string) \<Rightarrow> (rot_io, disk) audit_opts" where
  "configureAuditRuntime pf f2i wd rs cfg auditPath repoRoot fs tenancy =
    \<lparr>opt_Append = Some (\<lambda>x d e. AppendWithRotation pf rs x d e),
     opt_Path = auditPath,
     opt_AnchorPath = filepath_join [repoRoot, ''runtime'', ''state'', ''audit_ledger_anchor.json''],
     opt_Config = cfg, opt_Tenancy = Some tenancy,
     opt_ReadChain = ReadSegmentedChainState wd rs None None,
     opt_OrderedFiles = (\<lambda>d. bindr (OrderedSegmentedPaths wd rs None d) (\<lambda>ps. Inr (map (path_lines d) ps))),
     opt_Prime = PrimeAppendChainState,
     opt_ManifestInUse = (\<lambda>d. RotateAtBytes rs > 0 \<and> segmentedManifestHasEntries d),
     opt_Stat = stat_active fs, opt_f2i = f2i\<rparr>"

lemma configure_simps [simp]:
  "opt_Append (configureAuditRuntime pf f2i wd rs cfg ap rr fs t) = Some (\<lambda>x d e. AppendWithRotation pf rs x d e)"
  "opt_Path (configureAuditRuntime pf f2i wd rs cfg ap rr fs t) = ap"
  "opt_Config (configureAuditRuntime pf f2i wd rs cfg ap rr fs t) = cfg"
  "opt_Tenancy (configureAuditRuntime pf f2i wd rs cfg ap rr fs t) = Some t"
  "opt_ReadChain (configureAuditRuntime pf f2i wd rs cfg ap rr fs t) = ReadSegmentedChainState wd rs None None"
  "opt_Prime (configureAuditRuntime pf f2i wd rs cfg ap rr fs t) = PrimeAppendChainState"
  "opt_Stat (configureAuditRuntime pf f2i wd rs cfg ap rr fs t) = stat_active fs"
  "opt_ManifestInUse (configureAuditRuntime pf f2i wd rs cfg ap rr fs t) =
     (\<lambda>d. RotateAtBytes rs > 0 \<and> segmentedManifestHasEntries d)"
  by (simp_all add: configureAuditRuntime_def)

lemma anchor_path_not_Nil [simp]: "opt_AnchorPath (configureAuditRuntime pf f2i wd rs cfg ap rr fs t) \<noteq> []"
  by (simp add: configureAuditRuntime_def filepath_join_def Let_def filepath_clean_not_Nil)

section \<open>Histories\<close>

type_synonym 'io request_log = "('io answers \<times> string \<times> string \<times> gdata option) list"

fun record_all :: "('io, 'f) audit_opts \<Rightarrow> 'f audit_state \<Rightarrow> 'io request_log \<Rightarrow> 'f audit_state" where
  "record_all opts st [] = st"
| "record_all opts st ((ans, eventType, sessionID, data) # es) =
     record_all opts (fst (Record opts ans st eventType sessionID data)) es"

definition usable :: "(string \<Rightarrow> float64) \<Rightarrow> ('io \<Rightarrow> bool) \<Rightarrow> string \<Rightarrow> ('io, 'f) audit_opts \<Rightarrow>
    'io answers \<times> string \<times> string \<times> gdata option \<Rightarrow> bool" where
  "usable pf clean key opts r = (case r of (ans, eventType, sessionID, data) \<Rightarrow>
     plain_record pf opts eventType sessionID data \<and> one_key key ans \<and> clean_answers clean ans)"

context append_log
begin

lemma record_all_keeps:
  assumes "opt_Append opts = Some app"
  shows "audit_inv f2i key lines ready st \<Longrightarrow> \<forall>r\<in>set es. usable pf clean key opts r \<Longrightarrow>
    audit_inv f2i key lines ready (record_all opts st es)"
proof (induction es arbitrary: st)
  case (Cons r es)
  obtain ans t s d where r: "r = (ans, t, s, d)" by (cases r)
  obtain st' res where rec: "Record opts ans st t s d = (st', res)" by fastforce
  have u: "plain_record pf opts t s d" "one_key key ans" "clean_answers clean ans"
    using Cons.prems(2) by (auto simp: r usable_def)
  have "audit_inv f2i key lines ready st'"
    by (rule Record_keeps [OF Cons.prems(1) assms u(1,2) rec]) (simp add: u)
  from Cons.IH [OF this] Cons.prems(2) show ?case by (simp add: r rec)
qed simp

end


definition fresh_audit :: "'f \<Rightarrow> 'f audit_state" where
  "fresh_audit log = \<lparr>as_sequence = 0, as_lastHash = [], as_sinceCheckpoint = 0, as_log = log,
     as_anchor = NoAnchor\<rparr>"

definition answers_ok :: "string \<Rightarrow> rot_io answers" where
  "answers_ok key = \<lparr>io_event = rot_io_ok, io_checkpoint = rot_io_ok, now_event = unix_epoch,
     now_checkpoint = unix_epoch, now_anchor = unix_epoch, secret_checkpoint = Inr key,
     secret_anchor = Inr key, stat_fails = None, replace = Replaced\<rparr>"

lemma fresh_audit_inv: "audit_inv f2i key (rot_lines sample_settings) (rot_ready sample_settings) (fresh_audit empty_disk)"
proof -
  have "rot_lines sample_settings empty_disk = []"
    by (simp add: rot_lines_def ledger_base_def sample_settings_def empty_disk_def sealed_dir_def
        readVerifiedManifestState_def verifyManifestReferences_def sealed_lines_def empty_file_def)
  then show ?thesis
    by (simp add: audit_inv_def synced_def attested_def fresh_audit_def empty_disk_ready(1)
        ReadVerifiedChainState_def inspect_start_def)
qed


section \<open>Reading the segmented ledger back\<close>

lemma read_hash_field:
  "readVerifiedChainStateFromBase ls fld n h = Inr (n1, h1) \<Longrightarrow>
   readVerifiedChainStateFromBase ls fld' n h = Inr (n2, h2) \<Longrightarrow> n1 = n2 \<and> h1 = h2"
proof (induction ls arbitrary: n h)
  case (Cons l ls)
  then show ?case by (auto simp: result_iffs check_line_Inr)
qed simp

lemma manifest_dir_None:
  assumes "readVerifiedManifestState None m (Some (sealed_dir d)) b = Inr ms" "segments d = dir"
  shows "readVerifiedManifestState None m dir b = Inr ms"
proof (cases dir)
  case None
  then have "sealed_dir d = []" using assms(2) by (simp add: sealed_dir_def)
  then have "refs_of (entries ms) = []"
    using assms(1) by (cases "refs_of (entries ms)")
      (auto simp: readVerifiedManifestState_Inr verifyManifestReferences_ok bad_reference_None)
  with assms(1) None show ?thesis
    by (simp add: readVerifiedManifestState_Inr verifyManifestReferences_ok)
qed (use assms in \<open>simp add: sealed_dir_def\<close>)

lemma read_segmented:
  assumes r: "rot_ready rs d" and v: "validateRotationSettings wd rs = None"
    and chain: "ReadVerifiedChainState (rot_lines rs d) fld = Inr (n, h)"
  shows "\<exists>c. ReadSegmentedChainState wd rs None None d fld = (d\<lparr>act := (act d)\<lparr>cached := c\<rparr>\<rparr>, Inr (n, h))"
proof -
  obtain ms where b: "ledger_base rs d = Inr ms" using r by (auto simp: rot_ready_def)
  note D = rot_readyD [OF r b]
  have m: "(if RotateAtBytes rs > 0
              then readVerifiedManifestState None (manifest d) (segments d) (VerifyClosedSegmentsOnStartup rs)
              else Inr no_manifest) = Inr ms"
  proof (cases "RotateAtBytes rs > 0")
    case True
    then have "readVerifiedManifestState None (manifest d) (Some (sealed_dir d)) (VerifyClosedSegmentsOnStartup rs) = Inr ms"
      using b by (simp add: ledger_base_def)
    from manifest_dir_None [OF this refl] True show ?thesis by simp
  qed (use b in \<open>simp add: ledger_base_def\<close>)
  obtain n1 h1 where s: "readVerifiedChainStateFromBase (sealed_lines d ms) fld 0 [] = Inr (n1, h1)"
    and a: "readVerifiedChainStateFromBase (content (act d)) fld n1 h1 = Inr (n, h)"
    using chain by (auto simp: rot_lines_def b ReadVerifiedChainState_def read_append result_iffs)
  have "n1 = ms_lastSequence ms" "h1 = ms_lastEventHash ms"
    using read_hash_field [OF s D(3) [unfolded ReadVerifiedChainState_def]] by auto
  with a D(2) show ?thesis
    by (auto simp: ReadSegmentedChainState_def v m clear_act_def clearCache_def intro: exI [of _ None])
qed

section \<open>What a successful Record leaves behind\<close>

lemma append_audit_fields:
  "append_audit app x st ev = (st', r) \<Longrightarrow> as_sinceCheckpoint st' = as_sinceCheckpoint st \<and> as_anchor st' = as_anchor st"
  by (auto simp: append_audit_def LedgerWriter_Record_def split: sum.splits prod.splits option.splits if_splits)

lemma checkpoint_counter:
  assumes "appendHMACCheckpointIfDueLocked app opts ans st = (st', None)"
  shows "hc_Enabled (opt_Config opts) \<Longrightarrow> 0 < IntervalEvents (opt_Config opts) \<Longrightarrow>
      as_sinceCheckpoint st' < IntervalEvents (opt_Config opts)"
    and "0 \<le> as_sinceCheckpoint st \<Longrightarrow> 0 \<le> as_sinceCheckpoint st'"
  using assms
  by (auto simp: appendHMACCheckpointIfDueLocked_def checkpoint_due_def split: if_splits sum.splits prod.splits)

lemma Record_Inr:
  assumes "Record opts ans st t s d = (st', Inr eh)"
  obtains app st1 st2 where "opt_Append opts = Some app"
    "append_audit app (io_event ans) st (record_event (now_event ans) t s (chain_fields (as_sequence st + 1)
       (as_lastHash st) (add_tenancy (opt_Tenancy opts) s (copyInterfaceMap d)))) = (st1, Inr eh)"
    "appendHMACCheckpointIfDueLocked app opts ans (st1\<lparr>as_sinceCheckpoint := as_sinceCheckpoint st1 + 1\<rparr>) = (st2, None)"
    "storeAnchorLocked opts ans st2 = (st', None)"
  using assms by (auto simp: Record_def Let_def split: option.splits sum.splits prod.splits)


text \<open>The anchor file holds a signed anchor for the runtime's head over the active file as it is.\<close>

definition anchor_current :: "('io, 'f) audit_opts \<Rightarrow> string \<Rightarrow> 'f audit_state \<Rightarrow> bool" where
  "anchor_current opts key st = (\<exists>a. as_anchor st = AnchorFile a \<and> verifyAuditLedgerAnchor a key = None \<and>
     AuditSequence a = as_sequence st \<and> an_LastEventHash a = as_lastHash st \<and>
     EventsSinceCheckpoint a = as_sinceCheckpoint st \<and>
     ActiveFileState a = (case opt_Stat opts (as_log st) of None \<Rightarrow> no_file_state | Some fs \<Rightarrow> fs))"

lemma signed_anchor_verifies:
  assumes "an_V a = auditLedgerAnchorSchemaVersion" "0 < AuditSequence a \<longrightarrow> an_LastEventHash a \<noteq> []"
    "0 \<le> EventsSinceCheckpoint a" "fs_Size (ActiveFileState a) = ActiveSizeBytes a"
  shows "verifyAuditLedgerAnchor (a\<lparr>HMACSHA256 := computeAuditLedgerAnchorHMACHex a key\<rparr>) key = None"
proof -
  have mac: "computeAuditLedgerAnchorHMACHex (a\<lparr>HMACSHA256 := m\<rparr>) key = computeAuditLedgerAnchorHMACHex a key" for m
    by (simp add: computeAuditLedgerAnchorHMACHex_def)
  obtain x where "hex_decode (computeAuditLedgerAnchorHMACHex a key) = Some x"
    by (simp add: computeAuditLedgerAnchorHMACHex_def Let_def)
  with assms show ?thesis by (simp add: verifyAuditLedgerAnchor_def mac)
qed

lemma storeAnchor_current:
  assumes a: "storeAnchorLocked opts ans st = (st', None)" and e: "hc_Enabled (opt_Config opts)"
    "opt_AnchorPath opts \<noteq> []" "opt_Path opts \<noteq> []" "secret_anchor ans = Inr key"
    and s: "0 < as_sequence st \<longrightarrow> as_lastHash st \<noteq> []" "0 \<le> as_sinceCheckpoint st"
  shows "anchor_current opts key st'"
proof -
  obtain fs where fs: "activeLedgerFileState opts ans (as_log st) = Inr fs"
    "replace ans = Replaced" and st': "st' = st\<lparr>as_anchor := AnchorFile (let a = \<lparr>an_V = auditLedgerAnchorSchemaVersion,
        UpdatedAt = rfc3339nano (now_anchor ans), AuditSequence = as_sequence st,
        an_LastEventHash = as_lastHash st, EventsSinceCheckpoint = as_sinceCheckpoint st,
        ActiveSizeBytes = fs_Size fs, ActiveFileState = fs, HMACSHA256 = []\<rparr>
        in a\<lparr>HMACSHA256 := computeAuditLedgerAnchorHMACHex a key\<rparr>)\<rparr>"
    using a e by (auto simp: storeAnchorLocked_def storeAnchor_def storeAuditLedgerAnchor_def Let_def
        split: sum.splits replace_outcome.splits)
  let ?a = "\<lparr>an_V = auditLedgerAnchorSchemaVersion, UpdatedAt = rfc3339nano (now_anchor ans),
     AuditSequence = as_sequence st, an_LastEventHash = as_lastHash st,
     EventsSinceCheckpoint = as_sinceCheckpoint st, ActiveSizeBytes = fs_Size fs, ActiveFileState = fs,
     HMACSHA256 = []\<rparr>"
  have v: "verifyAuditLedgerAnchor (?a\<lparr>HMACSHA256 := computeAuditLedgerAnchorHMACHex ?a key\<rparr>) key = None"
    by (rule signed_anchor_verifies) (use s in simp_all)
  have f: "fs = (case opt_Stat opts (as_log st) of None \<Rightarrow> no_file_state | Some fs \<Rightarrow> fs)"
    using fs(1) e(3) by (auto simp: activeLedgerFileState_def split: option.splits)
  show ?thesis
    unfolding anchor_current_def
    by (rule exI [of _ "?a\<lparr>HMACSHA256 := computeAuditLedgerAnchorHMACHex ?a key\<rparr>"])
       (use v f in \<open>simp add: st' Let_def\<close>)
qed


section \<open>A first record\<close>

definition sample_opts :: "(rot_io, disk) audit_opts" where
  "sample_opts = configureAuditRuntime (\<lambda>s. FFrac s) (\<lambda>_. 0) (Inr ''/'') sample_settings
     \<lparr>hc_Enabled = True, IntervalEvents = 2\<rparr> ''/l/audit.jsonl'' ''/l''
     (\<lambda>n k. \<lparr>fs_Size = n, Device = 0, Inode = 0, ChangeTimeSeconds = 0, ChangeTimeNanos = int k\<rparr>) (\<lambda>_. ([], []))"

lemma sample_opts_simps [simp]: "opt_Config sample_opts = \<lparr>hc_Enabled = True, IntervalEvents = 2\<rparr>"
  "opt_Append sample_opts = Some (\<lambda>x d e. AppendWithRotation (\<lambda>s. FFrac s) sample_settings x d e)"
  "opt_Tenancy sample_opts = Some (\<lambda>_. ([], []))" "opt_Path sample_opts = ''/l/audit.jsonl''"
  "opt_AnchorPath sample_opts \<noteq> []"
  by (simp_all add: sample_opts_def)

lemma answers_ok_simps [simp]: "io_event (answers_ok k) = rot_io_ok" "io_checkpoint (answers_ok k) = rot_io_ok"
  "secret_checkpoint (answers_ok k) = Inr k" "secret_anchor (answers_ok k) = Inr k"
  "stat_fails (answers_ok k) = None" "replace (answers_ok k) = Replaced" "now_event (answers_ok k) = unix_epoch"
  by (simp_all add: answers_ok_def)

lemma plain_boot: "plain_record (\<lambda>s. FFrac s) sample_opts ''boot'' [] None"
  by (simp add: plain_record_def copyInterfaceMap_def ascii_byte_def AuditLedgerHMACCheckpointEventType_def)

lemma first_record:
  assumes "secret_anchor ans = Inr k" "stat_fails ans = None" "io_event ans = rot_io_ok"
  shows "\<exists>st1 eh. as_sequence st1 = 1 \<and> as_sinceCheckpoint st1 = 1 \<and> as_anchor st1 = A \<and>
    Record sample_opts ans ((fresh_audit empty_disk)\<lparr>as_anchor := A\<rparr>) ''boot'' [] None =
      (case storeAnchorLocked sample_opts ans st1 of (st4, Some e) \<Rightarrow> (st4, Inl e) | (st4, None) \<Rightarrow> (st4, Inr eh))"
proof -
  let ?st = "(fresh_audit empty_disk)\<lparr>as_anchor := A\<rparr>"
  let ?d = "chain_fields 1 [] (add_tenancy (Some (\<lambda>_. ([], []))) [] [])"
  let ?ev = "record_event (now_event ans) ''boot'' [] ?d"
  have d: "?d = [(''tenant_id'', GString []), (''user_id'', GString []), (''audit_sequence'', GInt 1),
      (''ledger_sequence'', GInt 1), (''previous_event_hash'', GString [])]"
    by (simp add: chain_fields_def add_tenancy_def needs_tenancy_def mhas_def mput_def)
  note eval = canonicalizeEvent_def chained_event_def versioned_def data_of_def canonicalizeDataMap_def
    mput_def mdel_def validateSafeJSONInteger_def minSafeJSONInteger_def maxSafeJSONInteger_def
    SchemaVersion_def record_event_def
  obtain h where h: "ComputeEventHash ?ev = Inr h"
    by (simp add: ComputeEventHash_def hashEvent_eq d eval)
  obtain ev b eh where "prepareLedgerEventLine 0 [] (put_hash h ?ev) = Inr (ev, b, eh)"
    by (simp add: prepareLedgerEventLine_def put_hash_def d eval Let_def)
  from first_append [OF this] obtain dk where dk:
    "AppendWithRotation (\<lambda>s. FFrac s) sample_settings rot_io_ok empty_disk (put_hash h ?ev) = (dk, None)"
    by (metis prod.collapse)
  have "append_audit (\<lambda>x d e. AppendWithRotation (\<lambda>s. FFrac s) sample_settings x d e) rot_io_ok
      ?st ?ev = (?st\<lparr>as_log := dk, as_sequence := 1, as_lastHash := h\<rparr>, Inr h)"
    by (simp add: append_audit_def h LedgerWriter_Record_def fresh_audit_def dk)
  then have "Record sample_opts ans ?st ''boot'' [] None =
      (case storeAnchorLocked sample_opts ans (?st\<lparr>as_log := dk, as_sequence := 1,
         as_lastHash := h, as_sinceCheckpoint := 1\<rparr>) of (st4, Some e) \<Rightarrow> (st4, Inl e) | (st4, None) \<Rightarrow> (st4, Inr h))"
    by (simp add: Record_def assms Let_def copyInterfaceMap_def appendHMACCheckpointIfDueLocked_def
        checkpoint_due_def) (simp add: fresh_audit_def)
  then show ?thesis
    by (intro exI [of _ "?st\<lparr>as_log := dk, as_sequence := 1, as_lastHash := h,
        as_sinceCheckpoint := 1\<rparr>"] exI [of _ h]) (simp add: fresh_audit_def)
qed

lemma first_record_ok:
  obtains st1 eh where "Record sample_opts (answers_ok k) (fresh_audit empty_disk) ''boot'' [] None = (st1, Inr eh)"
    "as_sequence st1 = 1" "as_sinceCheckpoint st1 = 1"
proof -
  obtain st eh where r: "as_sequence st = 1" "as_sinceCheckpoint st = 1"
    "Record sample_opts (answers_ok k) (fresh_audit empty_disk) ''boot'' [] None =
      (case storeAnchorLocked sample_opts (answers_ok k) st of (st4, Some e) \<Rightarrow> (st4, Inl e) | (st4, None) \<Rightarrow> (st4, Inr eh))"
    using first_record [of "answers_ok k" k NoAnchor] by (auto simp: fresh_audit_def)
  obtain st4 where s: "storeAnchorLocked sample_opts (answers_ok k) st = (st4, None)"
    by (cases "opt_Stat sample_opts (as_log st)")
       (simp_all add: storeAnchorLocked_def storeAnchor_def activeLedgerFileState_def
        storeAuditLedgerAnchor_def Let_def)
  show ?thesis
    by (rule that [of st4 eh]) (use r s arg_cong [OF storeAnchorLocked_keeps [OF s], of as_sequence]
      arg_cong [OF storeAnchorLocked_keeps [OF s], of as_sinceCheckpoint] in simp_all)
qed



section \<open>What half-done writes leave behind\<close>

text \<open>
  C31: an anchor that could not be replaced blocks the next start. When a Record advanced the chain
  but its anchor write failed, the ledger still verifies up to the new head, yet Load refuses it: the
  anchor on disk names the old head.
\<close>

theorem stale_anchor_blocks_restart:
  assumes inv: "audit_inv f2i key (rot_lines rs) (rot_ready rs) st"
    and opts: "opts = configureAuditRuntime pf f2i wd rs cfg auditPath repoRoot fs tenancy"
    and valid: "validateRotationSettings wd rs = None" and e: "hc_Enabled cfg" "auditPath \<noteq> []"
    and p: "plain_record pf opts t s d" "one_key key ans" "clean_answers clean_rot ans"
    and a: "as_anchor st = AnchorFile a" "verifyAuditLedgerAnchor a key = None" "AuditSequence a = as_sequence st"
    and rec: "Record opts ans st t s d = (st1, Inl err)" "as_sequence st1 \<noteq> as_sequence st"
      "replace ans = NotReplaced m"
    and moved: "stat_active fs (as_log st1) \<noteq> Some (ActiveFileState a)"
    and boot: "as_log st0 = as_log st1" "as_anchor st0 = as_anchor st1"
    and ans': "secret_checkpoint ans' = Inr key" "stat_fails ans' = None"
  shows "ReadVerifiedChainState (rot_lines rs (as_log st1)) ''audit_sequence'' = Inr (as_sequence st1, as_lastHash st1) \<and>
    snd (Load opts ans' st0) = Some (Integrity ''audit ledger anchor head mismatch'')"
proof -
  have "audit_inv f2i key (rot_lines rs) (rot_ready rs) st1"
    by (rule rot.Record_keeps [OF inv _ p(1,2) rec(1)]) (simp_all add: opts p)
  then have sy: "synced (rot_lines rs) (rot_ready rs) st1" by (simp add: audit_inv_def)
  have keep: "as_anchor st' = as_anchor st''" if "storeAnchorLocked opts ans st'' = (st', r)" for st' st'' r
    using that rec(3) by (auto simp: storeAnchorLocked_def storeAnchor_def storeAuditLedgerAnchor_def Let_def
        split: if_splits sum.splits)
  have keep_app: "as_anchor st' = as_anchor st''" if "append_audit app x st'' ev = (st', r)" for st' st'' app x ev r
    using append_audit_fields [OF that] by simp
  have keep_cp: "as_anchor st' = as_anchor st''" if "appendHMACCheckpointIfDueLocked app opts ans st'' = (st', r)" for st' st'' app r
    using that by (auto simp: appendHMACCheckpointIfDueLocked_def split: if_splits sum.splits prod.splits dest: keep_app)
  have "as_anchor st1 = as_anchor st"
    using rec(1) by (auto simp: Record_def Let_def split: option.splits prod.splits sum.splits
        dest!: keep keep_app keep_cp)
  then have an: "as_anchor st0 = AnchorFile a" using a(1) boot(2) by simp
  have la: "loadAuditLedgerAnchor (as_anchor st0) key = Inr (Some a)"
    by (simp add: loadAuditLedgerAnchor_def an a(2))
  have nf: "loadFromAnchorIfFileStateMatches opts ans' a st0 = (st0, Inr False)"
    using moved ans'(2) by (auto simp: loadFromAnchorIfFileStateMatches_def opts boot(1) split: option.split)
  obtain c' where rd: "ReadSegmentedChainState wd rs None None (as_log st0) ''audit_sequence'' =
        ((as_log st1)\<lparr>act := (act (as_log st1))\<lparr>cached := c'\<rparr>\<rparr>, Inr (as_sequence st1, as_lastHash st1))"
    using read_segmented [OF _ valid, of "as_log st1" "''audit_sequence''"] sy
    unfolding synced_def boot(1) by blast
  have "snd (Load opts ans' st0) = Some (Integrity ''audit ledger anchor head mismatch'')"
    using rd e la nf a(3) rec(2) ans' an
    by (simp add: Load_def opts loadByScanning_def set_head_def recover_checkpoint_counter_def
        loadAndVerifyAnchor_def Let_def)
  with sy show ?thesis by (simp add: synced_def)
qed

text \<open>An event appended under a used audit sequence ends the verification by that field.\<close>

lemma reused_sequence_rejected:
  assumes ok: "cache_ok log" and rd: "ReadVerifiedChainState (content log) ''ledger_sequence'' = Inr (n, h)"
    and ap: "Append pf x log e = (log', None)" and p: "plain_event pf e"
    and seq: "map_of (data_of e) ''audit_sequence'' = Some (GInt n)"
  shows "(\<exists>h'. ReadVerifiedChainState (content log') ''ledger_sequence'' = Inr (n + 1, h')) \<and>
    (\<forall>ls r. ReadVerifiedChainState (content log' @ ls) ''audit_sequence'' \<noteq> Inr r)"
proof -
  from flat.app_ok [OF ap ok p] have x: "extends_chain pf (content log) e (content log')" by simp
  obtain sev h2 where l: "content log' = content log @ [Line sev]"
    and sev: "ParseEvent (Line sev) = Some sev"
      "\<forall>k y. k \<noteq> ''event_hash'' \<longrightarrow> map_of (data_of (chained_event (versioned e) n h)) k = Some y \<longrightarrow>
       (\<exists>z. canonicalizeValue y = Inr z \<and> map_of (data_of sev) k = Some (read_back pf z))"
    and c: "check_line ''ledger_sequence'' (n + 1) h (Line sev) = Inr h2"
    using extends_chain_verifies [OF x p] rd by auto
  have au0: "map_of (data_of (chained_event (versioned e) n h)) ''audit_sequence'' = Some (GInt n)"
    using seq by (simp add: chained_event_def versioned_def data_of_def)
  have "\<exists>z. canonicalizeValue (GInt n) = Inr z \<and> map_of (data_of sev) ''audit_sequence'' = Some (read_back pf z)"
    by (rule sev(2) [rule_format, OF _ au0]) simp
  then have au: "map_of (data_of sev) ''audit_sequence'' = Some (GFloat (FInt n))" by (auto simp: result_iffs)
  have bad: "check_line ''audit_sequence'' (n + 1) h1 (Line sev) \<noteq> Inr h'" for h1 h'
    using au sev(1) by (auto simp: check_line_Inr chainSequenceValue_def sequenceValueFromRaw_def split: if_splits)
  have "ReadVerifiedChainState (content log' @ ls) ''audit_sequence'' \<noteq> Inr r" for ls r
  proof
    assume "ReadVerifiedChainState (content log' @ ls) ''audit_sequence'' = Inr r"
    then obtain n1 h1 h' where rd1: "readVerifiedChainStateFromBase (content log) ''audit_sequence'' 0 [] = Inr (n1, h1)"
      and ck: "check_line ''audit_sequence'' (n1 + 1) h1 (Line sev) = Inr h'"
      by (auto simp: l ReadVerifiedChainState_def read_append result_iffs)
    have "n1 = n" using read_count [OF rd1] read_count [OF rd [unfolded ReadVerifiedChainState_def]] by simp
    with ck bad show False by simp
  qed
  with rd c show ?thesis by (simp add: l ReadVerifiedChainState_def read_append)
qed


section \<open>Witnesses of the failures\<close>

definition stale_anchor :: "string \<Rightarrow> audit_anchor" where
  "stale_anchor key = (let a = \<lparr>an_V = 1, UpdatedAt = [], AuditSequence = 0, an_LastEventHash = [],
     EventsSinceCheckpoint = 0, ActiveSizeBytes = 0, ActiveFileState = no_file_state\<lparr>Device := 7\<rparr>, HMACSHA256 = []\<rparr>
   in a\<lparr>HMACSHA256 := computeAuditLedgerAnchorHMACHex a key\<rparr>)"

lemma stale_anchor_verifies: "verifyAuditLedgerAnchor (stale_anchor key) key = None"
  unfolding stale_anchor_def Let_def
  by (rule signed_anchor_verifies) (simp_all add: auditLedgerAnchorSchemaVersion_def no_file_state_def)

theorem stale_anchor_blocks_restart_witness:
  "let st = (fresh_audit empty_disk)\<lparr>as_anchor := AnchorFile (stale_anchor ''k'')\<rparr>;
       st1 = fst (Record sample_opts ((answers_ok ''k'')\<lparr>replace := NotReplaced ''disk full''\<rparr>) st ''boot'' [] None)
   in as_sequence st1 = 1 \<and>
      snd (Load sample_opts (answers_ok ''k'') st1) = Some (Integrity ''audit ledger anchor head mismatch'')"
proof -
  let ?ans = "(answers_ok ''k'')\<lparr>replace := NotReplaced ''disk full''\<rparr>"
  let ?st = "(fresh_audit empty_disk)\<lparr>as_anchor := AnchorFile (stale_anchor ''k'')\<rparr>"
  obtain st0 eh where f: "as_sequence st0 = 1" "as_anchor st0 = AnchorFile (stale_anchor ''k'')"
    "Record sample_opts ?ans ?st ''boot'' [] None =
      (case storeAnchorLocked sample_opts ?ans st0 of (st4, Some e) \<Rightarrow> (st4, Inl e) | (st4, None) \<Rightarrow> (st4, Inr eh))"
    using first_record [of ?ans "''k''" "AnchorFile (stale_anchor ''k'')"] by auto
  have s: "storeAnchorLocked sample_opts ?ans st0 = (st0, Some (LedgerIO ''disk full''))"
    by (cases "opt_Stat sample_opts (as_log st0)")
       (simp_all add: storeAnchorLocked_def storeAnchor_def activeLedgerFileState_def
        storeAuditLedgerAnchor_def Let_def f)
  have r: "Record sample_opts ?ans ?st ''boot'' [] None = (st0, Inl (LedgerIO ''disk full''))" using f(3) s by simp
  have inv: "audit_inv (\<lambda>_. 0) ''k'' (rot_lines sample_settings) (rot_ready sample_settings) ?st"
    using fresh_audit_inv [of "\<lambda>_. 0" "''k''"] by (simp add: audit_inv_def)
  have "snd (Load sample_opts (answers_ok ''k'') st0) = Some (Integrity ''audit ledger anchor head mismatch'')"
    by (rule stale_anchor_blocks_restart [OF inv sample_opts_def sample_settings_valid _ _ plain_boot _ _ _
          stale_anchor_verifies _ r, THEN conjunct2])
       (simp_all add: one_key_def clean_answers_def f fresh_audit_def stale_anchor_def Let_def stat_active_def
          no_file_state_def)
  with r f show ?thesis by (simp add: Let_def)
qed

definition flat_opts :: "(io, ledger_file) audit_opts" where
  "flat_opts = \<lparr>opt_Append = Some (Append (\<lambda>s. FFrac s)), opt_Path = ''/l/audit.jsonl'', opt_AnchorPath = [],
     opt_Config = \<lparr>hc_Enabled = False, IntervalEvents = 0\<rparr>, opt_Tenancy = None,
     opt_ReadChain = (\<lambda>f fld. (f, ReadVerifiedChainState (content f) fld)),
     opt_OrderedFiles = (\<lambda>f. Inr [Some (content f)]), opt_Prime = (\<lambda>f n h. f),
     opt_ManifestInUse = (\<lambda>f. False), opt_Stat = (\<lambda>f. None), opt_f2i = (\<lambda>_. 0)\<rparr>"

definition flat_answers :: "io \<Rightarrow> io answers" where
  "flat_answers x = \<lparr>io_event = x, io_checkpoint = x, now_event = unix_epoch, now_checkpoint = unix_epoch,
     now_anchor = unix_epoch, secret_checkpoint = Inr [], secret_anchor = Inr [], stat_fails = None,
     replace = Replaced\<rparr>"

lemma flat_append_outcome:
  assumes "cache_ok f" "ReadVerifiedChainState (content f) ''ledger_sequence'' = Inr (n, h)"
    "prepareLedgerEventLine n h e = Inr (c, b, eh)" "plain_event pf e"
  shows "\<exists>f'. Append pf (io_ok\<lparr>sync_error := s\<rparr>) f e = (f', map_option LedgerIO s) \<and>
     content f' \<noteq> content f \<and> cache_ok f' \<and>
     (\<exists>h'. ReadVerifiedChainState (content f') ''ledger_sequence'' = Inr (n + 1, h'))"
proof -
  obtain f1 found where l: "loadCachedChainState f = (f1, found)" by fastforce
  note h = chain_head [OF assms(1) l] and pa = prepare_agrees [OF assms(3)]
  have "(case found of Some c \<Rightarrow> Inr (lastSequence c, lastHash c)
       | None \<Rightarrow> ReadVerifiedChainState (content f1) ''ledger_sequence'') = Inr (n, h)" using h assms(2) by simp
  then have "Append pf (io_ok\<lparr>sync_error := s\<rparr>) f e = append_at pf (io_ok\<lparr>sync_error := s\<rparr>) f1 (versioned e) n h"
    by (simp add: Append_def io_ok_def l versioned_def)
  then obtain f' where a: "Append pf (io_ok\<lparr>sync_error := s\<rparr>) f e = (f', map_option LedgerIO s)"
    and c: "content f' = content f @ [Line (stored_event pf c)]"
    using pa h by (cases s) (auto simp: append_at_def io_ok_def write_line_def clearCache_def Let_def)
  have x: "extends_chain pf (content f) e (content f')"
    using assms(2) pa c by (auto simp: extends_chain_def)
  from extends_chain_verifies [OF x assms(4)] assms(2) c
  have "\<exists>h'. ReadVerifiedChainState (content f') ''ledger_sequence'' = Inr (n + 1, h')"
    by (auto simp: ReadVerifiedChainState_def read_append)
  with a c Append_cache_ok [OF a assms(1,4)] show ?thesis by auto
qed

text \<open>An event of this kind prepares at any sequence in range.\<close>

lemma small_safe: "0 \<le> n \<Longrightarrow> n < 1000 \<Longrightarrow> validateSafeJSONInteger n = None"
  by (simp add: validateSafeJSONInteger_def minSafeJSONInteger_def maxSafeJSONInteger_def)

lemma plain_prepared:
  assumes "validateSafeJSONInteger (n + 1) = None" "validateSafeJSONInteger m = None"
  shows "\<exists>c b eh. prepareLedgerEventLine n h (put_hash x (record_event t ''boot'' [] (chain_fields m h' []))) = Inr (c, b, eh)"
  using assms
  by (simp add: prepareLedgerEventLine_def put_hash_def chain_fields_def canonicalizeEvent_def chained_event_def
      versioned_def data_of_def canonicalizeDataMap_def mput_def mdel_def SchemaVersion_def record_event_def Let_def)

lemma flat_record:
  assumes ok: "cache_ok (as_log st)" and rd: "ReadVerifiedChainState (content (as_log st)) ''ledger_sequence'' = Inr (n, h)"
    and small: "0 \<le> n" "n < 900" "0 \<le> as_sequence st" "as_sequence st < 900"
    and hv: "valid_utf8 (as_lastHash st)"
  shows "\<exists>f eh. content f \<noteq> content (as_log st) \<and> cache_ok f \<and>
    (\<exists>h'. ReadVerifiedChainState (content f) ''ledger_sequence'' = Inr (n + 1, h')) \<and>
    Record flat_opts (flat_answers (io_ok\<lparr>sync_error := s\<rparr>)) st ''boot'' [] None =
     (case s of Some m \<Rightarrow> (st\<lparr>as_log := f\<rparr>, Inl (LedgerIO m))
      | None \<Rightarrow> (st\<lparr>as_log := f, as_sequence := as_sequence st + 1, as_lastHash := eh,
           as_sinceCheckpoint := as_sinceCheckpoint st + 1\<rparr>, Inr eh))"
proof -
  let ?ev = "record_event unix_epoch ''boot'' [] (chain_fields (as_sequence st + 1) (as_lastHash st) [])"
  obtain eh where h: "ComputeEventHash ?ev = Inr eh"
    using small by (simp add: ComputeEventHash_def hashEvent_eq record_event_def chain_fields_def mput_def mdel_def
        small_safe)
  obtain c b x where p: "prepareLedgerEventLine n h (put_hash eh ?ev) = Inr (c, b, x)"
    using plain_prepared [OF small_safe small_safe, of n "as_sequence st + 1"] small by fastforce
  have "plain_record (\<lambda>s. FFrac s) flat_opts ''boot'' [] None"
    by (simp add: plain_record_def flat_opts_def copyInterfaceMap_def ascii_byte_def
        AuditLedgerHMACCheckpointEventType_def)
  from plain_record_event [OF this hv, of unix_epoch "as_sequence st + 1"]
  have pe: "plain_event (\<lambda>s. FFrac s) (put_hash eh ?ev)"
    using h by (intro plain_put_hash) (simp_all add: flat_opts_def add_tenancy_def copyInterfaceMap_def)
  from flat_append_outcome [OF ok rd p pe, of s] obtain f where
    f: "Append (\<lambda>s. FFrac s) (io_ok\<lparr>sync_error := s\<rparr>) (as_log st) (put_hash eh ?ev) = (f, map_option LedgerIO s)"
      "content f \<noteq> content (as_log st)" "cache_ok f"
      "\<exists>h'. ReadVerifiedChainState (content f) ''ledger_sequence'' = Inr (n + 1, h')" by blast
  have "Record flat_opts (flat_answers (io_ok\<lparr>sync_error := s\<rparr>)) st ''boot'' [] None =
     (case s of Some m \<Rightarrow> (st\<lparr>as_log := f\<rparr>, Inl (LedgerIO m))
      | None \<Rightarrow> (st\<lparr>as_log := f, as_sequence := as_sequence st + 1, as_lastHash := eh,
           as_sinceCheckpoint := as_sinceCheckpoint st + 1\<rparr>, Inr eh))"
    using h f(1) by (cases s) (simp_all add: Record_def flat_opts_def flat_answers_def append_audit_def Let_def
        copyInterfaceMap_def add_tenancy_def LedgerWriter_Record_def appendHMACCheckpointIfDueLocked_def
        checkpoint_due_def storeAnchorLocked_def)
  with f show ?thesis by blast
qed


end
