(* ===== verification/ServerState.thy ===== *)
theory ServerState
  imports ApprovalModel SessionMac NonceStore ServerAudit
begin

text \<open>
  internal/loopgate/server_state.go and controlapi/core.go: the tables the server keeps under its lock
  mu, the responses it gives, and the operations its handlers share: the lock, the clock, random
  identifiers and the audit log (server_audit_runtime.go).

  What the server gets from outside is the record \<open>server_env\<close>: its limits, and one function per kind of
  interaction that gives the answer to the n-th interaction. The server counts its interactions in
  \<open>ticks\<close>. A handler is a function from the server to an optional result: None means that the goroutine
  blocks for ever, which happens when it locks mu while it holds it (mutexes of Go are not reentrant).
  \<open>trace\<close> records what can be observed from outside: events the audit log reported as recorded, tools run.
\<close>

section \<open>Constants\<close>

definition sessionTTL :: duration where "sessionTTL = 1 * nano_hour"
definition approvalTTL :: duration where "approvalTTL = 5 * nano_minute"
definition requestReplayWindow :: duration where "requestReplayWindow = sessionTTL"
definition requestSignatureSkew :: duration where "requestSignatureSkew = 2 * nano_minute"
definition fsReadRateWindow :: duration where "fsReadRateWindow = 1 * nano_minute"
definition authDeniedAuditBurstWindow :: duration where "authDeniedAuditBurstWindow = 5 * nano_second"

definition ResponseStatusSuccess :: string where "ResponseStatusSuccess = ''success''"
definition ResponseStatusDenied :: string where "ResponseStatusDenied = ''denied''"
definition ResponseStatusError :: string where "ResponseStatusError = ''error''"
definition ResponseStatusPendingApproval :: string where "ResponseStatusPendingApproval = ''pending_approval''"

lemmas response_status = ResponseStatusSuccess_def ResponseStatusDenied_def ResponseStatusError_def
  ResponseStatusPendingApproval_def

section \<open>Responses\<close>

record result_classification =
  Exposure :: string
  PromptFlag :: bool
  QuarantinedFlag :: bool
  QuarantineRefOf :: string

record field_metadata =
  Origin :: string
  ContentType :: string
  Trust :: string
  Sensitivity :: string
  SizeBytes :: int
  Kind :: string
  ScalarSubclass :: string
  fm_PromptEligible :: bool

record capability_response =
  rsp_RequestID :: string
  Status :: string
  StructuredResult :: gdata
  FieldsMeta :: "(string, field_metadata) gomap"
  Classification :: result_classification
  DenialReason :: string
  DenialCode :: string
  ApprovalRequired :: bool
  ApprovalRequestID :: string
  rsp_ApprovalManifestSHA256 :: string
  QuarantineRef :: string
  Redacted :: bool
  rsp_Metadata :: gdata

definition no_classification :: result_classification where
  "no_classification = \<lparr>Exposure = [], PromptFlag = False, QuarantinedFlag = False, QuarantineRefOf = []\<rparr>"

definition no_response :: capability_response where
  "no_response = \<lparr>rsp_RequestID = [], Status = [], StructuredResult = [], FieldsMeta = [],
     Classification = no_classification, DenialReason = [], DenialCode = [], ApprovalRequired = False,
     ApprovalRequestID = [], rsp_ApprovalManifestSHA256 = [], QuarantineRef = [], Redacted = False, rsp_Metadata = []\<rparr>"

definition denied :: "string \<Rightarrow> string \<Rightarrow> string \<Rightarrow> capability_response" where
  "denied requestID reason code = no_response\<lparr>rsp_RequestID := requestID, Status := ResponseStatusDenied,
     DenialReason := reason, DenialCode := code\<rparr>"

definition failed :: "string \<Rightarrow> string \<Rightarrow> string \<Rightarrow> capability_response" where
  "failed requestID reason code = no_response\<lparr>rsp_RequestID := requestID, Status := ResponseStatusError,
     DenialReason := reason, DenialCode := code\<rparr>"

definition auditUnavailableCapabilityResponse :: "string \<Rightarrow> capability_response" where
  "auditUnavailableCapabilityResponse requestID =
     failed requestID ''control-plane audit is unavailable'' ''audit_unavailable''"

lemma response_simps [simp]:
  "Status (denied r e c) = ResponseStatusDenied" "DenialCode (denied r e c) = c" "rsp_RequestID (denied r e c) = r"
  "Status (failed r e c) = ResponseStatusError" "DenialCode (failed r e c) = c" "rsp_RequestID (failed r e c) = r"
  "Status (auditUnavailableCapabilityResponse r) = ResponseStatusError"
  "DenialCode (auditUnavailableCapabilityResponse r) = ''audit_unavailable''"
  by (simp_all add: denied_def failed_def auditUnavailableCapabilityResponse_def)

section \<open>State\<close>

record peer_identity =
  UID :: int
  PID :: int
  EPID :: int

record capability_token =
  TokenID :: string
  Token :: string
  ct_ControlSessionID :: string
  ct_ActorLabel :: string
  ct_ClientSessionLabel :: string
  ct_AllowedCapabilities :: "string list"
  ct_PeerIdentity :: peer_identity
  ct_TenantID :: string
  ct_UserID :: string
  ct_ExpiresAt :: gotime
  SingleUse :: bool
  ApprovedExecution :: bool
  BoundCapability :: string
  BoundArgumentHash :: string
  ParentTokenID :: string

record control_session =
  cs_ID :: string
  cs_ActorLabel :: string
  cs_ClientSessionLabel :: string
  cs_WorkspaceID :: string
  OperatorMountPaths :: "string list"
  PrimaryOperatorMountPath :: string
  OperatorMountWriteGrants :: "(string, gotime) gomap"
  RequestedCapabilities :: "string list"
  ApprovalToken :: string
  ApprovalTokenID :: string
  SessionMACKey :: string
  cs_PeerIdentity :: peer_identity
  cs_TenantID :: string
  cs_UserID :: string
  cs_ExpiresAt :: gotime
  cs_CreatedAt :: gotime

record auth_denied_burst =
  WindowStartedAt :: gotime
  LastSeenAt :: gotime
  SuppressedCount :: int

record mcp_approval =
  ma_ID :: string
  ma_ControlSessionID :: string
  ma_ActorLabel :: string
  ma_ClientSessionLabel :: string
  ma_TenantID :: string
  ma_UserID :: string
  ma_ServerID :: string
  ma_ToolName :: string
  ma_ValidatedArgumentKeys :: "string list"
  ma_CreatedAt :: gotime
  ma_ExpiresAt :: gotime
  ma_DecisionNonce :: string
  ma_DecisionSubmittedAt :: gotime
  ma_ExecutedAt :: gotime
  ma_ApprovalManifestSHA256 :: string
  ma_InvocationBodySHA256 :: string
  ma_State :: string

datatype action = Audited string string gdata | Ran string "(string, string) gomap" string

record ('f, 'w) server =
  mu_held :: bool
  ticks :: nat
  sessions :: "(string, control_session) gomap"
  tokens :: "(string, capability_token) gomap"
  openByUID :: "(int, gotime) gomap"
  records :: "(string, pending_approval) gomap"
  tokenIndex :: "(string, string) gomap"
  mcpGatewayApprovalRequests :: "(string, mcp_approval) gomap"
  seenRequests :: "(string, seen_request) gomap"
  seenAuthNonces :: "(string, seen_request) gomap"
  usedTokens :: "(string, used_token) gomap"
  sessionReadCounts :: "(string, gotime list) gomap"
  authDeniedBursts :: "(string, auth_denied_burst) gomap"
  hookPreValidateCounts :: "(int, gotime list) gomap"
  hookPeerAuthFailureCounts :: "(string, gotime list) gomap"
  nextExpirySweepAt :: gotime
  executionSlotsInUse :: int
  srv_nonces :: "nonce_log option"
  srv_audit :: "'f audit_state"
  srv_world :: 'w
  trace :: "action list"

record ('io, 'f) server_env =
  clock :: "nat \<Rightarrow> gotime"
  random :: "nat \<Rightarrow> nat \<Rightarrow> string result"
  audit_answers :: "nat \<Rightarrow> 'io answers"
  nonce_answers :: "nat \<Rightarrow> append_outcome"
  audit_options :: "('io, 'f) audit_opts"
  sessionOpenMinInterval :: duration
  maxActiveSessionsPerUID :: int
  expirySweepMaxInterval :: duration
  fsReadRateLimit :: int
  hookPreValidateRateLimit :: int
  hookPreValidateRateWindow :: duration
  hookPeerAuthFailureRateLimit :: int
  hookPeerAuthFailureWindow :: duration
  maxPendingApprovalsPerControlSession :: int
  maxSeenRequestReplayEntries :: nat
  maxAuthNonceReplayEntries :: int
  maxTotalControlSessions :: int
  maxTotalApprovalRecords :: int
  maxInFlightCapabilityExecutions :: "int option"
  sessionMACRotationMaster :: string

section \<open>Lock, clock, random identifiers\<close>

definition lock_mu :: "('f, 'w) server \<Rightarrow> ('f, 'w) server option" where
  "lock_mu s = (if mu_held s then None else Some (s\<lparr>mu_held := True\<rparr>))"

definition unlock_mu :: "('f, 'w) server \<Rightarrow> ('f, 'w) server" where
  "unlock_mu s = s\<lparr>mu_held := False\<rparr>"

text \<open>A body between server.mu.Lock() and a deferred server.mu.Unlock().\<close>

definition with_mu :: "(('f, 'w) server \<Rightarrow> ('a \<times> ('f, 'w) server) option) \<Rightarrow> ('f, 'w) server \<Rightarrow>
    ('a \<times> ('f, 'w) server) option" where
  "with_mu body s = (case lock_mu s of None \<Rightarrow> None
     | Some s1 \<Rightarrow> (case body s1 of None \<Rightarrow> None | Some (r, s2) \<Rightarrow> Some (r, unlock_mu s2)))"

definition server_now :: "('io, 'f) server_env \<Rightarrow> ('f, 'w) server \<Rightarrow> gotime \<times> ('f, 'w) server" where
  "server_now env s = (clock env (ticks s), s\<lparr>ticks := Suc (ticks s)\<rparr>)"

definition randomHex :: "('io, 'f) server_env \<Rightarrow> nat \<Rightarrow> ('f, 'w) server \<Rightarrow> string result \<times> ('f, 'w) server" where
  "randomHex env byteCount s = (random env (ticks s) byteCount, s\<lparr>ticks := Suc (ticks s)\<rparr>)"

section \<open>The audit log\<close>

text \<open>
  mergeAuditTenancyFromControlSession and the lookup of tenantUserForControlSession, which locks mu
  unless the session id is blank.
\<close>

definition mergeAuditTenancyFromControlSession :: "gdata \<Rightarrow> control_session \<Rightarrow> gdata" where
  "mergeAuditTenancyFromControlSession auditData session =
    (let d1 = if mhas auditData ''tenant_id'' then auditData else mput ''tenant_id'' (GString (cs_TenantID session)) auditData
     in if mhas d1 ''user_id'' then d1 else mput ''user_id'' (GString (cs_UserID session)) d1)"

definition tenantUserForControlSession :: "('f, 'w) server \<Rightarrow> string \<Rightarrow> (string \<times> string) option" where
  "tenantUserForControlSession s controlSessionID =
    (if blank controlSessionID then Some ([], [])
     else if mu_held s then None
     else (case map_of (sessions s) controlSessionID of
         None \<Rightarrow> Some ([], [])
       | Some session \<Rightarrow> Some (cs_TenantID session, cs_UserID session)))"

text \<open>
  Record calls the lookup only when a tenancy field is missing. The answers to its file system, clock
  and secret store calls are one interaction.
\<close>

definition logEventWithHash :: "('io, 'f) server_env \<Rightarrow> string \<Rightarrow> string \<Rightarrow> gdata \<Rightarrow> ('f, 'w) server \<Rightarrow>
    ((ledger_error + string) \<times> ('f, 'w) server) option" where
  "logEventWithHash env eventType sessionID auditData s =
    (case (if needs_tenancy auditData
           then tenantUserForControlSession s sessionID else Some ([], [])) of
       None \<Rightarrow> None
     | Some tenancy \<Rightarrow>
        (case Record ((audit_options env)\<lparr>opt_Tenancy := Some (\<lambda>_. tenancy)\<rparr>) (audit_answers env (ticks s))
            (srv_audit s) eventType sessionID (Some auditData) of
          (a, r) \<Rightarrow> Some (r, s\<lparr>srv_audit := a, ticks := Suc (ticks s),
            trace := (case r of Inl _ \<Rightarrow> trace s | Inr _ \<Rightarrow> trace s @ [Audited eventType sessionID auditData])\<rparr>)))"

definition logEvent :: "('io, 'f) server_env \<Rightarrow> string \<Rightarrow> string \<Rightarrow> gdata \<Rightarrow> ('f, 'w) server \<Rightarrow>
    (ledger_error option \<times> ('f, 'w) server) option" where
  "logEvent env eventType sessionID auditData s = (case logEventWithHash env eventType sessionID auditData s of
     None \<Rightarrow> None
   | Some (Inl e, s') \<Rightarrow> Some (Some e, s')
   | Some (Inr _, s') \<Rightarrow> Some (None, s'))"

end
