(* ===== verification/ControlPlane.thy ===== *)
theory ControlPlane
  imports ServerState
begin

text \<open>
  internal/loopgate/control_plane_state.go and server_rate_limit.go: the lazy sweep of expired entries,
  the counts of pending approvals, the replay tables of request ids, execution tokens and nonces, and
  the rate limits. A function whose name ends in Locked is called with mu held and only changes
  the tables; the others take and release the lock.
\<close>

section \<open>Arguments and responses\<close>

text \<open>capability_execution_runtime.go.\<close>

definition normalizedArgumentHash :: "(string, string) gomap \<Rightarrow> string" where
  "normalizedArgumentHash arguments = (if arguments = [] then [] else
     sha256_hex (concat (map (\<lambda>(k, v). k @ [CHR 0x00] @ v @ [CHR 0x0A]) (sort_keys arguments))))"

section \<open>State transitions of stored approvals\<close>

definition setApprovalStateLocked :: "(string, pending_approval) gomap \<Rightarrow> string \<Rightarrow> pending_approval \<Rightarrow>
    string \<Rightarrow> (string, pending_approval) gomap \<times> (transition_error + pending_approval)" where
  "setApprovalStateLocked approvalRecords approvalID approval nextState =
    (case ValidateStateTransition (pa_State approval) nextState of
       Some e \<Rightarrow> (approvalRecords, Inl e)
     | None \<Rightarrow> (let a = approval\<lparr>pa_State := nextState\<rparr> in (mput approvalID a approvalRecords, Inr a)))"

definition setMCPGatewayApprovalStateLocked :: "(string, mcp_approval) gomap \<Rightarrow> string \<Rightarrow> mcp_approval \<Rightarrow>
    string \<Rightarrow> (string, mcp_approval) gomap \<times> (transition_error + mcp_approval)" where
  "setMCPGatewayApprovalStateLocked approvalRequests approvalRequestID approvalRequest nextState =
    (case ValidateStateTransition (ma_State approvalRequest) nextState of
       Some e \<Rightarrow> (approvalRequests, Inl e)
     | None \<Rightarrow> (let a = approvalRequest\<lparr>ma_State := nextState\<rparr> in
         (mput approvalRequestID a approvalRequests, Inr a)))"

section \<open>The sweep\<close>

text \<open>
  One pass over a table: an entry is dropped, or kept (perhaps changed) with the instants it gives to
  noteNextSweepCandidate, which keeps the earliest instant that is not the zero time.
\<close>

definition noteNextSweepCandidate :: "gotime \<Rightarrow> gotime \<Rightarrow> gotime" where
  "noteNextSweepCandidate candidateTime earliest =
    (if candidateTime = 0 then earliest
     else if earliest = 0 \<or> candidateTime < earliest then candidateTime else earliest)"

definition sweep :: "('v \<Rightarrow> ('v \<times> gotime list) option) \<Rightarrow> ('k, 'v) gomap \<Rightarrow> gotime \<Rightarrow> ('k, 'v) gomap \<times> gotime" where
  "sweep step m earliest =
    (List.map_filter (\<lambda>(k, v). map_option (\<lambda>(v', _). (k, v')) (step v)) m,
     fold noteNextSweepCandidate
       (concat (map (\<lambda>(k, v). case step v of None \<Rightarrow> [] | Some (_, cs) \<Rightarrow> cs) m)) earliest)"

definition sweep_token :: "gotime \<Rightarrow> capability_token \<Rightarrow> (capability_token \<times> gotime list) option" where
  "sweep_token nowUTC t = (if nowUTC > ct_ExpiresAt t then None else Some (t, [ct_ExpiresAt t]))"

definition sweep_session :: "gotime \<Rightarrow> control_session \<Rightarrow> (control_session \<times> gotime list) option" where
  "sweep_session nowUTC t = (if nowUTC > cs_ExpiresAt t then None else Some (t, [cs_ExpiresAt t]))"

definition sweep_approval :: "gotime \<Rightarrow> pending_approval \<Rightarrow> (pending_approval \<times> gotime list) option" where
  "sweep_approval nowUTC a = (if nowUTC > pa_ExpiresAt a then
       if pa_State a = StatePending then
         (case snd (setApprovalStateLocked [] [] a StateExpired) of
            Inl _ \<Rightarrow> Some (a, [pa_ExpiresAt a])
          | Inr a' \<Rightarrow> Some (a', [pa_ExpiresAt a' + requestReplayWindow]))
       else if time_sub nowUTC (pa_ExpiresAt a) > requestReplayWindow then None
       else Some (a, [pa_ExpiresAt a + requestReplayWindow])
     else Some (a, [pa_ExpiresAt a]))"

definition sweep_mcp_approval :: "gotime \<Rightarrow> mcp_approval \<Rightarrow> (mcp_approval \<times> gotime list) option" where
  "sweep_mcp_approval nowUTC a = (if nowUTC > ma_ExpiresAt a then
       if ma_State a = StatePending then
         (case snd (setMCPGatewayApprovalStateLocked [] [] a StateExpired) of
            Inl _ \<Rightarrow> Some (a, [ma_ExpiresAt a])
          | Inr a' \<Rightarrow> Some (a', [ma_ExpiresAt a' + requestReplayWindow]))
       else if time_sub nowUTC (ma_ExpiresAt a) > requestReplayWindow then None
       else Some (a, [ma_ExpiresAt a + requestReplayWindow])
     else Some (a, [ma_ExpiresAt a]))"

definition sweep_seen :: "gotime \<Rightarrow> seen_request \<Rightarrow> (seen_request \<times> gotime list) option" where
  "sweep_seen nowUTC v = (if time_sub nowUTC (sr_SeenAt v) > requestReplayWindow then None
     else Some (v, [sr_SeenAt v + requestReplayWindow]))"

definition sweep_used :: "gotime \<Rightarrow> used_token \<Rightarrow> (used_token \<times> gotime list) option" where
  "sweep_used nowUTC v = (if time_sub nowUTC (ut_ConsumedAt v) > requestReplayWindow then None
     else Some (v, [ut_ConsumedAt v + requestReplayWindow]))"

definition sweep_timestamps :: "duration \<Rightarrow> gotime \<Rightarrow> gotime list \<Rightarrow> (gotime list \<times> gotime list) option" where
  "sweep_timestamps window nowUTC ts = (let kept = filter (\<lambda>t. time_sub nowUTC t < window) ts in
     if kept = [] then None else Some (kept, map (\<lambda>t. t + window) kept))"

definition sweep_burst :: "gotime \<Rightarrow> auth_denied_burst \<Rightarrow> (auth_denied_burst \<times> gotime list) option" where
  "sweep_burst nowUTC b = (if time_sub nowUTC (LastSeenAt b) \<ge> authDeniedAuditBurstWindow then None
     else Some (b, [LastSeenAt b + authDeniedAuditBurstWindow]))"

text \<open>The approval tokens of the sessions the sweep drops.\<close>

definition dropped_approval_tokens :: "gotime \<Rightarrow> (string, control_session) gomap \<Rightarrow> string list" where
  "dropped_approval_tokens nowUTC m = map (\<lambda>(_, t). TokenHash (ApprovalToken t)) (mfilter (\<lambda>_ t. nowUTC > cs_ExpiresAt t) m)"

definition sweep_tables :: "('io, 'f) server_env \<Rightarrow> gotime \<Rightarrow> ('f, 'w) server \<Rightarrow> ('f, 'w) server \<times> gotime" where
  "sweep_tables env nowUTC s = (let
     (tokens', e1) = sweep (sweep_token nowUTC) (tokens s) 0;
     (sessions', e2) = sweep (sweep_session nowUTC) (sessions s) e1;
     (records', e3) = sweep (sweep_approval nowUTC) (records s) e2;
     (mcp', e4) = sweep (sweep_mcp_approval nowUTC) (mcpGatewayApprovalRequests s) e3;
     (requests', e5) = sweep (sweep_seen nowUTC) (seenRequests s) e4;
     (nonces', e6) = sweep (sweep_seen nowUTC) (seenAuthNonces s) e5;
     (used', e7) = sweep (sweep_used nowUTC) (usedTokens s) e6;
     (reads', e8) = sweep (sweep_timestamps fsReadRateWindow nowUTC) (sessionReadCounts s) e7;
     (bursts', e9) = sweep (sweep_burst nowUTC) (authDeniedBursts s) e8;
     (hooks', e10) = sweep (sweep_timestamps (hookPreValidateRateWindow env) nowUTC) (hookPreValidateCounts s) e9;
     (failures', e11) = sweep (sweep_timestamps (hookPeerAuthFailureWindow env) nowUTC)
       (hookPeerAuthFailureCounts s) e10
   in (s\<lparr>tokens := tokens', sessions := sessions',
         tokenIndex := fold mdel (dropped_approval_tokens nowUTC (sessions s)) (tokenIndex s),
         records := records', mcpGatewayApprovalRequests := mcp', seenRequests := requests',
         seenAuthNonces := nonces', usedTokens := used', sessionReadCounts := reads',
         authDeniedBursts := bursts', hookPreValidateCounts := hooks', hookPeerAuthFailureCounts := failures'\<rparr>, e11))"

definition next_sweep :: "duration \<Rightarrow> gotime \<Rightarrow> gotime \<Rightarrow> gotime" where
  "next_sweep maxInterval nowUTC earliest = (if maxInterval \<le> 0 then 0
     else if earliest = 0 then 0
     else if earliest < nowUTC then nowUTC
     else if earliest < nowUTC + maxInterval then earliest
     else nowUTC + maxInterval)"

definition sweep_not_due :: "('io, 'f) server_env \<Rightarrow> gotime \<Rightarrow> ('f, 'w) server \<Rightarrow> bool" where
  "sweep_not_due env nowUTC s = (expirySweepMaxInterval env > 0 \<and> nextExpirySweepAt s \<noteq> 0 \<and>
     nowUTC < nextExpirySweepAt s)"

definition pruneExpiredLocked :: "('io, 'f) server_env \<Rightarrow> ('f, 'w) server \<Rightarrow> ('f, 'w) server" where
  "pruneExpiredLocked env s0 = (let (nowUTC, s) = server_now env s0 in
     if sweep_not_due env nowUTC s then s
     else (let (s', earliest) = sweep_tables env nowUTC s in
       s'\<lparr>nextExpirySweepAt := next_sweep (expirySweepMaxInterval env) nowUTC earliest\<rparr>))"

definition noteExpiryCandidateLocked :: "('io, 'f) server_env \<Rightarrow> gotime \<Rightarrow> ('f, 'w) server \<Rightarrow> ('f, 'w) server" where
  "noteExpiryCandidateLocked env candidateTime s =
    (if expirySweepMaxInterval env \<le> 0 \<or> candidateTime = 0 then s
     else if nextExpirySweepAt s = 0 \<or> candidateTime < nextExpirySweepAt s
     then s\<lparr>nextExpirySweepAt := candidateTime\<rparr> else s)"

definition noteReplayWindowCandidateLocked :: "('io, 'f) server_env \<Rightarrow> gotime \<Rightarrow> ('f, 'w) server \<Rightarrow>
    ('f, 'w) server" where
  "noteReplayWindowCandidateLocked env seenAt s =
    (if seenAt = 0 then s else noteExpiryCandidateLocked env (seenAt + requestReplayWindow) s)"

section \<open>Counts\<close>

definition countPendingApprovalsForSessionLocked :: "('f, 'w) server \<Rightarrow> string \<Rightarrow> int" where
  "countPendingApprovalsForSessionLocked s controlSessionID = int (length (filter
     (\<lambda>(_, a). pa_ControlSessionID a = controlSessionID \<and> pa_State a = StatePending) (records s)))"

definition countPendingMCPGatewayApprovalRequestsForSessionLocked :: "('f, 'w) server \<Rightarrow> string \<Rightarrow> int" where
  "countPendingMCPGatewayApprovalRequestsForSessionLocked s controlSessionID = int (length (filter
     (\<lambda>(_, a). ma_ControlSessionID a = controlSessionID \<and> ma_State a = StatePending) (mcpGatewayApprovalRequests s)))"

section \<open>Replay tables\<close>

definition enter_request :: "('io, 'f) server_env \<Rightarrow> string \<Rightarrow> capability_request \<Rightarrow> ('f, 'w) server \<Rightarrow>
    capability_response option \<times> ('f, 'w) server" where
  "enter_request env controlSessionID request s0 = (let (nowUTC, s) = server_now env (pruneExpiredLocked env s0) in
    case RecordSeenRequest (seenRequests s) (maxSeenRequestReplayEntries env) controlSessionID (RequestID request) nowUTC of
      (_, ReplayRecordDuplicate) \<Rightarrow>
        (Some (denied (RequestID request) ''duplicate request_id was rejected'' ''request_replay_detected''), s)
    | (_, ReplayRecordSaturated) \<Rightarrow>
        (Some (denied (RequestID request) ''request replay store is at capacity'' ''replay_state_saturated''), s)
    | (m, ReplayRecordAccepted) \<Rightarrow>
        (None, noteReplayWindowCandidateLocked env nowUTC (s\<lparr>seenRequests := m\<rparr>)))"

definition recordRequest :: "('io, 'f) server_env \<Rightarrow> string \<Rightarrow> capability_request \<Rightarrow> ('f, 'w) server \<Rightarrow>
    (capability_response option \<times> ('f, 'w) server) option" where
  "recordRequest env controlSessionID request = with_mu (\<lambda>s. Some (enter_request env controlSessionID request s))"

definition token_binding_denial :: "capability_token \<Rightarrow> capability_request \<Rightarrow> capability_response option" where
  "token_binding_denial claims request =
    (if \<not> blank (BoundCapability claims) \<and> BoundCapability claims \<noteq> Capability request
     then Some (denied (RequestID request) ''capability token binding does not match requested capability''
       ''capability_token_binding_invalid'')
     else if \<not> blank (BoundArgumentHash claims) \<and>
       BoundArgumentHash claims \<noteq> normalizedArgumentHash (args_of request)
     then Some (denied (RequestID request) ''capability token binding does not match normalized arguments''
       ''capability_token_binding_invalid'')
     else None)"

definition spend_token :: "('io, 'f) server_env \<Rightarrow> capability_token \<Rightarrow> capability_request \<Rightarrow> ('f, 'w) server \<Rightarrow>
    capability_response option \<times> ('f, 'w) server" where
  "spend_token env claims request s0 = (let (nowUTC, s) = server_now env (pruneExpiredLocked env s0) in
     case ConsumeUsedToken (usedTokens s) \<lparr>ut_TokenID = TokenID claims, ut_ParentTokenID = ParentTokenID claims,
         ut_ControlSessionID = ct_ControlSessionID claims, ut_Capability = Capability request,
         ut_NormalizedArgHash = normalizedArgumentHash (args_of request), ut_ConsumedAt = nowUTC\<rparr> of
       (_, ReplayRecordDuplicate) \<Rightarrow> (Some (denied (RequestID request)
         ''single-use capability token was already consumed'' ''capability_token_reused''), s)
     | (m, _) \<Rightarrow> (None, noteReplayWindowCandidateLocked env nowUTC (s\<lparr>usedTokens := m\<rparr>)))"

definition consumeExecutionToken :: "('io, 'f) server_env \<Rightarrow> capability_token \<Rightarrow> capability_request \<Rightarrow>
    ('f, 'w) server \<Rightarrow> (capability_response option \<times> ('f, 'w) server) option" where
  "consumeExecutionToken env claims request s =
    (case token_binding_denial claims request of
       Some r \<Rightarrow> Some (Some r, s)
     | None \<Rightarrow> if \<not> SingleUse claims then Some (None, s)
         else with_mu (\<lambda>s. Some (spend_token env claims request s)) s)"

text \<open>The first critical section of recordAuthNonce, and the whole function with the store's answer.\<close>

definition enter_nonce :: "('io, 'f) server_env \<Rightarrow> string \<Rightarrow> string \<Rightarrow> ('f, 'w) server \<Rightarrow>
    (capability_response + seen_request) \<times> ('f, 'w) server" where
  "enter_nonce env controlSessionID requestNonce s0 = (let
     nonceKey = controlSessionID @ '':'' @ requestNonce; s = pruneExpiredLocked env s0 in
     if mhas (seenAuthNonces s) nonceKey then
       (Inl (denied [] ''request nonce replay was rejected'' ''request_nonce_replay_detected''), s)
     else if int (length (seenAuthNonces s)) \<ge> maxAuthNonceReplayEntries env then
       (Inl (denied [] ''request nonce replay store is at capacity'' ''replay_state_saturated''), s)
     else (let (nowUTC, s1) = server_now env s;
           recordedNonce = \<lparr>sr_ControlSessionID = controlSessionID, sr_SeenAt = nowUTC\<rparr> in
       (Inr recordedNonce, noteReplayWindowCandidateLocked env nowUTC
          (s1\<lparr>seenAuthNonces := mput nonceKey recordedNonce (seenAuthNonces s1)\<rparr>))))"

definition recordAuthNonce :: "('io, 'f) server_env \<Rightarrow> string \<Rightarrow> string \<Rightarrow> ('f, 'w) server \<Rightarrow>
    (capability_response option \<times> ('f, 'w) server) option" where
  "recordAuthNonce env controlSessionID requestNonce s =
    (let nonceKey = controlSessionID @ '':'' @ requestNonce in
     case with_mu (\<lambda>s0. Some (enter_nonce env controlSessionID requestNonce s0)) s of
       None \<Rightarrow> None
     | Some (Inl r, s1) \<Rightarrow> Some (Some r, s1)
     | Some (Inr recordedNonce, s1) \<Rightarrow>
        (case log_Record (nonce_answers env (ticks s1)) nonceKey recordedNonce (srv_nonces s1) of
          (file, None) \<Rightarrow> Some (None, s1\<lparr>srv_nonces := file, ticks := Suc (ticks s1)\<rparr>)
        | (file, Some _) \<Rightarrow> with_mu (\<lambda>s2.
            Some (Some (failed [] ''nonce replay state is unavailable'' ''audit_unavailable''),
              s2\<lparr>seenAuthNonces := mdel nonceKey (seenAuthNonces s2)\<rparr>))
            (s1\<lparr>srv_nonces := file, ticks := Suc (ticks s1)\<rparr>)))"

definition loadNonceReplayState :: "('io, 'f) server_env \<Rightarrow> string option \<Rightarrow> snapshot_file \<Rightarrow> ('f, 'w) server \<Rightarrow>
    string option \<times> ('f, 'w) server" where
  "loadNonceReplayState env fails legacy s0 = (let (nowUTC, s) = server_now env s0 in
     case log_Load fails requestReplayWindow legacy nowUTC (srv_nonces s) of
       Inl e \<Rightarrow> (Some e, s)
     | Inr loaded \<Rightarrow> (None, s\<lparr>seenAuthNonces := fold (\<lambda>(k, v) m. mput k v m) loaded (seenAuthNonces s)\<rparr>))"

definition saveNonceReplayState :: "write_outcome \<Rightarrow> ('f, 'w) server \<Rightarrow>
    (string option \<times> ('f, 'w) server) option" where
  "saveNonceReplayState io s = (case with_mu (\<lambda>s0. Some (CopySeenRequests (seenAuthNonces s0), s0)) s of
     None \<Rightarrow> None
   | Some (snapshot, s1) \<Rightarrow> (case log_Compact io snapshot (srv_nonces s1) of
       (file, e) \<Rightarrow> Some (e, s1\<lparr>srv_nonces := file\<rparr>)))"

section \<open>Rate limits\<close>

definition counts_of :: "('k, gotime list) gomap \<Rightarrow> 'k \<Rightarrow> gotime list" where
  "counts_of m k = (case map_of m k of None \<Rightarrow> [] | Some ts \<Rightarrow> ts)"

definition checkFsReadRateLimit :: "('io, 'f) server_env \<Rightarrow> string \<Rightarrow> ('f, 'w) server \<Rightarrow>
    (bool \<times> ('f, 'w) server) option" where
  "checkFsReadRateLimit env controlSessionID = with_mu (\<lambda>s0.
     if fsReadRateLimit env \<le> 0 then Some (False, s0)
     else (let (nowUTC, s) = server_now env s0;
           decision = CheckSlidingWindowRateLimit (counts_of (sessionReadCounts s) controlSessionID)
             (fsReadRateLimit env) fsReadRateWindow nowUTC
       in Some (Denied decision, s\<lparr>sessionReadCounts :=
            mput controlSessionID (Timestamps decision) (sessionReadCounts s)\<rparr>)))"

definition checkHookPreValidateRateLimit :: "('io, 'f) server_env \<Rightarrow> int \<Rightarrow> ('f, 'w) server \<Rightarrow>
    (bool \<times> ('f, 'w) server) option" where
  "checkHookPreValidateRateLimit env peerUID = with_mu (\<lambda>s0.
     if hookPreValidateRateLimit env \<le> 0 \<or> hookPreValidateRateWindow env \<le> 0 then Some (False, s0)
     else (let (nowUTC, s) = server_now env s0;
           decision = CheckSlidingWindowRateLimit (counts_of (hookPreValidateCounts s) peerUID)
             (hookPreValidateRateLimit env) (hookPreValidateRateWindow env) nowUTC
       in Some (Denied decision, s\<lparr>hookPreValidateCounts :=
            mput peerUID (Timestamps decision) (hookPreValidateCounts s)\<rparr>)))"

definition checkHookPeerAuthFailureRateLimit :: "('io, 'f) server_env \<Rightarrow> string \<Rightarrow> ('f, 'w) server \<Rightarrow>
    (bool \<times> ('f, 'w) server) option" where
  "checkHookPeerAuthFailureRateLimit env rateLimitKey = with_mu (\<lambda>s0.
     if hookPeerAuthFailureRateLimit env \<le> 0 \<or> hookPeerAuthFailureWindow env \<le> 0 then Some (False, s0)
     else (let key = (if blank rateLimitKey then ''unknown'' else trim_space rateLimitKey);
           (nowUTC, s) = server_now env s0;
           decision = CheckSlidingWindowRateLimit (counts_of (hookPeerAuthFailureCounts s) key)
             (hookPeerAuthFailureRateLimit env) (hookPeerAuthFailureWindow env) nowUTC
       in Some (Denied decision, s\<lparr>hookPeerAuthFailureCounts :=
            mput key (Timestamps decision) (hookPeerAuthFailureCounts s)\<rparr>)))"

end
