(* ===== verification/HookState.thy ===== *)
theory HookState
  imports HookPolicy ControlPlane
begin

text \<open>
  What Loopgate remembers of Claude Code between hook calls: internal/loopgate/claude_hook_session_state.go
  and claude_hook_approvals.go. Sessions and approvals live in JSON files that every call reads and
  rewrites; the mutex of claudeHookRuntime is held from the reading to the writing and nothing else takes it,
  so a call is one step here. A file is its decoded content; a write replaces it whole or leaves it
  (AtomicWritePrivateJSON), and what it stores passes through JSON, where a string that is not UTF-8
  changes.
\<close>

section \<open>Records\<close>

record hook_session =
  hs_SessionID :: string
  hs_StorageKey :: string
  hs_State :: string
  hs_StartedAtUTC :: string
  hs_LastSeenAtUTC :: string
  hs_EndedAtUTC :: string
  hs_ExitReason :: string

definition no_hook_session :: hook_session where
  "no_hook_session = \<lparr>hs_SessionID = [], hs_StorageKey = [], hs_State = [], hs_StartedAtUTC = [],
     hs_LastSeenAtUTC = [], hs_EndedAtUTC = [], hs_ExitReason = []\<rparr>"

record hook_approval =
  ha_ApprovalRequestID :: string
  ha_SessionID :: string
  ha_ToolUseID :: string
  ha_ToolName :: string
  ha_ApprovalSurface :: string
  ha_ToolFingerprint :: string
  ha_RequestFingerprint :: string
  ha_Reason :: string
  ha_State :: string
  ha_CreatedAtUTC :: string
  ha_ResolvedAtUTC :: string
  ha_ResolutionReason :: string
  ha_HookEventName :: string
  ha_HookInterrupted :: bool

definition no_hook_approval :: hook_approval where
  "no_hook_approval = \<lparr>ha_ApprovalRequestID = [], ha_SessionID = [], ha_ToolUseID = [], ha_ToolName = [],
     ha_ApprovalSurface = [], ha_ToolFingerprint = [], ha_RequestFingerprint = [], ha_Reason = [], ha_State = [],
     ha_CreatedAtUTC = [], ha_ResolvedAtUTC = [], ha_ResolutionReason = [], ha_HookEventName = [],
     ha_HookInterrupted = False\<rparr>"

datatype 'a state_file = FileAbsent | FileUnreadable string | FileMalformed string | FileStored string "'a list"

text \<open>The server with the two kinds of files; the second is one file per storage key.\<close>

record ('f, 'w) hook_server =
  hk_core :: "('f, 'w) server"
  hk_session_file :: "hook_session state_file"
  hk_approval_files :: "(string, hook_approval state_file) gomap"

text \<open>The answers of the file system to the n-th interaction.\<close>

record hook_io =
  save_sessions :: "nat \<Rightarrow> write_outcome"
  make_dir :: "nat \<Rightarrow> string option"
  save_approvals :: "nat \<Rightarrow> write_outcome"
  pick_match :: "nat \<Rightarrow> nat"

definition hook_tick :: "('f, 'w) hook_server \<Rightarrow> ('f, 'w) hook_server" where
  "hook_tick h = h\<lparr>hk_core := (hk_core h)\<lparr>ticks := Suc (ticks (hk_core h))\<rparr>\<rparr>"

definition hook_now :: "('io, 'f) server_env \<Rightarrow> ('f, 'w) hook_server \<Rightarrow> gotime \<times> ('f, 'w) hook_server" where
  "hook_now env h = (clock env (ticks (hk_core h)), hook_tick h)"

section \<open>Sessions\<close>

definition claudeHookSessionStorageKey :: "string \<Rightarrow> string" where
  "claudeHookSessionStorageKey raw = (let t = trim_space raw in
     if t = [] then [] else ''chs'' @ take 32 (sha256_hex t))"

definition trimmed_session :: "hook_session \<Rightarrow> hook_session" where
  "trimmed_session r = \<lparr>hs_SessionID = trim_space (hs_SessionID r), hs_StorageKey = trim_space (hs_StorageKey r),
     hs_State = trim_space (hs_State r), hs_StartedAtUTC = trim_space (hs_StartedAtUTC r),
     hs_LastSeenAtUTC = trim_space (hs_LastSeenAtUTC r), hs_EndedAtUTC = trim_space (hs_EndedAtUTC r),
     hs_ExitReason = trim_space (hs_ExitReason r)\<rparr>"

definition json_session :: "hook_session \<Rightarrow> hook_session" where
  "json_session r = \<lparr>hs_SessionID = utf8_fix (hs_SessionID r), hs_StorageKey = utf8_fix (hs_StorageKey r),
     hs_State = utf8_fix (hs_State r), hs_StartedAtUTC = utf8_fix (hs_StartedAtUTC r),
     hs_LastSeenAtUTC = utf8_fix (hs_LastSeenAtUTC r), hs_EndedAtUTC = utf8_fix (hs_EndedAtUTC r),
     hs_ExitReason = utf8_fix (hs_ExitReason r)\<rparr>"

text \<open>The entries of a file, by their trimmed key; an entry without a key is skipped, the last of equal keys wins.\<close>

definition keyed :: "('a \<Rightarrow> string) \<Rightarrow> 'a list \<Rightarrow> (string, 'a) gomap" where
  "keyed key rs = fold (\<lambda>r m. if key r = [] then m else mput (key r) r m) rs []"

definition read_state :: "hook_env \<Rightarrow> string \<Rightarrow> ('a \<Rightarrow> 'a) \<Rightarrow> ('a \<Rightarrow> string) \<Rightarrow> 'a state_file \<Rightarrow> (string, 'a) gomap result" where
  "read_state he what trim key file = (case file of
     FileAbsent \<Rightarrow> Inr []
   | FileUnreadable e \<Rightarrow> Inl (''read '' @ what @ '': '' @ e)
   | FileMalformed e \<Rightarrow> Inl (''decode '' @ what @ '': '' @ e)
   | FileStored version rs \<Rightarrow> if trim_space version \<noteq> [] \<and> trim_space version \<noteq> ''1''
       then Inl (''unsupported '' @ what @ '' schema version '' @ quoted he (trim_space version))
       else Inr (keyed key (map trim rs)))"

definition loadClaudeHookSessionStateLocked :: "hook_env \<Rightarrow> ('f, 'w) hook_server \<Rightarrow> (string, hook_session) gomap result" where
  "loadClaudeHookSessionStateLocked he h =
     read_state he ''claude hook session state'' trimmed_session hs_SessionID (hk_session_file h)"

definition saveClaudeHookSessionStateLocked :: "hook_io \<Rightarrow> (string, hook_session) gomap \<Rightarrow> ('f, 'w) hook_server \<Rightarrow>
    string option \<times> ('f, 'w) hook_server" where
  "saveClaudeHookSessionStateLocked io m h = (case save_sessions io (ticks (hk_core h)) of
     StateWritten \<Rightarrow> (None, (hook_tick h)\<lparr>hk_session_file := FileStored ''1'' (map (\<lambda>k. json_session (the (map_of m k)))
       (sort_strings (map fst m)))\<rparr>)
   | StateRefused e \<Rightarrow> (Some (''save claude hook session state: '' @ e), hook_tick h))"

text \<open>The record of a session after an event at \<open>now\<close>.\<close>

definition touched_session :: "string \<Rightarrow> string \<Rightarrow> string \<Rightarrow> string \<Rightarrow> hook_session option \<Rightarrow> hook_session" where
  "touched_session sid eventName reason now old = (let
     r0 = (case old of Some r \<Rightarrow> r
       | None \<Rightarrow> no_hook_session\<lparr>hs_SessionID := sid, hs_StorageKey := claudeHookSessionStorageKey sid, hs_StartedAtUTC := now\<rparr>);
     r1 = (if blank (hs_StorageKey r0) then r0\<lparr>hs_StorageKey := claudeHookSessionStorageKey sid\<rparr> else r0);
     r2 = (if blank (hs_StartedAtUTC r1) then r1\<lparr>hs_StartedAtUTC := now\<rparr> else r1);
     r3 = r2\<lparr>hs_LastSeenAtUTC := now\<rparr>
   in if normalizedClaudeCodeHookEventName eventName = ''SessionEnd''
      then r3\<lparr>hs_State := ''ended'', hs_EndedAtUTC := now, hs_ExitReason := trim_space reason\<rparr>
      else r3\<lparr>hs_State := ''active'', hs_EndedAtUTC := [], hs_ExitReason := []\<rparr>)"

definition ensureClaudeHookSessionBinding :: "('io, 'f) server_env \<Rightarrow> hook_env \<Rightarrow> hook_io \<Rightarrow> string \<Rightarrow> string \<Rightarrow> string \<Rightarrow>
    ('f, 'w) hook_server \<Rightarrow> hook_session result \<times> ('f, 'w) hook_server" where
  "ensureClaudeHookSessionBinding env he io rawSessionID eventName reason h = (let sid = trim_space rawSessionID in
     if sid = [] then (Inr no_hook_session, h)
     else (case loadClaudeHookSessionStateLocked he h of
         Inl e \<Rightarrow> (Inl e, h)
       | Inr m \<Rightarrow> (let (nowUTC, h) = hook_now env h;
             r = touched_session sid eventName reason (rfc3339nano nowUTC) (map_of m sid)
           in case saveClaudeHookSessionStateLocked io (mput sid r m) h of
                (Some e, h) \<Rightarrow> (Inl e, h)
              | (None, h) \<Rightarrow> (Inr r, h))))"

section \<open>Approvals\<close>

text \<open>json.Marshal of the decoded tool input, which cannot fail.\<close>

definition tool_input_json :: "hook_request \<Rightarrow> string" where
  "tool_input_json req = (case hq_ToolInput req of None \<Rightarrow> ''null'' | Some m \<Rightarrow> json_val (GMap m))"

definition newline :: string where "newline = [CHR 0x0A]"

definition claudeHookApprovalFingerprint :: "hook_request \<Rightarrow> string" where
  "claudeHookApprovalFingerprint req = sha256_hex (trim_space (hq_ToolName req) @ newline @ trim_space (hq_ToolUseID req) @
     newline @ trim_space (hq_CWD req) @ newline @ tool_input_json req)"

definition claudeHookApprovalRequestFingerprint :: "hook_request \<Rightarrow> string" where
  "claudeHookApprovalRequestFingerprint req = sha256_hex (trim_space (hq_ToolName req) @ newline @
     trim_space (hq_CWD req) @ newline @ tool_input_json req)"

definition on_strings :: "(string \<Rightarrow> string) \<Rightarrow> hook_approval \<Rightarrow> hook_approval" where
  "on_strings f a = \<lparr>ha_ApprovalRequestID = f (ha_ApprovalRequestID a), ha_SessionID = f (ha_SessionID a),
     ha_ToolUseID = f (ha_ToolUseID a), ha_ToolName = f (ha_ToolName a), ha_ApprovalSurface = f (ha_ApprovalSurface a),
     ha_ToolFingerprint = f (ha_ToolFingerprint a), ha_RequestFingerprint = f (ha_RequestFingerprint a),
     ha_Reason = f (ha_Reason a), ha_State = f (ha_State a), ha_CreatedAtUTC = f (ha_CreatedAtUTC a),
     ha_ResolvedAtUTC = f (ha_ResolvedAtUTC a), ha_ResolutionReason = f (ha_ResolutionReason a),
     ha_HookEventName = f (ha_HookEventName a), ha_HookInterrupted = ha_HookInterrupted a\<rparr>"

definition approval_file :: "string \<Rightarrow> ('f, 'w) hook_server \<Rightarrow> hook_approval state_file" where
  "approval_file storageKey h = (case map_of (hk_approval_files h) storageKey of None \<Rightarrow> FileAbsent | Some f \<Rightarrow> f)"

definition loadClaudeHookApprovalStateLocked :: "hook_env \<Rightarrow> string \<Rightarrow> ('f, 'w) hook_server \<Rightarrow>
    (string, hook_approval) gomap result" where
  "loadClaudeHookApprovalStateLocked he storageKey h =
     read_state he ''claude hook approval state'' (on_strings trim_space) ha_ToolUseID (approval_file storageKey h)"

definition saveClaudeHookApprovalStateLocked :: "hook_io \<Rightarrow> string \<Rightarrow> (string, hook_approval) gomap \<Rightarrow>
    ('f, 'w) hook_server \<Rightarrow> string option \<times> ('f, 'w) hook_server" where
  "saveClaudeHookApprovalStateLocked io storageKey m h = (let n = ticks (hk_core h); h = hook_tick h in
     case make_dir io n of
       Some e \<Rightarrow> (Some (''ensure claude hook approval dir: '' @ e), h)
     | None \<Rightarrow> (case save_approvals io n of
         StateRefused e \<Rightarrow> (Some (''save claude hook approval state: '' @ e), h)
       | StateWritten \<Rightarrow> (None, h\<lparr>hk_approval_files := mput storageKey (FileStored ''1''
           (map (\<lambda>k. on_strings utf8_fix (the (map_of m k))) (sort_strings (map fst m)))) (hk_approval_files h)\<rparr>)))"

text \<open>What a transition reports: the approval, the session, whether it was found, whether it changed, the records before.\<close>

type_synonym transition_report =
  "hook_approval \<times> hook_session \<times> bool \<times> bool \<times> (string, hook_approval) gomap option"

definition transitionClaudeHookApproval :: "('io, 'f) server_env \<Rightarrow> hook_env \<Rightarrow> hook_io \<Rightarrow> hook_request \<Rightarrow> string \<Rightarrow>
    string \<Rightarrow> ('f, 'w) hook_server \<Rightarrow> transition_report result \<times> ('f, 'w) hook_server" where
  "transitionClaudeHookApproval env he io req resolutionState resolutionReason h = (let
     sid = trim_space (hq_SessionID req); tid = trim_space (hq_ToolUseID req) in
     if sid = [] \<or> tid = [] then (Inr (no_hook_approval, no_hook_session, False, False, None), h)
     else (case ensureClaudeHookSessionBinding env he io sid (normalizedClaudeCodeHookEventName (hq_EventName req))
         (hq_Reason req) h of
       (Inl e, h) \<Rightarrow> (Inl e, h)
     | (Inr session, h) \<Rightarrow> (case loadClaudeHookApprovalStateLocked he (hs_StorageKey session) h of
         Inl e \<Rightarrow> (Inl e, h)
       | Inr m \<Rightarrow> (case map_of m tid of
           None \<Rightarrow> (Inr (no_hook_approval, session, False, False, Some m), h)
         | Some a \<Rightarrow>
             if ha_ToolFingerprint a \<noteq> claudeHookApprovalFingerprint req then
               (Inl (''hook approval '' @ quoted he (ha_ApprovalRequestID a) @ '' tool fingerprint mismatch''), h)
             else if ha_State a = resolutionState \<or> ha_State a \<noteq> ''pending'' then (Inr (a, session, True, False, Some m), h)
             else (let (nowUTC, h) = hook_now env h;
                 a' = a\<lparr>ha_State := resolutionState, ha_ResolvedAtUTC := rfc3339nano nowUTC,
                   ha_ResolutionReason := trim_space resolutionReason,
                   ha_HookEventName := normalizedClaudeCodeHookEventName (hq_EventName req),
                   ha_HookInterrupted := hq_Interrupted req\<rparr>
               in case saveClaudeHookApprovalStateLocked io (hs_StorageKey session) (mput tid a' m) h of
                    (Some e, h) \<Rightarrow> (Inl e, h)
                  | (None, h) \<Rightarrow> (Inr (a', session, True, True, Some m), h))))))"

definition abandoned :: "string \<Rightarrow> string \<Rightarrow> hook_approval \<Rightarrow> hook_approval" where
  "abandoned now reason a = (if ha_State a \<noteq> ''pending'' then a
     else a\<lparr>ha_State := ''abandoned'', ha_ResolvedAtUTC := now, ha_ResolutionReason := trim_space reason,
       ha_HookEventName := ''SessionEnd''\<rparr>)"

definition abandonPendingClaudeHookApprovalsWithPrevious :: "('io, 'f) server_env \<Rightarrow> hook_env \<Rightarrow> hook_io \<Rightarrow> string \<Rightarrow> string \<Rightarrow>
    ('f, 'w) hook_server \<Rightarrow> (int \<times> hook_session \<times> (string, hook_approval) gomap option) result \<times> ('f, 'w) hook_server" where
  "abandonPendingClaudeHookApprovalsWithPrevious env he io rawSessionID reason h = (let sid = trim_space rawSessionID in
     if sid = [] then (Inr (0, no_hook_session, None), h)
     else (case ensureClaudeHookSessionBinding env he io sid ''SessionEnd'' reason h of
       (Inl e, h) \<Rightarrow> (Inl e, h)
     | (Inr session, h) \<Rightarrow> (case loadClaudeHookApprovalStateLocked he (hs_StorageKey session) h of
         Inl e \<Rightarrow> (Inl e, h)
       | Inr m \<Rightarrow> (let (nowUTC, h) = hook_now env h;
             count = int (length (filter (\<lambda>(_, a). ha_State a = ''pending'') m));
             m' = map (\<lambda>(k, a). (k, abandoned (rfc3339nano nowUTC) reason a)) m
           in if count = 0 then (Inr (0, session, Some m), h)
              else (case saveClaudeHookApprovalStateLocked io (hs_StorageKey session) m' h of
                  (Some e, h) \<Rightarrow> (Inl e, h)
                | (None, h) \<Rightarrow> (Inr (count, session, Some m), h))))))"

definition restoreClaudeHookApprovalState :: "hook_env \<Rightarrow> hook_io \<Rightarrow> string \<Rightarrow> (string, hook_approval) gomap \<Rightarrow>
    ('f, 'w) hook_server \<Rightarrow> string option \<times> ('f, 'w) hook_server" where
  "restoreClaudeHookApprovalState he io rawSessionID previous h = (let sid = trim_space rawSessionID in
     if sid = [] then (None, h)
     else (case loadClaudeHookSessionStateLocked he h of
         Inl e \<Rightarrow> (Some e, h)
       | Inr m \<Rightarrow> (let storageKey = (case map_of m sid of
             Some r \<Rightarrow> if blank (hs_StorageKey r) then claudeHookSessionStorageKey sid else hs_StorageKey r
           | None \<Rightarrow> claudeHookSessionStorageKey sid)
           in saveClaudeHookApprovalStateLocked io storageKey previous h)))"

text \<open>The loop runs over a map: which of several matches it meets first is the answer of \<open>pick_match\<close>.\<close>

definition findClaudeHookApprovalByRequest :: "('io, 'f) server_env \<Rightarrow> hook_env \<Rightarrow> hook_io \<Rightarrow> hook_request \<Rightarrow>
    ('f, 'w) hook_server \<Rightarrow> (hook_approval option \<times> hook_session) result \<times> ('f, 'w) hook_server" where
  "findClaudeHookApprovalByRequest env he io req h = (let sid = trim_space (hq_SessionID req) in
     if sid = [] then (Inr (None, no_hook_session), h)
     else (case ensureClaudeHookSessionBinding env he io sid (normalizedClaudeCodeHookEventName (hq_EventName req))
         (hq_Reason req) h of
       (Inl e, h) \<Rightarrow> (Inl e, h)
     | (Inr session, h) \<Rightarrow> (case loadClaudeHookApprovalStateLocked he (hs_StorageKey session) h of
         Inl e \<Rightarrow> (Inl e, h)
       | Inr m \<Rightarrow> (let found = filter (\<lambda>a. ha_RequestFingerprint a = claudeHookApprovalRequestFingerprint req) (mvals m);
             n = pick_match io (ticks (hk_core h))
           in (Inr (if found = [] then None else Some (found ! (n mod length found)), session), hook_tick h)))))"

end
