(* ===== verification/RequestAuth.thy ===== *)
theory RequestAuth
  imports ControlPlane Redact
begin

text \<open>
  internal/loopgate/request_auth.go, session_mac_rotation.go, request_body_runtime.go and the status
  codes of server_response_runtime.go: who may call. A request is its method, path, headers, the peer
  the socket reported and the answer of reading its body. A handler's reply is what it writes.
\<close>

section \<open>Requests and replies\<close>

record http_request =
  Method :: string
  Path :: string
  hdr_Authorization :: string
  hdr_ApprovalToken :: string
  hdr_ControlSession :: string
  hdr_Timestamp :: string
  hdr_Nonce :: string
  hdr_Signature :: string
  Peer :: "peer_identity option"
  Body :: "string result"

record approval_summary =
  as_ApprovalRequestID :: string
  as_ControlSessionID :: string
  as_Requester :: string
  as_Capability :: string
  as_CreatedAtUTC :: string
  as_Path :: string
  as_ContentBytes :: int
  as_Preview :: string
  as_Redacted :: bool
  as_Reason :: string
  as_ExpiresAtUTC :: string
  as_OperatorIntentLine :: string
  as_PlanSummary :: string
  as_HostFolderDisplayName :: string
  as_PlanOperationCount :: int
  as_PlanMkdirCount :: int
  as_PlanMoveCount :: int
  as_DecisionNonce :: string
  as_ApprovalManifestSHA256 :: string

record open_session_response =
  os_ControlSessionID :: string
  os_CapabilityToken :: string
  os_ApprovalToken :: string
  os_SessionMACKey :: string
  os_ExpiresAtUTC :: string

record close_session_response =
  cl_Status :: string
  cl_ControlSessionID :: string
  cl_ClosedAtUTC :: string

datatype http_reply = JSONReply int capability_response | PlainReply int string
  | OperatorDecisionReply int capability_response string | ApprovalsReply int "approval_summary list"
  | OpenedReply int open_session_response | ClosedReply int close_session_response

definition httpStatusForResponse :: "capability_response \<Rightarrow> int" where
  "httpStatusForResponse r = (let c = DenialCode r in
     if Status r = ResponseStatusSuccess then 200
     else if Status r = ResponseStatusPendingApproval then 202
     else if Status r = ResponseStatusDenied then
       (if c \<in> set [''capability_token_missing'', ''capability_token_invalid'', ''capability_token_expired'',
          ''approval_token_missing'', ''approval_token_invalid'', ''approval_token_expired'',
          ''request_signature_missing'', ''request_signature_invalid'', ''request_timestamp_invalid'',
          ''request_nonce_replay_detected'', ''control_session_binding_invalid''] then 401
        else if c = ''approval_request_not_found'' then 404
        else if c \<in> set [''request_replay_detected'', ''capability_token_reused'', ''approval_state_conflict'',
          ''quarantine_prune_not_eligible''] then 409
        else if c \<in> set [''session_open_rate_limited'', ''session_active_limit_reached'', ''replay_state_saturated'',
          ''pending_approval_limit_reached'', ''control_plane_state_saturated''] then 429
        else if c \<in> set [''malformed_request'', ''invalid_capability_arguments'', ''site_url_invalid'',
          ''site_inspection_unsupported_content_type'', ''sandbox_path_invalid'', ''sandbox_host_destination_invalid'',
          ''approval_decision_nonce_missing'', ''approval_decision_nonce_invalid'', ''approval_manifest_mismatch''] then 400
        else 403)
     else if Status r = ResponseStatusError then
       (if c \<in> set [''malformed_request'', ''site_url_invalid'', ''site_inspection_unsupported_content_type'',
          ''sandbox_path_invalid'', ''sandbox_host_destination_invalid''] then 400
        else if c = ''audit_unavailable'' then 503 else 500)
     else 500)"

definition signedRequestHTTPStatus :: "string \<Rightarrow> int" where
  "signedRequestHTTPStatus c =
    (if c \<in> set [''request_signature_missing'', ''request_signature_invalid'', ''request_timestamp_invalid'',
       ''request_nonce_replay_detected'', ''control_session_binding_invalid''] then 401
     else if c = ''replay_state_saturated'' then 429
     else if c = ''audit_unavailable'' then 503 else 400)"

section \<open>Denials and their audit\<close>

record auth_denied_audit_options =
  authKind :: string
  ao_controlSessionID :: string
  ao_actorLabel :: string
  ao_clientSessionLabel :: string
  ao_tenantID :: string
  ao_userID :: string
  requestPeer :: "peer_identity option"

definition auth_kind :: "string \<Rightarrow> peer_identity option \<Rightarrow> auth_denied_audit_options" where
  "auth_kind kind peer = \<lparr>authKind = kind, ao_controlSessionID = [], ao_actorLabel = [],
     ao_clientSessionLabel = [], ao_tenantID = [], ao_userID = [], requestPeer = peer\<rparr>"

definition put_unless_blank :: "string \<Rightarrow> string \<Rightarrow> gdata \<Rightarrow> gdata" where
  "put_unless_blank k v d = (if blank v then d else mput k (GString v) d)"

definition put_peer :: "peer_identity option \<Rightarrow> gdata \<Rightarrow> gdata" where
  "put_peer peer d = (case peer of None \<Rightarrow> d
     | Some p \<Rightarrow> mput ''peer_epid'' (GInt (EPID p)) (mput ''peer_pid'' (GInt (PID p)) (mput ''peer_uid'' (GInt (UID p)) d)))"

definition put_labels :: "auth_denied_audit_options \<Rightarrow> gdata \<Rightarrow> gdata" where
  "put_labels opts d = put_unless_blank ''user_id'' (ao_userID opts) (put_unless_blank ''tenant_id'' (ao_tenantID opts)
     (put_unless_blank ''client_session_label'' (ao_clientSessionLabel opts)
     (put_unless_blank ''actor_label'' (ao_actorLabel opts)
     (put_unless_blank ''control_session_id'' (ao_controlSessionID opts) d))))"

definition denial_audit_data :: "http_request \<Rightarrow> capability_response \<Rightarrow> auth_denied_audit_options \<Rightarrow> gdata" where
  "denial_audit_data request denial opts = put_peer (requestPeer opts) (put_labels opts
     [(''auth_kind'', GString (authKind opts)), (''denial_code'', GString (DenialCode denial)),
      (''reason'', GString (RedactText (DenialReason denial))), (''request_method'', GString (Method request)),
      (''request_path'', GString (Path request))])"

definition suppressed_audit_data :: "http_request \<Rightarrow> capability_response \<Rightarrow> auth_denied_audit_options \<Rightarrow>
    auth_denied_burst \<Rightarrow> gdata" where
  "suppressed_audit_data request denial opts burst = put_labels opts (put_peer (requestPeer opts)
     [(''auth_kind'', GString (authKind opts)), (''denial_code'', GString (DenialCode denial)),
      (''request_method'', GString (Method request)), (''request_path'', GString (Path request)),
      (''suppressed_count'', GInt (SuppressedCount burst)),
      (''window_started_at_utc'', GString (rfc3339nano (WindowStartedAt burst))),
      (''window_ended_at_utc'', GString (rfc3339nano (LastSeenAt burst)))])"

definition authDeniedAuditBurstKey :: "capability_response \<Rightarrow> auth_denied_audit_options \<Rightarrow> string" where
  "authDeniedAuditBurstKey denial opts = join_with ''|'' [trim_space (authKind opts), trim_space (DenialCode denial),
     (case requestPeer opts of None \<Rightarrow> ''unknown'' | Some p \<Rightarrow> int_str (UID p)),
     (if blank (ao_controlSessionID opts) then ''none'' else trim_space (ao_controlSessionID opts))]"

definition planAuthDeniedAudit :: "('io, 'f) server_env \<Rightarrow> http_request \<Rightarrow> capability_response \<Rightarrow>
    auth_denied_audit_options \<Rightarrow> ('f, 'w) server \<Rightarrow> ((bool \<times> gdata option) \<times> ('f, 'w) server) option" where
  "planAuthDeniedAudit env request denial opts s0 = (let
     burstKey = authDeniedAuditBurstKey denial opts; (nowUTC, s1) = server_now env s0 in
     with_mu (\<lambda>s. case map_of (authDeniedBursts s) burstKey of
        Some b \<Rightarrow> if time_sub nowUTC (WindowStartedAt b) < authDeniedAuditBurstWindow
          then Some ((False, None), noteExpiryCandidateLocked env (nowUTC + authDeniedAuditBurstWindow)
            (s\<lparr>authDeniedBursts := mput burstKey
               (b\<lparr>LastSeenAt := nowUTC, SuppressedCount := SuppressedCount b + 1\<rparr>) (authDeniedBursts s)\<rparr>))
          else Some ((True, if SuppressedCount b > 0 then Some (suppressed_audit_data request denial opts b) else None),
            noteExpiryCandidateLocked env (nowUTC + authDeniedAuditBurstWindow)
            (s\<lparr>authDeniedBursts := mput burstKey
               \<lparr>WindowStartedAt = nowUTC, LastSeenAt = nowUTC, SuppressedCount = 0\<rparr> (authDeniedBursts s)\<rparr>))
      | None \<Rightarrow> Some ((True, None), noteExpiryCandidateLocked env (nowUTC + authDeniedAuditBurstWindow)
            (s\<lparr>authDeniedBursts := mput burstKey
               \<lparr>WindowStartedAt = nowUTC, LastSeenAt = nowUTC, SuppressedCount = 0\<rparr> (authDeniedBursts s)\<rparr>))) s1)"

definition audit_unavailable_reply :: http_reply where
  "audit_unavailable_reply = JSONReply 503 (auditUnavailableCapabilityResponse [])"

definition writeAuditedAuthDenial :: "('io, 'f) server_env \<Rightarrow> http_request \<Rightarrow> capability_response \<Rightarrow>
    auth_denied_audit_options \<Rightarrow> ('f, 'w) server \<Rightarrow> (http_reply \<times> ('f, 'w) server) option" where
  "writeAuditedAuthDenial env request denial opts s = do {
     ((auditCurrent, suppressed), s) \<leftarrow> planAuthDeniedAudit env request denial opts s;
     (e1, s) \<leftarrow> (case suppressed of None \<Rightarrow> Some (None, s)
       | Some d \<Rightarrow> logEvent env ''auth.denied.suppressed'' (ao_controlSessionID opts) d s);
     if e1 \<noteq> None then Some (audit_unavailable_reply, s)
     else do {
       (e2, s) \<leftarrow> (if auditCurrent
         then logEvent env ''auth.denied'' (ao_controlSessionID opts) (denial_audit_data request denial opts) s
         else Some (None, s));
       if e2 \<noteq> None then Some (audit_unavailable_reply, s)
       else Some (JSONReply (httpStatusForResponse denial) denial, s) } }"

section \<open>The capability token\<close>

definition token_missing :: capability_response where
  "token_missing = denied [] ''missing capability token'' ''capability_token_missing''"

definition token_malformed :: capability_response where
  "token_malformed = denied [] ''malformed capability token authorization header'' ''capability_token_invalid''"

definition parseCapabilityTokenAuthorizationHeader :: "(string \<Rightarrow> string) \<Rightarrow> string \<Rightarrow> capability_response + string" where
  "parseCapabilityTokenAuthorizationHeader uni header = (let
     trimmed = trim_space header; lower = to_lower uni trimmed; parts = str_fields trimmed in
     if trimmed = [] then Inl token_missing
     else if has_prefix lower ''bearer'' \<and> \<not> has_prefix lower ''bearer '' \<and> \<not> has_prefix lower (''bearer'' @ [CHR 0x09])
     then Inl token_malformed
     else if length parts \<noteq> 2 then
       (if parts \<noteq> [] \<and> equal_fold_word (hd parts) ''Bearer'' then Inl token_malformed else Inl token_missing)
     else if \<not> equal_fold_word (hd parts) ''Bearer'' then Inl token_missing
     else Inr (parts ! 1))"

text \<open>
  The one critical section of authenticate: the claims, whether the token or its session has expired,
  and whether the session exists; expired entries are deleted.
\<close>

record token_lookup =
  tl_claims :: capability_token
  tl_sessionFound :: bool
  tl_tokenExpired :: bool
  tl_sessionExpired :: bool

definition look_up_token :: "('io, 'f) server_env \<Rightarrow> string \<Rightarrow> ('f, 'w) server \<Rightarrow> token_lookup option \<times> ('f, 'w) server" where
  "look_up_token env tokenString s0 = (let (nowUTC, s) = server_now env s0 in
     case map_of (tokens s) tokenString of
       None \<Rightarrow> (None, s)
     | Some claims \<Rightarrow> (let
         session = map_of (sessions s) (ct_ControlSessionID claims);
         tokenExpired = nowUTC > ct_ExpiresAt claims;
         sessionExpired = (case session of None \<Rightarrow> False | Some x \<Rightarrow> nowUTC > cs_ExpiresAt x);
         s1 = (if tokenExpired then s\<lparr>tokens := mdel tokenString (tokens s)\<rparr> else s);
         s2 = (if sessionExpired then s1\<lparr>sessions := mdel (ct_ControlSessionID claims) (sessions s1),
                 tokens := mdel tokenString (tokens s1)\<rparr> else s1)
       in (Some \<lparr>tl_claims = claims, tl_sessionFound = (session \<noteq> None), tl_tokenExpired = tokenExpired,
             tl_sessionExpired = sessionExpired\<rparr>, s2)))"

definition claims_options :: "capability_token \<Rightarrow> peer_identity \<Rightarrow> auth_denied_audit_options" where
  "claims_options claims peer = \<lparr>authKind = ''capability_token'', ao_controlSessionID = ct_ControlSessionID claims,
     ao_actorLabel = ct_ActorLabel claims, ao_clientSessionLabel = ct_ClientSessionLabel claims,
     ao_tenantID = ct_TenantID claims, ao_userID = ct_UserID claims, requestPeer = Some peer\<rparr>"

definition token_invalid :: "string \<Rightarrow> capability_response" where
  "token_invalid reason = denied [] reason ''capability_token_invalid''"

definition token_decision :: "token_lookup option \<Rightarrow> peer_identity \<Rightarrow>
    (capability_response \<times> auth_denied_audit_options) + capability_token" where
  "token_decision found peer = (case found of
     None \<Rightarrow> Inl (token_invalid ''invalid capability token'', auth_kind ''capability_token'' (Some peer))
   | Some l \<Rightarrow> (let opts = claims_options (tl_claims l) peer in
       if tl_tokenExpired l \<or> tl_sessionExpired l
       then Inl (denied [] ''expired capability token'' ''capability_token_expired'', opts)
       else if \<not> tl_sessionFound l then Inl (token_invalid ''invalid capability token'', opts)
       else if ct_PeerIdentity (tl_claims l) \<noteq> peer
       then Inl (token_invalid ''capability token peer binding mismatch'', opts)
       else Inr (tl_claims l)))"

definition authenticate :: "('io, 'f) server_env \<Rightarrow> (string \<Rightarrow> string) \<Rightarrow> http_request \<Rightarrow> ('f, 'w) server \<Rightarrow>
    ((http_reply + capability_token) \<times> ('f, 'w) server) option" where
  "authenticate env uni request s = (case Peer request of
     None \<Rightarrow> do {
       (r, s) \<leftarrow> writeAuditedAuthDenial env request (token_invalid ''missing authenticated peer identity'')
         (auth_kind ''capability_token'' None) s;
       Some (Inl r, s) }
   | Some peer \<Rightarrow>
      (case parseCapabilityTokenAuthorizationHeader uni (hdr_Authorization request) of
         Inl denial \<Rightarrow> do {
           (r, s) \<leftarrow> writeAuditedAuthDenial env request denial (auth_kind ''capability_token'' (Some peer)) s;
           Some (Inl r, s) }
       | Inr tokenString \<Rightarrow> do {
           (found, s) \<leftarrow> with_mu (\<lambda>s. Some (look_up_token env tokenString s)) s;
           (case token_decision found peer of
              Inr claims \<Rightarrow> Some (Inr claims, s)
            | Inl (denial, opts) \<Rightarrow> do {
                (r, s) \<leftarrow> writeAuditedAuthDenial env request denial opts s;
                Some (Inl r, s) }) }))"

section \<open>Signed requests\<close>

record signed_headers =
  sh_ControlSessionID :: string
  RawRequestTimestamp :: string
  ParsedRequestTimestampUTC :: gotime
  RequestNonce :: string
  RequestSignature :: string

definition signing_payload :: "string \<Rightarrow> string \<Rightarrow> string \<Rightarrow> string \<Rightarrow> string \<Rightarrow> string \<Rightarrow> string" where
  "signing_payload method path controlSessionID requestTimestamp requestNonce body =
     join_with [CHR 0x0A] [method, path, controlSessionID, requestTimestamp, requestNonce, sha256_hex body]"

definition signRequest :: "string \<Rightarrow> string \<Rightarrow> string \<Rightarrow> string \<Rightarrow> string \<Rightarrow> string \<Rightarrow> string \<Rightarrow> string" where
  "signRequest sessionMACKey method path controlSessionID requestTimestamp requestNonce body =
     hex_encode (hmac_sha256 sessionMACKey (signing_payload method path controlSessionID requestTimestamp requestNonce body))"

definition requestSignatureBytesMatchMACKey :: "string \<Rightarrow> string \<Rightarrow> string \<Rightarrow> string \<Rightarrow> string \<Rightarrow> string \<Rightarrow>
    string \<Rightarrow> string \<Rightarrow> bool" where
  "requestSignatureBytesMatchMACKey signatureHex method path controlSessionID requestTimestamp requestNonce body key =
    (case hex_decode signatureHex of None \<Rightarrow> False
     | Some decoded \<Rightarrow>
        (case hex_decode (signRequest key method path controlSessionID requestTimestamp requestNonce body) of
           None \<Rightarrow> False
         | Some expected \<Rightarrow> length decoded = length expected \<and> expected = decoded))"

definition parseSignedControlPlaneHeaders :: "('io, 'f) server_env \<Rightarrow> http_request \<Rightarrow> string \<Rightarrow> ('f, 'w) server \<Rightarrow>
    (capability_response + signed_headers) \<times> ('f, 'w) server" where
  "parseSignedControlPlaneHeaders env request expectedControlSessionID s = (let
     sid = trim_space (hdr_ControlSession request); ts = trim_space (hdr_Timestamp request);
     nonce = trim_space (hdr_Nonce request); sig = trim_space (hdr_Signature request) in
     if sid = [] \<or> ts = [] \<or> nonce = [] \<or> sig = []
     then (Inl (denied [] ''signed control-plane headers are required'' ''request_signature_missing''), s)
     else if sid \<noteq> expectedControlSessionID
     then (Inl (denied [] ''control session binding is invalid'' ''control_session_binding_invalid''), s)
     else (case parse_rfc3339 ts of
         None \<Rightarrow> (Inl (denied [] ''request timestamp is invalid'' ''request_timestamp_invalid''), s)
       | Some t \<Rightarrow> (let (nowUTC, s1) = server_now env s in
           if t < nowUTC - requestSignatureSkew \<or> t > nowUTC + requestSignatureSkew
           then (Inl (denied [] ''request timestamp is outside the allowed skew window'' ''request_timestamp_invalid''), s1)
           else (Inr \<lparr>sh_ControlSessionID = sid, RawRequestTimestamp = ts, ParsedRequestTimestampUTC = t,
                   RequestNonce = nonce, RequestSignature = sig\<rparr>, s1))))"

definition invalidRequestSignatureResponse :: capability_response where
  "invalidRequestSignatureResponse = denied [] ''request signature is invalid'' ''request_signature_invalid''"

fun verifySignedRequestAgainstMACKeys :: "('io, 'f) server_env \<Rightarrow> http_request \<Rightarrow> string \<Rightarrow> signed_headers \<Rightarrow>
    string list \<Rightarrow> ('f, 'w) server \<Rightarrow> (capability_response option \<times> ('f, 'w) server) option" where
  "verifySignedRequestAgainstMACKeys env request body headers [] s = Some (Some invalidRequestSignatureResponse, s)"
| "verifySignedRequestAgainstMACKeys env request body headers (key # keys) s =
    (if key = [] \<or> \<not> requestSignatureBytesMatchMACKey (RequestSignature headers) (Method request) (Path request)
         (sh_ControlSessionID headers) (RawRequestTimestamp headers) (RequestNonce headers) body key
     then verifySignedRequestAgainstMACKeys env request body headers keys s
     else recordAuthNonce env (sh_ControlSessionID headers) (RequestNonce headers) s)"

definition verifySignedRequestAgainstRotatingSessionMAC :: "('io, 'f) server_env \<Rightarrow> http_request \<Rightarrow> string \<Rightarrow>
    signed_headers \<Rightarrow> string \<Rightarrow> ('f, 'w) server \<Rightarrow> (capability_response option \<times> ('f, 'w) server) option" where
  "verifySignedRequestAgainstRotatingSessionMAC env request body headers master s =
    (if master = [] then Some (Some (denied [] ''session mac rotation is not initialized'' ''request_signature_invalid''), s)
     else (let (nowUTC, s1) = server_now env s in
       verifySignedRequestAgainstMACKeys env request body headers
         (CandidateSessionMACKeys master (sh_ControlSessionID headers) (SessionMACEpochIndexAt nowUTC)) s1))"

definition verifySignedRequest :: "('io, 'f) server_env \<Rightarrow> http_request \<Rightarrow> string \<Rightarrow> string \<Rightarrow> ('f, 'w) server \<Rightarrow>
    (capability_response option \<times> ('f, 'w) server) option" where
  "verifySignedRequest env request body expectedControlSessionID s =
    (case parseSignedControlPlaneHeaders env request expectedControlSessionID s of
       (Inl denial, s) \<Rightarrow> Some (Some denial, s)
     | (Inr headers, s) \<Rightarrow> do {
         (session, s) \<leftarrow> with_mu (\<lambda>s. let s' = pruneExpiredLocked env s in
           Some (map_of (sessions s') (sh_ControlSessionID headers), s')) s;
         (case session of
            None \<Rightarrow> Some (Some (denied [] ''control session binding is invalid'' ''control_session_binding_invalid''), s)
          | Some activeSession \<Rightarrow>
             if blank (SessionMACKey activeSession)
             then Some (Some (denied [] ''control session binding is invalid'' ''control_session_binding_invalid''), s)
             else if sessionMACRotationMaster env \<noteq> []
             then verifySignedRequestAgainstRotatingSessionMAC env request body headers (sessionMACRotationMaster env) s
             else verifySignedRequestAgainstMACKeys env request body headers [SessionMACKey activeSession] s) })"

definition readAndVerifySignedBody :: "('io, 'f) server_env \<Rightarrow> http_request \<Rightarrow> string \<Rightarrow> ('f, 'w) server \<Rightarrow>
    ((capability_response + string) \<times> ('f, 'w) server) option" where
  "readAndVerifySignedBody env request controlSessionID s = (case Body request of
     Inl e \<Rightarrow> Some (Inl (failed [] (''invalid request body: '' @ e) ''malformed_request''), s)
   | Inr body \<Rightarrow> do {
       (denial, s) \<leftarrow> verifySignedRequest env request body controlSessionID s;
       (case denial of Some d \<Rightarrow> Some (Inl d, s) | None \<Rightarrow> Some (Inr body, s)) })"

definition verifySignedRequestWithoutBody :: "('io, 'f) server_env \<Rightarrow> http_request \<Rightarrow> string \<Rightarrow> ('f, 'w) server \<Rightarrow>
    (capability_response option \<times> ('f, 'w) server) option" where
  "verifySignedRequestWithoutBody env request controlSessionID s = verifySignedRequest env request [] controlSessionID s"

end
