(* ===== verification/HookHandler.thy ===== *)
theory HookHandler
  imports HookState RequestAuth
begin

text \<open>
  The endpoint Claude Code's hooks call: internal/loopgate/server_hook_handlers.go, with what its audit
  events say of a request (hook_audit_projection.go). It has no session and no signature: the peer's
  user must be the server's. The reply's body decides; the status tells of infrastructure only.
\<close>

section \<open>The projection of a request into audit data\<close>

definition hookAuditPreviewMaxBytes :: nat where "hookAuditPreviewMaxBytes = 256"

definition boundedRedactedHookPreview :: "string \<Rightarrow> string" where
  "boundedRedactedHookPreview raw = (let redacted = RedactText (trim_space raw) in
     if length redacted \<le> hookAuditPreviewMaxBytes then redacted
     else trim_space (take hookAuditPreviewMaxBytes redacted) @ ''...'')"

definition hook_sha256Hex :: "string \<Rightarrow> string" where
  "hook_sha256Hex raw = (let t = trim_space raw in if t = [] then [] else sha256_hex t)"

definition firstToken :: "string \<Rightarrow> string" where
  "firstToken raw = (case str_fields (trim_space raw) of [] \<Rightarrow> [] | f # _ \<Rightarrow> f)"

definition formatHookAuditActor :: "int \<Rightarrow> string \<Rightarrow> string" where
  "formatHookAuditActor peerUID sessionID = (if blank sessionID then ''peer_uid:'' @ int_str peerUID
     else ''claude_session:'' @ trim_space sessionID)"

definition safeHookCWDProjection :: "hook_env \<Rightarrow> string \<Rightarrow> gdata" where
  "safeHookCWDProjection he rawCWD = (let cwd = filepath_clean (trim_space rawCWD);
     hash = (''hook_cwd_sha256'', GString (hook_sha256Hex cwd)) in
     if blank rawCWD then []
     else if \<not> is_abs cwd then [hash, (''hook_cwd_state'', GString ''invalid_relative'')]
     else if \<not> pathWithinRoot cwd (filepath_clean (hk_repoRoot he)) then [hash, (''hook_cwd_state'', GString ''outside_repo'')]
     else [hash, (''hook_cwd_state'', GString ''inside_repo''), (''hook_cwd'', GString cwd)])"

text \<open>The fields of one kind of tool; a missing input is the empty string.\<close>

definition input_or_blank :: "hook_request \<Rightarrow> string \<Rightarrow> string" where
  "input_or_blank req k = (case hookInputString req k of None \<Rightarrow> [] | Some v \<Rightarrow> v)"

definition preview_if :: "bool \<Rightarrow> string \<Rightarrow> string \<Rightarrow> gdata" where
  "preview_if includePreviews k raw = (if includePreviews then [(k, GString (boundedRedactedHookPreview raw))] else [])"

definition tool_projection :: "hook_env \<Rightarrow> hook_request \<Rightarrow> bool \<Rightarrow> gdata" where
  "tool_projection he req previews = (let tool = hq_ToolName req; lower = to_lower (hk_unicode_lower he) in
     if tool = ''Bash'' then (let c = input_or_blank req ''command'' in
       [(''tool_target_kind'', GString ''shell_command''), (''command_sha256'', GString (hook_sha256Hex c)),
        (''command_verb'', GString (firstToken c))] @ preview_if previews ''command_redacted_preview'' c)
     else if tool \<in> set [''Read'', ''Write'', ''Edit'', ''MultiEdit''] then (let p = input_or_blank req ''file_path'' in
       [(''tool_target_kind'', GString ''filesystem_path''), (''target_path'', GString (trim_space p)),
        (''resolved_target_path'', GString (resolveHookTargetPath he p (hq_CWD req)))])
     else if tool \<in> set [''Glob'', ''Grep''] then (let p0 = input_or_blank req ''path''; p = (if blank p0 then hq_CWD req else p0) in
       [(''tool_target_kind'', GString ''filesystem_search_root''), (''target_path'', GString (trim_space p)),
        (''resolved_target_path'', GString (resolveHookTargetPath he p (hq_CWD req)))])
     else if tool = ''WebFetch'' then (let u = input_or_blank req ''url'' in
       [(''tool_target_kind'', GString ''http_url''), (''url_sha256'', GString (hook_sha256Hex u))] @
       preview_if previews ''url_redacted_preview'' u @
       (case hk_parse_url he u of None \<Rightarrow> []
        | Some parts \<Rightarrow> [(''request_host'', GString (lower (url_Hostname parts))),
            (''request_scheme'', GString (lower (url_Scheme parts)))]))
     else if tool = ''WebSearch'' then (let q = input_or_blank req ''query'' in
       [(''tool_target_kind'', GString ''web_search_query''), (''query_sha256'', GString (hook_sha256Hex q))] @
       preview_if previews ''query_redacted_preview'' q)
     else if tool \<noteq> [] then [(''tool_target_kind'', GString ''unknown'')] else [])"

definition buildHookAuditProjection :: "hook_env \<Rightarrow> hook_request \<Rightarrow> bool \<Rightarrow> gdata" where
  "buildHookAuditProjection he req previews =
     [(''tool_name'', GString (hq_ToolName req)),
      (''tool_request_fingerprint_sha256'', GString (claudeHookApprovalRequestFingerprint req))] @
     tool_projection he req previews @ safeHookCWDProjection he (hq_CWD req)"

definition mergeHookAuditProjection :: "hook_env \<Rightarrow> gdata \<Rightarrow> hook_request \<Rightarrow> bool \<Rightarrow> gdata" where
  "mergeHookAuditProjection he auditData req previews =
     fold (\<lambda>(k, v) d. if mhas d k then d else mput k v d) (buildHookAuditProjection he req previews) auditData"

section \<open>The handler\<close>

datatype hook_reply = HookReply int hook_response | HookError int string

text \<open>The server's user, the address of the caller, and the decoding of the bounded body.\<close>

record hook_call =
  hx_uid :: int
  hx_remote :: string
  hx_decode :: "http_request \<Rightarrow> hook_request result"

definition em_dash :: string where "em_dash = [CHR 0xE2, CHR 0x80, CHR 0x94]"

definition on_core :: "(('f, 'w) server \<Rightarrow> ('a \<times> ('f, 'w) server) option) \<Rightarrow> ('f, 'w) hook_server \<Rightarrow>
    ('a \<times> ('f, 'w) hook_server) option" where
  "on_core f h = (case f (hk_core h) of None \<Rightarrow> None | Some (r, s) \<Rightarrow> Some (r, h\<lparr>hk_core := s\<rparr>))"

definition block_reply :: "int \<Rightarrow> string \<Rightarrow> string \<Rightarrow> hook_reply" where
  "block_reply status reason code =
     HookReply status (no_hook_response\<lparr>hr_Decision := ''block'', hr_Reason := reason, hr_DenialCode := code\<rparr>)"

definition hook_audit_unavailable :: hook_reply where
  "hook_audit_unavailable = HookError 500 ''audit unavailable: required append failed before hook decision''"

text \<open>A peer that is missing or another user is refused, and counted.\<close>

definition refuse_peer :: "('io, 'f) server_env \<Rightarrow> string \<Rightarrow> int \<Rightarrow> string \<Rightarrow> ('f, 'w) hook_server \<Rightarrow>
    (hook_reply \<times> ('f, 'w) hook_server) option" where
  "refuse_peer env key status reason h = do {
     (limited, h) \<leftarrow> on_core (checkHookPeerAuthFailureRateLimit env key) h;
     Some (if limited then block_reply 429 ''hook peer authentication failure rate limit exceeded'' ''hook_rate_limit_exceeded''
       else block_reply status reason ''hook_peer_binding_rejected'', h) }"

subsection \<open>Events that are not a tool call\<close>

text \<open>What the event's bookkeeping found, and the reason so far.\<close>

record lifecycle =
  lc_session :: hook_session
  lc_transition :: "hook_approval option"
  lc_permission :: "hook_approval option"
  lc_abandoned :: int
  lc_reason :: string

definition lifecycle_of :: "hook_session \<Rightarrow> lifecycle" where
  "lifecycle_of session = \<lparr>lc_session = session, lc_transition = None, lc_permission = None, lc_abandoned = 0,
     lc_reason = ''observability-only hook event recorded without policy enforcement''\<rparr>"

definition state_unavailable :: "string \<Rightarrow> hook_reply" where
  "state_unavailable e = HookError 500 (''claude hook session state unavailable: '' @ e)"

text \<open>An event about approvals; when it is not recorded the approvals go back to what they were.\<close>

definition audit_or_restore :: "('io, 'f) server_env \<Rightarrow> hook_env \<Rightarrow> hook_io \<Rightarrow> hook_request \<Rightarrow> string \<Rightarrow> gdata \<Rightarrow>
    (string, hook_approval) gomap option \<Rightarrow> lifecycle \<Rightarrow> ('f, 'w) hook_server \<Rightarrow>
    ((hook_reply + lifecycle) \<times> ('f, 'w) hook_server) option" where
  "audit_or_restore env he io req eventType auditData previous lc h = do {
     (e, h) \<leftarrow> on_core (logEvent env eventType (hq_SessionID req) auditData) h;
     Some (if e = None then (Inr lc, h)
       else (Inl hook_audit_unavailable, snd (restoreClaudeHookApprovalState he io (hq_SessionID req)
         (case previous of None \<Rightarrow> [] | Some m \<Rightarrow> m) h))) }"

definition session_end :: "('io, 'f) server_env \<Rightarrow> hook_env \<Rightarrow> hook_io \<Rightarrow> int \<Rightarrow> hook_request \<Rightarrow> bool \<Rightarrow>
    ('f, 'w) hook_server \<Rightarrow> ((hook_reply + lifecycle) \<times> ('f, 'w) hook_server) option" where
  "session_end env he io uid req previews h =
    (case abandonPendingClaudeHookApprovalsWithPrevious env he io (hq_SessionID req) (hq_Reason req) h of
       (Inl e, h) \<Rightarrow> Some (Inl (state_unavailable e), h)
     | (Inr (n, session, previous), h) \<Rightarrow> (let lc = (lifecycle_of session)\<lparr>lc_abandoned := n\<rparr> in
         if n \<le> 0 then Some (Inr lc, h)
         else audit_or_restore env he io req ''approval.cancelled'' (mergeHookAuditProjection he
           [(''approval_surface'', GString ''inline_claude''), (''approval_class'', GString ''claude_builtin_inline''),
            (''approval_state'', GString ''abandoned''), (''control_session_id'', GString (hq_SessionID req)),
            (''client_session_label'', GString (hq_SessionID req)),
            (''actor_ref'', GString (formatHookAuditActor uid (hq_SessionID req))),
            (''reason'', GString ''session ended before inline Claude approval was consumed''),
            (''hook_reason'', GString (hq_Reason req)), (''abandoned_count'', GInt n),
            (''claude_hook_session_id'', GString (hs_SessionID session))] req previews) previous lc h))"

definition resolved_data :: "int \<Rightarrow> string \<Rightarrow> hook_request \<Rightarrow> hook_approval \<Rightarrow> gdata" where
  "resolved_data uid eventName req a =
     [(''approval_request_id'', GString (ha_ApprovalRequestID a)), (''approval_surface'', GString (ha_ApprovalSurface a)),
      (''approval_class'', GString ''claude_builtin_inline''), (''approval_state'', GString (ha_State a)),
      (''capability'', GString (hq_ToolName req)), (''tool_name'', GString (hq_ToolName req)),
      (''tool_use_id'', GString (hq_ToolUseID req)), (''control_session_id'', GString (hq_SessionID req)),
      (''client_session_label'', GString (hq_SessionID req)),
      (''actor_ref'', GString (formatHookAuditActor uid (hq_SessionID req))), (''hook_event_name'', GString eventName),
      (''post_execution_observed'', GBool True), (''reason'', GString (ha_Reason a))]"

text \<open>PostToolUse and PostToolUseFailure differ in the state, its reason and two more fields of the event.\<close>

definition tool_finished :: "('io, 'f) server_env \<Rightarrow> hook_env \<Rightarrow> hook_io \<Rightarrow> int \<Rightarrow> hook_request \<Rightarrow> bool \<Rightarrow> string \<Rightarrow>
    ('f, 'w) hook_server \<Rightarrow> ((hook_reply + lifecycle) \<times> ('f, 'w) hook_server) option" where
  "tool_finished env he io uid req previews eventName h = (let
     failed = (eventName = ''PostToolUseFailure'');
     state = (if failed then ''execution_failed'' else ''executed'');
     reason = (if \<not> failed then ''Claude tool execution completed after local approval''
       else if blank (hq_Error req) then ''Claude tool execution failed after local approval'' else hq_Error req);
     extra = (if failed then [(''execution_error'', GString (RedactText (hq_Error req))),
       (''hook_interrupted'', GBool (hq_Interrupted req))] else [])
   in case transitionClaudeHookApproval env he io req state reason h of
        (Inl e, h) \<Rightarrow> Some (Inl (state_unavailable e), h)
      | (Inr (a, session, found, changed, previous), h) \<Rightarrow>
          (let lc = (lifecycle_of session)\<lparr>lc_transition := (if found then Some a else None)\<rparr> in
           if \<not> (found \<and> changed) then Some (Inr lc, h)
           else audit_or_restore env he io req ''approval.granted''
             (mergeHookAuditProjection he (resolved_data uid eventName req a @ extra) req previews) previous lc h))"

definition permission_request :: "('io, 'f) server_env \<Rightarrow> hook_env \<Rightarrow> hook_io \<Rightarrow> hook_request \<Rightarrow>
    ('f, 'w) hook_server \<Rightarrow> ((hook_reply + lifecycle) \<times> ('f, 'w) hook_server) option" where
  "permission_request env he io req h = (case findClaudeHookApprovalByRequest env he io req h of
     (Inl e, h) \<Rightarrow> Some (Inl (state_unavailable e), h)
   | (Inr (found, session), h) \<Rightarrow> Some (Inr ((lifecycle_of session)\<lparr>lc_permission := found,
       lc_reason := (if found = None then ''permission request recorded with no matching Loopgate-tracked Claude approval''
         else ''permission request matched pending Loopgate-tracked Claude approval'')\<rparr>), h))"

definition lifecycle_event :: "('io, 'f) server_env \<Rightarrow> hook_env \<Rightarrow> hook_io \<Rightarrow> int \<Rightarrow> hook_request \<Rightarrow> bool \<Rightarrow> string \<Rightarrow>
    ('f, 'w) hook_server \<Rightarrow> ((hook_reply + lifecycle) \<times> ('f, 'w) hook_server) option" where
  "lifecycle_event env he io uid req previews eventName h =
    (if eventName = ''SessionEnd'' then session_end env he io uid req previews h
     else if eventName \<in> set [''PostToolUse'', ''PostToolUseFailure''] then tool_finished env he io uid req previews eventName h
     else if eventName = ''PermissionRequest'' then permission_request env he io req h
     else (case ensureClaudeHookSessionBinding env he io (hq_SessionID req) eventName (hq_Reason req) h of
         (Inl e, h) \<Rightarrow> Some (Inl (state_unavailable e), h)
       | (Inr session, h) \<Rightarrow> Some (Inr (lifecycle_of session), h)))"

text \<open>The decision on such an event: its word, mode, reason and denial code.\<close>

definition lifecycle_verdict :: "string \<Rightarrow> lifecycle \<Rightarrow> string \<times> string \<times> string \<times> string" where
  "lifecycle_verdict eventName lc = (let
     surface = classifyClaudeCodeHookEvent eventName;
     mode0 = hookHandlingModeForClaudeCodeHookEvent eventName;
     finished = eventName \<in> set [''PostToolUse'', ''PostToolUseFailure''];
     mode = (if finished \<and> lc_transition lc \<noteq> None then ''state_transition'' else mode0);
     reason = (if \<not> finished then lc_reason lc
       else if lc_transition lc \<noteq> None then ''local Claude hook approval state updated from tool execution''
       else ''tool completion recorded with no pending local hook approval'')
   in if surface = ''secondary_governance'' \<and> \<not> finished \<and> eventName \<noteq> ''PermissionRequest''
      then (''block'', mode, ''hook event is governance-relevant but not implemented in Loopgate yet'', ''hook_event_unimplemented'')
      else if surface = ''unknown''
      then (''block'', mode, ''hook event is not recognized by Loopgate '' @ em_dash @ '' denied by default'', ''hook_unknown_event'')
      else if eventName = ''SessionStart'' then (''allow'', mode, ''session start recorded for local lifecycle audit'', [])
      else if eventName = ''UserPromptSubmit'' then (''allow'', mode, ''user prompt recorded without automatic memory injection'', [])
      else if eventName = ''SessionEnd'' then
        (if lc_abandoned lc > 0 then (''allow'', ''state_transition'', ''session end recorded and abandoned '' @
            int_str (lc_abandoned lc) @ '' pending local hook approvals'', [])
         else (''allow'', mode, ''session end recorded for local lifecycle audit'', []))
      else (''allow'', mode, reason, []))"

definition peer_fields :: "peer_identity \<Rightarrow> gdata" where
  "peer_fields peer = [(''peer_uid'', GInt (UID peer)), (''peer_pid'', GInt (PID peer))]"

definition lifecycle_data :: "peer_identity \<Rightarrow> string \<Rightarrow> hook_request \<Rightarrow> lifecycle \<Rightarrow> string \<Rightarrow> string \<Rightarrow> string \<Rightarrow> gdata" where
  "lifecycle_data peer eventName req lc decision mode reason = (let
     a = (case lc_transition lc of Some a \<Rightarrow> a | None \<Rightarrow> (case lc_permission lc of Some a \<Rightarrow> a | None \<Rightarrow> no_hook_approval));
     surface = (if lc_transition lc = None then ha_ApprovalSurface a else []) in
     [(''decision'', GString decision), (''hook_event_name'', GString eventName),
      (''hook_surface_class'', GString (classifyClaudeCodeHookEvent eventName)), (''hook_handling_mode'', GString mode),
      (''hook_reason'', GString (hq_Reason req)), (''actor_ref'', GString (formatHookAuditActor (UID peer) (hq_SessionID req))),
      (''tool_use_id'', GString (hq_ToolUseID req)), (''claude_hook_session_id'', GString (hs_SessionID (lc_session lc))),
      (''claude_hook_session_state'', GString (hs_State (lc_session lc))),
      (''hook_approval_request_id'', GString (ha_ApprovalRequestID a)), (''hook_approval_state'', GString (ha_State a)),
      (''hook_approval_surface'', GString surface), (''tool_name'', GString (hq_ToolName req)),
      (''prompt_bytes'', GInt (int (length (hq_Prompt req)))), (''reason'', GString reason),
      (''additional_context_bytes'', GInt 0)] @ peer_fields peer)"

definition put_denial_code :: "string \<Rightarrow> gdata \<Rightarrow> gdata" where
  "put_denial_code code d = (if blank code then d else mput ''denial_code'' (GString code) d)"

definition handle_lifecycle :: "('io, 'f) server_env \<Rightarrow> hook_env \<Rightarrow> hook_io \<Rightarrow> peer_identity \<Rightarrow> hook_request \<Rightarrow> string \<Rightarrow>
    ('f, 'w) hook_server \<Rightarrow> (hook_reply \<times> ('f, 'w) hook_server) option" where
  "handle_lifecycle env he io peer req eventName h = (let previews = HookAuditProjectionIncludesPreviews (hk_policy he) in do {
     (found, h) \<leftarrow> lifecycle_event env he io (UID peer) req previews eventName h;
     (case found of
        Inl r \<Rightarrow> Some (r, h)
      | Inr lc \<Rightarrow> (case lifecycle_verdict eventName lc of (decision, mode, reason, code) \<Rightarrow> do {
          (e, h) \<leftarrow> on_core (logEvent env ''hook.pre_validate'' (hq_SessionID req)
            (put_denial_code code (mergeHookAuditProjection he (lifecycle_data peer eventName req lc decision mode reason)
              req previews))) h;
          Some (if e \<noteq> None then hook_audit_unavailable
            else if decision = ''allow'' then HookReply 200 (no_hook_response\<lparr>hr_Decision := ''allow''\<rparr>)
            else block_reply 200 reason code, h) })) })"

subsection \<open>Tool calls\<close>

definition call_data :: "peer_identity \<Rightarrow> hook_request \<Rightarrow> string \<Rightarrow> gdata \<Rightarrow> string \<Rightarrow> gdata" where
  "call_data peer req decision added reason =
     [(''decision'', GString decision), (''hook_event_name'', GString ''PreToolUse''),
      (''hook_surface_class'', GString (classifyClaudeCodeHookEvent ''PreToolUse'')),
      (''hook_handling_mode'', GString (hookHandlingModeForClaudeCodeHookEvent ''PreToolUse'')),
      (''hook_reason'', GString (hq_Reason req)), (''actor_ref'', GString (formatHookAuditActor (UID peer) (hq_SessionID req))),
      (''tool_name'', GString (hq_ToolName req)), (''prompt_bytes'', GInt (int (length (hq_Prompt req)))),
      (''reason'', GString reason)] @ peer_fields peer @ added"

definition handle_unknown_tool :: "('io, 'f) server_env \<Rightarrow> hook_env \<Rightarrow> peer_identity \<Rightarrow> hook_request \<Rightarrow>
    ('f, 'w) hook_server \<Rightarrow> (hook_reply \<times> ('f, 'w) hook_server) option" where
  "handle_unknown_tool env he peer req h = (let
     allowed = (\<not> ClaudeCodeDenyUnknownTools (hk_policy he));
     decision = (if allowed then ''allow'' else ''block'');
     reason = ''tool not in governance map '' @ em_dash @
       (if allowed then '' allowed by explicit policy override'' else '' denied by default'');
     d = mergeHookAuditProjection he (call_data peer req decision [] reason) req (HookAuditProjectionIncludesPreviews (hk_policy he))
   in do {
     (e, h) \<leftarrow> on_core (logEvent env ''hook.pre_validate'' (hq_SessionID req)
       (if allowed then d else mput ''denial_code'' (GString ''hook_unknown_tool'') d)) h;
     Some (if e \<noteq> None then hook_audit_unavailable
       else if allowed then HookReply 200 (no_hook_response\<lparr>hr_Decision := ''allow''\<rparr>)
       else block_reply 200 reason ''hook_unknown_tool'', h) })"

definition decided_fields :: "hook_request \<Rightarrow> string \<times> string \<Rightarrow> hook_decision_metadata \<Rightarrow> gdata" where
  "decided_fields req toolDef m =
     [(''reason_code'', GString (dm_reasonCode m)), (''tool_use_id'', GString (hq_ToolUseID req)),
      (''category'', GString (fst toolDef)), (''operation'', GString (snd toolDef)),
      (''claude_hook_session_id'', GString []), (''claude_hook_session_state'', GString []),
      (''hook_approval_request_id'', GString []), (''hook_approval_state'', GString []),
      (''hook_approval_surface'', GString []), (''additional_context_bytes'', GInt 0)]"

text \<open>The fields added after the merge, each when it has a value.\<close>

definition decided_data :: "hook_env \<Rightarrow> hook_request \<Rightarrow> string \<Rightarrow> hook_decision_metadata \<Rightarrow> gdata \<Rightarrow> gdata" where
  "decided_data he req decision m d0 = (case ClaudeCodeToolOperatorOverride (hk_policy he) (hq_ToolName req) of
     (overrideClass, maxDelegation, found) \<Rightarrow> (let
       d1 = (if \<not> found then d0 else mput ''operator_override_max_grant_scope'' (GString (hookGrantScopeLabel maxDelegation))
         (mput ''operator_override_max_delegation'' (GString maxDelegation)
           (mput ''operator_override_class'' (GString overrideClass) d0)));
       d2 = (if dm_approvalOwner m = [] then d1 else mput ''approval_owner'' (GString (dm_approvalOwner m)) d1);
       d3 = (if dm_approvalOptions m = [] then d2 else mput ''approval_options'' (GStrs (dm_approvalOptions m)) d2)
     in if decision = ''block'' then put_denial_code ''policy_denied'' d3 else d3))"

definition decided_response :: "hook_env \<Rightarrow> hook_request \<Rightarrow> check_result \<Rightarrow> hook_decision_metadata \<Rightarrow> hook_response" where
  "decided_response he req r m = with_override_fields he req
    (if cr_Decision r = Allow then no_hook_response\<lparr>hr_Decision := ''allow'', hr_ReasonCode := dm_reasonCode m\<rparr>
     else if cr_Decision r = NeedsApproval then no_hook_response\<lparr>hr_Decision := ''ask'', hr_Reason := cr_Reason r,
       hr_ReasonCode := dm_reasonCode m, hr_ApprovalOwner := dm_approvalOwner m, hr_ApprovalOptions := dm_approvalOptions m\<rparr>
     else no_hook_response\<lparr>hr_Decision := ''block'', hr_Reason := cr_Reason r, hr_ReasonCode := dm_reasonCode m,
       hr_DenialCode := ''policy_denied''\<rparr>)"

definition handle_tool_call :: "('io, 'f) server_env \<Rightarrow> hook_env \<Rightarrow> peer_identity \<Rightarrow> hook_request \<Rightarrow> string \<times> string \<Rightarrow>
    ('f, 'w) hook_server \<Rightarrow> (hook_reply \<times> ('f, 'w) hook_server) option" where
  "handle_tool_call env he peer req toolDef h = (let
     r = evaluateClaudeCodeHookPolicy he req toolDef;
     decision = hook_decision_word (cr_Decision r);
     m = buildHookDecisionMetadata decision r (override_delegation he req);
     d = mergeHookAuditProjection he (call_data peer req decision (decided_fields req toolDef m) (cr_Reason r)) req
       (HookAuditProjectionIncludesPreviews (hk_policy he))
   in do {
     (e, h) \<leftarrow> on_core (logEvent env ''hook.pre_validate'' (hq_SessionID req) (decided_data he req decision m d)) h;
     Some (if e \<noteq> None then hook_audit_unavailable else HookReply 200 (decided_response he req r m), h) })"

subsection \<open>The endpoint\<close>

definition handle_hook_event :: "('io, 'f) server_env \<Rightarrow> hook_env \<Rightarrow> hook_io \<Rightarrow> peer_identity \<Rightarrow> hook_request \<Rightarrow>
    ('f, 'w) hook_server \<Rightarrow> (hook_reply \<times> ('f, 'w) hook_server) option" where
  "handle_hook_event env he io peer req h = (let eventName = normalizedClaudeCodeHookEventName (hq_EventName req) in
     if eventName \<noteq> ''PreToolUse'' then handle_lifecycle env he io peer req eventName h
     else do {
       (limited, h) \<leftarrow> on_core (checkHookPreValidateRateLimit env (UID peer)) h;
       if limited then Some (block_reply 200 ''hook pre-validate rate limit exceeded'' ''hook_rate_limit_exceeded'', h)
       else (case map_of claudeCodeToolMap (hq_ToolName req) of
           None \<Rightarrow> handle_unknown_tool env he peer req h
         | Some toolDef \<Rightarrow> handle_tool_call env he peer req toolDef h) })"

definition handleHookPreValidate :: "('io, 'f) server_env \<Rightarrow> hook_env \<Rightarrow> hook_io \<Rightarrow> hook_call \<Rightarrow> http_request \<Rightarrow>
    ('f, 'w) hook_server \<Rightarrow> (hook_reply \<times> ('f, 'w) hook_server) option" where
  "handleHookPreValidate env he io hx request h =
    (if Method request \<noteq> ''POST'' then Some (HookError 405 ''method not allowed'', h)
     else (case Peer request of
         None \<Rightarrow> refuse_peer env (''missing:'' @ trim_space (hx_remote hx)) 401
           (''missing peer identity '' @ em_dash @ '' request must arrive over Unix domain socket'') h
       | Some peer \<Rightarrow>
           if UID peer \<noteq> hx_uid hx then refuse_peer env (''uid:'' @ int_str (UID peer)) 403
             (''peer UID '' @ int_str (UID peer) @ '' does not match server UID '' @ int_str (hx_uid hx)) h
           else (case hx_decode hx request of
               Inl e \<Rightarrow> Some (block_reply 400 (''malformed request body: '' @ e) ''malformed_request'', h)
             | Inr req \<Rightarrow> handle_hook_event env he io peer req h)))"

end
