(* ===== verification/Capabilities.thy ===== *)
theory Capabilities
  imports RequestAuth PolicyCheck SafePath
begin

text \<open>
  Tools and capabilities: internal/tools/tool.go and registry.go, and from internal/loopgate
  capability_execution_runtime.go, approval_classes.go, secret_export.go, tool_classification.go,
  pending_approval_integrity.go (the raw secret export check) and the write grants of operator_mount.go.

  A tool is the record of its methods; the optional interfaces are option fields. Execute changes the
  world outside the server, a value of type \<open>'w\<close>.
\<close>

section \<open>Tools\<close>

record arg_def =
  ArgName :: string
  ArgDescription :: string
  Required :: bool
  ArgType :: string
  MaxLen :: int

datatype schema_error = MissingArgError string | ArgTooLongError string

definition schema_error_text :: "schema_error \<Rightarrow> string" where
  "schema_error_text e = (case e of
     MissingArgError n \<Rightarrow> ''missing required argument: '' @ n
   | ArgTooLongError n \<Rightarrow> ''argument too long: '' @ n)"

text \<open>Schema.Validate: the check of one argument, and the loop.\<close>

definition validate_arg :: "(string, string) gomap \<Rightarrow> arg_def \<Rightarrow> schema_error option" where
  "validate_arg args a = (let v = map_of args (ArgName a) in
     if Required a \<and> (case v of None \<Rightarrow> True | Some x \<Rightarrow> blank x) then Some (MissingArgError (ArgName a))
     else (case v of None \<Rightarrow> None
       | Some x \<Rightarrow> if MaxLen a > 0 \<and> int (length x) > MaxLen a then Some (ArgTooLongError (ArgName a)) else None))"

definition Schema_Validate :: "arg_def list \<Rightarrow> (string, string) gomap \<Rightarrow> schema_error option" where
  "Schema_Validate schema args = first_error (map (validate_arg args) schema)"

record 'w tool =
  tool_Name :: string
  tool_Category :: string
  tool_Operation :: string
  tool_Schema :: "arg_def list"
  tool_RawSecretExportProhibited :: "bool option"
  tool_SecretExportNameHeuristicOptOut :: "bool option"
  tool_ValidatePolicyArguments :: "((string, string) gomap \<Rightarrow> string option) option"
  tool_Execute :: "string \<Rightarrow> (string, string) gomap \<Rightarrow> 'w \<Rightarrow> string result \<times> 'w"

definition tool_info_of :: "'w tool \<Rightarrow> tool_info" where
  "tool_info_of t = \<lparr>ti_Name = tool_Name t, ti_Category = tool_Category t, ti_Operation = tool_Operation t\<rparr>"

type_synonym 'w registry = "(string, 'w tool) gomap"

definition TryRegister :: "'w registry \<Rightarrow> 'w tool \<Rightarrow> 'w registry \<times> string option" where
  "TryRegister r t = (if mhas r (tool_Name t) then (r, Some (''tool already registered: '' @ tool_Name t))
     else (mput (tool_Name t) t r, None))"

definition Registry_Get :: "'w registry \<Rightarrow> string \<Rightarrow> 'w tool option" where
  "Registry_Get r name = map_of r name"

definition Registry_Has :: "'w registry \<Rightarrow> string \<Rightarrow> bool" where
  "Registry_Has r name = mhas r name"

definition Registry_List :: "'w registry \<Rightarrow> string list" where
  "Registry_List r = sort_strings (map fst r)"

definition Registry_All :: "'w registry \<Rightarrow> 'w tool list" where
  "Registry_All r = map (\<lambda>name. the (map_of r name)) (Registry_List r)"

definition classifyCapability :: "'w registry \<Rightarrow> string \<Rightarrow> bool" where
  "classifyCapability r capabilityName = (case Registry_Get r capabilityName of
     None \<Rightarrow> False | Some t \<Rightarrow> tool_Operation t = OpRead)"

section \<open>Raw secret export\<close>

definition secretExportCapabilityNameHeuristic :: "(string \<Rightarrow> string) \<Rightarrow> string \<Rightarrow> bool" where
  "secretExportCapabilityNameHeuristic uni capability = (let c = to_lower uni (trim_space capability) in
     c \<noteq> [] \<and>
     (list_ex (has_prefix c) [''secret.'', ''token.'', ''credential.'', ''credentials.'', ''key.''] \<or>
      str_contains c ''export'' \<and>
        (str_contains c ''token'' \<or> str_contains c ''secret'' \<or> str_contains c ''credential'' \<or> str_contains c ''key'')))"

definition capabilityProhibitsRawSecretExport :: "(string \<Rightarrow> string) \<Rightarrow> 'w tool option \<Rightarrow> string \<Rightarrow> bool" where
  "capabilityProhibitsRawSecretExport uni tool capabilityName = (case tool of
     Some t \<Rightarrow> tool_RawSecretExportProhibited t = Some True
   | None \<Rightarrow> secretExportCapabilityNameHeuristic uni capabilityName)"

section \<open>Approval classes\<close>

definition ApprovalClassLabel :: "string \<Rightarrow> string" where
  "ApprovalClassLabel c =
    (if c = ''read_sandbox_path'' then ''read sandbox path''
     else if c = ''read_host_folder'' then ''read host folder''
     else if c = ''write_host_folder'' then ''write host folder''
     else if c = ''apply_host_organization_plan'' then ''apply host organization plan''
     else if c = ''write_sandbox_path'' then ''write sandbox path''
     else if c = ''export_sandbox_artifact'' then ''export sandbox artifact''
     else if c = ''mcp_gateway_invoke'' then ''invoke MCP gateway tool''
     else if c = ''provider_capability'' then ''provider capability''
     else if c = ''create_trust_draft'' then ''create trust draft'' else [])"

text \<open>\<open>configured\<close> tells whether a configured capability of the name exists.\<close>

definition approvalClassForCapability :: "(string \<Rightarrow> bool) \<Rightarrow> string \<Rightarrow> string" where
  "approvalClassForCapability configured c =
    (if c \<in> set [''fs_read'', ''fs_list''] then ''read_sandbox_path''
     else if c \<in> set [''host.folder.list'', ''host.folder.read'', ''host.organize.plan''] then ''read_host_folder''
     else if c \<in> set [''operator_mount.fs_write'', ''operator_mount.fs_mkdir''] then ''write_host_folder''
     else if c = ''host.plan.apply'' then ''apply_host_organization_plan''
     else if c = ''fs_write'' then ''write_sandbox_path''
     else if configured c then ''provider_capability'' else [])"

section \<open>Requests and tokens\<close>

definition isHighRiskCapability :: "'w tool \<Rightarrow> check_result \<Rightarrow> bool" where
  "isHighRiskCapability t d = (cr_Decision d = NeedsApproval \<or> tool_Operation t = OpWrite)"

text \<open>The set of the trimmed names that are not blank, and the list without repetitions.\<close>

fun normalized_names :: "string list \<Rightarrow> string list \<Rightarrow> string list" where
  "normalized_names seen [] = []"
| "normalized_names seen (c # cs) = (let t = trim_space c in
     if t = [] \<or> t \<in> set seen then normalized_names seen cs else t # normalized_names (t # seen) cs)"

definition normalizedCapabilityList :: "string list \<Rightarrow> string list" where
  "normalizedCapabilityList capabilities = normalized_names [] capabilities"

definition capabilitySet :: "string list \<Rightarrow> string list" where
  "capabilitySet capabilities = normalized_names [] capabilities"

definition copyCapabilitySet :: "string list \<Rightarrow> string list" where
  "copyCapabilitySet input = input"

definition deriveExecutionToken :: "capability_token \<Rightarrow> capability_request \<Rightarrow> capability_token" where
  "deriveExecutionToken base request = \<lparr>TokenID = ''exec:'' @ TokenID base @ '':'' @ RequestID request, Token = [],
     ct_ControlSessionID = ct_ControlSessionID base, ct_ActorLabel = ct_ActorLabel base,
     ct_ClientSessionLabel = ct_ClientSessionLabel base, ct_AllowedCapabilities = capabilitySet [Capability request],
     ct_PeerIdentity = ct_PeerIdentity base, ct_TenantID = ct_TenantID base, ct_UserID = ct_UserID base,
     ct_ExpiresAt = ct_ExpiresAt base, SingleUse = True, ApprovedExecution = ApprovedExecution base,
     BoundCapability = Capability request, BoundArgumentHash = normalizedArgumentHash (args_of request),
     ParentTokenID = TokenID base\<rparr>"

definition normalize_argument :: "string \<Rightarrow> string \<Rightarrow> string" where
  "normalize_argument k raw = (let v = (if k \<noteq> ''content'' then trim_space raw else raw) in
     if k = ''path'' \<and> \<not> blank v then filepath_clean v else v)"

definition normalizeCapabilityRequest :: "capability_request \<Rightarrow> capability_request" where
  "normalizeCapabilityRequest r = r\<lparr>RequestID := trim_space (RequestID r), SessionID := trim_space (SessionID r),
     Actor := trim_space (Actor r), Capability := trim_space (Capability r),
     CorrelationID := trim_space (CorrelationID r),
     EchoedNativeToolName := [], EchoedNativeToolNameSnake := [], EchoedNativeToolNameCamel := [],
     EchoedNativeToolUseID := [], EchoedNativeToolUseIDSnake := [], EchoedNativeToolCallID := [],
     EchoedNativeToolCallIDAlt := [],
     Arguments := map_option (map (\<lambda>(k, v). (k, normalize_argument k v))) (Arguments r)\<rparr>"

section \<open>Write grants of operator mounts\<close>

definition operatorMountWriteGrantTTL :: duration where "operatorMountWriteGrantTTL = 8 * nano_hour"

record operator_mount_binding =
  mount_primary :: string
  mount_paths :: "string list"

definition operatorMountBindingForControlSession :: "string \<Rightarrow> ('f, 'w) server \<Rightarrow>
    (operator_mount_binding result \<times> ('f, 'w) server) option" where
  "operatorMountBindingForControlSession controlSessionID s = (let sid = trim_space controlSessionID in
     if sid = [] then Some (Inl ''missing control session binding for operator mount tool'', s)
     else with_mu (\<lambda>s. Some (case map_of (sessions s) sid of
         None \<Rightarrow> Inl ''unknown control session''
       | Some x \<Rightarrow> Inr \<lparr>mount_primary = trim_space (PrimaryOperatorMountPath x),
             mount_paths = OperatorMountPaths x\<rparr>, s)) s)"

text \<open>A grant is its root and, when it is active, its expiry.\<close>

definition active_write_grant :: "('io, 'f) server_env \<Rightarrow> string \<Rightarrow> string \<Rightarrow> ('f, 'w) server \<Rightarrow>
    (string \<times> gotime option) result \<times> ('f, 'w) server" where
  "active_write_grant env controlSessionID root s = (case map_of (sessions s) controlSessionID of
     None \<Rightarrow> (Inl ''unknown control session'', s)
   | Some x \<Rightarrow> (case map_of (OperatorMountWriteGrants x) root of
       None \<Rightarrow> (Inr (root, None), s)
     | Some expiresAt \<Rightarrow> if expiresAt = 0 then (Inr (root, Some expiresAt), s)
         else (let (nowUTC, s1) = server_now env s in
           if nowUTC > expiresAt
           then (Inr (root, None), s1\<lparr>sessions := mput controlSessionID
               (x\<lparr>OperatorMountWriteGrants := mdel root (OperatorMountWriteGrants x)\<rparr>) (sessions s1)\<rparr>)
           else (Inr (root, Some expiresAt), s1))))"

text \<open>\<open>paths\<close> is what the file system answers to ExplainSafePath.\<close>

definition operatorMountWriteGrantForRequest :: "('io, 'f) server_env \<Rightarrow> path_env \<Rightarrow> string \<Rightarrow> capability_request \<Rightarrow>
    ('f, 'w) server \<Rightarrow> ((string \<times> gotime option) result \<times> ('f, 'w) server) option" where
  "operatorMountWriteGrantForRequest env paths controlSessionID request s =
    (if Capability request \<notin> set [''operator_mount.fs_write'', ''operator_mount.fs_mkdir''] then Some (Inr ([], None), s)
     else do {
       (binding, s) \<leftarrow> operatorMountBindingForControlSession controlSessionID s;
       (case binding of
          Inl e \<Rightarrow> Some (Inl e, s)
        | Inr b \<Rightarrow>
           if mount_paths b = [] then Some (Inl ''no operator directory grants for this session'', s)
           else (let repoRoot = (if mount_primary b = [] then hd (mount_paths b) else mount_primary b);
                     pathValue = (case map_of (args_of request) ''path'' of None \<Rightarrow> [] | Some p \<Rightarrow> trim_space p) in
             if pathValue = [] then Some (Inl ''missing path argument'', s)
             else (case ExplainSafePath paths repoRoot (mount_paths b) [] pathValue of
                 (_, Some _) \<Rightarrow> Some (Inl ''path is not inside an operator mount'', s)
               | (ex, None) \<Rightarrow> (let root = trim_space (AllowedMatch ex) in
                   if root = [] then Some (Inl ''matched root not found'', s)
                   else with_mu (\<lambda>s. Some (active_write_grant env controlSessionID root s)) s)))) })"

definition operatorMountMatchedRootPath :: "string list \<Rightarrow> string \<Rightarrow> string option" where
  "operatorMountMatchedRootPath boundRootPaths resolvedHostPath = (let
     resolved = filepath_clean (trim_space resolvedHostPath);
     better = (\<lambda>bound matched. let b = filepath_clean (trim_space bound) in
       if resolved \<noteq> b \<and> \<not> has_prefix resolved (b @ ''/'') then matched
       else if length b > length matched then b else matched);
     matched = fold better boundRootPaths []
   in if matched = [] then None else Some matched)"

end
