(* ===== verification/Results.thy ===== *)
theory Results
  imports Capabilities
begin

text \<open>
  The results of capabilities: internal/loopgate/capability_result_runtime.go, the classification and
  field checks of controlapi/core.go, the timestamp of promotion.go and storing a raw output in
  quarantine (quarantine.go). Building the result of a configured capability is a parameter.
\<close>

section \<open>Classification\<close>

text \<open>The verb %q of fmt on names without control characters, quotes and backslashes.\<close>

definition quoted :: "string \<Rightarrow> string" where
  "quoted s = [CHR 0x22] @ s @ [CHR 0x22]"

definition Classification_Validate :: "result_classification \<Rightarrow> string option" where
  "Classification_Validate c =
    (if Exposure c \<notin> set [''none'', ''display'', ''audit''] then Some (''invalid result exposure '' @ quoted (Exposure c))
     else if Exposure c = ''audit'' \<and> PromptFlag c then Some ''audit exposure cannot also be prompt-eligible''
     else if QuarantinedFlag c then
       (if PromptFlag c then Some ''quarantined classification cannot also be prompt-eligible''
        else if blank (QuarantineRefOf c) then Some ''quarantined classification requires quarantine ref'' else None)
     else if \<not> blank (QuarantineRefOf c) then Some ''non-quarantined classification must not set quarantine ref''
     else None)"

definition DisplayOnly :: "result_classification \<Rightarrow> bool" where
  "DisplayOnly c = (Exposure c = ''display'' \<and> \<not> PromptFlag c)"

definition AuditOnly :: "result_classification \<Rightarrow> bool" where
  "AuditOnly c = (Exposure c = ''audit'')"

definition normalizeResultClassification :: "result_classification \<Rightarrow> string \<Rightarrow> result_classification result" where
  "normalizeResultClassification c quarantineRef = (let c' = c\<lparr>QuarantineRefOf := trim_space quarantineRef\<rparr> in
     case Classification_Validate c' of Some e \<Rightarrow> Inl e | None \<Rightarrow> Inr c')"

definition display_class :: result_classification where
  "display_class = no_classification\<lparr>Exposure := ''display'', PromptFlag := True\<rparr>"

definition classifyCapabilityResult :: "string \<Rightarrow> result_classification" where
  "classifyCapabilityResult capability =
    (if capability \<in> set [''fs_list'', ''operator_mount.fs_list'', ''fs_write'', ''operator_mount.fs_write'',
       ''shell_exec'', ''fs_read'', ''operator_mount.fs_read'', ''fs_mkdir'', ''operator_mount.fs_mkdir'']
     then display_class
     else no_classification\<lparr>Exposure := ''audit'', QuarantinedFlag := True\<rparr>)"

section \<open>Fields\<close>

definition field_kinds :: "string list" where
  "field_kinds = [''scalar'', ''object'', ''array'', ''blob_ref'']"

definition scalar_subclasses :: "string list" where
  "scalar_subclasses = [[], ''boolean'', ''validated_number'', ''enum'', ''timestamp'', ''strict_identifier'',
     ''short_text_label'']"

definition FieldMetadata_Validate :: "field_metadata \<Rightarrow> string option" where
  "FieldMetadata_Validate m =
    (if Origin m \<notin> set [''local'', ''remote''] then Some (''invalid field origin '' @ quoted (Origin m))
     else if blank (ContentType m) then Some ''field content_type is required''
     else if Trust m \<noteq> ''deterministic'' then Some (''invalid field trust '' @ quoted (Trust m))
     else if Sensitivity m \<notin> set [''benign'', ''tainted_text'']
     then Some (''invalid field sensitivity '' @ quoted (Sensitivity m))
     else if Kind m \<notin> set field_kinds then Some (''invalid field kind '' @ quoted (Kind m))
     else if ScalarSubclass m \<notin> set scalar_subclasses
     then Some (''invalid field scalar_subclass '' @ quoted (ScalarSubclass m))
     else if Kind m = ''scalar'' \<and> ScalarSubclass m = [] \<and> fm_PromptEligible m
     then Some ''prompt-eligible scalar field requires scalar_subclass''
     else if Kind m \<noteq> ''scalar'' \<and> ScalarSubclass m \<noteq> [] then Some ''non-scalar field must not set scalar_subclass''
     else if SizeBytes m < 0 then Some ''field size_bytes must be non-negative'' else None)"

text \<open>The error names one of the offending fields; here it is the first in the order of the list.\<close>

definition ValidateStructuredResultFields :: "gdata \<Rightarrow> (string, field_metadata) gomap \<Rightarrow> string option" where
  "ValidateStructuredResultFields structuredResult fieldsMeta =
    (if structuredResult = [] then (if fieldsMeta \<noteq> [] then Some ''fields_meta requires structured_result'' else None)
     else if fieldsMeta = [] then Some ''structured_result requires fields_meta''
     else first_error (map (\<lambda>(k, _). case map_of fieldsMeta k of
         None \<Rightarrow> Some (''structured_result field '' @ quoted k @ '' is missing fields_meta'')
       | Some m \<Rightarrow> map_option (\<lambda>e. ''invalid fields_meta for '' @ quoted k @ '': '' @ e) (FieldMetadata_Validate m))
         structuredResult @
       map (\<lambda>(k, _). if mhas structuredResult k then None
         else Some (''fields_meta field '' @ quoted k @ '' does not exist in structured_result'')) fieldsMeta))"

text \<open>The check of a response by its reader, CapabilityResponse.ResultClassification.\<close>

definition ResultClassification :: "capability_response \<Rightarrow> result_classification result" where
  "ResultClassification r = (let c = Classification r in
     case Classification_Validate c of Some e \<Rightarrow> Inl e
     | None \<Rightarrow>
       if QuarantinedFlag c \<and> blank (QuarantineRef r) then Inl ''quarantined result is missing quarantine_ref''
       else if \<not> QuarantinedFlag c \<and> \<not> blank (QuarantineRef r)
       then Inl ''non-quarantined result unexpectedly set quarantine_ref''
       else if QuarantinedFlag c \<and> trim_space (QuarantineRefOf c) \<noteq> trim_space (QuarantineRef r)
       then Inl ''classification quarantine ref does not match response quarantine_ref''
       else (case ValidateStructuredResultFields (StructuredResult r) (FieldsMeta r) of
           Some e \<Rightarrow> Inl e | None \<Rightarrow> Inr c))"

text \<open>
  json.Marshal of a field value; None when a value of another type cannot be marshalled. The empty
  slice of strings is not nil here.
\<close>

definition normalizePromotableTimestamp :: "string \<Rightarrow> gotime option" where
  "normalizePromotableTimestamp rawValue = (if blank rawValue then None else parse_rfc3339 (trim_space rawValue))"

definition describeResultFieldValue :: "gval \<Rightarrow> (string \<times> string \<times> int) result" where
  "describeResultFieldValue v = (case v of
     GString s \<Rightarrow> Inr (''scalar'', ''text/plain'', int (length s))
   | GStrs xs \<Rightarrow> Inr (''array'', ''application/json'', int (length (json_array (map json_string xs))))
   | GList _ \<Rightarrow> Inr (''array'', ''application/json'', int (length (json_val v)))
   | GMap _ \<Rightarrow> Inr (''object'', ''application/json'', int (length (json_val v)))
   | GOther None \<Rightarrow> Inl ''encode structured field''
   | _ \<Rightarrow> Inr (''scalar'', ''application/json'', int (length (json_val v))))"

definition sensitivityForResultField :: "gval \<Rightarrow> string" where
  "sensitivityForResultField v = (case v of
     GString s \<Rightarrow> if blank s then ''benign'' else ''tainted_text''
   | GStrs xs \<Rightarrow> if xs = [] then ''benign'' else ''tainted_text''
   | GList xs \<Rightarrow> if xs = [] then ''benign'' else ''tainted_text''
   | _ \<Rightarrow> ''benign'')"

definition scalarSubclassForResultField :: "gval \<Rightarrow> string" where
  "scalarSubclassForResultField v = (case v of
     GBool _ \<Rightarrow> ''boolean''
   | GInt _ \<Rightarrow> ''validated_number'' | GFloat _ \<Rightarrow> ''validated_number''
   | GString s \<Rightarrow> if normalizePromotableTimestamp s \<noteq> None then ''timestamp''
       else if ValidateSafeIdentifier ''result field strict identifier'' s = None then ''strict_identifier''
       else ''short_text_label''
   | _ \<Rightarrow> [])"

definition buildResultFieldMetadata :: "gval \<Rightarrow> string \<Rightarrow> result_classification \<Rightarrow>
    field_metadata result" where
  "buildResultFieldMetadata v fieldOrigin c = bindr (describeResultFieldValue v) (\<lambda>(kind, contentType, size).
     let m = \<lparr>Origin = fieldOrigin, ContentType = contentType, Trust = ''deterministic'',
       Sensitivity = sensitivityForResultField v, SizeBytes = size, Kind = kind,
       ScalarSubclass = scalarSubclassForResultField v, fm_PromptEligible = PromptFlag c\<rparr> in
     case FieldMetadata_Validate m of Some e \<Rightarrow> Inl e | None \<Rightarrow> Inr m)"

definition fieldsMetadataForStructuredResult :: "gdata \<Rightarrow> string \<Rightarrow> result_classification \<Rightarrow>
    (string, field_metadata) gomap result" where
  "fieldsMetadataForStructuredResult structuredResult fieldOrigin c = fold (\<lambda>(k, v) acc. bindr acc (\<lambda>m.
     case buildResultFieldMetadata v fieldOrigin c of
       Inl e \<Rightarrow> Inl (''build fields_meta for '' @ quoted k @ '': '' @ e)
     | Inr meta \<Rightarrow> Inr (mput k meta m))) structuredResult (Inr [])"

section \<open>Results of the built-in capabilities\<close>

type_synonym built_result = "gdata \<times> (string, field_metadata) gomap \<times> result_classification \<times> string"

definition with_fields :: "gdata \<Rightarrow> result_classification \<Rightarrow> built_result result" where
  "with_fields structuredResult c = bindr (fieldsMetadataForStructuredResult structuredResult ''local'' c)
     (\<lambda>fieldsMeta. Inr (structuredResult, fieldsMeta, c, []))"

definition argument :: "(string, string) gomap \<Rightarrow> string \<Rightarrow> string" where
  "argument args k = (case map_of args k of None \<Rightarrow> [] | Some v \<Rightarrow> v)"

definition buildCapabilityResult :: "string \<Rightarrow> (string, string) gomap \<Rightarrow> string \<Rightarrow> built_result result" where
  "buildCapabilityResult capability args output =
    (if capability = ''shell_exec'' then with_fields
       [(''command'', GString (argument args ''command'')), (''output'', GString output)] display_class
     else if capability \<in> set [''fs_list'', ''operator_mount.fs_list''] then with_fields
       [(''path'', GString (argument args ''path'')),
        (''entries'', GStrs (if blank output then [] else split_on (CHR 0x0A) output))] display_class
     else if capability \<in> set [''fs_write'', ''operator_mount.fs_write''] then with_fields
       [(''path'', GString (argument args ''path'')), (''bytes'', GInt (int (length (argument args ''content'')))),
        (''message'', GString output)] display_class
     else if capability \<in> set [''fs_read'', ''operator_mount.fs_read''] then with_fields
       [(''path'', GString (argument args ''path'')), (''content'', GString output),
        (''bytes'', GInt (int (length output)))] display_class
     else (let c = classifyCapabilityResult capability in
       if \<not> AuditOnly c then with_fields [(''output'', GString output)] c else Inr ([], [], c, [])))"

section \<open>Quarantine\<close>

record quarantined_record =
  SchemaVersion :: string
  QuarantineID :: string
  StoredAtUTC :: string
  StorageState :: string
  qr_RequestID :: string
  qr_Capability :: string
  NormalizedArgHash :: string
  RawPayloadSHA256 :: string
  RawPayloadByteLength :: int
  BlobPrunedAtUTC :: string

definition quarantined_record_Validate :: "quarantined_record \<Rightarrow> string option" where
  "quarantined_record_Validate r =
    (if StorageState r = ''blob_present'' \<and> BlobPrunedAtUTC r \<noteq> []
     then Some ''blob_present quarantine record must not set blob_pruned_at_utc''
     else if StorageState r = ''blob_pruned'' \<and> BlobPrunedAtUTC r = []
     then Some ''blob_pruned quarantine record requires blob_pruned_at_utc''
     else if StorageState r \<notin> set [''blob_present'', ''blob_pruned'']
     then Some (''invalid quarantine storage state '' @ quoted (StorageState r))
     else if RawPayloadByteLength r < 0 then Some ''quarantine raw_payload_byte_length must be non-negative''
     else if blank (RawPayloadSHA256 r) then Some ''quarantine raw_payload_sha256 is required'' else None)"

definition quarantineRefForID :: "string \<Rightarrow> string" where
  "quarantineRefForID quarantineID = ''quarantine://payloads/'' @ quarantineID"

definition quarantine_id_of :: "string \<Rightarrow> string result" where
  "quarantine_id_of quarantineRef = (if \<not> has_prefix quarantineRef ''quarantine://payloads/''
     then Inl ''invalid quarantine ref prefix''
     else (let quarantineID = trim_prefix quarantineRef ''quarantine://payloads/'' in
       case ValidateSafeIdentifier ''quarantine id'' quarantineID of Some e \<Rightarrow> Inl e | None \<Rightarrow> Inr quarantineID))"

definition quarantinePathFromRef :: "string \<Rightarrow> string \<Rightarrow> string result" where
  "quarantinePathFromRef repoRoot quarantineRef = bindr (quarantine_id_of quarantineRef) (\<lambda>i.
     Inr (filepath_join [repoRoot, ''runtime'', ''state'', ''quarantine'', i @ ''.json'']))"

definition quarantineBlobPathFromRef :: "string \<Rightarrow> string \<Rightarrow> string result" where
  "quarantineBlobPathFromRef repoRoot quarantineRef = bindr (quarantine_id_of quarantineRef) (\<lambda>i.
     Inr (filepath_join [repoRoot, ''runtime'', ''state'', ''quarantine'', ''blobs'', i @ ''.blob'']))"

text \<open>
  The file system: writing a file (temporary file, sync, rename), which may fail, and removing one. A
  record is written only when it is valid.
\<close>

record 'w quarantine_fs =
  qf_repoRoot :: string
  qf_write_blob :: "string \<Rightarrow> string \<Rightarrow> 'w \<Rightarrow> string option \<times> 'w"
  qf_write_record :: "string \<Rightarrow> quarantined_record \<Rightarrow> 'w \<Rightarrow> string option \<times> 'w"
  qf_remove :: "string \<Rightarrow> 'w \<Rightarrow> 'w"

definition writeQuarantinedPayloadRecord :: "'w quarantine_fs \<Rightarrow> string \<Rightarrow> quarantined_record \<Rightarrow> 'w \<Rightarrow> string option \<times> 'w" where
  "writeQuarantinedPayloadRecord fs path r w = (case quarantined_record_Validate r of
     Some e \<Rightarrow> (Some e, w) | None \<Rightarrow> qf_write_record fs path r w)"

definition store_payload :: "'w quarantine_fs \<Rightarrow> quarantined_record \<Rightarrow> string \<Rightarrow> 'w \<Rightarrow> string result \<times> 'w" where
  "store_payload fs r rawPayload w = (let ref = quarantineRefForID (QuarantineID r) in
     case (quarantinePathFromRef (qf_repoRoot fs) ref, quarantineBlobPathFromRef (qf_repoRoot fs) ref) of
       (Inl e, _) \<Rightarrow> (Inl e, w)
     | (Inr _, Inl e) \<Rightarrow> (Inl e, w)
     | (Inr path, Inr blobPath) \<Rightarrow> (case qf_write_blob fs blobPath rawPayload w of
         (Some e, w) \<Rightarrow> (Inl e, w)
       | (None, w) \<Rightarrow> (case writeQuarantinedPayloadRecord fs path r w of
           (Some e, w) \<Rightarrow> (Inl e, qf_remove fs blobPath w)
         | (None, w) \<Rightarrow> (Inr ref, w))))"

definition storeQuarantinedPayload :: "('io, 'f) server_env \<Rightarrow> 'w quarantine_fs \<Rightarrow> capability_request \<Rightarrow> string \<Rightarrow>
    ('f, 'w) server \<Rightarrow> string result \<times> ('f, 'w) server" where
  "storeQuarantinedPayload env fs request rawPayload s0 = (case randomHex env 16 s0 of
     (Inl e, s) \<Rightarrow> (Inl (''generate quarantine id: '' @ e), s)
   | (Inr quarantineID, s) \<Rightarrow> (let (nowUTC, s) = server_now env s;
       r = \<lparr>SchemaVersion = ''loopgate.quarantine.v1'', QuarantineID = quarantineID, StoredAtUTC = rfc3339nano nowUTC,
         StorageState = ''blob_present'', qr_RequestID = RequestID request, qr_Capability = Capability request,
         NormalizedArgHash = normalizedArgumentHash (args_of request), RawPayloadSHA256 = sha256_hex rawPayload,
         RawPayloadByteLength = int (length rawPayload), BlobPrunedAtUTC = []\<rparr>;
       (stored, w) = store_payload fs r rawPayload (srv_world s)
     in (stored, s\<lparr>srv_world := w\<rparr>)))"

end
