(* ===== verification/ApprovalFlow.thy ===== *)
theory ApprovalFlow
  imports Results
begin

text \<open>
  internal/loopgate/approval_flow.go, pending_approval_integrity.go and the cancellation of
  control_session_recovery.go: the approval token, the metadata and audit data of an approval, and the
  decisions on it. Functions whose name ends in Locked run with mu held and may call the audit log,
  which locks mu itself when the event carries no tenancy.
\<close>

section \<open>What approvals need from the rest of the server\<close>

text \<open>
  \<open>unicode_lower\<close> is strings.ToLower off ASCII; \<open>mount_fs\<close> the file system as ExplainSafePath sees it;
  \<open>configured\<close> the names of configured capabilities; \<open>host_plan_fields\<close> what
  hostPlanApplyApprovalOperatorFields says of a plan.
\<close>

record approval_env =
  unicode_lower :: "string \<Rightarrow> string"
  mount_fs :: path_env
  configured :: "string \<Rightarrow> bool"
  host_plan_fields :: "string \<Rightarrow> gdata"

section \<open>The approval token\<close>

definition session_options :: "control_session \<Rightarrow> peer_identity \<Rightarrow> auth_denied_audit_options" where
  "session_options session peer = \<lparr>authKind = ''approval_token'', ao_controlSessionID = cs_ID session,
     ao_actorLabel = cs_ActorLabel session, ao_clientSessionLabel = cs_ClientSessionLabel session,
     ao_tenantID = cs_TenantID session, ao_userID = cs_UserID session, requestPeer = Some peer\<rparr>"

text \<open>The critical section of authenticateApproval.\<close>

definition look_up_approval_token :: "('io, 'f) server_env \<Rightarrow> string \<Rightarrow> peer_identity \<Rightarrow> ('f, 'w) server \<Rightarrow>
    ((capability_response \<times> auth_denied_audit_options) + control_session) \<times> ('f, 'w) server" where
  "look_up_approval_token env approvalToken peer s0 = (let
     h = TokenHash approvalToken; s = pruneExpiredLocked env s0;
     invalid = denied [] ''invalid approval token'' ''approval_token_invalid'' in
     case map_of (tokenIndex s) h of
       None \<Rightarrow> (Inl (invalid, auth_kind ''approval_token'' (Some peer)), s)
     | Some sid \<Rightarrow> (case map_of (sessions s) sid of
         None \<Rightarrow> (Inl (invalid, (auth_kind ''approval_token'' (Some peer))\<lparr>ao_controlSessionID := sid\<rparr>),
                  s\<lparr>tokenIndex := mdel h (tokenIndex s)\<rparr>)
       | Some session \<Rightarrow>
           if ApprovalToken session \<noteq> approvalToken then (Inl (invalid, session_options session peer), s)
           else (let (nowUTC, s) = server_now env s in
             if nowUTC > cs_ExpiresAt session
             then (Inl (denied [] ''expired approval token'' ''approval_token_expired'', session_options session peer),
                   s\<lparr>sessions := mdel sid (sessions s), tokenIndex := mdel h (tokenIndex s)\<rparr>)
             else if cs_PeerIdentity session \<noteq> peer
             then (Inl (denied [] ''approval token peer binding mismatch'' ''approval_token_invalid'',
                   session_options session peer), s)
             else (Inr session, s))))"

definition authenticateApproval :: "('io, 'f) server_env \<Rightarrow> http_request \<Rightarrow> ('f, 'w) server \<Rightarrow>
    ((http_reply + control_session) \<times> ('f, 'w) server) option" where
  "authenticateApproval env request s = (case Peer request of
     None \<Rightarrow> do {
       (r, s) \<leftarrow> writeAuditedAuthDenial env request
         (denied [] ''missing authenticated peer identity'' ''approval_token_invalid'')
         (auth_kind ''approval_token'' None) s;
       Some (Inl r, s) }
   | Some peer \<Rightarrow> (let approvalToken = trim_space (hdr_ApprovalToken request) in
      if approvalToken = [] then do {
        (r, s) \<leftarrow> writeAuditedAuthDenial env request
          (denied [] ''missing approval token'' ''approval_token_missing'') (auth_kind ''approval_token'' (Some peer)) s;
        Some (Inl r, s) }
      else do {
        (found, s) \<leftarrow> with_mu (\<lambda>s. Some (look_up_approval_token env approvalToken peer s)) s;
        (case found of
           Inr session \<Rightarrow> Some (Inr session, s)
         | Inl (denial, opts) \<Rightarrow> do {
             (r, s) \<leftarrow> writeAuditedAuthDenial env request denial opts s;
             Some (Inl r, s) }) }))"

section \<open>Metadata and audit data\<close>

definition metadata_string :: "gdata \<Rightarrow> string \<Rightarrow> string" where
  "metadata_string m k = as_string (map_of m k)"

definition put_all :: "gdata \<Rightarrow> gdata \<Rightarrow> gdata" where
  "put_all src m = fold (\<lambda>(k, v) m. mput k v m) src m"

definition argument_metadata :: "approval_env \<Rightarrow> (string, string) gomap \<Rightarrow> gdata" where
  "argument_metadata ae args = map (\<lambda>(k, v). (''arg_'' @ k, v))
     (mfilter (\<lambda>k _. k \<noteq> ''path'' \<and> k \<noteq> ''content'') (RedactStringMap (unicode_lower ae) args))"

definition approvalMetadata :: "('io, 'f) server_env \<Rightarrow> approval_env \<Rightarrow> string \<Rightarrow> capability_request \<Rightarrow>
    ('f, 'w) server \<Rightarrow> (gdata \<times> ('f, 'w) server) option" where
  "approvalMetadata env ae controlSessionID request s = (let
     args = args_of request;
     class = approvalClassForCapability (configured ae) (Capability request);
     pathValue = (case map_of args ''path'' of None \<Rightarrow> [] | Some p \<Rightarrow> trim_space p);
     m0 = [(''capability'', GString (Capability request))];
     m1 = (if class = [] then m0 else mput ''approval_class'' (GString class) m0);
     m2 = (if pathValue = [] then m1 else mput ''path'' (GString pathValue) m1);
     m3 = (case map_of args ''content'' of None \<Rightarrow> m2 | Some c \<Rightarrow> mput ''content_bytes'' (GInt (int (length c))) m2);
     m4 = put_all (argument_metadata ae args) m3
   in do {
     (grant, s) \<leftarrow> operatorMountWriteGrantForRequest env (mount_fs ae) controlSessionID request s;
     let m5 = (case grant of Inl _ \<Rightarrow> m4
       | Inr (root, _) \<Rightarrow> if blank root then m4
           else mput ''grant_ttl_seconds'' (GInt (operatorMountWriteGrantTTL div nano_second))
             (mput ''grant_root'' (GString root) m4));
     let m6 = (if Capability request = ''host.plan.apply''
       then put_all (host_plan_fields ae (case map_of args ''plan_id'' of None \<Rightarrow> [] | Some p \<Rightarrow> p)) m5 else m5);
     Some (m6, s) })"

definition approvalReasonForCapability :: "check_result \<Rightarrow> gdata \<Rightarrow> capability_request \<Rightarrow> string" where
  "approvalReasonForCapability policyDecision metadata request = (let root = trim_space (metadata_string metadata ''grant_root'') in
     if root = [] then cr_Reason policyDecision
     else if Capability request \<in> set [''operator_mount.fs_write'', ''operator_mount.fs_mkdir'']
     then ''Grant write access to '' @ root @ '' for 8h0m0s''
     else cr_Reason policyDecision)"

text \<open>A metadata field copied into audit data; the field of a missing key is nil.\<close>

definition meta_value :: "gdata \<Rightarrow> string \<Rightarrow> gval" where
  "meta_value m k = (case map_of m k of None \<Rightarrow> GNil | Some v \<Rightarrow> v)"

definition buildApprovalGrantedAuditData :: "string \<Rightarrow> pending_approval \<Rightarrow> string \<Rightarrow> gdata" where
  "buildApprovalGrantedAuditData approvalID a decisionReason = (let
     d0 = [(''approval_request_id'', GString approvalID), (''capability'', GString (Capability (pa_Request a))),
       (''approval_class'', meta_value (pa_Metadata a) ''approval_class''), (''approval_state'', GString StateConsumed),
       (''control_session_id'', GString (pa_ControlSessionID a)),
       (''actor_label'', GString (ec_ActorLabel (pa_ExecutionContext a))),
       (''client_session_label'', GString (ec_ClientSessionLabel (pa_ExecutionContext a)))];
     d1 = put_unless_blank ''approval_class'' (metadata_string (pa_Metadata a) ''approval_class'') d0;
     d2 = put_unless_blank ''grant_root'' (metadata_string (pa_Metadata a) ''grant_root'') d1;
     d3 = (case map_of (pa_Metadata a) ''grant_ttl_seconds'' of None \<Rightarrow> d2 | Some v \<Rightarrow> mput ''grant_ttl_seconds'' v d2)
   in if blank decisionReason then d3
      else mput ''operator_reason'' (GString (RedactText (trim_space decisionReason))) d3)"

definition buildApprovalOperatorDeniedAuditData :: "string \<Rightarrow> pending_approval \<Rightarrow> string \<Rightarrow> gdata" where
  "buildApprovalOperatorDeniedAuditData approvalID a decisionReason = (let
     d0 = [(''approval_request_id'', GString approvalID), (''capability'', GString (Capability (pa_Request a))),
       (''approval_class'', meta_value (pa_Metadata a) ''approval_class''), (''approval_state'', GString StateDenied),
       (''control_session_id'', GString (pa_ControlSessionID a)),
       (''actor_label'', GString (ec_ActorLabel (pa_ExecutionContext a))),
       (''client_session_label'', GString (ec_ClientSessionLabel (pa_ExecutionContext a)))];
     d1 = put_unless_blank ''approval_class'' (metadata_string (pa_Metadata a) ''approval_class'') d0
   in if blank decisionReason then d1
      else mput ''operator_reason'' (GString (RedactText (trim_space decisionReason))) d1)"

definition decision_denial_code :: "decision_code \<Rightarrow> string" where
  "decision_denial_code c = (case c of
     NotFound \<Rightarrow> ''approval_request_not_found'' | OwnerMismatch \<Rightarrow> ''approval_owner_mismatch''
   | StateConflict \<Rightarrow> ''approval_state_conflict'' | StateInvalid \<Rightarrow> ''approval_state_invalid''
   | NonceMissing \<Rightarrow> ''approval_decision_nonce_missing'' | NonceInvalid \<Rightarrow> ''approval_decision_nonce_invalid''
   | ManifestInvalid \<Rightarrow> ''approval_manifest_mismatch'')"

definition approvalDecisionValidationResponse :: "string \<Rightarrow> pending_approval \<Rightarrow> decision_code \<times> string \<Rightarrow>
    capability_response" where
  "approvalDecisionValidationResponse approvalID a e =
     (denied (if fst e = NotFound then approvalID else RequestID (pa_Request a)) (snd e) (decision_denial_code (fst e)))
       \<lparr>ApprovalRequestID := approvalID\<rparr>"

section \<open>Decisions\<close>

text \<open>The response about an approval; the zero values of Go where a record is missing.\<close>

definition about_approval :: "string \<Rightarrow> capability_response \<Rightarrow> capability_response" where
  "about_approval approvalID r = r\<lparr>ApprovalRequestID := approvalID\<rparr>"

definition no_session :: control_session where
  "no_session = \<lparr>cs_ID = [], cs_ActorLabel = [], cs_ClientSessionLabel = [], cs_WorkspaceID = [],
     OperatorMountPaths = [], PrimaryOperatorMountPath = [], OperatorMountWriteGrants = [],
     RequestedCapabilities = [], ApprovalToken = [], ApprovalTokenID = [], SessionMACKey = [],
     cs_PeerIdentity = \<lparr>UID = 0, PID = 0, EPID = 0\<rparr>, cs_TenantID = [], cs_UserID = [], cs_ExpiresAt = 0, cs_CreatedAt = 0\<rparr>"

definition no_approval :: pending_approval where
  "no_approval = \<lparr>pa_ID = [], pa_Request = \<lparr>RequestID = [], SessionID = [], Actor = [], Capability = [], Arguments = None,
       CorrelationID = [], EchoedNativeToolName = [], EchoedNativeToolNameSnake = [], EchoedNativeToolNameCamel = [],
       EchoedNativeToolUseID = [], EchoedNativeToolUseIDSnake = [], EchoedNativeToolCallID = [],
       EchoedNativeToolCallIDAlt = []\<rparr>, pa_CreatedAt = 0, pa_ExpiresAt = 0, pa_Metadata = [],
     pa_Reason = [], pa_ControlSessionID = [], pa_DecisionNonce = [], pa_DecisionSubmittedAt = 0, pa_ExecutedAt = 0,
     pa_ExecutionContext = \<lparr>ec_ControlSessionID = [], ec_ActorLabel = [], ec_ClientSessionLabel = [],
       ec_AllowedCapabilities = [], ec_TenantID = [], ec_UserID = []\<rparr>, pa_State = [],
     pa_ApprovalManifestSHA256 = [], pa_ExecutionBodySHA256 = []\<rparr>"

definition state_invalid :: "string \<Rightarrow> pending_approval \<Rightarrow> capability_response" where
  "state_invalid approvalID a = about_approval approvalID
     (denied (RequestID (pa_Request a)) ''approval request is in an invalid state'' ''approval_state_invalid'')"

definition loadPendingApprovalForDecisionLocked :: "('io, 'f) server_env \<Rightarrow> string \<Rightarrow> ('f, 'w) server \<Rightarrow>
    (pending_approval \<times> capability_response option) \<times> ('f, 'w) server" where
  "loadPendingApprovalForDecisionLocked env approvalID s0 = (let s = pruneExpiredLocked env s0 in
     case map_of (records s) approvalID of
       None \<Rightarrow> ((no_approval, Some (denied approvalID ''approval request not found'' ''approval_request_not_found'')), s)
     | Some a \<Rightarrow> (let (nowUTC, s) = server_now env s in
         if pa_ExpiresAt a < nowUTC then
           (case setApprovalStateLocked (records s) approvalID a StateExpired of
              (m, Inl _) \<Rightarrow> ((a, Some (state_invalid approvalID a)), s\<lparr>records := m\<rparr>)
            | (m, Inr a') \<Rightarrow> ((a', Some (about_approval approvalID
                (denied (RequestID (pa_Request a)) ''approval request expired'' ''approval_denied''))), s\<lparr>records := m\<rparr>))
         else (case BackfillPendingApprovalManifest (records s) approvalID a of
             (m, a') \<Rightarrow> ((a', None), s\<lparr>records := m\<rparr>))))"

text \<open>The checks of a decision of an actor.\<close>

definition validate_decision_locked :: "('io, 'f) server_env \<Rightarrow> decision_actor \<Rightarrow> string \<Rightarrow>
    approval_decision_request \<Rightarrow> ('f, 'w) server \<Rightarrow> (pending_approval \<times> capability_response option) \<times> ('f, 'w) server" where
  "validate_decision_locked env actor approvalID decisionRequest s0 =
    (case loadPendingApprovalForDecisionLocked env approvalID s0 of
       ((a, Some r), s) \<Rightarrow> ((a, Some r), s)
     | ((a, None), s) \<Rightarrow> ((a, map_option (approvalDecisionValidationResponse approvalID a)
         (ValidateDecisionRequest a decisionRequest actor)), s))"

definition session_actor :: "control_session \<Rightarrow> decision_actor" where
  "session_actor session = \<lparr>da_ControlSessionID = cs_ID session, da_TenantID = [], da_Operator = False\<rparr>"

definition operator_actor :: "control_session \<Rightarrow> decision_actor" where
  "operator_actor session = \<lparr>da_ControlSessionID = [], da_TenantID = cs_TenantID session, da_Operator = True\<rparr>"

definition validatePendingApprovalDecision :: "('io, 'f) server_env \<Rightarrow> control_session \<Rightarrow> string \<Rightarrow>
    approval_decision_request \<Rightarrow> ('f, 'w) server \<Rightarrow> ((pending_approval \<times> capability_response option) \<times> ('f, 'w) server) option" where
  "validatePendingApprovalDecision env session approvalID decisionRequest =
     with_mu (\<lambda>s. Some (validate_decision_locked env (session_actor session) approvalID decisionRequest s))"

definition validatePendingApprovalDecisionForOperator :: "('io, 'f) server_env \<Rightarrow> control_session \<Rightarrow> string \<Rightarrow>
    approval_decision_request \<Rightarrow> ('f, 'w) server \<Rightarrow> ((pending_approval \<times> capability_response option) \<times> ('f, 'w) server) option" where
  "validatePendingApprovalDecisionForOperator env session approvalID decisionRequest =
     with_mu (\<lambda>s. Some (validate_decision_locked env (operator_actor session) approvalID decisionRequest s))"

section \<open>Recording a decision\<close>

text \<open>The end of an accepted decision: the new state, the time, and no nonce any more.\<close>

definition settle_approval :: "('io, 'f) server_env \<Rightarrow> string \<Rightarrow> pending_approval \<Rightarrow> string \<Rightarrow> ('f, 'w) server \<Rightarrow>
    (transition_error + pending_approval) \<times> ('f, 'w) server" where
  "settle_approval env approvalID a nextState s = (case setApprovalStateLocked (records s) approvalID a nextState of
     (m, Inl e) \<Rightarrow> (Inl e, s\<lparr>records := m\<rparr>)
   | (m, Inr a') \<Rightarrow> (let (nowUTC, s) = server_now env (s\<lparr>records := m\<rparr>);
         a'' = a'\<lparr>pa_DecisionSubmittedAt := nowUTC, pa_DecisionNonce := []\<rparr>
       in (Inr a'', s\<lparr>records := mput approvalID a'' (records s)\<rparr>)))"

datatype commit_error = GrantNotFound | GrantNotPending | GrantNonceMismatch | GrantAudit ledger_error
  | GrantTransition transition_error

definition grant_refused :: "string \<Rightarrow> string \<Rightarrow> ('f, 'w) server \<Rightarrow> commit_error + pending_approval" where
  "grant_refused approvalID expectedDecisionNonce s = (case map_of (records s) approvalID of
     None \<Rightarrow> Inl GrantNotFound
   | Some a \<Rightarrow> if pa_State a \<noteq> StatePending then Inl GrantNotPending
       else if expectedDecisionNonce = [] \<or> pa_DecisionNonce a \<noteq> expectedDecisionNonce then Inl GrantNonceMismatch
       else Inr a)"

definition grant_audit_data :: "string \<Rightarrow> pending_approval \<Rightarrow> string \<Rightarrow> ('f, 'w) server \<Rightarrow> gdata" where
  "grant_audit_data approvalID a decisionReason s = (let d = buildApprovalGrantedAuditData approvalID a decisionReason in
     case map_of (sessions s) (pa_ControlSessionID a) of
       None \<Rightarrow> d | Some session \<Rightarrow> mergeAuditTenancyFromControlSession d session)"

definition add_write_grant :: "string \<Rightarrow> string \<Rightarrow> gotime \<Rightarrow> ('f, 'w) server \<Rightarrow> ('f, 'w) server" where
  "add_write_grant controlSessionID root expiresAt s = (let
     session = (case map_of (sessions s) controlSessionID of None \<Rightarrow> no_session | Some x \<Rightarrow> x)
   in s\<lparr>sessions := mput controlSessionID (session\<lparr>OperatorMountWriteGrants :=
        mput root expiresAt (OperatorMountWriteGrants session)\<rparr>) (sessions s)\<rparr>)"

definition grant_event_data :: "pending_approval \<Rightarrow> string \<Rightarrow> gotime \<Rightarrow> gdata \<Rightarrow> gdata" where
  "grant_event_data a root grantExpiresAt d =
     (if root = [] then d else mput ''grant_expires_at_utc'' (GString (rfc3339nano grantExpiresAt)) d)"

definition finish_grant :: "('io, 'f) server_env \<Rightarrow> string \<Rightarrow> pending_approval \<Rightarrow> string \<Rightarrow> gotime \<Rightarrow>
    ledger_error + string \<Rightarrow> ('f, 'w) server \<Rightarrow> (commit_error + string) \<times> ('f, 'w) server" where
  "finish_grant env approvalID a root grantExpiresAt logged s = (case logged of
     Inl e \<Rightarrow> (Inl (GrantAudit e), s)
   | Inr auditEventHash \<Rightarrow> (let
       s1 = (if root = [] then s else add_write_grant (pa_ControlSessionID a) root grantExpiresAt s)
     in case settle_approval env approvalID a StateConsumed s1 of
          (Inl e, s2) \<Rightarrow> (Inl (GrantTransition e), s2)
        | (Inr _, s2) \<Rightarrow> (Inr auditEventHash, s2)))"

definition commit_grant :: "('io, 'f) server_env \<Rightarrow> string \<Rightarrow> pending_approval \<Rightarrow> string \<Rightarrow> ('f, 'w) server \<Rightarrow>
    ((commit_error + string) \<times> ('f, 'w) server) option" where
  "commit_grant env approvalID a decisionReason s = (let
     root = trim_space (metadata_string (pa_Metadata a) ''grant_root'');
     (nowUTC, s1) = (if root = [] then (0, s) else server_now env s);
     grantExpiresAt = nowUTC + operatorMountWriteGrantTTL
   in do {
     (logged, s2) \<leftarrow> logEventWithHash env ''approval.granted'' (pa_ControlSessionID a)
       (grant_event_data a root grantExpiresAt (grant_audit_data approvalID a decisionReason s)) s1;
     Some (finish_grant env approvalID a root grantExpiresAt logged s2) })"

definition commitApprovalGrantConsumed :: "('io, 'f) server_env \<Rightarrow> string \<Rightarrow> string \<Rightarrow> string \<Rightarrow> ('f, 'w) server \<Rightarrow>
    ((commit_error + string) \<times> ('f, 'w) server) option" where
  "commitApprovalGrantConsumed env approvalID expectedDecisionNonce decisionReason = with_mu (\<lambda>s.
     case grant_refused approvalID (trim_space expectedDecisionNonce) s of
       Inl e \<Rightarrow> Some (Inl e, s)
     | Inr a \<Rightarrow> commit_grant env approvalID a decisionReason s)"

definition recordPendingApprovalDecisionLocked :: "('io, 'f) server_env \<Rightarrow> control_session \<Rightarrow> string \<Rightarrow>
    pending_approval \<Rightarrow> approval_decision_request \<Rightarrow> ('f, 'w) server \<Rightarrow>
    ((pending_approval \<times> (capability_response + string)) \<times> ('f, 'w) server) option" where
  "recordPendingApprovalDecisionLocked env session approvalID a decisionRequest s = (let
     (eventType, auditData, nextState) = (if Approved decisionRequest
       then (''approval.granted'', buildApprovalGrantedAuditData approvalID a (DecisionReason decisionRequest), StateConsumed)
       else (''approval.denied'', buildApprovalOperatorDeniedAuditData approvalID a (DecisionReason decisionRequest), StateDenied))
   in do {
     (logged, s) \<leftarrow> logEventWithHash env eventType (pa_ControlSessionID a)
       (mergeAuditTenancyFromControlSession auditData session) s;
     (case logged of
        Inl _ \<Rightarrow> Some ((a, Inl (about_approval approvalID
          (auditUnavailableCapabilityResponse (RequestID (pa_Request a))))), s)
      | Inr auditEventHash \<Rightarrow> (case settle_approval env approvalID a nextState s of
           (Inl _, s) \<Rightarrow> Some ((a, Inl (state_invalid approvalID a)), s)
         | (Inr a', s) \<Rightarrow> Some ((a', Inr auditEventHash), s))) })"

definition validate_and_record :: "('io, 'f) server_env \<Rightarrow> decision_actor \<Rightarrow> control_session \<Rightarrow> string \<Rightarrow>
    approval_decision_request \<Rightarrow> ('f, 'w) server \<Rightarrow>
    ((pending_approval \<times> (capability_response + string)) \<times> ('f, 'w) server) option" where
  "validate_and_record env actor session approvalID decisionRequest = with_mu (\<lambda>s.
     case validate_decision_locked env actor approvalID decisionRequest s of
       ((a, Some r), s) \<Rightarrow> Some ((a, Inl r), s)
     | ((a, None), s) \<Rightarrow> recordPendingApprovalDecisionLocked env session approvalID a decisionRequest s)"

definition validateAndRecordApprovalDecision :: "('io, 'f) server_env \<Rightarrow> control_session \<Rightarrow> string \<Rightarrow>
    approval_decision_request \<Rightarrow> ('f, 'w) server \<Rightarrow>
    ((pending_approval \<times> (capability_response + string)) \<times> ('f, 'w) server) option" where
  "validateAndRecordApprovalDecision env session = validate_and_record env (session_actor session) session"

definition validateAndRecordOperatorApprovalDecision :: "('io, 'f) server_env \<Rightarrow> control_session \<Rightarrow> string \<Rightarrow>
    approval_decision_request \<Rightarrow> ('f, 'w) server \<Rightarrow>
    ((pending_approval \<times> (capability_response + string)) \<times> ('f, 'w) server) option" where
  "validateAndRecordOperatorApprovalDecision env session = validate_and_record env (operator_actor session) session"

section \<open>Executing an approved request\<close>

definition approved_token :: "string \<Rightarrow> pending_approval \<Rightarrow> control_session \<Rightarrow> capability_token" where
  "approved_token approvalID a owner = \<lparr>TokenID = ''approved:'' @ approvalID, Token = [],
     ct_ControlSessionID = ec_ControlSessionID (pa_ExecutionContext a),
     ct_ActorLabel = ec_ActorLabel (pa_ExecutionContext a),
     ct_ClientSessionLabel = ec_ClientSessionLabel (pa_ExecutionContext a),
     ct_AllowedCapabilities = copyCapabilitySet (ec_AllowedCapabilities (pa_ExecutionContext a)),
     ct_PeerIdentity = cs_PeerIdentity owner, ct_TenantID = cs_TenantID owner, ct_UserID = cs_UserID owner,
     ct_ExpiresAt = cs_ExpiresAt owner, SingleUse = True, ApprovedExecution = True,
     BoundCapability = Capability (pa_Request a), BoundArgumentHash = normalizedArgumentHash (args_of (pa_Request a)),
     ParentTokenID = []\<rparr>"

definition approvedExecutionTokenForPendingApproval :: "('io, 'f) server_env \<Rightarrow> string \<Rightarrow> pending_approval \<Rightarrow>
    ('f, 'w) server \<Rightarrow> ((capability_response + capability_token) \<times> ('f, 'w) server) option" where
  "approvedExecutionTokenForPendingApproval env approvalID a = with_mu (\<lambda>s0. let s = pruneExpiredLocked env s0 in
     Some (case map_of (sessions s) (ec_ControlSessionID (pa_ExecutionContext a)) of
       None \<Rightarrow> Inl (about_approval approvalID (denied (RequestID (pa_Request a))
         ''approval owner session is no longer active'' ''approval_state_invalid''))
     | Some owner \<Rightarrow> Inr (approved_token approvalID a owner), s))"

definition verifyPendingApprovalStoredExecutionBody :: "pending_approval \<Rightarrow> capability_response option" where
  "verifyPendingApprovalStoredExecutionBody a =
    (if blank (pa_ExecutionBodySHA256 a) then None
     else case approvalRequestBodySHA256 (\<lambda>r. Inr (MarshalJSON r)) (pa_Request a) of
       Inl _ \<Rightarrow> Some (failed (RequestID (pa_Request a)) ''control-plane approval execution body check failed''
         ''capability_execution_failed'')
     | Inr current \<Rightarrow> if current \<noteq> pa_ExecutionBodySHA256 a
         then Some (failed (RequestID (pa_Request a)) ''stored approval request does not match execution body hash''
           ''approval_execution_body_mismatch'')
         else None)"

definition decision_denial_audit_data :: "control_session \<Rightarrow> string \<Rightarrow> pending_approval \<Rightarrow> capability_response \<Rightarrow> gdata" where
  "decision_denial_audit_data session approvalID a denial = put_unless_blank ''approval_class''
     (metadata_string (pa_Metadata a) ''approval_class'')
     [(''approval_request_id'', GString approvalID), (''approval_class'', meta_value (pa_Metadata a) ''approval_class''),
      (''reason'', GString (RedactText (DenialReason denial))), (''denial_code'', GString (DenialCode denial)),
      (''control_session_id'', GString (cs_ID session)), (''actor_label'', GString (cs_ActorLabel session)),
      (''client_session_label'', GString (cs_ClientSessionLabel session))]"

definition auditApprovalDecisionDenial :: "('io, 'f) server_env \<Rightarrow> control_session \<Rightarrow> string \<Rightarrow> pending_approval \<Rightarrow>
    capability_response \<Rightarrow> ('f, 'w) server \<Rightarrow> (ledger_error option \<times> ('f, 'w) server) option" where
  "auditApprovalDecisionDenial env session approvalID a denial s =
    (if blank (DenialCode denial) \<or> DenialCode denial = ''audit_unavailable'' then Some (None, s)
     else logEvent env ''approval.denied'' (cs_ID session) (decision_denial_audit_data session approvalID a denial) s)"

definition writePendingApprovalExecutionIntegrityDenial :: "('io, 'f) server_env \<Rightarrow> control_session \<Rightarrow> string \<Rightarrow>
    pending_approval \<Rightarrow> capability_response \<Rightarrow> ('f, 'w) server \<Rightarrow> (http_reply \<times> ('f, 'w) server) option" where
  "writePendingApprovalExecutionIntegrityDenial env session approvalID a denial s = do {
     (e, s) \<leftarrow> logEvent env ''approval.denied'' (cs_ID session) (decision_denial_audit_data session approvalID a denial) s;
     Some (if e \<noteq> None then JSONReply 503 (about_approval approvalID (auditUnavailableCapabilityResponse (rsp_RequestID denial)))
       else JSONReply (httpStatusForResponse denial) denial, s) }"

definition markApprovalExecutionResult :: "('io, 'f) server_env \<Rightarrow> string \<Rightarrow> string \<Rightarrow> ('f, 'w) server \<Rightarrow>
    (unit \<times> ('f, 'w) server) option" where
  "markApprovalExecutionResult env approvalID executionStatus = with_mu (\<lambda>s. Some ((),
     case map_of (records s) approvalID of
       None \<Rightarrow> s
     | Some a0 \<Rightarrow> (let
         (m, a) = (if executionStatus = ResponseStatusSuccess then (records s, a0)
           else case setApprovalStateLocked (records s) approvalID a0 StateExecutionFailed of
             (m, Inl _) \<Rightarrow> (m, a0) | (m, Inr a') \<Rightarrow> (m, a'));
         (nowUTC, s) = server_now env s
       in s\<lparr>records := mput approvalID (a\<lparr>pa_ExecutedAt := nowUTC\<rparr>) m\<rparr>)))"

definition approvalDecisionHTTPStatus :: "string \<Rightarrow> int" where
  "approvalDecisionHTTPStatus c = (if c = ''approval_request_not_found'' then 404
     else if c \<in> set [''approval_token_missing'', ''approval_token_invalid'', ''approval_token_expired''] then 401
     else 403)"

section \<open>Cancellation\<close>

definition cancelled_audit_data :: "string \<Rightarrow> pending_approval \<Rightarrow> gotime \<Rightarrow> string \<Rightarrow> gdata" where
  "cancelled_audit_data approvalID a cancelledAtUTC cancellationReason = put_unless_blank ''approval_class''
     (metadata_string (pa_Metadata a) ''approval_class'')
     [(''approval_request_id'', GString approvalID), (''capability'', GString (Capability (pa_Request a))),
      (''approval_state'', GString StateCancelled), (''control_session_id'', GString (pa_ControlSessionID a)),
      (''actor_label'', GString (ec_ActorLabel (pa_ExecutionContext a))),
      (''client_session_label'', GString (ec_ClientSessionLabel (pa_ExecutionContext a))),
      (''cancelled_at_utc'', GString (rfc3339nano cancelledAtUTC)),
      (''cancellation_reason'', GString (trim_space cancellationReason)),
      (''tenant_id'', GString (ec_TenantID (pa_ExecutionContext a))),
      (''user_id'', GString (ec_UserID (pa_ExecutionContext a)))]"

datatype cancel_error = CancelTransition transition_error | CancelAudit ledger_error

definition cancel_locked :: "('io, 'f) server_env \<Rightarrow> string \<Rightarrow> string \<Rightarrow> gotime \<Rightarrow> ('f, 'w) server \<Rightarrow>
    (cancel_error option \<times> ('f, 'w) server) option" where
  "cancel_locked env approvalID cancellationReason cancelledAtUTC s = (case map_of (records s) approvalID of
     None \<Rightarrow> Some (None, s)
   | Some a \<Rightarrow> if pa_State a \<noteq> StatePending then Some (None, s)
       else (case setApprovalStateLocked (records s) approvalID a StateCancelled of
           (m, Inl e) \<Rightarrow> Some (Some (CancelTransition e), s\<lparr>records := m\<rparr>)
         | (m, Inr a') \<Rightarrow> do {
             (e, s) \<leftarrow> logEvent env ''approval.cancelled'' (pa_ControlSessionID a')
               (cancelled_audit_data approvalID a' cancelledAtUTC cancellationReason) (s\<lparr>records := m\<rparr>);
             (case e of
                None \<Rightarrow> Some (None, s)
              | Some e \<Rightarrow> Some (Some (CancelAudit e),
                  (case map_of (records s) approvalID of
                     Some c \<Rightarrow> if pa_State c = StateCancelled then s\<lparr>records := mput approvalID a (records s)\<rparr> else s
                   | None \<Rightarrow> s))) }))"

definition cancelPendingApproval :: "('io, 'f) server_env \<Rightarrow> string \<Rightarrow> string \<Rightarrow> ('f, 'w) server \<Rightarrow>
    (cancel_error option \<times> ('f, 'w) server) option" where
  "cancelPendingApproval env approvalID cancellationReason s = (let (cancelledAtUTC, s) = server_now env s in
     with_mu (cancel_locked env approvalID cancellationReason cancelledAtUTC) s)"

fun cancel_each :: "('io, 'f) server_env \<Rightarrow> string \<Rightarrow> string list \<Rightarrow> ('f, 'w) server \<Rightarrow>
    (cancel_error option \<times> ('f, 'w) server) option" where
  "cancel_each env reason [] s = Some (None, s)"
| "cancel_each env reason (a # ids) s = do {
     (e, s) \<leftarrow> cancelPendingApproval env a reason s;
     (case e of Some _ \<Rightarrow> Some (e, s) | None \<Rightarrow> cancel_each env reason ids s) }"

text \<open>The ids of the stored records, not the keys of the table.\<close>

definition cancelPendingApprovalsForControlSession :: "('io, 'f) server_env \<Rightarrow> string \<Rightarrow> string \<Rightarrow>
    ('f, 'w) server \<Rightarrow> (cancel_error option \<times> ('f, 'w) server) option" where
  "cancelPendingApprovalsForControlSession env controlSessionID cancellationReason s = do {
     (ids, s) \<leftarrow> with_mu (\<lambda>s. Some (map (\<lambda>(_, a). pa_ID a)
       (mfilter (\<lambda>_ a. pa_ControlSessionID a = controlSessionID \<and> pa_State a = StatePending) (records s)), s)) s;
     cancel_each env cancellationReason (sort_strings ids) s }"

end
