(* ===== verification/CapabilityExecution.thy ===== *)
theory CapabilityExecution
  imports ApprovalFlow
begin

text \<open>
  internal/loopgate/server_capability_execution.go and capability_execution_backpressure.go: the life
  of a capability request, from replay protection over the policy decision and the approval to the
  tool and its audited result. Events for the UI are not modelled. An early response of the code is
  Inl; the goroutine that blocks is None.
\<close>

section \<open>What execution needs from the rest of the server\<close>

text \<open>
  The policy snapshot (policy, registry); \<open>low_risk_plan\<close> is isLowRiskHostPlanApply; \<open>direct\<close> executes the
  four host capabilities; \<open>configured_result\<close> builds the result of a configured capability and
  \<open>provenance\<close> its metadata; \<open>error_class\<close> is LoopgateOperatorErrorClass.
\<close>

record ('f, 'w) exec_env =
  approvals_env :: approval_env
  policy_snapshot :: policy
  registry_snapshot :: "'w registry"
  low_risk_plan :: "string \<Rightarrow> string \<Rightarrow> ('f, 'w) server \<Rightarrow> bool"
  direct :: "capability_token \<Rightarrow> capability_request \<Rightarrow> ('f, 'w) server \<Rightarrow> (capability_response \<times> ('f, 'w) server) option"
  configured_result :: "capability_request \<Rightarrow> string \<Rightarrow> string \<Rightarrow> built_result result"
  provenance :: "string \<Rightarrow> string \<Rightarrow> gdata"
  error_class :: "string \<Rightarrow> string"
  quarantine :: "'w quarantine_fs"

definition is_configured :: "('f, 'w) exec_env \<Rightarrow> string \<Rightarrow> bool" where
  "is_configured xe = configured (approvals_env xe)"

section \<open>Slots\<close>

definition tryAcquireCapabilityExecutionSlot :: "('io, 'f) server_env \<Rightarrow> ('f, 'w) server \<Rightarrow> bool \<times> ('f, 'w) server" where
  "tryAcquireCapabilityExecutionSlot env s = (case maxInFlightCapabilityExecutions env of
     None \<Rightarrow> (True, s)
   | Some m \<Rightarrow> if executionSlotsInUse s < m then (True, s\<lparr>executionSlotsInUse := executionSlotsInUse s + 1\<rparr>)
       else (False, s))"

definition releaseCapabilityExecutionSlot :: "('io, 'f) server_env \<Rightarrow> ('f, 'w) server \<Rightarrow> ('f, 'w) server" where
  "releaseCapabilityExecutionSlot env s = (case maxInFlightCapabilityExecutions env of
     None \<Rightarrow> s | Some _ \<Rightarrow> s\<lparr>executionSlotsInUse := executionSlotsInUse s - 1\<rparr>)"

definition capabilityExecutionSaturatedResponse :: "string \<Rightarrow> capability_response" where
  "capabilityExecutionSaturatedResponse requestID = (denied requestID
     ''control plane is saturated: capability execution concurrency limit reached; retry after in-flight operations complete''
     ''control_plane_state_saturated'')\<lparr>rsp_Metadata :=
       [(''overload_scope'', GString ''capability_execution''), (''retryable'', GBool True)]\<rparr>"

section \<open>Audited denials\<close>

text \<open>The fields every event of a capability carries, and a denial that is audited before it is returned.\<close>

definition capability_event :: "capability_token \<Rightarrow> capability_request \<Rightarrow> gdata \<Rightarrow> gdata" where
  "capability_event claims request extra =
     [(''request_id'', GString (RequestID request)), (''capability'', GString (Capability request)),
      (''actor_label'', GString (ct_ActorLabel claims)), (''client_session_label'', GString (ct_ClientSessionLabel claims)),
      (''control_session_id'', GString (ct_ControlSessionID claims))] @ extra"

definition token_fields :: "capability_token \<Rightarrow> gdata" where
  "token_fields claims = [(''token_id'', GString (TokenID claims)), (''parent_token_id'', GString (ParentTokenID claims))]"

definition denial_fields :: "string \<Rightarrow> string \<Rightarrow> gdata" where
  "denial_fields reason code = [(''reason'', GString reason), (''denial_code'', GString code)]"

definition audited_reply :: "('io, 'f) server_env \<Rightarrow> string \<Rightarrow> capability_token \<Rightarrow> capability_request \<Rightarrow> gdata \<Rightarrow>
    capability_response \<Rightarrow> ('f, 'w) server \<Rightarrow> (capability_response \<times> ('f, 'w) server) option" where
  "audited_reply env eventType claims request extra reply s = do {
     (e, s) \<leftarrow> logEvent env eventType (ct_ControlSessionID claims) (capability_event claims request extra) s;
     Some (if e = None then reply else auditUnavailableCapabilityResponse (RequestID request), s) }"

definition deny_capability :: "('io, 'f) server_env \<Rightarrow> capability_token \<Rightarrow> capability_request \<Rightarrow> string \<Rightarrow> string \<Rightarrow>
    ('f, 'w) server \<Rightarrow> (capability_response \<times> ('f, 'w) server) option" where
  "deny_capability env claims request reason code =
     audited_reply env ''capability.denied'' claims request (denial_fields reason code)
       (denied (RequestID request) reason code)"

section \<open>Preparing the request\<close>

definition prepared_request :: "capability_token \<Rightarrow> capability_request \<Rightarrow> capability_request" where
  "prepared_request claims request = (normalizeCapabilityRequest (request\<lparr>Arguments := Some (args_of request)\<rparr>))
     \<lparr>Actor := ct_ActorLabel claims, SessionID := ct_ControlSessionID claims\<rparr>"

definition prepareCapabilityRequestExecution :: "('io, 'f) server_env \<Rightarrow> capability_token \<Rightarrow> capability_request \<Rightarrow> bool \<Rightarrow>
    ('f, 'w) server \<Rightarrow> ((capability_response + capability_request) \<times> ('f, 'w) server) option" where
  "prepareCapabilityRequestExecution env claims request allowApprovalCreation s = (let
     (allocated, s) = (if blank (RequestID request) then randomHex env 8 s else (Inr [], s))
   in case allocated of
     Inl e \<Rightarrow> Some (Inl (failed [] (''allocate request_id: '' @ e) ''capability_execution_failed''), s)
   | Inr newID \<Rightarrow> (let
       identified = (if blank (RequestID request) then request\<lparr>RequestID := ''req_'' @ newID\<rparr> else request);
       req = prepared_request claims identified
     in case CapabilityRequest_Validate req of
          Some e \<Rightarrow> Some (Inl (failed (RequestID req) e ''malformed_request''), s)
        | None \<Rightarrow> if \<not> allowApprovalCreation then Some (Inr req, s)
            else do {
              (replayDenied, s) \<leftarrow> recordRequest env (ct_ControlSessionID claims) req s;
              Some (case replayDenied of Some r \<Rightarrow> Inl r | None \<Rightarrow> Inr req, s) }))"

section \<open>The tool and the decision\<close>

definition scope_denies :: "capability_token \<Rightarrow> capability_request \<Rightarrow> bool" where
  "scope_denies claims request = (ct_AllowedCapabilities claims \<noteq> [] \<and>
     Capability request \<notin> set (ct_AllowedCapabilities claims))"

definition early :: "(capability_response \<times> ('f, 'w) server) option \<Rightarrow>
    ((capability_response + 'a) \<times> ('f, 'w) server) option" where
  "early m = do { (r, s) \<leftarrow> m; Some (Inl r, s) }"

definition resolveCapabilityExecutionTool :: "('io, 'f) server_env \<Rightarrow> ('f, 'w) exec_env \<Rightarrow> capability_token \<Rightarrow>
    capability_request \<Rightarrow> ('f, 'w) server \<Rightarrow> ((capability_response + 'w tool) \<times> ('f, 'w) server) option" where
  "resolveCapabilityExecutionTool env xe claims request s = (let
     found = Registry_Get (registry_snapshot xe) (Capability request) in
     if capabilityProhibitsRawSecretExport (unicode_lower (approvals_env xe)) found (Capability request) then
       early (audited_reply env ''capability.denied'' claims request
         (denial_fields ''raw secret export is prohibited'' ''secret_export_prohibited'')
         ((denied (RequestID request) ''raw secret export is prohibited'' ''secret_export_prohibited'')\<lparr>Redacted := True\<rparr>) s)
     else if scope_denies claims request then
       early (deny_capability env claims request ''capability token scope denied requested capability''
         ''capability_token_scope_denied'' s)
     else (case found of
         None \<Rightarrow> early (deny_capability env claims request ''unknown capability'' ''unknown_capability'' s)
       | Some t \<Rightarrow> (case Schema_Validate (tool_Schema t) (args_of request) of
           Some e \<Rightarrow> early (audited_reply env ''capability.denied'' claims request
             (denial_fields (RedactText (schema_error_text e)) ''invalid_capability_arguments'')
             ((failed (RequestID request) (schema_error_text e) ''invalid_capability_arguments'')\<lparr>Redacted := True\<rparr>) s)
         | None \<Rightarrow> Some (Inr t, s))))"

definition policy_decision :: "('f, 'w) exec_env \<Rightarrow> 'w tool \<Rightarrow> capability_request \<Rightarrow> check_result" where
  "policy_decision xe t request = (let d = Check (policy_snapshot xe) (tool_info_of t) in
     if cr_Decision d = Deny then d
     else (case tool_ValidatePolicyArguments t of
         None \<Rightarrow> d
       | Some validate \<Rightarrow> (case validate (args_of request) of
           None \<Rightarrow> d | Some e \<Rightarrow> \<lparr>cr_Decision = Deny, cr_Reason = e\<rparr>)))"

definition autoAllowLowRiskHostPlanApply :: "('f, 'w) exec_env \<Rightarrow> string \<Rightarrow> capability_request \<Rightarrow> check_result \<Rightarrow>
    ('f, 'w) server \<Rightarrow> check_result \<times> bool" where
  "autoAllowLowRiskHostPlanApply xe controlSessionID request current s =
    (if cr_Decision current \<noteq> NeedsApproval \<or> trim_space (Capability request) \<noteq> ''host.plan.apply'' then (current, False)
     else if \<not> low_risk_plan xe controlSessionID (argument (args_of request) ''plan_id'') s then (current, False)
     else (\<lparr>cr_Decision = Allow,
       cr_Reason = ''bounded move-only host organization plan stays within a granted folder''\<rparr>, True))"

definition evaluateCapabilityPolicyDecision :: "('io, 'f) server_env \<Rightarrow> ('f, 'w) exec_env \<Rightarrow> 'w tool \<Rightarrow> capability_token \<Rightarrow>
    capability_request \<Rightarrow> ('f, 'w) server \<Rightarrow> ((check_result \<times> check_result \<times> bool) \<times> ('f, 'w) server) option" where
  "evaluateCapabilityPolicyDecision env xe t claims request s = (let original = policy_decision xe t request in do {
     (grant, s) \<leftarrow> operatorMountWriteGrantForRequest env (mount_fs (approvals_env xe)) (ct_ControlSessionID claims) request s;
     let granted = (case grant of
         Inr (root, Some _) \<Rightarrow> \<lparr>cr_Decision = Allow, cr_Reason = ''active operator-mounted write grant for '' @ root\<rparr>
       | _ \<Rightarrow> original);
     let (adjusted, auto) = autoAllowLowRiskHostPlanApply xe (ct_ControlSessionID claims) request granted s;
     Some ((original, adjusted, auto), s) })"

section \<open>Creating an approval\<close>

text \<open>The record that is stored, and the event that announces it.\<close>

definition new_approval :: "string \<Rightarrow> capability_token \<Rightarrow> capability_request \<Rightarrow> gotime \<Rightarrow> gotime \<Rightarrow> gdata \<Rightarrow> string \<Rightarrow>
    string \<Rightarrow> string \<times> string \<Rightarrow> pending_approval" where
  "new_approval approvalID claims request createdAt expiresAt metadata reason decisionNonce hashes =
     \<lparr>pa_ID = approvalID, pa_Request = request, pa_CreatedAt = createdAt, pa_ExpiresAt = expiresAt,
      pa_Metadata = metadata, pa_Reason = reason, pa_ControlSessionID = ct_ControlSessionID claims,
      pa_DecisionNonce = decisionNonce, pa_DecisionSubmittedAt = 0, pa_ExecutedAt = 0,
      pa_ExecutionContext = \<lparr>ec_ControlSessionID = ct_ControlSessionID claims, ec_ActorLabel = ct_ActorLabel claims,
        ec_ClientSessionLabel = ct_ClientSessionLabel claims,
        ec_AllowedCapabilities = copyCapabilitySet (ct_AllowedCapabilities claims),
        ec_TenantID = ct_TenantID claims, ec_UserID = ct_UserID claims\<rparr>,
      pa_State = StatePending, pa_ApprovalManifestSHA256 = fst hashes, pa_ExecutionBodySHA256 = snd hashes\<rparr>"

definition approval_created_data :: "string \<Rightarrow> capability_token \<Rightarrow> capability_request \<Rightarrow> gdata \<Rightarrow> string \<Rightarrow> gdata" where
  "approval_created_data approvalID claims request metadata manifestSHA256 =
     put_unless_blank ''approval_class'' (metadata_string metadata ''approval_class'')
     (capability_event claims request
      [(''approval_request_id'', GString approvalID), (''approval_class'', meta_value metadata ''approval_class''),
       (''approval_state'', GString StatePending), (''approval_manifest_sha256'', GString manifestSHA256),
       (''tenant_id'', GString (ct_TenantID claims)), (''user_id'', GString (ct_UserID claims))])"

text \<open>The critical section: the limits, the record, and its event, which takes the record back when it fails.\<close>

datatype store_outcome = StoreFull | SessionFull | StoreUnaudited | Stored

definition store_approval :: "('io, 'f) server_env \<Rightarrow> capability_token \<Rightarrow> (gotime \<Rightarrow> pending_approval) \<Rightarrow> string \<Rightarrow>
    gdata \<Rightarrow> ('f, 'w) server \<Rightarrow> (store_outcome \<times> ('f, 'w) server) option" where
  "store_approval env claims approval approvalID auditData s0 = (let s = pruneExpiredLocked env s0 in
     if int (length (records s)) \<ge> maxTotalApprovalRecords env then Some (StoreFull, s)
     else if countPendingApprovalsForSessionLocked s (ct_ControlSessionID claims) \<ge> maxPendingApprovalsPerControlSession env
     then Some (SessionFull, s)
     else (let (nowUTC, s1) = server_now env s; a = approval nowUTC;
         s2 = noteExpiryCandidateLocked env (pa_ExpiresAt a) (s1\<lparr>records := mput approvalID a (records s1)\<rparr>)
       in do {
         (e, s3) \<leftarrow> logEvent env ''approval.created'' (ct_ControlSessionID claims) auditData s2;
         Some (if e \<noteq> None then (StoreUnaudited, s3\<lparr>records := mdel approvalID (records s3)\<rparr>) else (Stored, s3)) }))"

text \<open>
  The metadata of the response and of the stored record are one map: what is added to it after the
  lock is released is in the record as well.
\<close>

definition response_metadata :: "gdata \<Rightarrow> string \<Rightarrow> gotime \<Rightarrow> string \<Rightarrow> string \<Rightarrow> gdata" where
  "response_metadata metadata reason expiresAt decisionNonce manifestSHA256 =
     mput ''approval_manifest_sha256'' (GString manifestSHA256)
     (mput ''approval_decision_nonce'' (GString decisionNonce)
     (mput ''approval_expires_at_utc'' (GString (rfc3339nano expiresAt))
     (mput ''approval_reason'' (GString reason) metadata)))"

definition share_metadata :: "string \<Rightarrow> gdata \<Rightarrow> ('f, 'w) server \<Rightarrow> ('f, 'w) server" where
  "share_metadata approvalID metadata s = (case map_of (records s) approvalID of
     None \<Rightarrow> s | Some a \<Rightarrow> s\<lparr>records := mput approvalID (a\<lparr>pa_Metadata := metadata\<rparr>) (records s)\<rparr>)"

definition pending_response :: "capability_request \<Rightarrow> string \<Rightarrow> string \<Rightarrow> gdata \<Rightarrow> capability_response" where
  "pending_response request approvalID manifestSHA256 metadata = no_response\<lparr>rsp_RequestID := RequestID request,
     Status := ResponseStatusPendingApproval, DenialCode := ''approval_required'', ApprovalRequired := True,
     ApprovalRequestID := approvalID, rsp_ApprovalManifestSHA256 := manifestSHA256, rsp_Metadata := metadata\<rparr>"

definition createCapabilityApprovalResponse :: "('io, 'f) server_env \<Rightarrow> ('f, 'w) exec_env \<Rightarrow> capability_token \<Rightarrow>
    capability_request \<Rightarrow> check_result \<Rightarrow> ('f, 'w) server \<Rightarrow> (capability_response \<times> ('f, 'w) server) option" where
  "createCapabilityApprovalResponse env xe claims request policyDecision s = (case randomHex env 8 s of
     (Inl _, s) \<Rightarrow> Some (failed (RequestID request) ''failed to create approval request'' ''approval_creation_failed'', s)
   | (Inr approvalID, s) \<Rightarrow> (case randomHex env 16 s of
     (Inl _, s) \<Rightarrow> Some (failed (RequestID request) ''failed to create approval decision nonce'' ''approval_creation_failed'', s)
   | (Inr decisionNonce, s) \<Rightarrow> do {
       (metadata, s) \<leftarrow> approvalMetadata env (approvals_env xe) (ct_ControlSessionID claims) request s;
       let reason = approvalReasonForCapability policyDecision metadata request;
       let (nowUTC, s) = server_now env s;
       let expiresAt = nowUTC + approvalTTL;
       (case BuildCapabilityApprovalManifest request (unix_millis expiresAt) of
          Inl _ \<Rightarrow> Some (failed (RequestID request) ''failed to compute approval manifest'' ''approval_creation_failed'', s)
        | Inr hashes \<Rightarrow> do {
            (outcome, s) \<leftarrow> with_mu (store_approval env claims
              (\<lambda>createdAt. new_approval approvalID claims request createdAt expiresAt metadata reason decisionNonce hashes)
              approvalID (approval_created_data approvalID claims request metadata (fst hashes))) s;
            (case outcome of
               StoreFull \<Rightarrow> deny_capability env claims request ''control-plane approval store is at capacity''
                 ''control_plane_state_saturated'' s
             | SessionFull \<Rightarrow> deny_capability env claims request ''pending approval limit reached for control session''
                 ''pending_approval_limit_reached'' s
             | StoreUnaudited \<Rightarrow> Some (auditUnavailableCapabilityResponse (RequestID request), s)
             | Stored \<Rightarrow> (let metadata' = response_metadata metadata reason expiresAt decisionNonce (fst hashes)
                 in Some (pending_response request approvalID (fst hashes) metadata', share_metadata approvalID metadata' s))) }) }))"

section \<open>Preparing and executing\<close>

definition effective_token :: "capability_token \<Rightarrow> capability_request \<Rightarrow> check_result \<Rightarrow> 'w tool \<Rightarrow> capability_token" where
  "effective_token claims request policyDecision t =
    (if isHighRiskCapability t policyDecision \<and> \<not> SingleUse claims then deriveExecutionToken claims request else claims)"

definition prepareCapabilityExecution :: "('io, 'f) server_env \<Rightarrow> capability_token \<Rightarrow> capability_request \<Rightarrow> check_result \<Rightarrow>
    'w tool \<Rightarrow> ('f, 'w) server \<Rightarrow> ((capability_response + capability_token) \<times> ('f, 'w) server) option" where
  "prepareCapabilityExecution env claims request policyDecision t s = (let
     effective = effective_token claims request policyDecision t
   in do {
     (refused, s) \<leftarrow> consumeExecutionToken env effective request s;
     (case refused of
        Some r \<Rightarrow> early (audited_reply env ''capability.denied'' effective request
          (denial_fields (RedactText (DenialReason r)) (DenialCode r) @ token_fields effective) r s)
      | None \<Rightarrow> if Capability request \<notin> set [''fs_read'', ''operator_mount.fs_read''] then Some (Inr effective, s)
          else do {
            (limited, s) \<leftarrow> checkFsReadRateLimit env (ct_ControlSessionID effective) s;
            (if limited then early (deny_capability env effective request ''fs_read rate limit exceeded''
               ''fs_read_rate_limit_exceeded'' s)
             else Some (Inr effective, s)) }) })"

definition direct_capabilities :: "string list" where
  "direct_capabilities = [''host.folder.list'', ''host.folder.read'', ''host.organize.plan'', ''host.plan.apply'']"

text \<open>The trace notes that a tool runs, with its arguments and the control session it runs for.\<close>

definition note_run :: "capability_token \<Rightarrow> capability_request \<Rightarrow> ('f, 'w) server \<Rightarrow> ('f, 'w) server" where
  "note_run claims request s =
     s\<lparr>trace := trace s @ [Ran (Capability request) (args_of request) (ct_ControlSessionID claims)]\<rparr>"

definition dispatchDirectCapabilityExecution :: "('f, 'w) exec_env \<Rightarrow> capability_token \<Rightarrow> capability_request \<Rightarrow>
    ('f, 'w) server \<Rightarrow> (capability_response \<times> ('f, 'w) server) option" where
  "dispatchDirectCapabilityExecution xe claims request s = direct xe claims request (note_run claims request s)"

definition executeCapabilityTool :: "('io, 'f) server_env \<Rightarrow> ('f, 'w) exec_env \<Rightarrow> 'w tool \<Rightarrow> capability_token \<Rightarrow>
    capability_request \<Rightarrow> ('f, 'w) server \<Rightarrow> ((capability_response + string) \<times> ('f, 'w) server) option" where
  "executeCapabilityTool env xe t claims request s0 = (let s = note_run claims request s0;
     (result, w) = tool_Execute t (ct_ControlSessionID claims) (args_of request) (srv_world s);
     s = s\<lparr>srv_world := w\<rparr>
   in case result of
     Inr output \<Rightarrow> Some (Inr output, s)
   | Inl e \<Rightarrow> early (audited_reply env ''capability.error'' claims request
       ([(''error'', GString (RedactText e)), (''operator_error_class'', GString (error_class xe e))] @ token_fields claims)
       ((failed (RequestID request) e ''capability_execution_failed'')\<lparr>Redacted := True\<rparr>) s))"

section \<open>The audited result\<close>

definition capabilityQuarantinePersistenceFailureResponse :: "('io, 'f) server_env \<Rightarrow> ('f, 'w) exec_env \<Rightarrow> capability_token \<Rightarrow>
    capability_request \<Rightarrow> string \<Rightarrow> ('f, 'w) server \<Rightarrow> (capability_response \<times> ('f, 'w) server) option" where
  "capabilityQuarantinePersistenceFailureResponse env xe claims request e =
     (let wrapped = ''quarantine persistence failed: '' @ e in
      audited_reply env ''capability.error'' claims request
        ([(''error'', GString (RedactText wrapped)), (''operator_error_class'', GString (error_class xe wrapped))] @
          token_fields claims)
        ((failed (RequestID request) ''capability quarantine persistence failed'' ''capability_execution_failed'')
           \<lparr>Redacted := True\<rparr>))"

text \<open>The server's buildCapabilityResult: configured capabilities have a result of their own.\<close>

definition server_buildCapabilityResult :: "('f, 'w) exec_env \<Rightarrow> capability_request \<Rightarrow> string \<Rightarrow> string \<Rightarrow> built_result result" where
  "server_buildCapabilityResult xe request output quarantineRef =
    (if is_configured xe (Capability request) then configured_result xe request output quarantineRef
     else buildCapabilityResult (Capability request) (args_of request) output)"

definition json_of_classification :: "result_classification \<Rightarrow> gval" where
  "json_of_classification c = GMap
     [(''exposure'', GString (Exposure c)), (''eligibility'', GMap [(''prompt'', GBool (PromptFlag c))]),
      (''quarantine'', GMap ((''quarantined'', GBool (QuarantinedFlag c)) #
         (if QuarantineRefOf c = [] then [] else [(''ref'', GString (QuarantineRefOf c))])))]"

definition result_metadata :: "('f, 'w) exec_env \<Rightarrow> string \<Rightarrow> string \<Rightarrow> result_classification \<Rightarrow> gdata" where
  "result_metadata xe capability quarantineRef c = mput ''quarantined'' (GBool (QuarantinedFlag c))
     (mput ''audit_only'' (GBool (AuditOnly c)) (mput ''display_only'' (GBool (DisplayOnly c))
     (mput ''prompt_eligible'' (GBool (PromptFlag c))
       (if is_configured xe capability then provenance xe capability quarantineRef else []))))"

text \<open>Storing the output when the condition asks for it; the reference is blank otherwise.\<close>

definition store_if :: "bool \<Rightarrow> ('io, 'f) server_env \<Rightarrow> ('f, 'w) exec_env \<Rightarrow> capability_request \<Rightarrow> string \<Rightarrow> string \<Rightarrow>
    ('f, 'w) server \<Rightarrow> string result \<times> ('f, 'w) server" where
  "store_if needed env xe request output ref s =
    (if needed then storeQuarantinedPayload env (quarantine xe) request output s else (Inr ref, s))"

definition executed_response :: "('io, 'f) server_env \<Rightarrow> ('f, 'w) exec_env \<Rightarrow> capability_token \<Rightarrow> capability_request \<Rightarrow>
    gdata \<Rightarrow> (string, field_metadata) gomap \<Rightarrow> result_classification \<Rightarrow> string \<Rightarrow> ('f, 'w) server \<Rightarrow>
    (capability_response \<times> ('f, 'w) server) option" where
  "executed_response env xe claims request structuredResult fieldsMeta c0 ref =
    (case normalizeResultClassification c0 ref of
       Inl _ \<Rightarrow> (\<lambda>s. Some ((failed (RequestID request) ''capability result classification is invalid''
         ''capability_execution_failed'')\<lparr>Redacted := True\<rparr>, s))
     | Inr c \<Rightarrow> (let meta = result_metadata xe (Capability request) ref c in
         audited_reply env ''capability.executed'' claims request
           ([(''status'', GString ResponseStatusSuccess), (''result_classification'', GOther (Some (json_of_classification c))),
             (''result_provenance'', GMap meta), (''quarantine_ref'', GString ref)] @ token_fields claims)
           (no_response\<lparr>rsp_RequestID := RequestID request, Status := ResponseStatusSuccess,
              StructuredResult := structuredResult, FieldsMeta := fieldsMeta, Classification := c,
              QuarantineRef := ref, rsp_Metadata := meta\<rparr>)))"

definition finalizeCapabilityExecution :: "('io, 'f) server_env \<Rightarrow> ('f, 'w) exec_env \<Rightarrow> capability_token \<Rightarrow>
    capability_request \<Rightarrow> string \<Rightarrow> ('f, 'w) server \<Rightarrow> (capability_response \<times> ('f, 'w) server) option" where
  "finalizeCapabilityExecution env xe claims request output s0 =
    (case store_if (is_configured xe (Capability request)) env xe request output [] s0 of
       (Inl e, s) \<Rightarrow> capabilityQuarantinePersistenceFailureResponse env xe claims request e s
     | (Inr ref1, s) \<Rightarrow> (case server_buildCapabilityResult xe request output ref1 of
         Inl e \<Rightarrow> Some ((failed (RequestID request) e ''capability_execution_failed'')\<lparr>Redacted := True\<rparr>, s)
       | Inr (structuredResult, fieldsMeta, c, builtRef) \<Rightarrow>
          (case store_if (ref1 = [] \<and> QuarantinedFlag c) env xe request output ref1 s of
             (Inl e, s) \<Rightarrow> capabilityQuarantinePersistenceFailureResponse env xe claims request e s
           | (Inr ref2, s) \<Rightarrow> executed_response env xe claims request structuredResult fieldsMeta c
               (if blank builtRef then ref2 else builtRef) s)))"

section \<open>The whole request\<close>

definition execute_decided :: "('io, 'f) server_env \<Rightarrow> ('f, 'w) exec_env \<Rightarrow> capability_token \<Rightarrow> capability_request \<Rightarrow>
    check_result \<Rightarrow> 'w tool \<Rightarrow> ('f, 'w) server \<Rightarrow> (capability_response \<times> ('f, 'w) server) option" where
  "execute_decided env xe claims request policyDecision t s = do {
     (prepared, s) \<leftarrow> prepareCapabilityExecution env claims request policyDecision t s;
     (case prepared of
        Inl r \<Rightarrow> Some (r, s)
      | Inr effective \<Rightarrow>
          if Capability request \<in> set direct_capabilities then dispatchDirectCapabilityExecution xe effective request s
          else do {
            (ran, s) \<leftarrow> executeCapabilityTool env xe t effective request s;
            (case ran of
               Inl r \<Rightarrow> Some (r, s)
             | Inr output \<Rightarrow> finalizeCapabilityExecution env xe effective request output s) }) }"

definition approval_unsupported :: string where
  "approval_unsupported = ''capability requires approval and this route does not support approval creation''"

definition act_on_decision :: "('io, 'f) server_env \<Rightarrow> ('f, 'w) exec_env \<Rightarrow> capability_token \<Rightarrow> capability_request \<Rightarrow> bool \<Rightarrow>
    check_result \<Rightarrow> 'w tool \<Rightarrow> ('f, 'w) server \<Rightarrow> (capability_response \<times> ('f, 'w) server) option" where
  "act_on_decision env xe claims request allowApprovalCreation d t s =
    (if cr_Decision d = Deny then audited_reply env ''capability.denied'' claims request
       (denial_fields (RedactText (cr_Reason d)) ''policy_denied'') (denied (RequestID request) (cr_Reason d) ''policy_denied'') s
     else if cr_Decision d = NeedsApproval \<and> allowApprovalCreation then createCapabilityApprovalResponse env xe claims request d s
     else if cr_Decision d = NeedsApproval \<and> \<not> ApprovedExecution claims then
       audited_reply env ''capability.denied'' claims request (denial_fields approval_unsupported ''approval_required'')
         ((denied (RequestID request) approval_unsupported ''approval_required'')\<lparr>ApprovalRequired := True\<rparr>) s
     else execute_decided env xe claims request d t s)"

definition requested_fields :: "check_result \<Rightarrow> gdata" where
  "requested_fields d = [(''decision'', GString (Decision_String (cr_Decision d))),
     (''reason'', GString (RedactText (cr_Reason d)))]"

definition execute_with_slot :: "('io, 'f) server_env \<Rightarrow> ('f, 'w) exec_env \<Rightarrow> capability_token \<Rightarrow> capability_request \<Rightarrow> bool \<Rightarrow>
    ('f, 'w) server \<Rightarrow> (capability_response \<times> ('f, 'w) server) option" where
  "execute_with_slot env xe claims request allowApprovalCreation s = do {
     (resolved, s) \<leftarrow> resolveCapabilityExecutionTool env xe claims request s;
     (case resolved of
        Inl r \<Rightarrow> Some (r, s)
      | Inr t \<Rightarrow> do {
          ((original, d, auto), s) \<leftarrow> evaluateCapabilityPolicyDecision env xe t claims request s;
          (e1, s) \<leftarrow> (if cr_Decision original = NeedsApproval \<and> cr_Decision d = Allow \<and> auto
            then logEvent env ''capability.low_risk_host_plan_auto_allow'' (ct_ControlSessionID claims)
              (capability_event claims request []) s
            else Some (None, s));
          if e1 \<noteq> None then Some (auditUnavailableCapabilityResponse (RequestID request), s)
          else do {
            (e2, s) \<leftarrow> logEvent env ''capability.requested'' (ct_ControlSessionID claims)
              (capability_event claims request (requested_fields d)) s;
            if e2 \<noteq> None then Some (auditUnavailableCapabilityResponse (RequestID request), s)
            else act_on_decision env xe claims request allowApprovalCreation d t s } }) }"

definition executeCapabilityRequest :: "('io, 'f) server_env \<Rightarrow> ('f, 'w) exec_env \<Rightarrow> capability_token \<Rightarrow> capability_request \<Rightarrow>
    bool \<Rightarrow> ('f, 'w) server \<Rightarrow> (capability_response \<times> ('f, 'w) server) option" where
  "executeCapabilityRequest env xe claims request0 allowApprovalCreation s = do {
     (prepared, s) \<leftarrow> prepareCapabilityRequestExecution env claims request0 allowApprovalCreation s;
     (case prepared of
        Inl r \<Rightarrow> Some (r, s)
      | Inr request \<Rightarrow> (case tryAcquireCapabilityExecutionSlot env s of
          (False, s) \<Rightarrow> Some (capabilityExecutionSaturatedResponse (RequestID request), s)
        | (True, s) \<Rightarrow> do {
            (r, s) \<leftarrow> execute_with_slot env xe claims request allowApprovalCreation s;
            Some (r, releaseCapabilityExecutionSlot env s) })) }"

end
