(* ===== verification/ApprovalHandlers.thy ===== *)
theory ApprovalHandlers
  imports CapabilityExecution
begin

text \<open>
  The HTTP handlers around capabilities and approvals: internal/loopgate/server_capability_handlers.go
  and server_approval_admin_handlers.go, with the approval summary of ui_server.go and the scope check
  of server_config_handlers.go. Decoding a JSON body into its Go struct is a parameter.
\<close>

record codec =
  decode_capability_request :: "string \<Rightarrow> capability_request result"
  decode_decision :: "string \<Rightarrow> approval_decision_request result"
  text_of_value :: "gval \<Rightarrow> string"  \<comment> \<open>fmt.Sprintf with the verb %v\<close>
  int_of_float :: "float64 \<Rightarrow> int"

definition method_not_allowed :: http_reply where
  "method_not_allowed = PlainReply 405 ''method not allowed''"

definition malformed :: "string \<Rightarrow> http_reply" where
  "malformed reason = JSONReply 400 (failed [] reason ''malformed_request'')"

definition signature_refused :: "capability_response \<Rightarrow> http_reply" where
  "signature_refused r = JSONReply (signedRequestHTTPStatus (DenialCode r)) r"

section \<open>Executing a capability\<close>

definition handleCapabilityExecute :: "('io, 'f) server_env \<Rightarrow> ('f, 'w) exec_env \<Rightarrow> codec \<Rightarrow> http_request \<Rightarrow>
    ('f, 'w) server \<Rightarrow> (http_reply \<times> ('f, 'w) server) option" where
  "handleCapabilityExecute env xe cd request s =
    (if Method request \<noteq> ''POST'' then Some (method_not_allowed, s)
     else do {
       (who, s) \<leftarrow> authenticate env (unicode_lower (approvals_env xe)) request s;
       (case who of
          Inl reply \<Rightarrow> Some (reply, s)
        | Inr claims \<Rightarrow> do {
            (body, s) \<leftarrow> readAndVerifySignedBody env request (ct_ControlSessionID claims) s;
            (case body of
               Inl denial \<Rightarrow> Some (signature_refused denial, s)
             | Inr bytes \<Rightarrow> (case decode_capability_request cd bytes of
                 Inl e \<Rightarrow> Some (malformed e, s)
               | Inr capabilityRequest \<Rightarrow> do {
                   (response, s) \<leftarrow> executeCapabilityRequest env xe claims capabilityRequest True s;
                   Some (JSONReply (httpStatusForResponse response) response, s) })) }) })"

section \<open>Deciding an approval\<close>

text \<open>The approval id in the path of the route.\<close>

definition approval_id_of :: "string \<Rightarrow> string \<Rightarrow> string option" where
  "approval_id_of route path = (let approvalID = trim_suffix (trim_prefix path route) ''/decision'' in
     if blank approvalID \<or> str_contains approvalID ''/'' then None else Some approvalID)"

definition decode_decision_body :: "codec \<Rightarrow> string \<Rightarrow> approval_decision_request result" where
  "decode_decision_body cd bytes = bindr (decode_decision cd bytes) (\<lambda>d.
     case ApprovalDecisionRequest_Validate d of Some e \<Rightarrow> Inl e | None \<Rightarrow> Inr d)"

definition audit_unavailable_for :: "string \<Rightarrow> string \<Rightarrow> http_reply" where
  "audit_unavailable_for approvalID requestID =
     JSONReply 503 (about_approval approvalID (auditUnavailableCapabilityResponse requestID))"

definition refuse_decision :: "('io, 'f) server_env \<Rightarrow> control_session \<Rightarrow> string \<Rightarrow> pending_approval \<Rightarrow>
    capability_response \<Rightarrow> ('f, 'w) server \<Rightarrow> (http_reply \<times> ('f, 'w) server) option" where
  "refuse_decision env session approvalID a denial s = do {
     (e, s) \<leftarrow> auditApprovalDecisionDenial env session approvalID a denial s;
     Some (if e \<noteq> None then audit_unavailable_for approvalID approvalID
       else JSONReply (approvalDecisionHTTPStatus (DenialCode denial)) denial, s) }"

text \<open>An approval that passed the checks: the stored body, the grant, the token, the execution.\<close>

definition run_approved :: "('io, 'f) server_env \<Rightarrow> ('f, 'w) exec_env \<Rightarrow> (capability_response \<Rightarrow> string \<Rightarrow> http_reply) \<Rightarrow>
    string \<Rightarrow> pending_approval \<Rightarrow> string \<Rightarrow> ('f, 'w) server \<Rightarrow> (http_reply \<times> ('f, 'w) server) option" where
  "run_approved env xe reply approvalID a auditEventHash s = do {
     (tok, s) \<leftarrow> approvedExecutionTokenForPendingApproval env approvalID a s;
     (case tok of
        Inl denial \<Rightarrow> Some (JSONReply (approvalDecisionHTTPStatus (DenialCode denial)) denial, s)
      | Inr claims \<Rightarrow> do {
          (response, s) \<leftarrow> executeCapabilityRequest env xe claims (pa_Request a) False s;
          let response = about_approval approvalID response;
          (_, s) \<leftarrow> markApprovalExecutionResult env approvalID (Status response) s;
          Some (reply response auditEventHash, s) }) }"

definition grant_and_run :: "('io, 'f) server_env \<Rightarrow> ('f, 'w) exec_env \<Rightarrow> (capability_response \<Rightarrow> string \<Rightarrow> http_reply) \<Rightarrow>
    control_session \<Rightarrow> string \<Rightarrow> pending_approval \<Rightarrow> approval_decision_request \<Rightarrow> ('f, 'w) server \<Rightarrow>
    (http_reply \<times> ('f, 'w) server) option" where
  "grant_and_run env xe reply session approvalID a decision s = (case verifyPendingApprovalStoredExecutionBody a of
     Some denial \<Rightarrow> writePendingApprovalExecutionIntegrityDenial env session approvalID a denial s
   | None \<Rightarrow> do {
       (granted, s) \<leftarrow> commitApprovalGrantConsumed env approvalID (SubmittedNonce decision) (DecisionReason decision) s;
       (case granted of
          Inl _ \<Rightarrow> Some (audit_unavailable_for approvalID (RequestID (pa_Request a)), s)
        | Inr auditEventHash \<Rightarrow> run_approved env xe reply approvalID a auditEventHash s) })"

text \<open>The two routes differ in who decides and in the shape of the reply.\<close>

definition decide :: "('io, 'f) server_env \<Rightarrow> ('f, 'w) exec_env \<Rightarrow> bool \<Rightarrow> (capability_response \<Rightarrow> string \<Rightarrow> http_reply) \<Rightarrow>
    control_session \<Rightarrow> string \<Rightarrow> approval_decision_request \<Rightarrow> ('f, 'w) server \<Rightarrow> (http_reply \<times> ('f, 'w) server) option" where
  "decide env xe byOperator reply session approvalID decision s =
    (if Approved decision then do {
       ((a, denial), s) \<leftarrow> (if byOperator then validatePendingApprovalDecisionForOperator env session approvalID decision s
         else validatePendingApprovalDecision env session approvalID decision s);
       (case denial of
          Some d \<Rightarrow> refuse_decision env session approvalID a d s
        | None \<Rightarrow> grant_and_run env xe reply session approvalID a decision s) }
     else do {
       ((a, recorded), s) \<leftarrow> (if byOperator then validateAndRecordOperatorApprovalDecision env session approvalID decision s
         else validateAndRecordApprovalDecision env session approvalID decision s);
       (case recorded of
          Inl d \<Rightarrow> refuse_decision env session approvalID a d s
        | Inr auditEventHash \<Rightarrow> Some (reply (about_approval approvalID
            (denied (RequestID (pa_Request a)) ''approval denied'' ''approval_denied'')) auditEventHash, s)) })"

text \<open>The reply to a recorded denial has status 200.\<close>

definition plain_decision_reply :: "approval_decision_request \<Rightarrow> capability_response \<Rightarrow> string \<Rightarrow> http_reply" where
  "plain_decision_reply decision response _ =
     JSONReply (if Approved decision then httpStatusForResponse response else 200) response"

definition operator_decision_reply :: "approval_decision_request \<Rightarrow> capability_response \<Rightarrow> string \<Rightarrow> http_reply" where
  "operator_decision_reply decision response auditEventHash =
     OperatorDecisionReply (if Approved decision then httpStatusForResponse response else 200) response auditEventHash"

definition handleApprovalDecision :: "('io, 'f) server_env \<Rightarrow> ('f, 'w) exec_env \<Rightarrow> codec \<Rightarrow> http_request \<Rightarrow>
    ('f, 'w) server \<Rightarrow> (http_reply \<times> ('f, 'w) server) option" where
  "handleApprovalDecision env xe cd request s =
    (if Method request \<noteq> ''POST'' then Some (method_not_allowed, s)
     else do {
       (who, s) \<leftarrow> authenticateApproval env request s;
       (case who of
          Inl reply \<Rightarrow> Some (reply, s)
        | Inr session \<Rightarrow> (case approval_id_of ''/v1/approvals/'' (Path request) of
            None \<Rightarrow> Some (malformed ''invalid approval id'', s)
          | Some approvalID \<Rightarrow> do {
              (body, s) \<leftarrow> readAndVerifySignedBody env request (cs_ID session) s;
              (case body of
                 Inl denial \<Rightarrow> Some (signature_refused denial, s)
               | Inr bytes \<Rightarrow> (case decode_decision_body cd bytes of
                   Inl e \<Rightarrow> Some (malformed e, s)
                 | Inr decision \<Rightarrow> decide env xe False (plain_decision_reply decision) session approvalID decision s)) })) })"

section \<open>The operator's routes\<close>

definition capabilityScopeAllowed :: "capability_token \<Rightarrow> string \<Rightarrow> bool" where
  "capabilityScopeAllowed claims capabilityName =
     (ct_AllowedCapabilities claims = [] \<or> capabilityName \<in> set (ct_AllowedCapabilities claims))"

definition requireScopedCapability :: "('io, 'f) server_env \<Rightarrow> capability_token \<Rightarrow> string \<Rightarrow> string \<Rightarrow> ('f, 'w) server \<Rightarrow>
    (http_reply option \<times> ('f, 'w) server) option" where
  "requireScopedCapability env claims requiredCapability denialContext s =
    (if capabilityScopeAllowed claims requiredCapability then Some (None, s)
     else do {
       (e, s) \<leftarrow> logEvent env ''capability.denied'' (ct_ControlSessionID claims)
         [(''capability'', GString requiredCapability), (''reason'', GString (''capability token scope denied '' @ denialContext)),
          (''denial_code'', GString ''capability_token_scope_denied''), (''actor_label'', GString (ct_ActorLabel claims)),
          (''client_session_label'', GString (ct_ClientSessionLabel claims)),
          (''control_session_id'', GString (ct_ControlSessionID claims))] s;
       Some (Some (if e \<noteq> None then audit_unavailable_reply
         else JSONReply 403 (denied [] ''capability token scope denied requested capability'' ''capability_token_scope_denied'')), s) })"

definition requireControlCapability :: "('io, 'f) server_env \<Rightarrow> capability_token \<Rightarrow> string \<Rightarrow> ('f, 'w) server \<Rightarrow>
    (http_reply option \<times> ('f, 'w) server) option" where
  "requireControlCapability env claims requiredCapability =
     requireScopedCapability env claims requiredCapability ''control-plane action''"

definition operator_session :: "capability_token \<Rightarrow> control_session" where
  "operator_session claims = no_session\<lparr>cs_ID := ct_ControlSessionID claims, cs_ActorLabel := ct_ActorLabel claims,
     cs_ClientSessionLabel := ct_ClientSessionLabel claims, cs_TenantID := ct_TenantID claims,
     cs_UserID := ct_UserID claims\<rparr>"

definition handleControlApprovalDecision :: "('io, 'f) server_env \<Rightarrow> ('f, 'w) exec_env \<Rightarrow> codec \<Rightarrow> http_request \<Rightarrow>
    ('f, 'w) server \<Rightarrow> (http_reply \<times> ('f, 'w) server) option" where
  "handleControlApprovalDecision env xe cd request s =
    (if Method request \<noteq> ''POST'' then Some (method_not_allowed, s)
     else do {
       (who, s) \<leftarrow> authenticate env (unicode_lower (approvals_env xe)) request s;
       (case who of
          Inl reply \<Rightarrow> Some (reply, s)
        | Inr claims \<Rightarrow> do {
            (refused, s) \<leftarrow> requireControlCapability env claims ''approval.write'' s;
            (case refused of
               Some reply \<Rightarrow> Some (reply, s)
             | None \<Rightarrow> (case approval_id_of ''/v1/control/approvals/'' (Path request) of
                 None \<Rightarrow> Some (malformed ''invalid approval id'', s)
               | Some approvalID \<Rightarrow> do {
                   (body, s) \<leftarrow> readAndVerifySignedBody env request (ct_ControlSessionID claims) s;
                   (case body of
                      Inl denial \<Rightarrow> Some (signature_refused denial, s)
                    | Inr bytes \<Rightarrow> (case decode_decision_body cd bytes of
                        Inl e \<Rightarrow> Some (malformed e, s)
                      | Inr decision \<Rightarrow> decide env xe True (operator_decision_reply decision)
                          (operator_session claims) approvalID decision s)) })) }) })"

section \<open>The operator's list of approvals\<close>

definition stringMetadataValue :: "codec \<Rightarrow> gdata \<Rightarrow> string \<Rightarrow> string" where
  "stringMetadataValue cd metadata key = (case map_of metadata key of
     None \<Rightarrow> [] | Some (GString s) \<Rightarrow> s | Some v \<Rightarrow> text_of_value cd v)"

definition intMetadataValue :: "codec \<Rightarrow> gdata \<Rightarrow> string \<Rightarrow> int" where
  "intMetadataValue cd metadata key = (case map_of metadata key of
     Some (GInt i) \<Rightarrow> i | Some (GFloat f) \<Rightarrow> int_of_float cd f | _ \<Rightarrow> 0)"

definition has_content :: "codec \<Rightarrow> pending_approval \<Rightarrow> bool" where
  "has_content cd a = (case map_of (pa_Metadata a) ''content_bytes'' of
     Some (GInt i) \<Rightarrow> i > 0 | Some (GFloat f) \<Rightarrow> int_of_float cd f > 0 | _ \<Rightarrow> False)"

definition operatorApprovalSummaryFromPending :: "codec \<Rightarrow> pending_approval \<Rightarrow> approval_summary" where
  "operatorApprovalSummaryFromPending cd a = (let m = pa_Metadata a;
     plan_text = (\<lambda>k. if Capability (pa_Request a) = ''host.plan.apply'' then stringMetadataValue cd m k else []);
     plan_int = (\<lambda>k. if Capability (pa_Request a) = ''host.plan.apply'' then intMetadataValue cd m k else 0) in
     \<lparr>as_ApprovalRequestID = pa_ID a, as_ControlSessionID = pa_ControlSessionID a,
      as_Requester = ec_ActorLabel (pa_ExecutionContext a), as_Capability = Capability (pa_Request a),
      as_CreatedAtUTC = rfc3339nano (pa_CreatedAt a), as_Path = stringMetadataValue cd m ''path'',
      as_ContentBytes = intMetadataValue cd m ''content_bytes'',
      as_Preview = (if has_content cd a then ''[content hidden]'' else []), as_Redacted = has_content cd a,
      as_Reason = pa_Reason a, as_ExpiresAtUTC = rfc3339nano (pa_ExpiresAt a),
      as_OperatorIntentLine = plan_text ''operator_intent_line'', as_PlanSummary = plan_text ''plan_summary'',
      as_HostFolderDisplayName = plan_text ''host_folder_display_name'',
      as_PlanOperationCount = plan_int ''plan_operation_count'', as_PlanMkdirCount = plan_int ''plan_mkdir_count'',
      as_PlanMoveCount = plan_int ''plan_move_count'', as_DecisionNonce = pa_DecisionNonce a,
      as_ApprovalManifestSHA256 = pa_ApprovalManifestSHA256 a\<rparr>)"

text \<open>The pending approvals the operator's tenant may see; a record without a manifest gets one.\<close>

definition visible_to :: "capability_token \<Rightarrow> pending_approval \<Rightarrow> bool" where
  "visible_to claims a = (pa_State a = StatePending \<and> \<not> (\<not> blank (ct_TenantID claims) \<and>
     \<not> blank (ec_TenantID (pa_ExecutionContext a)) \<and> ct_TenantID claims \<noteq> ec_TenantID (pa_ExecutionContext a)))"

definition list_approvals :: "('io, 'f) server_env \<Rightarrow> codec \<Rightarrow> capability_token \<Rightarrow> ('f, 'w) server \<Rightarrow>
    approval_summary list \<times> ('f, 'w) server" where
  "list_approvals env cd claims s0 = (let s = pruneExpiredLocked env s0;
     (m, summaries) = fold (\<lambda>(k, a) (m, out). if \<not> visible_to claims a then (m, out)
         else (case BackfillPendingApprovalManifest m k a of
           (m', a') \<Rightarrow> (m', out @ [operatorApprovalSummaryFromPending cd a']))) (records s) (records s, [])
   in (summaries, s\<lparr>records := m\<rparr>))"

definition handleControlApprovals :: "('io, 'f) server_env \<Rightarrow> ('f, 'w) exec_env \<Rightarrow> codec \<Rightarrow> http_request \<Rightarrow>
    ('f, 'w) server \<Rightarrow> (http_reply \<times> ('f, 'w) server) option" where
  "handleControlApprovals env xe cd request s =
    (if Method request \<noteq> ''GET'' then Some (method_not_allowed, s)
     else do {
       (who, s) \<leftarrow> authenticate env (unicode_lower (approvals_env xe)) request s;
       (case who of
          Inl reply \<Rightarrow> Some (reply, s)
        | Inr claims \<Rightarrow> do {
            (refused, s) \<leftarrow> requireControlCapability env claims ''approval.read'' s;
            (case refused of
               Some reply \<Rightarrow> Some (reply, s)
             | None \<Rightarrow> do {
                 (denial, s) \<leftarrow> verifySignedRequestWithoutBody env request (ct_ControlSessionID claims) s;
                 (case denial of
                    Some d \<Rightarrow> Some (signature_refused d, s)
                  | None \<Rightarrow> do {
                      (summaries, s) \<leftarrow> with_mu (\<lambda>s. Some (list_approvals env cd claims s)) s;
                      Some (ApprovalsReply 200 (map snd (sort_keys
                        (map (\<lambda>a. (as_ApprovalRequestID a, a)) summaries))), s) }) }) }) })"

end
