(* ===== verification/Sessions.thy ===== *)
theory Sessions
  imports ApprovalHandlers
begin

text \<open>
  Opening, closing and retiring control sessions: internal/loopgate/server_session_handlers.go,
  control_session_recovery.go, the session part of operator_mount.go, control_capabilities.go,
  workspace_binding.go and the helpers of server.go they use.
\<close>

section \<open>Configuration and requests\<close>

text \<open>
  \<open>processExists\<close> and \<open>resolveExePath\<close> answer the n-th interaction; None is a nil function. \<open>resolve_mount\<close>
  is filepath.EvalSymlinks, \<open>mount_is_dir\<close> os.Stat and IsDir, \<open>working_dir\<close> os.Getwd.
\<close>

record open_session_request =
  or_Actor :: string
  or_SessionID :: string
  or_RequestedCapabilities :: "string list"
  or_CorrelationID :: string
  or_WorkspaceID :: string
  or_OperatorMountPaths :: "string list"
  or_PrimaryOperatorMountPath :: string

record session_env =
  processExists :: "(nat \<Rightarrow> int \<Rightarrow> bool result) option"
  resolveExePath :: "(nat \<Rightarrow> int \<Rightarrow> string result) option"
  expectedClientPath :: string
  DeploymentTenantID :: string
  DeploymentUserID :: string
  se_repoRoot :: string
  working_dir :: "string result"
  resolve_mount :: "string \<Rightarrow> string result"
  mount_is_dir :: "string \<Rightarrow> bool result"
  decode_open :: "string \<Rightarrow> open_session_request result"

definition defaultLabel :: "string \<Rightarrow> string \<Rightarrow> string" where
  "defaultLabel rawValue fallback = (if blank rawValue then fallback else trim_space rawValue)"

definition normalizeSessionExecutablePinPath :: "string \<Rightarrow> string" where
  "normalizeSessionExecutablePinPath raw = (if blank raw then [] else filepath_clean (trim_space raw))"

definition deriveWorkspaceIDFromRepoRoot :: "session_env \<Rightarrow> string" where
  "deriveWorkspaceIDFromRepoRoot se = sha256_hex
     (case filepath_abs (working_dir se) (se_repoRoot se) of Inl _ \<Rightarrow> se_repoRoot se | Inr p \<Rightarrow> p)"

definition OpenSessionRequest_Validate :: "open_session_request \<Rightarrow> string option" where
  "OpenSessionRequest_Validate r = first_error
     ([if blank (or_Actor r) then None else ValidateSafeIdentifier ''actor'' (or_Actor r),
       if blank (or_SessionID r) then None else ValidateSafeIdentifier ''session_id'' (or_SessionID r),
       if blank (or_CorrelationID r) then None else ValidateSafeIdentifier ''correlation_id'' (or_CorrelationID r)] @
      map (ValidateSafeIdentifier ''requested capability'') (or_RequestedCapabilities r))"

section \<open>Operator mounts of a session\<close>

definition isOperatorMountActor :: "string \<Rightarrow> bool" where
  "isOperatorMountActor actor = (defaultLabel actor ''client'' = ''operator'')"

definition denied_mount_roots :: "string list" where
  "denied_mount_roots = [''/etc'', ''/usr'', ''/bin'', ''/sbin'', ''/var/db'', ''/private/var/db'', ''/System'',
     ''/Library'', ''/private/etc'']"

definition isDangerousOperatorMountPath :: "string \<Rightarrow> bool" where
  "isDangerousOperatorMountPath p = (let clean = filepath_clean p in
     clean = ''/'' \<or> list_ex (\<lambda>d. clean = d \<or> has_prefix clean (d @ ''/'')) denied_mount_roots)"

definition ValidPathExpression :: "string \<Rightarrow> bool" where
  "ValidPathExpression p = (p \<noteq> [] \<and> CHR 0x00 \<notin> set p)"

definition canonicalizeOperatorMountPath :: "session_env \<Rightarrow> string \<Rightarrow> string result" where
  "canonicalizeOperatorMountPath se raw0 = (let raw = trim_space raw0 in
     if raw = [] then Inl ''empty path''
     else if length raw > 4096 then Inl ''path too long''
     else bindr (filepath_abs (working_dir se) raw) (\<lambda>p. bindr (resolve_mount se p) (\<lambda>resolved.
       if isDangerousOperatorMountPath resolved then Inl ''path is not permitted for operator mount''
       else if \<not> ValidPathExpression resolved then Inl ''path contains unsupported characters''
       else bindr (mount_is_dir se resolved) (\<lambda>isDir.
         if \<not> isDir then Inl ''path is not a directory'' else Inr (filepath_clean resolved)))))"

fun canonical_mounts :: "session_env \<Rightarrow> string list \<Rightarrow> string list \<Rightarrow> string list result" where
  "canonical_mounts se out [] = Inr out"
| "canonical_mounts se out (p # ps) = (case canonicalizeOperatorMountPath se p of
     Inl e \<Rightarrow> Inl (''operator_mount_paths: '' @ e)
   | Inr c \<Rightarrow> canonical_mounts se (if c \<in> set out then out else out @ [c]) ps)"

definition normalizeOperatorMountPathsForSession :: "session_env \<Rightarrow> string \<Rightarrow> string list \<Rightarrow> string list result" where
  "normalizeOperatorMountPathsForSession se actor rawPaths =
    (if rawPaths = [] then Inr []
     else if \<not> isOperatorMountActor actor then Inl ''operator_mount_paths is only accepted for actor operator''
     else if length rawPaths > 16 then Inl ''operator_mount_paths: at most 16 entries''
     else canonical_mounts se [] rawPaths)"

definition normalizePrimaryOperatorMountPathForSession :: "session_env \<Rightarrow> string \<Rightarrow> string \<Rightarrow> string list \<Rightarrow> string result" where
  "normalizePrimaryOperatorMountPathForSession se actor rawPrimary normalizedMounts =
    (if blank rawPrimary then Inr []
     else if \<not> isOperatorMountActor actor then Inl ''primary_operator_mount_path is only accepted for actor operator''
     else if normalizedMounts = [] then Inl ''primary_operator_mount_path requires operator_mount_paths''
     else (case canonicalizeOperatorMountPath se (trim_space rawPrimary) of
         Inl e \<Rightarrow> Inl (''primary_operator_mount_path: '' @ e)
       | Inr c \<Rightarrow> if c \<in> set normalizedMounts then Inr c
           else Inl ''primary_operator_mount_path must match one of operator_mount_paths''))"

section \<open>Granted capabilities\<close>

definition control_capability_names :: "string list" where
  "control_capability_names = [''approval.read'', ''approval.write'', ''audit.export'', ''config.read'', ''config.write'',
     ''connection.read'', ''connection.write'', ''diagnostic.read'', ''folder_access.read'', ''folder_access.write'',
     ''mcp_gateway.write'', ''operator_mount.write_grant'', ''quarantine.read'', ''quarantine.write'',
     ''site.inspect'', ''site.trust.write'', ''ui.read'', ''ui.write'']"

definition recognizesCapability :: "('f, 'w) exec_env \<Rightarrow> string \<Rightarrow> bool" where
  "recognizesCapability xe capabilityName =
     (Registry_Has (registry_snapshot xe) capabilityName \<or> capabilityName \<in> set control_capability_names)"

definition filterGrantedCapabilities :: "('f, 'w) exec_env \<Rightarrow> string list \<Rightarrow> string list \<times> string list" where
  "filterGrantedCapabilities xe requested =
     (filter (recognizesCapability xe) requested, filter (\<lambda>c. \<not> recognizesCapability xe c) requested)"

section \<open>Retiring a session\<close>

text \<open>Duration.Round to seconds, half away from zero, as whole seconds.\<close>

definition round_seconds :: "duration \<Rightarrow> int" where
  "round_seconds d = (let a = \<bar>d\<bar>; q = a div nano_second;
     up = (if 2 * (a mod nano_second) < nano_second then q else q + 1);
     q' = (if up * nano_second > 2 ^ 63 - 1 then (2 ^ 63 - 1) div nano_second else up)
   in if d < 0 then - q' else q')"

definition session_tokens :: "string \<Rightarrow> ('f, 'w) server \<Rightarrow> (string, capability_token) gomap" where
  "session_tokens controlSessionID s = mfilter (\<lambda>_ t. ct_ControlSessionID t = controlSessionID) (tokens s)"

definition put_entries :: "('k, 'v) gomap \<Rightarrow> ('k, 'v) gomap \<Rightarrow> ('k, 'v) gomap" where
  "put_entries src m = fold (\<lambda>(k, v) m. mput k v m) src m"

definition retirement_data :: "control_session \<Rightarrow> string \<Rightarrow> nat \<Rightarrow> gotime \<Rightarrow> gdata \<Rightarrow> gdata" where
  "retirement_data session controlSessionID retiredTokens closedAtUTC extra = put_entries extra
     ([(''actor_label'', GString (cs_ActorLabel session)), (''client_session_label'', GString (cs_ClientSessionLabel session)),
       (''control_session_id'', GString controlSessionID),
       (''requested_capabilities'', GInt (int (length (RequestedCapabilities session)))),
       (''retired_token_count'', GInt (int retiredTokens)), (''peer_uid'', GInt (UID (cs_PeerIdentity session))),
       (''peer_pid'', GInt (PID (cs_PeerIdentity session))), (''peer_epid'', GInt (EPID (cs_PeerIdentity session))),
       (''tenant_id'', GString (cs_TenantID session)), (''user_id'', GString (cs_UserID session))] @
      (if cs_CreatedAt session = 0 then []
       else [(''lifetime_seconds'', GInt (round_seconds (time_sub closedAtUTC (cs_CreatedAt session))))]))"

text \<open>What is taken out of the tables, and putting it back.\<close>

definition remove_session :: "string \<Rightarrow> control_session \<Rightarrow> ('f, 'w) server \<Rightarrow> ('f, 'w) server" where
  "remove_session controlSessionID session s = s\<lparr>sessions := mdel controlSessionID (sessions s),
     tokenIndex := mdel (TokenHash (ApprovalToken session)) (tokenIndex s),
     sessionReadCounts := mdel controlSessionID (sessionReadCounts s),
     tokens := mfilter (\<lambda>_ t. ct_ControlSessionID t \<noteq> controlSessionID) (tokens s)\<rparr>"

definition restore_session :: "string \<Rightarrow> control_session \<Rightarrow> gotime list option \<Rightarrow> (string, capability_token) gomap \<Rightarrow>
    ('f, 'w) server \<Rightarrow> ('f, 'w) server" where
  "restore_session controlSessionID session readCounts toks s = s\<lparr>sessions := mput controlSessionID session (sessions s),
     tokenIndex := mput (TokenHash (ApprovalToken session)) controlSessionID (tokenIndex s),
     sessionReadCounts := (case readCounts of None \<Rightarrow> sessionReadCounts s
       | Some ts \<Rightarrow> mput controlSessionID ts (sessionReadCounts s)),
     tokens := put_entries toks (tokens s)\<rparr>"

definition retireControlSession :: "('io, 'f) server_env \<Rightarrow> string \<Rightarrow> gotime \<Rightarrow> string \<Rightarrow> gdata \<Rightarrow> ('f, 'w) server \<Rightarrow>
    (ledger_error option \<times> ('f, 'w) server) option" where
  "retireControlSession env controlSessionID closedAtUTC eventType extra s = do {
     (taken, s) \<leftarrow> with_mu (\<lambda>s. Some (case map_of (sessions s) controlSessionID of
         None \<Rightarrow> (None, s)
       | Some session \<Rightarrow> (Some (session, session_tokens controlSessionID s, map_of (sessionReadCounts s) controlSessionID),
           remove_session controlSessionID session s))) s;
     (case taken of
        None \<Rightarrow> Some (None, s)
      | Some (session, toks, readCounts) \<Rightarrow> do {
          (e, s) \<leftarrow> logEvent env eventType controlSessionID
            (retirement_data session controlSessionID (length toks) closedAtUTC extra) s;
          (case e of
             None \<Rightarrow> Some (None, s)
           | Some err \<Rightarrow> with_mu (\<lambda>s. Some (Some err, restore_session controlSessionID session readCounts toks s)) s) }) }"

datatype recovery_error = ProcessCheckFailed string | CancelFailed cancel_error | RetireFailed ledger_error

definition retireOrphanedControlSession :: "('io, 'f) server_env \<Rightarrow> string \<Rightarrow> ('f, 'w) server \<Rightarrow>
    (recovery_error option \<times> ('f, 'w) server) option" where
  "retireOrphanedControlSession env controlSessionID s = do {
     (e, s) \<leftarrow> cancelPendingApprovalsForControlSession env controlSessionID
       ''parent control session process is no longer alive'' s;
     (case e of
        Some c \<Rightarrow> Some (Some (CancelFailed c), s)
      | None \<Rightarrow> (let (retiredAtUTC, s) = server_now env s in do {
          (e, s) \<leftarrow> retireControlSession env controlSessionID retiredAtUTC ''session.orphan_retired''
            [(''retirement_reason'', GString ''peer_process_missing''),
             (''retired_at_utc'', GString (rfc3339nano retiredAtUTC))] s;
          Some (map_option RetireFailed e, s) })) }"

text \<open>Candidates are visited in the order of their creation, then of their id.\<close>

definition older :: "control_session \<Rightarrow> control_session \<Rightarrow> bool" where
  "older a b = (if cs_CreatedAt a \<noteq> cs_CreatedAt b then cs_CreatedAt a < cs_CreatedAt b else str_less (cs_ID a) (cs_ID b))"

fun insert_candidate :: "control_session \<Rightarrow> control_session list \<Rightarrow> control_session list" where
  "insert_candidate x [] = [x]"
| "insert_candidate x (y # ys) = (if older y x then y # insert_candidate x ys else x # y # ys)"

fun retire_dead :: "('io, 'f) server_env \<Rightarrow> (nat \<Rightarrow> int \<Rightarrow> bool result) \<Rightarrow> control_session list \<Rightarrow> ('f, 'w) server \<Rightarrow>
    (recovery_error option \<times> ('f, 'w) server) option" where
  "retire_dead env alive [] s = Some (None, s)"
| "retire_dead env alive (x # xs) s = (let answer = alive (ticks s) (PID (cs_PeerIdentity x)); s = s\<lparr>ticks := Suc (ticks s)\<rparr> in
     case answer of
       Inl e \<Rightarrow> Some (Some (ProcessCheckFailed e), s)
     | Inr True \<Rightarrow> retire_dead env alive xs s
     | Inr False \<Rightarrow> do {
         (e, s) \<leftarrow> retireOrphanedControlSession env (cs_ID x) s;
         (case e of Some _ \<Rightarrow> Some (e, s) | None \<Rightarrow> retire_dead env alive xs s) })"

definition retireDeadPeerSessionsForUID :: "('io, 'f) server_env \<Rightarrow> session_env \<Rightarrow> int \<Rightarrow> ('f, 'w) server \<Rightarrow>
    (recovery_error option \<times> ('f, 'w) server) option" where
  "retireDeadPeerSessionsForUID env se peerUID s = (case processExists se of
     None \<Rightarrow> Some (None, s)
   | Some alive \<Rightarrow> do {
       (candidates, s) \<leftarrow> with_mu (\<lambda>s0. let s = pruneExpiredLocked env s0 in
         Some (filter (\<lambda>x. UID (cs_PeerIdentity x) = peerUID) (map snd (sessions s)), s)) s;
       retire_dead env alive (foldr insert_candidate candidates []) s })"

section \<open>Opening a session\<close>

text \<open>The checks of the request itself: what they establish, or the reply.\<close>

record open_plan =
  op_Actor :: string
  op_SessionID :: string
  op_WorkspaceID :: string
  op_Mounts :: "string list"
  op_Primary :: string
  op_Requested :: "string list"
  op_Granted :: "string list"

definition refuse :: "int \<Rightarrow> string \<Rightarrow> string \<Rightarrow> http_reply" where
  "refuse status reason code = JSONReply status (denied [] reason code)"

definition requested_plan :: "session_env \<Rightarrow> open_session_request \<Rightarrow> http_reply + open_plan" where
  "requested_plan se r0 = (let
     r = r0\<lparr>or_Actor := trim_space (or_Actor r0), or_SessionID := trim_space (or_SessionID r0),
       or_RequestedCapabilities := normalizedCapabilityList (or_RequestedCapabilities r0)\<rparr> in
     case first_error [OpenSessionRequest_Validate r,
       ValidateSafeIdentifier ''actor'' (defaultLabel (or_Actor r) ''client''),
       ValidateSafeIdentifier ''session_id'' (defaultLabel (or_SessionID r) ''session'')] of
       Some e \<Rightarrow> Inl (malformed e)
     | None \<Rightarrow> (case normalizeOperatorMountPathsForSession se (or_Actor r) (or_OperatorMountPaths r) of
         Inl e \<Rightarrow> Inl (malformed e)
       | Inr mounts \<Rightarrow> (case normalizePrimaryOperatorMountPathForSession se (or_Actor r) (or_PrimaryOperatorMountPath r) mounts of
           Inl e \<Rightarrow> Inl (malformed e)
         | Inr primary \<Rightarrow> Inr \<lparr>op_Actor = or_Actor r, op_SessionID = or_SessionID r, op_WorkspaceID = or_WorkspaceID r,
             op_Mounts = mounts, op_Primary = primary, op_Requested = or_RequestedCapabilities r, op_Granted = []\<rparr>)))"

definition granted_plan :: "('f, 'w) exec_env \<Rightarrow> open_plan \<Rightarrow> http_reply + open_plan" where
  "granted_plan xe p = (let (granted, unknown) = filterGrantedCapabilities xe (op_Requested p) in
     if op_Requested p = [] then Inl (refuse 403 ''requested_capabilities must not be empty'' ''capability_scope_required'')
     else if unknown \<noteq> [] then Inl (refuse 403 (''unknown capabilities requested: '' @ join_with '', '' unknown)
       ''capability_token_scope_denied'')
     else if granted = [] then Inl (refuse 403 ''no requested capabilities are available'' ''capability_scope_required'')
     else Inr (p\<lparr>op_Granted := granted\<rparr>))"

text \<open>The connecting process must be the pinned executable; mounts need a pin.\<close>

definition check_pin :: "session_env \<Rightarrow> open_plan \<Rightarrow> peer_identity \<Rightarrow> ('f, 'w) server \<Rightarrow> http_reply option \<times> ('f, 'w) server" where
  "check_pin se p peer s =
    (if op_Mounts p \<noteq> [] \<and> blank (expectedClientPath se)
     then (Some (refuse 403 ''operator mount binding requires expected client executable pinning'' ''control_session_binding_invalid''), s)
     else if expectedClientPath se = [] then (None, s)
     else (case resolveExePath se of
         None \<Rightarrow> (Some (refuse 403 ''cannot resolve connecting process executable'' ''process_binding_rejected''), s)
       | Some resolve \<Rightarrow> (case resolve (ticks s) (PID peer) of
           Inl _ \<Rightarrow> (Some (refuse 403 ''cannot resolve connecting process executable'' ''process_binding_rejected''),
             s\<lparr>ticks := Suc (ticks s)\<rparr>)
         | Inr exe \<Rightarrow> (if normalizeSessionExecutablePinPath exe \<noteq> expectedClientPath se
             then Some (refuse 403 ''connecting process does not match expected client executable'' ''process_binding_rejected'')
             else None, s\<lparr>ticks := Suc (ticks s)\<rparr>))))"

text \<open>The limits; a session that will be replaced does not count.\<close>

definition replaced_session :: "int \<Rightarrow> string \<Rightarrow> ('f, 'w) server \<Rightarrow> (string \<times> control_session) option" where
  "replaced_session peerUID clientLabel s =
     find (\<lambda>(_, x). UID (cs_PeerIdentity x) = peerUID \<and> cs_ClientSessionLabel x = clientLabel) (sessions s)"

definition activeSessionsForPeerUIDLocked :: "int \<Rightarrow> ('f, 'w) server \<Rightarrow> int" where
  "activeSessionsForPeerUIDLocked peerUID s = int (length (filter (\<lambda>(_, x). UID (cs_PeerIdentity x) = peerUID) (sessions s)))"

text \<open>Duration.String of a duration rounded to milliseconds.\<close>

definition duration_text :: "duration \<Rightarrow> string" where
  "duration_text d = (let a = \<bar>d\<bar>; u = 1000000; q = a div u; ms = (if 2 * (a mod u) < u then q else q + 1);
     frac = (if ms mod 1000 = 0 then []
       else CHR ''.'' # rev (dropWhile (\<lambda>c. c = CHR ''0'') (rev (drop 1 (int_str (1000 + ms mod 1000))))));
     secs = ms div 1000; m = secs div 60; h = m div 60;
     body = (if ms = 0 then ''0s''
       else if ms < 1000 then int_str ms @ ''ms''
       else (if h > 0 then int_str h @ ''h'' else []) @ (if m > 0 then int_str (m mod 60) @ ''m'' else []) @
         int_str (secs mod 60) @ frac @ ''s'')
   in if d < 0 \<and> ms > 0 then CHR ''-'' # body else body)"

definition limit_refusal :: "('io, 'f) server_env \<Rightarrow> int \<Rightarrow> bool \<Rightarrow> gotime \<Rightarrow> ('f, 'w) server \<Rightarrow> http_reply option" where
  "limit_refusal env peerUID replacing nowUTC s = (let
     credit = (if replacing then 1 else 0);
     active = activeSessionsForPeerUIDLocked peerUID s - credit;
     total = int (length (sessions s)) - credit;
     lastOpened = (case map_of (openByUID s) peerUID of None \<Rightarrow> 0 | Some t \<Rightarrow> t);
     elapsed = time_sub nowUTC lastOpened in
     if maxTotalControlSessions env > 0 \<and> total \<ge> maxTotalControlSessions env
     then Some (refuse 429 ''control-plane session store is at capacity'' ''control_plane_state_saturated'')
     else if maxActiveSessionsPerUID env > 0 \<and> active \<ge> maxActiveSessionsPerUID env
     then Some (refuse 429 ''active control session limit reached for this peer identity'' ''session_active_limit_reached'')
     else if sessionOpenMinInterval env > 0 \<and> lastOpened \<noteq> 0 \<and> elapsed < sessionOpenMinInterval env
     then Some (refuse 429 (''session open rate limit exceeded; retry after '' @
         duration_text (sessionOpenMinInterval env - elapsed)) ''session_open_rate_limited'')
     else None)"

fun mint_all :: "('io, 'f) server_env \<Rightarrow> (nat \<times> string) list \<Rightarrow> ('f, 'w) server \<Rightarrow> (http_reply + string list) \<times> ('f, 'w) server" where
  "mint_all env [] s = (Inr [], s)"
| "mint_all env ((n, reason) # ms) s = (case randomHex env n s of
     (Inl _, s) \<Rightarrow> (Inl (JSONReply 500 (failed [] reason ''capability_execution_failed'')), s)
   | (Inr x, s) \<Rightarrow> (case mint_all env ms s of (Inl r, s) \<Rightarrow> (Inl r, s) | (Inr xs, s) \<Rightarrow> (Inr (x # xs), s)))"

definition session_secrets :: "(nat \<times> string) list" where
  "session_secrets = [(16, ''failed to create control session''), (24, ''failed to mint capability token''),
     (24, ''failed to mint approval token''), (8, ''failed to mint approval token identifier''),
     (8, ''failed to mint token identifier'')]"

definition new_session :: "session_env \<Rightarrow> open_plan \<Rightarrow> peer_identity \<Rightarrow> gotime \<Rightarrow> string list \<Rightarrow> string \<Rightarrow> control_session" where
  "new_session se p peer nowUTC ids macKey = \<lparr>cs_ID = ids ! 0, cs_ActorLabel = defaultLabel (op_Actor p) ''client'',
     cs_ClientSessionLabel = defaultLabel (op_SessionID p) ''session'', cs_WorkspaceID = deriveWorkspaceIDFromRepoRoot se,
     OperatorMountPaths = op_Mounts p, PrimaryOperatorMountPath = op_Primary p, OperatorMountWriteGrants = [],
     RequestedCapabilities = capabilitySet (op_Granted p), ApprovalToken = ids ! 2, ApprovalTokenID = ids ! 3,
     SessionMACKey = macKey, cs_PeerIdentity = peer, cs_TenantID = trim_space (DeploymentTenantID se),
     cs_UserID = trim_space (DeploymentUserID se), cs_ExpiresAt = nowUTC + sessionTTL, cs_CreatedAt = nowUTC\<rparr>"

definition new_token :: "control_session \<Rightarrow> string list \<Rightarrow> capability_token" where
  "new_token x ids = \<lparr>TokenID = ids ! 4, Token = ids ! 1, ct_ControlSessionID = cs_ID x, ct_ActorLabel = cs_ActorLabel x,
     ct_ClientSessionLabel = cs_ClientSessionLabel x, ct_AllowedCapabilities = RequestedCapabilities x,
     ct_PeerIdentity = cs_PeerIdentity x, ct_TenantID = cs_TenantID x, ct_UserID = cs_UserID x,
     ct_ExpiresAt = cs_ExpiresAt x, SingleUse = False, ApprovedExecution = False, BoundCapability = [],
     BoundArgumentHash = [], ParentTokenID = []\<rparr>"

definition drop_replaced :: "(string \<times> control_session) option \<Rightarrow> (string, capability_token) gomap \<Rightarrow> ('f, 'w) server \<Rightarrow>
    ('f, 'w) server" where
  "drop_replaced replaced toks s = (case replaced of None \<Rightarrow> s
     | Some (sid, x) \<Rightarrow> s\<lparr>tokens := fold mdel (map fst toks) (tokens s),
         tokenIndex := mdel (TokenHash (ApprovalToken x)) (tokenIndex s), sessions := mdel sid (sessions s)\<rparr>)"

definition add_session :: "('io, 'f) server_env \<Rightarrow> control_session \<Rightarrow> capability_token \<Rightarrow> ('f, 'w) server \<Rightarrow> ('f, 'w) server" where
  "add_session env x tok s = noteExpiryCandidateLocked env (cs_ExpiresAt x)
     (s\<lparr>sessions := mput (cs_ID x) x (sessions s), tokens := mput (Token tok) tok (tokens s),
        tokenIndex := mput (TokenHash (ApprovalToken x)) (cs_ID x) (tokenIndex s),
        openByUID := mput (UID (cs_PeerIdentity x)) (cs_CreatedAt x) (openByUID s)\<rparr>)"

text \<open>What the critical section did, so that it can be taken back.\<close>

record opened =
  on_session :: control_session
  on_token :: capability_token
  on_replaced :: "(string \<times> control_session) option"
  on_replaced_tokens :: "(string, capability_token) gomap"
  on_previous_open :: "gotime option"

definition open_locked :: "('io, 'f) server_env \<Rightarrow> session_env \<Rightarrow> open_plan \<Rightarrow> peer_identity \<Rightarrow> gotime \<Rightarrow> ('f, 'w) server \<Rightarrow>
    (http_reply + opened) \<times> ('f, 'w) server" where
  "open_locked env se p peer nowUTC s0 = (let s = pruneExpiredLocked env s0;
     replaced = replaced_session (UID peer) (defaultLabel (op_SessionID p) ''session'') s;
     toks = (case replaced of None \<Rightarrow> [] | Some (sid, _) \<Rightarrow> session_tokens sid s) in
     case limit_refusal env (UID peer) (replaced \<noteq> None) nowUTC s of
       Some reply \<Rightarrow> (Inl reply, s)
     | None \<Rightarrow> (case mint_all env session_secrets s of
         (Inl reply, s) \<Rightarrow> (Inl reply, s)
       | (Inr ids, s) \<Rightarrow> (let (epochTime, s) = server_now env s;
           x = new_session se p peer nowUTC ids (DerivedSessionMACKeyForControlSessionAtEpoch
             (sessionMACRotationMaster env) (ids ! 0) (SessionMACEpochIndexAt epochTime));
           tok = new_token x ids
         in (Inr \<lparr>on_session = x, on_token = tok, on_replaced = replaced, on_replaced_tokens = toks,
               on_previous_open = map_of (openByUID s) (UID peer)\<rparr>,
             add_session env x tok (drop_replaced replaced toks s)))))"

definition undo_open :: "opened \<Rightarrow> ('f, 'w) server \<Rightarrow> ('f, 'w) server" where
  "undo_open o1 s0 = (let x = on_session o1; uid = UID (cs_PeerIdentity x);
     s1 = s0\<lparr>sessions := mdel (cs_ID x) (sessions s0), tokens := mdel (Token (on_token o1)) (tokens s0),
       tokenIndex := mdel (TokenHash (ApprovalToken x)) (tokenIndex s0)\<rparr>;
     s2 = (case on_replaced o1 of None \<Rightarrow> s1
       | Some (sid, r) \<Rightarrow> s1\<lparr>sessions := mput sid r (sessions s1),
           tokens := put_entries (on_replaced_tokens o1) (tokens s1),
           tokenIndex := mput (TokenHash (ApprovalToken r)) sid (tokenIndex s1)\<rparr>)
   in s2\<lparr>openByUID := (case on_previous_open o1 of None \<Rightarrow> mdel uid (openByUID s2)
        | Some t \<Rightarrow> mput uid t (openByUID s2))\<rparr>)"

definition opened_data :: "open_plan \<Rightarrow> opened \<Rightarrow> gdata" where
  "opened_data p o1 = (let x = on_session o1 in
     [(''actor_label'', GString (cs_ActorLabel x)), (''client_session_label'', GString (cs_ClientSessionLabel x)),
      (''control_session_id'', GString (cs_ID x)), (''workspace_id'', GString (cs_WorkspaceID x)),
      (''operator_mount_count'', GInt (int (length (op_Mounts p)))),
      (''requested_capability_count'', GInt (int (length (op_Requested p)))),
      (''granted_capability_count'', GInt (int (length (op_Granted p)))), (''token_id'', GString (TokenID (on_token o1))),
      (''approval_token_id'', GString (ApprovalTokenID x)), (''peer_uid'', GInt (UID (cs_PeerIdentity x))),
      (''peer_pid'', GInt (PID (cs_PeerIdentity x))), (''peer_epid'', GInt (EPID (cs_PeerIdentity x))),
      (''expires_at_utc'', GString (rfc3339nano (cs_ExpiresAt x)))])"

definition open_session :: "('io, 'f) server_env \<Rightarrow> session_env \<Rightarrow> open_plan \<Rightarrow> peer_identity \<Rightarrow> gotime \<Rightarrow> ('f, 'w) server \<Rightarrow>
    (http_reply \<times> ('f, 'w) server) option" where
  "open_session env se p peer nowUTC s = do {
     (locked, s) \<leftarrow> with_mu (\<lambda>s. Some (open_locked env se p peer nowUTC s)) s;
     (case locked of
        Inl reply \<Rightarrow> Some (reply, s)
      | Inr o1 \<Rightarrow> do {
          (e, s) \<leftarrow> logEvent env ''session.opened'' (cs_ID (on_session o1)) (opened_data p o1) s;
          (case e of
             Some _ \<Rightarrow> with_mu (\<lambda>s. Some (audit_unavailable_reply, undo_open o1 s)) s
           | None \<Rightarrow> Some (OpenedReply 200 \<lparr>os_ControlSessionID = cs_ID (on_session o1),
               os_CapabilityToken = Token (on_token o1), os_ApprovalToken = ApprovalToken (on_session o1),
               os_SessionMACKey = SessionMACKey (on_session o1),
               os_ExpiresAtUTC = rfc3339nano (cs_ExpiresAt (on_session o1))\<rparr>, s)) }) }"

definition open_for_peer :: "('io, 'f) server_env \<Rightarrow> session_env \<Rightarrow> open_plan \<Rightarrow> peer_identity \<Rightarrow> ('f, 'w) server \<Rightarrow>
    (http_reply \<times> ('f, 'w) server) option" where
  "open_for_peer env se p peer s = (case check_pin se p peer s of
     (Some reply, s) \<Rightarrow> Some (reply, s)
   | (None, s) \<Rightarrow> (let (nowUTC, s) = server_now env s in
       if \<not> blank (op_WorkspaceID p) \<and> trim_space (op_WorkspaceID p) \<noteq> deriveWorkspaceIDFromRepoRoot se
       then Some (refuse 403 ''workspace binding does not match this Loopgate runtime'' ''control_session_binding_invalid'', s)
       else do {
         (e, s) \<leftarrow> retireDeadPeerSessionsForUID env se (UID peer) s;
         (case e of
            Some _ \<Rightarrow> Some (JSONReply 503 (failed [] ''control-plane orphan session recovery failed'' ''capability_execution_failed''), s)
          | None \<Rightarrow> open_session env se p peer nowUTC s) }))"

definition handleSessionOpen :: "('io, 'f) server_env \<Rightarrow> ('f, 'w) exec_env \<Rightarrow> session_env \<Rightarrow> http_request \<Rightarrow>
    ('f, 'w) server \<Rightarrow> (http_reply \<times> ('f, 'w) server) option" where
  "handleSessionOpen env xe se request s =
    (if Method request \<noteq> ''POST'' then Some (method_not_allowed, s)
     else (case bindr (Body request) (decode_open se) of
         Inl e \<Rightarrow> Some (malformed e, s)
       | Inr r \<Rightarrow> (case bindr (requested_plan se r) (granted_plan xe) of
           Inl reply \<Rightarrow> Some (reply, s)
         | Inr p \<Rightarrow> (case Peer request of
             None \<Rightarrow> Some (refuse 401 ''missing authenticated peer identity'' ''capability_token_invalid'', s)
           | Some peer \<Rightarrow> open_for_peer env se p peer s))))"

section \<open>Closing a session\<close>

text \<open>The number of pending approvals of a session that exists.\<close>

definition pending_at_close :: "('io, 'f) server_env \<Rightarrow> string \<Rightarrow> ('f, 'w) server \<Rightarrow> int option \<times> ('f, 'w) server" where
  "pending_at_close env controlSessionID s0 = (let s = pruneExpiredLocked env s0 in
     (case map_of (sessions s) controlSessionID of None \<Rightarrow> None
      | Some _ \<Rightarrow> Some (countPendingApprovalsForSessionLocked s controlSessionID), s))"

definition close_session :: "('io, 'f) server_env \<Rightarrow> string \<Rightarrow> ('f, 'w) server \<Rightarrow> (http_reply \<times> ('f, 'w) server) option" where
  "close_session env controlSessionID s = (let (closedAtUTC, s) = server_now env s in do {
     (pendingCount, s) \<leftarrow> with_mu (\<lambda>s. Some (pending_at_close env controlSessionID s)) s;
     (case pendingCount of
        None \<Rightarrow> Some (JSONReply 401 (token_invalid ''invalid capability token''), s)
      | Some n \<Rightarrow> if n > 0 then Some (refuse 409 (''control session has '' @ int_str n @
            '' pending approvals; resolve or wait for them before closing the session'') ''session_close_blocked'', s)
          else do {
            (e, s) \<leftarrow> retireControlSession env controlSessionID closedAtUTC ''session.closed''
              [(''closed_at_utc'', GString (rfc3339nano closedAtUTC))] s;
            Some (if e \<noteq> None then audit_unavailable_reply
              else ClosedReply 200 \<lparr>cl_Status = ResponseStatusSuccess, cl_ControlSessionID = controlSessionID,
                cl_ClosedAtUTC = rfc3339nano closedAtUTC\<rparr>, s) }) })"

definition handleSessionClose :: "('io, 'f) server_env \<Rightarrow> ('f, 'w) exec_env \<Rightarrow> http_request \<Rightarrow> ('f, 'w) server \<Rightarrow>
    (http_reply \<times> ('f, 'w) server) option" where
  "handleSessionClose env xe request s =
    (if Method request \<noteq> ''POST'' then Some (method_not_allowed, s)
     else do {
       (who, s) \<leftarrow> authenticate env (unicode_lower (approvals_env xe)) request s;
       (case who of
          Inl reply \<Rightarrow> Some (reply, s)
        | Inr claims \<Rightarrow> do {
            (denial, s) \<leftarrow> verifySignedRequestWithoutBody env request (ct_ControlSessionID claims) s;
            (case denial of
               Some d \<Rightarrow> Some (signature_refused d, s)
             | None \<Rightarrow> close_session env (ct_ControlSessionID claims) s) }) })"

end
