(* ===== verification/PlaneSpec.thy ===== *)
theory PlaneSpec
  imports Replay ApprovalModel
begin

text \<open>
  What the control plane promises whatever its goroutines interleave: an event system on the parts of
  the state that decide whether something happens twice. A plane is the number of interactions so far,
  the three replay tables (with the instant of each entry) and the states of the approvals. Its events
  are what the handlers do to them; everything else is \<open>Internal\<close>. ControlRefinement shows that the
  handlers implement it.
\<close>

section \<open>The event system\<close>

record plane =
  p_now :: nat
  p_requests :: "string \<Rightarrow> gotime option"
  p_nonces :: "string \<Rightarrow> gotime option"
  p_used :: "string \<Rightarrow> gotime option"
  p_approvals :: "string \<Rightarrow> string option"

datatype control_event = Internal
  | RequestAccepted string gotime | NonceAccepted string gotime | NonceForgotten string
  | TokenSpent string gotime | ApprovalMinted string | ApprovalGranted string

text \<open>A sweep at the instant \<open>now\<close> drops entries that have left the window.\<close>

definition dropped :: "duration \<Rightarrow> gotime \<Rightarrow> ('k \<Rightarrow> gotime option) \<Rightarrow> ('k \<Rightarrow> gotime option) \<Rightarrow> bool" where
  "dropped window now m m' = (\<forall>k. m' k = m k \<or> m' k = None \<and> (\<forall>t. m k = Some t \<longrightarrow> time_sub now t > window))"

definition swept :: "('k \<Rightarrow> string option) \<Rightarrow> ('k \<Rightarrow> string option) \<Rightarrow> bool" where
  "swept m m' = (\<forall>k. m' k = m k \<or> m k = Some StatePending \<and> m' k = Some StateExpired
     \<or> m k \<noteq> Some StatePending \<and> m' k = None)"

inductive plane_step :: "duration \<Rightarrow> (nat \<Rightarrow> gotime) \<Rightarrow> control_event \<Rightarrow> plane \<Rightarrow> plane \<Rightarrow> bool"
  for window :: duration and c :: "nat \<Rightarrow> gotime" where
  wait: "p_now p \<le> n \<Longrightarrow> plane_step window c Internal p (p\<lparr>p_now := n\<rparr>)"
| expire: "dropped window (c (p_now p)) (p_requests p) r \<Longrightarrow> dropped window (c (p_now p)) (p_nonces p) m \<Longrightarrow>
    dropped window (c (p_now p)) (p_used p) u \<Longrightarrow> swept (p_approvals p) a \<Longrightarrow>
    plane_step window c Internal p
      \<lparr>p_now = Suc (p_now p), p_requests = r, p_nonces = m, p_used = u, p_approvals = a\<rparr>"
| accept_request: "p_requests p k = None \<Longrightarrow> t = c (p_now p) \<Longrightarrow> plane_step window c (RequestAccepted k t) p
    (p\<lparr>p_now := Suc (p_now p), p_requests := (p_requests p)(k \<mapsto> t)\<rparr>)"
| accept_nonce: "p_nonces p k = None \<Longrightarrow> t = c (p_now p) \<Longrightarrow> plane_step window c (NonceAccepted k t) p
    (p\<lparr>p_now := Suc (p_now p), p_nonces := (p_nonces p)(k \<mapsto> t)\<rparr>)"
| forget_nonce: "plane_step window c (NonceForgotten k) p (p\<lparr>p_nonces := (p_nonces p)(k := None)\<rparr>)"
| spend: "p_used p k = None \<Longrightarrow> t = c (p_now p) \<Longrightarrow> plane_step window c (TokenSpent k t) p
    (p\<lparr>p_now := Suc (p_now p), p_used := (p_used p)(k \<mapsto> t)\<rparr>)"
| mint: "plane_step window c (ApprovalMinted k) p (p\<lparr>p_approvals := (p_approvals p)(k \<mapsto> StatePending)\<rparr>)"
| withdraw: "plane_step window c Internal p (p\<lparr>p_approvals := (p_approvals p)(k := None)\<rparr>)"
| settle: "p_approvals p k = Some st \<Longrightarrow> ValidateStateTransition st st' = None \<Longrightarrow> st' \<noteq> StatePending \<Longrightarrow> st' \<noteq> StateConsumed \<Longrightarrow>
    plane_step window c Internal p (p\<lparr>p_approvals := (p_approvals p)(k \<mapsto> st')\<rparr>)"
| grant: "p_approvals p k = Some StatePending \<Longrightarrow>
    plane_step window c (ApprovalGranted k) p (p\<lparr>p_approvals := (p_approvals p)(k \<mapsto> StateConsumed)\<rparr>)"

inductive_cases plane_stepE: "plane_step window c e p q"

inductive plane_run :: "duration \<Rightarrow> (nat \<Rightarrow> gotime) \<Rightarrow> control_event list \<Rightarrow> plane \<Rightarrow> plane \<Rightarrow> bool"
  for window :: duration and c :: "nat \<Rightarrow> gotime" where
  stop: "plane_run window c [] p p"
| step: "plane_step window c e p q \<Longrightarrow> plane_run window c es q r \<Longrightarrow> plane_run window c (e # es) p r"

inductive_simps plane_run_simps [simp]: "plane_run window c [] p q" "plane_run window c (e # es) p q"

lemma plane_run_append:
  "plane_run window c (xs @ ys) p r \<longleftrightarrow> (\<exists>q. plane_run window c xs p q \<and> plane_run window c ys q r)"
  by (induction xs arbitrary: p) auto

lemma plane_run_snoc:
  "plane_run window c es p q \<Longrightarrow> plane_step window c e q r \<Longrightarrow> plane_run window c (es @ [e]) p r"
  by (auto simp: plane_run_append)

lemma plane_run_trans:
  "plane_run window c xs p q \<Longrightarrow> plane_run window c ys q r \<Longrightarrow> plane_run window c (xs @ ys) p r"
  by (auto simp: plane_run_append)

section \<open>Entries that expire\<close>

text \<open>Once an instant has left the window it stays outside, if the clock never goes back.\<close>

definition gone :: "duration \<Rightarrow> (nat \<Rightarrow> gotime) \<Rightarrow> nat \<Rightarrow> gotime \<Rightarrow> bool" where
  "gone window c n t = (mono c \<longrightarrow> (\<forall>m\<ge>n. time_sub (c m) t > window))"

lemma goneI: "time_sub (c n) t > window \<Longrightarrow> n \<le> m \<Longrightarrow> gone window c m t"
  unfolding gone_def using time_sub_mono monoD by (meson le_trans less_le_trans)

lemma gone_later: "gone window c n t \<Longrightarrow> n \<le> m \<Longrightarrow> gone window c m t"
  by (simp add: gone_def)

lemma dropped_keeps: "dropped window now m m' \<Longrightarrow> m k = Some t \<Longrightarrow> m' k = Some t \<or> time_sub now t > window"
  by (auto simp: dropped_def) (metis option.distinct(1))

lemma plane_step_now: "plane_step window c e p q \<Longrightarrow> p_now p \<le> p_now q"
  by (cases rule: plane_step.cases) auto

lemma plane_run_now: "plane_run window c es p q \<Longrightarrow> p_now p \<le> p_now q"
  by (induction es arbitrary: p) (auto dest!: plane_step_now intro: order_trans)

text \<open>
  The contract of a replay table of the plane: entering a key needs that it is absent and notes the
  instant, and an entry stays until it has left the window or is taken back.
\<close>

locale timed_table =
  fixes window :: duration and c :: "nat \<Rightarrow> gotime"
    and table :: "plane \<Rightarrow> string \<Rightarrow> gotime option"
    and entered :: "control_event \<Rightarrow> (string \<times> gotime) option"
    and forgets :: "control_event \<Rightarrow> string \<Rightarrow> bool"
  assumes enter_absent: "plane_step window c e p q \<Longrightarrow> entered e = Some (k, t) \<Longrightarrow> table p k = None"
    and enter_present: "plane_step window c e p q \<Longrightarrow> entered e = Some (k, t) \<Longrightarrow> table q k = Some t"
    and enter_now: "plane_step window c e p q \<Longrightarrow> entered e = Some (k, t) \<Longrightarrow> t = c (p_now p)"
    and entry_stays: "plane_step window c e p q \<Longrightarrow> table p k = Some t \<Longrightarrow> \<not> forgets e k \<Longrightarrow>
        table q k = Some t \<or> gone window c (p_now q) t"
begin

lemma entry_stays_run:
  "plane_run window c es p q \<Longrightarrow> table p k = Some t \<or> gone window c (p_now p) t \<Longrightarrow>
     \<forall>e\<in>set es. \<not> forgets e k \<Longrightarrow> table q k = Some t \<or> gone window c (p_now q) t"
proof (induction es arbitrary: p)
  case (Cons e es)
  then obtain r where r: "plane_step window c e p r" "plane_run window c es r q" by auto
  have "table r k = Some t \<or> gone window c (p_now r) t"
    using Cons.prems entry_stays [OF r(1), of k t] gone_later plane_step_now [OF r(1)] by auto
  with Cons r(2) show ?case by simp
qed auto

lemma entered_apart:
  assumes "plane_run window c (xs @ e1 # ys @ e2 # zs) p q" "entered e1 = Some (k, t1)" "entered e2 = Some (k, t2)"
    and "\<forall>e\<in>set ys. \<not> forgets e k" "mono c"
  shows "time_sub t2 t1 > window"
proof -
  obtain a b d where r: "plane_step window c e1 a b" "plane_run window c ys b d"
    and d: "\<exists>d'. plane_step window c e2 d d'"
    using assms(1) by (auto simp: plane_run_append)
  have "table d k = Some t1 \<or> gone window c (p_now d) t1"
    using entry_stays_run [OF r(2)] enter_present [OF r(1) assms(2)] assms(4) by blast
  with d show ?thesis
    using enter_absent [of e2 d] enter_now [of e2 d] assms(3,5) by (auto simp: gone_def)
qed

end

definition request_of :: "control_event \<Rightarrow> (string \<times> gotime) option" where
  "request_of e = (case e of RequestAccepted k t \<Rightarrow> Some (k, t) | _ \<Rightarrow> None)"

definition nonce_of :: "control_event \<Rightarrow> (string \<times> gotime) option" where
  "nonce_of e = (case e of NonceAccepted k t \<Rightarrow> Some (k, t) | _ \<Rightarrow> None)"

definition token_of :: "control_event \<Rightarrow> (string \<times> gotime) option" where
  "token_of e = (case e of TokenSpent k t \<Rightarrow> Some (k, t) | _ \<Rightarrow> None)"

lemma event_of_simps [simp]:
  "request_of e = Some (k, t) \<longleftrightarrow> e = RequestAccepted k t"
  "nonce_of e = Some (k, t) \<longleftrightarrow> e = NonceAccepted k t"
  "token_of e = Some (k, t) \<longleftrightarrow> e = TokenSpent k t"
  by (auto simp: request_of_def nonce_of_def token_of_def split: control_event.splits)

interpretation requests: timed_table window c p_requests request_of "\<lambda>_ _. False" for window c
  by unfold_locales (auto elim!: plane_stepE dest!: dropped_keeps intro: goneI split: if_splits)

interpretation nonces: timed_table window c p_nonces nonce_of "\<lambda>e k. e = NonceForgotten k" for window c
  by unfold_locales (auto elim!: plane_stepE dest!: dropped_keeps intro: goneI split: if_splits)

interpretation spent: timed_table window c p_used token_of "\<lambda>_ _. False" for window c
  by unfold_locales (auto elim!: plane_stepE dest!: dropped_keeps intro: goneI split: if_splits)

section \<open>Approvals that are settled\<close>

definition settled :: "plane \<Rightarrow> string \<Rightarrow> bool" where
  "settled p k = (p_approvals p k \<noteq> Some StatePending)"

lemma settled_step: "plane_step window c e p q \<Longrightarrow> settled p k \<Longrightarrow> e \<noteq> ApprovalMinted k \<Longrightarrow> settled q k"
  by (erule plane_stepE) (auto simp: settled_def swept_def split: if_splits, metis option.inject option.distinct(1) approval_state_neq(3))

lemma settled_run: "plane_run window c es p q \<Longrightarrow> settled p k \<Longrightarrow> ApprovalMinted k \<notin> set es \<Longrightarrow> settled q k"
  by (induction es arbitrary: p) (auto dest: settled_step)

lemma granted_settles: "plane_step window c (ApprovalGranted k) p q \<Longrightarrow> \<not> settled p k \<and> settled q k"
  by (auto elim!: plane_stepE simp: settled_def)

lemma granted_once_run:
  assumes "plane_run window c (xs @ ApprovalGranted k # ys @ ApprovalGranted k # zs) p q"
  shows "ApprovalMinted k \<in> set ys"
proof -
  obtain a b d d' where r: "plane_step window c (ApprovalGranted k) a b" "plane_run window c ys b d"
    and d: "plane_step window c (ApprovalGranted k) d d'"
    using assms by (auto simp: plane_run_append)
  show ?thesis using settled_run [OF r(2)] granted_settles [OF r(1)] granted_settles [OF d] by blast
qed

end
