(* ===== verification/ControlRefinement.thy ===== *)
theory ControlRefinement
  imports Sessions PlaneSpec
begin

text \<open>
  The handlers implement the control plane of PlaneSpec. \<open>plane_of\<close> is what a server shows of it, and
  \<open>evolves env s0 s\<close> says that s comes from s0 by events of the plane. \<open>after\<close> adds that the lock is
  free again, which is what a handler owes to the next goroutine; its flag says whether the handler
  may block instead.
\<close>

named_theorems evolve and returns

section \<open>Abstraction\<close>

definition plane_of :: "('f, 'w) server \<Rightarrow> plane" where
  "plane_of s = \<lparr>p_now = ticks s, p_requests = (\<lambda>k. map_option sr_SeenAt (map_of (seenRequests s) k)),
     p_nonces = (\<lambda>k. map_option sr_SeenAt (map_of (seenAuthNonces s) k)),
     p_used = (\<lambda>k. map_option ut_ConsumedAt (map_of (usedTokens s) k)),
     p_approvals = (\<lambda>k. map_option pa_State (map_of (records s) k))\<rparr>"

text \<open>Maps of Go have distinct keys.\<close>

definition tables_wf :: "('f, 'w) server \<Rightarrow> bool" where
  "tables_wf s = (map_wf (seenRequests s) \<and> map_wf (seenAuthNonces s) \<and> map_wf (usedTokens s) \<and> map_wf (records s))"

text \<open>An approval id minted on the way was drawn from the random source on the way.\<close>

definition drawn :: "('io, 'f) server_env \<Rightarrow> nat \<Rightarrow> nat \<Rightarrow> string \<Rightarrow> bool" where
  "drawn env m n k = (\<exists>i\<ge>m. i < n \<and> random env i 8 = Inr k)"

lemma drawn_mono: "drawn env m n k \<Longrightarrow> m' \<le> m \<Longrightarrow> n \<le> n' \<Longrightarrow> drawn env m' n' k"
  by (auto simp: drawn_def intro: le_trans less_le_trans)

definition evolves :: "('io, 'f) server_env \<Rightarrow> ('f, 'w) server \<Rightarrow> ('f, 'w) server \<Rightarrow> bool" where
  "evolves env s0 s = (tables_wf s0 \<longrightarrow> tables_wf s \<and>
     (\<exists>es. plane_run requestReplayWindow (clock env) es (plane_of s0) (plane_of s) \<and>
        (\<forall>k. ApprovalMinted k \<in> set es \<longrightarrow> drawn env (ticks s0) (ticks s) k)))"

lemma p_now_plane_of [simp]: "p_now (plane_of s) = ticks s"
  by (simp add: plane_of_def)

lemma evolves_ticks: "evolves env s0 s \<Longrightarrow> tables_wf s0 \<Longrightarrow> ticks s0 \<le> ticks s"
  using plane_run_now [of requestReplayWindow "clock env" _ "plane_of s0" "plane_of s"] by (auto simp: evolves_def)

lemma evolves_refl [intro, evolve]: "evolves env s s"
  by (auto simp: evolves_def intro: exI [of _ "[]"])

lemma evolves_trans:
  assumes "evolves env s0 s1" "evolves env s1 s2"
  shows "evolves env s0 s2"
  unfolding evolves_def
proof
  assume wf: "tables_wf s0"
  with assms(1) obtain es where es: "tables_wf s1" "plane_run requestReplayWindow (clock env) es (plane_of s0) (plane_of s1)"
    "\<forall>k. ApprovalMinted k \<in> set es \<longrightarrow> drawn env (ticks s0) (ticks s1) k" by (auto simp: evolves_def)
  with assms(2) obtain fs where fs: "tables_wf s2" "plane_run requestReplayWindow (clock env) fs (plane_of s1) (plane_of s2)"
    "\<forall>k. ApprovalMinted k \<in> set fs \<longrightarrow> drawn env (ticks s1) (ticks s2) k" by (auto simp: evolves_def)
  have "drawn env (ticks s0) (ticks s2) k" if "ApprovalMinted k \<in> set (es @ fs)" for k
    using that es(3) fs(3) evolves_ticks [OF assms(1) wf] evolves_ticks [OF assms(2) es(1)]
    by (auto elim!: drawn_mono)
  with plane_run_trans [OF es(2) fs(2)] fs(1) show "tables_wf s2 \<and>
     (\<exists>es. plane_run requestReplayWindow (clock env) es (plane_of s0) (plane_of s2) \<and>
        (\<forall>k. ApprovalMinted k \<in> set es \<longrightarrow> drawn env (ticks s0) (ticks s2) k))" by blast
qed

lemma evolves_one:
  assumes "tables_wf s \<Longrightarrow> tables_wf s' \<and> plane_step requestReplayWindow (clock env) e (plane_of s) (plane_of s')"
    and "\<And>k. e = ApprovalMinted k \<Longrightarrow> drawn env (ticks s) (ticks s') k"
  shows "evolves env s s'"
  unfolding evolves_def using assms by (force intro: exI [of _ "[e]"])

lemma evolves_step:
  "evolves env s0 s \<Longrightarrow> (tables_wf s \<Longrightarrow> tables_wf s' \<and> plane_step requestReplayWindow (clock env) e (plane_of s) (plane_of s')) \<Longrightarrow>
     \<forall>k. e \<noteq> ApprovalMinted k \<Longrightarrow> evolves env s0 s'"
  by (rule evolves_trans [of env s0 s s']) (auto intro: evolves_one [of s s' env e])

lemma evolves_same:
  "evolves env s0 s \<Longrightarrow> ticks s \<le> ticks s' \<Longrightarrow> seenRequests s' = seenRequests s \<Longrightarrow>
     seenAuthNonces s' = seenAuthNonces s \<Longrightarrow> usedTokens s' = usedTokens s \<Longrightarrow> records s' = records s \<Longrightarrow>
     evolves env s0 s'"
  using wait [of "plane_of s" "ticks s'" requestReplayWindow "clock env"]
  by (auto intro!: evolves_step [of env s0 s s' Internal] simp: plane_of_def tables_wf_def)

lemma evolves_tick [evolve]: "evolves env s0 s \<Longrightarrow> ticks s \<le> n \<Longrightarrow> evolves env s0 (s\<lparr>ticks := n\<rparr>)"
  by (erule evolves_same) auto

lemma image_mput: "(\<lambda>j. map_option f (map_of (mput k v m) j)) = (\<lambda>j. map_option f (map_of m j))(k \<mapsto> f v)"
  by (rule ext) simp

lemma image_mdel: "(\<lambda>j. map_option f (map_of (mdel k m) j)) = (\<lambda>j. map_option f (map_of m j))(k := None)"
  by (rule ext) simp

text \<open>Each event of the plane, on the server.\<close>

lemma evolves_accept_request:
  assumes "evolves env s0 s" "\<not> mhas (seenRequests s) k" "sr_SeenAt v = clock env (ticks s)"
  shows "evolves env s0 (s\<lparr>ticks := Suc (ticks s), seenRequests := mput k v (seenRequests s)\<rparr>)"
  by (rule evolves_step [of env s0 s _ "RequestAccepted k (sr_SeenAt v)", OF assms(1)])
    (use plane_step.accept_request [of "plane_of s" k "sr_SeenAt v" "clock env" requestReplayWindow] assms
      in \<open>auto simp: plane_of_def tables_wf_def mhas_def image_mput simp del: mget_mput mget_mdel\<close>)

lemma evolves_accept_nonce:
  assumes "evolves env s0 s" "\<not> mhas (seenAuthNonces s) k" "sr_SeenAt v = clock env (ticks s)"
  shows "evolves env s0 (s\<lparr>ticks := Suc (ticks s), seenAuthNonces := mput k v (seenAuthNonces s)\<rparr>)"
  by (rule evolves_step [of env s0 s _ "NonceAccepted k (sr_SeenAt v)", OF assms(1)])
    (use plane_step.accept_nonce [of "plane_of s" k "sr_SeenAt v" "clock env" requestReplayWindow] assms
      in \<open>auto simp: plane_of_def tables_wf_def mhas_def image_mput simp del: mget_mput mget_mdel\<close>)

lemma evolves_forget_nonce [evolve]:
  assumes "evolves env s0 s"
  shows "evolves env s0 (s\<lparr>seenAuthNonces := mdel k (seenAuthNonces s)\<rparr>)"
  by (rule evolves_step [of env s0 s _ "NonceForgotten k", OF assms(1)])
    (use plane_step.forget_nonce [of requestReplayWindow "clock env" k "plane_of s"] assms
      in \<open>auto simp: plane_of_def tables_wf_def image_mdel simp del: mget_mput mget_mdel\<close>)

lemma evolves_spend:
  assumes "evolves env s0 s" "\<not> mhas (usedTokens s) k" "ut_ConsumedAt v = clock env (ticks s)"
  shows "evolves env s0 (s\<lparr>ticks := Suc (ticks s), usedTokens := mput k v (usedTokens s)\<rparr>)"
  by (rule evolves_step [of env s0 s _ "TokenSpent k (ut_ConsumedAt v)", OF assms(1)])
    (use plane_step.spend [of "plane_of s" k "ut_ConsumedAt v" "clock env" requestReplayWindow] assms
      in \<open>auto simp: plane_of_def tables_wf_def mhas_def image_mput simp del: mget_mput mget_mdel\<close>)

lemma evolves_mint:
  assumes "evolves env s0 s" "pa_State a = StatePending" "tables_wf s0 \<Longrightarrow> drawn env (ticks s0) (ticks s) k"
  shows "evolves env s0 (s\<lparr>records := mput k a (records s)\<rparr>)"
  unfolding evolves_def
proof
  assume wf: "tables_wf s0"
  let ?s = "s\<lparr>records := mput k a (records s)\<rparr>"
  from assms(1) wf obtain es where es: "tables_wf s" "plane_run requestReplayWindow (clock env) es (plane_of s0) (plane_of s)"
    "\<forall>k. ApprovalMinted k \<in> set es \<longrightarrow> drawn env (ticks s0) (ticks s) k" by (auto simp: evolves_def)
  have "plane_step requestReplayWindow (clock env) (ApprovalMinted k) (plane_of s) (plane_of ?s)"
    using plane_step.mint [of requestReplayWindow "clock env" k "plane_of s"] assms(2)
    by (simp add: plane_of_def image_mput del: mget_mput)
  from plane_run_snoc [OF es(2) this] es(1,3) assms(3) wf
  show "tables_wf ?s \<and> (\<exists>es. plane_run requestReplayWindow (clock env) es (plane_of s0) (plane_of ?s) \<and>
        (\<forall>k. ApprovalMinted k \<in> set es \<longrightarrow> drawn env (ticks s0) (ticks ?s) k))"
    by (auto simp: tables_wf_def intro!: exI [of _ "es @ [ApprovalMinted k]"])
qed

lemma evolves_withdraw [evolve]:
  assumes "evolves env s0 s"
  shows "evolves env s0 (s\<lparr>records := mdel k (records s)\<rparr>)"
  by (rule evolves_step [of env s0 s _ "Internal", OF assms(1)])
    (use plane_step.withdraw [of requestReplayWindow "clock env" "plane_of s" k] assms
      in \<open>auto simp: plane_of_def tables_wf_def image_mdel simp del: mget_mput mget_mdel\<close>)

lemma evolves_settle:
  assumes "evolves env s0 s" "map_of (records s) k = Some a" "pa_State a' \<noteq> StatePending"
    and "pa_State a' \<noteq> StateConsumed" "ValidateStateTransition (pa_State a) (pa_State a') = None"
  shows "evolves env s0 (s\<lparr>records := mput k a' (records s)\<rparr>)"
  by (rule evolves_step [of env s0 s _ "Internal", OF assms(1)])
    (use plane_step.settle [of "plane_of s" k "pa_State a" "pa_State a'" requestReplayWindow "clock env"] assms
      in \<open>auto simp: plane_of_def tables_wf_def image_mput simp del: mget_mput mget_mdel\<close>)

lemma evolves_grant:
  assumes "evolves env s0 s" "map_of (records s) k = Some a" "pa_State a = StatePending" "pa_State a' = StateConsumed"
  shows "evolves env s0 (s\<lparr>records := mput k a' (records s)\<rparr>)"
  by (rule evolves_step [of env s0 s _ "ApprovalGranted k", OF assms(1)])
    (use plane_step.grant [of "plane_of s" k requestReplayWindow "clock env"] assms
      in \<open>auto simp: plane_of_def tables_wf_def image_mput simp del: mget_mput mget_mdel\<close>)

lemma evolves_same_state:
  assumes "evolves env s0 s" "map_of (records s) k = Some a" "pa_State a' = pa_State a"
  shows "evolves env s0 (s\<lparr>records := mput k a' (records s)\<rparr>)"
  by (rule evolves_step [of env s0 s _ "Internal", OF assms(1)])
    (use plane_step.wait [of "plane_of s" "ticks s" requestReplayWindow "clock env"] assms
      in \<open>auto simp: plane_of_def tables_wf_def image_mput fun_upd_idem simp del: mget_mput mget_mdel\<close>)

text \<open>The rest of the state is not part of the plane.\<close>

lemma plane_of_updates [simp]:
  "plane_of (s\<lparr>mu_held := a1\<rparr>) = plane_of s" "plane_of (s\<lparr>sessions := a2\<rparr>) = plane_of s"
  "plane_of (s\<lparr>tokens := a3\<rparr>) = plane_of s" "plane_of (s\<lparr>openByUID := a4\<rparr>) = plane_of s"
  "plane_of (s\<lparr>tokenIndex := a5\<rparr>) = plane_of s" "plane_of (s\<lparr>mcpGatewayApprovalRequests := a6\<rparr>) = plane_of s"
  "plane_of (s\<lparr>sessionReadCounts := a7\<rparr>) = plane_of s" "plane_of (s\<lparr>authDeniedBursts := a8\<rparr>) = plane_of s"
  "plane_of (s\<lparr>hookPreValidateCounts := a9\<rparr>) = plane_of s" "plane_of (s\<lparr>hookPeerAuthFailureCounts := a10\<rparr>) = plane_of s"
  "plane_of (s\<lparr>nextExpirySweepAt := a11\<rparr>) = plane_of s" "plane_of (s\<lparr>executionSlotsInUse := a12\<rparr>) = plane_of s"
  "plane_of (s\<lparr>srv_nonces := a13\<rparr>) = plane_of s" "plane_of (s\<lparr>srv_audit := a14\<rparr>) = plane_of s"
  "plane_of (s\<lparr>srv_world := a15\<rparr>) = plane_of s" "plane_of (s\<lparr>trace := a16\<rparr>) = plane_of s"
  by (simp_all add: plane_of_def)

lemma tables_wf_updates [simp]:
  "tables_wf (s\<lparr>mu_held := a1\<rparr>) = tables_wf s" "tables_wf (s\<lparr>sessions := a2\<rparr>) = tables_wf s"
  "tables_wf (s\<lparr>tokens := a3\<rparr>) = tables_wf s" "tables_wf (s\<lparr>openByUID := a4\<rparr>) = tables_wf s"
  "tables_wf (s\<lparr>tokenIndex := a5\<rparr>) = tables_wf s" "tables_wf (s\<lparr>mcpGatewayApprovalRequests := a6\<rparr>) = tables_wf s"
  "tables_wf (s\<lparr>sessionReadCounts := a7\<rparr>) = tables_wf s" "tables_wf (s\<lparr>authDeniedBursts := a8\<rparr>) = tables_wf s"
  "tables_wf (s\<lparr>hookPreValidateCounts := a9\<rparr>) = tables_wf s" "tables_wf (s\<lparr>hookPeerAuthFailureCounts := a10\<rparr>) = tables_wf s"
  "tables_wf (s\<lparr>nextExpirySweepAt := a11\<rparr>) = tables_wf s" "tables_wf (s\<lparr>executionSlotsInUse := a12\<rparr>) = tables_wf s"
  "tables_wf (s\<lparr>srv_nonces := a13\<rparr>) = tables_wf s" "tables_wf (s\<lparr>srv_audit := a14\<rparr>) = tables_wf s"
  "tables_wf (s\<lparr>srv_world := a15\<rparr>) = tables_wf s" "tables_wf (s\<lparr>trace := a16\<rparr>) = tables_wf s"
  "tables_wf (s\<lparr>ticks := a17\<rparr>) = tables_wf s"
  by (simp_all add: tables_wf_def)

lemma evolves_updates [simp]:
  "evolves env s0 (s\<lparr>mu_held := a1\<rparr>) = evolves env s0 s" "evolves env s0 (s\<lparr>sessions := a2\<rparr>) = evolves env s0 s"
  "evolves env s0 (s\<lparr>tokens := a3\<rparr>) = evolves env s0 s" "evolves env s0 (s\<lparr>openByUID := a4\<rparr>) = evolves env s0 s"
  "evolves env s0 (s\<lparr>tokenIndex := a5\<rparr>) = evolves env s0 s"
  "evolves env s0 (s\<lparr>mcpGatewayApprovalRequests := a6\<rparr>) = evolves env s0 s"
  "evolves env s0 (s\<lparr>sessionReadCounts := a7\<rparr>) = evolves env s0 s"
  "evolves env s0 (s\<lparr>authDeniedBursts := a8\<rparr>) = evolves env s0 s"
  "evolves env s0 (s\<lparr>hookPreValidateCounts := a9\<rparr>) = evolves env s0 s"
  "evolves env s0 (s\<lparr>hookPeerAuthFailureCounts := a10\<rparr>) = evolves env s0 s"
  "evolves env s0 (s\<lparr>nextExpirySweepAt := a11\<rparr>) = evolves env s0 s"
  "evolves env s0 (s\<lparr>executionSlotsInUse := a12\<rparr>) = evolves env s0 s"
  "evolves env s0 (s\<lparr>srv_nonces := a13\<rparr>) = evolves env s0 s" "evolves env s0 (s\<lparr>srv_audit := a14\<rparr>) = evolves env s0 s"
  "evolves env s0 (s\<lparr>srv_world := a15\<rparr>) = evolves env s0 s" "evolves env s0 (s\<lparr>trace := a16\<rparr>) = evolves env s0 s"
  by (simp_all add: evolves_def)

section \<open>The sweep\<close>

lemma sweep_Cons:
  "fst (sweep f ((k, v) # m) e) = (case f v of None \<Rightarrow> fst (sweep f m e) | Some (v', _) \<Rightarrow> (k, v') # fst (sweep f m e))"
  by (simp add: sweep_def List.map_filter_simps split: option.splits)

lemma sweep_Nil: "fst (sweep f [] e) = []"
  by (simp add: sweep_def List.map_filter_simps)

lemma sweep_keys: "k \<notin> fst ` set m \<Longrightarrow> k \<notin> fst ` set (fst (sweep f m e))"
proof (induction m)
  case (Cons p m)
  then show ?case by (cases p) (auto simp: sweep_Cons split: option.splits)
qed (simp add: sweep_Nil)

lemma map_wf_sweep: "map_wf m \<Longrightarrow> map_wf (fst (sweep f m e))"
proof (induction m)
  case (Cons p m)
  then show ?case
    using sweep_keys [of "fst p" m f e] by (cases p) (simp add: map_wf_def sweep_Cons split: option.splits)
qed (simp add: sweep_Nil)

lemma mget_sweep:
  "map_wf m \<Longrightarrow> map_of (fst (sweep f m e)) k = (case map_of m k of None \<Rightarrow> None | Some v \<Rightarrow> map_option fst (f v))"
proof (induction m)
  case (Cons p m)
  obtain k' v where p: "p = (k', v)" by (cases p)
  have w: "map_wf m" and n: "map_of m k' = None" using Cons.prems by (simp_all add: p map_wf_def map_of_eq_None_iff)
  show ?case using Cons.IH [OF w] n by (auto simp: p sweep_Cons split: option.splits)
qed (simp add: sweep_Nil)

lemma sweep_tables_fields:
  "sweep_tables env now s = (s', e) \<Longrightarrow> ticks s' = ticks s \<and> mu_held s' = mu_held s \<and>
     (\<exists>e1 e2 e3 e4. seenRequests s' = fst (sweep (sweep_seen now) (seenRequests s) e1) \<and>
       seenAuthNonces s' = fst (sweep (sweep_seen now) (seenAuthNonces s) e2) \<and>
       usedTokens s' = fst (sweep (sweep_used now) (usedTokens s) e3) \<and>
       records s' = fst (sweep (sweep_approval now) (records s) e4))"
  unfolding sweep_tables_def by (auto simp: Let_def split: prod.splits) (metis fst_conv)+

lemma dropped_sweep_seen:
  "map_wf m \<Longrightarrow> dropped requestReplayWindow now (\<lambda>k. map_option sr_SeenAt (map_of m k))
     (\<lambda>k. map_option sr_SeenAt (map_of (fst (sweep (sweep_seen now) m e)) k))"
  by (auto simp: dropped_def mget_sweep sweep_seen_def split: option.splits if_splits)

lemma dropped_sweep_used:
  "map_wf m \<Longrightarrow> dropped requestReplayWindow now (\<lambda>k. map_option ut_ConsumedAt (map_of m k))
     (\<lambda>k. map_option ut_ConsumedAt (map_of (fst (sweep (sweep_used now) m e)) k))"
  by (auto simp: dropped_def mget_sweep sweep_used_def split: option.splits if_splits)

lemma pending_expires: "ValidateStateTransition StatePending StateExpired = None"
  by (simp add: valid_transition_iff approval_edge_def)

lemma swept_sweep_approval:
  "map_wf m \<Longrightarrow> swept (\<lambda>k. map_option pa_State (map_of m k))
     (\<lambda>k. map_option pa_State (map_of (fst (sweep (sweep_approval now) m e)) k))"
  by (auto simp: swept_def mget_sweep sweep_approval_def setApprovalStateLocked_def Let_def pending_expires
      split: option.splits if_splits)

lemma evolves_prune [evolve]:
  assumes "evolves env s0 s"
  shows "evolves env s0 (pruneExpiredLocked env s)"
proof (cases "sweep_not_due env (clock env (ticks s)) (s\<lparr>ticks := Suc (ticks s)\<rparr>)")
  case True
  then show ?thesis using assms by (simp add: pruneExpiredLocked_def server_now_def evolves_tick)
next
  case False
  let ?s = "s\<lparr>ticks := Suc (ticks s)\<rparr>"
  obtain s' e where sw: "sweep_tables env (clock env (ticks s)) ?s = (s', e)" by fastforce
  note f = sweep_tables_fields [OF sw]
  have "evolves env s0 s'"
  proof (rule evolves_step [OF assms, of s' Internal])
    assume wf: "tables_wf s"
    obtain e1 e2 e3 e4 where t: "seenRequests s' = fst (sweep (sweep_seen (clock env (ticks s))) (seenRequests s) e1)"
      "seenAuthNonces s' = fst (sweep (sweep_seen (clock env (ticks s))) (seenAuthNonces s) e2)"
      "usedTokens s' = fst (sweep (sweep_used (clock env (ticks s))) (usedTokens s) e3)"
      "records s' = fst (sweep (sweep_approval (clock env (ticks s))) (records s) e4)" "ticks s' = Suc (ticks s)"
      using f by auto
    have "plane_step requestReplayWindow (clock env) Internal (plane_of s)
        \<lparr>p_now = Suc (p_now (plane_of s)), p_requests = p_requests (plane_of s'), p_nonces = p_nonces (plane_of s'),
         p_used = p_used (plane_of s'), p_approvals = p_approvals (plane_of s')\<rparr>"
      by (rule plane_step.expire)
        (use wf t in \<open>simp_all add: plane_of_def tables_wf_def dropped_sweep_seen dropped_sweep_used swept_sweep_approval\<close>)
    with wf t show "tables_wf s' \<and> plane_step requestReplayWindow (clock env) Internal (plane_of s) (plane_of s')"
      by (simp add: tables_wf_def plane_of_def map_wf_sweep)
  qed simp
  then show ?thesis using False sw by (simp add: pruneExpiredLocked_def server_now_def)
qed

lemma prune_mu [simp]: "mu_held (pruneExpiredLocked env s) = mu_held s"
proof -
  obtain s' e where sw: "sweep_tables env (clock env (ticks s)) (s\<lparr>ticks := Suc (ticks s)\<rparr>) = (s', e)" by fastforce
  then show ?thesis using sweep_tables_fields [OF sw] by (simp add: pruneExpiredLocked_def server_now_def)
qed

section \<open>Handlers that return\<close>

definition after :: "('io, 'f) server_env \<Rightarrow> ('f, 'w) server \<Rightarrow> ('f, 'w) server \<Rightarrow> bool" where
  "after env s0 s = (\<not> mu_held s \<and> evolves env s0 s)"

definition returns :: "('io, 'f) server_env \<Rightarrow> bool \<Rightarrow> ('f, 'w) server \<Rightarrow> ('a \<times> ('f, 'w) server) option \<Rightarrow> bool" where
  "returns env may_block s0 x = (case x of None \<Rightarrow> may_block | Some (r, s) \<Rightarrow> after env s0 s)"

lemma returns_None [simp]: "returns env b s0 None = b"
  by (simp add: returns_def)

lemma returns_Some [simp]: "returns env b s0 (Some (r, s)) = after env s0 s"
  by (simp add: returns_def)

lemma returns_bind:
  "returns env b s0 m \<Longrightarrow> (\<And>r s. m = Some (r, s) \<Longrightarrow> after env s0 s \<Longrightarrow> returns env b s0 (k (r, s))) \<Longrightarrow>
     returns env b s0 (Option.bind m k)"
  by (cases m) (auto simp: returns_def)

lemma after_refl: "\<not> mu_held s \<Longrightarrow> after env s s"
  by (simp add: after_def evolves_refl)

lemma after_trans: "after env s0 s1 \<Longrightarrow> after env s1 s2 \<Longrightarrow> after env s0 s2"
  by (auto simp: after_def intro: evolves_trans)

lemma after_tick [simp, intro]: "after env s0 s \<Longrightarrow> ticks s \<le> n \<Longrightarrow> after env s0 (s\<lparr>ticks := n\<rparr>)"
  by (simp add: after_def evolves_tick)

lemma after_updates [simp]:
  "after env s0 (s\<lparr>srv_world := w\<rparr>) = after env s0 s" "after env s0 (s\<lparr>trace := tr\<rparr>) = after env s0 s"
  "after env s0 (s\<lparr>executionSlotsInUse := n\<rparr>) = after env s0 s" "after env s0 (s\<lparr>srv_nonces := f\<rparr>) = after env s0 s"
  "after env s0 (s\<lparr>srv_audit := a\<rparr>) = after env s0 s"
  by (simp_all add: after_def)

lemma evolves_note [simp]:
  "evolves env s0 (noteExpiryCandidateLocked env t s) = evolves env s0 s"
  "evolves env s0 (noteReplayWindowCandidateLocked env t s) = evolves env s0 s"
  by (simp_all add: noteExpiryCandidateLocked_def noteReplayWindowCandidateLocked_def)

lemma returns_with_mu:
  assumes "after env s0 s"
    and "\<And>s1. mu_held s1 \<Longrightarrow> evolves env s0 s1 \<Longrightarrow> (case body s1 of None \<Rightarrow> b | Some (r, s2) \<Rightarrow> evolves env s0 s2)"
  shows "returns env b s0 (with_mu body s)"
  using assms(1) assms(2) [of "s\<lparr>mu_held := True\<rparr>"]
  by (auto simp: with_mu_def lock_mu_def unlock_mu_def returns_def after_def split: option.splits)

lemma returns_section:
  "after env s0 s \<Longrightarrow> (\<And>s1. evolves env s0 s1 \<Longrightarrow> evolves env s0 (snd (f s1))) \<Longrightarrow>
     returns env b s0 (with_mu (\<lambda>s. Some (f s)) s)"
  by (rule returns_with_mu) (auto split: prod.splits, metis snd_conv)

section \<open>The audit log\<close>

lemma logEventWithHash_evolves:
  "logEventWithHash env t sid d s = Some (r, s') \<Longrightarrow> evolves env s0 s \<Longrightarrow> evolves env s0 s' \<and> mu_held s' = mu_held s \<and>
     records s' = records s \<and> sessions s' = sessions s"
  by (auto simp: logEventWithHash_def evolves_tick split: option.splits prod.splits if_splits)

lemma logEvent_evolves:
  "logEvent env t sid d s = Some (r, s') \<Longrightarrow> evolves env s0 s \<Longrightarrow> evolves env s0 s' \<and> mu_held s' = mu_held s \<and>
     records s' = records s \<and> sessions s' = sessions s"
  by (auto simp: logEvent_def split: option.splits sum.splits prod.splits dest!: logEventWithHash_evolves)

lemma logEventWithHash_blocks_iff:
  "logEventWithHash env t sid d s = None \<longleftrightarrow> needs_tenancy d \<and> \<not> blank sid \<and> mu_held s"
  by (auto simp: logEventWithHash_def tenantUserForControlSession_def split: option.splits prod.splits if_splits)

lemma logEvent_blocks_iff: "logEvent env t sid d s = None \<longleftrightarrow> needs_tenancy d \<and> \<not> blank sid \<and> mu_held s"
  by (auto simp: logEvent_def logEventWithHash_blocks_iff [of env t sid d s, symmetric] split: option.splits sum.splits)

lemma returns_logEventWithHash [returns]: "after env s0 s \<Longrightarrow> returns env b s0 (logEventWithHash env t sid d s)"
  by (cases "logEventWithHash env t sid d s")
    (auto simp: logEventWithHash_blocks_iff returns_def after_def dest: logEventWithHash_evolves)

lemma returns_logEvent [returns]: "after env s0 s \<Longrightarrow> returns env b s0 (logEvent env t sid d s)"
  by (cases "logEvent env t sid d s") (auto simp: logEvent_blocks_iff returns_def after_def dest: logEvent_evolves)

section \<open>Replay tables, rate limits, authentication\<close>

lemma evolves_enter_request [evolve]:
  assumes "evolves env s0 s"
  shows "evolves env s0 (snd (enter_request env sid req s))"
  using evolves_prune [OF assms]
  by (auto simp: enter_request_def server_now_def RecordSeenRequest_def Let_def evolves_tick
      intro!: evolves_accept_request)

lemma evolves_spend_token [evolve]:
  assumes "evolves env s0 s"
  shows "evolves env s0 (snd (spend_token env claims req s))"
  using evolves_prune [OF assms]
  by (auto simp: spend_token_def server_now_def ConsumeUsedToken_def Let_def evolves_tick intro!: evolves_spend)

lemma evolves_enter_nonce [evolve]:
  assumes "evolves env s0 s"
  shows "evolves env s0 (snd (enter_nonce env sid n s))"
  using evolves_prune [OF assms]
  by (auto simp: enter_nonce_def server_now_def Let_def intro!: evolves_accept_nonce)

lemma returns_recordRequest [returns]: "after env s0 s \<Longrightarrow> returns env b s0 (recordRequest env sid req s)"
  unfolding recordRequest_def by (rule returns_section) (auto intro: evolve)

lemma returns_consumeExecutionToken [returns]:
  "after env s0 s \<Longrightarrow> returns env b s0 (consumeExecutionToken env claims req s)"
  unfolding consumeExecutionToken_def by (auto intro!: returns_section intro: evolve split: option.splits)

lemma returns_forget:
  "after env s0 s \<Longrightarrow>
     returns env b s0 (with_mu (\<lambda>s. Some (x, s\<lparr>seenAuthNonces := mdel k (seenAuthNonces s)\<rparr>)) s)"
  by (rule returns_section) (auto intro: evolve)

lemma returns_recordAuthNonce [returns]:
  assumes "after env s0 s"
  shows "returns env b s0 (recordAuthNonce env sid n s)"
proof -
  have "returns env b s0 (with_mu (\<lambda>s. Some (enter_nonce env sid n s)) s)"
    by (rule returns_section [OF assms]) (rule evolves_enter_nonce)
  then show ?thesis
    by (auto simp: recordAuthNonce_def Let_def returns_def [of env b s0 "with_mu (\<lambda>s. Some (enter_nonce env sid n s)) s"]
        intro!: returns_forget split: option.splits sum.splits prod.splits)
qed

lemma returns_checkFsReadRateLimit [returns]: "after env s0 s \<Longrightarrow> returns env b s0 (checkFsReadRateLimit env sid s)"
  unfolding checkFsReadRateLimit_def
  by (rule returns_with_mu) (auto simp: server_now_def Let_def intro: evolve)

lemma returns_planAuthDeniedAudit [returns]:
  "after env s0 s \<Longrightarrow> returns env b s0 (planAuthDeniedAudit env request denial opts s)"
  unfolding planAuthDeniedAudit_def Let_def server_now_def prod.case
  by (rule returns_with_mu) (auto split: option.splits)

lemma returns_writeAuditedAuthDenial [returns]:
  "after env s0 s \<Longrightarrow> returns env b s0 (writeAuditedAuthDenial env request denial opts s)"
  unfolding writeAuditedAuthDenial_def
  by (intro returns_bind) (auto intro!: returns returns_bind split: option.splits)

lemma evolves_look_up_token [evolve]: "evolves env s0 s \<Longrightarrow> evolves env s0 (snd (look_up_token env tok s))"
  by (auto simp: look_up_token_def server_now_def Let_def intro: evolve split: option.splits)

lemma returns_authenticate [returns]: "after env s0 s \<Longrightarrow> returns env b s0 (authenticate env uni request s)"
  unfolding authenticate_def
  by (auto intro!: returns returns_bind returns_section intro: evolve split: option.splits sum.splits)

lemma evolves_look_up_approval_token [evolve]:
  "evolves env s0 s \<Longrightarrow> evolves env s0 (snd (look_up_approval_token env tok peer s))"
  using evolves_prune [of env s0 s]
  by (auto simp: look_up_approval_token_def server_now_def Let_def intro: evolve split: option.splits)

lemma returns_authenticateApproval [returns]: "after env s0 s \<Longrightarrow> returns env b s0 (authenticateApproval env request s)"
  unfolding authenticateApproval_def Let_def
  by (auto intro!: returns returns_bind returns_section intro: evolve split: option.splits sum.splits)

lemma returns_verifySignedRequestAgainstMACKeys [returns]:
  "after env s0 s \<Longrightarrow> returns env b s0 (verifySignedRequestAgainstMACKeys env request body headers keys s)"
  by (induction keys) (auto intro!: returns)

lemma parse_headers_after:
  "parseSignedControlPlaneHeaders env request sid s = (x, s') \<Longrightarrow> after env s0 s \<Longrightarrow> after env s0 s'"
  by (auto simp: parseSignedControlPlaneHeaders_def server_now_def Let_def split: if_splits option.splits)

lemma returns_verifySignedRequest [returns]:
  assumes "after env s0 s"
  shows "returns env b s0 (verifySignedRequest env request body sid s)"
proof -
  obtain x s1 where p: "parseSignedControlPlaneHeaders env request sid s = (x, s1)" by fastforce
  have a: "after env s0 s1" using parse_headers_after [OF p assms] .
  have "returns env b s0 (with_mu (\<lambda>s. let s' = pruneExpiredLocked env s in Some (map_of (sessions s') k, s')) s1)" for k
    unfolding Let_def by (rule returns_section [OF a]) (auto intro: evolve)
  then show ?thesis using a p
    by (auto simp: verifySignedRequest_def verifySignedRequestAgainstRotatingSessionMAC_def server_now_def Let_def
        intro!: returns_bind returns split: sum.splits option.splits)
qed

lemma returns_readAndVerifySignedBody [returns]:
  "after env s0 s \<Longrightarrow> returns env b s0 (readAndVerifySignedBody env request sid s)"
  unfolding readAndVerifySignedBody_def by (auto intro!: returns_bind returns split: sum.splits option.splits)

lemma returns_verifySignedRequestWithoutBody [returns]:
  "after env s0 s \<Longrightarrow> returns env b s0 (verifySignedRequestWithoutBody env request sid s)"
  unfolding verifySignedRequestWithoutBody_def by (rule returns_verifySignedRequest)

section \<open>Approvals\<close>

lemma returns_operatorMountBinding [returns]:
  "after env s0 s \<Longrightarrow> returns env b s0 (operatorMountBindingForControlSession sid s)"
  unfolding operatorMountBindingForControlSession_def Let_def by (auto intro!: returns_section intro: evolve)

lemma evolves_active_write_grant [evolve]: "evolves env s0 s \<Longrightarrow> evolves env s0 (snd (active_write_grant env sid root s))"
  by (auto simp: active_write_grant_def server_now_def Let_def intro: evolve split: option.splits)

lemma returns_operatorMountWriteGrantForRequest [returns]:
  "after env s0 s \<Longrightarrow> returns env b s0 (operatorMountWriteGrantForRequest env paths sid req s)"
  unfolding operatorMountWriteGrantForRequest_def
  by (auto simp: Let_def intro!: returns_bind returns_section returns intro: evolve
      split: sum.splits option.splits prod.splits)

lemma returns_approvalMetadata [returns]: "after env s0 s \<Longrightarrow> returns env b s0 (approvalMetadata env ae sid req s)"
  unfolding approvalMetadata_def Let_def by (auto intro!: returns_bind returns)

lemma setApprovalStateLocked_Inr:
  "setApprovalStateLocked m k a st = (m', Inr a') \<longleftrightarrow>
     ValidateStateTransition (pa_State a) st = None \<and> a' = a\<lparr>pa_State := st\<rparr> \<and> m' = mput k a' m"
  by (auto simp: setApprovalStateLocked_def Let_def split: option.splits)

lemma setApprovalStateLocked_Inl: "setApprovalStateLocked m k a st = (m', Inl e) \<Longrightarrow> m' = m"
  by (auto simp: setApprovalStateLocked_def Let_def split: option.splits)

lemma Backfill_cases:
  "BackfillPendingApprovalManifest m k a = (m', a') \<Longrightarrow> map_of m k = Some a \<Longrightarrow>
     (m' = m \<and> a' = a \<or> m' = mput k a' m \<and> pa_State a' = pa_State a)"
  by (auto simp: BackfillPendingApprovalManifest_def Let_def split: if_splits sum.splits)

lemma load_outcome:
  assumes "loadPendingApprovalForDecisionLocked env k s = ((a, d), s')" "evolves env s0 s"
  shows "evolves env s0 s' \<and> mu_held s' = mu_held s \<and> (d = None \<longrightarrow> map_of (records s') k = Some a)"
proof (cases "map_of (records (pruneExpiredLocked env s)) k")
  case None
  then show ?thesis using assms evolves_prune [OF assms(2)]
    by (auto simp: loadPendingApprovalForDecisionLocked_def Let_def)
next
  case (Some r)
  let ?s = "(pruneExpiredLocked env s)\<lparr>ticks := Suc (ticks (pruneExpiredLocked env s))\<rparr>"
  have e: "evolves env s0 ?s" by (rule evolves_tick [OF evolves_prune [OF assms(2)]]) simp
  show ?thesis
  proof (cases "pa_ExpiresAt r < clock env (ticks (pruneExpiredLocked env s))")
    case True
    then show ?thesis using assms(1) Some e evolves_settle [OF e, of k r]
      by (auto simp: loadPendingApprovalForDecisionLocked_def server_now_def Let_def setApprovalStateLocked_Inr
          dest!: setApprovalStateLocked_Inl split: prod.splits sum.splits)
  next
    case False
    then show ?thesis using assms(1) Some e evolves_same_state [OF e, of k r]
      by (auto simp: loadPendingApprovalForDecisionLocked_def server_now_def Let_def dest!: Backfill_cases split: prod.splits)
  qed
qed

lemma validate_outcome:
  assumes "validate_decision_locked env actor k d s = ((a, r), s')" "evolves env s0 s"
  shows "evolves env s0 s' \<and> mu_held s' = mu_held s \<and>
    (r = None \<longrightarrow> map_of (records s') k = Some a \<and> pa_State a = StatePending \<and> ValidateDecisionRequest a d actor = None)"
proof -
  obtain a1 d1 s1 where l: "loadPendingApprovalForDecisionLocked env k s = ((a1, d1), s1)" by (metis prod.exhaust)
  have "ValidateDecisionRequest a1 d actor = None \<Longrightarrow> pa_State a1 = StatePending"
    by (auto simp: ValidateDecisionRequest_def split: if_splits)
  then show ?thesis using assms(1) l load_outcome [OF l assms(2)]
    by (cases d1) (auto simp: validate_decision_locked_def)
qed

lemma evolves_validate [evolve]:
  "evolves env s0 s \<Longrightarrow> evolves env s0 (snd (validate_decision_locked env actor k d s))"
  using validate_outcome [of env actor k d s _ _ _ s0] by (metis prod.exhaust snd_conv)

lemma returns_validate [returns]:
  "after env s0 s \<Longrightarrow> returns env b s0 (validatePendingApprovalDecision env session k d s)"
  "after env s0 s \<Longrightarrow> returns env b s0 (validatePendingApprovalDecisionForOperator env session k d s)"
  unfolding validatePendingApprovalDecision_def validatePendingApprovalDecisionForOperator_def
  by (auto intro!: returns_section evolves_validate)

lemma evolves_settle_approval:
  assumes "settle_approval env k a st s = (r, s')" "evolves env s0 s" "map_of (records s) k = Some a"
    "pa_State a = StatePending" "st \<noteq> StatePending"
  shows "evolves env s0 s' \<and> mu_held s' = mu_held s"
proof (cases "ValidateStateTransition (pa_State a) st")
  case None
  let ?a = "a\<lparr>pa_State := st\<rparr>"
  let ?s = "s\<lparr>records := mput k ?a (records s)\<rparr>" and ?n = "Suc (ticks s)"
  have "evolves env s0 ?s"
    using evolves_settle [OF assms(2,3), of ?a] evolves_grant [OF assms(2-4), of ?a] None assms(5)
    by (cases "st = StateConsumed") auto
  then have "evolves env s0 (?s\<lparr>ticks := ?n\<rparr>)" by (rule evolves_tick) simp
  then show ?thesis using assms(1) None
      evolves_same_state [of env s0 "?s\<lparr>ticks := ?n\<rparr>" k ?a "?a\<lparr>pa_DecisionSubmittedAt := clock env (ticks s), pa_DecisionNonce := []\<rparr>"]
    by (auto simp: settle_approval_def setApprovalStateLocked_def server_now_def Let_def)
next
  case (Some e)
  then show ?thesis using assms(1,2) by (auto simp: settle_approval_def setApprovalStateLocked_def)
qed

text \<open>Committing a grant may block (see below); when it returns it has granted.\<close>

lemma finish_grant_evolves:
  assumes "finish_grant env k a root t lg s = (x, s')" "evolves env s0 s" "map_of (records s) k = Some a"
    "pa_State a = StatePending"
  shows "evolves env s0 s'"
proof -
  let ?s = "if root = [] then s else add_write_grant (pa_ControlSessionID a) root t s"
  have e: "evolves env s0 ?s" "map_of (records ?s) k = Some a" using assms by (auto simp: add_write_grant_def Let_def)
  obtain y s2 where y: "settle_approval env k a StateConsumed ?s = (y, s2)" by fastforce
  have "evolves env s0 s2" using evolves_settle_approval [OF y e assms(4)] by simp
  moreover have "s' = s \<or> s' = s2"
    using assms(1) by (cases lg; cases y) (simp_all only: finish_grant_def Let_def y sum.case prod.case prod.inject simp_thms)
  ultimately show ?thesis using assms(2) by blast
qed

lemma commit_grant_evolves:
  assumes "commit_grant env k a r s = Some (x, s')" "evolves env s0 s" "map_of (records s) k = Some a"
    "pa_State a = StatePending"
  shows "evolves env s0 s'"
proof -
  let ?root = "trim_space (metadata_string (pa_Metadata a) ''grant_root'')"
  obtain t s1 where s1: "(if ?root = [] then (0, s) else server_now env s) = (t, s1)" by fastforce
  have e1: "evolves env s0 s1" "records s1 = records s"
    using s1 assms(2) by (auto simp: server_now_def intro: evolve split: if_splits)
  let ?d = "grant_event_data a ?root (t + operatorMountWriteGrantTTL) (grant_audit_data k a r s)"
  have c: "commit_grant env k a r s = Option.bind (logEventWithHash env ''approval.granted'' (pa_ControlSessionID a) ?d s1)
      (\<lambda>(lg, s2). Some (finish_grant env k a ?root (t + operatorMountWriteGrantTTL) lg s2))"
    by (simp only: commit_grant_def Let_def s1 prod.case)
  obtain lg s2 where l: "logEventWithHash env ''approval.granted'' (pa_ControlSessionID a) ?d s1 = Some (lg, s2)"
    and f: "finish_grant env k a ?root (t + operatorMountWriteGrantTTL) lg s2 = (x, s')"
    using assms(1) unfolding c bind_eq_Some_conv by force
  show ?thesis
    using finish_grant_evolves [OF f _ _ assms(4)] logEventWithHash_evolves [OF l e1(1)] e1(2) assms(3) by simp
qed

lemma grant_refused_Inr: "grant_refused k n s = Inr a \<Longrightarrow> map_of (records s) k = Some a \<and> pa_State a = StatePending"
  by (auto simp: grant_refused_def split: option.splits if_splits)

lemma returns_commit [returns]:
  "after env s0 s \<Longrightarrow> returns env True s0 (commitApprovalGrantConsumed env k n r s)"
  unfolding commitApprovalGrantConsumed_def
  by (rule returns_with_mu)
    (auto split: sum.splits option.splits dest!: grant_refused_Inr elim!: commit_grant_evolves)

lemma merged_has_tenancy: "\<not> needs_tenancy (mergeAuditTenancyFromControlSession d session)"
  by (simp add: needs_tenancy_def mergeAuditTenancyFromControlSession_def Let_def)

lemma record_decision_outcome:
  assumes "evolves env s0 s" "map_of (records s) k = Some a" "pa_State a = StatePending"
  shows "case recordPendingApprovalDecisionLocked env session k a d s of
    None \<Rightarrow> False | Some (r, s') \<Rightarrow> evolves env s0 s'"
proof -
  have "logEventWithHash env t sid (mergeAuditTenancyFromControlSession x session) s \<noteq> None" for t sid x
    by (simp add: logEventWithHash_blocks_iff merged_has_tenancy)
  then obtain lg s1 where l: "logEventWithHash env (if Approved d then ''approval.granted'' else ''approval.denied'')
      (pa_ControlSessionID a) (mergeAuditTenancyFromControlSession
        (if Approved d then buildApprovalGrantedAuditData k a (DecisionReason d)
         else buildApprovalOperatorDeniedAuditData k a (DecisionReason d)) session) s = Some (lg, s1)" by fast
  have e: "evolves env s0 s1" "map_of (records s1) k = Some a"
    using logEventWithHash_evolves [OF l assms(1)] assms(2) by auto
  have "evolves env s0 s2" if "settle_approval env k a st s1 = (x, s2)" "st \<noteq> StatePending" for st x s2
    using evolves_settle_approval [OF that(1) e assms(3) that(2)] by simp
  then show ?thesis using l e(1)
    by (auto simp: recordPendingApprovalDecisionLocked_def split: if_splits sum.splits prod.splits)
qed

lemma returns_validate_and_record [returns]:
  assumes "after env s0 s"
  shows "returns env b s0 (validate_and_record env actor session k d s)"
  unfolding validate_and_record_def
proof (rule returns_with_mu [OF assms])
  fix s1 :: "('b, 'c) server"
  assume "evolves env s0 s1"
  moreover obtain a r s2 where v: "validate_decision_locked env actor k d s1 = ((a, r), s2)" by (metis prod.exhaust)
  ultimately have o: "evolves env s0 s2" "r = None \<Longrightarrow> map_of (records s2) k = Some a \<and> pa_State a = StatePending"
    using validate_outcome [OF v, of s0] by auto
  show "case (case validate_decision_locked env actor k d s1 of ((a, Some r), s) \<Rightarrow> Some ((a, Inl r), s)
        | ((a, None), s) \<Rightarrow> recordPendingApprovalDecisionLocked env session k a d s) of
      None \<Rightarrow> b | Some (r, s2) \<Rightarrow> evolves env s0 s2"
    using v o record_decision_outcome [OF o(1), of k a session d] by (cases r) (auto split: option.splits)
qed

lemma returns_validate_and_record' [returns]:
  "after env s0 s \<Longrightarrow> returns env b s0 (validateAndRecordApprovalDecision env session k d s)"
  "after env s0 s \<Longrightarrow> returns env b s0 (validateAndRecordOperatorApprovalDecision env session k d s)"
  by (simp_all add: validateAndRecordApprovalDecision_def validateAndRecordOperatorApprovalDecision_def
      returns_validate_and_record)

lemma returns_approvedExecutionToken [returns]:
  "after env s0 s \<Longrightarrow> returns env b s0 (approvedExecutionTokenForPendingApproval env k a s)"
  unfolding approvedExecutionTokenForPendingApproval_def Let_def by (auto intro!: returns_section intro: evolve)

lemma returns_auditApprovalDecisionDenial [returns]:
  "after env s0 s \<Longrightarrow> returns env b s0 (auditApprovalDecisionDenial env session k a d s)"
  unfolding auditApprovalDecisionDenial_def by (auto intro: returns)

lemma returns_integrity_denial [returns]:
  "after env s0 s \<Longrightarrow> returns env b s0 (writePendingApprovalExecutionIntegrityDenial env session k a d s)"
  unfolding writePendingApprovalExecutionIntegrityDenial_def by (auto intro!: returns_bind returns)

lemma evolves_mark:
  assumes "evolves env s0 s" "map_of (records s) k = Some a"
  shows "evolves env s0 (case (if st = ResponseStatusSuccess then (records s, a)
      else case setApprovalStateLocked (records s) k a StateExecutionFailed of (m, Inl _) \<Rightarrow> (m, a) | (m, Inr a') \<Rightarrow> (m, a'))
    of (m, a') \<Rightarrow> s\<lparr>ticks := Suc (ticks s), records := mput k (a'\<lparr>pa_ExecutedAt := t\<rparr>) m\<rparr>)"
proof -
  have e: "evolves env s0 (s\<lparr>ticks := Suc (ticks s)\<rparr>)" using assms(1) by (rule evolves_tick) simp
  have "evolves env s0 (s\<lparr>ticks := Suc (ticks s), records := mput k x (mput k y (records s))\<rparr>)"
    if "ValidateStateTransition (pa_State a) StateExecutionFailed = None" "pa_State x = StateExecutionFailed"
      "pa_State y = StateExecutionFailed" for x y
    using evolves_settle [OF e, of k a y] evolves_same_state [of env s0 "s\<lparr>ticks := Suc (ticks s), records := mput k y (records s)\<rparr>" k y x]
      that assms(2) by simp
  then show ?thesis using evolves_same_state [OF e, of k a] assms(2)
    by (auto simp: setApprovalStateLocked_def Let_def split: option.splits)
qed

lemma returns_mark [returns]: "after env s0 s \<Longrightarrow> returns env b s0 (markApprovalExecutionResult env k st s)"
  unfolding markApprovalExecutionResult_def server_now_def Let_def
  by (rule returns_with_mu) (auto split: option.splits dest: evolves_mark [where st = st and k = k])

section \<open>Cancelling approvals, retiring and opening sessions\<close>

lemma evolves_same_records:
  assumes "evolves env s0 s" "ticks s \<le> ticks s'" "seenRequests s' = seenRequests s"
    "seenAuthNonces s' = seenAuthNonces s" "usedTokens s' = usedTokens s" "map_wf (records s) \<Longrightarrow> map_wf (records s')"
    "\<And>j. map_wf (records s) \<Longrightarrow>
       map_option pa_State (map_of (records s') j) = map_option pa_State (map_of (records s) j)"
  shows "evolves env s0 s'"
  by (rule evolves_step [of env s0 s _ Internal, OF assms(1)])
    (use plane_step.wait [of "plane_of s" "ticks s'" requestReplayWindow "clock env"] assms
      in \<open>auto simp: plane_of_def tables_wf_def\<close>)

lemma logEvent_frame:
  "logEvent env t sid d s = Some (r, s') \<Longrightarrow> ticks s \<le> ticks s' \<and> seenRequests s' = seenRequests s \<and>
     seenAuthNonces s' = seenAuthNonces s \<and> usedTokens s' = usedTokens s \<and> records s' = records s"
  by (auto simp: logEvent_def logEventWithHash_def split: option.splits sum.splits prod.splits if_splits)

lemma cancelled_has_tenancy: "\<not> needs_tenancy (cancelled_audit_data k a t r)"
  by (auto simp: needs_tenancy_def cancelled_audit_data_def put_unless_blank_def mhas_def mput_def)

lemma cancel_locked_outcome:
  assumes "evolves env s0 s"
  shows "case cancel_locked env k reason t s of None \<Rightarrow> False | Some (r, s') \<Rightarrow> evolves env s0 s'"
proof (cases "\<exists>a. map_of (records s) k = Some a \<and> pa_State a = StatePending")
  case True
  then obtain a where a: "map_of (records s) k = Some a" "pa_State a = StatePending" by blast
  let ?a = "a\<lparr>pa_State := StateCancelled\<rparr>"
  let ?s = "s\<lparr>records := mput k ?a (records s)\<rparr>"
  have v: "ValidateStateTransition (pa_State a) StateCancelled = None"
    by (simp add: a(2) valid_transition_iff approval_edge_def)
  have e1: "evolves env s0 ?s" using evolves_settle [OF assms a(1), of ?a] v by simp
  obtain r s1 where l: "logEvent env ''approval.cancelled'' (pa_ControlSessionID a)
      (cancelled_audit_data k ?a t reason) ?s = Some (r, s1)"
    using logEvent_blocks_iff cancelled_has_tenancy by (metis option.exhaust prod.exhaust)
  have undo: "evolves env s0 (s1\<lparr>records := mput k a (records s1)\<rparr>)"
    by (rule evolves_same_records [OF assms]) (use logEvent_frame [OF l] a in auto)
  have "cancel_locked env k reason t s = (case r of None \<Rightarrow> Some (None, s1)
      | Some e \<Rightarrow> Some (Some (CancelAudit e), s1\<lparr>records := mput k a (records s1)\<rparr>))"
    using a v l logEvent_frame [OF l]
    by (simp add: cancel_locked_def setApprovalStateLocked_def Let_def split: option.splits)
  then show ?thesis using undo logEvent_evolves [OF l e1] by (simp split: option.splits)
next
  case False
  then show ?thesis using assms by (auto simp: cancel_locked_def split: option.splits)
qed

lemma returns_cancelPendingApproval [returns]:
  assumes "after env s0 s"
  shows "returns env b s0 (cancelPendingApproval env k reason s)"
  unfolding cancelPendingApproval_def server_now_def Let_def prod.case
proof (rule returns_with_mu)
  fix s1 :: "('b, 'c) server"
  assume "evolves env s0 s1"
  from cancel_locked_outcome [OF this, of k reason "clock env (ticks s)"]
  show "case cancel_locked env k reason (clock env (ticks s)) s1 of None \<Rightarrow> b | Some (r, s2) \<Rightarrow> evolves env s0 s2"
    by (auto split: option.splits)
qed (use assms in simp)

lemma returns_cancel_each [returns]: "after env s0 s \<Longrightarrow> returns env b s0 (cancel_each env reason ids s)"
  by (induction ids arbitrary: s) (auto intro!: returns_bind returns_cancelPendingApproval split: option.splits)

lemma returns_cancelPendingApprovalsForControlSession [returns]:
  "after env s0 s \<Longrightarrow> returns env b s0 (cancelPendingApprovalsForControlSession env sid reason s)"
  unfolding cancelPendingApprovalsForControlSession_def by (auto intro!: returns_bind returns_section returns_cancel_each)

lemma returns_retireControlSession [returns]:
  "after env s0 s \<Longrightarrow> returns env b s0 (retireControlSession env sid t ev extra s)"
  unfolding retireControlSession_def
  by (auto intro!: returns_bind returns_section returns simp: remove_session_def restore_session_def
      split: option.splits)

lemma returns_retireOrphanedControlSession [returns]:
  "after env s0 s \<Longrightarrow> returns env b s0 (retireOrphanedControlSession env sid s)"
  unfolding retireOrphanedControlSession_def server_now_def Let_def prod.case
  by (auto intro!: returns_bind returns split: option.splits)

lemma returns_retire_dead [returns]: "after env s0 s \<Longrightarrow> returns env b s0 (retire_dead env alive xs s)"
  by (induction xs arbitrary: s)
    (auto simp: Let_def intro!: returns_bind returns_retireOrphanedControlSession split: sum.splits bool.splits option.splits)

lemma returns_retireDeadPeerSessionsForUID [returns]:
  "after env s0 s \<Longrightarrow> returns env b s0 (retireDeadPeerSessionsForUID env se uid s)"
  unfolding retireDeadPeerSessionsForUID_def Let_def
  by (auto intro!: returns_bind returns_section returns_retire_dead intro: evolve split: option.splits)

lemma mint_all_frame: "mint_all env ms s = (r, s') \<Longrightarrow> evolves env s0 s \<Longrightarrow> evolves env s0 s'"
  by (induction ms arbitrary: s r s')
    (force simp: randomHex_def intro: evolve split: sum.splits prod.splits)+

lemma evolves_open_locked: "evolves env s0 s \<Longrightarrow> evolves env s0 (snd (open_locked env se p peer t s))"
  using evolves_prune [of env s0 s]
  by (auto simp: open_locked_def Let_def add_session_def drop_replaced_def server_now_def intro!: evolves_tick
      dest!: mint_all_frame split: option.splits sum.splits prod.splits)

lemma returns_open_session [returns]: "after env s0 s \<Longrightarrow> returns env b s0 (open_session env se p peer t s)"
  unfolding open_session_def
  by (auto intro!: returns_bind returns_section evolves_open_locked returns simp: undo_open_def Let_def
      split: sum.splits option.splits)

lemma check_pin_after: "check_pin se p peer s = (r, s') \<Longrightarrow> after env s0 s \<Longrightarrow> after env s0 s'"
  by (auto simp: check_pin_def split: if_splits option.splits sum.splits)

lemma returns_open_for_peer [returns]:
  assumes "after env s0 s"
  shows "returns env b s0 (open_for_peer env se p peer s)"
proof -
  obtain r s1 where c: "check_pin se p peer s = (r, s1)" by fastforce
  show ?thesis using check_pin_after [OF c assms] c
    by (auto simp: open_for_peer_def server_now_def Let_def intro!: returns_bind returns split: option.splits)
qed

lemma returns_handleSessionOpen [returns]:
  "after env s0 s \<Longrightarrow> returns env b s0 (handleSessionOpen env xe se request s)"
  unfolding handleSessionOpen_def by (auto intro!: returns split: sum.splits option.splits)

lemma returns_close_session [returns]: "after env s0 s \<Longrightarrow> returns env b s0 (close_session env sid s)"
  unfolding close_session_def server_now_def Let_def prod.case
  by (auto simp: pending_at_close_def Let_def intro!: returns_bind returns_section returns intro: evolve split: option.splits)

lemma returns_handleSessionClose [returns]:
  "after env s0 s \<Longrightarrow> returns env b s0 (handleSessionClose env xe request s)"
  unfolding handleSessionClose_def by (auto intro!: returns_bind returns split: sum.splits option.splits)

section \<open>Executing capabilities\<close>

lemma returns_from: "returns env b s x \<Longrightarrow> after env s0 s \<Longrightarrow> returns env b s0 x"
  by (auto simp: returns_def intro: after_trans split: option.splits)

text \<open>What is asked of the executor of the four host capabilities.\<close>

definition direct_implements :: "('io, 'f) server_env \<Rightarrow> bool \<Rightarrow> ('f, 'w) exec_env \<Rightarrow> bool" where
  "direct_implements env b xe = (\<forall>claims req s. \<not> mu_held s \<longrightarrow> returns env b s (direct xe claims req s))"

lemma returns_direct:
  "direct_implements env b xe \<Longrightarrow> after env s0 s \<Longrightarrow> returns env b s0 (direct xe claims req s)"
  by (rule returns_from [of env b s]) (auto simp: direct_implements_def after_def)

lemma returns_audited_reply [returns]:
  "after env s0 s \<Longrightarrow> returns env b s0 (audited_reply env ev claims req extra reply s)"
  unfolding audited_reply_def by (auto intro!: returns_bind returns)

lemma returns_deny_capability [returns]:
  "after env s0 s \<Longrightarrow> returns env b s0 (deny_capability env claims req reason code s)"
  unfolding deny_capability_def by (rule returns_audited_reply)

lemma returns_early [returns]: "returns env b s0 m \<Longrightarrow> returns env b s0 (early m)"
  unfolding early_def by (auto intro!: returns_bind)

lemma returns_prepareCapabilityRequestExecution [returns]:
  "after env s0 s \<Longrightarrow> returns env b s0 (prepareCapabilityRequestExecution env claims req allow s)"
  unfolding prepareCapabilityRequestExecution_def randomHex_def Let_def
  by (auto intro!: returns_bind returns split: sum.splits option.splits)

lemma returns_resolveCapabilityExecutionTool [returns]:
  "after env s0 s \<Longrightarrow> returns env b s0 (resolveCapabilityExecutionTool env xe claims req s)"
  unfolding resolveCapabilityExecutionTool_def Let_def by (auto intro!: returns split: option.splits)

lemma returns_evaluateCapabilityPolicyDecision [returns]:
  "after env s0 s \<Longrightarrow> returns env b s0 (evaluateCapabilityPolicyDecision env xe t claims req s)"
  unfolding evaluateCapabilityPolicyDecision_def Let_def by (auto intro!: returns_bind returns split: prod.splits)

lemma created_has_tenancy: "\<not> needs_tenancy (approval_created_data k claims req metadata h)"
  by (auto simp: needs_tenancy_def approval_created_data_def put_unless_blank_def capability_event_def mhas_def mput_def)

lemma store_approval_outcome:
  assumes "evolves env s0 s" "\<not> needs_tenancy d" "\<And>t. pa_State (f t) = StatePending" "random env (ticks s0) 8 = Inr k"
  shows "case store_approval env claims f k d s of None \<Rightarrow> False | Some (r, s') \<Rightarrow> evolves env s0 s'"
proof -
  let ?p = "pruneExpiredLocked env s"
  let ?n = "clock env (ticks ?p)" and ?q = "?p\<lparr>ticks := Suc (ticks ?p)\<rparr>"
  let ?m = "noteExpiryCandidateLocked env (pa_ExpiresAt (f ?n)) (?q\<lparr>records := mput k (f ?n) (records ?p)\<rparr>)"
  have p: "evolves env s0 ?p" "evolves env s0 ?q"
    using evolves_prune [OF assms(1)] by (auto intro: evolve)
  have "drawn env (ticks s0) (ticks ?q) k" if "tables_wf s0"
    using evolves_ticks [OF p(1) that] assms(4) by (auto simp: drawn_def)
  then have m: "evolves env s0 ?m" using evolves_mint [OF p(2), of "f ?n" k] assms(3) by simp
  obtain r s1 where l: "logEvent env ''approval.created'' (ct_ControlSessionID claims) d ?m = Some (r, s1)"
    using logEvent_blocks_iff assms(2) by (metis option.exhaust prod.exhaust)
  note e = logEvent_evolves [OF l m, THEN conjunct1]
  show ?thesis
    using p(1) l e evolves_withdraw [OF e, of k] by (auto simp: store_approval_def server_now_def Let_def)
qed

lemma after_share_metadata [returns]: "after env s0 s \<Longrightarrow> after env s0 (share_metadata k m s)"
  by (auto simp: share_metadata_def after_def intro: evolves_same_state split: option.splits)

lemma returns_store_approval:
  assumes "after env s0 s" "\<not> needs_tenancy d" "\<And>t. pa_State (f t) = StatePending" "random env (ticks s0) 8 = Inr k"
  shows "returns env b s0 (with_mu (store_approval env claims f k d) s)"
proof (rule returns_with_mu [OF assms(1)])
  fix s1 :: "('b, 'c) server"
  assume "evolves env s0 s1"
  from store_approval_outcome [OF this assms(2), where f = f and k = k and claims = claims, OF assms(3,4)]
  show "case store_approval env claims f k d s1 of None \<Rightarrow> b | Some (r, s2) \<Rightarrow> evolves env s0 s2"
    by (auto split: option.splits)
qed

text \<open>The approval id is the first thing the function draws.\<close>

lemma returns_createCapabilityApprovalResponse [returns]:
  assumes "after env s0 s"
  shows "returns env b s0 (createCapabilityApprovalResponse env xe claims req d s)"
proof (rule returns_from [OF _ assms])
  have a: "after env s s" using assms by (simp add: after_def evolves_refl)
  show "returns env b s (createCapabilityApprovalResponse env xe claims req d s)"
    using a unfolding createCapabilityApprovalResponse_def randomHex_def server_now_def Let_def prod.case
    by (auto intro!: returns_bind returns_store_approval returns simp: created_has_tenancy new_approval_def
        split: sum.splits store_outcome.splits)
qed

lemma returns_prepareCapabilityExecution [returns]:
  "after env s0 s \<Longrightarrow> returns env b s0 (prepareCapabilityExecution env claims req d t s)"
  unfolding prepareCapabilityExecution_def Let_def by (auto intro!: returns_bind returns split: option.splits)

lemma after_note_run [simp]: "after env s0 (note_run claims req s) = after env s0 s"
  by (simp add: note_run_def)

lemma returns_executeCapabilityTool [returns]:
  "after env s0 s \<Longrightarrow> returns env b s0 (executeCapabilityTool env xe t claims req s)"
  unfolding executeCapabilityTool_def Let_def by (auto intro!: returns split: sum.splits prod.splits)

lemma store_if_after: "store_if n env xe req out ref s = (r, s') \<Longrightarrow> after env s0 s \<Longrightarrow> after env s0 s'"
  by (auto simp: store_if_def storeQuarantinedPayload_def randomHex_def server_now_def Let_def
      split: if_splits sum.splits prod.splits)

lemma returns_quarantine_failure [returns]:
  "after env s0 s \<Longrightarrow> returns env b s0 (capabilityQuarantinePersistenceFailureResponse env xe claims req e s)"
  unfolding capabilityQuarantinePersistenceFailureResponse_def Let_def by (rule returns_audited_reply)

lemma returns_executed_response [returns]:
  "after env s0 s \<Longrightarrow> returns env b s0 (executed_response env xe claims req st fm c ref s)"
  unfolding executed_response_def Let_def by (auto intro!: returns split: sum.splits)

lemma returns_finalizeCapabilityExecution [returns]:
  "after env s0 s \<Longrightarrow> returns env b s0 (finalizeCapabilityExecution env xe claims req out s)"
  unfolding finalizeCapabilityExecution_def
  by (auto intro!: returns dest!: store_if_after split: sum.splits prod.splits)

lemma returns_execute_decided:
  "direct_implements env b xe \<Longrightarrow> after env s0 s \<Longrightarrow> returns env b s0 (execute_decided env xe claims req d t s)"
  unfolding execute_decided_def dispatchDirectCapabilityExecution_def
  by (auto intro!: returns_bind returns_direct returns split: sum.splits)

lemma returns_act_on_decision:
  "direct_implements env b xe \<Longrightarrow> after env s0 s \<Longrightarrow> returns env b s0 (act_on_decision env xe claims req allow d t s)"
  unfolding act_on_decision_def by (auto intro!: returns_execute_decided returns)

lemma returns_execute_with_slot:
  "direct_implements env b xe \<Longrightarrow> after env s0 s \<Longrightarrow> returns env b s0 (execute_with_slot env xe claims req allow s)"
  unfolding execute_with_slot_def
  by (auto intro!: returns_bind returns_act_on_decision returns split: sum.splits prod.splits)

lemma returns_executeCapabilityRequest:
  "direct_implements env b xe \<Longrightarrow> after env s0 s \<Longrightarrow>
     returns env b s0 (executeCapabilityRequest env xe claims req allow s)"
  unfolding executeCapabilityRequest_def tryAcquireCapabilityExecutionSlot_def releaseCapabilityExecutionSlot_def
  by (auto intro!: returns_bind returns_execute_with_slot returns split: sum.splits option.splits prod.splits)

lemma returns_handleCapabilityExecute:
  "direct_implements env b xe \<Longrightarrow> after env s0 s \<Longrightarrow> returns env b s0 (handleCapabilityExecute env xe cd request s)"
  unfolding handleCapabilityExecute_def
  by (auto intro!: returns_bind returns_executeCapabilityRequest returns split: sum.splits)

lemma returns_run_approved:
  "direct_implements env b xe \<Longrightarrow> after env s0 s \<Longrightarrow> returns env b s0 (run_approved env xe reply k a h s)"
  unfolding run_approved_def Let_def
  by (auto intro!: returns_bind returns_executeCapabilityRequest returns split: sum.splits)

lemma returns_refuse_decision [returns]:
  "after env s0 s \<Longrightarrow> returns env b s0 (refuse_decision env session k a d s)"
  unfolding refuse_decision_def by (auto intro!: returns_bind returns)

lemma returns_decide:
  "direct_implements env True xe \<Longrightarrow> after env s0 s \<Longrightarrow> returns env True s0 (decide env xe op reply session k d s)"
  unfolding decide_def grant_and_run_def
  by (auto intro!: returns_bind returns_run_approved returns split: sum.splits option.splits prod.splits)

lemma returns_handleApprovalDecision:
  "direct_implements env True xe \<Longrightarrow> after env s0 s \<Longrightarrow> returns env True s0 (handleApprovalDecision env xe cd request s)"
  unfolding handleApprovalDecision_def
  by (auto intro!: returns_bind returns_decide returns split: sum.splits option.splits)

lemma returns_requireControlCapability [returns]:
  "after env s0 s \<Longrightarrow> returns env b s0 (requireControlCapability env claims c s)"
  unfolding requireControlCapability_def requireScopedCapability_def by (auto intro!: returns_bind returns)

lemma returns_handleControlApprovalDecision:
  "direct_implements env True xe \<Longrightarrow> after env s0 s \<Longrightarrow>
     returns env True s0 (handleControlApprovalDecision env xe cd request s)"
  unfolding handleControlApprovalDecision_def
  by (auto intro!: returns_bind returns_decide returns split: sum.splits option.splits)

lemma list_approvals_fold:
  assumes "\<forall>(k, a)\<in>set xs. map_option pa_State (map_of m k) = Some (pa_State a)" "map_wf m"
    and "fold (\<lambda>(k, a) (m, out). if \<not> visible_to claims a then (m, out) else
      (case BackfillPendingApprovalManifest m k a of (m', a') \<Rightarrow> (m', out @ [operatorApprovalSummaryFromPending cd a']))) xs (m, out)
      = (m', out')"
  shows "map_wf m' \<and> (\<forall>j. map_option pa_State (map_of m' j) = map_option pa_State (map_of m j))"
  using assms
proof (induction xs arbitrary: m out)
  case (Cons p xs)
  obtain k a where p: "p = (k, a)" by (cases p)
  show ?case
  proof (cases "visible_to claims a")
    case False
    then show ?thesis using Cons.IH [of m out] Cons.prems by (auto simp: p)
  next
    case True
    obtain m1 a1 where b: "BackfillPendingApprovalManifest m k a = (m1, a1)" by fastforce
    have m1: "map_wf m1 \<and> (\<forall>j. map_option pa_State (map_of m1 j) = map_option pa_State (map_of m j))"
      using b Cons.prems(1,2)
      by (auto simp: p BackfillPendingApprovalManifest_def Let_def split: if_splits sum.splits)
    show ?thesis
      using Cons.IH [of m1 "out @ [operatorApprovalSummaryFromPending cd a1]"] m1 Cons.prems True by (auto simp: p b)
  qed
qed simp

lemma evolves_list_approvals: "evolves env s0 s \<Longrightarrow> evolves env s0 (snd (list_approvals env cd claims s))"
proof -
  assume e: "evolves env s0 s"
  let ?s = "pruneExpiredLocked env s"
  obtain m out where f: "fold (\<lambda>(k, a) (m, out). if \<not> visible_to claims a then (m, out) else
      (case BackfillPendingApprovalManifest m k a of (m', a') \<Rightarrow> (m', out @ [operatorApprovalSummaryFromPending cd a'])))
      (records ?s) (records ?s, []) = (m, out)" by fastforce
  have "map_wf m \<and> (\<forall>j. map_option pa_State (map_of m j) = map_option pa_State (map_of (records ?s) j))"
    if "map_wf (records ?s)"
    by (rule list_approvals_fold [OF _ that f]) (use that in \<open>auto simp: mget_in\<close>)
  then have "evolves env s0 (?s\<lparr>records := m\<rparr>)"
    by (intro evolves_same_records [OF evolves_prune [OF e]]) auto
  then show ?thesis by (simp add: list_approvals_def Let_def f)
qed

lemma returns_handleControlApprovals:
  "after env s0 s \<Longrightarrow> returns env b s0 (handleControlApprovals env xe cd request s)"
  unfolding handleControlApprovals_def
  by (auto intro!: returns_bind returns_section evolves_list_approvals returns split: sum.splits option.splits)

end
