(* ===== verification/ControlProperties.thy ===== *)
theory ControlProperties
  imports ControlRefinement
begin

text \<open>
  What the control plane guarantees, over any sequence of served requests: the handlers refine the
  plane, every request is answered except where a lock is taken twice, nothing single-use happens
  twice within the replay window, and an approval is granted once. The clock of the last three never
  goes back.
\<close>

section \<open>Serving requests\<close>

datatype call = CapabilityExecute http_request | ApprovalDecision http_request
  | ControlApprovalDecision http_request | ControlApprovals http_request
  | SessionOpen http_request | SessionClose http_request

definition serve :: "('io, 'f) server_env \<Rightarrow> ('f, 'w) exec_env \<Rightarrow> codec \<Rightarrow> session_env \<Rightarrow> call \<Rightarrow> ('f, 'w) server \<Rightarrow>
    (http_reply \<times> ('f, 'w) server) option" where
  "serve env xe cd se call s = (case call of
     CapabilityExecute request \<Rightarrow> handleCapabilityExecute env xe cd request s
   | ApprovalDecision request \<Rightarrow> handleApprovalDecision env xe cd request s
   | ControlApprovalDecision request \<Rightarrow> handleControlApprovalDecision env xe cd request s
   | ControlApprovals request \<Rightarrow> handleControlApprovals env xe cd request s
   | SessionOpen request \<Rightarrow> handleSessionOpen env xe se request s
   | SessionClose request \<Rightarrow> handleSessionClose env xe request s)"

text \<open>The policy snapshot may change from request to request.\<close>

inductive served :: "('io, 'f) server_env \<Rightarrow> codec \<Rightarrow> session_env \<Rightarrow> ('f, 'w) server \<Rightarrow> ('f, 'w) server \<Rightarrow> bool"
  for env :: "('io, 'f) server_env" and cd :: codec and se :: session_env where
  none: "served env cd se s s"
| more: "served env cd se s s1 \<Longrightarrow> direct_implements env True xe \<Longrightarrow> serve env xe cd se call s1 = Some (r, s2) \<Longrightarrow>
    served env cd se s s2"

lemma returns_serve:
  "direct_implements env True xe \<Longrightarrow> after env s0 s \<Longrightarrow> returns env True s0 (serve env xe cd se call s)"
  by (cases call) (simp_all add: serve_def returns_handleCapabilityExecute returns_handleApprovalDecision
      returns_handleControlApprovalDecision returns_handleControlApprovals returns_handleSessionOpen
      returns_handleSessionClose)

lemma served_after: "served env cd se s s' \<Longrightarrow> after env s0 s \<Longrightarrow> after env s0 s'"
proof (induction rule: served.induct)
  case (more s s1 xe call r s2)
  from returns_serve [OF more.hyps(2) more.IH [OF more.prems], where cd = cd and se = se and call = call] more.hyps(3)
  show ?case by simp
qed simp

section \<open>Refinement\<close>


section \<open>Every request is answered\<close>


lemma mhas_put_unless_blank: "k \<noteq> k' \<Longrightarrow> mhas (put_unless_blank k v d) k' \<longleftrightarrow> mhas d k'"
  by (simp add: put_unless_blank_def Let_def)

lemma mhas_Cons: "mhas ((k, v) # d) k' \<longleftrightarrow> k = k' \<or> mhas d k'" and mhas_Nil: "\<not> mhas [] k'"
  by (auto simp: mhas_iff)

lemma no_session_tenancy: "needs_tenancy (grant_event_data a root t (buildApprovalGrantedAuditData k a r))"
proof -
  have "\<not> mhas (buildApprovalGrantedAuditData k a r) ''tenant_id''"
    unfolding buildApprovalGrantedAuditData_def Let_def
    by (simp add: mhas_put_unless_blank mhas_Cons mhas_Nil split: option.split)
  then show ?thesis by (simp add: needs_tenancy_def grant_event_data_def)
qed

lemma session_tenancy: "\<not> needs_tenancy (grant_event_data a root t (mergeAuditTenancyFromControlSession d x))"
  using merged_has_tenancy [of d x] by (auto simp: needs_tenancy_def grant_event_data_def mhas_def)

lemma commit_grant_blocks_iff:
  assumes "mu_held s"
  shows "commit_grant env k a r s = None \<longleftrightarrow>
    map_of (sessions s) (pa_ControlSessionID a) = None \<and> \<not> blank (pa_ControlSessionID a)"
proof -
  let ?root = "trim_space (metadata_string (pa_Metadata a) ''grant_root'')"
  obtain t s1 where s1: "(if ?root = [] then (0, s) else server_now env s) = (t, s1)" by fastforce
  then have m: "mu_held s1" using assms by (auto simp: server_now_def split: if_splits)
  let ?d = "grant_event_data a ?root (t + operatorMountWriteGrantTTL) (grant_audit_data k a r s)"
  have "commit_grant env k a r s = None \<longleftrightarrow>
      logEventWithHash env ''approval.granted'' (pa_ControlSessionID a) ?d s1 = None"
    by (simp only: commit_grant_def Let_def s1 prod.case) (simp add: bind_eq_None_conv split_beta)
  moreover have "needs_tenancy ?d \<longleftrightarrow> map_of (sessions s) (pa_ControlSessionID a) = None"
    by (cases "map_of (sessions s) (pa_ControlSessionID a)")
      (simp_all add: grant_audit_data_def Let_def no_session_tenancy session_tenancy)
  ultimately show ?thesis using m by (simp add: logEventWithHash_blocks_iff)
qed

text \<open>
  C18: the commit of a grant, and with it the approval's decision, blocks for ever holding the server's
  lock exactly when the approval's session no longer exists.
\<close>

theorem grant_blocks_without_session:
  assumes "\<not> mu_held s"
  shows "commitApprovalGrantConsumed env k n r s = None \<longleftrightarrow>
    (\<exists>a. map_of (records s) k = Some a \<and> pa_State a = StatePending \<and> trim_space n \<noteq> [] \<and>
       pa_DecisionNonce a = trim_space n \<and> map_of (sessions s) (pa_ControlSessionID a) = None \<and>
       \<not> blank (pa_ControlSessionID a))"
proof (cases "grant_refused k (trim_space n) (s\<lparr>mu_held := True\<rparr>)")
  case (Inl e)
  then have "commitApprovalGrantConsumed env k n r s \<noteq> None"
    using assms by (simp add: commitApprovalGrantConsumed_def with_mu_def lock_mu_def)
  with Inl show ?thesis by (auto simp: grant_refused_def)
next
  case (Inr a)
  then have a: "map_of (records s) k = Some a" "pa_State a = StatePending" "trim_space n \<noteq> []"
    "pa_DecisionNonce a = trim_space n"
    by (auto simp: grant_refused_def split: option.splits if_splits)
  have "commitApprovalGrantConsumed env k n r s = None \<longleftrightarrow> commit_grant env k a r (s\<lparr>mu_held := True\<rparr>) = None"
    using assms Inr by (auto simp: commitApprovalGrantConsumed_def with_mu_def lock_mu_def split: option.splits)
  also have "\<dots> \<longleftrightarrow> map_of (sessions s) (pa_ControlSessionID a) = None \<and> \<not> blank (pa_ControlSessionID a)"
    by (simp add: commit_grant_blocks_iff)
  finally show ?thesis using a by auto
qed


section \<open>Nothing single-use happens twice within the window\<close>

context timed_table
begin

lemma entry_gone:
  assumes "plane_run window c es p q" "table p k = Some t" "table q k = None" "\<forall>e\<in>set es. \<not> forgets e k" "mono c"
  shows "time_sub (c (p_now q)) t > window"
  using entry_stays_run [OF assms(1), of k t] assms(2-5) by (auto simp: gone_def)

end

lemma with_mu_total:
  "with_mu (\<lambda>s. Some (f s)) s = Some (x, s') \<Longrightarrow> \<exists>u. f (s\<lparr>mu_held := True\<rparr>) = (x, u) \<and> s' = u\<lparr>mu_held := False\<rparr>"
  by (auto simp: with_mu_def lock_mu_def unlock_mu_def split: if_splits prod.splits)

lemma served_then_pruned:
  assumes "tables_wf s" "after env s s1" "served env cd se s1 s2"
  shows "\<exists>es. plane_run requestReplayWindow (clock env) es (plane_of s1)
    (plane_of (pruneExpiredLocked env (s2\<lparr>mu_held := True\<rparr>)))"
proof -
  have "tables_wf s1" "after env s1 s2"
    using assms served_after [OF assms(3) after_refl] by (auto simp: after_def evolves_def)
  then have "evolves env s1 (pruneExpiredLocked env (s2\<lparr>mu_held := True\<rparr>))"
    by (intro evolves_prune) (simp add: after_def)
  with \<open>tables_wf s1\<close> show ?thesis by (auto simp: evolves_def)
qed

lemma spend_token_accepted:
  assumes "spend_token env claims request s = (None, s')"
  shows "p_used (plane_of (pruneExpiredLocked env s)) (TokenID claims) = None \<and>
    p_used (plane_of s') (TokenID claims) = Some (clock env (ticks (pruneExpiredLocked env s)))"
  using assms by (auto simp: spend_token_def server_now_def ConsumeUsedToken_def noteReplayWindowCandidateLocked_def
      noteExpiryCandidateLocked_def plane_of_def mhas_def Let_def split: if_splits)

text \<open>
  C16: two accepted uses of a single-use token, whatever was served between them, lie further apart
  than the replay window.
\<close>

theorem single_use_tokens_apart:
  assumes "tables_wf s" "\<not> mu_held s" "mono (clock env)" "SingleUse claims" "SingleUse claims'"
    and "TokenID claims' = TokenID claims"
    and first: "consumeExecutionToken env claims request s = Some (None, s1)"
    and between: "served env cd se s1 s2"
    and again: "consumeExecutionToken env claims' request' s2 = Some (None, s3)"
  shows "\<exists>t1 t2. map_option ut_ConsumedAt (map_of (usedTokens s1) (TokenID claims)) = Some t1 \<and>
    map_option ut_ConsumedAt (map_of (usedTokens s3) (TokenID claims)) = Some t2 \<and>
    time_sub t2 t1 > requestReplayWindow"
proof -
  obtain u1 where u1: "spend_token env claims request (s\<lparr>mu_held := True\<rparr>) = (None, u1)" "s1 = u1\<lparr>mu_held := False\<rparr>"
    using first assms(4) by (auto simp: consumeExecutionToken_def split: option.splits dest!: with_mu_total)
  obtain u3 where u3: "spend_token env claims' request' (s2\<lparr>mu_held := True\<rparr>) = (None, u3)" "s3 = u3\<lparr>mu_held := False\<rparr>"
    using again assms(5) by (auto simp: consumeExecutionToken_def split: option.splits dest!: with_mu_total)
  have "after env s s1"
    using returns_consumeExecutionToken [OF after_refl [OF assms(2)], of env True claims request] first by simp
  from served_then_pruned [OF assms(1) this between] obtain es where es: "plane_run requestReplayWindow (clock env)
      es (plane_of s1) (plane_of (pruneExpiredLocked env (s2\<lparr>mu_held := True\<rparr>)))" by blast
  note t1 = conjunct2 [OF spend_token_accepted [OF u1(1)]] and t2 = spend_token_accepted [OF u3(1), unfolded assms(6)]
  have "p_used (plane_of s1) (TokenID claims) = Some (clock env (ticks (pruneExpiredLocked env (s\<lparr>mu_held := True\<rparr>))))"
    using t1 u1(2) by simp
  from spent.entry_gone [OF es this] t2 assms(3) t1 u1(2) u3(2) show ?thesis by (auto simp: plane_of_def)
qed

lemma enter_request_accepted:
  assumes "enter_request env sid request s = (None, s')"
  shows "p_requests (plane_of (pruneExpiredLocked env s)) (RequestReplayKey sid (RequestID request)) = None \<and>
    p_requests (plane_of s') (RequestReplayKey sid (RequestID request)) =
      Some (clock env (ticks (pruneExpiredLocked env s)))"
  using assms by (auto simp: enter_request_def server_now_def RecordSeenRequest_def noteReplayWindowCandidateLocked_def
      noteExpiryCandidateLocked_def plane_of_def mhas_def Let_def split: if_splits)

text \<open>
  C36: the same for request ids: a request id of a session that was accepted is accepted again only
  when more than the replay window has passed.
\<close>

theorem request_ids_apart:
  assumes "tables_wf s" "\<not> mu_held s" "mono (clock env)" "RequestID request' = RequestID request"
    and first: "recordRequest env sid request s = Some (None, s1)"
    and between: "served env cd se s1 s2"
    and again: "recordRequest env sid request' s2 = Some (None, s3)"
  shows "\<exists>t1 t2. map_option sr_SeenAt (map_of (seenRequests s1) (RequestReplayKey sid (RequestID request))) = Some t1 \<and>
    map_option sr_SeenAt (map_of (seenRequests s3) (RequestReplayKey sid (RequestID request))) = Some t2 \<and>
    time_sub t2 t1 > requestReplayWindow"
proof -
  obtain u1 where u1: "enter_request env sid request (s\<lparr>mu_held := True\<rparr>) = (None, u1)" "s1 = u1\<lparr>mu_held := False\<rparr>"
    using with_mu_total [OF first [unfolded recordRequest_def]] by auto
  obtain u3 where u3: "enter_request env sid request' (s2\<lparr>mu_held := True\<rparr>) = (None, u3)" "s3 = u3\<lparr>mu_held := False\<rparr>"
    using with_mu_total [OF again [unfolded recordRequest_def]] by auto
  have "after env s s1"
    using returns_recordRequest [OF after_refl [OF assms(2)], of env True sid request] first by simp
  from served_then_pruned [OF assms(1) this between] obtain es where es: "plane_run requestReplayWindow (clock env)
      es (plane_of s1) (plane_of (pruneExpiredLocked env (s2\<lparr>mu_held := True\<rparr>)))" by blast
  note t1 = conjunct2 [OF enter_request_accepted [OF u1(1)]] and t2 = enter_request_accepted [OF u3(1), unfolded assms(4)]
  have "p_requests (plane_of s1) (RequestReplayKey sid (RequestID request)) =
      Some (clock env (ticks (pruneExpiredLocked env (s\<lparr>mu_held := True\<rparr>))))"
    using t1 u1(2) by simp
  from requests.entry_gone [OF es this] t2 assms(3) t1 u1(2) u3(2) show ?thesis by (auto simp: plane_of_def)
qed

section \<open>An approval is granted once\<close>

lemma settled_approval:
  "settle_approval env k a st s = (Inr x, s') \<Longrightarrow> map_option pa_State (map_of (records s') k) = Some st"
  by (auto simp: settle_approval_def setApprovalStateLocked_def server_now_def Let_def split: option.splits)

lemma finish_grant_state:
  assumes "finish_grant env k a root t lg s = (Inr h, s')"
  shows "map_option pa_State (map_of (records s') k) = Some StateConsumed"
proof -
  let ?s = "if root = [] then s else add_write_grant (pa_ControlSessionID a) root t s"
  obtain y s2 where y: "settle_approval env k a StateConsumed ?s = (y, s2)" by fastforce
  then show ?thesis
    using assms settled_approval [of env k a StateConsumed ?s _ s2]
    by (cases lg; cases y) (simp_all only: finish_grant_def Let_def y sum.case prod.case prod.inject sum.distinct simp_thms)
qed

lemma commit_grant_state:
  assumes "commit_grant env k a r s = Some (Inr h, s')"
  shows "map_option pa_State (map_of (records s') k) = Some StateConsumed"
  using assms finish_grant_state [where env = env]
  unfolding commit_grant_def by (auto simp only: Let_def bind_eq_Some_conv split: prod.splits) blast

lemma granted_state:
  assumes "commitApprovalGrantConsumed env k n r s = Some (Inr h, s')"
  shows "map_option pa_State (map_of (records s) k) = Some StatePending \<and>
    map_option pa_State (map_of (records s') k) = Some StateConsumed"
proof -
  obtain a u where a: "grant_refused k (trim_space n) (s\<lparr>mu_held := True\<rparr>) = Inr a"
    "commit_grant env k a r (s\<lparr>mu_held := True\<rparr>) = Some (Inr h, u)" "s' = unlock_mu u"
    using assms by (auto simp: commitApprovalGrantConsumed_def with_mu_def lock_mu_def
        split: if_splits option.splits sum.splits)
  show ?thesis using grant_refused_Inr [OF a(1)] commit_grant_state [OF a(2)] a(3) by (auto simp: unlock_mu_def)
qed

text \<open>
  C15: once the grant of an approval was committed, no later commit of the same id succeeds, whatever
  was served between, unless the random source gave the same id again: a decision takes effect once.
\<close>

theorem approval_granted_once:
  assumes "tables_wf s" "\<not> mu_held s"
    and first: "commitApprovalGrantConsumed env k n r s = Some (Inr h, s1)"
    and between: "served env cd se s1 s2"
    and fresh: "\<not> drawn env (ticks s1) (ticks s2) k"
  shows "commitApprovalGrantConsumed env k n' r' s2 \<noteq> Some (Inr h', s3)"
proof
  assume again: "commitApprovalGrantConsumed env k n' r' s2 = Some (Inr h', s3)"
  have "after env s s1"
    using returns_commit [OF after_refl [OF assms(2)], of env k n r] first by simp
  then have s1: "tables_wf s1" "after env s1 s2"
    using assms(1) served_after [OF between after_refl] by (auto simp: after_def evolves_def)
  then obtain es where es: "plane_run requestReplayWindow (clock env) es (plane_of s1) (plane_of s2)"
    "\<forall>k. ApprovalMinted k \<in> set es \<longrightarrow> drawn env (ticks s1) (ticks s2) k" by (auto simp: after_def evolves_def)
  have "settled (plane_of s1) k" "\<not> settled (plane_of s2) k"
    using granted_state [OF first] granted_state [OF again] by (auto simp: settled_def plane_of_def)
  with settled_run [OF es(1)] es(2) fresh show False by blast
qed

section \<open>Concrete servers\<close>

text \<open>
  A server with an audit log that takes every line, a clock that advances by two hours per reading, and
  one session with one pending approval.
\<close>

definition plain_log :: "(unit, unit) audit_opts" where
  "plain_log = \<lparr>opt_Append = Some (\<lambda>_ f _. (f, None)), opt_Path = [], opt_AnchorPath = [],
     opt_Config = \<lparr>hc_Enabled = False, IntervalEvents = 0\<rparr>, opt_Tenancy = None,
     opt_ReadChain = (\<lambda>f _. (f, Inr (0, []))), opt_OrderedFiles = (\<lambda>_. Inr []), opt_Prime = (\<lambda>f _ _. f),
     opt_ManifestInUse = (\<lambda>_. False), opt_Stat = (\<lambda>_. None), opt_f2i = (\<lambda>_. 0)\<rparr>"

definition plain_answers :: "unit answers" where
  "plain_answers = \<lparr>io_event = (), io_checkpoint = (), now_event = 0, now_checkpoint = 0, now_anchor = 0,
     secret_checkpoint = Inr [], secret_anchor = Inr [], stat_fails = None, replace = Replaced\<rparr>"

definition coarse_env :: "(unit, unit) server_env" where
  "coarse_env = \<lparr>clock = (\<lambda>n. int n * (2 * nano_hour)), random = (\<lambda>_ _. Inr ''id''), audit_answers = (\<lambda>_. plain_answers),
     nonce_answers = (\<lambda>_. LineAppended), audit_options = plain_log, sessionOpenMinInterval = 0,
     maxActiveSessionsPerUID = 8, expirySweepMaxInterval = 0, fsReadRateLimit = 0, hookPreValidateRateLimit = 0,
     hookPreValidateRateWindow = 0, hookPeerAuthFailureRateLimit = 0, hookPeerAuthFailureWindow = 0,
     maxPendingApprovalsPerControlSession = 64, maxSeenRequestReplayEntries = 16, maxAuthNonceReplayEntries = 16,
     maxTotalControlSessions = 512, maxTotalApprovalRecords = 4096, maxInFlightCapabilityExecutions = None,
     sessionMACRotationMaster = []\<rparr>"

definition server_with :: "(string, control_session) gomap \<Rightarrow> (string, pending_approval) gomap \<Rightarrow> (unit, unit) server" where
  "server_with ss as = \<lparr>mu_held = False, ticks = 0, sessions = ss, tokens = [], openByUID = [], records = as,
     tokenIndex = [], mcpGatewayApprovalRequests = [], seenRequests = [], seenAuthNonces = [], usedTokens = [],
     sessionReadCounts = [], authDeniedBursts = [], hookPreValidateCounts = [], hookPeerAuthFailureCounts = [],
     nextExpirySweepAt = 0, executionSlotsInUse = 0, srv_nonces = None,
     srv_audit = \<lparr>as_sequence = 0, as_lastHash = [], as_sinceCheckpoint = 0, as_log = (), as_anchor = NoAnchor\<rparr>,
     srv_world = (), trace = []\<rparr>"

definition waiting_approval :: pending_approval where
  "waiting_approval = no_approval\<lparr>pa_ControlSessionID := ''cs'', pa_DecisionNonce := ''n'', pa_State := StatePending\<rparr>"

definition spent_claims :: capability_token where
  "spent_claims = \<lparr>TokenID = ''t'', Token = [], ct_ControlSessionID = ''cs'', ct_ActorLabel = [], ct_ClientSessionLabel = [],
     ct_AllowedCapabilities = [], ct_PeerIdentity = \<lparr>UID = 0, PID = 0, EPID = 0\<rparr>, ct_TenantID = [], ct_UserID = [],
     ct_ExpiresAt = 0, SingleUse = True, ApprovedExecution = False, BoundCapability = [], BoundArgumentHash = [],
     ParentTokenID = []\<rparr>"

lemma server_with_wf [simp]: "tables_wf (server_with ss as) \<longleftrightarrow> map_wf as" "\<not> mu_held (server_with ss as)"
  by (simp_all add: server_with_def tables_wf_def map_wf_def)

lemma mono_coarse [simp]: "mono (clock coarse_env)"
  by (simp add: coarse_env_def mono_def nano_hour_def)

lemma waiting_simps [simp]: "pa_State waiting_approval = StatePending" "pa_DecisionNonce waiting_approval = ''n''"
  "pa_ControlSessionID waiting_approval = ''cs''" "pa_Metadata waiting_approval = []"
  by (simp_all add: waiting_approval_def no_approval_def)

lemma sample_trims [simp]: "trim_space ''n'' = ''n''" "trim_space ''cs'' = ''cs''" "trim_space [] = []"
  by code_simp+

text \<open>An approval whose session is gone: the decision blocks.\<close>

theorem grant_blocks_without_session_witness:
  "commitApprovalGrantConsumed coarse_env ''a'' ''n'' [] (server_with [] [(''a'', waiting_approval)]) = None"
proof -
  have "\<not> mu_held (server_with [] [(''a'', waiting_approval)])" by simp
  from grant_blocks_without_session [OF this, of coarse_env "''a''" "''n''" "[]"] show ?thesis
    by (simp add: server_with_def blank_def)
qed

text \<open>A token used twice, three readings of the clock apart.\<close>

definition once_used :: "(unit, unit) server" where
  "once_used = (case consumeExecutionToken coarse_env spent_claims (pa_Request no_approval) (server_with [] []) of
     Some (_, s) \<Rightarrow> s | None \<Rightarrow> server_with [] [])"

lemmas sample_steps = server_with_def coarse_env_def with_mu_def lock_mu_def unlock_mu_def pruneExpiredLocked_def
  server_now_def sweep_not_due_def sweep_tables_def sweep_def List.map_filter_simps dropped_approval_tokens_def
  mfilter_def next_sweep_def noteReplayWindowCandidateLocked_def noteExpiryCandidateLocked_def Let_def

lemma first_use:
  "consumeExecutionToken coarse_env spent_claims (pa_Request no_approval) (server_with [] []) = Some (None, once_used)"
  "ticks once_used = 2" "usedTokens once_used \<noteq> []" "mu_held once_used = False"
  unfolding once_used_def
  by (simp_all add: consumeExecutionToken_def token_binding_denial_def spent_claims_def spend_token_def ConsumeUsedToken_def
      mhas_def mput_def blank_def sample_steps)

lemma second_use: "\<exists>s. consumeExecutionToken coarse_env spent_claims (pa_Request no_approval) once_used = Some (None, s)"
  unfolding once_used_def
  by (simp add: consumeExecutionToken_def token_binding_denial_def spent_claims_def spend_token_def ConsumeUsedToken_def
      mhas_def mput_def blank_def sweep_used_def requestReplayWindow_def sessionTTL_def nano_hour_def time_sub_def sample_steps)

theorem single_use_tokens_apart_witness:
  "\<exists>s t1 t2. consumeExecutionToken coarse_env spent_claims (pa_Request no_approval) once_used = Some (None, s) \<and>
     map_option ut_ConsumedAt (map_of (usedTokens once_used) ''t'') = Some t1 \<and>
     map_option ut_ConsumedAt (map_of (usedTokens s) ''t'') = Some t2 \<and> time_sub t2 t1 > requestReplayWindow"
proof -
  let ?r = "pa_Request no_approval"
  obtain s where s: "consumeExecutionToken coarse_env spent_claims ?r once_used = Some (None, s)"
    using second_use by blast
  have "SingleUse spent_claims" "TokenID spent_claims = ''t''" "map_wf ([] :: (string, pending_approval) gomap)"
    by (simp_all add: spent_claims_def map_wf_def)
  with single_use_tokens_apart [OF _ _ mono_coarse _ _ refl first_use(1) served.none s] s show ?thesis by auto
qed

definition seen_server :: "(unit, unit) server" where
  "seen_server = (case recordRequest coarse_env ''cs'' (pa_Request no_approval) (server_with [] []) of
     Some (_, s) \<Rightarrow> s | None \<Rightarrow> server_with [] [])"

lemma first_request: "recordRequest coarse_env ''cs'' (pa_Request no_approval) (server_with [] []) = Some (None, seen_server)"
  unfolding seen_server_def by (simp add: recordRequest_def enter_request_def RecordSeenRequest_def mhas_def sample_steps)

lemma second_request: "\<exists>s. recordRequest coarse_env ''cs'' (pa_Request no_approval) seen_server = Some (None, s)"
  unfolding seen_server_def
  by (simp add: recordRequest_def enter_request_def RecordSeenRequest_def mhas_def mput_def sweep_seen_def
      requestReplayWindow_def sessionTTL_def nano_hour_def time_sub_def sample_steps)

theorem request_ids_apart_witness:
  "\<exists>s t1 t2. recordRequest coarse_env ''cs'' (pa_Request no_approval) seen_server = Some (None, s) \<and>
     map_option sr_SeenAt (map_of (seenRequests seen_server) (RequestReplayKey ''cs'' [])) = Some t1 \<and>
     map_option sr_SeenAt (map_of (seenRequests s) (RequestReplayKey ''cs'' [])) = Some t2 \<and>
     time_sub t2 t1 > requestReplayWindow"
proof -
  let ?r = "pa_Request no_approval"
  obtain s where s: "recordRequest coarse_env ''cs'' ?r seen_server = Some (None, s)" using second_request by blast
  have "RequestID ?r = []" "map_wf ([] :: (string, pending_approval) gomap)" by (simp_all add: no_approval_def map_wf_def)
  with request_ids_apart [OF _ _ mono_coarse refl first_request served.none s] s show ?thesis by auto
qed

definition granting_server :: "(unit, unit) server" where
  "granting_server = server_with [(''cs'', no_session)] [(''a'', waiting_approval)]"

lemma coarse_env_audit: "audit_options coarse_env = plain_log" "audit_answers coarse_env n = plain_answers"
  by (simp_all add: coarse_env_def)

lemma plain_log_Record:
  assumes "hashEvent (record_event 0 t sid (chain_fields (as_sequence a + 1) (as_lastHash a)
      (add_tenancy (Some (\<lambda>_. x)) sid d))) = Inr h"
  shows "\<exists>a'. Record (plain_log\<lparr>opt_Tenancy := Some (\<lambda>_. x)\<rparr>) plain_answers a t sid (Some d) = (a', Inr h)"
  using assms by (simp add: plain_log_def plain_answers_def Record_def append_audit_def ComputeEventHash_def
      copyInterfaceMap_def LedgerWriter_Record_def appendHMACCheckpointIfDueLocked_def checkpoint_due_def
      storeAnchorLocked_def Let_def)

definition sample_grant_data :: gdata where
  "sample_grant_data = grant_event_data waiting_approval [] operatorMountWriteGrantTTL
     (grant_audit_data ''a'' waiting_approval [] (granting_server\<lparr>mu_held := True\<rparr>))"

lemma sample_grant_data_eq: "sample_grant_data =
    [(''approval_request_id'', GString ''a''), (''capability'', GString []), (''approval_class'', GNil),
     (''approval_state'', GString StateConsumed), (''control_session_id'', GString ''cs''),
     (''actor_label'', GString []), (''client_session_label'', GString []), (''tenant_id'', GString []),
     (''user_id'', GString [])]"
  by (simp add: sample_grant_data_def grant_event_data_def grant_audit_data_def granting_server_def server_with_def
      mergeAuditTenancyFromControlSession_def buildApprovalGrantedAuditData_def put_unless_blank_def meta_value_def
      metadata_string_def waiting_approval_def no_approval_def no_session_def mput_def mhas_def Let_def)

lemma sample_hash: "\<exists>h. hashEvent (record_event 0 ''approval.granted'' ''cs'' (chain_fields 1 []
    (add_tenancy (Some (\<lambda>_. ([], []))) ''cs'' sample_grant_data))) = Inr h"
  by (simp add: sample_grant_data_eq hashEvent_def marshalCanonicalEventJSON_def canonicalizeEvent_def
      canonicalizeDataMap_def validateSafeJSONInteger_def minSafeJSONInteger_def maxSafeJSONInteger_def record_event_def
      chain_fields_def add_tenancy_def needs_tenancy_def mput_def mhas_def mdel_def Let_def)

lemma sample_logged: "\<exists>h u. logEventWithHash coarse_env ''approval.granted'' ''cs'' sample_grant_data
      (granting_server\<lparr>mu_held := True\<rparr>) = Some (Inr h, u) \<and> records u = records granting_server \<and> ticks u = 1"
proof -
  have "\<not> needs_tenancy sample_grant_data" by (simp add: sample_grant_data_eq needs_tenancy_def mhas_def)
  moreover obtain h where "hashEvent (record_event 0 ''approval.granted'' ''cs'' (chain_fields 1 []
      (add_tenancy (Some (\<lambda>_. ([], []))) ''cs'' sample_grant_data))) = Inr h" using sample_hash by blast
  with plain_log_Record [where a = "srv_audit granting_server" and x = "([], [])" and t = "''approval.granted''"
      and sid = "''cs''" and d = sample_grant_data and h = h]
  obtain a' where "Record (plain_log\<lparr>opt_Tenancy := Some (\<lambda>_. ([], []))\<rparr>) plain_answers (srv_audit granting_server)
      ''approval.granted'' ''cs'' (Some sample_grant_data) = (a', Inr h)"
    by (auto simp add: granting_server_def server_with_def)
  ultimately show ?thesis
    by (simp add: logEventWithHash_def coarse_env_audit) (simp add: granting_server_def server_with_def)
qed

lemma settle_waiting: "\<exists>x s'. settle_approval coarse_env ''a'' waiting_approval StateConsumed s = (Inr x, s')"
proof -
  have "ValidateStateTransition StatePending StateConsumed = None" by (simp add: valid_transition_iff approval_edge_def)
  then show ?thesis by (simp add: settle_approval_def setApprovalStateLocked_def server_now_def Let_def)
qed

lemma sample_grant: "\<exists>h s. commitApprovalGrantConsumed coarse_env ''a'' ''n'' [] granting_server = Some (Inr h, s)"
proof -
  obtain h u where l: "logEventWithHash coarse_env ''approval.granted'' ''cs'' sample_grant_data
      (granting_server\<lparr>mu_held := True\<rparr>) = Some (Inr h, u)" using sample_logged by blast
  have "grant_refused ''a'' ''n'' (granting_server\<lparr>mu_held := True\<rparr>) = Inr waiting_approval"
    by (simp add: grant_refused_def granting_server_def server_with_def)
  moreover have "\<exists>s. commit_grant coarse_env ''a'' waiting_approval [] (granting_server\<lparr>mu_held := True\<rparr>) = Some (Inr h, s)"
    using l settle_waiting [of u] by (auto simp: commit_grant_def sample_grant_data_def metadata_string_def finish_grant_def Let_def)
  moreover have "\<not> mu_held granting_server" by (simp add: granting_server_def)
  ultimately show ?thesis by (auto simp: commitApprovalGrantConsumed_def with_mu_def lock_mu_def)
qed

theorem approval_granted_once_witness:
  "\<exists>h s. commitApprovalGrantConsumed coarse_env ''a'' ''n'' [] granting_server = Some (Inr h, s) \<and>
     (\<forall>h' s'. commitApprovalGrantConsumed coarse_env ''a'' ''n'' [] s \<noteq> Some (Inr h', s'))"
proof -
  obtain h s where s: "commitApprovalGrantConsumed coarse_env ''a'' ''n'' [] granting_server = Some (Inr h, s)"
    using sample_grant by blast
  have "tables_wf granting_server" "\<not> mu_held granting_server" "\<not> drawn coarse_env (ticks s) (ticks s) ''a''"
    by (simp_all add: granting_server_def map_wf_def drawn_def)
  from approval_granted_once [OF this(1,2) s served.none this(3)] s show ?thesis by blast
qed

section \<open>A request from start to end\<close>

definition echo_env :: "(unit, unit) exec_env" where
  "echo_env = \<lparr>approvals_env = \<lparr>unicode_lower = (\<lambda>s. s),
       mount_fs = \<lparr>evalSymlinks = (\<lambda>_. None), getwd = Inr ''/'', darwin = False, fold_name = (\<lambda>s. s)\<rparr>,
       configured = (\<lambda>_. False), host_plan_fields = (\<lambda>_. [])\<rparr>,
     policy_snapshot = sample_policy, registry_snapshot = [], low_risk_plan = (\<lambda>_ _ _. False),
     direct = (\<lambda>_ _ s. Some (no_response, s)), configured_result = (\<lambda>_ _ _. Inl []), provenance = (\<lambda>_ _. []),
     error_class = (\<lambda>_. []),
     quarantine = \<lparr>qf_repoRoot = [], qf_write_blob = (\<lambda>_ _ w. (None, w)), qf_write_record = (\<lambda>_ _ w. (None, w)),
       qf_remove = (\<lambda>_ w. w)\<rparr>\<rparr>"

definition plain_codec :: codec where
  "plain_codec = \<lparr>decode_capability_request = (\<lambda>_. Inr (pa_Request no_approval)), decode_decision = (\<lambda>_. Inl []),
     text_of_value = (\<lambda>_. []), int_of_float = (\<lambda>_. 0)\<rparr>"

definition execute_request :: http_request where
  "execute_request = \<lparr>Method = ''POST'', Path = ''/v1/capabilities/execute'', hdr_Authorization = ''Bearer x'',
     hdr_ApprovalToken = [], hdr_ControlSession = ''cs'', hdr_Timestamp = [], hdr_Nonce = ''n'', hdr_Signature = [],
     Peer = Some \<lparr>UID = 0, PID = 0, EPID = 0\<rparr>, Body = Inr []\<rparr>"

definition no_sessions :: session_env where
  "no_sessions = \<lparr>processExists = None, resolveExePath = None, expectedClientPath = [], DeploymentTenantID = [],
     DeploymentUserID = [], se_repoRoot = ''/'', working_dir = Inr ''/'', resolve_mount = (\<lambda>_. Inl []),
     mount_is_dir = (\<lambda>_. Inr False), decode_open = (\<lambda>_. Inl [])\<rparr>"

lemma echo_returns: "direct_implements coarse_env b echo_env"
  by (simp add: direct_implements_def echo_env_def after_refl)

lemma sample_request_returns: "\<exists>r s. handleCapabilityExecute coarse_env echo_env plain_codec execute_request granting_server = Some (r, s)"
  using returns_handleCapabilityExecute [OF echo_returns [of False] after_refl, of granting_server plain_codec execute_request]
  by (auto simp: returns_def granting_server_def split: option.splits)



end
