(* ===== verification/CapabilityTrace.thy ===== *)
theory CapabilityTrace
  imports ControlProperties
begin

text \<open>
  What can be observed of a capability request from outside: the events the audit log acknowledged and
  the tools that ran, in their order (the field trace of the server). Every function of the request
  path only appends to the trace; all but the two dispatchers append no tool run, which is collected in
  \<open>quiet\<close>. The property of the path: a tool runs at most once, and only behind the acknowledged
  event of the decision that allowed it.
\<close>

named_theorems quiet and same_trace

section \<open>Quiet steps\<close>

definition tool_runs :: "action list \<Rightarrow> action list" where
  "tool_runs as = filter (\<lambda>a. case a of Ran _ _ _ \<Rightarrow> True | Audited _ _ _ \<Rightarrow> False) as"

lemma tool_runs_simps [simp]:
  "tool_runs [] = []" "tool_runs (as @ bs) = tool_runs as @ tool_runs bs"
  "tool_runs (Ran n g c # as) = Ran n g c # tool_runs as" "tool_runs (Audited e c d # as) = tool_runs as"
  by (simp_all add: tool_runs_def)

definition quiet_step :: "('f, 'w) server \<Rightarrow> ('f, 'w) server \<Rightarrow> bool" where
  "quiet_step s s' = (\<exists>new. trace s' = trace s @ new \<and> tool_runs new = [])"

lemma quiet_step_same: "trace s' = trace s \<Longrightarrow> quiet_step s s'"
  by (auto simp: quiet_step_def)

lemma quiet_step_refl [simp]: "quiet_step s s"
  by (rule quiet_step_same) simp

lemma quiet_step_trans: "quiet_step s s' \<Longrightarrow> quiet_step s' s'' \<Longrightarrow> quiet_step s s''"
  by (auto simp: quiet_step_def)

text \<open>A computation that started in a state after \<open>s0\<close>, and has run no tool since when it ends.\<close>

definition quietly :: "('f, 'w) server \<Rightarrow> ('a \<times> ('f, 'w) server) option \<Rightarrow> bool" where
  "quietly s0 x = (case x of None \<Rightarrow> True | Some (r, s) \<Rightarrow> quiet_step s0 s)"

lemma quietly_simps [simp]: "quietly s0 None" "quietly s0 (Some (r, s)) = quiet_step s0 s"
  by (simp_all add: quietly_def)

lemma quietlyD: "quietly s0 x \<Longrightarrow> x = Some (r, s) \<Longrightarrow> quiet_step s0 s"
  by simp

lemma quietly_bind:
  "quietly s0 m \<Longrightarrow> (\<And>r s. m = Some (r, s) \<Longrightarrow> quiet_step s0 s \<Longrightarrow> quietly s0 (k (r, s))) \<Longrightarrow>
     quietly s0 (Option.bind m k)"
  by (cases m) auto

lemma quietly_section:
  assumes "quiet_step s0 s" and "\<And>s. trace (snd (f s)) = trace s"
  shows "quietly s0 (with_mu (\<lambda>s. Some (f s)) s)"
  using assms(1) assms(2) [of "s\<lparr>mu_held := True\<rparr>"]
  by (auto simp: with_mu_def lock_mu_def unlock_mu_def quiet_step_def split: prod.splits)

lemma quietly_with_mu:
  assumes "quiet_step s0 s" and "\<And>s. quiet_step s0 s \<Longrightarrow> quietly s0 (body s)"
  shows "quietly s0 (with_mu body s)"
proof -
  have "quiet_step s0 (s\<lparr>mu_held := True\<rparr>)" using assms(1) by (simp add: quiet_step_def)
  from assms(2) [OF this] show ?thesis
    by (auto simp: with_mu_def lock_mu_def unlock_mu_def quiet_step_def split: option.splits)
qed

section \<open>Functions that leave the trace alone\<close>

lemma trace_now [same_trace]: "trace (snd (server_now env s)) = trace s"
  by (simp add: server_now_def)

lemma trace_random [same_trace]: "trace (snd (randomHex env n s)) = trace s"
  by (simp add: randomHex_def)

lemma trace_prune [same_trace]: "trace (pruneExpiredLocked env s) = trace s"
  by (simp add: pruneExpiredLocked_def server_now_def sweep_tables_def Let_def split: prod.splits)

lemma trace_note [same_trace]:
  "trace (noteExpiryCandidateLocked env t s) = trace s" "trace (noteReplayWindowCandidateLocked env t s) = trace s"
  by (simp_all add: noteReplayWindowCandidateLocked_def noteExpiryCandidateLocked_def)

lemma trace_enter_request [same_trace]: "trace (snd (enter_request env sid req s)) = trace s"
  by (simp add: enter_request_def server_now_def same_trace split: prod.splits replay_status.splits)

lemma trace_spend_token [same_trace]: "trace (snd (spend_token env claims req s)) = trace s"
  by (simp add: spend_token_def server_now_def same_trace split: prod.splits replay_status.splits)

lemma trace_active_write_grant [same_trace]: "trace (snd (active_write_grant env sid root s)) = trace s"
  by (simp add: active_write_grant_def server_now_def split: option.splits)

lemma trace_store [same_trace]: "trace (snd (storeQuarantinedPayload env fs req raw s)) = trace s"
  by (simp add: storeQuarantinedPayload_def randomHex_def server_now_def Let_def split: prod.splits sum.splits)

lemma trace_store_if [same_trace]: "trace (snd (store_if b env xe req out ref s)) = trace s"
  by (simp add: store_if_def same_trace)

lemma trace_share_metadata [same_trace]: "trace (share_metadata k m s) = trace s"
  by (simp add: share_metadata_def split: option.splits)

lemma trace_slots [same_trace]:
  "trace (snd (tryAcquireCapabilityExecutionSlot env s)) = trace s"
  "trace (releaseCapabilityExecutionSlot env s) = trace s"
  by (simp_all add: tryAcquireCapabilityExecutionSlot_def releaseCapabilityExecutionSlot_def split: option.splits)

section \<open>Functions that only audit\<close>

lemma quiet_logEvent [quiet]: "quiet_step s0 s \<Longrightarrow> quietly s0 (logEvent env ev sid d s)"
  by (auto simp: logEvent_def logEventWithHash_def quiet_step_def split: option.splits sum.splits prod.splits if_splits)

text \<open>An event that is acknowledged is the last action of the trace.\<close>

lemma logEvent_acknowledged:
  "logEvent env ev sid d s = Some (None, s') \<Longrightarrow> trace s' = trace s @ [Audited ev sid d]"
  by (auto simp: logEvent_def logEventWithHash_def split: option.splits sum.splits prod.splits if_splits)

lemma quiet_audited_reply [quiet]: "quiet_step s0 s \<Longrightarrow> quietly s0 (audited_reply env ev claims req x reply s)"
  unfolding audited_reply_def by (auto intro!: quietly_bind quiet)

lemma quiet_deny_capability [quiet]: "quiet_step s0 s \<Longrightarrow> quietly s0 (deny_capability env claims req reason code s)"
  unfolding deny_capability_def by (rule quiet)

lemma quiet_early [quiet]: "quietly s0 m \<Longrightarrow> quietly s0 (early m)"
  unfolding early_def by (auto intro!: quietly_bind)

lemma quiet_recordRequest [quiet]: "quiet_step s0 s \<Longrightarrow> quietly s0 (recordRequest env sid req s)"
  unfolding recordRequest_def by (rule quietly_section) (simp_all add: same_trace)

lemma quiet_consumeExecutionToken [quiet]: "quiet_step s0 s \<Longrightarrow> quietly s0 (consumeExecutionToken env claims req s)"
  unfolding consumeExecutionToken_def by (auto intro!: quietly_section simp: same_trace split: option.splits)

lemma quiet_checkFsReadRateLimit [quiet]: "quiet_step s0 s \<Longrightarrow> quietly s0 (checkFsReadRateLimit env sid s)"
  unfolding checkFsReadRateLimit_def
  by (erule quietly_with_mu) (auto simp: server_now_def Let_def quiet_step_def)

lemma quiet_operatorMountBinding [quiet]: "quiet_step s0 s \<Longrightarrow> quietly s0 (operatorMountBindingForControlSession sid s)"
  unfolding operatorMountBindingForControlSession_def Let_def by (auto intro!: quietly_section)

lemma quiet_operatorMountWriteGrantForRequest [quiet]:
  "quiet_step s0 s \<Longrightarrow> quietly s0 (operatorMountWriteGrantForRequest env paths sid req s)"
  unfolding operatorMountWriteGrantForRequest_def
  by (auto simp: Let_def same_trace intro!: quietly_bind quietly_section quiet split: option.splits sum.splits prod.splits)

lemma quiet_approvalMetadata [quiet]: "quiet_step s0 s \<Longrightarrow> quietly s0 (approvalMetadata env ae sid req s)"
  unfolding approvalMetadata_def Let_def by (auto intro!: quietly_bind quiet)

lemma quiet_store_approval [quiet]:
  assumes "quiet_step s0 s"
  shows "quietly s0 (store_approval env claims a k d s)"
proof -
  let ?p = "pruneExpiredLocked env s"
  have "quiet_step s0 ?p" using assms by (simp add: quiet_step_def same_trace)
  moreover have "quietly s0 (logEvent env ''approval.created'' (ct_ControlSessionID claims) d
      (noteExpiryCandidateLocked env t (u\<lparr>records := m\<rparr>)))" if "trace u = trace ?p" for t u m
    by (rule quiet) (use assms that in \<open>simp add: quiet_step_def same_trace\<close>)
  ultimately show ?thesis
    by (auto simp: store_approval_def Let_def server_now_def quiet_step_def intro!: quietly_bind split: prod.splits)
qed

lemma quiet_createCapabilityApprovalResponse [quiet]:
  "quiet_step s0 s \<Longrightarrow> quietly s0 (createCapabilityApprovalResponse env xe claims req d s)"
  unfolding createCapabilityApprovalResponse_def Let_def randomHex_def server_now_def
  by (auto intro!: quietly_bind quietly_with_mu quiet simp: quiet_step_def same_trace
      split: sum.splits store_outcome.splits)

lemma quiet_prepareCapabilityRequestExecution [quiet]:
  "quiet_step s0 s \<Longrightarrow> quietly s0 (prepareCapabilityRequestExecution env claims req allow s)"
  unfolding prepareCapabilityRequestExecution_def Let_def randomHex_def
  by (auto intro!: quietly_bind quiet simp: quiet_step_def split: sum.splits option.splits)

lemma quiet_resolveCapabilityExecutionTool [quiet]:
  "quiet_step s0 s \<Longrightarrow> quietly s0 (resolveCapabilityExecutionTool env xe claims req s)"
  unfolding resolveCapabilityExecutionTool_def Let_def by (auto intro!: quiet split: option.splits)

lemma quiet_evaluateCapabilityPolicyDecision [quiet]:
  "quiet_step s0 s \<Longrightarrow> quietly s0 (evaluateCapabilityPolicyDecision env xe t claims req s)"
  unfolding evaluateCapabilityPolicyDecision_def Let_def by (auto intro!: quietly_bind quiet split: prod.splits)

lemma quiet_prepareCapabilityExecution [quiet]:
  "quiet_step s0 s \<Longrightarrow> quietly s0 (prepareCapabilityExecution env claims req d t s)"
  unfolding prepareCapabilityExecution_def Let_def by (auto intro!: quietly_bind quiet split: option.splits)

lemma quiet_persistence_failure [quiet]:
  "quiet_step s0 s \<Longrightarrow> quietly s0 (capabilityQuarantinePersistenceFailureResponse env xe claims req e s)"
  unfolding capabilityQuarantinePersistenceFailureResponse_def Let_def by (rule quiet)

lemma quiet_executed_response [quiet]:
  "quiet_step s0 s \<Longrightarrow> quietly s0 (executed_response env xe claims req sr fm c ref s)"
  unfolding executed_response_def Let_def by (auto intro!: quiet split: sum.splits)

lemma quiet_store_if: "store_if b env xe req out ref s = (x, s') \<Longrightarrow> quiet_step s0 s \<Longrightarrow> quiet_step s0 s'"
  using trace_store_if [of b env xe req out ref s] by (simp add: quiet_step_def)

lemma quiet_finalizeCapabilityExecution [quiet]:
  "quiet_step s0 s \<Longrightarrow> quietly s0 (finalizeCapabilityExecution env xe claims req out s)"
  unfolding finalizeCapabilityExecution_def
  by (auto intro!: quiet dest: quiet_store_if split: prod.splits sum.splits)

section \<open>Where a tool runs\<close>

text \<open>What the four host capabilities do between the note of their run and their response audits only.\<close>

definition direct_runs_nothing :: "('f, 'w) exec_env \<Rightarrow> bool" where
  "direct_runs_nothing xe = (\<forall>claims req s. quietly s (direct xe claims req s))"

lemma quietly_from: "quietly s x \<Longrightarrow> quiet_step s0 s \<Longrightarrow> quietly s0 x"
  by (auto simp: quietly_def intro: quiet_step_trans split: option.splits)

lemma quiet_after_run:
  assumes "executeCapabilityTool env xe t claims req s = Some (r, s')"
  shows "quiet_step (note_run claims req s) s'"
proof -
  obtain out w where x: "tool_Execute t (ct_ControlSessionID claims) (args_of req) (srv_world (note_run claims req s)) = (out, w)"
    by fastforce
  have q: "quiet_step (note_run claims req s) ((note_run claims req s)\<lparr>srv_world := w\<rparr>)" by (rule quiet_step_same) simp
  have "quietly (note_run claims req s) (executeCapabilityTool env xe t claims req s)"
    unfolding executeCapabilityTool_def Let_def x
    using q by (cases out) (auto intro!: quiet simp del: quietly_simps(2) simp: quietly_simps)
  then show ?thesis using assms by simp
qed

text \<open>An execution either runs nothing, or runs the request once between two quiet stretches.\<close>

definition at_most_one_run :: "capability_token \<Rightarrow> capability_request \<Rightarrow> ('f, 'w) server \<Rightarrow> ('f, 'w) server \<Rightarrow> bool" where
  "at_most_one_run claims req s s' = (quiet_step s s' \<or>
     (\<exists>s1. quiet_step s s1 \<and> quiet_step (note_run claims req s1) s'))"

lemma quiet_at_most_one: "quiet_step s s' \<Longrightarrow> at_most_one_run claims req s s'"
  by (simp add: at_most_one_run_def)

lemma run_at_most_one:
  "quiet_step s s1 \<Longrightarrow> quiet_step (note_run claims req s1) s' \<Longrightarrow> at_most_one_run claims req s s'"
  by (auto simp: at_most_one_run_def)

lemma at_most_one_same_session:
  "at_most_one_run claims req s s' \<Longrightarrow> ct_ControlSessionID claims' = ct_ControlSessionID claims \<Longrightarrow>
     at_most_one_run claims' req s s'"
  by (simp add: at_most_one_run_def note_run_def)

lemma effective_token_session [simp]:
  "ct_ControlSessionID (effective_token claims req d t) = ct_ControlSessionID claims"
  by (simp add: effective_token_def deriveExecutionToken_def)

lemma prepared_token:
  assumes "prepareCapabilityExecution env claims req d t s = Some (Inr eff, s')"
  shows "eff = effective_token claims req d t"
  using assms by (auto simp: prepareCapabilityExecution_def early_def Let_def bind_eq_Some_conv
    split: option.splits if_splits prod.splits)

lemma at_most_one_after: "at_most_one_run claims req s s1 \<Longrightarrow> quiet_step s1 s' \<Longrightarrow> at_most_one_run claims req s s'"
  unfolding at_most_one_run_def by (blast intro: quiet_step_trans)

lemma execute_decided_runs:
  assumes "execute_decided env xe claims req d t s = Some (r, s')" and "direct_runs_nothing xe"
  shows "at_most_one_run claims req s s'"
proof -
  obtain p s1 where p: "prepareCapabilityExecution env claims req d t s = Some (p, s1)"
    using assms(1) by (auto simp: execute_decided_def bind_eq_Some_conv)
  have q: "quiet_step s s1" by (rule quietlyD [OF quiet_prepareCapabilityExecution p]) simp
  show ?thesis
  proof (cases p)
    case (Inl x)
    then show ?thesis using assms(1) p q by (auto simp: execute_decided_def intro: quiet_at_most_one)
  next
    case (Inr eff)
    then have sid: "ct_ControlSessionID claims = ct_ControlSessionID eff" using p by (auto dest: prepared_token)
    have "at_most_one_run eff req s s'"
    proof (cases "Capability req \<in> set direct_capabilities")
      case True
      then have "direct xe eff req (note_run eff req s1) = Some (r, s')"
        using assms(1) p Inr by (simp add: execute_decided_def dispatchDirectCapabilityExecution_def)
      then have "quiet_step (note_run eff req s1) s'" using assms(2) unfolding direct_runs_nothing_def by (metis quietlyD)
      then show ?thesis by (rule run_at_most_one [OF q])
    next
      case False
      obtain o2 s2 where run: "executeCapabilityTool env xe t eff req s1 = Some (o2, s2)"
        using assms(1) p Inr False by (auto simp: execute_decided_def bind_eq_Some_conv)
      have "at_most_one_run eff req s s2" by (rule run_at_most_one [OF q quiet_after_run [OF run]])
      moreover have "quiet_step s2 s'"
      proof (cases o2)
        case (Inl y) then show ?thesis using assms(1) p Inr False run by (simp add: execute_decided_def)
      next
        case o2: (Inr out)
        have "finalizeCapabilityExecution env xe eff req out s2 = Some (r, s')"
          using assms(1) p Inr False run o2 by (simp add: execute_decided_def)
        then show ?thesis by (rule quietlyD [OF quiet_finalizeCapabilityExecution, rotated]) simp
      qed
      ultimately show ?thesis by (rule at_most_one_after)
    qed
    then show ?thesis by (rule at_most_one_same_session) (rule sid)
  qed
qed

section \<open>What the request has passed\<close>

lemma resolved_tool:
  assumes "resolveCapabilityExecutionTool env xe claims req s = Some (Inr t, s')"
  shows "Registry_Get (registry_snapshot xe) (Capability req) = Some t \<and>
    \<not> capabilityProhibitsRawSecretExport (unicode_lower (approvals_env xe)) (Some t) (Capability req) \<and>
    \<not> scope_denies claims req \<and> Schema_Validate (tool_Schema t) (args_of req) = None"
  using assms by (auto simp: resolveCapabilityExecutionTool_def early_def Let_def bind_eq_Some_conv
    split: option.splits if_splits)

text \<open>The capabilities for which something else than the policy may decide Allow.\<close>

definition overridable :: "string \<Rightarrow> bool" where
  "overridable capability = (trim_space capability = ''host.plan.apply'' \<or>
     capability \<in> set [''operator_mount.fs_write'', ''operator_mount.fs_mkdir''])"

lemma auto_allow_outcome:
  "autoAllowLowRiskHostPlanApply xe sid req d s = (d', auto) \<Longrightarrow>
     d' = d \<or> (cr_Decision d' = Allow \<and> trim_space (Capability req) = ''host.plan.apply'')"
  by (auto simp: autoAllowLowRiskHostPlanApply_def split: if_splits)

lemma no_grant_elsewhere:
  "Capability req \<notin> set [''operator_mount.fs_write'', ''operator_mount.fs_mkdir''] \<Longrightarrow>
     operatorMountWriteGrantForRequest env paths sid req s = Some (Inr ([], None), s)"
  by (simp add: operatorMountWriteGrantForRequest_def)

lemma evaluated_decision:
  assumes "evaluateCapabilityPolicyDecision env xe t claims req s = Some ((o1, d, auto), s')"
  shows "d = policy_decision xe t req \<or> (cr_Decision d = Allow \<and> overridable (Capability req))"
proof (cases "Capability req \<in> set [''operator_mount.fs_write'', ''operator_mount.fs_mkdir'']")
  case False
  then show ?thesis using assms
    by (auto simp: evaluateCapabilityPolicyDecision_def no_grant_elsewhere overridable_def Let_def
        dest: auto_allow_outcome split: prod.splits)
next
  case True
  define granted where "granted = (\<lambda>grant :: (string \<times> gotime option) result. case grant of
      Inr (root, Some _) \<Rightarrow> \<lparr>cr_Decision = Allow, cr_Reason = ''active operator-mounted write grant for '' @ root\<rparr>
    | _ \<Rightarrow> policy_decision xe t req)"
  have granted: "granted g = policy_decision xe t req \<or> cr_Decision (granted g) = Allow" for g :: "(string \<times> gotime option) result"
    by (cases g) (auto simp: granted_def split: option.splits)
  obtain g s1 where "autoAllowLowRiskHostPlanApply xe (ct_ControlSessionID claims) req (granted g) s1 = (d, auto)"
    using assms by (auto simp: evaluateCapabilityPolicyDecision_def Let_def bind_eq_Some_conv granted_def split: prod.splits)
  then show ?thesis using granted [of g] True by (auto dest!: auto_allow_outcome simp: overridable_def)
qed

definition permitted :: "('f, 'w) exec_env \<Rightarrow> capability_token \<Rightarrow> bool \<Rightarrow> capability_request \<Rightarrow> 'w tool \<Rightarrow> check_result \<Rightarrow> bool" where
  "permitted xe claims allowApprovalCreation request t d =
    (Registry_Get (registry_snapshot xe) (Capability request) = Some t \<and>
     \<not> capabilityProhibitsRawSecretExport (unicode_lower (approvals_env xe)) (Some t) (Capability request) \<and>
     \<not> scope_denies claims request \<and> Schema_Validate (tool_Schema t) (args_of request) = None \<and>
     (d = policy_decision xe t request \<or> (cr_Decision d = Allow \<and> overridable (Capability request))) \<and>
     (cr_Decision d = Allow \<or>
      (cr_Decision d = NeedsApproval \<and> \<not> allowApprovalCreation \<and> ApprovedExecution claims)))"

lemma act_on_decision_runs:
  assumes "act_on_decision env xe claims req allow d t s = Some (r, s')" and "direct_runs_nothing xe"
  shows "quiet_step s s' \<or> (at_most_one_run claims req s s' \<and>
    (cr_Decision d = Allow \<or> (cr_Decision d = NeedsApproval \<and> \<not> allow \<and> ApprovedExecution claims)))"
proof (cases "cr_Decision d = Deny \<or> (cr_Decision d = NeedsApproval \<and> (allow \<or> \<not> ApprovedExecution claims))")
  case True
  then have "quietly s (act_on_decision env xe claims req allow d t s)"
    unfolding act_on_decision_def by (auto intro!: quiet)
  then show ?thesis using assms(1) by simp
next
  case False
  then have "execute_decided env xe claims req d t s = Some (r, s')"
    using assms(1) by (auto simp: act_on_decision_def)
  from execute_decided_runs [OF this assms(2)] False show ?thesis
    by (cases "cr_Decision d") auto
qed

text \<open>A run behind the acknowledged event of its decision.\<close>

definition announced_run :: "('f, 'w) exec_env \<Rightarrow> capability_token \<Rightarrow> bool \<Rightarrow> capability_request \<Rightarrow>
    ('f, 'w) server \<Rightarrow> ('f, 'w) server \<Rightarrow> bool" where
  "announced_run xe claims allow request s s' = (\<exists>t d s1 s2. permitted xe claims allow request t d \<and> quiet_step s s1 \<and>
     trace s2 = trace s1 @ [Audited ''capability.requested'' (ct_ControlSessionID claims)
       (capability_event claims request (requested_fields d))] \<and> at_most_one_run claims request s2 s')"

lemma execute_with_slot_runs:
  assumes x: "execute_with_slot env xe claims req allow s = Some (r, s')" and direct: "direct_runs_nothing xe"
  shows "quiet_step s s' \<or> announced_run xe claims allow req s s'"
proof -
  obtain p s1 where p: "resolveCapabilityExecutionTool env xe claims req s = Some (p, s1)"
    using x by (auto simp: execute_with_slot_def bind_eq_Some_conv)
  have q1: "quiet_step s s1" by (rule quietlyD [OF quiet_resolveCapabilityExecutionTool p]) simp
  show ?thesis
  proof (cases p)
    case (Inl y) then show ?thesis using x p q1 by (simp add: execute_with_slot_def)
  next
    case (Inr t)
    note tool = resolved_tool [OF p [unfolded Inr]]
    obtain o1 d auto s2 where ev: "evaluateCapabilityPolicyDecision env xe t claims req s1 = Some ((o1, d, auto), s2)"
      using x p Inr by (auto simp: execute_with_slot_def bind_eq_Some_conv)
    have q2: "quiet_step s s2" by (rule quietlyD [OF quiet_evaluateCapabilityPolicyDecision ev]) (rule q1)
    define note_auto where "note_auto = (if cr_Decision o1 = NeedsApproval \<and> cr_Decision d = Allow \<and> auto
      then logEvent env ''capability.low_risk_host_plan_auto_allow'' (ct_ControlSessionID claims)
        (capability_event claims req []) s2 else Some (None, s2))"
    have rest: "do { (e1, s3) \<leftarrow> note_auto;
        if e1 \<noteq> None then Some (auditUnavailableCapabilityResponse (RequestID req), s3)
        else do { (e2, s4) \<leftarrow> logEvent env ''capability.requested'' (ct_ControlSessionID claims)
              (capability_event claims req (requested_fields d)) s3;
            if e2 \<noteq> None then Some (auditUnavailableCapabilityResponse (RequestID req), s4)
            else act_on_decision env xe claims req allow d t s4 } } = Some (r, s')"
      using x p Inr ev by (simp add: execute_with_slot_def note_auto_def)
    obtain e1 s3 where e1: "note_auto = Some (e1, s3)" using rest by (cases note_auto) auto
    have q3: "quiet_step s s3"
      using e1 q2 by (auto simp: note_auto_def split: if_splits intro: quietlyD [OF quiet_logEvent])
    show ?thesis
    proof (cases "e1 = None")
      case False then show ?thesis using rest e1 q3 by simp
    next
      case True
      obtain e2 s4 where e2: "logEvent env ''capability.requested'' (ct_ControlSessionID claims)
          (capability_event claims req (requested_fields d)) s3 = Some (e2, s4)"
        using rest e1 True by (auto simp: bind_eq_Some_conv)
      have q4: "quiet_step s s4" by (rule quietlyD [OF quiet_logEvent e2]) (rule q3)
      show ?thesis
      proof (cases "e2 = None")
        case False then show ?thesis using rest e1 e2 True q4 by simp
      next
        case e2N: True
        have act: "act_on_decision env xe claims req allow d t s4 = Some (r, s')" using rest e1 e2 True e2N by simp
        from act_on_decision_runs [OF act direct] show ?thesis
        proof
          assume "quiet_step s4 s'" then show ?thesis using q4 by (blast intro: quiet_step_trans)
        next
          assume ran: "at_most_one_run claims req s4 s' \<and>
            (cr_Decision d = Allow \<or> cr_Decision d = NeedsApproval \<and> \<not> allow \<and> ApprovedExecution claims)"
          then have "permitted xe claims allow req t d" using tool evaluated_decision [OF ev] by (simp add: permitted_def)
          moreover have "trace s4 = trace s3 @ [Audited ''capability.requested'' (ct_ControlSessionID claims)
              (capability_event claims req (requested_fields d))]"
            using logEvent_acknowledged e2 e2N by blast
          ultimately have "announced_run xe claims allow req s s'" using ran q3 unfolding announced_run_def by blast
          then show ?thesis ..
        qed
      qed
    qed
  qed
qed

section \<open>The property\<close>

lemma prepared_is_prepared:
  assumes "prepareCapabilityRequestExecution env claims req allow s = Some (Inr req', s')"
  shows "CapabilityRequest_Validate req' = None \<and> (\<exists>rid. req' = prepared_request claims (req\<lparr>RequestID := rid\<rparr>))"
proof -
  obtain newID where "req' = prepared_request claims (if blank (RequestID req) then req\<lparr>RequestID := newID\<rparr> else req)"
    and ok: "CapabilityRequest_Validate req' = None"
    using assms by (auto simp: prepareCapabilityRequestExecution_def randomHex_def Let_def bind_eq_Some_conv
        split: sum.splits option.splits if_splits)
  then have "req' = prepared_request claims (req\<lparr>RequestID := (if blank (RequestID req) then newID else RequestID req)\<rparr>)"
    by simp
  with ok show ?thesis by blast
qed

lemma announced_from: "quiet_step s s1 \<Longrightarrow> announced_run xe claims allow req s1 s' \<Longrightarrow> announced_run xe claims allow req s s'"
  unfolding announced_run_def by (blast intro: quiet_step_trans)

lemma announced_to: "announced_run xe claims allow req s s1 \<Longrightarrow> quiet_step s1 s' \<Longrightarrow> announced_run xe claims allow req s s'"
  unfolding announced_run_def by (blast intro: at_most_one_after)

lemma announced_runs:
  assumes "announced_run xe claims allow req s s'"
  shows "quiet_step s s' \<or> (\<exists>t d before between after. permitted xe claims allow req t d \<and>
    tool_runs (before @ between @ after) = [] \<and>
    trace s' = trace s @ before @ [Audited ''capability.requested'' (ct_ControlSessionID claims)
      (capability_event claims req (requested_fields d))] @ between @
      [Ran (Capability req) (args_of req) (ct_ControlSessionID claims)] @ after)"
proof -
  obtain t d s1 s2 where p: "permitted xe claims allow req t d" and q: "quiet_step s s1"
    and tr: "trace s2 = trace s1 @ [Audited ''capability.requested'' (ct_ControlSessionID claims)
       (capability_event claims req (requested_fields d))]"
    and once: "at_most_one_run claims req s2 s'"
    using assms unfolding announced_run_def by blast
  have q2: "quiet_step s s2" using q tr by (auto simp: quiet_step_def)
  from once consider "quiet_step s2 s'" | s3 where "quiet_step s2 s3" "quiet_step (note_run claims req s3) s'"
    unfolding at_most_one_run_def by blast
  then show ?thesis
  proof cases
    case 1 then show ?thesis using q2 by (blast intro: quiet_step_trans)
  next
    case 2
    obtain before between after where "trace s1 = trace s @ before" "trace s3 = trace s2 @ between"
      "trace s' = trace (note_run claims req s3) @ after" and none: "tool_runs (before @ between @ after) = []"
      using q 2 by (auto simp: quiet_step_def)
    then have "trace s' = trace s @ before @ [Audited ''capability.requested'' (ct_ControlSessionID claims)
      (capability_event claims req (requested_fields d))] @ between @
      [Ran (Capability req) (args_of req) (ct_ControlSessionID claims)] @ after"
      using tr by (simp add: note_run_def)
    with p none show ?thesis by blast
  qed
qed

text \<open>
  C5: one capability request runs at most one tool, and the run stands in the trace behind the
  acknowledged audit event of its decision. The tool is the registered one, its arguments pass its schema, the token's
  scope covers it, it exports no secret; the decision is Allow, or NeedsApproval with a token of an
  approved execution; and it is the policy's decision, except where an operator's write grant or the
  rule for low-risk organization plans may turn it into Allow. What runs is the validated request with
  the token's session and actor. When the audit log refuses the event, nothing runs.
\<close>

theorem tool_runs_behind_its_decision:
  assumes "direct_runs_nothing xe"
    and "executeCapabilityRequest env xe claims request0 allow s = Some (r, s')"
  shows "\<exists>new. trace s' = trace s @ new \<and> (tool_runs new = [] \<or>
    (\<exists>request rid t d before between after.
       request = prepared_request claims (request0\<lparr>RequestID := rid\<rparr>) \<and> CapabilityRequest_Validate request = None \<and>
       permitted xe claims allow request t d \<and> tool_runs (before @ between @ after) = [] \<and>
       new = before @ [Audited ''capability.requested'' (ct_ControlSessionID claims)
           (capability_event claims request (requested_fields d))] @ between @
         [Ran (Capability request) (args_of request) (ct_ControlSessionID claims)] @ after))"
proof -
  obtain p s1 where p: "prepareCapabilityRequestExecution env claims request0 allow s = Some (p, s1)"
    using assms(2) by (auto simp: executeCapabilityRequest_def bind_eq_Some_conv)
  have q: "quiet_step s s1" by (rule quietlyD [OF quiet_prepareCapabilityRequestExecution p]) simp
  consider "quiet_step s s'" | request s2 s3 where "p = Inr request" "trace s2 = trace s1" "trace s' = trace s3"
      "execute_with_slot env xe claims request allow s2 = Some (r, s3)"
  proof (cases p)
    case (Inl x) then show ?thesis using assms(2) p q by (auto simp: executeCapabilityRequest_def intro: that(1))
  next
    case (Inr request)
    obtain b s2 where slot: "tryAcquireCapabilityExecutionSlot env s1 = (b, s2)" by fastforce
    have tr: "trace s2 = trace s1" using trace_slots(1) [of env s1] slot by simp
    show ?thesis
    proof (cases b)
      case False
      then have "s' = s2" using assms(2) p Inr slot by (simp add: executeCapabilityRequest_def)
      then show ?thesis using q tr by (intro that(1)) (simp add: quiet_step_def)
    next
      case True
      then obtain s3 where "execute_with_slot env xe claims request allow s2 = Some (r, s3)"
        "s' = releaseCapabilityExecutionSlot env s3"
        using assms(2) p Inr slot by (auto simp: executeCapabilityRequest_def bind_eq_Some_conv)
      then show ?thesis using Inr tr by (intro that(2) [of request s2 s3]) (simp_all add: trace_slots)
    qed
  qed
  then show ?thesis
  proof cases
    case 1 then show ?thesis unfolding quiet_step_def by blast
  next
    case 2
    have q3: "quiet_step s s2" using q 2(2) by (simp add: quiet_step_def)
    note request = prepared_is_prepared [OF p [unfolded 2(1)]]
    from execute_with_slot_runs [OF 2(4) assms(1)] consider "quiet_step s2 s3" | "announced_run xe claims allow request s2 s3"
      by blast
    then show ?thesis
    proof cases
      case 1
      then have "quiet_step s s'" using q3 2(3) by (auto simp: quiet_step_def)
      then show ?thesis unfolding quiet_step_def by blast
    next
      case ann: 2
      have "announced_run xe claims allow request s s'"
        by (rule announced_to [OF announced_from [OF q3 ann] quiet_step_same [OF 2(3)]])
      from announced_runs [OF this] show ?thesis using request unfolding quiet_step_def by blast
    qed
  qed
qed

text \<open>A listing of a host folder runs behind its event; the audit log takes every line.\<close>

definition listing_tool :: "unit tool" where
  "listing_tool = \<lparr>tool_Name = ''host.folder.list'', tool_Category = ''host'', tool_Operation = ''read'', tool_Schema = [],
     tool_RawSecretExportProhibited = None, tool_SecretExportNameHeuristicOptOut = None,
     tool_ValidatePolicyArguments = None, tool_Execute = (\<lambda>_ _ w. (Inl [], w))\<rparr>"

definition listing_env :: "(unit, unit) exec_env" where
  "listing_env = echo_env\<lparr>registry_snapshot := [(''host.folder.list'', listing_tool)]\<rparr>"

definition listing_request :: capability_request where
  "listing_request = (pa_Request no_approval)\<lparr>RequestID := ''r'', Capability := ''host.folder.list''\<rparr>"

definition listing_claims :: capability_token where
  "listing_claims = spent_claims\<lparr>SingleUse := False\<rparr>"

lemma listing_prepared:
  "prepareCapabilityRequestExecution coarse_env listing_claims listing_request False s =
     Some (Inr (listing_request\<lparr>SessionID := ''cs'', Arguments := Some []\<rparr>), s)"
proof -
  have "blank (RequestID listing_request) = False" by code_simp
  moreover have "prepared_request listing_claims listing_request = listing_request\<lparr>SessionID := ''cs'', Arguments := Some []\<rparr>"
    by code_simp
  moreover have "CapabilityRequest_Validate (listing_request\<lparr>SessionID := ''cs'', Arguments := Some []\<rparr>) = None" by code_simp
  ultimately show ?thesis by (simp add: prepareCapabilityRequestExecution_def)
qed

definition listing_event :: gdata where
  "listing_event = capability_event listing_claims (listing_request\<lparr>SessionID := ''cs'', Arguments := Some []\<rparr>)
     (requested_fields \<lparr>cr_Decision = Allow, cr_Reason = []\<rparr>)"

lemma listing_event_eq: "listing_event =
    [(''request_id'', GString ''r''), (''capability'', GString ''host.folder.list''), (''actor_label'', GString []),
     (''client_session_label'', GString []), (''control_session_id'', GString ''cs''), (''decision'', GString ''allow''),
     (''reason'', GString [])]"
proof -
  have "RedactText [] = []" by code_simp
  then show ?thesis
    by (simp add: listing_event_def capability_event_def listing_request_def listing_claims_def spent_claims_def
        requested_fields_def Decision_String_def)
qed

lemma listing_hash: "\<exists>h. hashEvent (record_event 0 ''capability.requested'' ''cs'' (chain_fields 1 []
    (add_tenancy (Some (\<lambda>_. ([], []))) ''cs'' listing_event))) = Inr h"
  by (simp add: listing_event_eq hashEvent_def marshalCanonicalEventJSON_def canonicalizeEvent_def
      canonicalizeDataMap_def validateSafeJSONInteger_def minSafeJSONInteger_def maxSafeJSONInteger_def record_event_def
      chain_fields_def add_tenancy_def needs_tenancy_def mput_def mhas_def mdel_def Let_def)

lemma listing_logged: "\<exists>u. logEvent coarse_env ''capability.requested'' ''cs'' listing_event (server_with [] []) = Some (None, u)"
proof -
  obtain h where "hashEvent (record_event 0 ''capability.requested'' ''cs'' (chain_fields 1 []
      (add_tenancy (Some (\<lambda>_. ([], []))) ''cs'' listing_event))) = Inr h" using listing_hash by blast
  with plain_log_Record [where a = "srv_audit (server_with [] [])" and x = "([], [])" and t = "''capability.requested''"
      and sid = "''cs''" and d = listing_event and h = h]
  obtain a' where "Record (plain_log\<lparr>opt_Tenancy := Some (\<lambda>_. ([], []))\<rparr>) plain_answers (srv_audit (server_with [] []))
      ''capability.requested'' ''cs'' (Some listing_event) = (a', Inr h)"
    by (auto simp add: server_with_def)
  moreover have "tenantUserForControlSession (server_with [] []) ''cs'' = Some ([], [])"
    by (simp add: tenantUserForControlSession_def server_with_def)
  ultimately show ?thesis by (simp add: logEvent_def logEventWithHash_def coarse_env_audit)
qed

lemma listing_env_simps: "registry_snapshot listing_env = [(''host.folder.list'', listing_tool)]"
  "policy_snapshot listing_env = sample_policy" "direct listing_env = (\<lambda>_ _ s. Some (no_response, s))"
  by (simp_all add: listing_env_def echo_env_def)

lemma listing_runs:
  "\<exists>r s. executeCapabilityRequest coarse_env listing_env listing_claims listing_request False (server_with [] []) = Some (r, s) \<and>
     tool_runs (trace s) = [Ran ''host.folder.list'' [] ''cs'']"
proof -
  define req where "req = listing_request\<lparr>SessionID := ''cs'', Arguments := Some []\<rparr>"
  have simps: "Capability req = ''host.folder.list''" "args_of req = []" "RequestID req = ''r''"
    by (simp_all add: req_def listing_request_def args_of_def)
  have "capabilityProhibitsRawSecretExport (unicode_lower (approvals_env listing_env)) (Some listing_tool) ''host.folder.list'' = False"
    by (simp add: capabilityProhibitsRawSecretExport_def listing_tool_def)
  then have tool: "resolveCapabilityExecutionTool coarse_env listing_env listing_claims req s = Some (Inr listing_tool, s)"
    for s :: "(unit, unit) server"
    by (simp add: resolveCapabilityExecutionTool_def Registry_Get_def listing_env_simps simps scope_denies_def
        listing_claims_def spent_claims_def listing_tool_def Schema_Validate_def)
  have decided: "policy_decision listing_env listing_tool req = \<lparr>cr_Decision = Allow, cr_Reason = []\<rparr>"
    by (simp add: policy_decision_def listing_env_simps listing_tool_def tool_info_of_def check_defs sample_policy_def)
  have evaluated: "evaluateCapabilityPolicyDecision coarse_env listing_env listing_tool listing_claims req s =
      Some ((\<lparr>cr_Decision = Allow, cr_Reason = []\<rparr>, \<lparr>cr_Decision = Allow, cr_Reason = []\<rparr>, False), s)" for s :: "(unit, unit) server"
    by (simp add: evaluateCapabilityPolicyDecision_def no_grant_elsewhere simps decided autoAllowLowRiskHostPlanApply_def Let_def)
  obtain u where u: "logEvent coarse_env ''capability.requested'' ''cs'' listing_event (server_with [] []) = Some (None, u)"
    using listing_logged by blast
  have prepared: "prepareCapabilityExecution coarse_env listing_claims req \<lparr>cr_Decision = Allow, cr_Reason = []\<rparr> listing_tool s =
      Some (Inr listing_claims, s)" for s :: "(unit, unit) server"
    by (simp add: prepareCapabilityExecution_def effective_token_def isHighRiskCapability_def listing_tool_def OpWrite_def
        listing_claims_def spent_claims_def consumeExecutionToken_def token_binding_denial_def simps blank_def)
  have event: "capability_event listing_claims req (requested_fields \<lparr>cr_Decision = Allow, cr_Reason = []\<rparr>) = listing_event"
    by (simp add: listing_event_def req_def)
  have slots: "tryAcquireCapabilityExecutionSlot coarse_env s = (True, s)" "releaseCapabilityExecutionSlot coarse_env s = s"
    for s :: "(unit, unit) server"
    by (simp_all add: tryAcquireCapabilityExecutionSlot_def releaseCapabilityExecutionSlot_def coarse_env_def)
  have sid: "ct_ControlSessionID listing_claims = ''cs''" by (simp add: listing_claims_def spent_claims_def)
  have "executeCapabilityRequest coarse_env listing_env listing_claims listing_request False (server_with [] []) =
      Some (no_response, note_run listing_claims req u)"
    by (simp add: executeCapabilityRequest_def listing_prepared req_def [symmetric] slots execute_with_slot_def tool evaluated
        u event sid act_on_decision_def execute_decided_def prepared simps direct_capabilities_def
        dispatchDirectCapabilityExecution_def listing_env_simps)
  moreover have "tool_runs (trace (note_run listing_claims req u)) = [Ran ''host.folder.list'' [] ''cs'']"
    using logEvent_acknowledged [OF u] by (simp add: note_run_def simps sid) (simp add: server_with_def)
  ultimately show ?thesis by blast
qed

theorem tool_runs_behind_its_decision_witness:
  "\<exists>r s request t d before between after. executeCapabilityRequest coarse_env listing_env listing_claims listing_request False
       (server_with [] []) = Some (r, s) \<and> permitted listing_env listing_claims False request t d \<and>
     trace s = before @ [Audited ''capability.requested'' ''cs''
         (capability_event listing_claims request (requested_fields d))] @ between @
       [Ran ''host.folder.list'' [] ''cs''] @ after"
proof -
  obtain r s where x: "executeCapabilityRequest coarse_env listing_env listing_claims listing_request False (server_with [] []) = Some (r, s)"
    and ran: "tool_runs (trace s) = [Ran ''host.folder.list'' [] ''cs'']" using listing_runs by blast
  have "direct_runs_nothing listing_env" by (simp add: direct_runs_nothing_def listing_env_simps)
  from tool_runs_behind_its_decision [OF this x]
  obtain new where new: "trace s = trace (server_with [] []) @ new" and disj: "tool_runs new = [] \<or>
      (\<exists>request rid t d before between after.
         request = prepared_request listing_claims (listing_request\<lparr>RequestID := rid\<rparr>) \<and>
         CapabilityRequest_Validate request = None \<and> permitted listing_env listing_claims False request t d \<and>
         tool_runs (before @ between @ after) = [] \<and>
         new = before @ [Audited ''capability.requested'' (ct_ControlSessionID listing_claims)
             (capability_event listing_claims request (requested_fields d))] @ between @
           [Ran (Capability request) (args_of request) (ct_ControlSessionID listing_claims)] @ after)" by blast
  have s: "trace s = new" using new by (simp add: server_with_def)
  with disj ran obtain request t d before between after where p: "permitted listing_env listing_claims False request t d"
    and quiet: "tool_runs (before @ between @ after) = []"
    and tr: "trace s = before @ [Audited ''capability.requested'' (ct_ControlSessionID listing_claims)
             (capability_event listing_claims request (requested_fields d))] @ between @
           [Ran (Capability request) (args_of request) (ct_ControlSessionID listing_claims)] @ after" by auto
  have "ct_ControlSessionID listing_claims = ''cs''" by (simp add: listing_claims_def spent_claims_def)
  moreover have "Capability request = ''host.folder.list'' \<and> args_of request = []" using ran quiet tr by simp
  ultimately show ?thesis using x p tr by metis
qed

end
