(* ===== verification/HookProperties.thy ===== *)
theory HookProperties
  imports HookHandler CapabilityTrace
begin

text \<open>
  What the hook endpoint guarantees: a call passes only behind an acknowledged event with the same
  decision, the offline explanation agrees with it, an approval that is resolved stays so; and a defect, the
  preview of a command that is cut in the middle of a character.
\<close>

section \<open>What a decision guarantees\<close>


text \<open>
  A shell command that is not blocked comes with its text; after its white space is normalised, it
  begins with none of the denied prefixes and, where prefixes are listed as allowed, with one of those.
\<close>

theorem hook_command_within_prefixes:
  assumes "hook_decision he req toolDef \<noteq> Deny" and "hq_ToolName req = ''Bash''"
    and "tool_policy_of he ''Bash'' = tp" and "ct_AllowedCommandPrefixes tp \<noteq> [] \<or> ct_DeniedCommandPrefixes tp \<noteq> []"
  shows "\<exists>command. hookInputString req ''command'' = Some command \<and>
    (\<forall>p\<in>set (ct_DeniedCommandPrefixes tp).
       \<not> has_prefix (normalizeWhitespaceForPrefixMatch command) (normalizeWhitespaceForPrefixMatch p)) \<and>
    (ct_AllowedCommandPrefixes tp = [] \<or> (\<exists>p\<in>set (ct_AllowedCommandPrefixes tp).
       has_prefix (normalizeWhitespaceForPrefixMatch command) (normalizeWhitespaceForPrefixMatch p)))"
proof -
  have "applyClaudeCodeBashConstraints he req tp = None"
    using not_denied_unconstrained [OF assms(1)] assms(2,3) by (simp add: applyClaudeCodeHookConstraints_def)
  then show ?thesis using assms(4)
    by (auto simp: applyClaudeCodeBashConstraints_def Let_def find_None_iff list_ex_iff
        split: option.splits if_splits)
qed

text \<open>The grant behind an override, and the paths it covers.\<close>

definition grant_covers :: "hook_env \<Rightarrow> hook_request \<Rightarrow> bool" where
  "grant_covers he req = (\<exists>oclass g ts root. ClaudeCodeToolOperatorOverrideClass (hq_ToolName req) = Some oclass \<and>
       OperatorOverrideMaxDelegation (hk_policy he) oclass = ''persistent'' \<and>
       g \<in> set (ActiveOperatorOverrideGrants (hk_overrides he) oclass) \<and> ts \<noteq> [] \<and>
       (\<forall>t\<in>set ts. \<exists>p. resolveClaudeCodeHookPolicyPath he req t [] [] = (p, None) \<and>
          OperatorOverrideGrantMatchesPath g p root))"

lemma delegated_grant_covers: "delegated_grant he req = Some g \<Longrightarrow> grant_covers he req"
proof -
  assume g: "delegated_grant he req = Some g"
  obtain oclass where oclass: "ClaudeCodeToolOperatorOverrideClass (hq_ToolName req) = Some oclass"
      "OperatorOverrideMaxDelegation (hk_policy he) oclass = ''persistent''"
      "matchClaudeCodeOperatorOverride he req oclass = Some g"
    using g by (auto simp: delegated_grant_def ClaudeCodeToolOperatorOverride_def split: prod.splits if_splits option.splits)
  obtain ts root where "ts \<noteq> []" and f: "find (\<lambda>g. list_all (\<lambda>t. case resolveClaudeCodeHookPolicyPath he req t [] [] of
              (p, e) \<Rightarrow> e = None \<and> p \<noteq> [] \<and> OperatorOverrideGrantMatchesPath g p root) ts)
            (ActiveOperatorOverrideGrants (hk_overrides he) oclass) = Some g"
    using oclass(3) by (auto simp: matchClaudeCodeOperatorOverride_def Let_def split: if_splits option.splits list.splits)
  then have all: "list_all (\<lambda>t. case resolveClaudeCodeHookPolicyPath he req t [] [] of
              (p, e) \<Rightarrow> e = None \<and> p \<noteq> [] \<and> OperatorOverrideGrantMatchesPath g p root) ts"
    unfolding find_Some_iff by blast
  have "\<forall>t\<in>set ts. \<exists>p. resolveClaudeCodeHookPolicyPath he req t [] [] = (p, None) \<and>
        OperatorOverrideGrantMatchesPath g p root"
  proof
    fix t assume "t \<in> set ts"
    then show "\<exists>p. resolveClaudeCodeHookPolicyPath he req t [] [] = (p, None) \<and> OperatorOverrideGrantMatchesPath g p root"
      using all by (cases "resolveClaudeCodeHookPolicyPath he req t [] []") (auto simp: list_all_iff)
  qed
  moreover have "g \<in> set (ActiveOperatorOverrideGrants (hk_overrides he) oclass)"
    using f by (auto simp: find_Some_iff)
  ultimately show ?thesis unfolding grant_covers_def using oclass \<open>ts \<noteq> []\<close> by blast
qed


section \<open>The preview of a command\<close>

text \<open>Three bytes that no redaction rule can begin to match at.\<close>

definition dull :: "char \<Rightarrow> bool" where "dull c = (c \<in> set [CHR ''-'', CHR 0xC3, CHR 0xA9])"

definition lower_letters :: string where "lower_letters = ''abcdefghijklmnopqrstuvwxyz''"

lemma dull_not_letter: "dull d \<Longrightarrow> c \<in> set lower_letters \<Longrightarrow> ascii_lower d \<noteq> c"
proof -
  have "list_all (\<lambda>d. list_all (\<lambda>c. ascii_lower d \<noteq> c) lower_letters) [CHR ''-'', CHR 0xC3, CHR 0xA9]" by code_simp
  then show "dull d \<Longrightarrow> c \<in> set lower_letters \<Longrightarrow> ascii_lower d \<noteq> c"
    unfolding dull_def list_all_iff by blast
qed

lemma dull_not_folded: "dull d \<Longrightarrow> d \<noteq> CHR 0xE2 \<and> d \<noteq> CHR 0xC5"
  by (auto simp: dull_def)

lemma dull_fold_char: "dull d \<Longrightarrow> c \<in> set lower_letters \<Longrightarrow> ends (fold_char c) (b, d # s) = []"
  using dull_not_letter [of d c] dull_not_folded [of d] by (auto simp: fold_char_def re_char_def Let_def)

lemma dead_cats: "ends r p = [] \<Longrightarrow> ends (cats (r # rs)) p = []"
  by (cases rs) auto

lemma dull_fold_string: "dull d \<Longrightarrow> c \<in> set lower_letters \<Longrightarrow> ends (fold_string (c # w)) (b, d # s) = []"
  by (cases w) (simp_all only: fold_string.simps ends.simps dull_fold_char list.map concat.simps)

lemma dull_cats_fold: "dull d \<Longrightarrow> c \<in> set lower_letters \<Longrightarrow> ends (cats (fold_string (c # w) # rs)) (b, d # s) = []"
  by (rule dead_cats) (rule dull_fold_string)

lemma dull_secret_words: "dull d \<Longrightarrow> ends secret_words (b, d # s) = []"
  by (simp add: secret_words_def lower_letters_def dull_cats_fold dull_fold_string del: fold_string.simps cats.simps)

lemma dead_group1: "ends (group1 rule) p = [] \<Longrightarrow> before_group rule = Eps \<or> before_group rule = WordB \<Longrightarrow> first_match rule p = None"
  by (cases p) (auto simp: first_match_def Let_def)

lemma dead_after: "before_group rule = Eps \<Longrightarrow> group1 rule = Eps \<Longrightarrow> ends (after_group rule) p = [] \<Longrightarrow> first_match rule p = None"
  by (auto simp: first_match_def Let_def)

lemma dead_behind_boundary: "ends (cats (r # rs)) p = [] \<Longrightarrow> ends (cats (WordB # r # rs)) p = []"
  by (cases p) (auto)

lemma dull_one_of: "dull d \<Longrightarrow> ends (cats (one_of ''?&'' # rs)) (b, d # s) = []"
  by (rule dead_cats) (auto simp: one_of_def dull_def)

lemma dull_jwt: "dull d \<Longrightarrow> ends (cats (re_string ''eyJ'' # rs)) (b, d # s) = []"
  by (rule dead_cats) (auto simp: re_char_def dull_def)

lemma dull_no_match: "dull c \<Longrightarrow> rule \<in> set textRedactionPatterns \<Longrightarrow> first_match rule (b, c # s) = None"
proof -
  assume c: "dull c" and rule: "rule \<in> set textRedactionPatterns"
  note dead = dull_cats_fold [OF c] dull_secret_words [OF c] dull_one_of [OF c] dull_jwt [OF c] dead_behind_boundary
  have "(ends (group1 rule) (b, c # s) = [] \<and> (before_group rule = Eps \<or> before_group rule = WordB)) \<or>
    (before_group rule = Eps \<and> group1 rule = Eps \<and> ends (after_group rule) (b, c # s) = [])"
    using rule unfolding textRedactionPatterns_def assignment_rule_def Let_def list.set insert_iff empty_iff
    by (elim disjE FalseE) (simp_all only: redaction_rule.select_convs dead simp_thms lower_letters_def list.set insert_iff
        re.distinct)
  then show ?thesis using dead_group1 dead_after by blast
qed

lemma dull_ReplaceAll: "list_all dull s \<Longrightarrow> rule \<in> set textRedactionPatterns \<Longrightarrow> ReplaceAllString rule b s = s"
  by (induction s arbitrary: b) (simp_all add: dull_no_match)

lemma dull_RedactText: "list_all dull s \<Longrightarrow> RedactText s = s"
proof -
  assume s: "list_all dull s"
  have "set rules \<subseteq> set textRedactionPatterns \<Longrightarrow> fold (\<lambda>rule t. ReplaceAllString rule None t) rules s = s" for rules
    using s by (induction rules) (auto simp: dull_ReplaceAll)
  then show ?thesis by (simp add: RedactText_def)
qed

definition bash_call :: "string \<Rightarrow> hook_request" where
  "bash_call command = \<lparr>hq_EventName = ''PreToolUse'', hq_ToolName = ''Bash'', hq_ToolUseID = [],
     hq_ToolInput = Some [(''command'', GString command)], hq_Prompt = [], hq_Reason = [], hq_Error = [],
     hq_Interrupted = False, hq_CWD = [], hq_SessionID = []\<rparr>"

definition long_command :: string where
  "long_command = replicate 255 CHR ''-'' @ [CHR 0xC3, CHR 0xA9]"

lemma dull_long: "list_all dull long_command"
  by (simp add: long_command_def dull_def list_all_iff)

lemma dashes_no_space: "find_prefix space_runes (replicate 255 CHR ''-'' @ s) = None"
proof -
  have "replicate 255 CHR ''-'' @ s = CHR ''-'' # (replicate 254 CHR ''-'' @ s)"
    by (simp add: numeral_eq_Suc)
  then show ?thesis by (simp add: find_prefix_None_iff space_runes_def)
qed

lemma long_command_trims: "trim_space long_command = long_command"
  "trim_space (take 256 long_command) = replicate 255 CHR ''-'' @ [CHR 0xC3]"
proof -
  have no: "find_prefix (map rev space_runes) (CHR 0xA9 # CHR 0xC3 # s) = None"
    "find_prefix (map rev space_runes) (CHR 0xC3 # s) = None" for s
    by (simp_all add: find_prefix_None_iff space_runes_def)
  show "trim_space long_command = long_command"
    by (rule trim_space_fixed) (simp_all add: long_command_def dashes_no_space no)
  have "take 256 long_command = replicate 255 CHR ''-'' @ [CHR 0xC3]" by (simp add: long_command_def)
  moreover have "trim_space (replicate 255 CHR ''-'' @ [CHR 0xC3]) = replicate 255 CHR ''-'' @ [CHR 0xC3]"
    by (rule trim_space_fixed) (simp_all add: dashes_no_space no)
  ultimately show "trim_space (take 256 long_command) = replicate 255 CHR ''-'' @ [CHR 0xC3]" by simp
qed

lemma valid_dashes: "valid_utf8 (replicate n CHR ''-'' @ s) = valid_utf8 s"
  by (induction n) (simp_all add: ascii_byte_def)

text \<open>
  The preview of a long command can be cut inside a character. This command of 257 bytes is valid
  UTF-8; the event of the call carries its first 256 bytes, which are not. The decoder of the request only
  produces valid strings, so it is the cut that lets a string into the audit log that breaks the ledger's hash chain.
\<close>

theorem hook_preview_cuts_characters:
  "valid_utf8 long_command \<and> (\<exists>p. \<not> valid_utf8 p \<and>
     map_of (buildHookAuditProjection he (bash_call long_command) True) ''command_redacted_preview'' = Some (GString p))"
proof -
  have "valid_utf8 long_command"
    by (simp add: long_command_def valid_dashes ascii_byte_def rune_len_def byte_in_def)
  moreover have "boundedRedactedHookPreview long_command = replicate 255 CHR ''-'' @ [CHR 0xC3] @ ''...''"
    by (simp add: boundedRedactedHookPreview_def long_command_trims dull_RedactText [OF dull_long] hookAuditPreviewMaxBytes_def)
      (simp add: long_command_def)
  moreover have "\<not> valid_utf8 (replicate 255 CHR ''-'' @ [CHR 0xC3] @ ''...'')"
    unfolding valid_dashes by (simp add: ascii_byte_def rune_len_def byte_in_def)
  moreover have "long_command \<noteq> []" by (simp add: long_command_def)
  ultimately show ?thesis
    by (auto simp: buildHookAuditProjection_def tool_projection_def input_or_blank_def preview_if_def Let_def
        bash_call_def hookInputString_def long_command_trims)
qed

section \<open>Calls that pass\<close>

lemma on_core_Some: "on_core f h = Some (r, h') \<longleftrightarrow> (\<exists>s. f (hk_core h) = Some (r, s) \<and> h' = h\<lparr>hk_core := s\<rparr>)"
  by (auto simp: on_core_def split: option.splits)

lemma merge_keeps:
  "map_of d k = Some v \<Longrightarrow> map_of (mergeHookAuditProjection he d req previews) k = Some v"
proof -
  have "map_of d k = Some v \<Longrightarrow> map_of (fold (\<lambda>(k, v) d. if mhas d k then d else mput k v d) xs d) k = Some v" for xs
  proof (induction xs arbitrary: d)
    case (Cons x xs)
    show ?case
    proof (cases "mhas d (fst x)")
      case True then show ?thesis using Cons.IH [OF Cons.prems] by (cases x) simp
    next
      case False
      then have "fst x \<noteq> k" using Cons.prems by (auto simp: mhas_def)
      then have "map_of (mput (fst x) (snd x) d) k = Some v" using Cons.prems by simp
      then show ?thesis using Cons.IH False by (cases x) simp
    qed
  qed simp
  then show "map_of d k = Some v \<Longrightarrow> map_of (mergeHookAuditProjection he d req previews) k = Some v"
    by (simp add: mergeHookAuditProjection_def)
qed

lemma quiet_hook_rate: "on_core (checkHookPreValidateRateLimit env uid) h = Some (b, h') \<Longrightarrow>
    quiet_step (hk_core h) (hk_core h')"
  by (auto simp: on_core_Some checkHookPreValidateRateLimit_def with_mu_def lock_mu_def unlock_mu_def server_now_def
      Let_def quiet_step_def split: if_splits)

text \<open>The last event of a reply: acknowledged, about the request's tool, with the reply's decision.\<close>

definition recorded :: "hook_request \<Rightarrow> string \<Rightarrow> ('f, 'w) hook_server \<Rightarrow> bool" where
  "recorded req decision h = (\<exists>as d. trace (hk_core h) = as @ [Audited ''hook.pre_validate'' (hq_SessionID req) d] \<and>
     map_of d ''decision'' = Some (GString decision) \<and> map_of d ''tool_name'' = Some (GString (hq_ToolName req)))"

lemma recorded_event:
  assumes "on_core (logEvent env ''hook.pre_validate'' (hq_SessionID req) d) h = Some (None, h')"
    and "map_of d ''decision'' = Some (GString decision)" "map_of d ''tool_name'' = Some (GString (hq_ToolName req))"
  shows "recorded req decision h'"
  using assms logEvent_acknowledged unfolding recorded_def on_core_Some by fastforce

lemma lifecycle_stops: "lifecycle_event env he io uid req previews eventName h = Some (Inl x, h1) \<Longrightarrow> x \<noteq> HookReply st r"
  by (auto simp: lifecycle_event_def session_end_def tool_finished_def permission_request_def Let_def
      audit_or_restore_def state_unavailable_def hook_audit_unavailable_def bind_eq_Some_conv
      split: if_splits sum.splits prod.splits)

lemma lifecycle_recorded:
  assumes "handle_lifecycle env he io peer req eventName h = Some (HookReply st r, h')" "hr_Decision r \<noteq> ''block''"
  shows "recorded req (hr_Decision r) h'"
proof -
  obtain found h1 where f: "lifecycle_event env he io (UID peer) req (HookAuditProjectionIncludesPreviews (hk_policy he)) eventName h = Some (found, h1)"
    using assms(1) by (auto simp: handle_lifecycle_def Let_def bind_eq_Some_conv)
  obtain lc where lc: "found = Inr lc"
    using assms(1) f lifecycle_stops [of env he io "UID peer" req _ eventName h _ h1 st r]
    by (cases found) (auto simp: handle_lifecycle_def)
  obtain decision mode reason code where v: "lifecycle_verdict eventName lc = (decision, mode, reason, code)"
    by (metis prod.exhaust)
  let ?d = "put_denial_code code (mergeHookAuditProjection he (lifecycle_data peer eventName req lc decision mode reason)
            req (HookAuditProjectionIncludesPreviews (hk_policy he)))"
  obtain e where l: "on_core (logEvent env ''hook.pre_validate'' (hq_SessionID req) ?d) h1 = Some (e, h')"
    and e: "e = None" and d: "decision = ''allow''" "hr_Decision r = ''allow''"
    using assms f lc v by (auto simp: handle_lifecycle_def Let_def bind_eq_Some_conv hook_audit_unavailable_def
        block_reply_def no_hook_response_def split: if_splits)
  have "map_of (lifecycle_data peer eventName req lc decision mode reason) ''decision'' = Some (GString decision)"
    "map_of (lifecycle_data peer eventName req lc decision mode reason) ''tool_name'' = Some (GString (hq_ToolName req))"
    by (simp_all add: lifecycle_data_def Let_def)
  then have "map_of ?d ''decision'' = Some (GString decision)" "map_of ?d ''tool_name'' = Some (GString (hq_ToolName req))"
    by (auto simp: put_denial_code_def merge_keeps)
  then show ?thesis using recorded_event [OF l [unfolded e]] d by simp
qed

lemma call_data_keys: "map_of (call_data peer req decision xs reason) ''decision'' = Some (GString decision)"
  "map_of (call_data peer req decision xs reason) ''tool_name'' = Some (GString (hq_ToolName req))"
  by (simp_all add: call_data_def)

lemma unknown_tool_recorded:
  assumes "handle_unknown_tool env he peer req h = Some (HookReply st r, h')"
  shows "recorded req (hr_Decision r) h'"
proof (cases "ClaudeCodeDenyUnknownTools (hk_policy he)")
  case True
  then obtain c where l: "on_core (logEvent env ''hook.pre_validate'' (hq_SessionID req) (mput ''denial_code'' (GString ''hook_unknown_tool'')
      (mergeHookAuditProjection he (call_data peer req ''block'' [] c) req (HookAuditProjectionIncludesPreviews (hk_policy he))))) h =
      Some (None, h')" and "hr_Decision r = ''block''"
    using assms by (auto simp: handle_unknown_tool_def Let_def bind_eq_Some_conv hook_audit_unavailable_def block_reply_def
      no_hook_response_def split: if_splits)
  then show ?thesis using recorded_event [OF l] merge_keeps call_data_keys by simp
next
  case False
  then obtain c where l: "on_core (logEvent env ''hook.pre_validate'' (hq_SessionID req)
      (mergeHookAuditProjection he (call_data peer req ''allow'' [] c) req (HookAuditProjectionIncludesPreviews (hk_policy he)))) h =
      Some (None, h')" and "hr_Decision r = ''allow''"
    using assms by (auto simp: handle_unknown_tool_def Let_def bind_eq_Some_conv hook_audit_unavailable_def
      no_hook_response_def split: if_splits)
  then show ?thesis using recorded_event [OF l] merge_keeps call_data_keys by simp
qed

lemma decided_keeps:
  assumes "map_of d k = Some v" and "k \<in> set [''decision'', ''tool_name'']"
  shows "map_of (decided_data he req decision m d) k = Some v"
proof -
  obtain c l f where o: "ClaudeCodeToolOperatorOverride (hk_policy he) (hq_ToolName req) = (c, l, f)" by (metis prod.exhaust)
  have "k \<noteq> ''operator_override_max_grant_scope''" "k \<noteq> ''operator_override_max_delegation''"
      "k \<noteq> ''operator_override_class''" "k \<noteq> ''approval_owner''" "k \<noteq> ''approval_options''" "k \<noteq> ''denial_code''"
    using assms(2) by auto
  then show ?thesis using assms(1) unfolding decided_data_def o put_denial_code_def by (simp add: Let_def)
qed

lemma decided_response_word: "hr_Decision (decided_response he req r m) = hook_decision_word (cr_Decision r)"
  by (cases "cr_Decision r") (auto simp: decided_response_def with_override_fields_def hook_decision_word_def no_hook_response_def
      split: prod.splits)

lemma tool_call_recorded:
  assumes "handle_tool_call env he peer req toolDef h = Some (HookReply st r, h')"
  shows "recorded req (hr_Decision r) h'"
  using assms call_data_keys [of peer req]
  by (auto simp: handle_tool_call_def Let_def bind_eq_Some_conv hook_audit_unavailable_def decided_response_word
      intro!: recorded_event decided_keeps merge_keeps split: if_splits)

lemma event_recorded:
  assumes "handle_hook_event env he io peer req h = Some (HookReply st r, h')" "hr_Decision r \<noteq> ''block''"
  shows "recorded req (hr_Decision r) h'"
proof (cases "normalizedClaudeCodeHookEventName (hq_EventName req) = ''PreToolUse''")
  case False
  then have "handle_lifecycle env he io peer req (normalizedClaudeCodeHookEventName (hq_EventName req)) h = Some (HookReply st r, h')"
    using assms(1) by (simp add: handle_hook_event_def Let_def)
  then show ?thesis using assms(2) by (rule lifecycle_recorded)
next
  case True
  then obtain b h1 where rate: "on_core (checkHookPreValidateRateLimit env (UID peer)) h = Some (b, h1)"
    using assms(1) by (auto simp: handle_hook_event_def bind_eq_Some_conv)
  then have nb: "\<not> b" using assms True by (auto simp: handle_hook_event_def block_reply_def no_hook_response_def)
  show ?thesis
  proof (cases "map_of claudeCodeToolMap (hq_ToolName req)")
    case None
    then have "handle_unknown_tool env he peer req h1 = Some (HookReply st r, h')"
      using assms(1) True rate nb by (simp add: handle_hook_event_def)
    then show ?thesis by (rule unknown_tool_recorded)
  next
    case (Some toolDef)
    then have "handle_tool_call env he peer req toolDef h1 = Some (HookReply st r, h')"
      using assms(1) True rate nb by (simp add: handle_hook_event_def)
    then show ?thesis by (rule tool_call_recorded)
  qed
qed

text \<open>
  C19: the endpoint fails closed. A reply whose decision is not block went to a caller whose user the socket
  vouches to be the server's own, about a request that was decoded, and only after the audit log
  acknowledged, as its last event, the same decision about the same tool.
\<close>

theorem hook_passes_are_recorded:
  assumes "handleHookPreValidate env he io hx request h = Some (HookReply st r, h')" and "hr_Decision r \<noteq> ''block''"
  shows "\<exists>peer req. Method request = ''POST'' \<and> Peer request = Some peer \<and> UID peer = hx_uid hx \<and>
    hx_decode hx request = Inr req \<and> recorded req (hr_Decision r) h'"
proof -
  obtain peer where p: "Method request = ''POST''" "Peer request = Some peer" "UID peer = hx_uid hx"
    using assms by (auto simp: handleHookPreValidate_def refuse_peer_def block_reply_def no_hook_response_def
        bind_eq_Some_conv split: if_splits option.splits)
  then obtain req where r: "hx_decode hx request = Inr req" "handle_hook_event env he io peer req h = Some (HookReply st r, h')"
    using assms by (auto simp: handleHookPreValidate_def block_reply_def no_hook_response_def split: sum.splits)
  then show ?thesis using p event_recorded [OF r(2) assms(2)] by blast
qed


section \<open>Data the log takes\<close>

definition encodable :: "gdata \<Rightarrow> bool" where
  "encodable d = (\<forall>v\<in>snd ` set d. is_ok (canonicalizeValue v))"

lemma encodable_simps [simp]: "encodable []"
  "encodable ((k, v) # d) = (is_ok (canonicalizeValue v) \<and> encodable d)"
  "encodable (d @ d') = (encodable d \<and> encodable d')"
  by (auto simp: encodable_def)

lemma encodable_mput: "encodable d \<Longrightarrow> is_ok (canonicalizeValue v) \<Longrightarrow> encodable (mput k v d)"
proof -
  have "set (mput k v d) \<subseteq> insert (k, v) (set d)"
    unfolding mput_def by (induction d) auto
  then show "encodable d \<Longrightarrow> is_ok (canonicalizeValue v) \<Longrightarrow> encodable (mput k v d)"
    by (fastforce simp: encodable_def)
qed

lemma encodable_mdel: "encodable d \<Longrightarrow> encodable (mdel k d)"
  by (auto simp: encodable_def mdel_def)

lemma is_ok_values [simp]: "is_ok (canonicalizeValue (GString s))" "is_ok (canonicalizeValue (GBool b))"
  "is_ok (canonicalizeValue (GStrs xs))" "is_ok (canonicalizeValue GNil)"
  by (simp_all add: is_ok_def)

lemma is_ok_GInt: "\<bar>n\<bar> < 2 ^ 53 \<Longrightarrow> is_ok (canonicalizeValue (GInt n))"
  by (auto simp: validateSafeJSONInteger_def minSafeJSONInteger_def maxSafeJSONInteger_def is_ok_def check_def bindr_def)

lemma encodable_fields: "\<forall>r\<in>snd ` set m. is_ok r \<Longrightarrow> \<exists>m'. collect_fields m = Inr m'"
  by (induction m rule: collect_fields.induct) (auto simp: is_ok_def bindr_def split: sum.splits)

lemma encodable_hash:
  assumes "encodable d"
  shows "\<exists>x. hashEvent (record_event now ev sid d) = Inr x"
proof -
  have "encodable (mdel ''event_hash'' d)" using assms by (rule encodable_mdel)
  then have "\<forall>r\<in>snd ` set (map (\<lambda>(k, v). (k, canonicalizeValue v)) (mdel ''event_hash'' d)). is_ok r"
    by (force simp: encodable_def)
  from encodable_fields [OF this] obtain d' where "canonicalizeDataMap d True = Inr d'"
    by (auto simp: canonicalizeDataMap_def)
  then show ?thesis
    by (simp add: hashEvent_def marshalCanonicalEventJSON_def canonicalizeEvent_def record_event_def Let_def)
qed

lemma encodable_logged:
  assumes "encodable d" "\<not> mu_held s" "\<bar>as_sequence (srv_audit s) + 1\<bar> < 2 ^ 53"
  shows "\<exists>s'. logEvent coarse_env ev sid d s = Some (None, s') \<and> \<not> mu_held s' \<and>
    as_sequence (srv_audit s') = as_sequence (srv_audit s) + 1"
proof -
  have "tenantUserForControlSession s sid \<noteq> None"
    using assms(2) by (simp add: tenantUserForControlSession_def split: option.splits)
  then obtain tenancy where t: "tenantUserForControlSession s sid = Some tenancy" by blast
  define x where "x = (if needs_tenancy d then tenancy else ([], []))"
  have "encodable (add_tenancy (Some (\<lambda>_. x)) sid d)"
    using assms(1) by (auto simp: add_tenancy_def Let_def intro!: encodable_mput split: prod.splits)
  then have "encodable (chain_fields (as_sequence (srv_audit s) + 1) (as_lastHash (srv_audit s)) (add_tenancy (Some (\<lambda>_. x)) sid d))"
    unfolding chain_fields_def using is_ok_GInt [OF assms(3)] by (intro encodable_mput) simp_all
  then obtain h where h: "hashEvent (record_event 0 ev sid (chain_fields (as_sequence (srv_audit s) + 1) (as_lastHash (srv_audit s))
      (add_tenancy (Some (\<lambda>_. x)) sid d))) = Inr h"
    using encodable_hash by blast
  have "\<exists>a'. Record (plain_log\<lparr>opt_Tenancy := Some (\<lambda>_. x)\<rparr>) plain_answers (srv_audit s) ev sid (Some d) = (a', Inr h) \<and>
      as_sequence a' = as_sequence (srv_audit s) + 1"
    using h by (simp add: plain_log_def plain_answers_def Record_def append_audit_def ComputeEventHash_def
      copyInterfaceMap_def LedgerWriter_Record_def appendHMACCheckpointIfDueLocked_def checkpoint_due_def
      storeAnchorLocked_def Let_def)
  then obtain a' where r: "Record (plain_log\<lparr>opt_Tenancy := Some (\<lambda>_. x)\<rparr>) plain_answers (srv_audit s) ev sid (Some d) = (a', Inr h)"
    and a': "as_sequence a' = as_sequence (srv_audit s) + 1" by blast
  moreover have "(if needs_tenancy d then tenantUserForControlSession s sid else Some ([], [])) = Some x"
    using t by (simp add: x_def)
  ultimately show ?thesis using assms(2)
    by (simp only: logEvent_def logEventWithHash_def coarse_env_audit option.case prod.case sum.case) simp
qed

lemma encodable_projection: "encodable (buildHookAuditProjection he req previews)"
  by (auto simp: buildHookAuditProjection_def tool_projection_def safeHookCWDProjection_def preview_if_def Let_def
      split: option.splits)

lemma encodable_merge: "encodable d \<Longrightarrow> encodable (mergeHookAuditProjection he d req previews)"
proof -
  have "encodable xs \<Longrightarrow> encodable d \<Longrightarrow> encodable (fold (\<lambda>(k, v) d. if mhas d k then d else mput k v d) xs d)" for xs
  proof (induction xs arbitrary: d)
    case (Cons x xs)
    obtain k v where x: "x = (k, v)" by fastforce
    then have "encodable (mput k v d)" using Cons.prems by (auto intro: encodable_mput)
    then show ?case using Cons x by simp
  qed simp
  then show "encodable d \<Longrightarrow> encodable (mergeHookAuditProjection he d req previews)"
    using encodable_projection by (simp add: mergeHookAuditProjection_def)
qed

section \<open>A call from start to end\<close>

definition reading_env :: hook_env where
  "reading_env = \<lparr>hk_repoRoot = ''/repo'', hk_policy = sample_policy, hk_overrides = \<lparr>od_Version = ''1'', od_Grants = []\<rparr>,
     hk_paths = sample_env, hk_lstat = (\<lambda>_. OtherEntry), hk_stat = (\<lambda>_. None), hk_eval_error = (\<lambda>_. []),
     hk_parse_url = (\<lambda>_. None), hk_quote_rune = (\<lambda>s. s), hk_unicode_lower = (\<lambda>s. s)\<rparr>"

definition read_call :: "string \<Rightarrow> hook_request" where
  "read_call path = (bash_call [])\<lparr>hq_ToolName := ''Read'', hq_ToolInput := Some [(''file_path'', GString path)]\<rparr>"

lemmas hook_eval = reading_env_def read_call_def bash_call_def sample_policy_def tool_policy_of_def ClaudeCodeToolPolicy_def
  no_tool_policy_def applyClaudeCodeHookConstraints_def applyClaudeCodePathConstraints_def effective_roots_def effective_denies_def
  hookTargetPaths_def hookInputString_def hookTargetCandidatePath_def resolveClaudeCodeHookPolicyPath_def path_denial_def
  valid_path_expression_def

lemma reading_resolves: "resolveClaudeCodeHookPolicyPath reading_env (read_call ''a'') ''a'' [''.''] [] = (''/repo/a'', None)"
  by (simp add: hook_eval path_eval blank_def)

lemma reading_unconstrained: "applyClaudeCodeHookConstraints reading_env (read_call ''a'') no_tool_policy = None"
proof -
  have "hookTargetPaths (read_call ''a'') = Some [''a'']" by (simp add: hook_eval go_string graphic_def)
  moreover have "hq_ToolName (read_call ''a'') = ''Read''" by (simp add: read_call_def)
  moreover have "effective_roots reading_env no_tool_policy = [''.'']" "effective_denies reading_env no_tool_policy = []"
    by (simp_all add: hook_eval)
  ultimately show ?thesis using reading_resolves
    by (simp add: applyClaudeCodeHookConstraints_def applyClaudeCodePathConstraints_def path_denial_def)
qed

lemma reading_allowed: "hook_decision reading_env (read_call ''a'') (''filesystem'', OpRead) = Allow"
proof -
  have "tool_policy_of reading_env (hq_ToolName (read_call ''a'')) = no_tool_policy"
    by (simp add: tool_policy_of_def ClaudeCodeToolPolicy_def reading_env_def sample_policy_def)
  moreover have "Check (hk_policy reading_env) \<lparr>ti_Name = hq_ToolName (read_call ''a''), ti_Category = ''filesystem'',
      ti_Operation = OpRead\<rparr> = result Allow []"
    by (simp add: check_defs reading_env_def sample_policy_def)
  ultimately show ?thesis using reading_unconstrained
    by (simp add: evaluateClaudeCodeHookPolicy_def no_tool_policy_def)
qed


definition git_policy :: claude_code_tool_policy where
  "git_policy = no_tool_policy\<lparr>ct_RequiresApproval := Some False, ct_AllowedCommandPrefixes := [''git'']\<rparr>"

definition git_env :: hook_env where
  "git_env = reading_env\<lparr>hk_policy := sample_policy\<lparr>ClaudeCode := \<lparr>DenyUnknownTools = None, ToolPolicies = [(''Bash'', git_policy)]\<rparr>\<rparr>\<rparr>"

lemma git_allowed: "hook_decision git_env (bash_call ''git  log'') (''shell'', OpExecute) = Allow"
    "tool_policy_of git_env ''Bash'' = git_policy"
proof -
  have "normalizeWhitespaceForPrefixMatch ''git  log'' = ''git log''" "normalizeWhitespaceForPrefixMatch ''git'' = ''git''"
    by code_simp+
  moreover have "hookInputString (bash_call ''git  log'') ''command'' = Some ''git  log''" by code_simp
  ultimately have "applyClaudeCodeBashConstraints git_env (bash_call ''git  log'') git_policy = None"
    by (simp add: applyClaudeCodeBashConstraints_def git_policy_def no_tool_policy_def has_prefix_def)
  moreover show tp: "tool_policy_of git_env ''Bash'' = git_policy"
    by (simp add: tool_policy_of_def git_env_def ClaudeCodeToolPolicy_def)
  moreover have "hq_ToolName (bash_call ''git  log'') = ''Bash''" by (simp add: bash_call_def)
  moreover have "ct_RequiresApproval git_policy = Some False" "ct_Enabled git_policy = None"
    by (simp_all add: git_policy_def no_tool_policy_def)
  ultimately show "hook_decision git_env (bash_call ''git  log'') (''shell'', OpExecute) = Allow"
    by (simp add: evaluateClaudeCodeHookPolicy_def applyClaudeCodeHookConstraints_def)
qed

theorem hook_command_within_prefixes_witness:
  "\<exists>command. hookInputString (bash_call ''git  log'') ''command'' = Some command \<and>
     has_prefix (normalizeWhitespaceForPrefixMatch command) (normalizeWhitespaceForPrefixMatch ''git'')"
proof -
  have "hook_decision git_env (bash_call ''git  log'') (''shell'', OpExecute) \<noteq> Deny" using git_allowed by simp
  moreover have "hq_ToolName (bash_call ''git  log'') = ''Bash''" by (simp add: bash_call_def)
  moreover have "ct_AllowedCommandPrefixes git_policy = [''git'']" by (simp add: git_policy_def)
  ultimately show ?thesis
    using hook_command_within_prefixes [of git_env "bash_call ''git  log''" "(''shell'', OpExecute)" git_policy] git_allowed(2) by auto
qed


definition hook_server_of :: "('f, 'w) server \<Rightarrow> ('f, 'w) hook_server" where
  "hook_server_of s = \<lparr>hk_core = s, hk_session_file = FileAbsent, hk_approval_files = []\<rparr>"

definition smooth_io :: hook_io where
  "smooth_io = \<lparr>save_sessions = (\<lambda>_. StateWritten), make_dir = (\<lambda>_. None), save_approvals = (\<lambda>_. StateWritten), pick_match = (\<lambda>_. 0)\<rparr>"

definition reading_hook :: hook_call where
  "reading_hook = \<lparr>hx_uid = 0, hx_remote = [], hx_decode = (\<lambda>_. Inr (read_call ''a''))\<rparr>"

lemma reading_event:
  "\<exists>h. handle_hook_event coarse_env reading_env smooth_io \<lparr>UID = 0, PID = 0, EPID = 0\<rparr> (read_call ''a'') (hook_server_of (server_with [] [])) =
     Some (HookReply 200 (decided_response reading_env (read_call ''a'') (evaluateClaudeCodeHookPolicy reading_env (read_call ''a'') (''filesystem'', OpRead))
       (buildHookDecisionMetadata ''allow'' (evaluateClaudeCodeHookPolicy reading_env (read_call ''a'') (''filesystem'', OpRead))
         (override_delegation reading_env (read_call ''a'')))), h)"
proof -
  let ?req = "read_call ''a''" let ?peer = "\<lparr>UID = 0, PID = 0, EPID = 0\<rparr>" let ?h = "hook_server_of (server_with [] [])"
  let ?r = "evaluateClaudeCodeHookPolicy reading_env ?req (''filesystem'', OpRead)"
  define m where "m = buildHookDecisionMetadata ''allow'' ?r (override_delegation reading_env ?req)"
  have call: "normalizedClaudeCodeHookEventName (hq_EventName ?req) = ''PreToolUse''"
    "map_of claudeCodeToolMap (hq_ToolName ?req) = Some (''filesystem'', OpRead)"
    by (simp add: read_call_def bash_call_def normalizedClaudeCodeHookEventName_def, code_simp)
      (simp add: read_call_def claudeCodeToolMap_def)
  have rate: "on_core (checkHookPreValidateRateLimit coarse_env (UID ?peer)) ?h = Some (False, ?h)"
    by (simp add: on_core_def checkHookPreValidateRateLimit_def with_mu_def lock_mu_def unlock_mu_def hook_server_of_def
        server_with_def) (simp add: coarse_env_def)
  define d where "d = mergeHookAuditProjection reading_env (call_data ?peer ?req ''allow'' (decided_fields ?req (''filesystem'', OpRead) m)
    (cr_Reason ?r)) ?req (HookAuditProjectionIncludesPreviews (hk_policy reading_env))"
  have "hq_Prompt ?req = []" by (simp add: read_call_def bash_call_def)
  then have "encodable (call_data ?peer ?req ''allow'' (decided_fields ?req (''filesystem'', OpRead) m) (cr_Reason ?r))"
    using is_ok_GInt [of 0] by (simp add: call_data_def peer_fields_def decided_fields_def)
  then have "encodable d" unfolding d_def by (rule encodable_merge)
  then have "encodable (decided_data reading_env ?req ''allow'' m d)"
    by (auto simp: decided_data_def Let_def intro!: encodable_mput split: prod.splits)
  from encodable_logged [OF this, of "server_with [] []" "''hook.pre_validate''" "hq_SessionID ?req"]
  obtain s' where "logEvent coarse_env ''hook.pre_validate'' (hq_SessionID ?req) (decided_data reading_env ?req ''allow'' m d)
      (server_with [] []) = Some (None, s')"
    by (fastforce simp: server_with_def)
  then have "on_core (logEvent coarse_env ''hook.pre_validate'' (hq_SessionID ?req) (decided_data reading_env ?req ''allow'' m d)) ?h =
      Some (None, ?h\<lparr>hk_core := s'\<rparr>)" by (simp add: on_core_def hook_server_of_def)
  then have "handle_tool_call coarse_env reading_env ?peer ?req (''filesystem'', OpRead) ?h =
      Some (HookReply 200 (decided_response reading_env ?req ?r m), ?h\<lparr>hk_core := s'\<rparr>)"
    by (simp add: handle_tool_call_def reading_allowed hook_decision_word_def m_def [symmetric] d_def [symmetric])
  then show ?thesis using call rate by (simp add: handle_hook_event_def m_def)
qed

lemma reading_word: "hr_Decision (decided_response reading_env (read_call ''a'')
    (evaluateClaudeCodeHookPolicy reading_env (read_call ''a'') (''filesystem'', OpRead)) m) = ''allow''"
  using reading_allowed by (simp add: decided_response_word hook_decision_word_def)

theorem hook_passes_are_recorded_witness:
  "\<exists>r h. handleHookPreValidate coarse_env reading_env smooth_io reading_hook execute_request (hook_server_of (server_with [] [])) =
      Some (HookReply 200 r, h) \<and> hr_Decision r = ''allow'' \<and> recorded (read_call ''a'') ''allow'' h"
proof -
  obtain r h where e: "handle_hook_event coarse_env reading_env smooth_io \<lparr>UID = 0, PID = 0, EPID = 0\<rparr> (read_call ''a'')
      (hook_server_of (server_with [] [])) = Some (HookReply 200 r, h)" "hr_Decision r = ''allow''"
    using reading_event reading_word by metis
  then have "handleHookPreValidate coarse_env reading_env smooth_io reading_hook execute_request (hook_server_of (server_with [] [])) =
      Some (HookReply 200 r, h)"
    by (simp add: handleHookPreValidate_def execute_request_def reading_hook_def)
  from hook_passes_are_recorded [OF this] this e(2) show ?thesis
    by (auto simp: reading_hook_def)
qed


end
