(* ===== verification/HookApprovals.thy ===== *)
theory HookApprovals
  imports HookProperties
begin

text \<open>
  The approvals of the hook endpoint over time: its only writers change a pending approval or put back what
  was there, so that where none is pending none ever becomes pending and no approval event is written.
\<close>

section \<open>Steps that leave the approvals alone\<close>

definition no_pending :: "('f, 'w) hook_server \<Rightarrow> bool" where
  "no_pending h = (\<forall>f\<in>snd ` set (hk_approval_files h). case f of
     FileStored version rs \<Rightarrow> list_all (\<lambda>a. trim_space (ha_State a) \<noteq> ''pending'') rs
   | _ \<Rightarrow> True)"

definition only_decisions :: "action list \<Rightarrow> bool" where
  "only_decisions es = (\<forall>a\<in>set es. \<exists>sid d. a = Audited ''hook.pre_validate'' sid d)"

lemma only_decisions_simps [simp]: "only_decisions []" "only_decisions (as @ bs) = (only_decisions as \<and> only_decisions bs)"
  "only_decisions [Audited ''hook.pre_validate'' sid d]"
  by (auto simp: only_decisions_def)

text \<open>Same approval files, and only decision events in between.\<close>

definition plain_step :: "('f, 'w) hook_server \<Rightarrow> ('f, 'w) hook_server \<Rightarrow> bool" where
  "plain_step h h' = (hk_approval_files h' = hk_approval_files h \<and>
     (\<exists>es. trace (hk_core h') = trace (hk_core h) @ es \<and> only_decisions es))"

named_theorems plain

lemma plain_refl [simp]: "plain_step h h"
  by (auto simp: plain_step_def intro: exI [of _ "[]"])

lemma plain_trans: "plain_step h h' \<Longrightarrow> plain_step h' h'' \<Longrightarrow> plain_step h h''"
  by (auto simp: plain_step_def)

lemma plain_no_pending: "plain_step h h' \<Longrightarrow> no_pending h' = no_pending h"
  by (simp add: plain_step_def no_pending_def)

lemma plain_same: "hk_approval_files h' = hk_approval_files h \<Longrightarrow> trace (hk_core h') = trace (hk_core h) \<Longrightarrow> plain_step h h'"
  by (auto simp: plain_step_def intro: exI [of _ "[]"])

lemma plain_tick [plain]: "plain_step h (hook_tick h)"
  by (rule plain_same) (simp_all add: hook_tick_def)

lemma plain_event: "on_core (logEvent env ''hook.pre_validate'' sid d) h = Some (e, h') \<Longrightarrow> plain_step h h'"
  by (auto simp: on_core_Some logEvent_def logEventWithHash_def plain_step_def
      split: option.splits prod.splits sum.splits intro: exI [of _ "[]"])

lemma plain_rate: "on_core (checkHookPreValidateRateLimit env uid) h = Some (b, h') \<Longrightarrow> plain_step h h'"
    "on_core (checkHookPeerAuthFailureRateLimit env key) h = Some (b, h') \<Longrightarrow> plain_step h h'"
  by (auto simp: on_core_Some checkHookPreValidateRateLimit_def checkHookPeerAuthFailureRateLimit_def with_mu_def lock_mu_def
      unlock_mu_def server_now_def Let_def intro!: plain_same split: if_splits)

lemma plain_ensure: "ensureClaudeHookSessionBinding env he io sid ev reason h = (r, h') \<Longrightarrow> plain_step h h'"
  by (auto simp: ensureClaudeHookSessionBinding_def saveClaudeHookSessionStateLocked_def hook_now_def hook_tick_def Let_def
      intro!: plain_same split: if_splits sum.splits prod.splits write_outcome.splits)

section \<open>Where no approval is pending\<close>

lemma keyed_values: "snd ` set (keyed key rs) \<subseteq> set rs"
proof -
  have "snd ` set (fold (\<lambda>r m. if key r = [] then m else mput (key r) r m) rs m) \<subseteq> set rs \<union> snd ` set m" for m
  proof (induction rs arbitrary: m)
    case (Cons r rs)
    have "snd ` set (mput (key r) r m) \<subseteq> insert r (snd ` set m)"
      unfolding mput_def by (induction m) auto
    then have "set rs \<union> snd ` set (mput (key r) r m) \<subseteq> set (r # rs) \<union> snd ` set m" by auto
    from order_trans [OF Cons.IH this] show ?case using Cons.IH [of m] by (cases "key r = []") auto
  qed simp
  from this [of "[]"] show ?thesis by (simp add: keyed_def)
qed

lemma loaded_not_pending:
  assumes "no_pending h" "loadClaudeHookApprovalStateLocked he key h = Inr m" "(t, a) \<in> set m"
  shows "ha_State a \<noteq> ''pending''"
proof (cases "approval_file key h")
  case (FileStored version rs)
  then obtain f where f: "map_of (hk_approval_files h) key = Some (FileStored version rs)"
    by (auto simp: approval_file_def split: option.splits)
  have m: "m = keyed ha_ToolUseID (map (on_strings trim_space) rs)"
    using assms(2) FileStored by (auto simp: loadClaudeHookApprovalStateLocked_def read_state_def split: if_splits)
  have "a \<in> set (map (on_strings trim_space) rs)"
    using assms(3) keyed_values [of ha_ToolUseID "map (on_strings trim_space) rs"] unfolding m by force
  moreover have "list_all (\<lambda>a. trim_space (ha_State a) \<noteq> ''pending'') rs"
    using assms(1) map_of_SomeD [OF f] by (force simp: no_pending_def)
  ultimately show ?thesis by (auto simp: on_strings_def list_all_iff)
qed (use assms(2,3) in \<open>auto simp: loadClaudeHookApprovalStateLocked_def read_state_def\<close>)

lemma no_transition:
  assumes "transitionClaudeHookApproval env he io req state reason h = (r, h')" "no_pending h"
  shows "plain_step h h' \<and> (\<forall>a session found changed previous. r = Inr (a, session, found, changed, previous) \<longrightarrow> \<not> changed)"
proof (cases "trim_space (hq_SessionID req) = [] \<or> trim_space (hq_ToolUseID req) = []")
  case True then show ?thesis using assms(1) by (auto simp: transitionClaudeHookApproval_def Let_def)
next
  case False
  obtain r1 h1 where e: "ensureClaudeHookSessionBinding env he io (trim_space (hq_SessionID req))
      (normalizedClaudeCodeHookEventName (hq_EventName req)) (hq_Reason req) h = (r1, h1)" by fastforce
  then have p: "plain_step h h1" by (rule plain_ensure)
  then have np: "no_pending h1" using assms(2) plain_no_pending by blast
  show ?thesis
  proof (cases r1)
    case (Inl x) then show ?thesis using assms(1) e False p by (auto simp: transitionClaudeHookApproval_def Let_def)
  next
    case (Inr session)
    show ?thesis
    proof (cases "loadClaudeHookApprovalStateLocked he (hs_StorageKey session) h1")
      case (Inl x)
      then show ?thesis using assms(1) e False p Inr by (auto simp: transitionClaudeHookApproval_def Let_def)
    next
      case (Inr m)
      have "ha_State a \<noteq> ''pending''" if "map_of m (trim_space (hq_ToolUseID req)) = Some a" for a
        using loaded_not_pending [OF np Inr map_of_SomeD [OF that]] .
      then show ?thesis using assms(1) e False p \<open>r1 = Inr session\<close> Inr
        by (auto simp: transitionClaudeHookApproval_def Let_def split: option.splits if_splits)
    qed
  qed
qed

lemma nothing_abandoned:
  assumes "abandonPendingClaudeHookApprovalsWithPrevious env he io sid reason h = (r, h')" "no_pending h"
  shows "plain_step h h' \<and> (\<forall>n session previous. r = Inr (n, session, previous) \<longrightarrow> n = 0)"
proof (cases "trim_space sid = []")
  case True then show ?thesis using assms(1) by (auto simp: abandonPendingClaudeHookApprovalsWithPrevious_def Let_def)
next
  case False
  obtain r1 h1 where e: "ensureClaudeHookSessionBinding env he io (trim_space sid) ''SessionEnd'' reason h = (r1, h1)" by fastforce
  then have p: "plain_step h h1" by (rule plain_ensure)
  then have np: "no_pending h1" using assms(2) plain_no_pending by blast
  show ?thesis
  proof (cases r1)
    case (Inl x)
    then show ?thesis using assms(1) e False p by (auto simp: abandonPendingClaudeHookApprovalsWithPrevious_def Let_def)
  next
    case (Inr session)
    show ?thesis
    proof (cases "loadClaudeHookApprovalStateLocked he (hs_StorageKey session) h1")
      case (Inl x)
      then show ?thesis using assms(1) e False p Inr
        by (auto simp: abandonPendingClaudeHookApprovalsWithPrevious_def Let_def)
    next
      case (Inr m)
      have "filter (\<lambda>(_, a). ha_State a = ''pending'') m = []"
        using loaded_not_pending [OF np Inr] by (auto simp: filter_empty_conv)
      then show ?thesis using assms(1) e False plain_trans [OF p plain_tick] \<open>r1 = Inr session\<close> Inr
        by (auto simp: abandonPendingClaudeHookApprovalsWithPrevious_def hook_now_def Let_def)
    qed
  qed
qed

lemma find_plain: "findClaudeHookApprovalByRequest env he io req h = (r, h') \<Longrightarrow> plain_step h h'"
  by (auto simp: findClaudeHookApprovalByRequest_def Let_def intro: plain_trans [OF _ plain_tick]
      dest!: plain_ensure split: if_splits prod.splits sum.splits)

lemma lifecycle_plain:
  assumes "lifecycle_event env he io uid req previews ev h = Some (r, h')" "no_pending h"
  shows "plain_step h h'"
proof -
  obtain ra ha where a: "abandonPendingClaudeHookApprovalsWithPrevious env he io (hq_SessionID req) (hq_Reason req) h = (ra, ha)"
    by fastforce
  have "session_end env he io uid req previews h = Some (r, h') \<Longrightarrow> plain_step h h'"
    using nothing_abandoned [OF a assms(2)] a by (auto simp: session_end_def Let_def split: sum.splits prod.splits)
  moreover have "tool_finished env he io uid req previews ev h = Some (r, h') \<Longrightarrow> plain_step h h'"
  proof -
    assume t: "tool_finished env he io uid req previews ev h = Some (r, h')"
    define state where "state = (if ev = ''PostToolUseFailure'' then ''execution_failed'' else ''executed'')"
    define reason where "reason = (if \<not> ev = ''PostToolUseFailure'' then ''Claude tool execution completed after local approval''
       else if blank (hq_Error req) then ''Claude tool execution failed after local approval'' else hq_Error req)"
    obtain rt ht where tr: "transitionClaudeHookApproval env he io req state reason h = (rt, ht)" by fastforce
    show ?thesis using no_transition [OF tr assms(2)] t tr unfolding tool_finished_def state_def reason_def Let_def
      by (auto split: sum.splits prod.splits)
  qed
  moreover have "permission_request env he io req h = Some (r, h') \<Longrightarrow> plain_step h h'"
    by (auto simp: permission_request_def dest!: find_plain split: sum.splits prod.splits)
  ultimately show ?thesis using assms(1)
    by (auto simp: lifecycle_event_def dest!: plain_ensure split: if_splits sum.splits prod.splits)
qed

lemma event_plain:
  assumes "handle_hook_event env he io peer req h = Some (r, h')" "no_pending h"
  shows "plain_step h h'"
proof (cases "normalizedClaudeCodeHookEventName (hq_EventName req) = ''PreToolUse''")
  case True
  then obtain b h1 where rate: "on_core (checkHookPreValidateRateLimit env (UID peer)) h = Some (b, h1)"
    using assms(1) by (auto simp: handle_hook_event_def bind_eq_Some_conv)
  then have "b \<longrightarrow> h' = h1" using assms(1) True by (auto simp: handle_hook_event_def)
  moreover have "map_of claudeCodeToolMap (hq_ToolName req) = None \<Longrightarrow> \<not> b \<Longrightarrow> plain_step h1 h'"
    using assms(1) True rate by (auto simp: handle_hook_event_def handle_unknown_tool_def Let_def bind_eq_Some_conv dest!: plain_event)
  moreover have "map_of claudeCodeToolMap (hq_ToolName req) = Some toolDef \<Longrightarrow> \<not> b \<Longrightarrow> plain_step h1 h'" for toolDef
    using assms(1) True rate by (auto simp: handle_hook_event_def handle_tool_call_def Let_def bind_eq_Some_conv dest!: plain_event)
  ultimately show ?thesis using plain_rate(1) [OF rate] plain_trans by (cases b; cases "map_of claudeCodeToolMap (hq_ToolName req)") auto
next
  case False
  let ?ev = "normalizedClaudeCodeHookEventName (hq_EventName req)"
  obtain found h1 where f: "lifecycle_event env he io (UID peer) req (HookAuditProjectionIncludesPreviews (hk_policy he)) ?ev h = Some (found, h1)"
      and k: "(case found of Inl r0 \<Rightarrow> Some (r0, h1) | Inr lc \<Rightarrow> (case lifecycle_verdict ?ev lc of (decision, mode, reason, code) \<Rightarrow>
        Option.bind (on_core (logEvent env ''hook.pre_validate'' (hq_SessionID req)
            (put_denial_code code (mergeHookAuditProjection he (lifecycle_data peer ?ev req lc decision mode reason)
              req (HookAuditProjectionIncludesPreviews (hk_policy he))))) h1)
          (\<lambda>(e, h). Some (if e \<noteq> None then hook_audit_unavailable
            else if decision = ''allow'' then HookReply 200 (no_hook_response\<lparr>hr_Decision := ''allow''\<rparr>)
            else block_reply 200 reason code, h)))) = Some (r, h')"
    using assms(1) False by (auto simp: handle_hook_event_def handle_lifecycle_def Let_def bind_eq_Some_conv)
  have "plain_step h1 h'"
    using k by (cases found) (auto simp: bind_eq_Some_conv split: prod.splits dest!: plain_event)
  then show ?thesis using lifecycle_plain [OF f assms(2)] plain_trans by blast
qed

lemma refuse_plain: "refuse_peer env key st reason h = Some (r, h') \<Longrightarrow> plain_step h h'"
  by (auto simp: refuse_peer_def bind_eq_Some_conv dest!: plain_rate(2))



end
