(* ===== verification/GoJsonScan.thy ===== *)
theory GoJsonScan
  imports GoJson
begin

text \<open>
  The scanner of Go's encoding/json: json.Valid runs it over a text, json.Marshal compacts a
  json.RawMessage with it. One state per step function of the scanner, and its stack of containers.
\<close>

datatype container = ObjectKey | ObjectValue | ArrayValue

datatype scan_state = BeginValue | BeginValueOrEmpty | BeginString | BeginStringOrEmpty | EndValue | EndTop
  | InString | InStringEsc | InStringEscU nat  \<comment> \<open>hexadecimal digits still to come\<close>
  | Neg | Digits | Zero | Dot | Fraction | Exponent | ExponentSign | ExponentDigits
  | Word string  \<comment> \<open>the rest of true, false or null\<close>
  | ScanError

type_synonym scan = "scan_state \<times> container list"

definition json_space :: "char \<Rightarrow> bool" where
  "json_space c = (c = CHR 0x20 \<or> c = CHR 0x09 \<or> c = CHR 0x0D \<or> c = CHR 0x0A)"

definition maxNestingDepth :: nat where "maxNestingDepth = 10000"

definition push_container :: "scan_state \<Rightarrow> container \<Rightarrow> container list \<Rightarrow> scan" where
  "push_container st k ks = (if Suc (length ks) \<le> maxNestingDepth then (st, k # ks) else (ScanError, k # ks))"

definition begin_value :: "container list \<Rightarrow> char \<Rightarrow> scan" where
  "begin_value ks c =
    (if json_space c then (BeginValue, ks)
     else if c = CHR 0x7B then push_container BeginStringOrEmpty ObjectKey ks
     else if c = CHR 0x5B then push_container BeginValueOrEmpty ArrayValue ks
     else if c = CHR 0x22 then (InString, ks)
     else if c = CHR ''-'' then (Neg, ks) else if c = CHR ''0'' then (Zero, ks)
     else if c = CHR ''t'' then (Word ''rue'', ks) else if c = CHR ''f'' then (Word ''alse'', ks)
     else if c = CHR ''n'' then (Word ''ull'', ks)
     else if is_digit c then (Digits, ks) else (ScanError, ks))"

definition pop_container :: "container list \<Rightarrow> scan" where
  "pop_container ks = (if ks = [] then (EndTop, []) else (EndValue, ks))"

definition end_value :: "container list \<Rightarrow> char \<Rightarrow> scan" where
  "end_value ks c = (case ks of
     [] \<Rightarrow> if json_space c then (EndTop, []) else (ScanError, [])
   | k # rest \<Rightarrow>
       if json_space c then (EndValue, ks)
       else (case k of
           ObjectKey \<Rightarrow> if c = CHR '':'' then (BeginValue, ObjectValue # rest) else (ScanError, ks)
         | ObjectValue \<Rightarrow> if c = CHR '','' then (BeginString, ObjectKey # rest)
             else if c = CHR 0x7D then pop_container rest else (ScanError, ks)
         | ArrayValue \<Rightarrow> if c = CHR '','' then (BeginValue, ks)
             else if c = CHR 0x5D then pop_container rest else (ScanError, ks)))"

definition begin_string :: "container list \<Rightarrow> char \<Rightarrow> scan" where
  "begin_string ks c = (if json_space c then (BeginString, ks)
     else if c = CHR 0x22 then (InString, ks) else (ScanError, ks))"

fun scan_step :: "scan \<Rightarrow> char \<Rightarrow> scan" where
  "scan_step (BeginValue, ks) c = begin_value ks c"
| "scan_step (BeginValueOrEmpty, ks) c = (if json_space c then (BeginValueOrEmpty, ks)
     else if c = CHR 0x5D then end_value ks c else begin_value ks c)"
| "scan_step (BeginString, ks) c = begin_string ks c"
| "scan_step (BeginStringOrEmpty, ks) c = (if json_space c then (BeginStringOrEmpty, ks)
     else if c = CHR 0x7D then end_value (ObjectValue # tl ks) c else begin_string ks c)"
| "scan_step (EndValue, ks) c = end_value ks c"
| "scan_step (EndTop, ks) c = (if json_space c then (EndTop, ks) else (ScanError, ks))"
| "scan_step (InString, ks) c = (if c = CHR 0x22 then (EndValue, ks) else if c = CHR 0x5C then (InStringEsc, ks)
     else if of_char c < (0x20 :: nat) then (ScanError, ks) else (InString, ks))"
| "scan_step (InStringEsc, ks) c = (if c \<in> set ''bfnrt/'' \<or> c = CHR 0x5C \<or> c = CHR 0x22 then (InString, ks)
     else if c = CHR ''u'' then (InStringEscU 4, ks) else (ScanError, ks))"
| "scan_step (InStringEscU n, ks) c = (if hex_val c = None then (ScanError, ks)
     else if n \<le> 1 then (InString, ks) else (InStringEscU (n - 1), ks))"
| "scan_step (Neg, ks) c = (if c = CHR ''0'' then (Zero, ks) else if is_digit c then (Digits, ks) else (ScanError, ks))"
| "scan_step (Digits, ks) c = (if is_digit c then (Digits, ks) else if c = CHR ''.'' then (Dot, ks)
     else if c = CHR ''e'' \<or> c = CHR ''E'' then (Exponent, ks) else end_value ks c)"
| "scan_step (Zero, ks) c = (if c = CHR ''.'' then (Dot, ks)
     else if c = CHR ''e'' \<or> c = CHR ''E'' then (Exponent, ks) else end_value ks c)"
| "scan_step (Dot, ks) c = (if is_digit c then (Fraction, ks) else (ScanError, ks))"
| "scan_step (Fraction, ks) c = (if is_digit c then (Fraction, ks)
     else if c = CHR ''e'' \<or> c = CHR ''E'' then (Exponent, ks) else end_value ks c)"
| "scan_step (Exponent, ks) c = (if c = CHR ''+'' \<or> c = CHR ''-'' then (ExponentSign, ks)
     else if is_digit c then (ExponentDigits, ks) else (ScanError, ks))"
| "scan_step (ExponentSign, ks) c = (if is_digit c then (ExponentDigits, ks) else (ScanError, ks))"
| "scan_step (ExponentDigits, ks) c = (if is_digit c then (ExponentDigits, ks) else end_value ks c)"
| "scan_step (Word [], ks) c = end_value ks c"
| "scan_step (Word (w # ws), ks) c = (if c \<noteq> w then (ScanError, ks) else if ws = [] then (EndValue, ks) else (Word ws, ks))"
| "scan_step (ScanError, ks) c = (ScanError, ks)"

definition scan_all :: "scan \<Rightarrow> string \<Rightarrow> scan" where
  "scan_all = foldl scan_step"

definition scan_ends :: "scan \<Rightarrow> bool" where
  "scan_ends sc = (fst sc = EndTop \<or> fst (scan_step sc CHR 0x20) = EndTop)"

definition json_valid :: "string \<Rightarrow> bool" where
  "json_valid s = scan_ends (scan_all (BeginValue, []) s)"

section \<open>Compaction\<close>

text \<open>White space outside strings goes; with Go's HTML escaping the characters <, >, & and U+2028, U+2029 are escaped.\<close>

definition in_string :: "scan \<Rightarrow> bool" where
  "in_string sc = (case fst sc of InString \<Rightarrow> True | InStringEsc \<Rightarrow> True | InStringEscU n \<Rightarrow> True | _ \<Rightarrow> False)"

definition line_separator :: "string \<Rightarrow> string option" where
  "line_separator s = (if has_prefix s [CHR 0xE2, CHR 0x80, CHR 0xA8] then Some (CHR 0x5C # ''u2028'')
     else if has_prefix s [CHR 0xE2, CHR 0x80, CHR 0xA9] then Some (CHR 0x5C # ''u2029'') else None)"

function json_compact_from :: "scan \<Rightarrow> string \<Rightarrow> string" where
  "json_compact_from sc [] = []"
| "json_compact_from sc (c # s) = (case line_separator (c # s) of
     Some esc \<Rightarrow> esc @ json_compact_from (scan_all sc (take 3 (c # s))) (drop 3 (c # s))
   | None \<Rightarrow> (if json_space c \<and> \<not> in_string sc then [] else if html_special c then ascii_esc c else [c]) @
       json_compact_from (scan_step sc c) s)"
  by pat_completeness auto
termination by (relation "measure (\<lambda>(sc, s). length s)") auto

definition json_compact :: "string \<Rightarrow> string" where
  "json_compact = json_compact_from (BeginValue, [])"

lemma scan_all_simps [simp]: "scan_all sc [] = sc" "scan_all sc (c # s) = scan_all (scan_step sc c) s"
  "scan_all sc (s @ s') = scan_all (scan_all sc s) s'"
  by (simp_all add: scan_all_def)

end
