(* ===== verification/McpPolicy.thy ===== *)
theory McpPolicy
  imports GoJsonScan PolicyConfig GoRel CapabilityExecution
begin

text \<open>
  The MCP gateway's policy: internal/loopgate/mcp_gateway_policy.go and the request validation of
  controlapi/mcp_gateway.go. The manifests are built from the signed policy; an invocation is checked for its
  form, then against the manifest of its server and tool. Errors keep the source's sentinels.
\<close>

section \<open>Requests\<close>

text \<open>An argument is a json.RawMessage: bytes. None is the nil map of an absent arguments field.\<close>

type_synonym raw_arguments = "(string, string) gomap"

record mcp_invocation =
  mi_ServerID :: string
  mi_ToolName :: string
  mi_Arguments :: "raw_arguments option"

record validated_invocation =
  vi_ServerID :: string
  vi_ToolName :: string
  vi_Arguments :: raw_arguments
  vi_Keys :: "string list"

definition maxMCPGatewayInvocationArgumentCount :: nat where "maxMCPGatewayInvocationArgumentCount = 64"

text \<open>The loop over the arguments; \<open>q\<close> is how %q shows a rune off ASCII.\<close>

fun validate_arguments :: "(string \<Rightarrow> string) \<Rightarrow> raw_arguments \<Rightarrow> raw_arguments \<Rightarrow> string list \<Rightarrow>
    (raw_arguments \<times> string list) result" where
  "validate_arguments q [] m ks = Inr (m, ks)"
| "validate_arguments q ((rawName, rawValue) # rest) m ks = (let name = trim_space rawName; v = trim_space rawValue in
     if \<not> mcpGatewayArgumentNamePattern name then Inl (''argument name '' @ go_quote q rawName @ '' is invalid'')
     else if v = [] \<or> \<not> json_valid v then Inl (''argument '' @ go_quote q name @ '' must contain valid JSON'')
     else validate_arguments q rest (mput name v m) (ks @ [name]))"

definition ValidateMCPGatewayInvocationRequest :: "(string \<Rightarrow> string) \<Rightarrow> mcp_invocation \<Rightarrow> validated_invocation result" where
  "ValidateMCPGatewayInvocationRequest q r = (let serverID = trim_space (mi_ServerID r); tool = trim_space (mi_ToolName r) in
     case ValidateSafeIdentifier ''mcp gateway server id'' serverID of
       Some e \<Rightarrow> Inl e
     | None \<Rightarrow> (case ValidateSafeIdentifier ''mcp gateway tool name'' tool of
         Some e \<Rightarrow> Inl e
       | None \<Rightarrow> (case mi_Arguments r of
           None \<Rightarrow> Inl ''arguments object is required''
         | Some args \<Rightarrow>
             if length args > maxMCPGatewayInvocationArgumentCount then Inl ''arguments exceeds maximum count''
             else (case validate_arguments q args [] [] of
                 Inl e \<Rightarrow> Inl e
               | Inr (m, ks) \<Rightarrow> Inr \<lparr>vi_ServerID = serverID, vi_ToolName = tool, vi_Arguments = m, vi_Keys = sort_strings ks\<rparr>))))"

section \<open>Manifests\<close>

record mcp_tool_manifest =
  tm_ToolName :: string
  tm_Enabled :: bool
  tm_RequiresApproval :: bool
  tm_RequiredArguments :: "string list"
  tm_AllowedArguments :: "string list"
  tm_DeniedArguments :: "string list"
  tm_ArgumentValueKinds :: "(string, string) gomap"
  tm_DeclaredByPolicy :: bool

record mcp_server_manifest =
  sm_ServerID :: string
  sm_Enabled :: bool
  sm_RequiresApproval :: bool
  sm_Transport :: string
  sm_LaunchCommand :: string
  sm_LaunchArgs :: "string list"
  sm_WorkingDirectory :: string
  sm_AllowedEnvironment :: "string list"
  sm_SecretEnvironment :: "(string, secret_ref) gomap"
  sm_ToolManifests :: "(string, mcp_tool_manifest) gomap"

definition boolWithDefault :: "bool option \<Rightarrow> bool \<Rightarrow> bool" where
  "boolWithDefault given fallback = (case given of None \<Rightarrow> fallback | Some b \<Rightarrow> b)"

definition buildMCPGatewayToolManifests :: "(string, mcp_tool_policy) gomap \<Rightarrow> (string, mcp_tool_manifest) gomap" where
  "buildMCPGatewayToolManifests source = map (\<lambda>(toolName, p). (toolName,
     \<lparr>tm_ToolName = toolName, tm_Enabled = boolWithDefault (mt_Enabled p) True,
      tm_RequiresApproval = boolWithDefault (mt_RequiresApproval p) False, tm_RequiredArguments = mt_RequiredArguments p,
      tm_AllowedArguments = mt_AllowedArguments p, tm_DeniedArguments = mt_DeniedArguments p,
      tm_ArgumentValueKinds = mt_ArgumentValueKinds p, tm_DeclaredByPolicy = True\<rparr>)) source"

definition server_manifest :: "string \<Rightarrow> mcp_server_policy \<Rightarrow> mcp_server_manifest" where
  "server_manifest serverID p = \<lparr>sm_ServerID = serverID, sm_Enabled = boolWithDefault (ms_Enabled p) True,
     sm_RequiresApproval = boolWithDefault (ms_RequiresApproval p) False, sm_Transport = trim_space (ms_Transport p),
     sm_LaunchCommand = trim_space (ms_LaunchCommand p), sm_LaunchArgs = ms_LaunchArgs p,
     sm_WorkingDirectory = trim_space (ms_WorkingDirectory p), sm_AllowedEnvironment = ms_AllowedEnvironment p,
     sm_SecretEnvironment = ms_SecretEnvironment p, sm_ToolManifests = buildMCPGatewayToolManifests (ms_ToolPolicies p)\<rparr>"

fun build_server_manifests :: "(string, mcp_server_policy) gomap \<Rightarrow> (string, mcp_server_manifest) gomap result" where
  "build_server_manifests [] = Inr []"
| "build_server_manifests ((serverID, p) # rest) = (case ValidateSafeIdentifier ''mcp gateway server id'' serverID of
     Some e \<Rightarrow> Inl e
   | None \<Rightarrow> bindr (build_server_manifests rest) (\<lambda>m. Inr ((serverID, server_manifest serverID p) # m)))"

definition buildMCPGatewayServerManifests :: "policy \<Rightarrow> (string, mcp_server_manifest) gomap result" where
  "buildMCPGatewayServerManifests p = build_server_manifests (Servers (MCPGateway p))"

section \<open>Decisions\<close>

datatype mcp_policy_error = McpServerNotFound string | McpServerDisabled string | McpToolNotFound string | McpToolDisabled string

fun mcp_error_text :: "mcp_policy_error \<Rightarrow> string" where
  "mcp_error_text (McpServerNotFound d) = ''mcp gateway server not found: '' @ d"
| "mcp_error_text (McpServerDisabled d) = ''mcp gateway server disabled: '' @ d"
| "mcp_error_text (McpToolNotFound d) = ''mcp gateway tool not found: '' @ d"
| "mcp_error_text (McpToolDisabled d) = ''mcp gateway tool disabled: '' @ d"

fun mcpGatewayDecisionDenialCode :: "mcp_policy_error \<Rightarrow> string" where
  "mcpGatewayDecisionDenialCode (McpServerNotFound _) = ''mcp_gateway_server_not_found''"
| "mcpGatewayDecisionDenialCode (McpServerDisabled _) = ''mcp_gateway_server_disabled''"
| "mcpGatewayDecisionDenialCode (McpToolNotFound _) = ''mcp_gateway_tool_not_found''"
| "mcpGatewayDecisionDenialCode (McpToolDisabled _) = ''mcp_gateway_tool_disabled''"

type_synonym mcp_manifests = "(string, mcp_server_manifest) gomap"

definition resolveMCPGatewayServerManifest :: "mcp_manifests \<Rightarrow> string \<Rightarrow> mcp_policy_error + mcp_server_manifest" where
  "resolveMCPGatewayServerManifest ms serverID = (let t = trim_space serverID in
     case ValidateSafeIdentifier ''mcp gateway server id'' t of
       Some e \<Rightarrow> Inl (McpServerNotFound e)
     | None \<Rightarrow> (case map_of ms t of
         None \<Rightarrow> Inl (McpServerNotFound t)
       | Some sm \<Rightarrow> if sm_Enabled sm then Inr sm else Inl (McpServerDisabled t)))"

definition resolveMCPGatewayToolManifest :: "mcp_manifests \<Rightarrow> string \<Rightarrow> string \<Rightarrow>
    mcp_policy_error + (mcp_server_manifest \<times> mcp_tool_manifest)" where
  "resolveMCPGatewayToolManifest ms serverID toolName = (case resolveMCPGatewayServerManifest ms serverID of
     Inl e \<Rightarrow> Inl e
   | Inr sm \<Rightarrow> (let t = trim_space toolName in
       case ValidateSafeIdentifier ''mcp gateway tool name'' t of
         Some e \<Rightarrow> Inl (McpToolNotFound e)
       | None \<Rightarrow> (case map_of (sm_ToolManifests sm) t of
           None \<Rightarrow> Inl (McpToolNotFound (sm_ServerID sm @ ''/'' @ t))
         | Some tm \<Rightarrow> if \<not> tm_DeclaredByPolicy tm then Inl (McpToolNotFound (sm_ServerID sm @ ''/'' @ t))
             else if \<not> tm_Enabled tm then Inl (McpToolDisabled (sm_ServerID sm @ ''/'' @ t)) else Inr (sm, tm))))"

definition evaluateMCPGatewayInvocationPolicy :: "mcp_manifests \<Rightarrow> string \<Rightarrow> string \<Rightarrow>
    mcp_policy_error + (mcp_server_manifest \<times> mcp_tool_manifest \<times> bool)" where
  "evaluateMCPGatewayInvocationPolicy ms serverID toolName = (case resolveMCPGatewayToolManifest ms serverID toolName of
     Inl e \<Rightarrow> Inl e
   | Inr (sm, tm) \<Rightarrow> Inr (sm, tm, sm_RequiresApproval sm \<or> tm_RequiresApproval tm))"

definition mcpGatewayEffectiveDecision :: "bool \<Rightarrow> bool \<Rightarrow> string" where
  "mcpGatewayEffectiveDecision enabled requiresApproval =
     (if \<not> enabled then ''deny'' else if requiresApproval then ''needs_approval'' else ''allow'')"

definition mcpGatewayRawJSONValueKind :: "string \<Rightarrow> string" where
  "mcpGatewayRawJSONValueKind raw = (let v = trim_space raw in
     if v = ''null'' then ''null'' else if v = ''true'' \<or> v = ''false'' then ''boolean''
     else if has_prefix v [CHR 0x22] then ''string'' else if has_prefix v [CHR 0x7B] then ''object''
     else if has_prefix v [CHR 0x5B] then ''array'' else ''number'')"

text \<open>The loop over the declared kinds.\<close>

fun check_value_kinds :: "(string \<Rightarrow> string) \<Rightarrow> raw_arguments \<Rightarrow> (string, string) gomap \<Rightarrow> string option" where
  "check_value_kinds q args [] = None"
| "check_value_kinds q args ((name, expected) # rest) = (case map_of args name of
     None \<Rightarrow> check_value_kinds q args rest
   | Some raw \<Rightarrow> if mcpGatewayRawJSONValueKind raw \<noteq> expected
       then Some (''argument '' @ go_quote q name @ '' must be '' @ expected @ '', got '' @ mcpGatewayRawJSONValueKind raw)
       else check_value_kinds q args rest)"

definition validateMCPGatewayToolArguments :: "(string \<Rightarrow> string) \<Rightarrow> mcp_tool_manifest \<Rightarrow> validated_invocation \<Rightarrow>
    string option" where
  "validateMCPGatewayToolArguments q tm r =
    (case find (\<lambda>a. a \<notin> set (vi_Keys r)) (tm_RequiredArguments tm) of
       Some a \<Rightarrow> Some (''required argument '' @ go_quote q a @ '' is missing'')
     | None \<Rightarrow> (case (if tm_AllowedArguments tm = [] then None
           else find (\<lambda>a. a \<notin> set (tm_AllowedArguments tm)) (vi_Keys r)) of
         Some a \<Rightarrow> Some (''argument '' @ go_quote q a @ '' is not allowed by MCP gateway tool policy'')
       | None \<Rightarrow> (case find (\<lambda>a. a \<in> set (tm_DeniedArguments tm)) (vi_Keys r) of
           Some a \<Rightarrow> Some (''argument '' @ go_quote q a @ '' is denied by MCP gateway tool policy'')
         | None \<Rightarrow> check_value_kinds q (vi_Arguments r) (tm_ArgumentValueKinds tm))))"

section \<open>Responses\<close>

record mcp_decision_response =
  dr_ServerID :: string
  dr_ToolName :: string
  dr_Decision :: string
  dr_RequiresApproval :: bool
  dr_DenialCode :: string
  dr_DenialReason :: string

definition buildMCPGatewayDecisionResponse :: "mcp_manifests \<Rightarrow> string \<Rightarrow> string \<Rightarrow> mcp_decision_response" where
  "buildMCPGatewayDecisionResponse ms serverID toolName = (case evaluateMCPGatewayInvocationPolicy ms serverID toolName of
     Inr (sm, tm, needs) \<Rightarrow> \<lparr>dr_ServerID = sm_ServerID sm, dr_ToolName = tm_ToolName tm,
       dr_Decision = mcpGatewayEffectiveDecision True needs, dr_RequiresApproval = needs, dr_DenialCode = [], dr_DenialReason = []\<rparr>
   | Inl e \<Rightarrow> \<lparr>dr_ServerID = trim_space serverID, dr_ToolName = trim_space toolName, dr_Decision = ''deny'',
       dr_RequiresApproval = False, dr_DenialCode = mcpGatewayDecisionDenialCode e, dr_DenialReason = mcp_error_text e\<rparr>)"

record mcp_validation =
  vr_ServerID :: string
  vr_ToolName :: string
  vr_Decision :: string
  vr_RequiresApproval :: bool
  vr_Count :: int
  vr_Keys :: "string list"
  vr_DenialCode :: string
  vr_DenialReason :: string

definition denied_validation :: "validated_invocation \<Rightarrow> string \<Rightarrow> string \<Rightarrow> mcp_validation" where
  "denied_validation r code reason = \<lparr>vr_ServerID = vi_ServerID r, vr_ToolName = vi_ToolName r, vr_Decision = ''deny'',
     vr_RequiresApproval = False, vr_Count = int (length (vi_Keys r)), vr_Keys = vi_Keys r, vr_DenialCode = code,
     vr_DenialReason = reason\<rparr>"

definition buildMCPGatewayInvocationValidationResponse :: "(string \<Rightarrow> string) \<Rightarrow> mcp_manifests \<Rightarrow> mcp_invocation \<Rightarrow>
    mcp_validation result" where
  "buildMCPGatewayInvocationValidationResponse q ms request = (case ValidateMCPGatewayInvocationRequest q request of
     Inl e \<Rightarrow> Inl e
   | Inr r \<Rightarrow> (case evaluateMCPGatewayInvocationPolicy ms (vi_ServerID r) (vi_ToolName r) of
       Inl e \<Rightarrow> Inr (denied_validation r (mcpGatewayDecisionDenialCode e) (mcp_error_text e))
     | Inr (sm, tm, needs) \<Rightarrow> (case validateMCPGatewayToolArguments q tm r of
         Some e \<Rightarrow> Inr (denied_validation r ''mcp_gateway_arguments_invalid'' e)
       | None \<Rightarrow> Inr \<lparr>vr_ServerID = sm_ServerID sm, vr_ToolName = tm_ToolName tm,
           vr_Decision = mcpGatewayEffectiveDecision True needs, vr_RequiresApproval = needs,
           vr_Count = int (length (vi_Keys r)), vr_Keys = vi_Keys r, vr_DenialCode = [], vr_DenialReason = []\<rparr>)))"

definition buildMCPGatewayInvocationAuditData :: "capability_token \<Rightarrow> mcp_validation \<Rightarrow> gdata" where
  "buildMCPGatewayInvocationAuditData claims v =
     [(''server_id'', GString (trim_space (vr_ServerID v))), (''tool_name'', GString (trim_space (vr_ToolName v))),
      (''validated_argument_keys'', GStrs (vr_Keys v)), (''validated_argument_count'', GInt (vr_Count v)),
      (''decision'', GString (trim_space (vr_Decision v))), (''requires_approval'', GBool (vr_RequiresApproval v)),
      (''actor_label'', GString (ct_ActorLabel claims)), (''client_session_label'', GString (ct_ClientSessionLabel claims)),
      (''control_session_id'', GString (ct_ControlSessionID claims))] @
     (if blank (vr_DenialCode v) then [] else [(''denial_code'', GString (trim_space (vr_DenialCode v)))])"

section \<open>The inventory\<close>

record mcp_tool_view =
  tv_ToolName :: string
  tv_Enabled :: bool
  tv_RequiresApproval :: bool
  tv_EffectiveDecision :: string

record mcp_server_view =
  sv_ServerID :: string
  sv_Enabled :: bool
  sv_RequiresApproval :: bool
  sv_EffectiveDecision :: string
  sv_Transport :: string
  sv_LaunchCommand :: string
  sv_LaunchArgs :: "string list"
  sv_WorkingDirectory :: string
  sv_AllowedEnvironment :: "string list"
  sv_SecretEnvironmentVariables :: "string list"
  sv_Tools :: "mcp_tool_view list"

definition sortedSecretEnvironmentVariableNames :: "(string, secret_ref) gomap \<Rightarrow> string list" where
  "sortedSecretEnvironmentVariableNames m = sort_strings (map fst m)"

definition buildMCPGatewayDeclaredServerView :: "mcp_server_manifest \<Rightarrow> mcp_server_view" where
  "buildMCPGatewayDeclaredServerView sm = \<lparr>sv_ServerID = sm_ServerID sm, sv_Enabled = sm_Enabled sm,
     sv_RequiresApproval = sm_RequiresApproval sm,
     sv_EffectiveDecision = mcpGatewayEffectiveDecision (sm_Enabled sm) (sm_RequiresApproval sm),
     sv_Transport = sm_Transport sm, sv_LaunchCommand = sm_LaunchCommand sm, sv_LaunchArgs = sm_LaunchArgs sm,
     sv_WorkingDirectory = sm_WorkingDirectory sm, sv_AllowedEnvironment = sm_AllowedEnvironment sm,
     sv_SecretEnvironmentVariables = sortedSecretEnvironmentVariableNames (sm_SecretEnvironment sm),
     sv_Tools = map (\<lambda>(_, tm). \<lparr>tv_ToolName = tm_ToolName tm, tv_Enabled = tm_Enabled tm,
         tv_RequiresApproval = tm_RequiresApproval tm,
         tv_EffectiveDecision = mcpGatewayEffectiveDecision (tm_Enabled tm) (sm_RequiresApproval sm \<or> tm_RequiresApproval tm)\<rparr>)
       (sort_keys (sm_ToolManifests sm))\<rparr>"

definition buildMCPGatewayInventoryResponse :: "policy \<Rightarrow> mcp_manifests \<Rightarrow> bool \<times> mcp_server_view list" where
  "buildMCPGatewayInventoryResponse p ms = (MCPGatewayDenyUnknownServers p,
     map (\<lambda>(_, sm). buildMCPGatewayDeclaredServerView sm) (sort_keys ms))"

end
