(* ===== verification/McpApproval.thy ===== *)
theory McpApproval
  imports McpPolicy ApprovalHandlers
begin

text \<open>
  The approvals of the MCP gateway, internal/loopgate/mcp_gateway_approval.go: an invocation that needs
  approval is bound by a manifest to its server, tool and arguments, decided by an operator's nonce and
  manifest, and consumed by at most one execution with the same content.
\<close>

section \<open>The bound content\<close>

text \<open>json.Marshal of the validated request; it compacts each raw argument and fails on one that is not JSON.\<close>

definition marshal_arguments :: "raw_arguments \<Rightarrow> string result" where
  "marshal_arguments args = (if list_all (\<lambda>(_, v). json_valid v) args
     then Inr (json_object (sort_keys (map (\<lambda>(k, v). (k, json_compact v)) args)))
     else Inl ''json: error calling MarshalJSON for type json.RawMessage'')"

definition invocation_text :: "validated_invocation \<Rightarrow> string result" where
  "invocation_text r = bindr (marshal_arguments (vi_Arguments r)) (\<lambda>args. Inr (json_object
     [(''server_id'', json_string (vi_ServerID r)), (''tool_name'', json_string (vi_ToolName r)), (''arguments'', args)]))"

definition mcpGatewayInvocationRequestBodySHA256 :: "validated_invocation \<Rightarrow> string result" where
  "mcpGatewayInvocationRequestBodySHA256 r = (case invocation_text r of
     Inl e \<Rightarrow> Inl (''marshal MCP gateway invocation request: '' @ e) | Inr t \<Rightarrow> Inr (sha256_hex t))"

definition mcpGatewayApprovalSubjectBinding :: "string \<Rightarrow> string \<Rightarrow> string" where
  "mcpGatewayApprovalSubjectBinding serverID toolName =
     ''object-sha256:'' @ sha256_hex (''mcp-server:'' @ serverID @ [CHR 0x0A] @ ''mcp-tool:'' @ toolName)"

definition execution_path :: string where "execution_path = ''/v1/mcp-gateway/invocation/execute''"

definition buildMCPGatewayApprovalManifest :: "validated_invocation \<Rightarrow> gotime \<Rightarrow> (string \<times> string) result" where
  "buildMCPGatewayApprovalManifest r expiresAtUTC = bindr (mcpGatewayInvocationRequestBodySHA256 r) (\<lambda>body.
     Inr (ComputeManifestSHA256 ''mcp_gateway.invoke'' ''mcp_gateway_tool'' (vi_ServerID r @ ''/'' @ vi_ToolName r)
       (mcpGatewayApprovalSubjectBinding (vi_ServerID r) (vi_ToolName r)) ''POST'' execution_path body ScopeSingleUse
       (unix_millis expiresAtUTC), body))"

section \<open>Responses and events\<close>

record mcp_approval_response =
  mr_Validation :: mcp_validation
  mr_ApprovalPrepared :: bool
  mr_ApprovalRequestID :: string
  mr_DecisionNonce :: string
  mr_ManifestSHA256 :: string
  mr_ExpiresAtUTC :: string

definition no_mcp_approval :: mcp_approval where
  "no_mcp_approval = \<lparr>ma_ID = [], ma_ControlSessionID = [], ma_ActorLabel = [], ma_ClientSessionLabel = [], ma_TenantID = [],
     ma_UserID = [], ma_ServerID = [], ma_ToolName = [], ma_ValidatedArgumentKeys = [], ma_CreatedAt = 0, ma_ExpiresAt = 0,
     ma_DecisionNonce = [], ma_DecisionSubmittedAt = 0, ma_ExecutedAt = 0, ma_ApprovalManifestSHA256 = [],
     ma_InvocationBodySHA256 = [], ma_State = []\<rparr>"

definition buildMCPGatewayInvocationApprovalResponse :: "mcp_validation \<Rightarrow> mcp_approval \<Rightarrow> mcp_approval_response" where
  "buildMCPGatewayInvocationApprovalResponse v a = \<lparr>mr_Validation = v, mr_ApprovalPrepared = (\<not> blank (ma_ID a)),
     mr_ApprovalRequestID = ma_ID a, mr_DecisionNonce = ma_DecisionNonce a, mr_ManifestSHA256 = ma_ApprovalManifestSHA256 a,
     mr_ExpiresAtUTC = rfc3339nano (ma_ExpiresAt a)\<rparr>"

definition unprepared :: "mcp_validation \<Rightarrow> mcp_approval_response" where
  "unprepared v = \<lparr>mr_Validation = v, mr_ApprovalPrepared = False, mr_ApprovalRequestID = [], mr_DecisionNonce = [],
     mr_ManifestSHA256 = [], mr_ExpiresAtUTC = []\<rparr>"

definition buildDeniedMCPGatewayInvocationApprovalResponse :: "mcp_validation \<Rightarrow> string \<Rightarrow> string \<Rightarrow> mcp_approval_response" where
  "buildDeniedMCPGatewayInvocationApprovalResponse v code reason = unprepared (v\<lparr>vr_Decision := ''deny'', vr_RequiresApproval := False,
     vr_DenialCode := trim_space code, vr_DenialReason := (if blank reason
       then ''MCP gateway invocation approval could not be prepared'' else trim_space reason)\<rparr>)"

text \<open>The events of creation, grant and denial carry the same fields but the state.\<close>

definition approval_event_data :: "mcp_approval \<Rightarrow> string \<Rightarrow> gdata" where
  "approval_event_data a state =
     [(''approval_request_id'', GString (ma_ID a)), (''approval_class'', GString ''mcp_gateway_invoke''),
      (''approval_state'', GString state), (''control_session_id'', GString (ma_ControlSessionID a)),
      (''actor_label'', GString (ma_ActorLabel a)), (''client_session_label'', GString (ma_ClientSessionLabel a)),
      (''tenant_id'', GString (ma_TenantID a)), (''user_id'', GString (ma_UserID a)),
      (''server_id'', GString (ma_ServerID a)), (''tool_name'', GString (ma_ToolName a)),
      (''validated_argument_keys'', GStrs (ma_ValidatedArgumentKeys a)),
      (''validated_argument_count'', GInt (int (length (ma_ValidatedArgumentKeys a)))),
      (''approval_manifest_sha256'', GString (ma_ApprovalManifestSHA256 a))]"

definition buildMCPGatewayApprovalCreatedAuditData :: "mcp_approval \<Rightarrow> gdata" where
  "buildMCPGatewayApprovalCreatedAuditData a = approval_event_data a StatePending"

definition buildMCPGatewayApprovalGrantedAuditData :: "mcp_approval \<Rightarrow> gdata" where
  "buildMCPGatewayApprovalGrantedAuditData a = approval_event_data a StateGranted"

definition buildMCPGatewayApprovalDeniedAuditData :: "mcp_approval \<Rightarrow> string \<Rightarrow> string \<Rightarrow> gdata" where
  "buildMCPGatewayApprovalDeniedAuditData a code reason = approval_event_data a StateDenied @
     (if blank code then [] else [(''denial_code'', GString code)]) @ (if blank reason then [] else [(''reason'', GString reason)])"

record mcp_decision_reply =
  dp_ApprovalRequestID :: string
  dp_ServerID :: string
  dp_ToolName :: string
  dp_Keys :: "string list"
  dp_Approved :: bool
  dp_ApprovalState :: string

definition buildMCPGatewayApprovalDecisionResponse :: "mcp_approval \<Rightarrow> bool \<Rightarrow> mcp_decision_reply" where
  "buildMCPGatewayApprovalDecisionResponse a approved = \<lparr>dp_ApprovalRequestID = ma_ID a, dp_ServerID = ma_ServerID a,
     dp_ToolName = ma_ToolName a, dp_Keys = ma_ValidatedArgumentKeys a, dp_Approved = approved, dp_ApprovalState = ma_State a\<rparr>"

record mcp_execution_validation =
  xv_ApprovalRequestID :: string
  xv_ApprovalState :: string
  xv_ServerID :: string
  xv_ToolName :: string
  xv_Keys :: "string list"

definition buildMCPGatewayExecutionValidationResponse :: "mcp_approval \<Rightarrow> mcp_execution_validation" where
  "buildMCPGatewayExecutionValidationResponse a = \<lparr>xv_ApprovalRequestID = ma_ID a, xv_ApprovalState = ma_State a,
     xv_ServerID = ma_ServerID a, xv_ToolName = ma_ToolName a, xv_Keys = ma_ValidatedArgumentKeys a\<rparr>"

definition execution_event_data :: "capability_token \<Rightarrow> string \<Rightarrow> string \<Rightarrow> string \<Rightarrow> string \<Rightarrow> string list \<Rightarrow> gdata" where
  "execution_event_data claims approvalID state serverID tool ks =
     [(''approval_request_id'', GString approvalID), (''approval_state'', GString state),
      (''control_session_id'', GString (ct_ControlSessionID claims)), (''actor_label'', GString (ct_ActorLabel claims)),
      (''client_session_label'', GString (ct_ClientSessionLabel claims)), (''tenant_id'', GString (ct_TenantID claims)),
      (''user_id'', GString (ct_UserID claims)), (''server_id'', GString serverID), (''tool_name'', GString tool),
      (''validated_argument_keys'', GStrs ks), (''validated_argument_count'', GInt (int (length ks))),
      (''execution_method'', GString ''POST''), (''execution_path'', GString execution_path)]"

definition buildMCPGatewayExecutionAuditData :: "capability_token \<Rightarrow> mcp_execution_validation \<Rightarrow> gdata" where
  "buildMCPGatewayExecutionAuditData claims v = execution_event_data claims (xv_ApprovalRequestID v) (xv_ApprovalState v)
     (xv_ServerID v) (xv_ToolName v) (xv_Keys v)"

definition buildMCPGatewayExecutionStartedAuditData :: "capability_token \<Rightarrow> mcp_approval \<Rightarrow> int \<Rightarrow> gdata" where
  "buildMCPGatewayExecutionStartedAuditData claims a pid = execution_event_data claims (ma_ID a) (ma_State a)
     (ma_ServerID a) (ma_ToolName a) (ma_ValidatedArgumentKeys a) @ [(''pid'', GInt pid)]"

record remote_error =
  re_Code :: int
  re_Message :: string

definition buildMCPGatewayExecutionCompletedAuditData :: "capability_token \<Rightarrow> mcp_approval \<Rightarrow> int \<Rightarrow> string \<Rightarrow>
    remote_error option \<Rightarrow> gdata" where
  "buildMCPGatewayExecutionCompletedAuditData claims a pid toolResult remote =
     buildMCPGatewayExecutionStartedAuditData claims a pid @
     (if toolResult = [] then [] else [(''tool_result_sha256'', GString (sha256_hex toolResult)),
        (''tool_result_bytes'', GInt (int (length toolResult)))]) @
     (case remote of None \<Rightarrow> [] | Some e \<Rightarrow> [(''remote_error_code'', GInt (re_Code e)), (''remote_error_message'', GString (re_Message e))])"

definition buildMCPGatewayExecutionFailedAuditData :: "capability_token \<Rightarrow> mcp_approval \<Rightarrow> int \<Rightarrow> string \<Rightarrow> gdata" where
  "buildMCPGatewayExecutionFailedAuditData claims a pid code = buildMCPGatewayExecutionStartedAuditData claims a pid @
     (if blank code then [] else [(''denial_code'', GString code)])"

section \<open>Creation\<close>

datatype mcp_approval_error = PreparationNotRequired | StoreSaturated | SessionLimitReached | PreparationFailed string

definition matching_pending :: "capability_token \<Rightarrow> gotime \<Rightarrow> string \<Rightarrow> mcp_approval \<Rightarrow> bool" where
  "matching_pending claims nowUTC body a = (ma_ControlSessionID a = ct_ControlSessionID claims \<and> ma_State a = StatePending \<and>
     nowUTC < ma_ExpiresAt a \<and> ma_InvocationBodySHA256 a = body)"

definition new_mcp_approval :: "capability_token \<Rightarrow> validated_invocation \<Rightarrow> mcp_validation \<Rightarrow> gotime \<Rightarrow> string \<Rightarrow> string \<Rightarrow>
    string \<Rightarrow> string \<Rightarrow> mcp_approval" where
  "new_mcp_approval claims r v nowUTC manifestSHA body approvalID nonce = \<lparr>ma_ID = approvalID,
     ma_ControlSessionID = ct_ControlSessionID claims, ma_ActorLabel = ct_ActorLabel claims,
     ma_ClientSessionLabel = ct_ClientSessionLabel claims, ma_TenantID = ct_TenantID claims, ma_UserID = ct_UserID claims,
     ma_ServerID = vi_ServerID r, ma_ToolName = vi_ToolName r, ma_ValidatedArgumentKeys = vr_Keys v, ma_CreatedAt = nowUTC,
     ma_ExpiresAt = nowUTC + approvalTTL, ma_DecisionNonce = nonce, ma_DecisionSubmittedAt = 0, ma_ExecutedAt = 0,
     ma_ApprovalManifestSHA256 = manifestSHA, ma_InvocationBodySHA256 = body, ma_State = StatePending\<rparr>"

text \<open>The part with the lock held. The loop over the map takes the first match in the table's order.\<close>

definition create_or_reuse_locked :: "('io, 'f) server_env \<Rightarrow> capability_token \<Rightarrow> validated_invocation \<Rightarrow> mcp_validation \<Rightarrow>
    gotime \<Rightarrow> string \<Rightarrow> string \<Rightarrow> ('f, 'w) server \<Rightarrow> (mcp_approval_error + mcp_approval \<times> bool) \<times> ('f, 'w) server" where
  "create_or_reuse_locked env claims r v nowUTC manifestSHA body s0 = (let s = pruneExpiredLocked env s0 in
     case find (matching_pending claims nowUTC body) (mvals (mcpGatewayApprovalRequests s)) of
       Some a \<Rightarrow> (Inr (a, False), s)
     | None \<Rightarrow>
        if int (length (records s) + length (mcpGatewayApprovalRequests s)) \<ge> maxTotalApprovalRecords env then (Inl StoreSaturated, s)
        else if countPendingApprovalsForSessionLocked s (ct_ControlSessionID claims) +
            countPendingMCPGatewayApprovalRequestsForSessionLocked s (ct_ControlSessionID claims) \<ge>
            maxPendingApprovalsPerControlSession env then (Inl SessionLimitReached, s)
        else (case randomHex env 12 s of
            (Inl e, s) \<Rightarrow> (Inl (PreparationFailed (''create MCP gateway approval request id: '' @ e)), s)
          | (Inr approvalID, s) \<Rightarrow> (case randomHex env 16 s of
              (Inl e, s) \<Rightarrow> (Inl (PreparationFailed (''create MCP gateway approval nonce: '' @ e)), s)
            | (Inr nonce, s) \<Rightarrow> (let a = new_mcp_approval claims r v nowUTC manifestSHA body approvalID nonce in
                (Inr (a, True), noteExpiryCandidateLocked env (ma_ExpiresAt a)
                   (s\<lparr>mcpGatewayApprovalRequests := mput approvalID a (mcpGatewayApprovalRequests s)\<rparr>))))))"

definition createOrReuseMCPGatewayApprovalRequest :: "('io, 'f) server_env \<Rightarrow> (string \<Rightarrow> string) \<Rightarrow> capability_token \<Rightarrow>
    mcp_invocation \<Rightarrow> mcp_validation \<Rightarrow> ('f, 'w) server \<Rightarrow>
    ((mcp_approval_error + mcp_approval \<times> bool) \<times> ('f, 'w) server) option" where
  "createOrReuseMCPGatewayApprovalRequest env q claims request v s =
    (if vr_Decision v \<noteq> ''needs_approval'' \<or> \<not> vr_RequiresApproval v then Some (Inl PreparationNotRequired, s)
     else (case ValidateMCPGatewayInvocationRequest q request of
         Inl e \<Rightarrow> Some (Inl (PreparationFailed e), s)
       | Inr r \<Rightarrow> (let (nowUTC, s) = server_now env s in
           case buildMCPGatewayApprovalManifest r (nowUTC + approvalTTL) of
             Inl e \<Rightarrow> Some (Inl (PreparationFailed e), s)
           | Inr (manifestSHA, body) \<Rightarrow>
               with_mu (\<lambda>s. Some (create_or_reuse_locked env claims r v nowUTC manifestSHA body s)) s)))"

definition rollbackMCPGatewayApprovalRequestAfterAuditFailure :: "mcp_approval \<Rightarrow> ('f, 'w) server \<Rightarrow>
    (unit \<times> ('f, 'w) server) option" where
  "rollbackMCPGatewayApprovalRequestAfterAuditFailure a = with_mu (\<lambda>s. Some ((),
     case map_of (mcpGatewayApprovalRequests s) (ma_ID a) of
       None \<Rightarrow> s
     | Some current \<Rightarrow> if ma_State current \<noteq> StatePending \<or> ma_ApprovalManifestSHA256 current \<noteq> ma_ApprovalManifestSHA256 a then s
         else s\<lparr>mcpGatewayApprovalRequests := mdel (ma_ID a) (mcpGatewayApprovalRequests s)\<rparr>))"

section \<open>Decision\<close>

record mcp_decision_request =
  md_ApprovalRequestID :: string
  md_Approved :: bool
  md_DecisionNonce :: string
  md_ManifestSHA256 :: string

definition MCPGatewayApprovalDecisionRequest_Validate :: "mcp_decision_request \<Rightarrow> string option" where
  "MCPGatewayApprovalDecisionRequest_Validate d = (case ValidateSafeIdentifier ''approval request id'' (trim_space (md_ApprovalRequestID d)) of
     Some e \<Rightarrow> Some e
   | None \<Rightarrow> ApprovalDecisionRequest_Validate \<lparr>Approved = md_Approved d, DecisionReason = [], SubmittedNonce = md_DecisionNonce d,
       SubmittedManifest = md_ManifestSHA256 d\<rparr>)"

definition mcp_refused :: "string \<Rightarrow> string \<Rightarrow> string \<Rightarrow> capability_response" where
  "mcp_refused approvalID reason code = about_approval approvalID (denied approvalID reason code)"

definition mcp_audit_unavailable :: "string \<Rightarrow> capability_response" where
  "mcp_audit_unavailable approvalID = about_approval approvalID (auditUnavailableCapabilityResponse approvalID)"

text \<open>An approval past its expiry becomes expired, and is refused either way.\<close>

definition expire_mcp_approval :: "string \<Rightarrow> mcp_approval \<Rightarrow> ('f, 'w) server \<Rightarrow>
    (mcp_approval \<times> capability_response) \<times> ('f, 'w) server" where
  "expire_mcp_approval approvalID a s = (case setMCPGatewayApprovalStateLocked (mcpGatewayApprovalRequests s) approvalID a StateExpired of
     (m, Inl _) \<Rightarrow> ((a, mcp_refused approvalID ''approval request is in an invalid state'' ''approval_state_invalid''),
       s\<lparr>mcpGatewayApprovalRequests := m\<rparr>)
   | (m, Inr a') \<Rightarrow> ((a', mcp_refused approvalID ''approval request expired'' ''approval_denied''),
       s\<lparr>mcpGatewayApprovalRequests := m\<rparr>))"

definition decision_refusal :: "string \<Rightarrow> capability_token \<Rightarrow> mcp_decision_request \<Rightarrow> mcp_approval \<Rightarrow> capability_response option" where
  "decision_refusal approvalID claims d a =
    (if ct_ControlSessionID claims \<noteq> ma_ControlSessionID a
       then Some (mcp_refused approvalID ''approval token does not match approval owner'' ''approval_owner_mismatch'')
     else if ma_State a \<noteq> StatePending then Some (mcp_refused approvalID ''approval request is no longer pending''
       (if ma_State a \<in> set [StateGranted, StateConsumed, StateExecutionFailed] then ''approval_state_conflict'' else ''approval_state_invalid''))
     else if trim_space (md_DecisionNonce d) = []
       then Some (mcp_refused approvalID ''approval decision nonce is required'' ''approval_decision_nonce_missing'')
     else if trim_space (md_DecisionNonce d) \<noteq> ma_DecisionNonce a
       then Some (mcp_refused approvalID ''approval decision nonce is invalid'' ''approval_decision_nonce_invalid'')
     else if md_Approved d \<and> ma_ApprovalManifestSHA256 a \<noteq> [] then
       (if trim_space (md_ManifestSHA256 d) = []
        then Some (mcp_refused approvalID ''approval manifest sha256 is required for this approval'' ''approval_manifest_mismatch'')
        else if trim_space (md_ManifestSHA256 d) \<noteq> ma_ApprovalManifestSHA256 a
        then Some (mcp_refused approvalID ''approval manifest sha256 does not match the pending approval'' ''approval_manifest_mismatch'')
        else None)
     else None)"

definition validatePendingMCPGatewayApprovalDecisionLocked :: "('io, 'f) server_env \<Rightarrow> capability_token \<Rightarrow> mcp_decision_request \<Rightarrow>
    ('f, 'w) server \<Rightarrow> (mcp_approval \<times> capability_response option) \<times> ('f, 'w) server" where
  "validatePendingMCPGatewayApprovalDecisionLocked env claims d s0 = (let s = pruneExpiredLocked env s0;
     approvalID = trim_space (md_ApprovalRequestID d) in
     case map_of (mcpGatewayApprovalRequests s) approvalID of
       None \<Rightarrow> ((no_mcp_approval, Some (mcp_refused approvalID ''approval request not found'' ''approval_request_not_found'')), s)
     | Some a \<Rightarrow> (let (nowUTC, s) = server_now env s in
         if nowUTC > ma_ExpiresAt a then (case expire_mcp_approval approvalID a s of ((a', r), s) \<Rightarrow> ((a', Some r), s))
         else ((a, decision_refusal approvalID claims d a), s)))"

text \<open>The event is appended while mu is held; it carries the tenancy, so recording it does not ask for the lock.\<close>

definition record_decision_locked :: "('io, 'f) server_env \<Rightarrow> bool \<Rightarrow> mcp_approval \<Rightarrow> ('f, 'w) server \<Rightarrow>
    ((mcp_approval \<times> capability_response option) \<times> ('f, 'w) server) option" where
  "record_decision_locked env approved a s = do {
     (e, s) \<leftarrow> (if approved then logEvent env ''approval.granted'' (ma_ControlSessionID a) (buildMCPGatewayApprovalGrantedAuditData a) s
       else logEvent env ''approval.denied'' (ma_ControlSessionID a)
         (buildMCPGatewayApprovalDeniedAuditData a ''approval_denied'' ''approval denied'') s);
     if e \<noteq> None then Some ((a, Some (mcp_audit_unavailable (ma_ID a))), s)
     else (case setMCPGatewayApprovalStateLocked (mcpGatewayApprovalRequests s) (ma_ID a) a
         (if approved then StateGranted else StateDenied) of
         (m, Inl _) \<Rightarrow> Some ((a, Some (mcp_refused (ma_ID a) ''approval request is in an invalid state'' ''approval_state_invalid'')),
           s\<lparr>mcpGatewayApprovalRequests := m\<rparr>)
       | (m, Inr a1) \<Rightarrow> (let (nowUTC, s) = server_now env (s\<lparr>mcpGatewayApprovalRequests := m\<rparr>);
             a2 = a1\<lparr>ma_DecisionSubmittedAt := nowUTC, ma_DecisionNonce := []\<rparr>
           in Some ((a2, None), s\<lparr>mcpGatewayApprovalRequests := mput (ma_ID a2) a2 (mcpGatewayApprovalRequests s)\<rparr>))) }"

definition validateAndRecordMCPGatewayApprovalDecision :: "('io, 'f) server_env \<Rightarrow> capability_token \<Rightarrow> mcp_decision_request \<Rightarrow>
    ('f, 'w) server \<Rightarrow> ((mcp_approval \<times> capability_response option) \<times> ('f, 'w) server) option" where
  "validateAndRecordMCPGatewayApprovalDecision env claims d = with_mu (\<lambda>s.
     case validatePendingMCPGatewayApprovalDecisionLocked env claims d s of
       ((a, Some r), s) \<Rightarrow> Some ((a, Some r), s)
     | ((a, None), s) \<Rightarrow> record_decision_locked env (md_Approved d) a s)"

section \<open>Execution\<close>

record mcp_execution =
  me_ApprovalRequestID :: string
  me_ManifestSHA256 :: string
  me_ServerID :: string
  me_ToolName :: string
  me_Arguments :: "raw_arguments option"

definition invocation_of :: "mcp_execution \<Rightarrow> mcp_invocation" where
  "invocation_of x = \<lparr>mi_ServerID = me_ServerID x, mi_ToolName = me_ToolName x, mi_Arguments = me_Arguments x\<rparr>"

definition MCPGatewayExecutionRequest_Validate :: "(string \<Rightarrow> string) \<Rightarrow> mcp_execution \<Rightarrow> string option" where
  "MCPGatewayExecutionRequest_Validate q x = (case ValidateSafeIdentifier ''approval request id'' (trim_space (me_ApprovalRequestID x)) of
     Some e \<Rightarrow> Some e
   | None \<Rightarrow> if trim_space (me_ManifestSHA256 x) = [] then Some ''approval_manifest_sha256 is required''
       else (case ValidateMCPGatewayInvocationRequest q (invocation_of x) of Inl e \<Rightarrow> Some e | Inr _ \<Rightarrow> None))"

definition execution_refusal :: "string \<Rightarrow> capability_token \<Rightarrow> mcp_execution \<Rightarrow> validated_invocation \<Rightarrow> string \<Rightarrow> mcp_approval \<Rightarrow>
    capability_response option" where
  "execution_refusal approvalID claims x r body a =
    (if ma_ControlSessionID a \<noteq> ct_ControlSessionID claims
       then Some (mcp_refused approvalID ''approval token does not match approval owner'' ''approval_owner_mismatch'')
     else if ma_State a \<noteq> StateGranted then Some (mcp_refused approvalID ''approval request is not ready for execution''
       (if ma_State a \<in> set [StateConsumed, StateExecutionFailed] then ''approval_state_conflict'' else ''approval_state_invalid''))
     else if trim_space (me_ManifestSHA256 x) \<noteq> ma_ApprovalManifestSHA256 a
       then Some (mcp_refused approvalID ''approval manifest sha256 does not match the granted approval'' ''approval_manifest_mismatch'')
     else if ma_ServerID a \<noteq> vi_ServerID r \<or> ma_ToolName a \<noteq> vi_ToolName r
       then Some (mcp_refused approvalID ''execution request does not match the granted approval'' ''approval_manifest_mismatch'')
     else if ma_InvocationBodySHA256 a \<noteq> body
       then Some (mcp_refused approvalID ''execution request body does not match the granted approval'' ''approval_manifest_mismatch'')
     else None)"

text \<open>The checks validation and consumption share: the code has them twice, in the same order.\<close>

definition bound_request :: "(string \<Rightarrow> string) \<Rightarrow> mcp_execution \<Rightarrow> capability_response + validated_invocation \<times> string" where
  "bound_request q x = (let approvalID = trim_space (me_ApprovalRequestID x) in
     case ValidateMCPGatewayInvocationRequest q (invocation_of x) of
       Inl e \<Rightarrow> Inl (mcp_refused approvalID e ''malformed_request'')
     | Inr r \<Rightarrow> (case mcpGatewayInvocationRequestBodySHA256 r of
         Inl _ \<Rightarrow> Inl (about_approval approvalID
           (failed approvalID ''failed to validate MCP gateway execution request'' ''capability_execution_failed''))
       | Inr body \<Rightarrow> Inr (r, body)))"

definition granted_approval_locked :: "('io, 'f) server_env \<Rightarrow> capability_token \<Rightarrow> mcp_execution \<Rightarrow> validated_invocation \<Rightarrow> string \<Rightarrow>
    ('f, 'w) server \<Rightarrow> (capability_response + mcp_approval) \<times> ('f, 'w) server" where
  "granted_approval_locked env claims x r body s0 = (let s = pruneExpiredLocked env s0;
     approvalID = trim_space (me_ApprovalRequestID x) in
     case map_of (mcpGatewayApprovalRequests s) approvalID of
       None \<Rightarrow> (Inl (mcp_refused approvalID ''approval request not found'' ''approval_request_not_found''), s)
     | Some a \<Rightarrow> (let (nowUTC, s) = server_now env s in
         if nowUTC > ma_ExpiresAt a then (case expire_mcp_approval approvalID a s of ((_, resp), s) \<Rightarrow> (Inl resp, s))
         else (case execution_refusal approvalID claims x r body a of Some resp \<Rightarrow> (Inl resp, s) | None \<Rightarrow> (Inr a, s))))"

definition validateMCPGatewayExecutionRequestWithApproval :: "('io, 'f) server_env \<Rightarrow> (string \<Rightarrow> string) \<Rightarrow> capability_token \<Rightarrow>
    mcp_execution \<Rightarrow> ('f, 'w) server \<Rightarrow> ((capability_response + mcp_approval \<times> mcp_execution_validation) \<times> ('f, 'w) server) option" where
  "validateMCPGatewayExecutionRequestWithApproval env q claims x s = (case bound_request q x of
     Inl resp \<Rightarrow> Some (Inl resp, s)
   | Inr (r, body) \<Rightarrow> with_mu (\<lambda>s. case granted_approval_locked env claims x r body s of
         (Inl resp, s) \<Rightarrow> Some (Inl resp, s)
       | (Inr a, s) \<Rightarrow> Some (Inr (a, buildMCPGatewayExecutionValidationResponse a), s)) s)"

definition consumeGrantedMCPGatewayApprovalForExecution :: "('io, 'f) server_env \<Rightarrow> (string \<Rightarrow> string) \<Rightarrow> capability_token \<Rightarrow>
    mcp_execution \<Rightarrow> ('f, 'w) server \<Rightarrow> ((capability_response + mcp_approval) \<times> ('f, 'w) server) option" where
  "consumeGrantedMCPGatewayApprovalForExecution env q claims x s = (case bound_request q x of
     Inl resp \<Rightarrow> Some (Inl resp, s)
   | Inr (r, body) \<Rightarrow> with_mu (\<lambda>s. case granted_approval_locked env claims x r body s of
         (Inl resp, s) \<Rightarrow> Some (Inl resp, s)
       | (Inr a, s) \<Rightarrow> (case setMCPGatewayApprovalStateLocked (mcpGatewayApprovalRequests s) (ma_ID a) a StateConsumed of
           (m, Inl _) \<Rightarrow> Some (Inl (mcp_refused (trim_space (me_ApprovalRequestID x)) ''approval request is in an invalid state''
               ''approval_state_invalid''), s\<lparr>mcpGatewayApprovalRequests := m\<rparr>)
         | (m, Inr a1) \<Rightarrow> (let (nowUTC, s) = server_now env (s\<lparr>mcpGatewayApprovalRequests := m\<rparr>);
               a2 = a1\<lparr>ma_ExecutedAt := nowUTC\<rparr>
             in Some (Inr a2, s\<lparr>mcpGatewayApprovalRequests := mput (ma_ID a2) a2 (mcpGatewayApprovalRequests s)\<rparr>)))) s)"

definition markMCPGatewayApprovalExecutionFailed :: "string \<Rightarrow> string \<Rightarrow> ('f, 'w) server \<Rightarrow> (unit \<times> ('f, 'w) server) option" where
  "markMCPGatewayApprovalExecutionFailed approvalID manifestSHA = with_mu (\<lambda>s. Some ((),
     case map_of (mcpGatewayApprovalRequests s) (trim_space approvalID) of
       None \<Rightarrow> s
     | Some a \<Rightarrow> if ma_ApprovalManifestSHA256 a \<noteq> trim_space manifestSHA \<or> ma_State a \<noteq> StateConsumed then s
         else (case setMCPGatewayApprovalStateLocked (mcpGatewayApprovalRequests s) (ma_ID a) a StateExecutionFailed of
             (m, Inl _) \<Rightarrow> s\<lparr>mcpGatewayApprovalRequests := m\<rparr>
           | (m, Inr a') \<Rightarrow> s\<lparr>mcpGatewayApprovalRequests := mput (ma_ID a') a' m\<rparr>)))"

end
