(* ===== verification/McpRpc.thy ===== *)
theory McpRpc
  imports McpApproval
begin

text \<open>
  JSON-RPC with a launched MCP server, internal/loopgate/mcp_gateway_execution.go: frames of a
  Content-Length header and a body over the child's standard streams, and the round trip that waits for the
  response of its request past at most 64 notifications.
\<close>

section \<open>Frames\<close>

definition mcpGatewayMaxMessageHeaderBytes :: nat where "mcpGatewayMaxMessageHeaderBytes = 8 * 1024"
definition mcpGatewayMaxMessageBodyBytes :: nat where "mcpGatewayMaxMessageBodyBytes = 1024 * 1024"
definition mcpGatewayMaxNotificationFrames :: nat where "mcpGatewayMaxNotificationFrames = 64"

definition crlf :: string where "crlf = [CHR 0x0D, CHR 0x0A]"

definition frame_header :: "string \<Rightarrow> string" where
  "frame_header body = ''Content-Length: '' @ nat_str (length body) @ crlf @ crlf"

definition buildMCPGatewayJSONRPCFrame :: "string \<Rightarrow> string result" where
  "buildMCPGatewayJSONRPCFrame body =
    (if length body > mcpGatewayMaxMessageBodyBytes then Inl ''mcp gateway frame body exceeds maximum size''
     else if length (frame_header body) > mcpGatewayMaxMessageHeaderBytes then Inl ''mcp gateway frame header exceeds maximum size''
     else Inr (frame_header body @ body))"

text \<open>ReadString of a newline: the line with it, and the rest; None at the end of the stream.\<close>

fun read_line :: "string \<Rightarrow> (string \<times> string) option" where
  "read_line [] = None"
| "read_line (c # s) = (if c = CHR 0x0A then Some ([c], s)
     else (case read_line s of None \<Rightarrow> None | Some (l, r) \<Rightarrow> Some (c # l, r)))"

definition trim_line_end :: "string \<Rightarrow> string" where
  "trim_line_end s = rev (dropWhile (\<lambda>c. c \<in> set crlf) (rev s))"

text \<open>strings.Cut at the first colon.\<close>

definition cut_colon :: "string \<Rightarrow> (string \<times> string) option" where
  "cut_colon s = (case dropWhile (\<lambda>c. c \<noteq> CHR '':'') s of [] \<Rightarrow> None
     | _ # after \<Rightarrow> Some (takeWhile (\<lambda>c. c \<noteq> CHR '':'') s, after))"

text \<open>strconv.Atoi: an optional sign and decimal digits, within the range of int64.\<close>

definition atoi :: "string \<Rightarrow> int option" where
  "atoi s = (let neg = has_prefix s ''-''; ds = (if neg \<or> has_prefix s ''+'' then tl s else s) in
     if ds = [] \<or> \<not> list_all is_digit ds then None
     else (let n = (if neg then - int (digits_val ds) else int (digits_val ds)) in
       if - (2 ^ 63) \<le> n \<and> n < 2 ^ 63 then Some n else None))"

text \<open>One header line that is not empty; the content length so far.\<close>

definition header_line :: "string \<Rightarrow> int \<Rightarrow> int result" where
  "header_line line contentLength = (case cut_colon line of
     None \<Rightarrow> Inl ''mcp gateway frame header is malformed''
   | Some (name, v) \<Rightarrow> if \<not> equal_fold_word (trim_space name) ''Content-Length'' then Inr contentLength
       else (case atoi (trim_space v) of
           None \<Rightarrow> Inl ''mcp gateway content-length header is invalid''
         | Some n \<Rightarrow> if n < 0 then Inl ''mcp gateway content-length header is invalid''
             else if n > int mcpGatewayMaxMessageBodyBytes then Inl ''mcp gateway frame body exceeds maximum size''
             else Inr n))"

lemma read_line_length: "read_line s = Some (l, r) \<Longrightarrow> length s = length l + length r \<and> l \<noteq> []"
  by (induction s arbitrary: l) (auto split: if_splits option.splits)

function read_headers :: "string \<Rightarrow> nat \<Rightarrow> int \<Rightarrow> (int \<times> string) result" where
  "read_headers stream headerBytes contentLength = (case read_line stream of
     None \<Rightarrow> Inl ''read mcp gateway frame header: EOF''
   | Some (line, rest) \<Rightarrow> (let headerBytes = headerBytes + length line in
       if headerBytes > mcpGatewayMaxMessageHeaderBytes then Inl ''mcp gateway frame header exceeds maximum size''
       else if trim_line_end line = [] then Inr (contentLength, rest)
       else (case header_line (trim_line_end line) contentLength of
           Inl e \<Rightarrow> Inl e | Inr n \<Rightarrow> read_headers rest headerBytes n)))"
  by pat_completeness auto
termination by (relation "measure (\<lambda>(stream, _). length stream)") (auto dest: read_line_length)

declare read_headers.simps [simp del]

definition readMCPGatewayJSONRPCFrame :: "string \<Rightarrow> (string \<times> string) result" where
  "readMCPGatewayJSONRPCFrame stream = (case read_headers stream 0 (- 1) of
     Inl e \<Rightarrow> Inl e
   | Inr (n, rest) \<Rightarrow> if n < 0 then Inl ''mcp gateway content-length header is missing''
       else if length rest < nat n then Inl ''read mcp gateway frame body: unexpected EOF''
       else Inr (take (nat n) rest, drop (nat n) rest))"

lemma read_headers_shorter: "read_headers stream k n = Inr (m, rest) \<Longrightarrow> length rest < length stream"
proof (induction stream k n rule: read_headers.induct)
  case (1 stream k n)
  obtain line r where l: "read_line stream = Some (line, r)"
    using "1.prems" by (subst (asm) read_headers.simps) (auto split: option.splits)
  note len = read_line_length [OF l]
  show ?case
  proof (cases "trim_line_end line = []")
    case True
    then show ?thesis using "1.prems" l len by (subst (asm) read_headers.simps) (auto simp: Let_def split: if_splits)
  next
    case False
    then obtain n' where "header_line (trim_line_end line) n = Inr n'" "read_headers r (k + length line) n' = Inr (m, rest)"
        "\<not> k + length line > mcpGatewayMaxMessageHeaderBytes"
      using "1.prems" l by (subst (asm) read_headers.simps) (auto simp: Let_def split: if_splits sum.splits)
    then have "length rest < length r" using "1.IH" [OF l refl refl] False by simp
    then show ?thesis using len by simp
  qed
qed

lemma frame_shorter: "readMCPGatewayJSONRPCFrame stream = Inr (body, rest) \<Longrightarrow> length rest < length stream"
  by (auto simp: readMCPGatewayJSONRPCFrame_def dest!: read_headers_shorter split: sum.splits prod.splits if_splits)

section \<open>The round trip\<close>

record rpc_envelope =
  en_JSONRPC :: string
  en_ID :: string        \<comment> \<open>the raw value; empty when the field is absent\<close>
  en_Method :: string
  en_Result :: string
  en_Error :: "remote_error option"

text \<open>json.Unmarshal of a raw value into a string: null leaves it empty.\<close>

definition unmarshal_string :: "string \<Rightarrow> string result" where
  "unmarshal_string raw = (if raw = ''null'' then Inr []
     else if \<not> json_valid raw \<or> \<not> has_prefix raw [CHR 0x22] then Inl ''json: cannot unmarshal into string''
     else (case json_unesc (butlast (tl raw)) of None \<Rightarrow> Inl ''json: invalid string'' | Some s \<Rightarrow> Inr s))"

definition decodeMCPGatewayJSONRPCResponseID :: "string \<Rightarrow> string result" where
  "decodeMCPGatewayJSONRPCResponseID raw = (if raw = [] then Inr []
     else (case unmarshal_string raw of Inl e \<Rightarrow> Inl (''decode mcp gateway response id: '' @ e) | Inr s \<Rightarrow> Inr s))"

text \<open>
  Waiting for the response. \<open>decode\<close> is json.Unmarshal into the envelope; the k-th check of the context
  finds it cancelled with the error \<open>cancelled k\<close>. What the child still has to say is the stream.
\<close>

type_synonym rpc_result = "(string + remote_error) result"

function await_response :: "(string \<Rightarrow> rpc_envelope result) \<Rightarrow> (nat \<Rightarrow> string option) \<Rightarrow> string \<Rightarrow> nat \<Rightarrow> nat \<Rightarrow> string \<Rightarrow>
    rpc_result \<times> nat \<times> string" where
  "await_response decode cancelled requestID k seen stream = (case cancelled k of
     Some e \<Rightarrow> (Inl e, Suc k, stream)
   | None \<Rightarrow> (case readMCPGatewayJSONRPCFrame stream of
       Inl e \<Rightarrow> (Inl e, Suc k, stream)
     | Inr (body, rest) \<Rightarrow> (case decode body of
         Inl e \<Rightarrow> (Inl (''decode mcp gateway response: '' @ e), Suc k, rest)
       | Inr en \<Rightarrow>
          if en_JSONRPC en \<noteq> [] \<and> en_JSONRPC en \<noteq> ''2.0'' then (Inl ''mcp gateway response jsonrpc version is invalid'', Suc k, rest)
          else if \<not> blank (en_Method en) \<and> en_ID en = [] then
            (if Suc seen > mcpGatewayMaxNotificationFrames
             then (Inl ''mcp gateway notification flood exceeded maximum frames per request'', Suc k, rest)
             else await_response decode cancelled requestID (Suc k) (Suc seen) rest)
          else (case decodeMCPGatewayJSONRPCResponseID (en_ID en) of
              Inl e \<Rightarrow> (Inl e, Suc k, rest)
            | Inr responseID \<Rightarrow>
               if responseID \<noteq> requestID then (Inl ''mcp gateway response id does not match request'', Suc k, rest)
               else (case en_Error en of
                   Some e \<Rightarrow> (Inr (Inr e), Suc k, rest)
                 | None \<Rightarrow> (Inr (Inl (en_Result en)), Suc k, rest))))))"
  by pat_completeness auto
termination by (relation "measure (\<lambda>(_, _, _, _, _, stream). length stream)") (auto dest: frame_shorter)

declare await_response.simps [simp del]

text \<open>The request: params is already JSON.\<close>

definition rpc_request :: "string \<Rightarrow> string \<Rightarrow> string \<Rightarrow> string" where
  "rpc_request requestID method params = json_object ([(''jsonrpc'', json_string ''2.0'')] @
     (if requestID = [] then [] else [(''id'', json_string requestID)]) @
     [(''method'', json_string method), (''params'', params)])"

definition initialize_params :: "string \<Rightarrow> string" where
  "initialize_params version = json_object [(''capabilities'', json_object []),
     (''clientInfo'', json_object [(''name'', json_string ''loopgate''), (''version'', json_string version)]),
     (''protocolVersion'', json_string ''2025-03-26'')]"

text \<open>The parameters of tools/call carry the arguments as they were sent.\<close>

definition call_params :: "string \<Rightarrow> raw_arguments option \<Rightarrow> string result" where
  "call_params tool args = bindr (case args of None \<Rightarrow> Inr ''null'' | Some m \<Rightarrow> marshal_arguments m)
     (\<lambda>a. Inr (json_object [(''arguments'', a), (''name'', json_string tool)]))"

end
