(* ===== verification/McpRuntime.thy ===== *)
theory McpRuntime
  imports McpRpc
begin

text \<open>
  The processes of the MCP gateway and calls to them: internal/loopgate/mcp_gateway_runtime.go and
  executeMCPGatewayInvocation of mcp_gateway_execution.go. A launched server is a pointer in Go: here it has
  a handle, and what it will still say on its standard output is part of it. The file system, the
  environment, the secret store, processes and the request's context answer through \<open>mcp_env\<close>.
\<close>

record mcp_process =
  lm_ServerID :: string
  lm_Transport :: string
  lm_LaunchState :: string
  lm_LaunchAttemptID :: string
  lm_PID :: int
  lm_StartedAt :: gotime
  lm_WorkingDirectory :: string
  lm_CommandPath :: string
  lm_CommandArgs :: "string list"
  lm_AllowedEnvironment :: "string list"
  lm_SecretEnvironmentVariables :: "string list"
  lm_StderrPath :: string
  lm_Pipes :: "string option"  \<comment> \<open>None: the pipes are nil\<close>
  lm_Initialized :: bool
  lm_Handle :: nat

text \<open>The server with the table of launched servers; processes started and
  killed are recorded, and every frame written with what the trace of the server was at that moment.\<close>

record ('f, 'w) mcp_server =
  mg_core :: "('f, 'w) server"
  mg_launched :: "(string, mcp_process) gomap"
  mg_started :: "int list"
  mg_killed :: "int list"
  mg_sent :: "(nat \<times> string \<times> action list) list"

record mcp_env =
  gw_repoRoot :: string
  gw_policy :: policy
  gw_manifests :: mcp_manifests
  gw_quote :: "string \<Rightarrow> string"
  gw_lower :: "string \<Rightarrow> string"  \<comment> \<open>strings.ToLower\<close>
  gw_version :: string
  gw_alive :: "nat \<Rightarrow> int \<Rightarrow> bool result"
  gw_look_path :: "nat \<Rightarrow> string \<Rightarrow> string result"
  gw_variable :: "nat \<Rightarrow> string \<Rightarrow> string option"
  gw_secret :: "nat \<Rightarrow> secret_ref \<Rightarrow> string result"
  gw_make_dir :: "nat \<Rightarrow> string option"
  gw_open_stderr :: "nat \<Rightarrow> string option"
  gw_stdout_pipe :: "nat \<Rightarrow> string option"
  gw_stdin_pipe :: "nat \<Rightarrow> string option"
  gw_start :: "nat \<Rightarrow> string \<Rightarrow> string list \<Rightarrow> string \<Rightarrow> string list \<Rightarrow> (int \<times> string) result"
  gw_release :: "nat \<Rightarrow> string option"
  gw_write :: "nat \<Rightarrow> string option"
  gw_cancelled :: "nat \<Rightarrow> string option"
  gw_decode :: "string \<Rightarrow> rpc_envelope result"

definition in_core :: "(('f, 'w) server \<Rightarrow> ('a \<times> ('f, 'w) server) option) \<Rightarrow> ('f, 'w) mcp_server \<Rightarrow>
    ('a \<times> ('f, 'w) mcp_server) option" where
  "in_core f g = (case f (mg_core g) of None \<Rightarrow> None | Some (r, s) \<Rightarrow> Some (r, g\<lparr>mg_core := s\<rparr>))"

text \<open>A section between server.mu.Lock() and Unlock() that works on the table of launched servers.\<close>

definition under_mu :: "(('f, 'w) mcp_server \<Rightarrow> 'a \<times> ('f, 'w) mcp_server) \<Rightarrow> ('f, 'w) mcp_server \<Rightarrow>
    ('a \<times> ('f, 'w) mcp_server) option" where
  "under_mu f g = (if mu_held (mg_core g) then None else Some (f g))"

definition ask :: "(nat \<Rightarrow> 'a) \<Rightarrow> ('f, 'w) mcp_server \<Rightarrow> 'a \<times> ('f, 'w) mcp_server" where
  "ask answer g = (answer (ticks (mg_core g)), g\<lparr>mg_core := (mg_core g)\<lparr>ticks := Suc (ticks (mg_core g))\<rparr>\<rparr>)"

definition killMCPGatewayProcessByPID :: "int \<Rightarrow> ('f, 'w) mcp_server \<Rightarrow> ('f, 'w) mcp_server" where
  "killMCPGatewayProcessByPID pid g = (if pid \<le> 0 then g else g\<lparr>mg_killed := mg_killed g @ [pid]\<rparr>)"

section \<open>Launching\<close>

definition resolveMCPGatewayWorkingDirectory :: "string \<Rightarrow> string \<Rightarrow> string" where
  "resolveMCPGatewayWorkingDirectory repoRoot workingDirectory = (let t = trim_space workingDirectory in
     if t = [] \<or> t = ''.'' then filepath_clean repoRoot
     else if is_abs t then filepath_clean t else filepath_clean (filepath_join [repoRoot, t]))"

text \<open>A server that is launched but whose process is gone leaves the table.\<close>

definition cleanupDeadMCPGatewayServerIfNeeded :: "mcp_env \<Rightarrow> string \<Rightarrow> ('f, 'w) mcp_server \<Rightarrow>
    (unit \<times> ('f, 'w) mcp_server) option" where
  "cleanupDeadMCPGatewayServerIfNeeded me serverID g = do {
     (found, g) \<leftarrow> under_mu (\<lambda>g. (map_of (mg_launched g) serverID, g)) g;
     (case found of
        None \<Rightarrow> Some ((), g)
      | Some p \<Rightarrow> if lm_LaunchState p \<noteq> ''launched'' \<or> lm_PID p \<le> 0 then Some ((), g)
          else (case ask (\<lambda>n. gw_alive me n (lm_PID p)) g of
              (Inl _, g) \<Rightarrow> Some ((), g)
            | (Inr True, g) \<Rightarrow> Some ((), g)
            | (Inr False, g) \<Rightarrow> under_mu (\<lambda>g. case map_of (mg_launched g) serverID of
                  None \<Rightarrow> ((), g)
                | Some current \<Rightarrow> if lm_Handle current \<noteq> lm_Handle p \<or> lm_LaunchState current \<noteq> ''launched'' \<or>
                      lm_PID current \<noteq> lm_PID p then ((), g)
                    else ((), g\<lparr>mg_launched := mdel serverID (mg_launched g)\<rparr>)) g)) }"

fun secret_entries :: "mcp_env \<Rightarrow> (string \<times> secret_ref) list \<Rightarrow> ('f, 'w) mcp_server \<Rightarrow> string list result \<times> ('f, 'w) mcp_server" where
  "secret_entries me [] g = (Inr [], g)"
| "secret_entries me ((name, ref) # rest) g = (case ask (\<lambda>n. gw_secret me n ref) g of
     (Inl e, g) \<Rightarrow> (Inl e, g)
   | (Inr v, g) \<Rightarrow> (case secret_entries me rest g of
       (Inl e, g) \<Rightarrow> (Inl e, g) | (Inr es, g) \<Rightarrow> (Inr ((name @ ''='' @ v) # es), g)))"

definition buildMCPGatewayLaunchEnvironment :: "mcp_env \<Rightarrow> mcp_server_manifest \<Rightarrow> ('f, 'w) mcp_server \<Rightarrow>
    string list result \<times> ('f, 'w) mcp_server" where
  "buildMCPGatewayLaunchEnvironment me sm g = (let
     (vars, g) = ask (\<lambda>n. concat (map (\<lambda>k. case gw_variable me n k of None \<Rightarrow> [] | Some v \<Rightarrow> [k @ ''='' @ v]) (sm_AllowedEnvironment sm))) g
   in case secret_entries me (sort_keys (sm_SecretEnvironment sm)) g of
        (Inl e, g) \<Rightarrow> (Inl e, g) | (Inr es, g) \<Rightarrow> (Inr (vars @ es), g))"

record mcp_launch_response =
  el_ServerID :: string
  el_Transport :: string
  el_LaunchState :: string
  el_PID :: int
  el_Reused :: bool
  el_WorkingDirectory :: string
  el_CommandPath :: string
  el_CommandArgs :: "string list"
  el_AllowedEnvironment :: "string list"
  el_SecretEnvironmentVariables :: "string list"
  el_StderrPath :: string

definition buildMCPGatewayEnsureLaunchResponse :: "mcp_process \<Rightarrow> bool \<Rightarrow> mcp_launch_response" where
  "buildMCPGatewayEnsureLaunchResponse p reused = \<lparr>el_ServerID = lm_ServerID p, el_Transport = lm_Transport p,
     el_LaunchState = lm_LaunchState p, el_PID = lm_PID p, el_Reused = reused, el_WorkingDirectory = lm_WorkingDirectory p,
     el_CommandPath = lm_CommandPath p, el_CommandArgs = lm_CommandArgs p, el_AllowedEnvironment = lm_AllowedEnvironment p,
     el_SecretEnvironmentVariables = lm_SecretEnvironmentVariables p, el_StderrPath = lm_StderrPath p\<rparr>"

text \<open>The fields of the launch and stop events; the launch state has a key of its own in each.\<close>

definition process_event_data :: "string \<Rightarrow> capability_token \<Rightarrow> mcp_process \<Rightarrow> gdata" where
  "process_event_data stateKey claims p =
     [(''control_session_id'', GString (ct_ControlSessionID claims)), (''actor_label'', GString (ct_ActorLabel claims)),
      (''client_session_label'', GString (ct_ClientSessionLabel claims)), (''tenant_id'', GString (ct_TenantID claims)),
      (''user_id'', GString (ct_UserID claims)), (''server_id'', GString (lm_ServerID p)),
      (''transport'', GString (lm_Transport p)), (stateKey, GString (lm_LaunchState p)), (''pid'', GInt (lm_PID p)),
      (''working_directory'', GString (lm_WorkingDirectory p)), (''command_path'', GString (lm_CommandPath p)),
      (''command_args'', GStrs (lm_CommandArgs p)), (''allowed_environment'', GStrs (lm_AllowedEnvironment p)),
      (''secret_environment_names'', GStrs (lm_SecretEnvironmentVariables p)), (''stderr_path'', GString (lm_StderrPath p))]"

definition buildMCPGatewayServerLaunchedAuditData :: "capability_token \<Rightarrow> mcp_process \<Rightarrow> gdata" where
  "buildMCPGatewayServerLaunchedAuditData = process_event_data ''launch_state''"

definition buildMCPGatewayServerStoppedAuditData :: "capability_token \<Rightarrow> mcp_process \<Rightarrow> gdata" where
  "buildMCPGatewayServerStoppedAuditData = process_event_data ''previous_launch_state''"

definition launch_failed :: "string \<Rightarrow> string \<Rightarrow> capability_response" where
  "launch_failed serverID reason = failed serverID reason ''capability_execution_failed''"

definition redacted :: "capability_response \<Rightarrow> capability_response" where
  "redacted r = r\<lparr>Redacted := True\<rparr>"

text \<open>Every failure after the starting record takes that record away again, if it is still this attempt's.\<close>

definition give_up :: "string \<Rightarrow> string \<Rightarrow> capability_response \<Rightarrow> ('f, 'w) mcp_server \<Rightarrow>
    ((capability_response + mcp_launch_response) \<times> ('f, 'w) mcp_server) option" where
  "give_up serverID attempt resp = under_mu (\<lambda>g. (Inl resp, case map_of (mg_launched g) serverID of
     None \<Rightarrow> g
   | Some p \<Rightarrow> if lm_LaunchAttemptID p = attempt \<and> lm_LaunchState p = ''starting''
       then g\<lparr>mg_launched := mdel serverID (mg_launched g)\<rparr> else g))"

definition starting_process :: "mcp_server_manifest \<Rightarrow> string \<Rightarrow> gotime \<Rightarrow> nat \<Rightarrow> mcp_process" where
  "starting_process sm attempt startedAt handle = \<lparr>lm_ServerID = sm_ServerID sm, lm_Transport = sm_Transport sm,
     lm_LaunchState = ''starting'', lm_LaunchAttemptID = attempt, lm_PID = 0, lm_StartedAt = startedAt,
     lm_WorkingDirectory = [], lm_CommandPath = [], lm_CommandArgs = [], lm_AllowedEnvironment = [],
     lm_SecretEnvironmentVariables = [], lm_StderrPath = [], lm_Pipes = None, lm_Initialized = False, lm_Handle = handle\<rparr>"

definition started_process :: "mcp_server_manifest \<Rightarrow> string \<Rightarrow> gotime \<Rightarrow> nat \<Rightarrow> string \<Rightarrow> string \<Rightarrow> string \<Rightarrow> int \<Rightarrow> string \<Rightarrow> mcp_process" where
  "started_process sm attempt startedAt handle dir commandPath stderrPath pid output =
     (starting_process sm attempt startedAt handle)\<lparr>lm_LaunchState := ''launched'', lm_PID := pid, lm_WorkingDirectory := dir,
       lm_CommandPath := commandPath, lm_CommandArgs := sm_LaunchArgs sm, lm_AllowedEnvironment := sm_AllowedEnvironment sm,
       lm_SecretEnvironmentVariables := sortedSecretEnvironmentVariableNames (sm_SecretEnvironment sm),
       lm_StderrPath := stderrPath, lm_Pipes := Some output\<rparr>"

text \<open>From the started process to the table: a process that is not handed over is killed.\<close>

definition hand_over :: "('io, 'f) server_env \<Rightarrow> mcp_env \<Rightarrow> capability_token \<Rightarrow> string \<Rightarrow> mcp_process \<Rightarrow> ('f, 'w) mcp_server \<Rightarrow>
    ((capability_response + mcp_launch_response) \<times> ('f, 'w) mcp_server) option" where
  "hand_over env me claims attempt p g = (let serverID = lm_ServerID p in case ask (gw_release me) g of
     (Some _, g) \<Rightarrow> give_up serverID attempt (launch_failed serverID ''failed to detach MCP gateway process handle'')
       (killMCPGatewayProcessByPID (lm_PID p) g)
   | (None, g) \<Rightarrow> do {
       (e, g) \<leftarrow> in_core (logEvent env ''mcp_gateway.server_launched'' (ct_ControlSessionID claims)
         (buildMCPGatewayServerLaunchedAuditData claims p)) g;
       if e \<noteq> None then give_up serverID attempt (redacted (auditUnavailableCapabilityResponse serverID))
         (killMCPGatewayProcessByPID (lm_PID p) g)
       else under_mu (\<lambda>g. case map_of (mg_launched g) serverID of
           Some current \<Rightarrow> if lm_LaunchAttemptID current = attempt \<and> lm_LaunchState current = ''starting''
             then (Inr (buildMCPGatewayEnsureLaunchResponse p False), g\<lparr>mg_launched := mput serverID p (mg_launched g)\<rparr>)
             else (Inl (launch_failed serverID ''mcp gateway launch state changed unexpectedly''),
               killMCPGatewayProcessByPID (lm_PID p) g)
         | None \<Rightarrow> (Inl (launch_failed serverID ''mcp gateway launch state changed unexpectedly''),
             killMCPGatewayProcessByPID (lm_PID p) g)) g })"

definition start_server :: "('io, 'f) server_env \<Rightarrow> mcp_env \<Rightarrow> capability_token \<Rightarrow> mcp_server_manifest \<Rightarrow> string \<Rightarrow> string \<Rightarrow>
    string \<Rightarrow> string list \<Rightarrow> ('f, 'w) mcp_server \<Rightarrow> ((capability_response + mcp_launch_response) \<times> ('f, 'w) mcp_server) option" where
  "start_server env me claims sm attempt dir commandPath launchEnv g = (let serverID = sm_ServerID sm;
     stop = (\<lambda>reason. give_up serverID attempt (launch_failed serverID reason));
     stderrPath = filepath_join [gw_repoRoot me, ''runtime'', ''logs'', ''mcp_gateway'', serverID @ ''.stderr.log''] in
     case ask (gw_make_dir me) g of
       (Some _, g) \<Rightarrow> stop ''failed to create mcp gateway log directory'' g
     | (None, g) \<Rightarrow> (case ask (gw_open_stderr me) g of
         (Some _, g) \<Rightarrow> stop ''failed to open mcp gateway stderr log'' g
       | (None, g) \<Rightarrow> (case ask (gw_stdout_pipe me) g of
           (Some _, g) \<Rightarrow> stop ''failed to create mcp gateway stdout pipe'' g
         | (None, g) \<Rightarrow> (case ask (gw_stdin_pipe me) g of
             (Some _, g) \<Rightarrow> stop ''failed to create mcp gateway stdin pipe'' g
           | (None, g) \<Rightarrow> (case ask (\<lambda>n. gw_start me n commandPath (commandPath # sm_LaunchArgs sm) dir launchEnv) g of
               (Inl _, g) \<Rightarrow> give_up serverID attempt (redacted (launch_failed serverID ''failed to launch MCP gateway server'')) g
             | (Inr (pid, output), g) \<Rightarrow> (let (startedAt, g) = ask (clock env) (g\<lparr>mg_started := mg_started g @ [pid]\<rparr>) in
                 hand_over env me claims attempt (started_process sm attempt startedAt (ticks (mg_core g)) dir commandPath
                   stderrPath pid output) g))))))"

definition prepare_launch :: "('io, 'f) server_env \<Rightarrow> mcp_env \<Rightarrow> capability_token \<Rightarrow> mcp_server_manifest \<Rightarrow> string \<Rightarrow>
    ('f, 'w) mcp_server \<Rightarrow> ((capability_response + mcp_launch_response) \<times> ('f, 'w) mcp_server) option" where
  "prepare_launch env me claims sm attempt g = (let serverID = sm_ServerID sm; command = trim_space (sm_LaunchCommand sm);
     (commandPath, g) = (if is_abs command then (Inr command, g) else ask (\<lambda>n. gw_look_path me n command) g) in
     case commandPath of
       Inl _ \<Rightarrow> give_up serverID attempt (redacted (launch_failed serverID ''failed to resolve mcp gateway launch command'')) g
     | Inr path \<Rightarrow> (case buildMCPGatewayLaunchEnvironment me sm g of
         (Inl _, g) \<Rightarrow> give_up serverID attempt (redacted (launch_failed serverID ''failed to resolve mcp gateway launch environment'')) g
       | (Inr launchEnv, g) \<Rightarrow> start_server env me claims sm attempt
           (resolveMCPGatewayWorkingDirectory (gw_repoRoot me) (sm_WorkingDirectory sm)) path launchEnv g))"

text \<open>The decision with the lock held: reuse, refuse, or enter the starting record.\<close>

datatype launch_decision = Reuse mcp_process | InProgress | NoAttemptID | Attempt string

definition decide_launch :: "('io, 'f) server_env \<Rightarrow> mcp_server_manifest \<Rightarrow> ('f, 'w) mcp_server \<Rightarrow>
    launch_decision \<times> ('f, 'w) mcp_server" where
  "decide_launch env sm g = (let serverID = sm_ServerID sm;
     launch = (\<lambda>g. case ask (\<lambda>n. random env n 12) g of
         (Inl _, g) \<Rightarrow> (NoAttemptID, g)
       | (Inr attempt, g) \<Rightarrow> (let (startedAt, g) = ask (clock env) g in
           (Attempt attempt, g\<lparr>mg_launched := mput serverID (starting_process sm attempt startedAt (ticks (mg_core g))) (mg_launched g)\<rparr>)))
   in case map_of (mg_launched g) serverID of
        None \<Rightarrow> launch g
      | Some p \<Rightarrow> if lm_LaunchState p = ''launched'' then (Reuse p, g)
          else if lm_LaunchState p = ''starting'' then (InProgress, g) else launch g)"

definition ensureMCPGatewayServerLaunched :: "('io, 'f) server_env \<Rightarrow> mcp_env \<Rightarrow> capability_token \<Rightarrow> string \<Rightarrow>
    ('f, 'w) mcp_server \<Rightarrow> ((capability_response + mcp_launch_response) \<times> ('f, 'w) mcp_server) option" where
  "ensureMCPGatewayServerLaunched env me claims requested g =
    (case resolveMCPGatewayServerManifest (gw_manifests me) requested of
       Inl e \<Rightarrow> Some (Inl (denied (trim_space requested) (mcp_error_text e) (mcpGatewayDecisionDenialCode e)), g)
     | Inr sm \<Rightarrow> (let serverID = sm_ServerID sm in
         if sm_Transport sm \<noteq> ''stdio'' then Some (Inl (denied serverID
           ''only stdio MCP transports are supported in the current broker launch slice'' ''capability_execution_failed''), g)
         else do {
           (_, g) \<leftarrow> cleanupDeadMCPGatewayServerIfNeeded me serverID g;
           (decision, g) \<leftarrow> under_mu (decide_launch env sm) g;
           (case decision of
              Reuse p \<Rightarrow> Some (Inr (buildMCPGatewayEnsureLaunchResponse p True), g)
            | InProgress \<Rightarrow> Some (Inl (launch_failed serverID ''mcp gateway server launch is already in progress''), g)
            | NoAttemptID \<Rightarrow> Some (Inl (launch_failed serverID ''failed to allocate mcp gateway launch attempt id''), g)
            | Attempt attempt \<Rightarrow> prepare_launch env me claims sm attempt g) }))"

section \<open>Stopping and status\<close>

record mcp_stop_response =
  st_ServerID :: string
  st_Transport :: string
  st_Stopped :: bool
  st_PreviousLaunchState :: string
  st_PID :: int

definition buildMCPGatewayStopResponse :: "mcp_process option \<Rightarrow> bool \<Rightarrow> string \<Rightarrow> mcp_stop_response" where
  "buildMCPGatewayStopResponse p stopped serverID = (case p of
     None \<Rightarrow> \<lparr>st_ServerID = trim_space serverID, st_Transport = [], st_Stopped = stopped, st_PreviousLaunchState = [], st_PID = 0\<rparr>
   | Some p \<Rightarrow> \<lparr>st_ServerID = lm_ServerID p, st_Transport = lm_Transport p, st_Stopped = stopped,
       st_PreviousLaunchState = lm_LaunchState p, st_PID = lm_PID p\<rparr>)"

definition stopMCPGatewayServer :: "('io, 'f) server_env \<Rightarrow> mcp_env \<Rightarrow> capability_token \<Rightarrow> string \<Rightarrow> ('f, 'w) mcp_server \<Rightarrow>
    ((capability_response + mcp_stop_response) \<times> ('f, 'w) mcp_server) option" where
  "stopMCPGatewayServer env me claims requested g = (let serverID = trim_space requested in do {
     (_, g) \<leftarrow> cleanupDeadMCPGatewayServerIfNeeded me serverID g;
     (found, g) \<leftarrow> under_mu (\<lambda>g. (map_of (mg_launched g) serverID, g\<lparr>mg_launched := mdel serverID (mg_launched g)\<rparr>)) g;
     (case found of
        None \<Rightarrow> Some (Inr (buildMCPGatewayStopResponse None False serverID), g)
      | Some p \<Rightarrow> do {
          (e, g) \<leftarrow> in_core (logEvent env ''mcp_gateway.server_stopped'' (ct_ControlSessionID claims)
            (buildMCPGatewayServerStoppedAuditData claims p)) (killMCPGatewayProcessByPID (lm_PID p) g);
          Some (if e \<noteq> None then Inl (redacted (auditUnavailableCapabilityResponse (lm_ServerID p)))
            else Inr (buildMCPGatewayStopResponse (Some p) True serverID), g) }) })"

record mcp_runtime_view =
  rv_ServerID :: string
  rv_DeclaredEnabled :: bool
  rv_Transport :: string
  rv_RuntimeState :: string
  rv_PID :: int
  rv_Initialized :: bool
  rv_StartedAtUTC :: string
  rv_WorkingDirectory :: string
  rv_CommandPath :: string
  rv_StderrPath :: string
  rv_LastKnownLaunchID :: string

definition buildMCPGatewayServerRuntimeView :: "mcp_server_manifest \<Rightarrow> mcp_process option \<Rightarrow> mcp_runtime_view" where
  "buildMCPGatewayServerRuntimeView sm p = (case p of
     None \<Rightarrow> \<lparr>rv_ServerID = sm_ServerID sm, rv_DeclaredEnabled = sm_Enabled sm, rv_Transport = sm_Transport sm,
       rv_RuntimeState = ''absent'', rv_PID = 0, rv_Initialized = False, rv_StartedAtUTC = [], rv_WorkingDirectory = [],
       rv_CommandPath = [], rv_StderrPath = [], rv_LastKnownLaunchID = []\<rparr>
   | Some p \<Rightarrow> \<lparr>rv_ServerID = lm_ServerID p, rv_DeclaredEnabled = sm_Enabled sm, rv_Transport = lm_Transport p,
       rv_RuntimeState = lm_LaunchState p, rv_PID = lm_PID p, rv_Initialized = lm_Initialized p,
       rv_StartedAtUTC = (if lm_StartedAt p = 0 then [] else rfc3339nano (lm_StartedAt p)),
       rv_WorkingDirectory = lm_WorkingDirectory p, rv_CommandPath = lm_CommandPath p, rv_StderrPath = lm_StderrPath p,
       rv_LastKnownLaunchID = lm_LaunchAttemptID p\<rparr>)"

fun cleanup_each :: "mcp_env \<Rightarrow> string list \<Rightarrow> ('f, 'w) mcp_server \<Rightarrow> (unit \<times> ('f, 'w) mcp_server) option" where
  "cleanup_each me [] g = Some ((), g)"
| "cleanup_each me (serverID # rest) g = do {
     (_, g) \<leftarrow> cleanupDeadMCPGatewayServerIfNeeded me serverID g;
     cleanup_each me rest g }"

definition buildMCPGatewayServerStatusResponse :: "mcp_env \<Rightarrow> ('f, 'w) mcp_server \<Rightarrow>
    (mcp_runtime_view list \<times> ('f, 'w) mcp_server) option" where
  "buildMCPGatewayServerStatusResponse me g = do {
     (_, g) \<leftarrow> cleanup_each me (sort_strings (map fst (gw_manifests me))) g;
     under_mu (\<lambda>g. (map (\<lambda>(serverID, sm). buildMCPGatewayServerRuntimeView sm (map_of (mg_launched g) serverID))
       (sort_keys (gw_manifests me)), g)) g }"

end
