(* ===== verification/McpExecute.thy ===== *)
theory McpExecute
  imports McpRuntime
begin

text \<open>
  Calls to a launched MCP server: the round trips of mcp_gateway_execution.go and
  executeMCPGatewayInvocation, which consumes a granted approval and dispatches the call. A function that
  works on the launched server takes its current value and gives the new one; \<open>store_process\<close> writes it to
  the table, where the code's pointer is shared. The goroutine that watches for a cancelled context while a
  call is running is not a step of its own: its effect on the call is a read or a write that fails.
\<close>

section \<open>Round trips\<close>

definition store_process :: "mcp_process \<Rightarrow> ('f, 'w) mcp_server \<Rightarrow> ('f, 'w) mcp_server" where
  "store_process p g = g\<lparr>mg_launched := map (\<lambda>(k, q). (k, if lm_Handle q = lm_Handle p then p else q)) (mg_launched g)\<rparr>"

definition writeMCPGatewayJSONRPCFrame :: "mcp_env \<Rightarrow> mcp_process \<Rightarrow> string \<Rightarrow> ('f, 'w) mcp_server \<Rightarrow>
    string option \<times> ('f, 'w) mcp_server" where
  "writeMCPGatewayJSONRPCFrame me p body g =
    (if lm_Pipes p = None then (Some ''mcp gateway stdin is unavailable'', g)
     else if body = [] then (Some ''mcp gateway message body is required'', g)
     else (case buildMCPGatewayJSONRPCFrame body of
         Inl e \<Rightarrow> (Some e, g)
       | Inr frame \<Rightarrow> (case ask (gw_write me) g of
           (Some e, g) \<Rightarrow> (Some (''write mcp gateway frame: '' @ e), g)
         | (None, g) \<Rightarrow> (None, g\<lparr>mg_sent := mg_sent g @ [(lm_Handle p, frame, trace (mg_core g))]\<rparr>))))"

text \<open>The stream of the process is empty when it has no pipes; a request was written then, so it has.\<close>

definition process_output :: "mcp_process \<Rightarrow> string" where
  "process_output p = (case lm_Pipes p of None \<Rightarrow> [] | Some stream \<Rightarrow> stream)"

definition performMCPGatewayJSONRPCRoundTrip :: "('io, 'f) server_env \<Rightarrow> mcp_env \<Rightarrow> mcp_process \<Rightarrow> string \<Rightarrow> string result \<Rightarrow>
    ('f, 'w) mcp_server \<Rightarrow> (rpc_result \<times> mcp_process) \<times> ('f, 'w) mcp_server" where
  "performMCPGatewayJSONRPCRoundTrip env me p method params g = (case ask (gw_cancelled me) g of
     (Some e, g) \<Rightarrow> ((Inl e, p), g)
   | (None, g) \<Rightarrow> (case ask (\<lambda>n. random env n 8) g of
       (Inl e, g) \<Rightarrow> ((Inl (''allocate mcp gateway request id: '' @ e), p), g)
     | (Inr requestID, g) \<Rightarrow> (case params of
         Inl e \<Rightarrow> ((Inl (''marshal mcp gateway request: '' @ e), p), g)
       | Inr ps \<Rightarrow> (case writeMCPGatewayJSONRPCFrame me p (rpc_request requestID method ps) g of
           (Some e, g) \<Rightarrow> ((Inl e, p), g)
         | (None, g) \<Rightarrow> (let
             (answer, k, stream) = await_response (gw_decode me) (gw_cancelled me) requestID (ticks (mg_core g)) 0 (process_output p);
             p = p\<lparr>lm_Pipes := Some stream\<rparr>
           in ((answer, p), store_process p (g\<lparr>mg_core := (mg_core g)\<lparr>ticks := k\<rparr>\<rparr>)))))))"

definition initialized_notification :: string where
  "initialized_notification = rpc_request [] ''notifications/initialized'' (json_object [])"

definition initializeMCPGatewayLaunchedServer :: "('io, 'f) server_env \<Rightarrow> mcp_env \<Rightarrow> mcp_process \<Rightarrow> ('f, 'w) mcp_server \<Rightarrow>
    (string option \<times> mcp_process) \<times> ('f, 'w) mcp_server" where
  "initializeMCPGatewayLaunchedServer env me p g = (if lm_Initialized p then ((None, p), g)
     else (case performMCPGatewayJSONRPCRoundTrip env me p ''initialize'' (Inr (initialize_params (gw_version me))) g of
         ((Inl e, p), g) \<Rightarrow> ((Some e, p), g)
       | ((Inr (Inr remote), p), g) \<Rightarrow> ((Some (''mcp gateway initialize failed: '' @ re_Message remote), p), g)
       | ((Inr (Inl answer), p), g) \<Rightarrow>
           if answer = [] \<or> \<not> json_valid answer then ((Some ''mcp gateway initialize result is invalid'', p), g)
           else (case ask (gw_cancelled me) g of
               (Some e, g) \<Rightarrow> ((Some e, p), g)
             | (None, g) \<Rightarrow> (case writeMCPGatewayJSONRPCFrame me p initialized_notification g of
                 (Some e, g) \<Rightarrow> ((Some e, p), g)
               | (None, g) \<Rightarrow> (let p = p\<lparr>lm_Initialized := True\<rparr> in ((None, p), store_process p g))))))"

section \<open>Execution\<close>

definition resolveMCPGatewayLaunchedServer :: "mcp_env \<Rightarrow> string \<Rightarrow> ('f, 'w) mcp_server \<Rightarrow>
    ((capability_response + mcp_process) \<times> ('f, 'w) mcp_server) option" where
  "resolveMCPGatewayLaunchedServer me serverID g = do {
     (_, g) \<leftarrow> cleanupDeadMCPGatewayServerIfNeeded me serverID g;
     under_mu (\<lambda>g. (case map_of (mg_launched g) (trim_space serverID) of
         None \<Rightarrow> Inl (denied (trim_space serverID) ''mcp gateway server is not launched'' ''mcp_gateway_server_not_launched'')
       | Some p \<Rightarrow> if lm_LaunchState p \<noteq> ''launched'' \<or> lm_PID p \<le> 0
           then Inl (denied (trim_space serverID) ''mcp gateway server is not launched'' ''mcp_gateway_server_not_launched'')
           else Inr p, g)) g }"

definition dropMCPGatewayLaunchedServer :: "string \<Rightarrow> mcp_process \<Rightarrow> ('f, 'w) mcp_server \<Rightarrow> (unit \<times> ('f, 'w) mcp_server) option" where
  "dropMCPGatewayLaunchedServer serverID p g = do {
     (_, g) \<leftarrow> under_mu (\<lambda>g. ((), case map_of (mg_launched g) (trim_space serverID) of
         None \<Rightarrow> g
       | Some current \<Rightarrow> if lm_Handle current = lm_Handle p
           then g\<lparr>mg_launched := mdel (trim_space serverID) (mg_launched g)\<rparr> else g)) g;
     Some ((), killMCPGatewayProcessByPID (lm_PID p) g) }"

record mcp_execution_response =
  xr_ApprovalRequestID :: string
  xr_ApprovalState :: string
  xr_ServerID :: string
  xr_ToolName :: string
  xr_Keys :: "string list"
  xr_ProcessPID :: int
  xr_ToolResult :: string
  xr_ToolResultSHA256 :: string
  xr_RemoteErrorCode :: int
  xr_RemoteErrorMessage :: string

definition buildMCPGatewayExecutionResponse :: "mcp_approval \<Rightarrow> int \<Rightarrow> string \<Rightarrow> remote_error option \<Rightarrow> mcp_execution_response" where
  "buildMCPGatewayExecutionResponse a pid toolResult remote = \<lparr>xr_ApprovalRequestID = ma_ID a, xr_ApprovalState = ma_State a,
     xr_ServerID = ma_ServerID a, xr_ToolName = ma_ToolName a, xr_Keys = ma_ValidatedArgumentKeys a, xr_ProcessPID = pid,
     xr_ToolResult = toolResult, xr_ToolResultSHA256 = (if toolResult = [] then [] else sha256_hex toolResult),
     xr_RemoteErrorCode = (case remote of None \<Rightarrow> 0 | Some e \<Rightarrow> re_Code e),
     xr_RemoteErrorMessage = (case remote of None \<Rightarrow> [] | Some e \<Rightarrow> re_Message e)\<rparr>"

definition execution_failed :: "string \<Rightarrow> string \<Rightarrow> capability_response" where
  "execution_failed approvalID reason = redacted (about_approval approvalID (failed approvalID reason ''capability_execution_failed''))"

text \<open>The three failures after the approval was consumed end the same way; two of them also drop the server.\<close>

definition fail_execution :: "('io, 'f) server_env \<Rightarrow> capability_token \<Rightarrow> mcp_approval \<Rightarrow> mcp_process \<Rightarrow> bool \<Rightarrow> string \<Rightarrow>
    ('f, 'w) mcp_server \<Rightarrow> ((capability_response + mcp_execution_response) \<times> ('f, 'w) mcp_server) option" where
  "fail_execution env claims a p drop_server reason g = do {
     (_, g) \<leftarrow> in_core (markMCPGatewayApprovalExecutionFailed (ma_ID a) (ma_ApprovalManifestSHA256 a)) g;
     (_, g) \<leftarrow> (if drop_server then dropMCPGatewayLaunchedServer (ma_ServerID a) p g else Some ((), g));
     (e, g) \<leftarrow> in_core (logEvent env ''mcp_gateway.execution_failed'' (ct_ControlSessionID claims)
       (buildMCPGatewayExecutionFailedAuditData claims a (lm_PID p) ''capability_execution_failed'')) g;
     Some (Inl (if e \<noteq> None then redacted (mcp_audit_unavailable (ma_ID a)) else execution_failed (ma_ID a) reason), g) }"

text \<open>From the consumed approval on: initialise the server if needed, call the tool, record the result.\<close>

definition dispatch_call :: "('io, 'f) server_env \<Rightarrow> mcp_env \<Rightarrow> capability_token \<Rightarrow> mcp_execution \<Rightarrow> string \<Rightarrow> mcp_approval \<Rightarrow>
    mcp_process \<Rightarrow> ('f, 'w) mcp_server \<Rightarrow> ((capability_response + mcp_execution_response) \<times> ('f, 'w) mcp_server) option" where
  "dispatch_call env me claims x tool a p g = (case initializeMCPGatewayLaunchedServer env me p g of
     ((Some _, p), g) \<Rightarrow> fail_execution env claims a p True ''failed to initialize launched MCP gateway server'' g
   | ((None, p), g) \<Rightarrow> (case performMCPGatewayJSONRPCRoundTrip env me p ''tools/call'' (call_params tool (me_Arguments x)) g of
       ((Inl _, p), g) \<Rightarrow> fail_execution env claims a p True ''failed to execute MCP gateway tool call'' g
     | ((Inr answer, p), g) \<Rightarrow> (let
         toolResult = (case answer of Inl v \<Rightarrow> v | Inr _ \<Rightarrow> []);
         remote = (case answer of Inl _ \<Rightarrow> None | Inr e \<Rightarrow> Some e) in do {
         (e, g) \<leftarrow> in_core (logEvent env ''mcp_gateway.execution_completed'' (ct_ControlSessionID claims)
           (buildMCPGatewayExecutionCompletedAuditData claims a (lm_PID p) toolResult remote)) g;
         Some (if e \<noteq> None then Inl (redacted (mcp_audit_unavailable (ma_ID a)))
           else Inr (buildMCPGatewayExecutionResponse a (lm_PID p) toolResult remote), g) })))"

definition executeMCPGatewayInvocation :: "('io, 'f) server_env \<Rightarrow> mcp_env \<Rightarrow> capability_token \<Rightarrow> mcp_execution \<Rightarrow>
    ('f, 'w) mcp_server \<Rightarrow> ((capability_response + mcp_execution_response) \<times> ('f, 'w) mcp_server) option" where
  "executeMCPGatewayInvocation env me claims x g = do {
     (validated, g) \<leftarrow> in_core (validateMCPGatewayExecutionRequestWithApproval env (gw_quote me) claims x) g;
     (case validated of
        Inl resp \<Rightarrow> Some (Inl resp, g)
      | Inr (a, v) \<Rightarrow> do {
          (resolved, g) \<leftarrow> resolveMCPGatewayLaunchedServer me (xv_ServerID v) g;
          (case resolved of
             Inl resp \<Rightarrow> Some (Inl resp, g)
           | Inr p \<Rightarrow> do {
               (e, g) \<leftarrow> in_core (logEvent env ''mcp_gateway.execution_started'' (ct_ControlSessionID claims)
                 (buildMCPGatewayExecutionStartedAuditData claims a (lm_PID p))) g;
               if e \<noteq> None then Some (Inl (redacted (mcp_audit_unavailable (ma_ID a))), g)
               else do {
                 (consumed, g) \<leftarrow> in_core (consumeGrantedMCPGatewayApprovalForExecution env (gw_quote me) claims x) g;
                 (case consumed of
                    Inl resp \<Rightarrow> Some (Inl resp, g)
                  | Inr a \<Rightarrow> (case ask (gw_cancelled me) g of
                      (Some _, g) \<Rightarrow> fail_execution env claims a p False ''mcp gateway execution context canceled before dispatch'' g
                    | (None, g) \<Rightarrow> dispatch_call env me claims x (xv_ToolName v) a p g)) } }) }) }"

end
