(* ===== verification/McpHandlers.thy ===== *)
theory McpHandlers
  imports McpExecute
begin

text \<open>
  The routes of the MCP gateway, internal/loopgate/server_mcp_gateway_handlers.go. Every route
  authenticates the capability token, checks the control capability it needs, then verifies the signature
  of the request. Decoding the JSON of a body into its Go struct is a parameter.
\<close>

record mcp_codec =
  decode_server_and_tool :: "string \<Rightarrow> (string \<times> string) result"
  decode_server_id :: "string \<Rightarrow> string result"
  decode_invocation :: "string \<Rightarrow> mcp_invocation result"
  decode_mcp_decision :: "string \<Rightarrow> mcp_decision_request result"
  decode_execution :: "string \<Rightarrow> mcp_execution result"

datatype mcp_reply =
    Refused http_reply
  | Inventory "bool \<times> mcp_server_view list"
  | ServerStatus "mcp_runtime_view list"
  | PolicyDecision mcp_decision_response
  | EnsureLaunched mcp_launch_response
  | Stopped mcp_stop_response
  | InvocationChecked mcp_validation
  | ApprovalPrepared mcp_approval_response
  | DecisionRecorded mcp_decision_reply
  | ExecutionChecked mcp_execution_validation
  | Executed mcp_execution_response

section \<open>What the routes share\<close>

definition malformed_body :: "string \<Rightarrow> mcp_reply" where
  "malformed_body e = Refused (JSONReply 400 (redacted (denied [] e ''malformed_request'')))"

definition audit_unavailable_503 :: mcp_reply where
  "audit_unavailable_503 = Refused (JSONReply 503 (redacted (auditUnavailableCapabilityResponse [])))"

definition with_capability :: "('io, 'f) server_env \<Rightarrow> mcp_env \<Rightarrow> string \<Rightarrow> string \<Rightarrow> http_request \<Rightarrow>
    (capability_token \<Rightarrow> ('f, 'w) mcp_server \<Rightarrow> (mcp_reply \<times> ('f, 'w) mcp_server) option) \<Rightarrow>
    ('f, 'w) mcp_server \<Rightarrow> (mcp_reply \<times> ('f, 'w) mcp_server) option" where
  "with_capability env me meth capability request k g =
    (if Method request \<noteq> meth then Some (Refused method_not_allowed, g)
     else do {
       (who, g) \<leftarrow> in_core (authenticate env (gw_lower me) request) g;
       (case who of
          Inl reply \<Rightarrow> Some (Refused reply, g)
        | Inr claims \<Rightarrow> do {
            (refused, g) \<leftarrow> in_core (requireControlCapability env claims capability) g;
            (case refused of Some reply \<Rightarrow> Some (Refused reply, g) | None \<Rightarrow> k claims g) }) })"

definition signed_get :: "('io, 'f) server_env \<Rightarrow> mcp_env \<Rightarrow> http_request \<Rightarrow>
    (('f, 'w) mcp_server \<Rightarrow> (mcp_reply \<times> ('f, 'w) mcp_server) option) \<Rightarrow>
    ('f, 'w) mcp_server \<Rightarrow> (mcp_reply \<times> ('f, 'w) mcp_server) option" where
  "signed_get env me request k = with_capability env me ''GET'' ''diagnostic.read'' request (\<lambda>claims g. do {
     (denial, g) \<leftarrow> in_core (verifySignedRequestWithoutBody env request (ct_ControlSessionID claims)) g;
     (case denial of Some d \<Rightarrow> Some (Refused (signature_refused d), g) | None \<Rightarrow> k g) })"

definition signed_post :: "('io, 'f) server_env \<Rightarrow> mcp_env \<Rightarrow> string \<Rightarrow> (string \<Rightarrow> 'a result) \<Rightarrow> http_request \<Rightarrow>
    (capability_token \<Rightarrow> 'a \<Rightarrow> ('f, 'w) mcp_server \<Rightarrow> (mcp_reply \<times> ('f, 'w) mcp_server) option) \<Rightarrow>
    ('f, 'w) mcp_server \<Rightarrow> (mcp_reply \<times> ('f, 'w) mcp_server) option" where
  "signed_post env me capability decode request k = with_capability env me ''POST'' capability request (\<lambda>claims g. do {
     (body, g) \<leftarrow> in_core (readAndVerifySignedBody env request (ct_ControlSessionID claims)) g;
     (case body of
        Inl d \<Rightarrow> Some (Refused (signature_refused d), g)
      | Inr bytes \<Rightarrow> (case decode bytes of Inl e \<Rightarrow> Some (malformed_body e, g) | Inr r \<Rightarrow> k claims r g)) })"

text \<open>A decoded body that must also pass a Validate method.\<close>

definition and_validate :: "(string \<Rightarrow> 'a result) \<Rightarrow> ('a \<Rightarrow> string option) \<Rightarrow> string \<Rightarrow> 'a result" where
  "and_validate decode validate bytes = bindr (decode bytes) (\<lambda>r. case validate r of Some e \<Rightarrow> Inl e | None \<Rightarrow> Inr r)"

definition valid_server_id :: "string \<Rightarrow> string option" where
  "valid_server_id serverID = ValidateSafeIdentifier ''mcp gateway server id'' (trim_space serverID)"

definition audited_mcp_reply :: "('io, 'f) server_env \<Rightarrow> string \<Rightarrow> capability_token \<Rightarrow> gdata \<Rightarrow> mcp_reply \<Rightarrow> ('f, 'w) mcp_server \<Rightarrow>
    (mcp_reply \<times> ('f, 'w) mcp_server) option" where
  "audited_mcp_reply env event claims d reply g = do {
     (e, g) \<leftarrow> in_core (logEvent env event (ct_ControlSessionID claims) d) g;
     Some (if e \<noteq> None then audit_unavailable_503 else reply, g) }"

section \<open>Inventory, status, policy decision\<close>

definition handleMCPGatewayInventory :: "('io, 'f) server_env \<Rightarrow> mcp_env \<Rightarrow> http_request \<Rightarrow> ('f, 'w) mcp_server \<Rightarrow>
    (mcp_reply \<times> ('f, 'w) mcp_server) option" where
  "handleMCPGatewayInventory env me request = signed_get env me request (\<lambda>g.
     Some (Inventory (buildMCPGatewayInventoryResponse (gw_policy me) (gw_manifests me)), g))"

definition handleMCPGatewayServerStatus :: "('io, 'f) server_env \<Rightarrow> mcp_env \<Rightarrow> http_request \<Rightarrow> ('f, 'w) mcp_server \<Rightarrow>
    (mcp_reply \<times> ('f, 'w) mcp_server) option" where
  "handleMCPGatewayServerStatus env me request = signed_get env me request (\<lambda>g. do {
     (views, g) \<leftarrow> buildMCPGatewayServerStatusResponse me g;
     Some (ServerStatus views, g) })"

definition handleMCPGatewayDecision :: "('io, 'f) server_env \<Rightarrow> mcp_env \<Rightarrow> mcp_codec \<Rightarrow> http_request \<Rightarrow> ('f, 'w) mcp_server \<Rightarrow>
    (mcp_reply \<times> ('f, 'w) mcp_server) option" where
  "handleMCPGatewayDecision env me cd request = signed_post env me ''diagnostic.read''
     (and_validate (decode_server_and_tool cd)
       (\<lambda>(serverID, tool). if blank serverID \<or> blank tool then Some ''server_id and tool_name are required'' else None)) request
     (\<lambda>claims (serverID, tool) g. Some (PolicyDecision (buildMCPGatewayDecisionResponse (gw_manifests me) serverID tool), g))"

section \<open>Launch and stop\<close>

definition reply_or :: "('a \<Rightarrow> mcp_reply) \<Rightarrow> ((capability_response + 'a) \<times> ('f, 'w) mcp_server) option \<Rightarrow>
    (mcp_reply \<times> ('f, 'w) mcp_server) option" where
  "reply_or shape m = do {
     (r, g) \<leftarrow> m;
     Some (case r of Inl d \<Rightarrow> Refused (signature_refused d) | Inr v \<Rightarrow> shape v, g) }"

definition handleMCPGatewayEnsureLaunched :: "('io, 'f) server_env \<Rightarrow> mcp_env \<Rightarrow> mcp_codec \<Rightarrow> http_request \<Rightarrow>
    ('f, 'w) mcp_server \<Rightarrow> (mcp_reply \<times> ('f, 'w) mcp_server) option" where
  "handleMCPGatewayEnsureLaunched env me cd request = signed_post env me ''mcp_gateway.write''
     (and_validate (decode_server_id cd) valid_server_id) request
     (\<lambda>claims serverID g. reply_or EnsureLaunched (ensureMCPGatewayServerLaunched env me claims serverID g))"

definition handleMCPGatewayServerStop :: "('io, 'f) server_env \<Rightarrow> mcp_env \<Rightarrow> mcp_codec \<Rightarrow> http_request \<Rightarrow>
    ('f, 'w) mcp_server \<Rightarrow> (mcp_reply \<times> ('f, 'w) mcp_server) option" where
  "handleMCPGatewayServerStop env me cd request = signed_post env me ''mcp_gateway.write''
     (and_validate (decode_server_id cd) valid_server_id) request
     (\<lambda>claims serverID g. reply_or Stopped (stopMCPGatewayServer env me claims serverID g))"

section \<open>Checking an invocation and asking for its approval\<close>

definition handleMCPGatewayInvocationValidate :: "('io, 'f) server_env \<Rightarrow> mcp_env \<Rightarrow> mcp_codec \<Rightarrow> http_request \<Rightarrow>
    ('f, 'w) mcp_server \<Rightarrow> (mcp_reply \<times> ('f, 'w) mcp_server) option" where
  "handleMCPGatewayInvocationValidate env me cd request = signed_post env me ''diagnostic.read''
     (\<lambda>bytes. bindr (decode_invocation cd bytes) (buildMCPGatewayInvocationValidationResponse (gw_quote me) (gw_manifests me))) request
     (\<lambda>claims v g. audited_mcp_reply env ''mcp_gateway.invocation_checked'' claims
       (buildMCPGatewayInvocationAuditData claims v) (InvocationChecked v) g)"

text \<open>With the invocation validated: prepare the approval when one is needed, and audit what was decided.\<close>

definition request_approval :: "('io, 'f) server_env \<Rightarrow> mcp_env \<Rightarrow> capability_token \<Rightarrow> mcp_invocation \<Rightarrow> mcp_validation \<Rightarrow>
    ('f, 'w) mcp_server \<Rightarrow> (mcp_reply \<times> ('f, 'w) mcp_server) option" where
  "request_approval env me claims invocation v g = (let
     checked = (\<lambda>resp. audited_mcp_reply env ''mcp_gateway.invocation_checked'' claims
       (buildMCPGatewayInvocationAuditData claims (mr_Validation resp)) (ApprovalPrepared resp)) in
     if vr_Decision v \<noteq> ''needs_approval'' \<or> \<not> vr_RequiresApproval v then checked (unprepared v) g
     else do {
       (prepared, g) \<leftarrow> in_core (createOrReuseMCPGatewayApprovalRequest env (gw_quote me) claims invocation v) g;
       (case prepared of
          Inl StoreSaturated \<Rightarrow> checked (buildDeniedMCPGatewayInvocationApprovalResponse v ''control_plane_state_saturated''
            ''control-plane approval store is at capacity'') g
        | Inl SessionLimitReached \<Rightarrow> checked (buildDeniedMCPGatewayInvocationApprovalResponse v ''mcp_gateway_approval_limit_reached''
            ''pending approval limit reached for control session'') g
        | Inl _ \<Rightarrow> Some (Refused (JSONReply 500 (redacted (failed [] ''failed to prepare MCP gateway approval''
            ''capability_execution_failed''))), g)
        | Inr (a, created) \<Rightarrow> (let reply = ApprovalPrepared (buildMCPGatewayInvocationApprovalResponse v a) in
            if \<not> created then Some (reply, g)
            else do {
              (e, g) \<leftarrow> in_core (logEvent env ''approval.created'' (ct_ControlSessionID claims)
                (buildMCPGatewayApprovalCreatedAuditData a)) g;
              if e = None then Some (reply, g)
              else do {
                (_, g) \<leftarrow> in_core (rollbackMCPGatewayApprovalRequestAfterAuditFailure a) g;
                Some (audit_unavailable_503, g) } })) })"

definition handleMCPGatewayInvocationRequestApproval :: "('io, 'f) server_env \<Rightarrow> mcp_env \<Rightarrow> mcp_codec \<Rightarrow> http_request \<Rightarrow>
    ('f, 'w) mcp_server \<Rightarrow> (mcp_reply \<times> ('f, 'w) mcp_server) option" where
  "handleMCPGatewayInvocationRequestApproval env me cd request = signed_post env me ''mcp_gateway.write''
     (\<lambda>bytes. bindr (decode_invocation cd bytes) (\<lambda>r. bindr
       (buildMCPGatewayInvocationValidationResponse (gw_quote me) (gw_manifests me) r) (\<lambda>v. Inr (r, v)))) request
     (\<lambda>claims (r, v) g. request_approval env me claims r v g)"

section \<open>Deciding and executing\<close>

definition decide_mcp_approval :: "('io, 'f) server_env \<Rightarrow> capability_token \<Rightarrow> mcp_decision_request \<Rightarrow> ('f, 'w) mcp_server \<Rightarrow>
    (mcp_reply \<times> ('f, 'w) mcp_server) option" where
  "decide_mcp_approval env claims d g = do {
     ((a, refusal), g) \<leftarrow> in_core (validateAndRecordMCPGatewayApprovalDecision env claims d) g;
     (case refusal of
        None \<Rightarrow> Some (DecisionRecorded (buildMCPGatewayApprovalDecisionResponse a (md_Approved d)), g)
      | Some r \<Rightarrow> (let reply = Refused (JSONReply (approvalDecisionHTTPStatus (DenialCode r)) r) in
          if blank (DenialCode r) \<or> DenialCode r = ''audit_unavailable'' then Some (reply, g)
          else do {
            (e, g) \<leftarrow> in_core (logEvent env ''approval.denied'' (ct_ControlSessionID claims)
              (buildMCPGatewayApprovalDeniedAuditData a (DenialCode r) (DenialReason r))) g;
            Some (if e \<noteq> None then Refused (JSONReply 503 (redacted (mcp_audit_unavailable (trim_space (md_ApprovalRequestID d)))))
              else reply, g) })) }"

definition handleMCPGatewayInvocationDecideApproval :: "('io, 'f) server_env \<Rightarrow> mcp_env \<Rightarrow> mcp_codec \<Rightarrow> http_request \<Rightarrow>
    ('f, 'w) mcp_server \<Rightarrow> (mcp_reply \<times> ('f, 'w) mcp_server) option" where
  "handleMCPGatewayInvocationDecideApproval env me cd request = signed_post env me ''mcp_gateway.write''
     (and_validate (decode_mcp_decision cd) MCPGatewayApprovalDecisionRequest_Validate) request (decide_mcp_approval env)"

definition handleMCPGatewayInvocationValidateExecution :: "('io, 'f) server_env \<Rightarrow> mcp_env \<Rightarrow> mcp_codec \<Rightarrow> http_request \<Rightarrow>
    ('f, 'w) mcp_server \<Rightarrow> (mcp_reply \<times> ('f, 'w) mcp_server) option" where
  "handleMCPGatewayInvocationValidateExecution env me cd request = signed_post env me ''mcp_gateway.write''
     (and_validate (decode_execution cd) (MCPGatewayExecutionRequest_Validate (gw_quote me))) request (\<lambda>claims x g. do {
       (validated, g) \<leftarrow> in_core (validateMCPGatewayExecutionRequestWithApproval env (gw_quote me) claims x) g;
       (case validated of
          Inl r \<Rightarrow> Some (Refused (JSONReply (approvalDecisionHTTPStatus (DenialCode r)) r), g)
        | Inr (_, v) \<Rightarrow> do {
            (e, g) \<leftarrow> in_core (logEvent env ''mcp_gateway.execution_checked'' (ct_ControlSessionID claims)
              (buildMCPGatewayExecutionAuditData claims v)) g;
            Some (if e \<noteq> None then Refused (JSONReply 503 (redacted (mcp_audit_unavailable (xv_ApprovalRequestID v))))
              else ExecutionChecked v, g) }) })"

definition handleMCPGatewayInvocationExecute :: "('io, 'f) server_env \<Rightarrow> mcp_env \<Rightarrow> mcp_codec \<Rightarrow> http_request \<Rightarrow>
    ('f, 'w) mcp_server \<Rightarrow> (mcp_reply \<times> ('f, 'w) mcp_server) option" where
  "handleMCPGatewayInvocationExecute env me cd request = signed_post env me ''mcp_gateway.write''
     (and_validate (decode_execution cd) (MCPGatewayExecutionRequest_Validate (gw_quote me))) request
     (\<lambda>claims x g. reply_or Executed (executeMCPGatewayInvocation env me claims x g))"

end
