(* ===== verification/McpTable.thy ===== *)
theory McpTable
  imports McpHandlers HookProperties
begin

text \<open>
  The approvals of the MCP gateway: the table maps the id of every approval to it, every operation keeps it
  so, a decision takes the owner's session, nonce and manifest, and it always returns.
\<close>

section \<open>The table of approvals\<close>

type_synonym mcp_table = "(string, mcp_approval) gomap"

definition mcp_wf :: "mcp_table \<Rightarrow> bool" where
  "mcp_wf m = (map_wf m \<and> (\<forall>(k, a) \<in> set m. ma_ID a = k))"

lemma mcp_wf_id: "mcp_wf m \<Longrightarrow> map_of m k = Some a \<Longrightarrow> ma_ID a = k"
  by (auto simp: mcp_wf_def dest!: map_of_SomeD)

lemma mcp_wf_put: "mcp_wf m \<Longrightarrow> ma_ID a = k \<Longrightarrow> mcp_wf (mput k a m)"
  by (auto simp: mcp_wf_def set_mput)

lemma mcp_wf_del: "mcp_wf m \<Longrightarrow> mcp_wf (mdel k m)"
  by (auto simp: mcp_wf_def mdel_def map_wf_filter)

lemma mcp_wf_set:
  assumes "mcp_wf m" and "ma_ID a = k" and "setMCPGatewayApprovalStateLocked m k a st = (m', r)"
  shows "mcp_wf m'" and "r = Inr a' \<Longrightarrow> a' = a\<lparr>ma_State := st\<rparr> \<and> m' = mput k a' m"
  using assms by (auto simp: setMCPGatewayApprovalStateLocked_def Let_def split: option.splits intro!: mcp_wf_put)

text \<open>The sweep drops an entry, leaves it, or expires a pending one.\<close>

definition mcp_step :: "mcp_approval option \<Rightarrow> mcp_approval option \<Rightarrow> bool" where
  "mcp_step old new = (new = None \<or> new = old \<or>
     (\<exists>a. old = Some a \<and> ma_State a = StatePending \<and> new = Some (a\<lparr>ma_State := StateExpired\<rparr>)))"

definition mcp_swept :: "mcp_table \<Rightarrow> mcp_table \<Rightarrow> bool" where
  "mcp_swept m m' = (\<forall>k. mcp_step (map_of m k) (map_of m' k))"

lemma mcp_step_sweep: "mcp_step (Some a) (map_option fst (sweep_mcp_approval now a))"
  by (auto simp: mcp_step_def sweep_mcp_approval_def setMCPGatewayApprovalStateLocked_def Let_def pending_expires)

lemma mcp_step_None [simp]: "mcp_step old None" "mcp_step old old"
  by (simp_all add: mcp_step_def)

lemma mcp_swept_sweep: "map_wf m \<Longrightarrow> mcp_swept m (fst (sweep (sweep_mcp_approval now) m e))"
  by (auto simp: mcp_swept_def mget_sweep mcp_step_sweep split: option.split)

lemma mcp_stepD:
  "mcp_step old (Some a) \<Longrightarrow> ma_State a \<noteq> StateExpired \<Longrightarrow> old = Some a"
  "mcp_step (Some a) new \<Longrightarrow> ma_State a \<noteq> StatePending \<Longrightarrow> new = None \<or> new = Some a"
  "mcp_step old (Some a) \<Longrightarrow> \<exists>a0. old = Some a0 \<and> ma_ID a = ma_ID a0"
  by (auto simp: mcp_step_def)

lemma mcp_swept_wf:
  assumes "mcp_wf m" and "map_wf m'" and "mcp_swept m m'"
  shows "mcp_wf m'"
proof -
  have "ma_ID a = k" if "map_of m' k = Some a" for k a
    using mcp_stepD(3) [of "map_of m k" a] assms(3) [unfolded mcp_swept_def, rule_format, of k] that mcp_wf_id [OF assms(1)] by auto
  then show ?thesis using assms(2) by (auto simp: mcp_wf_def mget_in)
qed

lemma prune_mcp_table:
  "mcpGatewayApprovalRequests (pruneExpiredLocked env s) = mcpGatewayApprovalRequests s \<or>
   (\<exists>e now. mcpGatewayApprovalRequests (pruneExpiredLocked env s) =
      fst (sweep (sweep_mcp_approval now) (mcpGatewayApprovalRequests s) e))"
proof (cases "sweep_not_due env (fst (server_now env s)) (snd (server_now env s))")
  case True
  then show ?thesis by (simp add: pruneExpiredLocked_def server_now_def)
next
  case False
  let ?s = "snd (server_now env s)" and ?now = "fst (server_now env s)"
  have "\<exists>e. mcpGatewayApprovalRequests (fst (sweep_tables env ?now ?s)) =
      fst (sweep (sweep_mcp_approval ?now) (mcpGatewayApprovalRequests ?s) e)"
    by (simp add: sweep_tables_def Let_def split: prod.splits) (metis fst_conv)
  moreover have "mcpGatewayApprovalRequests (pruneExpiredLocked env s) =
      mcpGatewayApprovalRequests (fst (sweep_tables env ?now ?s))"
    using False by (simp add: pruneExpiredLocked_def server_now_def split: prod.splits)
  ultimately show ?thesis by (auto simp: server_now_def)
qed

lemma prune_mcp:
  assumes "mcp_wf (mcpGatewayApprovalRequests s)"
  shows "mcp_swept (mcpGatewayApprovalRequests s) (mcpGatewayApprovalRequests (pruneExpiredLocked env s))"
    and "mcp_wf (mcpGatewayApprovalRequests (pruneExpiredLocked env s))"
proof -
  have wf: "map_wf (mcpGatewayApprovalRequests s)" using assms by (simp add: mcp_wf_def)
  show swept: "mcp_swept (mcpGatewayApprovalRequests s) (mcpGatewayApprovalRequests (pruneExpiredLocked env s))"
    using prune_mcp_table [of env s] mcp_swept_sweep [OF wf] by (auto simp: mcp_swept_def)
  have "map_wf (mcpGatewayApprovalRequests (pruneExpiredLocked env s))"
    using prune_mcp_table [of env s] wf by (auto simp: map_wf_sweep)
  then show "mcp_wf (mcpGatewayApprovalRequests (pruneExpiredLocked env s))"
    using mcp_swept_wf [OF assms _ swept] by simp
qed


text \<open>What a step leaves alone besides the table.\<close>

definition mcp_quiet :: "('f, 'w) server \<Rightarrow> ('f, 'w) server \<Rightarrow> bool" where
  "mcp_quiet s s' = (trace s' = trace s \<and> mu_held s' = mu_held s)"

lemma mcp_quiet_refl [simp]: "mcp_quiet s s"
  by (simp add: mcp_quiet_def)

lemma mcp_quiet_prune: "mcp_quiet s (pruneExpiredLocked env s)"
  by (simp add: mcp_quiet_def trace_prune pruneExpiredLocked_def server_now_def sweep_tables_def Let_def split: prod.splits)

text \<open>An approval that passed the locked checks is the one that was stored, and it is bound to the request.\<close>

definition bound_to :: "capability_token \<Rightarrow> mcp_execution \<Rightarrow> validated_invocation \<Rightarrow> string \<Rightarrow> mcp_approval \<Rightarrow> bool" where
  "bound_to claims x r body a = (ma_ControlSessionID a = ct_ControlSessionID claims \<and> ma_State a = StateGranted \<and>
     ma_ApprovalManifestSHA256 a = trim_space (me_ManifestSHA256 x) \<and> ma_ServerID a = vi_ServerID r \<and>
     ma_ToolName a = vi_ToolName r \<and> ma_InvocationBodySHA256 a = body)"

lemma execution_refusal_None: "execution_refusal i claims x r body a = None \<longleftrightarrow> bound_to claims x r body a"
  by (auto simp: execution_refusal_def bound_to_def)

lemma approval_states_distinct [simp]:
  "StateGranted \<noteq> StateExpired" "StateGranted \<noteq> StatePending" "StateConsumed \<noteq> StatePending" "StateConsumed \<noteq> StateGranted"
  "StateExecutionFailed \<noteq> StateGranted" "StateExecutionFailed \<noteq> StatePending" "StatePending \<noteq> StateExpired"
  "StateExecutionFailed \<noteq> StateConsumed" "StateExpired \<noteq> StateGranted" "StatePending \<noteq> StateGranted"
  "StateDenied \<noteq> StateGranted" "StateGranted \<noteq> StateDenied" "StateDenied \<noteq> StatePending" "StatePending \<noteq> StateDenied"
  by (simp_all add: StateGranted_def StateExpired_def StatePending_def StateConsumed_def StateExecutionFailed_def StateDenied_def)

lemma granted_approval_lockedD:
  assumes "granted_approval_locked env claims x r body s = (Inr a, s')"
    and "mcp_wf (mcpGatewayApprovalRequests s)"
  shows "map_of (mcpGatewayApprovalRequests s) (trim_space (me_ApprovalRequestID x)) = Some a"
    and "map_of (mcpGatewayApprovalRequests s') (trim_space (me_ApprovalRequestID x)) = Some a"
    and "bound_to claims x r body a" and "\<exists>n \<ge> ticks s. clock env n \<le> ma_ExpiresAt a"
    and "mcp_wf (mcpGatewayApprovalRequests s')" and "mcp_quiet s s'"
proof -
  define p where "p = pruneExpiredLocked env s"
  let ?i = "trim_space (me_ApprovalRequestID x)"
  have found: "map_of (mcpGatewayApprovalRequests p) ?i = Some a"
    and s': "s' = p\<lparr>ticks := Suc (ticks p)\<rparr>" and now: "\<not> clock env (ticks p) > ma_ExpiresAt a"
    and ok: "execution_refusal ?i claims x r body a = None"
    using assms(1) by (auto simp: granted_approval_locked_def server_now_def Let_def p_def
      split: option.splits if_splits prod.splits)
  show bound: "bound_to claims x r body a" using ok by (simp add: execution_refusal_None)
  have "mcp_step (map_of (mcpGatewayApprovalRequests s) ?i) (Some a)"
    using prune_mcp(1) [OF assms(2), of env] found by (simp add: mcp_swept_def p_def) metis
  then show "map_of (mcpGatewayApprovalRequests s) ?i = Some a"
    using bound by (auto dest!: mcp_stepD(1) simp: bound_to_def)
  show "map_of (mcpGatewayApprovalRequests s') ?i = Some a" using found s' by simp
  have "ticks s \<le> ticks p"
    by (simp add: p_def pruneExpiredLocked_def server_now_def sweep_tables_def Let_def split: prod.splits)
  then show "\<exists>n \<ge> ticks s. clock env n \<le> ma_ExpiresAt a" using now by (auto simp: not_less)
  show "mcp_wf (mcpGatewayApprovalRequests s')" using prune_mcp(2) [OF assms(2)] s' by (simp add: p_def)
  show "mcp_quiet s s'" using mcp_quiet_prune [of s env] s' by (simp add: mcp_quiet_def p_def)
qed

lemma with_muD:
  assumes "with_mu body s = Some (r, s')"
  obtains s1 where "\<not> mu_held s" and "body (s\<lparr>mu_held := True\<rparr>) = Some (r, s1)" and "s' = s1\<lparr>mu_held := False\<rparr>"
  using assms by (auto simp: with_mu_def lock_mu_def unlock_mu_def split: option.splits if_splits prod.splits)

text \<open>Validation of an execution changes nothing but the expiry of entries; consumption spends the approval.\<close>

lemma mcp_validatedD:
  assumes "validateMCPGatewayExecutionRequestWithApproval env q claims x s = Some (Inr (a, v), s')"
    and "mcp_wf (mcpGatewayApprovalRequests s)"
  obtains r body where "bound_request q x = Inr (r, body)" and "bound_to claims x r body a"
    and "map_of (mcpGatewayApprovalRequests s) (trim_space (me_ApprovalRequestID x)) = Some a"
    and "map_of (mcpGatewayApprovalRequests s') (trim_space (me_ApprovalRequestID x)) = Some a"
    and "mcp_wf (mcpGatewayApprovalRequests s')" and "mcp_quiet s s'" and "\<exists>n \<ge> ticks s. clock env n \<le> ma_ExpiresAt a"
    and "v = buildMCPGatewayExecutionValidationResponse a"
proof -
  obtain r body where b: "bound_request q x = Inr (r, body)"
    using assms(1) by (auto simp: validateMCPGatewayExecutionRequestWithApproval_def split: sum.splits)
  have "with_mu (\<lambda>s. case granted_approval_locked env claims x r body s of (Inl resp, s) \<Rightarrow> Some (Inl resp, s)
      | (Inr a, s) \<Rightarrow> Some (Inr (a, buildMCPGatewayExecutionValidationResponse a), s)) s = Some (Inr (a, v), s')"
    using assms(1) b by (simp add: validateMCPGatewayExecutionRequestWithApproval_def)
  then obtain s1 where mu: "\<not> mu_held s" and g: "granted_approval_locked env claims x r body (s\<lparr>mu_held := True\<rparr>) = (Inr a, s1)"
    and v: "v = buildMCPGatewayExecutionValidationResponse a" and s': "s' = s1\<lparr>mu_held := False\<rparr>"
    by (elim with_muD) (auto split: prod.splits sum.splits)
  note D = granted_approval_lockedD [OF g]
  show thesis
    by (rule that [OF b]) (use D assms(2) s' mu v in \<open>auto simp: mcp_quiet_def\<close>)
qed

lemma mcp_consumedD:
  assumes "consumeGrantedMCPGatewayApprovalForExecution env q claims x s = Some (Inr a2, s')"
    and "mcp_wf (mcpGatewayApprovalRequests s)"
  obtains a r body where "bound_request q x = Inr (r, body)" and "bound_to claims x r body a"
    and "map_of (mcpGatewayApprovalRequests s) (trim_space (me_ApprovalRequestID x)) = Some a"
    and "map_of (mcpGatewayApprovalRequests s') (trim_space (me_ApprovalRequestID x)) = Some a2"
    and "ma_ID a2 = trim_space (me_ApprovalRequestID x)" and "ma_State a2 = StateConsumed"
    and "mcp_wf (mcpGatewayApprovalRequests s')" and "mcp_quiet s s'" and "\<exists>n \<ge> ticks s. clock env n \<le> ma_ExpiresAt a"
proof -
  let ?i = "trim_space (me_ApprovalRequestID x)"
  obtain r body where b: "bound_request q x = Inr (r, body)"
    using assms(1) by (auto simp: consumeGrantedMCPGatewayApprovalForExecution_def split: sum.splits)
  from assms(1) b obtain a s1 m a1 where mu: "\<not> mu_held s"
    and g: "granted_approval_locked env claims x r body (s\<lparr>mu_held := True\<rparr>) = (Inr a, s1)"
    and set1: "setMCPGatewayApprovalStateLocked (mcpGatewayApprovalRequests s1) (ma_ID a) a StateConsumed = (m, Inr a1)"
    and a2: "a2 = a1\<lparr>ma_ExecutedAt := clock env (ticks s1)\<rparr>"
    and s': "s' = s1\<lparr>mcpGatewayApprovalRequests := mput (ma_ID a2) a2 m, ticks := Suc (ticks s1), mu_held := False\<rparr>"
    by (auto simp: consumeGrantedMCPGatewayApprovalForExecution_def server_now_def Let_def elim!: with_muD
      split: prod.splits sum.splits)
  have wf: "mcp_wf (mcpGatewayApprovalRequests (s\<lparr>mu_held := True\<rparr>))" using assms(2) by simp
  note D = granted_approval_lockedD [OF g wf]
  have i: "ma_ID a = ?i" using mcp_wf_id [OF D(5) D(2)] .
  note S = mcp_wf_set [OF D(5) i, of StateConsumed]
  have a1: "a1 = a\<lparr>ma_State := StateConsumed\<rparr>" using S(2) set1 i by auto
  have wfm: "mcp_wf m" using S(1) set1 i by auto
  have wf2: "mcp_wf (mcpGatewayApprovalRequests s')" using mcp_wf_put [OF wfm] s' by simp
  show thesis
    by (rule that [OF b D(3) _ _ _ _ wf2]) (use D(1,4,6) a1 a2 s' i mu in \<open>auto simp: mcp_quiet_def\<close>)
qed


lemma logEvent_mcp:
  assumes "logEvent env ev sid d s = Some (e, s')"
  shows "mcpGatewayApprovalRequests s' = mcpGatewayApprovalRequests s" and "mu_held s' = mu_held s"
  using assms by (auto simp: logEvent_def logEventWithHash_def split: option.splits sum.splits prod.splits if_splits)

section \<open>The table stays well formed\<close>

inductive mcp_op :: "('io, 'f) server_env \<Rightarrow> (string \<Rightarrow> string) \<Rightarrow> ('f, 'w) server \<Rightarrow> ('f, 'w) server \<Rightarrow> bool" for env q where
  create: "createOrReuseMCPGatewayApprovalRequest env q claims request v s = Some (r, s') \<Longrightarrow> mcp_op env q s s'"
| rollback: "rollbackMCPGatewayApprovalRequestAfterAuditFailure a s = Some (u, s') \<Longrightarrow> mcp_op env q s s'"
| mcp_decide: "validateAndRecordMCPGatewayApprovalDecision env claims d s = Some (r, s') \<Longrightarrow> mcp_op env q s s'"
| check: "validateMCPGatewayExecutionRequestWithApproval env q claims x s = Some (c, s') \<Longrightarrow> mcp_op env q s s'"
| consume: "consumeGrantedMCPGatewayApprovalForExecution env q claims x s = Some (e, s') \<Longrightarrow> mcp_op env q s s'"
| mark_failed: "markMCPGatewayApprovalExecutionFailed i sha s = Some (u, s') \<Longrightarrow> mcp_op env q s s'"
| mcp_prune: "mcp_op env q s (pruneExpiredLocked env s)"
| mcp_log: "logEvent env ev sid data s = Some (f, s') \<Longrightarrow> mcp_op env q s s'"

abbreviation mcp_ok :: "('f, 'w) server \<Rightarrow> bool" where
  "mcp_ok s \<equiv> mcp_wf (mcpGatewayApprovalRequests s)"

lemma mcp_ok_with_mu:
  assumes "with_mu body s = Some (r, s')" and "mcp_ok s"
    and "\<And>s r s1. mcp_ok s \<Longrightarrow> body s = Some (r, s1) \<Longrightarrow> mcp_ok s1"
  shows "mcp_ok s'"
  using assms(1)
proof (rule with_muD)
  fix s1 assume "body (s\<lparr>mu_held := True\<rparr>) = Some (r, s1)" "s' = s1\<lparr>mu_held := False\<rparr>"
  then show ?thesis using assms(3) [of "s\<lparr>mu_held := True\<rparr>"] assms(2) by simp
qed

lemma mcp_ok_expire:
  assumes "expire_mcp_approval i a s = (res, s')" and "mcp_ok s" and "ma_ID a = i"
  shows "mcp_ok s'"
proof -
  obtain m r where m: "setMCPGatewayApprovalStateLocked (mcpGatewayApprovalRequests s) i a StateExpired = (m, r)" by fastforce
  have "mcp_wf m" by (rule mcp_wf_set(1) [OF assms(2,3) m])
  then show ?thesis using assms(1) m by (cases r) (auto simp: expire_mcp_approval_def)
qed

lemma mcp_ok_granted:
  assumes "granted_approval_locked env claims x r body s = (res, s')" and "mcp_ok s"
  shows "mcp_ok s'" and "res = Inr a \<Longrightarrow> map_of (mcpGatewayApprovalRequests s') (trim_space (me_ApprovalRequestID x)) = Some a"
proof -
  define p where "p = pruneExpiredLocked env s"
  have wf: "mcp_ok p" using prune_mcp(2) [OF assms(2)] by (simp add: p_def)
  show "mcp_ok s'"
  proof (cases "map_of (mcpGatewayApprovalRequests p) (trim_space (me_ApprovalRequestID x))")
    case None
    then show ?thesis using assms(1) wf by (auto simp: granted_approval_locked_def p_def [symmetric])
  next
    case (Some a)
    obtain r1 s1 where x: "expire_mcp_approval (trim_space (me_ApprovalRequestID x)) a (p\<lparr>ticks := Suc (ticks p)\<rparr>) = (r1, s1)"
      by fastforce
    have "mcp_ok s1" using mcp_ok_expire [OF x] wf mcp_wf_id [OF wf Some] by simp
    then have "s' \<in> {s1, p\<lparr>ticks := Suc (ticks p)\<rparr>}" using assms(1) Some x
      by (cases r1; cases "execution_refusal (trim_space (me_ApprovalRequestID x)) claims x r body a")
        (simp_all add: granted_approval_locked_def p_def [symmetric] server_now_def Let_def split: if_splits)
    then show ?thesis using \<open>mcp_ok s1\<close> wf by auto
  qed
  show "res = Inr a \<Longrightarrow> map_of (mcpGatewayApprovalRequests s') (trim_space (me_ApprovalRequestID x)) = Some a"
    using granted_approval_lockedD(2) assms by blast
qed

lemma mcp_ok_create:
  assumes "create_or_reuse_locked env claims r v now sha body s = (res, s')" and "mcp_ok s"
  shows "mcp_ok s'"
proof -
  have note_same: "mcpGatewayApprovalRequests (noteExpiryCandidateLocked env t z) = mcpGatewayApprovalRequests z"
    for t and z :: "('a, 'b) server"
    by (simp add: noteExpiryCandidateLocked_def)
  define p where "p = pruneExpiredLocked env s"
  have wf: "mcp_ok p" using prune_mcp(2) [OF assms(2)] by (simp add: p_def)
  let ?new = "\<lambda>i n. new_mcp_approval claims r v now sha body i n"
  have put: "mcp_wf (mput i (?new i n) (mcpGatewayApprovalRequests p))" for i n
    by (rule mcp_wf_put [OF wf]) (simp add: new_mcp_approval_def)
  note unfolded = assms(1) [unfolded create_or_reuse_locked_def Let_def p_def [symmetric] randomHex_def]
  show ?thesis
  proof (cases "find (matching_pending claims now body) (mvals (mcpGatewayApprovalRequests p))")
    case (Some a)
    then show ?thesis using unfolded wf by simp
  next
    case None
    show ?thesis
    proof (cases "random env (ticks p) 12")
      case (Inl e)
      then show ?thesis using unfolded None wf by (auto split: if_splits)
    next
      case (Inr i)
      then show ?thesis using unfolded None wf put
        by (cases "random env (Suc (ticks p)) 16") (auto simp: note_same split: if_splits)
    qed
  qed
qed


lemma pending_decisionD:
  assumes "validatePendingMCPGatewayApprovalDecisionLocked env claims d s = ((a, res), s')" and "mcp_ok s"
  shows "mcp_ok s'"
    and "res = None \<Longrightarrow> map_of (mcpGatewayApprovalRequests s') (trim_space (md_ApprovalRequestID d)) = Some a \<and>
      map_of (mcpGatewayApprovalRequests s) (trim_space (md_ApprovalRequestID d)) = Some a \<and>
      decision_refusal (trim_space (md_ApprovalRequestID d)) claims d a = None"
    and "res = None \<Longrightarrow> mcp_quiet s s'"
proof -
  define p where "p = pruneExpiredLocked env s"
  let ?i = "trim_space (md_ApprovalRequestID d)"
  have wf: "mcp_ok p" using prune_mcp(2) [OF assms(2)] by (simp add: p_def)
  note unfolded = assms(1) [unfolded validatePendingMCPGatewayApprovalDecisionLocked_def Let_def p_def [symmetric] server_now_def]
  have goal: "mcp_ok s' \<and> (res = None \<longrightarrow> map_of (mcpGatewayApprovalRequests s') ?i = Some a \<and> mcp_quiet s s' \<and>
      map_of (mcpGatewayApprovalRequests s) ?i = Some a \<and> decision_refusal ?i claims d a = None)"
  proof (cases "map_of (mcpGatewayApprovalRequests p) ?i")
    case None
    then show ?thesis using unfolded wf by auto
  next
    case (Some a0)
    show ?thesis
    proof (cases "clock env (ticks p) > ma_ExpiresAt a0")
      case True
      obtain r1 s1 where x: "expire_mcp_approval ?i a0 (p\<lparr>ticks := Suc (ticks p)\<rparr>) = (r1, s1)" by fastforce
      have "mcp_ok s1" using mcp_ok_expire [OF x] wf mcp_wf_id [OF wf Some] by simp
      then show ?thesis using unfolded Some True x by (cases r1) auto
    next
      case False
      then have s': "a = a0" "s' = p\<lparr>ticks := Suc (ticks p)\<rparr>" "res = decision_refusal ?i claims d a0"
        using unfolded Some by auto
      have step: "mcp_step (map_of (mcpGatewayApprovalRequests s) ?i) (Some a0)"
        using prune_mcp(1) [OF assms(2), of env, unfolded mcp_swept_def, rule_format, of ?i] Some by (simp add: p_def)
      have "map_of (mcpGatewayApprovalRequests s) ?i = Some a0" if "res = None"
      proof -
        have "ma_State a0 \<noteq> StateExpired" using that s'(3) by (auto simp: decision_refusal_def split: if_splits)
        with step show ?thesis by (rule mcp_stepD(1))
      qed
      then show ?thesis using s' wf Some mcp_quiet_prune [of s env] by (auto simp: mcp_quiet_def p_def)
    qed
  qed
  show "mcp_ok s'" and "res = None \<Longrightarrow> map_of (mcpGatewayApprovalRequests s') ?i = Some a \<and>
      map_of (mcpGatewayApprovalRequests s) ?i = Some a \<and> decision_refusal ?i claims d a = None"
    and "res = None \<Longrightarrow> mcp_quiet s s'" using goal by blast+
qed

text \<open>Recording a decision: the events name the tenant and the user, so recording them does not ask for the lock.\<close>

lemma tenant_event_returns: "\<not> needs_tenancy d \<Longrightarrow> \<exists>e s'. logEvent env ev sid d s = Some (e, s')"
  by (simp add: logEvent_def logEventWithHash_def split: prod.splits sum.splits)

lemma mcp_event_returns: "\<exists>e s'. logEvent env ev sid (approval_event_data a st @ d) s = Some (e, s')"
  by (rule tenant_event_returns) (simp add: needs_tenancy_def mhas_def approval_event_data_def)

definition decision_event :: "bool \<Rightarrow> mcp_approval \<Rightarrow> action" where
  "decision_event approved a = (if approved
     then Audited ''approval.granted'' (ma_ControlSessionID a) (buildMCPGatewayApprovalGrantedAuditData a)
     else Audited ''approval.denied'' (ma_ControlSessionID a) (buildMCPGatewayApprovalDeniedAuditData a ''approval_denied'' ''approval denied''))"

lemma record_decision_lockedD:
  assumes "record_decision_locked env approved a s = Some ((a', res), s')" and "mcp_ok s"
    and "map_of (mcpGatewayApprovalRequests s) i = Some a"
  shows "mcp_ok s'" and "mu_held s' = mu_held s"
    and "res = None \<Longrightarrow> trace s' = trace s @ [decision_event approved a] \<and>
      map_of (mcpGatewayApprovalRequests s') i = Some a' \<and> ma_State a' = (if approved then StateGranted else StateDenied) \<and>
      ma_DecisionNonce a' = []"
    and "res \<noteq> None \<Longrightarrow> mcpGatewayApprovalRequests s' = mcpGatewayApprovalRequests s"
proof -
  let ?st = "if approved then StateGranted else StateDenied"
  have i: "ma_ID a = i" by (rule mcp_wf_id [OF assms(2,3)])
  obtain e s1 where lg: "(if approved then logEvent env ''approval.granted'' (ma_ControlSessionID a) (buildMCPGatewayApprovalGrantedAuditData a) s
       else logEvent env ''approval.denied'' (ma_ControlSessionID a)
         (buildMCPGatewayApprovalDeniedAuditData a ''approval_denied'' ''approval denied'') s) = Some (e, s1)"
    using assms(1) by (auto simp: record_decision_locked_def bind_eq_Some_conv)
  obtain ev dd where log: "logEvent env ev (ma_ControlSessionID a) dd s = Some (e, s1)"
    and ev: "decision_event approved a = Audited ev (ma_ControlSessionID a) dd"
    using lg by (cases approved) (auto simp: decision_event_def)
  note same = logEvent_mcp [OF log]
  have tr: "e = None \<Longrightarrow> trace s1 = trace s @ [decision_event approved a]"
    using logEvent_acknowledged log ev by simp
  obtain m r where m: "setMCPGatewayApprovalStateLocked (mcpGatewayApprovalRequests s) i a ?st = (m, r)" by fastforce
  note S = mcp_wf_set [OF assms(2) i m]
  have unchanged: "r = Inl x \<Longrightarrow> m = mcpGatewayApprovalRequests s" for x
    using m by (auto simp: setMCPGatewayApprovalStateLocked_def Let_def split: option.splits)
  note unfolded = assms(1) [unfolded record_decision_locked_def lg bind.bind_lunit prod.case same(1) i m]
  have goal: "mcp_ok s' \<and> mu_held s' = mu_held s \<and> (res = None \<longrightarrow> trace s' = trace s @ [decision_event approved a] \<and>
      map_of (mcpGatewayApprovalRequests s') i = Some a' \<and> ma_State a' = ?st \<and> ma_DecisionNonce a' = []) \<and>
      (res \<noteq> None \<longrightarrow> mcpGatewayApprovalRequests s' = mcpGatewayApprovalRequests s)"
  proof (cases "e = None")
    case False
    then show ?thesis using unfolded same assms(2) by auto
  next
    case True
    show ?thesis
    proof (cases r)
      case (Inl x)
      then show ?thesis using unfolded True same unchanged assms(2) by auto
    next
      case (Inr a1)
      have a1: "a1 = a\<lparr>ma_State := ?st\<rparr>" using S(2) [OF Inr] by blast
      moreover have "mcp_wf (mput i b m)" if "ma_ID b = i" for b
        by (rule mcp_wf_put [OF S(1) that])
      ultimately show ?thesis using unfolded True Inr same tr i
        by (auto simp: server_now_def Let_def)
    qed
  qed
  then show "mcp_ok s'" and "mu_held s' = mu_held s"
    and "res = None \<Longrightarrow> trace s' = trace s @ [decision_event approved a] \<and>
      map_of (mcpGatewayApprovalRequests s') i = Some a' \<and> ma_State a' = ?st \<and> ma_DecisionNonce a' = []"
    and "res \<noteq> None \<Longrightarrow> mcpGatewayApprovalRequests s' = mcpGatewayApprovalRequests s" by simp_all
qed


lemma mcp_ok_createOrReuse:
  assumes "createOrReuseMCPGatewayApprovalRequest env q claims request v s = Some (r, s')" and "mcp_ok s"
  shows "mcp_ok s'"
proof -
  have "mcp_ok s2" if "with_mu (\<lambda>s. Some (create_or_reuse_locked env claims z v t sha b s)) (s\<lparr>ticks := k\<rparr>) = Some (r, s2)"
    for z t sha b k s2
    by (rule mcp_ok_with_mu [OF that]) (use assms(2) mcp_ok_create in auto)
  then show ?thesis using assms
    by (auto simp: createOrReuseMCPGatewayApprovalRequest_def server_now_def Let_def split: if_splits sum.splits)
qed

lemma mcp_ok_decided:
  assumes "validateAndRecordMCPGatewayApprovalDecision env claims d s = Some (r, s')" and "mcp_ok s"
  shows "mcp_ok s'"
  using assms(1) [unfolded validateAndRecordMCPGatewayApprovalDecision_def] assms(2)
proof (rule mcp_ok_with_mu, goal_cases)
  case (1 s r s1)
  obtain a res s2 where v: "validatePendingMCPGatewayApprovalDecisionLocked env claims d s = ((a, res), s2)" by (metis prod.exhaust)
  note P = pending_decisionD [OF v 1(1)]
  show ?case
  proof (cases res)
    case None
    then show ?thesis using 1(2) v record_decision_lockedD(1) [of env "md_Approved d" a s2 "fst r" "snd r" s1] P by auto
  qed (use 1(2) v P(1) in auto)
qed

lemma mcp_ok_checked:
  assumes "validateMCPGatewayExecutionRequestWithApproval env q claims x s = Some (r, s')" and "mcp_ok s"
  shows "mcp_ok s'"
proof -
  have "mcp_ok s2" if "with_mu (\<lambda>s. case granted_approval_locked env claims x z b s of (Inl resp, s) \<Rightarrow> Some (Inl resp, s)
      | (Inr a, s) \<Rightarrow> Some (Inr (a, buildMCPGatewayExecutionValidationResponse a), s)) s = Some (r, s2)" for z b s2
    by (rule mcp_ok_with_mu [OF that assms(2)]) (auto dest: mcp_ok_granted(1) split: prod.splits sum.splits)
  then show ?thesis using assms
    by (auto simp: validateMCPGatewayExecutionRequestWithApproval_def split: sum.splits)
qed

lemma mcp_ok_consumed:
  assumes "consumeGrantedMCPGatewayApprovalForExecution env q claims x s = Some (r, s')" and "mcp_ok s"
  shows "mcp_ok s'"
proof (cases "bound_request q x")
  case (Inl resp)
  then show ?thesis using assms by (simp add: consumeGrantedMCPGatewayApprovalForExecution_def)
next
  case (Inr zb)
  obtain z b where zb: "zb = (z, b)" by (cases zb)
  note unfolded = assms(1) [unfolded consumeGrantedMCPGatewayApprovalForExecution_def Inr zb sum.case prod.case]
  show ?thesis
  proof (rule mcp_ok_with_mu [OF unfolded assms(2)], goal_cases)
    case (1 s r s1)
    obtain g s3 where g: "granted_approval_locked env claims x z b s = (g, s3)" by fastforce
    have ok3: "mcp_ok s3" by (rule mcp_ok_granted(1) [OF g 1(1)])
    show ?case
    proof (cases g)
      case (Inr a)
      obtain m w where m: "setMCPGatewayApprovalStateLocked (mcpGatewayApprovalRequests s3) (ma_ID a) a StateConsumed = (m, w)"
        by fastforce
      note S = mcp_wf_set [OF ok3 refl m]
      show ?thesis
      proof (cases w)
        case w: (Inr a1)
        have "mcp_wf (mput (ma_ID a1) (a1\<lparr>ma_ExecutedAt := t\<rparr>) m)" for t by (rule mcp_wf_put [OF S(1)]) simp
        then show ?thesis using 1(2) g Inr m w by (auto simp: server_now_def Let_def)
      qed (use 1(2) g Inr m S(1) in auto)
    qed (use 1(2) g ok3 in auto)
  qed
qed

lemma mcp_ok_marked:
  assumes "markMCPGatewayApprovalExecutionFailed i sha s = Some (u, s')" and "mcp_ok s"
  shows "mcp_ok s'"
  using assms(1) [unfolded markMCPGatewayApprovalExecutionFailed_def] assms(2)
proof (rule mcp_ok_with_mu, goal_cases)
  case (1 s r s1)
  show ?case
  proof (cases "map_of (mcpGatewayApprovalRequests s) (trim_space i)")
    case (Some a)
    obtain m w where m: "setMCPGatewayApprovalStateLocked (mcpGatewayApprovalRequests s) (ma_ID a) a StateExecutionFailed = (m, w)"
      by fastforce
    note S = mcp_wf_set [OF 1(1) refl m]
    show ?thesis using 1 Some m S(1) mcp_wf_put [OF S(1) refl] by (cases w) (auto split: if_splits)
  qed (use 1 in auto)
qed

lemma mcp_ok_op: "mcp_op env q s s' \<Longrightarrow> mcp_ok s \<Longrightarrow> mcp_ok s'"
proof (induction rule: mcp_op.induct)
  case (rollback a s u s')
  then have "with_mu (\<lambda>s. Some ((), case map_of (mcpGatewayApprovalRequests s) (ma_ID a) of
       None \<Rightarrow> s
     | Some current \<Rightarrow> if ma_State current \<noteq> StatePending \<or> ma_ApprovalManifestSHA256 current \<noteq> ma_ApprovalManifestSHA256 a then s
         else s\<lparr>mcpGatewayApprovalRequests := mdel (ma_ID a) (mcpGatewayApprovalRequests s)\<rparr>)) s = Some (u, s')"
    by (simp add: rollbackMCPGatewayApprovalRequestAfterAuditFailure_def)
  then show ?case
    by (rule mcp_ok_with_mu [OF _ rollback.prems]) (auto intro: mcp_wf_del split: option.splits if_splits)
next
  case (mcp_log ev sid data s f s')
  then show ?case using logEvent_mcp(1) by metis
qed (auto intro: mcp_ok_createOrReuse mcp_ok_decided mcp_ok_checked mcp_ok_consumed mcp_ok_marked prune_mcp(2))



section \<open>Decisions\<close>

lemma mcp_decisionD:
  assumes "validateAndRecordMCPGatewayApprovalDecision env claims d s = Some ((a', None), s')" and "mcp_ok s"
  obtains a where "map_of (mcpGatewayApprovalRequests s) (trim_space (md_ApprovalRequestID d)) = Some a"
    and "decision_refusal (trim_space (md_ApprovalRequestID d)) claims d a = None"
    and "map_of (mcpGatewayApprovalRequests s') (trim_space (md_ApprovalRequestID d)) = Some a'"
    and "ma_State a' = (if md_Approved d then StateGranted else StateDenied)" and "ma_DecisionNonce a' = []"
    and "trace s' = trace s @ [decision_event (md_Approved d) a]"
proof (rule with_muD [OF assms(1) [unfolded validateAndRecordMCPGatewayApprovalDecision_def]], goal_cases)
  case (1 s1)
  have ok: "mcp_ok (s\<lparr>mu_held := True\<rparr>)" using assms(2) by simp
  obtain a res s2 where v: "validatePendingMCPGatewayApprovalDecisionLocked env claims d (s\<lparr>mu_held := True\<rparr>) = ((a, res), s2)"
    by (metis prod.exhaust)
  have res: "res = None" using 1(3) v by (cases res) auto
  note P = pending_decisionD [OF v ok]
  have "record_decision_locked env (md_Approved d) a s2 = Some ((a', None), s1)" using 1(3) v res by simp
  note R = record_decision_lockedD [OF this P(1)]
  show thesis
    by (rule that [of a]) (use P(2,3) [OF res] R(3) 1(4) in \<open>auto simp: mcp_quiet_def\<close>)
qed

text \<open>
  C8: deciding an MCP approval takes its secret. A decision that is recorded was made by the control session
  that owns the approval, on an approval that was pending, with the approval's nonce, and, when it approves,
  with the hash of the manifest that is approved; the event of the decision is acknowledged, the approval is
  granted or denied accordingly, and its nonce is gone, so that no second decision can be made with it.
\<close>

theorem mcp_decision_takes_nonce:
  assumes "validateAndRecordMCPGatewayApprovalDecision env claims d s = Some ((a', None), s')"
    and "mcp_wf (mcpGatewayApprovalRequests s)"
  shows "\<exists>a. map_of (mcpGatewayApprovalRequests s) (trim_space (md_ApprovalRequestID d)) = Some a \<and>
    ma_State a = StatePending \<and> ma_ControlSessionID a = ct_ControlSessionID claims \<and>
    ma_DecisionNonce a = trim_space (md_DecisionNonce d) \<and> trim_space (md_DecisionNonce d) \<noteq> [] \<and>
    (\<not> md_Approved d \<or> ma_ApprovalManifestSHA256 a \<in> {[], trim_space (md_ManifestSHA256 d)}) \<and>
    trace s' = trace s @ [decision_event (md_Approved d) a] \<and>
    map_of (mcpGatewayApprovalRequests s') (trim_space (md_ApprovalRequestID d)) = Some a' \<and>
    ma_State a' = (if md_Approved d then StateGranted else StateDenied) \<and> ma_DecisionNonce a' = []"
proof -
  obtain a where a: "map_of (mcpGatewayApprovalRequests s) (trim_space (md_ApprovalRequestID d)) = Some a"
    "decision_refusal (trim_space (md_ApprovalRequestID d)) claims d a = None"
    "map_of (mcpGatewayApprovalRequests s') (trim_space (md_ApprovalRequestID d)) = Some a'"
    "ma_State a' = (if md_Approved d then StateGranted else StateDenied)" "ma_DecisionNonce a' = []"
    "trace s' = trace s @ [decision_event (md_Approved d) a]"
    using mcp_decisionD [OF assms] by metis
  have "ma_State a = StatePending \<and> ma_ControlSessionID a = ct_ControlSessionID claims \<and>
    ma_DecisionNonce a = trim_space (md_DecisionNonce d) \<and> trim_space (md_DecisionNonce d) \<noteq> [] \<and>
    (\<not> md_Approved d \<or> ma_ApprovalManifestSHA256 a \<in> {[], trim_space (md_ManifestSHA256 d)})"
    using a(2) by (simp add: decision_refusal_def split: if_splits)
  then show ?thesis using a by blast
qed

text \<open>
  C9: a decision about an MCP approval always returns and gives the lock back, whatever is stored, asked for
  or answered by the audit log, provided the lock was free. The event is recorded with the lock held, so this
  needs that the event never asks for the lock again.
\<close>

theorem mcp_decision_returns:
  assumes "\<not> mu_held s"
  shows "\<exists>r s'. validateAndRecordMCPGatewayApprovalDecision env claims d s = Some (r, s') \<and> \<not> mu_held s'"
proof -
  obtain a res s2 where v: "validatePendingMCPGatewayApprovalDecisionLocked env claims d (s\<lparr>mu_held := True\<rparr>) = ((a, res), s2)"
    by (metis prod.exhaust)
  have "\<exists>r s3. record_decision_locked env (md_Approved d) a s2 = Some (r, s3)"
  proof -
    have "\<exists>e s1. (if md_Approved d then logEvent env ''approval.granted'' (ma_ControlSessionID a) (buildMCPGatewayApprovalGrantedAuditData a) s2
       else logEvent env ''approval.denied'' (ma_ControlSessionID a)
         (buildMCPGatewayApprovalDeniedAuditData a ''approval_denied'' ''approval denied'') s2) = Some (e, s1)"
      using mcp_event_returns [of env _ _ a StateGranted "[]" s2] mcp_event_returns [of env _ _ a StateDenied _ s2]
      by (auto simp: buildMCPGatewayApprovalGrantedAuditData_def buildMCPGatewayApprovalDeniedAuditData_def)
    then obtain e s1 where lg: "(if md_Approved d then logEvent env ''approval.granted'' (ma_ControlSessionID a) (buildMCPGatewayApprovalGrantedAuditData a) s2
       else logEvent env ''approval.denied'' (ma_ControlSessionID a)
         (buildMCPGatewayApprovalDeniedAuditData a ''approval_denied'' ''approval denied'') s2) = Some (e, s1)" by blast
    show ?thesis unfolding record_decision_locked_def lg
      by (auto simp: server_now_def Let_def split: prod.splits sum.splits)
  qed
  then have "\<exists>r s3. (case res of Some x \<Rightarrow> Some ((a, Some x), s2) | None \<Rightarrow> record_decision_locked env (md_Approved d) a s2) = Some (r, s3)"
    by (cases res) auto
  then show ?thesis using assms v
    by (cases res) (fastforce simp: validateAndRecordMCPGatewayApprovalDecision_def with_mu_def lock_mu_def unlock_mu_def)+
qed


section \<open>Concrete tables\<close>

text \<open>One approval, and a request to execute it; it expires in the far future.\<close>

definition sample_execution :: mcp_execution where
  "sample_execution = \<lparr>me_ApprovalRequestID = ''a1'', me_ManifestSHA256 = ''m'', me_ServerID = ''s'', me_ToolName = ''t'',
     me_Arguments = Some []\<rparr>"

definition sample_request :: validated_invocation where
  "sample_request = \<lparr>vi_ServerID = ''s'', vi_ToolName = ''t'', vi_Arguments = [], vi_Keys = []\<rparr>"

definition sample_body :: string where
  "sample_body = (case mcpGatewayInvocationRequestBodySHA256 sample_request of Inr body \<Rightarrow> body | Inl _ \<Rightarrow> [])"

definition mcp_sample :: "string \<Rightarrow> mcp_approval" where
  "mcp_sample st = no_mcp_approval\<lparr>ma_ID := ''a1'', ma_ControlSessionID := ''cs'', ma_ServerID := ''s'', ma_ToolName := ''t'',
     ma_ExpiresAt := 2 ^ 90, ma_DecisionNonce := ''n'', ma_ApprovalManifestSHA256 := ''m'',
     ma_InvocationBodySHA256 := sample_body, ma_State := st\<rparr>"

definition mcp_server_with :: "string \<Rightarrow> (unit, unit) server" where
  "mcp_server_with st = (server_with [] [])\<lparr>mcpGatewayApprovalRequests := [(''a1'', mcp_sample st)]\<rparr>"

lemma mcp_sample_simps [simp]:
  "ma_ID (mcp_sample st) = ''a1''" "ma_ControlSessionID (mcp_sample st) = ''cs''" "ma_State (mcp_sample st) = st"
  "ma_ExpiresAt (mcp_sample st) = 2 ^ 90" "ma_DecisionNonce (mcp_sample st) = ''n''" "ma_ServerID (mcp_sample st) = ''s''"
  "ma_ToolName (mcp_sample st) = ''t''" "ma_ApprovalManifestSHA256 (mcp_sample st) = ''m''"
  "ma_InvocationBodySHA256 (mcp_sample st) = sample_body" "ma_ValidatedArgumentKeys (mcp_sample st) = []"
  by (simp_all add: mcp_sample_def no_mcp_approval_def)

lemma mcp_server_with_simps [simp]:
  "mcpGatewayApprovalRequests (mcp_server_with st) = [(''a1'', mcp_sample st)]" "\<not> mu_held (mcp_server_with st)"
  "ticks (mcp_server_with st) = 0" "as_sequence (srv_audit (mcp_server_with st)) = 0" "trace (mcp_server_with st) = []"
  by (simp_all add: mcp_server_with_def server_with_def)

lemma mcp_wf_sample [simp]: "mcp_wf [(''a1'', mcp_sample st)]"
  by (simp add: mcp_wf_def map_wf_def)

lemma more_trims [simp]: "trim_space ''a1'' = ''a1''" "trim_space ''m'' = ''m''" "trim_space ''s'' = ''s''" "trim_space ''t'' = ''t''"
  by code_simp+

lemma sample_clock: "n \<le> 1000 \<Longrightarrow> clock coarse_env n \<le> 2 ^ 90"
  by (simp add: coarse_env_def nano_hour_def)

text \<open>The sweep leaves the sample as it is.\<close>

lemma prune_sample:
  assumes "mcpGatewayApprovalRequests s = [(''a1'', mcp_sample st)]" and "ticks s \<le> 1000"
  shows "mcpGatewayApprovalRequests (pruneExpiredLocked coarse_env s) = [(''a1'', mcp_sample st)]"
    and "ticks (pruneExpiredLocked coarse_env s) = Suc (ticks s)"
    and "mu_held (pruneExpiredLocked coarse_env s) = mu_held s"
    and "srv_audit (pruneExpiredLocked coarse_env s) = srv_audit s"
proof -
  have "sweep_mcp_approval (clock coarse_env (ticks s)) (mcp_sample st) = Some (mcp_sample st, [2 ^ 90])"
    using sample_clock [OF assms(2)] by (simp add: sweep_mcp_approval_def not_less)
  then show "mcpGatewayApprovalRequests (pruneExpiredLocked coarse_env s) = [(''a1'', mcp_sample st)]"
    using assms(1) by (simp add: pruneExpiredLocked_def server_now_def sweep_tables_def Let_def sweep_def List.map_filter_simps
      split: prod.splits)
  show "ticks (pruneExpiredLocked coarse_env s) = Suc (ticks s)" and "mu_held (pruneExpiredLocked coarse_env s) = mu_held s"
    and "srv_audit (pruneExpiredLocked coarse_env s) = srv_audit s"
    by (simp_all add: pruneExpiredLocked_def server_now_def sweep_tables_def Let_def split: prod.splits)
qed

text \<open>An event that names the tenant and the user is recorded with the lock held too.\<close>

lemma logEvent_under_lock:
  assumes "\<not> needs_tenancy d"
  shows "logEvent env ev sid d (s\<lparr>mu_held := b\<rparr>) = map_option (\<lambda>(r, s'). (r, s'\<lparr>mu_held := b\<rparr>)) (logEvent env ev sid d s)"
  using assms by (simp add: logEvent_def logEventWithHash_def split: prod.splits sum.splits)

lemma logEvent_ticks: "logEvent env ev sid d s = Some (e, s') \<Longrightarrow> ticks s' = Suc (ticks s)"
  by (auto simp: logEvent_def logEventWithHash_def split: option.splits sum.splits prod.splits if_splits)

lemma encodable_logged_locked:
  assumes "encodable d" "\<not> needs_tenancy d" "\<bar>as_sequence (srv_audit s) + 1\<bar> < 2 ^ 53"
  shows "\<exists>s'. logEvent coarse_env ev sid d s = Some (None, s') \<and> mu_held s' = mu_held s \<and>
    as_sequence (srv_audit s') = as_sequence (srv_audit s) + 1"
proof -
  obtain s' where "logEvent coarse_env ev sid d (s\<lparr>mu_held := False\<rparr>) = Some (None, s')"
    and "as_sequence (srv_audit s') = as_sequence (srv_audit s) + 1"
    using encodable_logged [OF assms(1), of "s\<lparr>mu_held := False\<rparr>"] assms(3) by auto
  then show ?thesis using logEvent_under_lock [where env = coarse_env and ev = ev and sid = sid and s = "s\<lparr>mu_held := False\<rparr>" and b = "mu_held s", OF assms(2)] by simp
qed

definition sample_decision :: mcp_decision_request where
  "sample_decision = \<lparr>md_ApprovalRequestID = ''a1'', md_Approved = True, md_DecisionNonce = ''n'', md_ManifestSHA256 = ''m''\<rparr>"

lemma sample_decided:
  "\<exists>a' s'. validateAndRecordMCPGatewayApprovalDecision coarse_env spent_claims sample_decision (mcp_server_with StatePending) =
     Some ((a', None), s')"
proof -
  define s where "s = (mcp_server_with StatePending)\<lparr>mu_held := True\<rparr>"
  define p where "p = (pruneExpiredLocked coarse_env s)\<lparr>ticks := 2\<rparr>"
  have P: "mcpGatewayApprovalRequests (pruneExpiredLocked coarse_env s) = [(''a1'', mcp_sample StatePending)]"
      "ticks (pruneExpiredLocked coarse_env s) = 1" "srv_audit (pruneExpiredLocked coarse_env s) = srv_audit s"
    using prune_sample [of s StatePending] by (simp_all add: s_def)
  have "decision_refusal ''a1'' spent_claims sample_decision (mcp_sample StatePending) = None"
    by (simp add: decision_refusal_def spent_claims_def sample_decision_def)
  then have v: "validatePendingMCPGatewayApprovalDecisionLocked coarse_env spent_claims sample_decision s =
      ((mcp_sample StatePending, None), p)"
    using sample_clock [of 1] P
    by (simp add: validatePendingMCPGatewayApprovalDecisionLocked_def sample_decision_def server_now_def Let_def not_less p_def)
  let ?d = "buildMCPGatewayApprovalGrantedAuditData (mcp_sample StatePending)"
  have "encodable ?d" "\<not> needs_tenancy ?d"
    using is_ok_GInt [of 0] by (simp_all add: buildMCPGatewayApprovalGrantedAuditData_def approval_event_data_def needs_tenancy_def mhas_def)
  moreover have "as_sequence (srv_audit p) = 0" using P by (simp add: p_def s_def)
  ultimately obtain s1 where l: "logEvent coarse_env ''approval.granted'' ''cs'' ?d p = Some (None, s1)"
    using encodable_logged_locked [of ?d p] by auto
  have "mcpGatewayApprovalRequests s1 = [(''a1'', mcp_sample StatePending)]" using logEvent_mcp(1) [OF l] P by (simp add: p_def)
  moreover have "ValidateStateTransition StatePending StateGranted = None" by code_simp
  ultimately have "\<exists>a' s2. record_decision_locked coarse_env True (mcp_sample StatePending) p = Some ((a', None), s2)"
    using l by (simp add: record_decision_locked_def setMCPGatewayApprovalStateLocked_def server_now_def Let_def)
  then show ?thesis using v
    by (auto simp: validateAndRecordMCPGatewayApprovalDecision_def with_mu_def lock_mu_def unlock_mu_def s_def [symmetric]
      sample_decision_def)
qed


theorem mcp_decision_takes_nonce_witness:
  "\<exists>a' s'. validateAndRecordMCPGatewayApprovalDecision coarse_env spent_claims sample_decision (mcp_server_with StatePending) =
     Some ((a', None), s') \<and> ma_State a' = StateGranted \<and> ma_DecisionNonce a' = []"
proof -
  obtain a' s' where d: "validateAndRecordMCPGatewayApprovalDecision coarse_env spent_claims sample_decision (mcp_server_with StatePending) =
     Some ((a', None), s')" using sample_decided by blast
  have "mcp_wf (mcpGatewayApprovalRequests (mcp_server_with StatePending))" by simp
  from mcp_decision_takes_nonce [OF d this] d show ?thesis by (auto simp: sample_decision_def)
qed

theorem mcp_decision_returns_witness:
  "\<exists>r s'. validateAndRecordMCPGatewayApprovalDecision coarse_env spent_claims sample_decision (mcp_server_with StateGranted) =
     Some (r, s') \<and> \<not> mu_held s'"
  by (rule mcp_decision_returns) simp

end
