(* ===== verification/McpProperties.thy ===== *)
theory McpProperties
  imports McpTable
begin

text \<open>
  Executions of the MCP gateway: a frame is written to a child only for an approval that was granted, unexpired
  and bound to this request, after its execution was announced to the audit log, and the approval is spent.
\<close>

section \<open>What is written to a child\<close>

text \<open>The frames \<open>g'\<close> has sent since \<open>g\<close> were all sent with the trace \<open>tr\<close>.\<close>

definition sent_behind :: "action list \<Rightarrow> ('f, 'w) mcp_server \<Rightarrow> ('f, 'w) mcp_server \<Rightarrow> bool" where
  "sent_behind tr g g' = (\<exists>fs. mg_sent g' = mg_sent g @ fs \<and> (\<forall>(h, f, t) \<in> set fs. t = tr))"

definition talked :: "('f, 'w) mcp_server \<Rightarrow> ('f, 'w) mcp_server \<Rightarrow> bool" where
  "talked g g' = (sent_behind (trace (mg_core g)) g g' \<and> trace (mg_core g') = trace (mg_core g) \<and>
     mcpGatewayApprovalRequests (mg_core g') = mcpGatewayApprovalRequests (mg_core g))"

lemma sent_behind_refl [simp]: "mg_sent g' = mg_sent g \<Longrightarrow> sent_behind tr g g'"
  by (simp add: sent_behind_def)

lemma sent_behind_trans: "sent_behind tr g g1 \<Longrightarrow> sent_behind tr g1 g2 \<Longrightarrow> sent_behind tr g g2"
  by (fastforce simp: sent_behind_def)

lemma talked_refl [simp]: "talked g g"
  by (simp add: talked_def)

lemma talked_trans: "talked g g1 \<Longrightarrow> talked g1 g2 \<Longrightarrow> talked g g2"
  by (auto simp: talked_def intro: sent_behind_trans)

lemma talked_ask [simp]: "ask f g = (v, g') \<Longrightarrow> talked g g'"
  by (auto simp: ask_def talked_def)

lemma talked_store [simp]: "talked g (store_process p g)"
  by (simp add: store_process_def talked_def)

lemma talked_write:
  assumes "writeMCPGatewayJSONRPCFrame me p body g = (r, g')" shows "talked g g'"
proof -
  have "sent_behind (trace (mg_core g)) g (g\<lparr>mg_core := c, mg_sent := mg_sent g @ [(lm_Handle p, f, trace (mg_core g))]\<rparr>)" for c f
    by (simp add: sent_behind_def)
  then show ?thesis using assms
    by (auto simp: writeMCPGatewayJSONRPCFrame_def ask_def talked_def split: if_splits sum.splits option.splits)
qed

lemma talked_round_trip:
  assumes "performMCPGatewayJSONRPCRoundTrip env me p meth params g = (r, g')" shows "talked g g'"
proof -
  obtain c g1 where c: "ask (gw_cancelled me) g = (c, g1)" by fastforce
  obtain i g2 where i: "ask (\<lambda>n. random env n 8) g1 = (i, g2)" by fastforce
  have 1: "talked g g1" and 2: "talked g g2" using talked_ask [OF c] talked_ask [OF i] by (auto intro: talked_trans)
  have end_step: "talked g3 (store_process q (g3\<lparr>mg_core := (mg_core g3)\<lparr>ticks := k\<rparr>\<rparr>))" for q g3 k
    by (simp add: store_process_def talked_def)
  show ?thesis
  proof (cases "c = None \<and> (\<exists>requestID ps. i = Inr requestID \<and> params = Inr ps)")
    case False
    then show ?thesis using assms c i 1 2
      by (auto simp: performMCPGatewayJSONRPCRoundTrip_def split: option.splits sum.splits)
  next
    case True
    then obtain requestID ps where [simp]: "c = None" "i = Inr requestID" "params = Inr ps" by auto
    obtain w g3 where w: "writeMCPGatewayJSONRPCFrame me p (rpc_request requestID meth ps) g2 = (w, g3)" by fastforce
    have 3: "talked g g3" using 2 talked_write [OF w] by (rule talked_trans)
    show ?thesis using assms c i w 3 talked_trans [OF 3 end_step]
      by (auto simp: performMCPGatewayJSONRPCRoundTrip_def Let_def split: option.splits sum.splits prod.splits)
  qed
qed

lemma talked_initialize:
  assumes "initializeMCPGatewayLaunchedServer env me p g = (r, g')" shows "talked g g'"
proof (cases "lm_Initialized p")
  case False
  obtain a g1 where a: "performMCPGatewayJSONRPCRoundTrip env me p ''initialize'' (Inr (initialize_params (gw_version me))) g = (a, g1)"
    by fastforce
  obtain c g2 where c: "ask (gw_cancelled me) g1 = (c, g2)" by fastforce
  obtain w g3 where w: "writeMCPGatewayJSONRPCFrame me (snd a) initialized_notification g2 = (w, g3)" by fastforce
  have 1: "talked g g1" by (rule talked_round_trip [OF a])
  have 2: "talked g g2" by (rule talked_trans [OF 1 talked_ask [OF c]])
  have 3: "talked g g3" by (rule talked_trans [OF 2 talked_write [OF w]])
  show ?thesis using assms False a c w 1 2 3 talked_trans [OF 3 talked_store]
    by (auto simp: initializeMCPGatewayLaunchedServer_def Let_def split: if_splits option.splits sum.splits prod.splits)
qed (use assms in \<open>simp add: initializeMCPGatewayLaunchedServer_def\<close>)


section \<open>An execution spends its approval\<close>

definition spent :: "string \<Rightarrow> ('f, 'w) server \<Rightarrow> bool" where
  "spent i s = (mcp_wf (mcpGatewayApprovalRequests s) \<and>
     (\<exists>b. map_of (mcpGatewayApprovalRequests s) i = Some b \<and> ma_State b \<in> {StateConsumed, StateExecutionFailed}))"

lemma in_coreD:
  assumes "in_core f g = Some (r, g')"
  obtains s where "f (mg_core g) = Some (r, s)" and "g' = g\<lparr>mg_core := s\<rparr>"
  using assms by (auto simp: in_core_def split: option.splits)

lemma spent_logEvent: "logEvent env ev sid d s = Some (e, s') \<Longrightarrow> spent i s \<Longrightarrow> spent i s'"
  by (auto simp: spent_def dest: logEvent_mcp(1))

lemma spent_cong: "mcpGatewayApprovalRequests s' = mcpGatewayApprovalRequests s \<Longrightarrow> spent i s' = spent i s"
  by (simp add: spent_def)

lemma spent_mark:
  assumes "spent i s" and "markMCPGatewayApprovalExecutionFailed i' sha s = Some (u, s')" and "i = trim_space i'"
  shows "spent i s'"
proof -
  obtain b where b: "map_of (mcpGatewayApprovalRequests s) i = Some b" and st: "ma_State b \<in> {StateConsumed, StateExecutionFailed}"
    and wf: "mcp_wf (mcpGatewayApprovalRequests s)" using assms(1) by (auto simp: spent_def)
  have i: "ma_ID b = i" by (rule mcp_wf_id [OF wf b])
  show ?thesis
  proof (cases "ma_ApprovalManifestSHA256 b \<noteq> trim_space sha \<or> ma_State b \<noteq> StateConsumed")
    case True
    then have "mcpGatewayApprovalRequests s' = mcpGatewayApprovalRequests s" using assms(2,3) b
      by (auto simp: markMCPGatewayApprovalExecutionFailed_def elim!: with_muD)
    then show ?thesis using assms(1) spent_cong by blast
  next
    case False
    obtain m r where set1: "setMCPGatewayApprovalStateLocked (mcpGatewayApprovalRequests s) (ma_ID b) b StateExecutionFailed = (m, r)"
      by fastforce
    note S = mcp_wf_set [OF wf refl set1]
    have t': "mcpGatewayApprovalRequests s' = (case r of Inl _ \<Rightarrow> m | Inr b' \<Rightarrow> mput (ma_ID b') b' m)"
      using assms(2,3) False b set1 by (auto simp: markMCPGatewayApprovalExecutionFailed_def elim!: with_muD split: sum.splits)
    show ?thesis
    proof (cases r)
      case (Inl e)
      then have "m = mcpGatewayApprovalRequests s" using set1
        by (auto simp: setMCPGatewayApprovalStateLocked_def Let_def split: option.splits)
      then show ?thesis using assms(1) t' Inl by (simp add: spent_def)
    next
      case (Inr b')
      have b': "b' = b\<lparr>ma_State := StateExecutionFailed\<rparr>" using S(2) [OF Inr] by simp
      have "mcp_wf (mput (ma_ID b') b' m)" by (rule mcp_wf_put [OF S(1) refl])
      then show ?thesis using t' Inr b' i by (simp add: spent_def)
    qed
  qed
qed

lemma mark_quiet:
  "markMCPGatewayApprovalExecutionFailed i sha s = Some (u, s') \<Longrightarrow> trace s' = trace s"
  by (auto simp: markMCPGatewayApprovalExecutionFailed_def elim!: with_muD split: option.splits sum.splits prod.splits if_splits)

lemma under_muD:
  assumes "under_mu f g = Some (r, g')" shows "\<not> mu_held (mg_core g)" and "f g = (r, g')"
  using assms by (auto simp: under_mu_def split: if_splits)

lemma drop_server_fields:
  assumes "dropMCPGatewayLaunchedServer i p g = Some (u, g')"
  shows "mg_core g' = mg_core g" and "mg_sent g' = mg_sent g"
  using assms by (auto simp: dropMCPGatewayLaunchedServer_def bind_eq_Some_conv killMCPGatewayProcessByPID_def
    dest!: under_muD(2) split: option.splits if_splits)

lemma fail_execution_spent:
  assumes "fail_execution env claims a p b reason g = Some (r, g')" and "spent (trim_space (ma_ID a)) (mg_core g)"
  shows "spent (trim_space (ma_ID a)) (mg_core g')" and "mg_sent g' = mg_sent g" and "\<exists>d. r = Inl d"
proof -
  obtain u1 g1 u2 g2 e where
    1: "in_core (markMCPGatewayApprovalExecutionFailed (ma_ID a) (ma_ApprovalManifestSHA256 a)) g = Some (u1, g1)" and
    2: "(if b then dropMCPGatewayLaunchedServer (ma_ServerID a) p g1 else Some ((), g1)) = Some (u2, g2)" and
    3: "in_core (logEvent env ''mcp_gateway.execution_failed'' (ct_ControlSessionID claims)
       (buildMCPGatewayExecutionFailedAuditData claims a (lm_PID p) ''capability_execution_failed'')) g2 = Some (e, g')" and
    r: "\<exists>d. r = Inl d"
    using assms(1) by (auto simp: fail_execution_def bind_eq_Some_conv)
  show "\<exists>d. r = Inl d" by (rule r)
  have core2: "mg_core g2 = mg_core g1" "mg_sent g2 = mg_sent g1"
    using 2 drop_server_fields by (auto split: if_splits)
  from 1 have s1: "spent (trim_space (ma_ID a)) (mg_core g1)" and t1: "mg_sent g1 = mg_sent g"
    using spent_mark [OF assms(2)] by (auto elim!: in_coreD)
  from 3 show "spent (trim_space (ma_ID a)) (mg_core g')" and "mg_sent g' = mg_sent g"
    using s1 t1 core2 by (auto elim!: in_coreD intro: spent_logEvent)
qed

lemma talked_spent: "talked g g' \<Longrightarrow> spent i (mg_core g') = spent i (mg_core g)"
  unfolding talked_def by (intro spent_cong) simp

lemma talked_sent: "talked g g' \<Longrightarrow> sent_behind (trace (mg_core g)) g g'"
  by (simp add: talked_def)

lemma dispatch_call_spent:
  assumes "dispatch_call env me claims x tool a p g = Some (r, g')" and "spent (trim_space (ma_ID a)) (mg_core g)"
  shows "spent (trim_space (ma_ID a)) (mg_core g')" and "sent_behind (trace (mg_core g)) g g'"
proof -
  let ?i = "trim_space (ma_ID a)" and ?tr = "trace (mg_core g)"
  have goal: "spent ?i (mg_core g') \<and> sent_behind ?tr g g'"
  proof -
    obtain e p1 g1 where i: "initializeMCPGatewayLaunchedServer env me p g = ((e, p1), g1)" by (metis prod.exhaust)
    note 1 = talked_initialize [OF i]
    have fin: "spent ?i (mg_core g') \<and> sent_behind ?tr g g'"
      if "fail_execution env claims a q b reason h = Some (r, g')" and "talked g h" for q b reason h
      using fail_execution_spent [OF that(1)] talked_spent [OF that(2)] assms(2) talked_sent [OF that(2)]
      by (auto simp: sent_behind_def)
    show ?thesis
    proof (cases e)
      case (Some e')
      then show ?thesis using assms(1) i fin [OF _ 1] by (auto simp: dispatch_call_def)
    next
      case None
      obtain ans p2 g2 where c: "performMCPGatewayJSONRPCRoundTrip env me p1 ''tools/call'' (call_params tool (me_Arguments x)) g1
          = ((ans, p2), g2)" by (metis prod.exhaust)
      have 2: "talked g g2" by (rule talked_trans [OF 1 talked_round_trip [OF c]])
      show ?thesis
      proof (cases ans)
        case (Inl e')
        then show ?thesis using assms(1) i None c fin [OF _ 2] by (auto simp: dispatch_call_def)
      next
        case (Inr answer)
        then obtain d ev where "in_core (logEvent env ''mcp_gateway.execution_completed'' (ct_ControlSessionID claims) d) g2 = Some (ev, g')"
          using assms(1) i None c by (auto simp: dispatch_call_def Let_def bind_eq_Some_conv)
        then have "spent ?i (mg_core g2) \<Longrightarrow> spent ?i (mg_core g')" "mg_sent g' = mg_sent g2"
          by (auto elim!: in_coreD intro: spent_logEvent)
        then show ?thesis using talked_spent [OF 2] assms(2) talked_sent [OF 2] by (auto simp: sent_behind_def)
      qed
    qed
  qed
  show "spent ?i (mg_core g')" and "sent_behind ?tr g g'" using goal by simp_all
qed


text \<open>Cleaning up asks one question at most and can only take the entry out of the table.\<close>

lemma cleanup_cases:
  assumes "cleanupDeadMCPGatewayServerIfNeeded me i g = Some (u, g')"
  shows "\<exists>k m. g' = g\<lparr>mg_core := (mg_core g)\<lparr>ticks := k\<rparr>, mg_launched := m\<rparr> \<and> m \<in> {mg_launched g, mdel i (mg_launched g)}"
proof -
  have same: "\<exists>k m. g = g\<lparr>mg_core := (mg_core g)\<lparr>ticks := k\<rparr>, mg_launched := m\<rparr> \<and> m \<in> {mg_launched g, mdel i (mg_launched g)}"
    by (rule exI [of _ "ticks (mg_core g)"], rule exI [of _ "mg_launched g"]) simp
  show ?thesis
  proof (cases "map_of (mg_launched g) i")
    case None
    then show ?thesis using assms same by (auto simp: cleanupDeadMCPGatewayServerIfNeeded_def under_mu_def split: if_splits)
  next
    case (Some p)
    show ?thesis
    proof (cases "lm_LaunchState p \<noteq> ''launched'' \<or> lm_PID p \<le> 0")
      case True
      then show ?thesis using assms same Some by (auto simp: cleanupDeadMCPGatewayServerIfNeeded_def under_mu_def split: if_splits)
    next
      case False
      show ?thesis
      proof (cases "gw_alive me (ticks (mg_core g)) (lm_PID p)")
        case (Inl e)
        then have "g' = g\<lparr>mg_core := (mg_core g)\<lparr>ticks := Suc (ticks (mg_core g))\<rparr>, mg_launched := mg_launched g\<rparr>"
          using assms Some False by (auto simp: cleanupDeadMCPGatewayServerIfNeeded_def under_mu_def ask_def split: if_splits)
        then show ?thesis by blast
      next
        case (Inr alive)
        then have "g' = g\<lparr>mg_core := (mg_core g)\<lparr>ticks := Suc (ticks (mg_core g))\<rparr>,
            mg_launched := (if alive then mg_launched g else mdel i (mg_launched g))\<rparr>"
          using assms Some False
          by (cases alive) (auto simp: cleanupDeadMCPGatewayServerIfNeeded_def under_mu_def ask_def split: if_splits)
        moreover have "(if alive then mg_launched g else mdel i (mg_launched g)) \<in> {mg_launched g, mdel i (mg_launched g)}"
          by simp
        ultimately show ?thesis by blast
      qed
    qed
  qed
qed

lemma cleanup_fields:
  assumes "cleanupDeadMCPGatewayServerIfNeeded me i g = Some (u, g')"
  shows "talked g g'" and "mg_sent g' = mg_sent g"
  using cleanup_cases [OF assms] by (auto simp: talked_def)

lemma resolve_fields:
  assumes "resolveMCPGatewayLaunchedServer me i g = Some (r, g')"
  shows "talked g g'" and "mg_sent g' = mg_sent g"
proof -
  obtain u where "cleanupDeadMCPGatewayServerIfNeeded me i g = Some (u, g')"
    using assms by (auto simp: resolveMCPGatewayLaunchedServer_def bind_eq_Some_conv under_mu_def split: if_splits)
  then show "talked g g'" and "mg_sent g' = mg_sent g" by (rule cleanup_fields)+
qed

text \<open>The steps of an execution that gets as far as consuming the approval.\<close>

lemma execution_steps:
  assumes "executeMCPGatewayInvocation env me claims x g = Some (r, g')"
    and "mcp_wf (mcpGatewayApprovalRequests (mg_core g))"
  obtains (stopped) d where "r = Inl d" and "mg_sent g' = mg_sent g"
  | (consumed) vr body a a2 pid g1 where "bound_request (gw_quote me) x = Inr (vr, body)" and "bound_to claims x vr body a"
      and "map_of (mcpGatewayApprovalRequests (mg_core g)) (trim_space (me_ApprovalRequestID x)) = Some a"
      and "\<exists>n \<ge> ticks (mg_core g). clock env n \<le> ma_ExpiresAt a"
      and "trace (mg_core g1) = trace (mg_core g) @ [Audited ''mcp_gateway.execution_started'' (ct_ControlSessionID claims)
        (buildMCPGatewayExecutionStartedAuditData claims a pid)]"
      and "mg_sent g1 = mg_sent g" and "spent (trim_space (me_ApprovalRequestID x)) (mg_core g1)"
      and "ma_ID a2 = trim_space (me_ApprovalRequestID x)"
      and "(\<exists>p b reason. fail_execution env claims a2 p b reason g1 = Some (r, g')) \<or>
           (\<exists>p tool. dispatch_call env me claims x tool a2 p g1 = Some (r, g'))"
proof -
  let ?i = "trim_space (me_ApprovalRequestID x)"
  obtain validated g1 where v: "in_core (validateMCPGatewayExecutionRequestWithApproval env (gw_quote me) claims x) g = Some (validated, g1)"
    using assms(1) by (auto simp: executeMCPGatewayInvocation_def bind_eq_Some_conv)
  show thesis
  proof (cases validated)
    case (Inl d)
    then have "r = Inl d" "g' = g1" using assms(1) v by (auto simp: executeMCPGatewayInvocation_def)
    then show thesis using v by (intro stopped) (auto elim!: in_coreD)
  next
    case (Inr av)
    obtain a vv where av: "av = (a, vv)" by (cases av)
    obtain s1 where s1: "validateMCPGatewayExecutionRequestWithApproval env (gw_quote me) claims x (mg_core g) = Some (Inr (a, vv), s1)"
      and g1: "g1 = g\<lparr>mg_core := s1\<rparr>" using v Inr av by (auto elim!: in_coreD)
    obtain vr body where B: "bound_request (gw_quote me) x = Inr (vr, body)" "bound_to claims x vr body a"
        "map_of (mcpGatewayApprovalRequests (mg_core g)) ?i = Some a"
        "map_of (mcpGatewayApprovalRequests s1) ?i = Some a" "mcp_wf (mcpGatewayApprovalRequests s1)" "mcp_quiet (mg_core g) s1"
        "\<exists>n \<ge> ticks (mg_core g). clock env n \<le> ma_ExpiresAt a"
      by (rule mcp_validatedD [OF s1 assms(2)])
    obtain resolved g2 where rs: "resolveMCPGatewayLaunchedServer me (xv_ServerID vv) g1 = Some (resolved, g2)"
      using assms(1) v Inr av by (auto simp: executeMCPGatewayInvocation_def bind_eq_Some_conv)
    note T = resolve_fields(1) [OF rs, unfolded talked_def]
    have sent2: "mg_sent g2 = mg_sent g" using resolve_fields(2) [OF rs] g1 by simp
    show thesis
    proof (cases resolved)
      case (Inl d)
      then have "r = Inl d" "g' = g2" using assms(1) v Inr av rs by (auto simp: executeMCPGatewayInvocation_def)
      then show thesis using sent2 by (intro stopped) auto
    next
      case res: (Inr p)
      obtain e g3 where lg: "in_core (logEvent env ''mcp_gateway.execution_started'' (ct_ControlSessionID claims)
          (buildMCPGatewayExecutionStartedAuditData claims a (lm_PID p))) g2 = Some (e, g3)"
        using assms(1) v Inr av rs res by (auto simp: executeMCPGatewayInvocation_def bind_eq_Some_conv)
      have sent3: "mg_sent g3 = mg_sent g" using lg sent2 by (auto elim!: in_coreD)
      show thesis
      proof (cases "e = None")
        case False
        then have "\<exists>d. r = Inl d" "g' = g3" using assms(1) v Inr av rs res lg by (auto simp: executeMCPGatewayInvocation_def)
        then show thesis using sent3 by (auto intro: stopped)
      next
        case True
        have tr3: "trace (mg_core g3) = trace (mg_core g) @ [Audited ''mcp_gateway.execution_started'' (ct_ControlSessionID claims)
            (buildMCPGatewayExecutionStartedAuditData claims a (lm_PID p))]"
          and tab3: "mcpGatewayApprovalRequests (mg_core g3) = mcpGatewayApprovalRequests s1"
          using lg True T g1 B(6) logEvent_acknowledged logEvent_mcp(1) by (fastforce simp: mcp_quiet_def elim!: in_coreD)+
        obtain cons g4 where cs: "in_core (consumeGrantedMCPGatewayApprovalForExecution env (gw_quote me) claims x) g3 = Some (cons, g4)"
          using assms(1) v Inr av rs res lg True by (auto simp: executeMCPGatewayInvocation_def bind_eq_Some_conv)
        have sent4: "mg_sent g4 = mg_sent g" using cs sent3 by (auto elim!: in_coreD)
        show thesis
        proof (cases cons)
          case (Inl d)
          then have "r = Inl d" "g' = g4" using assms(1) v Inr av rs res lg True cs by (auto simp: executeMCPGatewayInvocation_def)
          then show thesis using sent4 by (intro stopped) auto
        next
          case con: (Inr a2)
          obtain s4 where s4: "consumeGrantedMCPGatewayApprovalForExecution env (gw_quote me) claims x (mg_core g3) = Some (Inr a2, s4)"
            and g4: "g4 = g3\<lparr>mg_core := s4\<rparr>" using cs con by (auto elim!: in_coreD)
          obtain a0 vr0 body0 where C: "map_of (mcpGatewayApprovalRequests s4) ?i = Some a2" "ma_ID a2 = ?i"
              "ma_State a2 = StateConsumed" "mcp_wf (mcpGatewayApprovalRequests s4)" "mcp_quiet (mg_core g3) s4"
            using mcp_consumedD [OF s4] tab3 B(5) by metis
          obtain c g5 where ck: "ask (gw_cancelled me) g4 = (c, g5)" by fastforce
          have core5: "trace (mg_core g5) = trace (mg_core g3)" "mcpGatewayApprovalRequests (mg_core g5) = mcpGatewayApprovalRequests s4"
              "mg_sent g5 = mg_sent g"
            using ck g4 C(5) sent4 by (auto simp: ask_def mcp_quiet_def)
          have sp: "spent ?i (mg_core g5)" using C(1,3,4) core5(2) by (auto simp: spent_def)
          have "(\<exists>p b reason. fail_execution env claims a2 p b reason g5 = Some (r, g')) \<or>
              (\<exists>p tool. dispatch_call env me claims x tool a2 p g5 = Some (r, g'))"
            using assms(1) v Inr av rs res lg True cs con ck
            by (auto simp: executeMCPGatewayInvocation_def split: option.splits)
          then show thesis using consumed [OF B(1,2,3,7) _ core5(3) sp C(2)] core5(1) tr3 by simp
        qed
      qed
    qed
  qed
qed

lemma execution_spends:
  assumes "executeMCPGatewayInvocation env me claims x g = Some (r, g')"
    and "mcp_wf (mcpGatewayApprovalRequests (mg_core g))" and "mg_sent g' \<noteq> mg_sent g"
  shows "spent (trim_space (me_ApprovalRequestID x)) (mg_core g')"
  using assms(1,2)
proof (cases rule: execution_steps)
  case (consumed vr body a a2 pid g1)
  then show ?thesis using fail_execution_spent(1) dispatch_call_spent(1) by fastforce
qed (use assms(3) in simp)

lemma spent_refuses:
  assumes "executeMCPGatewayInvocation env me claims x g = Some (r, g')"
    and "spent (trim_space (me_ApprovalRequestID x)) (mg_core g)"
  shows "mg_sent g' = mg_sent g" and "\<exists>d. r = Inl d"
proof -
  have wf: "mcp_wf (mcpGatewayApprovalRequests (mg_core g))" using assms(2) by (simp add: spent_def)
  have "mg_sent g' = mg_sent g \<and> (\<exists>d. r = Inl d)"
    using assms(1) wf
  proof (cases rule: execution_steps)
    case (consumed vr body a a2 pid g1)
    then show ?thesis using assms(2) by (auto simp: spent_def bound_to_def)
  qed auto
  then show "mg_sent g' = mg_sent g" and "\<exists>d. r = Inl d" by simp_all
qed

text \<open>
  C6: a call that writes to an MCP server was approved. If executing an MCP invocation writes any frame to a
  child process, then the request names an approval of this control session that was granted and not expired
  when this call looked, whose manifest hash, server, tool and body hash are those of the request; every
  frame was written after the audit log had acknowledged the event that announces this execution; and
  afterwards the approval is spent: consumed, or marked as failed.
\<close>

theorem mcp_frames_need_approval:
  assumes "executeMCPGatewayInvocation env me claims x g = Some (r, g')"
    and "mcp_wf (mcpGatewayApprovalRequests (mg_core g))" and "mg_sent g' \<noteq> mg_sent g"
  shows "\<exists>vr body a pid. bound_request (gw_quote me) x = Inr (vr, body) \<and> bound_to claims x vr body a \<and>
    map_of (mcpGatewayApprovalRequests (mg_core g)) (trim_space (me_ApprovalRequestID x)) = Some a \<and>
    (\<exists>n \<ge> ticks (mg_core g). clock env n \<le> ma_ExpiresAt a) \<and>
    sent_behind (trace (mg_core g) @ [Audited ''mcp_gateway.execution_started'' (ct_ControlSessionID claims)
      (buildMCPGatewayExecutionStartedAuditData claims a pid)]) g g' \<and>
    spent (trim_space (me_ApprovalRequestID x)) (mg_core g')"
  using assms(1,2)
proof (cases rule: execution_steps)
  case (stopped d)
  then show ?thesis using assms(3) by simp
next
  case (consumed vr body a a2 pid g1)
  have "spent (trim_space (me_ApprovalRequestID x)) (mg_core g') \<and> sent_behind (trace (mg_core g1)) g1 g'"
    using consumed(7,8,9) fail_execution_spent(1,2) dispatch_call_spent by fastforce
  then have "spent (trim_space (me_ApprovalRequestID x)) (mg_core g')"
    "sent_behind (trace (mg_core g) @ [Audited ''mcp_gateway.execution_started'' (ct_ControlSessionID claims)
      (buildMCPGatewayExecutionStartedAuditData claims a pid)]) g g'"
    using consumed(5,6) by (auto simp: sent_behind_def)
  then show ?thesis using consumed(1-4) by blast
qed


text \<open>
  C7: an approval of the MCP gateway is used at most once. After an execution that wrote to a child, any
  execution that names the same approval, by whichever session and with whichever arguments, is refused
  and writes nothing.
\<close>

theorem mcp_executes_once:
  assumes "executeMCPGatewayInvocation env me claims x g = Some (r, g')"
    and "mcp_wf (mcpGatewayApprovalRequests (mg_core g))" and "mg_sent g' \<noteq> mg_sent g"
    and "executeMCPGatewayInvocation env' me' claims' x' g' = Some (r', g'')"
    and "trim_space (me_ApprovalRequestID x') = trim_space (me_ApprovalRequestID x)"
  shows "mg_sent g'' = mg_sent g' \<and> (\<exists>d. r' = Inl d)"
  using spent_refuses [OF assms(4)] execution_spends [OF assms(1-3)] assms(5) by simp


section \<open>A concrete execution\<close>

definition sample_process :: mcp_process where
  "sample_process = \<lparr>lm_ServerID = ''s'', lm_Transport = ''stdio'', lm_LaunchState = ''launched'', lm_LaunchAttemptID = [],
     lm_PID = 7, lm_StartedAt = 0, lm_WorkingDirectory = [], lm_CommandPath = [], lm_CommandArgs = [],
     lm_AllowedEnvironment = [], lm_SecretEnvironmentVariables = [], lm_StderrPath = [], lm_Pipes = Some [],
     lm_Initialized = True, lm_Handle = 0\<rparr>"

text \<open>A child that is alive and accepts what is written to it, but says nothing; releasing a handle fails.\<close>

definition silent_env :: "mcp_manifests \<Rightarrow> mcp_env" where
  "silent_env ms = \<lparr>gw_repoRoot = ''/r'', gw_policy = sample_policy, gw_manifests = ms, gw_quote = id, gw_lower = id, gw_version = [],
     gw_alive = (\<lambda>_ _. Inr True), gw_look_path = (\<lambda>_ _. Inl []), gw_variable = (\<lambda>_ _. None), gw_secret = (\<lambda>_ _. Inl []),
     gw_make_dir = (\<lambda>_. None), gw_open_stderr = (\<lambda>_. None), gw_stdout_pipe = (\<lambda>_. None), gw_stdin_pipe = (\<lambda>_. None),
     gw_start = (\<lambda>_ _ _ _ _. Inr (7, [])), gw_release = (\<lambda>_. Some []), gw_write = (\<lambda>_. None), gw_cancelled = (\<lambda>_. None),
     gw_decode = (\<lambda>_. Inl [])\<rparr>"

definition gateway_with :: "(unit, unit) server \<Rightarrow> (string, mcp_process) gomap \<Rightarrow> (unit, unit) mcp_server" where
  "gateway_with s ps = \<lparr>mg_core = s, mg_launched = ps, mg_started = [], mg_killed = [], mg_sent = []\<rparr>"

lemma sample_bound: "bound_request q sample_execution = Inr (sample_request, sample_body)"
proof -
  have "ValidateSafeIdentifier ''mcp gateway server id'' ''s'' = None" "ValidateSafeIdentifier ''mcp gateway tool name'' ''t'' = None"
    by code_simp+
  then have "ValidateMCPGatewayInvocationRequest q (invocation_of sample_execution) = Inr sample_request"
    by (simp add: ValidateMCPGatewayInvocationRequest_def invocation_of_def sample_execution_def sample_request_def
      maxMCPGatewayInvocationArgumentCount_def sort_strings_def sort_keys_def)
  moreover have "\<exists>b. mcpGatewayInvocationRequestBodySHA256 sample_request = Inr b"
    by (simp add: mcpGatewayInvocationRequestBodySHA256_def invocation_text_def marshal_arguments_def bindr_def sample_request_def)
  ultimately show ?thesis by (auto simp: bound_request_def sample_body_def)
qed

lemma sample_bound_to: "bound_to spent_claims sample_execution sample_request sample_body (mcp_sample StateGranted)"
  by (simp add: bound_to_def spent_claims_def sample_execution_def sample_request_def)

lemma sample_locked:
  assumes "mcpGatewayApprovalRequests s = [(''a1'', mcp_sample StateGranted)]" and "ticks s \<le> 900"
  shows "\<exists>s'. granted_approval_locked coarse_env spent_claims sample_execution sample_request sample_body s =
      (Inr (mcp_sample StateGranted), s') \<and> mcpGatewayApprovalRequests s' = mcpGatewayApprovalRequests s \<and>
      ticks s' = ticks s + 2 \<and> mu_held s' = mu_held s \<and> srv_audit s' = srv_audit s"
proof -
  have P: "mcpGatewayApprovalRequests (pruneExpiredLocked coarse_env s) = [(''a1'', mcp_sample StateGranted)]"
    "ticks (pruneExpiredLocked coarse_env s) = Suc (ticks s)" "mu_held (pruneExpiredLocked coarse_env s) = mu_held s"
    "srv_audit (pruneExpiredLocked coarse_env s) = srv_audit s"
    using prune_sample [OF assms(1)] assms(2) by simp_all
  have "execution_refusal ''a1'' spent_claims sample_execution sample_request sample_body (mcp_sample StateGranted) = None"
    using sample_bound_to by (simp add: execution_refusal_None)
  then show ?thesis using P assms sample_clock [of "Suc (ticks s)"]
    by (simp add: granted_approval_locked_def sample_execution_def server_now_def Let_def not_less)
qed

lemma sample_validated:
  "\<exists>s. validateMCPGatewayExecutionRequestWithApproval coarse_env q spent_claims sample_execution (mcp_server_with StateGranted) =
     Some (Inr (mcp_sample StateGranted, buildMCPGatewayExecutionValidationResponse (mcp_sample StateGranted)), s) \<and>
     mcpGatewayApprovalRequests s = [(''a1'', mcp_sample StateGranted)] \<and> ticks s = 2 \<and> \<not> mu_held s \<and> as_sequence (srv_audit s) = 0"
proof -
  let ?s = "(mcp_server_with StateGranted)\<lparr>mu_held := True\<rparr>"
  obtain s1 where "granted_approval_locked coarse_env spent_claims sample_execution sample_request sample_body ?s =
      (Inr (mcp_sample StateGranted), s1)" "mcpGatewayApprovalRequests s1 = [(''a1'', mcp_sample StateGranted)]" "ticks s1 = 2"
      "srv_audit s1 = srv_audit ?s"
    using sample_locked [of ?s] by auto
  then show ?thesis
    by (simp add: validateMCPGatewayExecutionRequestWithApproval_def sample_bound with_mu_def lock_mu_def unlock_mu_def)
qed

lemma sample_consumed:
  assumes "mcpGatewayApprovalRequests s = [(''a1'', mcp_sample StateGranted)]" and "ticks s \<le> 900" and "\<not> mu_held s"
  shows "\<exists>a s'. consumeGrantedMCPGatewayApprovalForExecution coarse_env q spent_claims sample_execution s = Some (Inr a, s') \<and>
     \<not> mu_held s' \<and> as_sequence (srv_audit s') = as_sequence (srv_audit s)"
proof -
  let ?s = "s\<lparr>mu_held := True\<rparr>"
  obtain s1 where g: "granted_approval_locked coarse_env spent_claims sample_execution sample_request sample_body ?s =
      (Inr (mcp_sample StateGranted), s1)" "srv_audit s1 = srv_audit s"
    using sample_locked [of ?s] assms by auto
  have "ValidateStateTransition StateGranted StateConsumed = None" by code_simp
  then show ?thesis using g assms(3)
    by (simp add: consumeGrantedMCPGatewayApprovalForExecution_def sample_bound with_mu_def lock_mu_def unlock_mu_def
      setMCPGatewayApprovalStateLocked_def server_now_def Let_def)
qed

lemma encodable_execution: "\<bar>pid\<bar> < 2 ^ 53 \<Longrightarrow> length (ma_ValidatedArgumentKeys a) = 0 \<Longrightarrow>
    encodable (buildMCPGatewayExecutionStartedAuditData claims a pid)"
  using is_ok_GInt [of 0] is_ok_GInt [of pid]
  by (simp add: buildMCPGatewayExecutionStartedAuditData_def execution_event_data_def)

lemma sample_resolved:
  assumes "mg_launched g = [(''s'', sample_process)]" and "\<not> mu_held (mg_core g)"
  shows "resolveMCPGatewayLaunchedServer (silent_env ms) ''s'' g =
    Some (Inr sample_process, g\<lparr>mg_core := (mg_core g)\<lparr>ticks := Suc (ticks (mg_core g))\<rparr>\<rparr>)"
  using assms by (simp add: resolveMCPGatewayLaunchedServer_def cleanupDeadMCPGatewayServerIfNeeded_def under_mu_def ask_def
    silent_env_def sample_process_def)


lemma length_nat_str: "length (nat_str n) \<le> Suc n"
proof (induction n rule: nat_str.induct)
  case (1 n)
  show ?case
  proof (cases "n < 10")
    case True
    then show ?thesis by (subst nat_str.simps) simp
  next
    case False
    then have "length (nat_str (n div 10)) \<le> Suc (n div 10)" using 1 by simp
    then show ?thesis using False by (subst nat_str.simps) simp
  qed
qed

lemma small_frame: "length body < 200 \<Longrightarrow> \<exists>frame. buildMCPGatewayJSONRPCFrame body = Inr frame"
  using length_nat_str [of "length body"]
  by (simp add: buildMCPGatewayJSONRPCFrame_def frame_header_def crlf_def mcpGatewayMaxMessageHeaderBytes_def
    mcpGatewayMaxMessageBodyBytes_def)

lemma sample_call: "\<exists>ps frame. call_params ''t'' (Some []) = Inr ps \<and> rpc_request ''id'' ''tools/call'' ps \<noteq> [] \<and>
    buildMCPGatewayJSONRPCFrame (rpc_request ''id'' ''tools/call'' ps) = Inr frame"
proof -
  have "case call_params ''t'' (Some []) of Inl _ \<Rightarrow> False
      | Inr ps \<Rightarrow> rpc_request ''id'' ''tools/call'' ps \<noteq> [] \<and> length (rpc_request ''id'' ''tools/call'' ps) < 200"
    by code_simp
  then show ?thesis using small_frame by (auto split: sum.splits)
qed

lemma silent_round_trip:
  assumes "lm_Pipes p = Some []"
  shows "\<exists>e q g'. performMCPGatewayJSONRPCRoundTrip coarse_env (silent_env ms) p ''tools/call'' (call_params ''t'' (Some [])) g =
     ((Inl e, q), g') \<and> mg_sent g' \<noteq> mg_sent g \<and> mu_held (mg_core g') = mu_held (mg_core g) \<and>
     srv_audit (mg_core g') = srv_audit (mg_core g) \<and> lm_PID q = lm_PID p"
proof -
  obtain ps frame where "call_params ''t'' (Some []) = Inr ps" "rpc_request ''id'' ''tools/call'' ps \<noteq> []"
    "buildMCPGatewayJSONRPCFrame (rpc_request ''id'' ''tools/call'' ps) = Inr frame"
    using sample_call by blast
  moreover have "await_response d (\<lambda>_. None) i k 0 [] = (Inl ''read mcp gateway frame header: EOF'', Suc k, [])" for d i k
    by (subst await_response.simps, simp add: readMCPGatewayJSONRPCFrame_def, subst read_headers.simps, simp)
  ultimately show ?thesis using assms
    by (simp add: performMCPGatewayJSONRPCRoundTrip_def writeMCPGatewayJSONRPCFrame_def ask_def silent_env_def coarse_env_def
      process_output_def store_process_def Let_def)
qed

lemma fail_execution_returns:
  assumes "\<not> mu_held (mg_core g)"
  shows "\<exists>r g'. fail_execution env claims a p b reason g = Some (r, g') \<and> \<not> mu_held (mg_core g')"
proof -
  obtain s1 where m: "markMCPGatewayApprovalExecutionFailed (ma_ID a) (ma_ApprovalManifestSHA256 a) (mg_core g) = Some ((), s1)"
    and s1: "\<not> mu_held s1"
    using assms by (simp add: markMCPGatewayApprovalExecutionFailed_def with_mu_def lock_mu_def unlock_mu_def)
  let ?g1 = "g\<lparr>mg_core := s1\<rparr>"
  obtain u g2 where d: "(if b then dropMCPGatewayLaunchedServer (ma_ServerID a) p ?g1 else Some ((), ?g1)) = Some (u, g2)"
    and g2: "mg_core g2 = s1"
  proof (cases b)
    case True
    obtain u g2 where "dropMCPGatewayLaunchedServer (ma_ServerID a) p ?g1 = Some (u, g2)"
      using s1 by (simp add: dropMCPGatewayLaunchedServer_def under_mu_def)
    then show ?thesis using True drop_server_fields(1) that by fastforce
  qed (use that in simp)
  let ?e = "buildMCPGatewayExecutionFailedAuditData claims a (lm_PID p) ''capability_execution_failed''"
  have "\<not> needs_tenancy ?e"
    by (simp add: needs_tenancy_def mhas_def buildMCPGatewayExecutionFailedAuditData_def
      buildMCPGatewayExecutionStartedAuditData_def execution_event_data_def)
  then obtain e s3 where l: "logEvent env ''mcp_gateway.execution_failed'' (ct_ControlSessionID claims) ?e s1 = Some (e, s3)"
    using tenant_event_returns by blast
  have "\<not> mu_held s3" using logEvent_mcp(2) [OF l] s1 by simp
  then show ?thesis using m d g2 l
    by (simp add: fail_execution_def in_core_def)
qed

definition sample_gateway :: "(unit, unit) mcp_server" where
  "sample_gateway = gateway_with (mcp_server_with StateGranted) [(''s'', sample_process)]"

lemma sample_executed:
  "\<exists>r g. executeMCPGatewayInvocation coarse_env (silent_env []) spent_claims sample_execution sample_gateway = Some (r, g) \<and>
     mg_sent g \<noteq> mg_sent sample_gateway \<and> \<not> mu_held (mg_core g)"
proof -
  let ?me = "silent_env []" and ?a = "mcp_sample StateGranted"
  let ?v = "buildMCPGatewayExecutionValidationResponse ?a"
  obtain s1 where v: "validateMCPGatewayExecutionRequestWithApproval coarse_env (gw_quote ?me) spent_claims sample_execution
       (mcp_server_with StateGranted) = Some (Inr (?a, ?v), s1)"
    and s1: "mcpGatewayApprovalRequests s1 = [(''a1'', ?a)]" "ticks s1 = 2" "\<not> mu_held s1" "as_sequence (srv_audit s1) = 0"
    using sample_validated by blast
  define g1 where "g1 = gateway_with s1 [(''s'', sample_process)]"
  define s2 where "s2 = s1\<lparr>ticks := 3\<rparr>"
  have r: "resolveMCPGatewayLaunchedServer ?me ''s'' g1 = Some (Inr sample_process, g1\<lparr>mg_core := s2\<rparr>)"
    using sample_resolved [of g1 "[]"] s1 by (simp add: g1_def gateway_with_def s2_def)
  have d: "encodable (buildMCPGatewayExecutionStartedAuditData spent_claims ?a 7)" by (rule encodable_execution) simp_all
  obtain s3 where l: "logEvent coarse_env ''mcp_gateway.execution_started'' ''cs''
      (buildMCPGatewayExecutionStartedAuditData spent_claims ?a 7) s2 = Some (None, s3)" and mu3: "\<not> mu_held s3"
    using encodable_logged [OF d, of s2] s1 by (auto simp: s2_def)
  have s3: "mcpGatewayApprovalRequests s3 = [(''a1'', ?a)]" "ticks s3 = 4"
    using logEvent_mcp(1) [OF l] logEvent_ticks [OF l] s1 by (simp_all add: s2_def)
  obtain a4 s4 where c: "consumeGrantedMCPGatewayApprovalForExecution coarse_env (gw_quote ?me) spent_claims sample_execution s3 =
      Some (Inr a4, s4)" and mu4: "\<not> mu_held s4"
    using sample_consumed [OF s3(1) _ mu3, of "gw_quote ?me"] s3(2) by auto
  define g5 where "g5 = g1\<lparr>mg_core := s4\<lparr>ticks := Suc (ticks s4)\<rparr>\<rparr>"
  obtain e q g6 where t: "performMCPGatewayJSONRPCRoundTrip coarse_env ?me sample_process ''tools/call'' (call_params ''t'' (Some [])) g5 =
      ((Inl e, q), g6)" and g6: "mg_sent g6 \<noteq> mg_sent g5" "mu_held (mg_core g6) = mu_held (mg_core g5)"
    using silent_round_trip [of sample_process] by (force simp: sample_process_def)
  have mu6: "\<not> mu_held (mg_core g6)" using g6(2) mu4 by (simp add: g5_def)
  obtain r g7 where f: "fail_execution coarse_env spent_claims a4 q True ''failed to execute MCP gateway tool call'' g6 = Some (r, g7)"
    and mu7: "\<not> mu_held (mg_core g7)"
    using fail_execution_returns [OF mu6] by blast
  have sent7: "mg_sent g7 = mg_sent g6"
  proof -
    obtain u1 h1 u2 h2 e2 where 1: "in_core (markMCPGatewayApprovalExecutionFailed (ma_ID a4) (ma_ApprovalManifestSHA256 a4)) g6 = Some (u1, h1)"
      and 2: "dropMCPGatewayLaunchedServer (ma_ServerID a4) q h1 = Some (u2, h2)"
      and 3: "in_core (logEvent coarse_env ''mcp_gateway.execution_failed'' (ct_ControlSessionID spent_claims)
         (buildMCPGatewayExecutionFailedAuditData spent_claims a4 (lm_PID q) ''capability_execution_failed'')) h2 = Some (e2, g7)"
      using f by (auto simp: fail_execution_def bind_eq_Some_conv)
    show ?thesis using 1 3 drop_server_fields(2) [OF 2] by (auto elim!: in_coreD)
  qed
  have sp: "lm_Initialized sample_process" "lm_PID sample_process = 7" "xv_ServerID ?v = ''s''" "xv_ToolName ?v = ''t''"
    "ct_ControlSessionID spent_claims = ''cs''" "me_Arguments sample_execution = Some []"
    by (simp_all add: sample_process_def buildMCPGatewayExecutionValidationResponse_def spent_claims_def sample_execution_def)
  have "dispatch_call coarse_env ?me spent_claims sample_execution ''t'' a4 sample_process g5 = Some (r, g7)"
    using t f sp by (simp add: dispatch_call_def initializeMCPGatewayLaunchedServer_def)
  moreover have "ask (gw_cancelled ?me) (g1\<lparr>mg_core := s4\<rparr>) = (None, g5)" by (simp add: ask_def g5_def silent_env_def)
  ultimately have "executeMCPGatewayInvocation coarse_env ?me spent_claims sample_execution sample_gateway = Some (r, g7)"
    using v r l c sp by (simp add: executeMCPGatewayInvocation_def in_core_def sample_gateway_def gateway_with_def g1_def)
  then show ?thesis using mu7 sent7 g6(1) by (simp add: g5_def g1_def gateway_with_def sample_gateway_def)
qed

theorem mcp_frames_need_approval_witness:
  "\<exists>r g. executeMCPGatewayInvocation coarse_env (silent_env []) spent_claims sample_execution sample_gateway = Some (r, g) \<and>
     mg_sent g \<noteq> mg_sent sample_gateway \<and> spent ''a1'' (mg_core g)"
proof -
  obtain r g where x: "executeMCPGatewayInvocation coarse_env (silent_env []) spent_claims sample_execution sample_gateway = Some (r, g)"
    "mg_sent g \<noteq> mg_sent sample_gateway" using sample_executed by blast
  have "mcp_wf (mcpGatewayApprovalRequests (mg_core sample_gateway))" by (simp add: sample_gateway_def gateway_with_def)
  from mcp_frames_need_approval [OF x(1) this x(2)] have "spent (trim_space (me_ApprovalRequestID sample_execution)) (mg_core g)" by blast
  then have "spent ''a1'' (mg_core g)" by (simp add: sample_execution_def)
  then show ?thesis using x by blast
qed

theorem mcp_executes_once_witness:
  "\<exists>r g r' g'. executeMCPGatewayInvocation coarse_env (silent_env []) spent_claims sample_execution sample_gateway = Some (r, g) \<and>
     executeMCPGatewayInvocation coarse_env (silent_env []) spent_claims sample_execution g = Some (r', g') \<and>
     mg_sent g' = mg_sent g \<and> (\<exists>d. r' = Inl d)"
proof -
  obtain r g where x: "executeMCPGatewayInvocation coarse_env (silent_env []) spent_claims sample_execution sample_gateway = Some (r, g)"
    "mg_sent g \<noteq> mg_sent sample_gateway" "\<not> mu_held (mg_core g)" using sample_executed by blast
  have wf: "mcp_wf (mcpGatewayApprovalRequests (mg_core sample_gateway))" by (simp add: sample_gateway_def gateway_with_def)
  have sp: "spent ''a1'' (mg_core g)" using execution_spends [OF x(1) wf x(2)] by (simp add: sample_execution_def)
  obtain res s where v: "validateMCPGatewayExecutionRequestWithApproval coarse_env id spent_claims sample_execution (mg_core g) = Some (res, s)"
  proof -
    obtain z s1 where "granted_approval_locked coarse_env spent_claims sample_execution sample_request sample_body
        ((mg_core g)\<lparr>mu_held := True\<rparr>) = (z, s1)" by fastforce
    then show ?thesis using x(3) that
      by (cases z) (auto simp: validateMCPGatewayExecutionRequestWithApproval_def sample_bound with_mu_def lock_mu_def)
  qed
  have "\<exists>d. res = Inl d"
  proof (cases res)
    case (Inr av)
    then obtain a w where "validateMCPGatewayExecutionRequestWithApproval coarse_env id spent_claims sample_execution (mg_core g) =
        Some (Inr (a, w), s)" using v by (cases av) auto
    then show ?thesis using mcp_validatedD sp by (fastforce simp: spent_def bound_to_def sample_execution_def)
  qed simp
  then obtain r' g' where y: "executeMCPGatewayInvocation coarse_env (silent_env []) spent_claims sample_execution g = Some (r', g')"
    using v by (auto simp: executeMCPGatewayInvocation_def in_core_def silent_env_def)
  from mcp_executes_once [OF x(1) wf x(2) y refl] x(1) y show ?thesis by blast
qed

end
