(* ===== verification/McpFrames.thy ===== *)
theory McpFrames
  imports McpProperties
begin

text \<open>
  The conversation with a child process: frames are read back as they were written, a round trip looks at a
  bounded number of them, and a launch that fails leaves no process behind.
\<close>

section \<open>Frames\<close>

lemma read_line_append: "CHR 0x0A \<notin> set l \<Longrightarrow> read_line (l @ CHR 0x0A # rest) = Some (l @ [CHR 0x0A], rest)"
  by (induction l) auto

lemma trim_line_end_crlf: "l \<noteq> [] \<Longrightarrow> last l \<notin> set crlf \<Longrightarrow> trim_line_end (l @ [CHR 0x0D, CHR 0x0A]) = l"
  by (cases l rule: rev_cases) (auto simp: trim_line_end_def crlf_def)

lemma digit_graphic: "is_digit c \<Longrightarrow> graphic c"
  by (auto simp: is_digit_def graphic_def Let_def)

lemma trim_nat_str: "trim_space (nat_str n) = nat_str n"
proof (rule trim_space_graphic)
  have "hd (nat_str n) \<in> set (nat_str n)" "last (nat_str n) \<in> set (nat_str n)" by simp_all
  then show "nat_str n = [] \<or> graphic (hd (nat_str n)) \<and> graphic (last (nat_str n))"
    using nat_str_digits digit_graphic by blast
qed

lemma trim_blank_nat_str: "trim_space (CHR '' '' # nat_str n) = nat_str n"
proof -
  have "strip_prefixes space_runes (CHR '' '' # nat_str n) = strip_prefixes space_runes (nat_str n)"
    by (subst strip_prefixes.simps) (simp add: space_runes_def find_prefix_def)
  then show ?thesis using trim_nat_str [of n] by (simp add: trim_space_def)
qed


lemma nat_str_no_newline: "CHR 0x0A \<notin> set (nat_str n)" "CHR 0x0D \<notin> set (nat_str n)" "CHR '':'' \<notin> set (nat_str n)"
  using nat_str_digits [of _ n] by (force simp: is_digit_def)+

lemma atoi_nat_str: "n < 2 ^ 63 \<Longrightarrow> atoi (nat_str n) = Some (int n)"
proof -
  assume n: "n < 2 ^ 63"
  obtain c r where cr: "nat_str n = c # r" by (cases "nat_str n") auto
  have d: "is_digit c" using nat_str_digits [of c n] cr by simp
  then have "\<not> has_prefix (nat_str n) ''-''" "\<not> has_prefix (nat_str n) ''+''"
    using cr by (auto simp: is_digit_def Let_def has_prefix_def)
  moreover have "list_all is_digit (nat_str n)" using nat_str_digits by (auto simp: list_all_iff)
  moreover have "int n < 2 ^ 63" using n by (metis of_nat_less_iff of_nat_numeral of_nat_power)
  ultimately show ?thesis by (simp add: atoi_def Let_def)
qed

definition length_line :: "nat \<Rightarrow> string" where
  "length_line n = ''Content-Length: '' @ nat_str n"

lemma frame_header_lines: "frame_header body = length_line (length body) @ [CHR 0x0D, CHR 0x0A] @ [CHR 0x0D, CHR 0x0A]"
  by (simp add: frame_header_def length_line_def crlf_def)

lemma header_line_length:
  assumes "n \<le> mcpGatewayMaxMessageBodyBytes"
  shows "header_line (length_line n) m = Inr (int n)"
proof -
  have "cut_colon (length_line n) = Some (''Content-Length'', CHR '' '' # nat_str n)"
    by (simp add: cut_colon_def length_line_def)
  moreover have "trim_space ''Content-Length'' = ''Content-Length''" by (rule trim_space_graphic) (simp add: graphic_def)
  moreover have "n < 2 ^ 63" using assms by (simp add: mcpGatewayMaxMessageBodyBytes_def)
  ultimately show ?thesis using assms
    by (simp add: header_line_def trim_blank_nat_str atoi_nat_str equal_fold_word_def)
qed

lemma read_frame_header:
  assumes "n \<le> mcpGatewayMaxMessageBodyBytes" and "length (length_line n) + 4 \<le> mcpGatewayMaxMessageHeaderBytes"
  shows "read_headers (length_line n @ [CHR 0x0D, CHR 0x0A] @ [CHR 0x0D, CHR 0x0A] @ rest) 0 (- 1) = Inr (int n, rest)"
proof -
  let ?l = "length_line n @ [CHR 0x0D]"
  have nl: "CHR 0x0A \<notin> set ?l" by (simp add: length_line_def nat_str_no_newline)
  have l1: "read_line (length_line n @ [CHR 0x0D, CHR 0x0A] @ [CHR 0x0D, CHR 0x0A] @ rest) =
      Some (length_line n @ [CHR 0x0D, CHR 0x0A], [CHR 0x0D, CHR 0x0A] @ rest)"
    using read_line_append [OF nl, of "[CHR 0x0D, CHR 0x0A] @ rest"] by simp
  have "last (nat_str n) \<in> set (nat_str n)" by simp
  then have "last (nat_str n) \<noteq> CHR 0x0A" "last (nat_str n) \<noteq> CHR 0x0D" using nat_str_no_newline [of n] by metis+
  then have t1: "trim_line_end (length_line n @ [CHR 0x0D, CHR 0x0A]) = length_line n"
    by (intro trim_line_end_crlf) (auto simp: length_line_def crlf_def)
  have ne: "length_line n \<noteq> []" by (simp add: length_line_def)
  have l2: "read_headers ([CHR 0x0D, CHR 0x0A] @ rest) k m = Inr (m, rest)" if "k + 2 \<le> mcpGatewayMaxMessageHeaderBytes" for k m
    using that by (subst read_headers.simps) (simp add: trim_line_end_def crlf_def Let_def)
  show ?thesis
    by (subst read_headers.simps)
       (use l1 t1 ne l2 assms header_line_length [OF assms(1)] in \<open>simp add: Let_def\<close>)
qed

text \<open>
  C12: what is written to a child is read back by the same code. A frame that could be built, followed by any
  bytes, is read as its body, and the bytes that follow are left in the stream.
\<close>

theorem mcp_frame_roundtrip:
  assumes "buildMCPGatewayJSONRPCFrame body = Inr frame"
  shows "readMCPGatewayJSONRPCFrame (frame @ rest) = Inr (body, rest)"
proof -
  have b: "length body \<le> mcpGatewayMaxMessageBodyBytes" and h: "length (frame_header body) \<le> mcpGatewayMaxMessageHeaderBytes"
    and f: "frame = frame_header body @ body"
    using assms by (auto simp: buildMCPGatewayJSONRPCFrame_def split: if_splits)
  have "read_headers (frame @ rest) 0 (- 1) = Inr (int (length body), body @ rest)"
    using read_frame_header [OF b, of "body @ rest"] h by (simp add: f frame_header_lines)
  then show ?thesis by (simp add: readMCPGatewayJSONRPCFrame_def)
qed

lemma await_bound:
  "await_response decode cancelled requestID k seen stream = (r, k', rest) \<Longrightarrow> seen \<le> mcpGatewayMaxNotificationFrames \<Longrightarrow>
     k' + seen \<le> k + mcpGatewayMaxNotificationFrames + 1"
proof (induction decode cancelled requestID k seen stream rule: await_response.induct)
  case (1 decode cancelled requestID k seen stream)
  show ?case
  proof (cases "k' = Suc k")
    case True
    then show ?thesis using "1.prems"(2) by simp
  next
    case False
    obtain body rest' en where p: "cancelled k = None" "readMCPGatewayJSONRPCFrame stream = Inr (body, rest')" "decode body = Inr en"
      using "1.prems"(1) False by (subst (asm) await_response.simps) (auto split: option.splits sum.splits)
    have q: "\<not> (en_JSONRPC en \<noteq> [] \<and> en_JSONRPC en \<noteq> ''2.0'')" "\<not> blank (en_Method en) \<and> en_ID en = []"
        "\<not> Suc seen > mcpGatewayMaxNotificationFrames"
        "await_response decode cancelled requestID (Suc k) (Suc seen) rest' = (r, k', rest)"
      using "1.prems"(1) False p by (subst (asm) await_response.simps, auto split: option.splits sum.splits if_splits)+
    have "k' + Suc seen \<le> Suc k + mcpGatewayMaxNotificationFrames + 1"
      using "1.IH" [OF p(1) p(2) refl p(3) q(1,2,3,4)] q(3) by simp
    then show ?thesis by simp
  qed
qed

text \<open>
  C13: a child cannot keep a request waiting with notifications. However long its output is, a round trip
  looks at no more than 65 frames: it returns after at most 65 reads, each a check of the context.
\<close>

theorem mcp_round_trip_bounded:
  assumes "await_response decode cancelled requestID k 0 stream = (r, k', rest)"
  shows "k' \<le> k + 65"
  using await_bound [OF assms] by (simp add: mcpGatewayMaxNotificationFrames_def)


text \<open>The frames of the witnesses: an empty object.\<close>

lemma sample_frame: "\<exists>frame. buildMCPGatewayJSONRPCFrame ''{}'' = Inr frame"
proof -
  have "length (nat_str (Suc (Suc 0))) \<le> 10" by (subst nat_str.simps) simp
  then have "length (frame_header ''{}'') \<le> mcpGatewayMaxMessageHeaderBytes"
    by (simp add: frame_header_def crlf_def mcpGatewayMaxMessageHeaderBytes_def)
  then show ?thesis by (simp add: buildMCPGatewayJSONRPCFrame_def mcpGatewayMaxMessageBodyBytes_def)
qed

theorem mcp_frame_roundtrip_witness:
  "\<exists>frame. buildMCPGatewayJSONRPCFrame ''{}'' = Inr frame \<and> readMCPGatewayJSONRPCFrame (frame @ ''x'') = Inr (''{}'', ''x'')"
  using sample_frame mcp_frame_roundtrip by metis

theorem mcp_round_trip_bounded_witness:
  "\<exists>r k rest. await_response (\<lambda>_. Inl ''x'') (\<lambda>_. None) ''id'' 0 0 [] = (r, k, rest) \<and> k \<le> 0 + 65"
proof -
  obtain r k rest where a: "await_response (\<lambda>_. Inl ''x'') (\<lambda>_. None) ''id'' 0 0 [] = (r, k, rest)" by (metis prod.exhaust)
  from mcp_round_trip_bounded [OF a] a show ?thesis by blast
qed

section \<open>Launches\<close>

text \<open>Every process started since \<open>g\<close> has been killed.\<close>

definition none_left :: "('f, 'w) mcp_server \<Rightarrow> ('f, 'w) mcp_server \<Rightarrow> bool" where
  "none_left g g' = (\<exists>new. mg_started g' = mg_started g @ new \<and> {pid \<in> set new. 0 < pid} \<subseteq> set (mg_killed g'))"

lemma none_left_same: "mg_started g' = mg_started g \<Longrightarrow> none_left g g'"
  by (simp add: none_left_def)

lemma ask_processes:
  assumes "ask f g = (v, g')" shows "mg_started g' = mg_started g" and "mg_killed g' = mg_killed g"
  using assms by (auto simp: ask_def)

lemma give_up_processes:
  assumes "give_up i attempt d g = Some (r, g')" shows "mg_started g' = mg_started g" and "mg_killed g' = mg_killed g"
  using under_muD(2) [OF assms [unfolded give_up_def]] by (auto split: option.splits if_splits)

lemma kill_processes [simp]: "mg_started (killMCPGatewayProcessByPID pid g) = mg_started g"
  "mg_killed (killMCPGatewayProcessByPID pid g) = mg_killed g @ (if 0 < pid then [pid] else [])"
  by (simp_all add: killMCPGatewayProcessByPID_def)

lemma hand_over_fails:
  assumes "hand_over env me claims attempt p g = Some (Inl d, g')"
  shows "mg_started g' = mg_started g" and "0 < lm_PID p \<Longrightarrow> lm_PID p \<in> set (mg_killed g')"
proof -
  obtain rel g1 where rel: "ask (gw_release me) g = (rel, g1)" by fastforce
  have goal: "mg_started g' = mg_started g \<and> (0 < lm_PID p \<longrightarrow> lm_PID p \<in> set (mg_killed g'))"
  proof (cases rel)
    case (Some e)
    then have "give_up (lm_ServerID p) attempt (launch_failed (lm_ServerID p) ''failed to detach MCP gateway process handle'')
        (killMCPGatewayProcessByPID (lm_PID p) g1) = Some (Inl d, g')"
      using assms rel by (simp add: hand_over_def Let_def)
    from give_up_processes [OF this] ask_processes [OF rel] show ?thesis by simp
  next
    case None
    obtain e g2 where lg: "in_core (logEvent env ''mcp_gateway.server_launched'' (ct_ControlSessionID claims)
         (buildMCPGatewayServerLaunchedAuditData claims p)) g1 = Some (e, g2)"
      using assms rel None by (auto simp: hand_over_def Let_def bind_eq_Some_conv)
    have g2: "mg_started g2 = mg_started g" using lg ask_processes [OF rel] by (auto elim!: in_coreD)
    show ?thesis
    proof (cases "e = None")
      case False
      then have "give_up (lm_ServerID p) attempt (redacted (auditUnavailableCapabilityResponse (lm_ServerID p)))
          (killMCPGatewayProcessByPID (lm_PID p) g2) = Some (Inl d, g')"
        using assms rel None lg by (simp add: hand_over_def Let_def)
      from give_up_processes [OF this] g2 show ?thesis by simp
    next
      case True
      then have "g' = killMCPGatewayProcessByPID (lm_PID p) g2"
        using assms rel None lg by (auto simp: hand_over_def Let_def under_mu_def split: if_splits option.splits)
      then show ?thesis using g2 by simp
    qed
  qed
  then show "mg_started g' = mg_started g" and "0 < lm_PID p \<Longrightarrow> lm_PID p \<in> set (mg_killed g')" by simp_all
qed

lemma start_server_fails:
  assumes "start_server env me claims sm attempt dir path launchEnv g = Some (Inl d, g')"
  shows "none_left g g'"
proof -
  obtain a g1 where 1: "ask (gw_make_dir me) g = (a, g1)" by fastforce
  obtain b g2 where 2: "ask (gw_open_stderr me) g1 = (b, g2)" by fastforce
  obtain c g3 where 3: "ask (gw_stdout_pipe me) g2 = (c, g3)" by fastforce
  obtain e g4 where 4: "ask (gw_stdin_pipe me) g3 = (e, g4)" by fastforce
  obtain st g5 where 5: "ask (\<lambda>n. gw_start me n path (path # sm_LaunchArgs sm) dir launchEnv) g4 = (st, g5)" by fastforce
  note same = ask_processes(1) [OF 1] ask_processes(1) [OF 2] ask_processes(1) [OF 3] ask_processes(1) [OF 4] ask_processes(1) [OF 5]
  show ?thesis
  proof (cases "a = None \<and> b = None \<and> c = None \<and> e = None \<and> (\<exists>p. st = Inr p)")
    case False
    then show ?thesis using assms 1 2 3 4 5 same
      by (auto simp: start_server_def Let_def intro!: none_left_same dest!: give_up_processes(1) split: option.splits sum.splits)
  next
    case True
    then obtain pid out where st: "st = Inr (pid, out)" by auto
    obtain t g6 where 6: "ask (clock env) (g5\<lparr>mg_started := mg_started g5 @ [pid]\<rparr>) = (t, g6)" by fastforce
    define p where "p = started_process sm attempt t (ticks (mg_core g6)) dir path
      (filepath_join [gw_repoRoot me, ''runtime'', ''logs'', ''mcp_gateway'', sm_ServerID sm @ ''.stderr.log'']) pid out"
    have "hand_over env me claims attempt p g6 = Some (Inl d, g')"
      using assms 1 2 3 4 5 6 True st by (simp add: start_server_def Let_def p_def)
    note H = hand_over_fails [OF this]
    have "lm_PID p = pid" by (simp add: p_def started_process_def)
    then show ?thesis using H ask_processes(1) [OF 6] same by (auto simp: none_left_def)
  qed
qed

lemma secret_entries_started: "secret_entries me m g = (r, g') \<Longrightarrow> mg_started g' = mg_started g"
proof (induction me m g arbitrary: r g' rule: secret_entries.induct)
  case (2 me name ref rest g)
  obtain v g1 where v: "ask (\<lambda>n. gw_secret me n ref) g = (v, g1)" by fastforce
  show ?case
  proof (cases v)
    case (Inl e)
    then show ?thesis using 2(2) v ask_processes(1) [OF v] by simp
  next
    case (Inr w)
    obtain r2 g2 where r2: "secret_entries me rest g1 = (r2, g2)" by fastforce
    have "mg_started g2 = mg_started g1" by (rule "2.IH" [OF v [symmetric] Inr r2])
    then show ?thesis using 2(2) v Inr r2 ask_processes(1) [OF v] by (cases r2) auto
  qed
qed simp

lemma launch_environment_started:
  assumes "buildMCPGatewayLaunchEnvironment me sm g = (r, g')" shows "mg_started g' = mg_started g"
proof -
  obtain vars g1 where v: "ask (\<lambda>n. concat (map (\<lambda>k. case gw_variable me n k of None \<Rightarrow> [] | Some v \<Rightarrow> [k @ ''='' @ v])
      (sm_AllowedEnvironment sm))) g = (vars, g1)" by fastforce
  obtain es g2 where s: "secret_entries me (sort_keys (sm_SecretEnvironment sm)) g1 = (es, g2)" by fastforce
  show ?thesis using assms v s secret_entries_started [OF s] ask_processes(1) [OF v]
    by (cases es) (auto simp: buildMCPGatewayLaunchEnvironment_def Let_def)
qed

lemma none_left_from: "none_left g1 g' \<Longrightarrow> mg_started g1 = mg_started g \<Longrightarrow> none_left g g'"
  by (simp add: none_left_def)

lemma prepare_launch_fails:
  assumes "prepare_launch env me claims sm attempt g = Some (Inl d, g')"
  shows "none_left g g'"
proof -
  let ?c = "trim_space (sm_LaunchCommand sm)"
  obtain cp g1 where c: "(if is_abs ?c then (Inr ?c, g) else ask (\<lambda>n. gw_look_path me n ?c) g) = (cp, g1)" by fastforce
  have 1: "mg_started g1 = mg_started g" using c ask_processes(1) by (auto split: if_splits)
  obtain le g2 where l: "buildMCPGatewayLaunchEnvironment me sm g1 = (le, g2)" by fastforce
  have 2: "mg_started g2 = mg_started g" using launch_environment_started [OF l] 1 by simp
  show ?thesis
  proof (cases cp)
    case (Inl e)
    then show ?thesis using assms c 1 by (auto simp: prepare_launch_def Let_def intro!: none_left_same dest!: give_up_processes(1))
  next
    case cp: (Inr path)
    show ?thesis
    proof (cases le)
      case (Inl e)
      then show ?thesis using assms c cp l 2
        by (auto simp: prepare_launch_def Let_def intro!: none_left_same dest!: give_up_processes(1))
    next
      case (Inr launchEnv)
      then show ?thesis using assms c cp l none_left_from [OF start_server_fails 2]
        by (auto simp: prepare_launch_def Let_def)
    qed
  qed
qed


lemma decide_launch_started:
  assumes "decide_launch env sm g = (dec, g')" shows "mg_started g' = mg_started g"
proof -
  obtain a g1 where a: "ask (\<lambda>n. random env n 12) g = (a, g1)" by fastforce
  obtain t g2 where t: "ask (clock env) g1 = (t, g2)" by fastforce
  show ?thesis using assms a t ask_processes(1) [OF a] ask_processes(1) [OF t]
    by (cases a) (auto simp: decide_launch_def Let_def split: option.splits if_splits)
qed

text \<open>
  C11: a launch that fails leaves no process. When the request to launch an MCP server is refused, every
  process with a positive id that was started on the way has been killed, whichever step failed: the handle,
  the audit event of the launch, or a launch record that is not this attempt's any more.
\<close>

theorem mcp_failed_launch_leaves_nothing:
  assumes "ensureMCPGatewayServerLaunched env me claims requested g = Some (Inl d, g')"
  shows "none_left g g'"
proof (cases "resolveMCPGatewayServerManifest (gw_manifests me) requested")
  case (Inl e)
  then show ?thesis using assms by (auto simp: ensureMCPGatewayServerLaunched_def intro!: none_left_same)
next
  case (Inr sm)
  show ?thesis
  proof (cases "sm_Transport sm = ''stdio''")
    case False
    then show ?thesis using assms Inr by (auto simp: ensureMCPGatewayServerLaunched_def Let_def intro!: none_left_same)
  next
    case True
    obtain u g1 dec g2 where c: "cleanupDeadMCPGatewayServerIfNeeded me (sm_ServerID sm) g = Some (u, g1)"
      and dl: "under_mu (decide_launch env sm) g1 = Some (dec, g2)"
      and rest: "(case dec of Reuse p \<Rightarrow> Some (Inr (buildMCPGatewayEnsureLaunchResponse p True), g2)
            | InProgress \<Rightarrow> Some (Inl (launch_failed (sm_ServerID sm) ''mcp gateway server launch is already in progress''), g2)
            | NoAttemptID \<Rightarrow> Some (Inl (launch_failed (sm_ServerID sm) ''failed to allocate mcp gateway launch attempt id''), g2)
            | Attempt attempt \<Rightarrow> prepare_launch env me claims sm attempt g2) = Some (Inl d, g')"
      using assms Inr True by (auto simp: ensureMCPGatewayServerLaunched_def Let_def bind_eq_Some_conv)
    have "mg_started g1 = mg_started g" using cleanup_cases [OF c] by auto
    moreover have "mg_started g2 = mg_started g1" using decide_launch_started [OF under_muD(2) [OF dl]] .
    ultimately have 2: "mg_started g2 = mg_started g" by simp
    show ?thesis
    proof (cases dec)
      case (Attempt attempt)
      then show ?thesis using rest none_left_from [OF prepare_launch_fails 2] by simp
    qed (use rest 2 in \<open>auto intro: none_left_same\<close>)
  qed
qed

text \<open>A launch whose process starts and cannot be detached.\<close>

definition sample_server_manifest :: mcp_server_manifest where
  "sample_server_manifest = \<lparr>sm_ServerID = ''s'', sm_Enabled = True, sm_RequiresApproval = True, sm_Transport = ''stdio'',
     sm_LaunchCommand = ''/x'', sm_LaunchArgs = [], sm_WorkingDirectory = [], sm_AllowedEnvironment = [],
     sm_SecretEnvironment = [], sm_ToolManifests = []\<rparr>"

lemma give_up_returns: "\<not> mu_held (mg_core g) \<Longrightarrow> \<exists>g'. give_up i attempt d g = Some (Inl d, g')"
  by (simp add: give_up_def under_mu_def)

lemma undetached_hand_over:
  assumes "\<not> mu_held (mg_core h)"
  shows "\<exists>d g'. hand_over env (silent_env ms) claims attempt p h = Some (Inl d, g') \<and> mg_started g' = mg_started h"
proof -
  define h1 where "h1 = killMCPGatewayProcessByPID (lm_PID p) (h\<lparr>mg_core := (mg_core h)\<lparr>ticks := Suc (ticks (mg_core h))\<rparr>\<rparr>)"
  have mu: "\<not> mu_held (mg_core h1)" using assms by (simp add: h1_def killMCPGatewayProcessByPID_def)
  define d where "d = launch_failed (lm_ServerID p) ''failed to detach MCP gateway process handle''"
  obtain g' where g': "give_up (lm_ServerID p) attempt d h1 = Some (Inl d, g')" using give_up_returns [OF mu] by metis
  moreover have "hand_over env (silent_env ms) claims attempt p h = give_up (lm_ServerID p) attempt d h1"
    by (simp add: hand_over_def ask_def silent_env_def d_def h1_def Let_def)
  ultimately show ?thesis using give_up_processes(1) [OF g'] by (simp add: h1_def)
qed

lemma undetached_start:
  assumes "\<not> mu_held (mg_core g)"
  shows "\<exists>d g'. start_server env (silent_env ms) claims sm attempt dir path launchEnv g = Some (Inl d, g') \<and>
    mg_started g' = mg_started g @ [7]"
proof -
  have m: "gw_make_dir (silent_env ms) n = None" "gw_open_stderr (silent_env ms) n = None" "gw_stdout_pipe (silent_env ms) n = None"
    "gw_stdin_pipe (silent_env ms) n = None" "gw_start (silent_env ms) n a b c z = Inr (7, [])"
    for n a b c z by (simp_all add: silent_env_def)
  obtain p h where h: "start_server env (silent_env ms) claims sm attempt dir path launchEnv g = hand_over env (silent_env ms) claims attempt p h"
    and "\<not> mu_held (mg_core h)" and "mg_started h = mg_started g @ [7]"
    using assms by (simp add: start_server_def ask_def m Let_def)
  then show ?thesis using undetached_hand_over [of h] by metis
qed

lemma sample_launch:
  "\<exists>d g. ensureMCPGatewayServerLaunched coarse_env (silent_env [(''s'', sample_server_manifest)]) spent_claims ''s''
     (gateway_with (server_with [] []) []) = Some (Inl d, g) \<and> mg_started g = [7]"
proof -
  let ?me = "silent_env [(''s'', sample_server_manifest)]" and ?g = "gateway_with (server_with [] []) []"
  have v: "ValidateSafeIdentifier ''mcp gateway server id'' ''s'' = None" "trim_space ''/x'' = ''/x''" "is_abs ''/x''" by code_simp+
  have sm: "sm_ServerID sample_server_manifest = ''s''" "sm_Enabled sample_server_manifest" "sm_Transport sample_server_manifest = ''stdio''"
    "sm_LaunchCommand sample_server_manifest = ''/x''" "sm_SecretEnvironment sample_server_manifest = []"
    by (simp_all add: sample_server_manifest_def)
  have r: "resolveMCPGatewayServerManifest (gw_manifests ?me) ''s'' = Inr sample_server_manifest"
    using v sm by (simp add: resolveMCPGatewayServerManifest_def silent_env_def)
  have c: "cleanupDeadMCPGatewayServerIfNeeded ?me ''s'' ?g = Some ((), ?g)"
    by (simp add: cleanupDeadMCPGatewayServerIfNeeded_def under_mu_def gateway_with_def server_with_def)
  obtain g2 where d: "under_mu (decide_launch coarse_env sample_server_manifest) ?g = Some (Attempt ''id'', g2)"
    and g2: "\<not> mu_held (mg_core g2)" "mg_started g2 = []"
    by (simp add: under_mu_def decide_launch_def sm gateway_with_def server_with_def ask_def coarse_env_def Let_def)
  define g3 where "g3 = g2\<lparr>mg_core := (mg_core g2)\<lparr>ticks := Suc (ticks (mg_core g2))\<rparr>\<rparr>"
  obtain vars where l: "buildMCPGatewayLaunchEnvironment ?me sample_server_manifest g2 = (Inr vars, g3)"
    by (simp add: buildMCPGatewayLaunchEnvironment_def sm sort_keys_def ask_def g3_def)
  have "prepare_launch coarse_env ?me spent_claims sample_server_manifest ''id'' g2 =
      start_server coarse_env ?me spent_claims sample_server_manifest ''id''
        (resolveMCPGatewayWorkingDirectory (gw_repoRoot ?me) (sm_WorkingDirectory sample_server_manifest)) ''/x'' vars g3"
    using l by (simp add: prepare_launch_def sm v Let_def)
  moreover obtain e g4 where "start_server coarse_env ?me spent_claims sample_server_manifest ''id''
        (resolveMCPGatewayWorkingDirectory (gw_repoRoot ?me) (sm_WorkingDirectory sample_server_manifest)) ''/x'' vars g3 =
      Some (Inl e, g4)" "mg_started g4 = [7]"
    using undetached_start [of g3 coarse_env] g2 by (fastforce simp: g3_def)
  ultimately show ?thesis using r c d by (simp add: ensureMCPGatewayServerLaunched_def sm)
qed

theorem mcp_failed_launch_leaves_nothing_witness:
  "\<exists>d g. ensureMCPGatewayServerLaunched coarse_env (silent_env [(''s'', sample_server_manifest)]) spent_claims ''s''
     (gateway_with (server_with [] []) []) = Some (Inl d, g) \<and> mg_started g = [7] \<and> 7 \<in> set (mg_killed g)"
proof -
  obtain d g where l: "ensureMCPGatewayServerLaunched coarse_env (silent_env [(''s'', sample_server_manifest)]) spent_claims ''s''
     (gateway_with (server_with [] []) []) = Some (Inl d, g)" "mg_started g = [7]" using sample_launch by blast
  from mcp_failed_launch_leaves_nothing [OF l(1)] l show ?thesis by (auto simp: none_left_def gateway_with_def)
qed

section \<open>What is approved and what is sent\<close>

definition spelled :: "string \<Rightarrow> mcp_execution" where
  "spelled name = \<lparr>me_ApprovalRequestID = ''a1'', me_ManifestSHA256 = ''m'', me_ServerID = ''s'', me_ToolName = ''t'',
     me_Arguments = Some [(name, ''1'')]\<rparr>"


end
