(* ===== verification/Spec2Isabelle.thy ===== *)
theory Spec2Isabelle
  imports HookApprovals McpFrames
begin

text \<open>
  Loopgate is a local governance server for AI agents: a client opens a control session, asks for
  the execution of a capability, the policy decides whether it runs, needs an operator's approval or
  is denied, and every decision is appended to a hash-chained audit ledger.

  Parts and theories (paths under src/internal):

  \<^item> GoPrelude, GoValue, GoJson, GoCrypto, GoTime, GoPaths: the parts of Go's language and standard
    library the code uses (maps as association lists, strings, JSON encoding with its escapes and
    its replacement of bytes that are not UTF-8, SHA-256 and HMAC, RFC 3339 times, lexical paths).
  \<^item> Identifiers (identifiers/identifiers.go), Protocol (protocol/capability.go): validation of
    names and the request envelope.
  \<^item> PolicyConfig (config/policy.go, config/policy_operator_overrides.go), PolicyCheck
    (policy/checker.go): the policy document with its defaults, and the decision of an operation.
  \<^item> SafePath (safety/safepath.go): the path boundary, over what the file system answers.
  \<^item> ApprovalModel (approvalruntime): approval states, manifests and the decision contract.
  \<^item> Replay (controlruntime/rate_limit.go, replay_decisions.go), SessionMac
    (controlruntime/session_mac.go): rate limits, single-use tables and the rotation of MAC keys.
  \<^item> LedgerValues, Ledger (ledger/ledger.go, audit/ledger.go): canonical events, the hash chain, its
    check and the append with its cache. Manifest, Segments, RotatedLedger (ledger/segmented.go):
    sealed segments, their manifest and the append that rotates. Checkpoint
    (ledger/hmac_checkpoint.go, ledger/inspection.go): keyed checkpoints in the ledger.
  \<^item> AuditRuntime (auditruntime/runtime.go, anchor.go): Record and Load, the checkpoints they append
    and the signed anchor. ServerAudit (loopgate/server_audit_runtime.go): the runtime as the server
    configures it, histories of recordings and restarts.
  \<^item> NonceStore (controlruntime/nonce_replay.go): the stores that keep nonces over a restart. Redact
    (secrets/redact.go) over GoText: what is removed from texts and fields before they are audited.
  \<^item> ServerState (loopgate/server_state.go, controlapi/core.go), ControlPlane (control_plane_state.go,
    server_rate_limit.go): the tables under the server's lock, the sweep, replay tables, rate limits.
    RequestAuth (request_auth.go, session_mac_rotation.go): tokens and signed requests. Capabilities
    (internal/tools, capability_execution_runtime.go, operator_mount.go): tools, their arguments,
    execution tokens and mount grants. Results (capability_result_runtime.go, quarantine.go):
    classified results and quarantined payloads.
  \<^item> ApprovalFlow (approval_flow.go, pending_approval_integrity.go), CapabilityExecution
    (server_capability_execution.go), ApprovalHandlers (server_capability_handlers.go,
    server_approval_admin_handlers.go), Sessions (server_session_handlers.go,
    control_session_recovery.go): the life of a capability request from its signed HTTP request over
    policy, approval and execution to the audited response, and the sessions it runs in.
  \<^item> PlaneSpec is the abstract event system of the control plane (what may happen to replay tables and
    approval states), ControlRefinement proves that every handler implements it, ControlProperties
    draws the consequences for any sequence of served requests. CapabilityTrace follows the trace of
    audit events and tool runs through the execution of a capability.
  \<^item> GoRel is Go's filepath.Rel and quoting. HookPolicy (claude_code_hook_policy.go, _surface.go,
    _decision_metadata.go, _explain.go, claude_code_operator_overrides.go,
    config/operator_override_documents.go) decides the tool calls of Claude Code, HookState
    (claude_hook_session_state.go, claude_hook_approvals.go) keeps its sessions and approvals, HookHandler
    (server_hook_handlers.go, hook_audit_projection.go) is the endpoint; HookProperties and HookApprovals
    state what passes and what is recorded.
  \<^item> GoJsonScan is encoding/json's scanner (json.Valid, json.Compact). The MCP gateway: McpPolicy
    (mcp_gateway_policy.go, controlapi/mcp_gateway.go) has the manifests and the checks of an invocation,
    McpApproval (mcp_gateway_approval.go) its approvals, McpRpc the frames and the wait for a response,
    McpRuntime (mcp_gateway_runtime.go) the child processes, McpExecute (mcp_gateway_execution.go) the calls,
    McpHandlers (server_mcp_gateway_handlers.go) the routes. McpTable shows what every operation keeps of the
    table of approvals and what a decision takes, McpProperties that a call was approved and uses its approval
    up, McpFrames the round trip of frames, their bound, and that failed launches leave nothing. The state
    \<open>mcp_server\<close> is the server with the table of launched processes; it also records the processes started
    and killed and each frame written together with the trace of the server at that moment. Pointers to a
    launched process are handles; the rest of a child's output is part of the process.

  Interfaces: the locale \<open>append_log\<close> (Ledger) states what a ledger promises to the code that appends
  to it; the flat ledger interprets it as \<open>flat\<close> and the segmented one as \<open>rot\<close>, and the history
  theorems of ServerAudit rest on it. The locale \<open>replay_table\<close> (Replay) is the contract of a
  single-use table, \<open>nonce_store\<close> (NonceStore) that of a store of nonces, interpreted by both stores,
  and \<open>timed_table\<close> (PlaneSpec) that of a table whose entries expire, interpreted for request ids,
  nonces and used tokens.

  The server. A handler is a function from the server to an optional reply and server; None means that
  its goroutine blocks for ever, which in Go is what locking the mutex mu twice does. The server counts
  its interactions with the outside (clock, random source, audit log, file systems) in \<open>ticks\<close>, and its
  environment answers the n-th interaction, so theorems hold for every behaviour of the outside. Where
  Go ranges over a map whose order matters (the session replaced by an open with the same label), the
  model takes the order of the table. A handler runs as one step; the handlers' critical sections are
  those of with_mu, and the replay theorems speak about the tables those sections protect.

  Conventions. Code outside the repository appears by its answers: a file system operation is an
  argument that says what it returned, a clock reading is an argument, a secret store's answer is a
  value or an error. SHA-256 is computed, so digests evaluate; statements that need more than
  determinism of it name an injectivity hypothesis over the texts concerned. Errors are values of a
  sum or option type with the source's branches. int stands for Go's int64 where the code checks the
  range itself (canonical JSON refuses numbers beyond 2^53 - 1); wrap-around is written out elsewhere.
  No definition needs fuel: loops are structural or have a measure, and the redaction patterns are run
  by a matcher that recurses over the expression and the text.

  Not modelled: the command line programs (cmd), host access and its plans, configured
  integrations, the sandbox, promotion, site trust, the UI and its events, audit export, reading
  and pruning of quarantined payloads; decoding of JSON requests is a parameter of the handlers.
\<close>

end
